(* ===== verification/Prelude.thy ===== *)
theory Prelude
  imports Main "HOL-Library.Word" "HOL-Library.Multiset"
begin

text \<open>
  Shared vocabulary of the development: the machine types of the Rust code, its \<open>Ordering\<close>
  type with the contract of the \<open>Ord\<close> trait as a locale, the part of
  \<open>std::collections::BinaryHeap\<close> the code uses, decimal printing of integers
  (\<open>to_string\<close>) with its injectivity, and association-list maps for \<open>HashMap\<close> values
  whose iteration the code observes.  Every other theory imports this one.
\<close>

section \<open>Types of the Rust code\<close>

type_synonym u8 = "8 word"
type_synonym u16 = "16 word"
type_synonym u32 = "32 word"
type_synonym u64 = "64 word"
type_synonym bytes = "u8 list"

text \<open>
  \<open>Result<T, E>\<close> is the sum type \<open>E + T\<close>: \<open>Inl\<close> is \<open>Err\<close>, \<open>Inr\<close> is \<open>Ok\<close>.
\<close>

abbreviation Ok :: "'a \<Rightarrow> 'e + 'a" where "Ok \<equiv> Inr"
abbreviation Err :: "'e \<Rightarrow> 'e + 'a" where "Err \<equiv> Inl"

definition is_ok :: "'e + 'a \<Rightarrow> bool" where
  "is_ok r = (case r of Inl _ \<Rightarrow> False | Inr _ \<Rightarrow> True)"

lemma is_ok_simps [simp]: "is_ok (Inr x)" "\<not> is_ok (Inl e)"
  by (simp_all add: is_ok_def)

lemma is_ok_Inr: "is_ok r \<Longrightarrow> \<exists>x. r = Inr x"
  by (cases r) simp_all

text \<open>The \<open>?\<close> operator: continue with the value, or return the error.\<close>

definition try_bind :: "'e + 'a \<Rightarrow> ('a \<Rightarrow> 'e + 'b) \<Rightarrow> 'e + 'b" where
  "try_bind r f = (case r of Inl e \<Rightarrow> Inl e | Inr x \<Rightarrow> f x)"

lemma try_bind_simps [simp]: "try_bind (Inr x) f = f x" "try_bind (Inl e) f = Inl e"
  by (simp_all add: try_bind_def)

lemma try_bind_Inr_iff:
  "try_bind r f = Inr y \<longleftrightarrow> (\<exists>x. r = Inr x \<and> f x = Inr y)"
  by (cases r) auto

section \<open>The \<open>Ord\<close> trait\<close>

datatype ordering = Less | Equal | Greater

definition ord_reverse :: "ordering \<Rightarrow> ordering" where
  "ord_reverse o1 = (case o1 of Less \<Rightarrow> Greater | Equal \<Rightarrow> Equal | Greater \<Rightarrow> Less)"

lemma ord_reverse_simps [simp]:
  "ord_reverse Less = Greater" "ord_reverse Equal = Equal" "ord_reverse Greater = Less"
  by (simp_all add: ord_reverse_def)

lemma ord_reverse_eq_iff [simp]:
  "ord_reverse c = Less \<longleftrightarrow> c = Greater" "ord_reverse c = Equal \<longleftrightarrow> c = Equal"
  "ord_reverse c = Greater \<longleftrightarrow> c = Less"
  by (cases c; simp)+

text \<open>\<open>Ord::cmp\<close> on machine integers and on \<open>Option\<close>, where \<open>None\<close> is the least.\<close>

definition int_cmp :: "'a::linorder \<Rightarrow> 'a \<Rightarrow> ordering" where
  "int_cmp a b = (if a < b then Less else if a = b then Equal else Greater)"

lemma int_cmp_iff [simp]:
  "int_cmp a b = Less \<longleftrightarrow> a < b" "int_cmp a b = Equal \<longleftrightarrow> a = b"
  "int_cmp a b = Greater \<longleftrightarrow> b < a"
  by (auto simp: int_cmp_def)

fun opt_cmp :: "'a::linorder option \<Rightarrow> 'a option \<Rightarrow> ordering" where
  "opt_cmp None None = Equal"
| "opt_cmp None (Some _) = Less"
| "opt_cmp (Some _) None = Greater"
| "opt_cmp (Some a) (Some b) = int_cmp a b"

text \<open>
  The contract of \<open>Ord\<close> that the code's collections rely on: comparison is reflexive,
  swapping the arguments reverses the answer, and \<open>\<le>\<close> is transitive.
\<close>

locale rust_ord =
  fixes cmp :: "'a \<Rightarrow> 'a \<Rightarrow> ordering"
  assumes ord_refl: "cmp a a = Equal"
    and ord_swap: "cmp b a = ord_reverse (cmp a b)"
    and ord_trans: "cmp a b \<noteq> Greater \<Longrightarrow> cmp b c \<noteq> Greater \<Longrightarrow> cmp a c \<noteq> Greater"
begin

lemma ord_total: "cmp a b \<noteq> Greater \<or> cmp b a \<noteq> Greater"
  using ord_swap [of b a] by (cases "cmp a b") auto

lemma ord_Greater_swap: "cmp a b = Greater \<longleftrightarrow> cmp b a = Less"
  using ord_swap [of b a] by (cases "cmp a b") auto

lemma ord_less_trans:
  assumes "cmp a b = Less" and "cmp b c \<noteq> Greater"
  shows "cmp a c = Less"
proof -
  have ba: "cmp b a = Greater" using assms(1) ord_swap [of b a] by simp
  have le: "cmp a c \<noteq> Greater" using assms ord_trans [of a b c] by simp
  have "cmp a c \<noteq> Equal"
  proof
    assume "cmp a c = Equal"
    then have "cmp c a \<noteq> Greater" using ord_swap [of c a] by simp
    with assms(2) have "cmp b a \<noteq> Greater" by (rule ord_trans)
    with ba show False by simp
  qed
  with le show ?thesis by (cases "cmp a c") auto
qed

end

section \<open>\<open>std::collections::BinaryHeap\<close>\<close>

text \<open>
  A max-heap with respect to \<open>Ord::cmp\<close>.  The state is the list of its items in the order
  they were pushed; \<open>pop\<close> takes out a greatest item (of several equal ones, the one pushed
  first: the library leaves that choice open, and no lemma below depends on it beyond the
  contract \<open>bheap_pop_Some\<close>).
\<close>

fun bheap_pop :: "('a \<Rightarrow> 'a \<Rightarrow> ordering) \<Rightarrow> 'a list \<Rightarrow> ('a \<times> 'a list) option" where
  "bheap_pop cmp [] = None"
| "bheap_pop cmp (x # xs) =
     (case bheap_pop cmp xs of
        None \<Rightarrow> Some (x, xs)
      | Some (y, ys) \<Rightarrow> if cmp y x = Greater then Some (y, x # ys) else Some (x, xs))"

definition bheap_peek :: "('a \<Rightarrow> 'a \<Rightarrow> ordering) \<Rightarrow> 'a list \<Rightarrow> 'a option" where
  "bheap_peek cmp h = map_option fst (bheap_pop cmp h)"

definition bheap_push :: "'a list \<Rightarrow> 'a \<Rightarrow> 'a list" where
  "bheap_push h x = h @ [x]"

definition bheap_extend :: "'a list \<Rightarrow> 'a list \<Rightarrow> 'a list" where
  "bheap_extend h xs = h @ xs"

lemma bheap_pop_None [simp]: "bheap_pop cmp h = None \<longleftrightarrow> h = []"
  by (cases h) (auto split: option.splits prod.splits if_splits)

lemma bheap_pop_mset: "bheap_pop cmp h = Some (x, h') \<Longrightarrow> mset h = add_mset x (mset h')"
  by (induction h arbitrary: x h')
     (auto split: option.splits prod.splits if_splits)

lemma bheap_pop_length: "bheap_pop cmp h = Some (x, h') \<Longrightarrow> length h = Suc (length h')"
  by (metis bheap_pop_mset size_add_mset size_mset)

lemma bheap_pop_set: "bheap_pop cmp h = Some (x, h') \<Longrightarrow> set h = insert x (set h')"
  by (metis bheap_pop_mset set_mset_mset set_mset_add_mset_insert)

lemma bheap_push_mset [simp]: "mset (bheap_push h x) = add_mset x (mset h)"
  by (simp add: bheap_push_def)

lemma bheap_extend_mset [simp]: "mset (bheap_extend h xs) = mset h + mset xs"
  by (simp add: bheap_extend_def)

lemma bheap_push_set [simp]: "set (bheap_push h x) = insert x (set h)"
  by (simp add: bheap_push_def)

lemma bheap_extend_set [simp]: "set (bheap_extend h xs) = set h \<union> set xs"
  by (simp add: bheap_extend_def)

context rust_ord
begin

lemma bheap_pop_max: "bheap_pop cmp h = Some (x, h') \<Longrightarrow> y \<in> set h \<Longrightarrow> cmp y x \<noteq> Greater"
proof (induction h arbitrary: x h' y)
  case Nil
  then show ?case by simp
next
  case (Cons z zs)
  show ?case
  proof (cases "bheap_pop cmp zs")
    case None
    with Cons.prems show ?thesis by (auto simp: ord_refl)
  next
    case (Some p)
    obtain w ws where p: "p = (w, ws)" by (cases p)
    with Some have popped: "bheap_pop cmp zs = Some (w, ws)" by simp
    show ?thesis
    proof (cases "cmp w z = Greater")
      case True
      with Cons.prems(1) popped have "x = w" by simp
      moreover have "cmp z w \<noteq> Greater" using True by (simp add: ord_Greater_swap)
      ultimately show ?thesis using Cons.IH [OF popped] Cons.prems(2) by auto
    next
      case False
      with Cons.prems(1) popped have xz: "x = z" by simp
      have "cmp y z \<noteq> Greater" if "y \<in> set zs"
        using ord_trans [OF Cons.IH [OF popped that] False] .
      with Cons.prems(2) xz show ?thesis by (auto simp: ord_refl)
    qed
  qed
qed

lemma bheap_pop_Some:
  assumes "bheap_pop cmp h = Some (x, h')"
  shows "mset h = add_mset x (mset h') \<and> (\<forall>y \<in> set h. cmp y x \<noteq> Greater)"
  by (simp add: bheap_pop_mset [OF assms] bheap_pop_max [OF assms] bheap_pop_set [OF assms])

end

section \<open>Decimal printing\<close>

fun nat_digits :: "nat \<Rightarrow> string" where
  "nat_digits n = (if n < 10 then [char_of (48 + n)] else nat_digits (n div 10) @ [char_of (48 + n mod 10)])"

declare nat_digits.simps [simp del]

definition int_to_string :: "int \<Rightarrow> string" where
  "int_to_string i = (if i < 0 then CHR ''-'' # nat_digits (nat (- i)) else nat_digits (nat i))"

definition u64_to_string :: "u64 \<Rightarrow> string" where
  "u64_to_string w = nat_digits (unat w)"

definition digit_val :: "char \<Rightarrow> nat" where
  "digit_val c = of_char c - 48"

fun parse_digits :: "nat \<Rightarrow> string \<Rightarrow> nat" where
  "parse_digits acc [] = acc"
| "parse_digits acc (c # cs) = parse_digits (10 * acc + digit_val c) cs"

lemma parse_digits_append: "parse_digits acc (xs @ ys) = parse_digits (parse_digits acc xs) ys"
  by (induction xs arbitrary: acc) auto

lemma digit_val_char [simp]: "d < 10 \<Longrightarrow> digit_val (char_of (48 + d)) = d"
  by (simp add: digit_val_def of_char_of)

lemma parse_nat_digits: "parse_digits 0 (nat_digits n) = n"
proof (induction n rule: nat_digits.induct)
  case (1 n)
  show ?case
  proof (cases "n < 10")
    case True
    then show ?thesis by (subst nat_digits.simps) simp
  next
    case False
    with 1 show ?thesis by (subst nat_digits.simps) (simp add: parse_digits_append)
  qed
qed

lemma nat_digits_inj [simp]: "nat_digits m = nat_digits n \<longleftrightarrow> m = n"
  by (metis parse_nat_digits)

lemma digit_char_range: "d < 10 \<Longrightarrow> (of_char (char_of (48 + d)) :: nat) = 48 + d"
  by (simp add: of_char_of)

lemma nat_digits_chars: "c \<in> set (nat_digits n) \<Longrightarrow> 48 \<le> (of_char c :: nat) \<and> (of_char c :: nat) \<le> 57"
proof (induction n rule: nat_digits.induct)
  case (1 n)
  show ?case
  proof (cases "n < 10")
    case True
    then have "nat_digits n = [char_of (48 + n)]" by (subst nat_digits.simps) simp
    with 1(2) have c: "c = char_of (48 + n)" by simp
    show ?thesis unfolding c digit_char_range [OF True] using True by simp
  next
    case False
    then have "nat_digits n = nat_digits (n div 10) @ [char_of (48 + n mod 10)]"
      by (subst nat_digits.simps) simp
    with 1(2) have "c \<in> set (nat_digits (n div 10)) \<or> c = char_of (48 + n mod 10)" by auto
    moreover have "48 \<le> (of_char c :: nat) \<and> (of_char c :: nat) \<le> 57"
      if "c \<in> set (nat_digits (n div 10))"
      using 1(1) [OF False that] .
    moreover have "48 \<le> (of_char c :: nat) \<and> (of_char c :: nat) \<le> 57"
      if c: "c = char_of (48 + n mod 10)"
    proof -
      have d: "n mod 10 < 10" by simp
      show ?thesis unfolding c digit_char_range [OF d] using d by simp
    qed
    ultimately show ?thesis by blast
  qed
qed

lemma nat_digits_not_minus: "nat_digits n \<noteq> CHR ''-'' # s"
proof
  assume eq: "nat_digits n = CHR ''-'' # s"
  then have "CHR ''-'' \<in> set (nat_digits n)" by simp
  from nat_digits_chars [OF this] show False by simp
qed

lemma int_to_string_inj [simp]: "int_to_string i = int_to_string j \<longleftrightarrow> i = j"
  using nat_digits_not_minus nat_digits_not_minus [symmetric]
  by (auto simp: int_to_string_def)

lemma int_to_string_chars:
  "c \<in> set (int_to_string i) \<Longrightarrow> c = CHR ''-'' \<or> (48 \<le> (of_char c :: nat) \<and> (of_char c :: nat) \<le> 57)"
  by (auto simp: int_to_string_def split: if_splits dest: nat_digits_chars)

section \<open>\<open>HashMap\<close> values as association lists\<close>

text \<open>
  A \<open>HashMap<K, Vec<V>>\<close> built with \<open>entry(k).or_insert(vec![]).push(v)\<close>.  The list gives
  one order of iteration; the code's own order is unspecified.
\<close>

fun entry_push :: "('k \<times> 'v list) list \<Rightarrow> 'k \<Rightarrow> 'v \<Rightarrow> ('k \<times> 'v list) list" where
  "entry_push [] k v = [(k, [v])]"
| "entry_push ((k', vs) # m) k v =
     (if k' = k then (k', vs @ [v]) # m else (k', vs) # entry_push m k v)"

text \<open>\<open>HashMap::insert\<close> / collecting pairs into a map: a later value replaces an earlier one.\<close>

fun map_insert :: "('k \<times> 'v) list \<Rightarrow> 'k \<Rightarrow> 'v \<Rightarrow> ('k \<times> 'v) list" where
  "map_insert [] k v = [(k, v)]"
| "map_insert ((k', w) # m) k v = (if k' = k then (k, v) # m else (k', w) # map_insert m k v)"

definition map_values :: "('k \<times> 'v list) list \<Rightarrow> 'v multiset" where
  "map_values m = sum_list (map (\<lambda>(_, vs). mset vs) m)"

lemma map_values_simps [simp]:
  "map_values [] = {#}" "map_values ((k, vs) # m) = mset vs + map_values m"
  by (simp_all add: map_values_def)

lemma entry_push_values [simp]: "map_values (entry_push m k v) = add_mset v (map_values m)"
  by (induction m k v rule: entry_push.induct) auto

lemma entry_push_lookup:
  "map_of (entry_push m k v) =
     (map_of m)(k \<mapsto> (case map_of m k of None \<Rightarrow> [v] | Some vs \<Rightarrow> vs @ [v]))"
  by (induction m k v rule: entry_push.induct) (auto simp: fun_eq_iff split: option.splits)

lemma entry_push_keys [simp]: "fst ` set (entry_push m k v) = insert k (fst ` set m)"
  by (induction m k v rule: entry_push.induct) auto

lemma entry_push_distinct: "distinct (map fst m) \<Longrightarrow> distinct (map fst (entry_push m k v))"
proof (induction m k v rule: entry_push.induct)
  case (1 k v)
  then show ?case by simp
next
  case (2 k' vs m k v)
  have "fst ` set (entry_push m k v) = insert k (fst ` set m)" by simp
  with 2 show ?case by (auto simp del: entry_push_keys)
qed

lemma map_insert_lookup: "map_of (map_insert m k v) = (map_of m)(k \<mapsto> v)"
  by (induction m k v rule: map_insert.induct) (auto simp: fun_eq_iff)

lemma map_insert_keys [simp]: "fst ` set (map_insert m k v) = insert k (fst ` set m)"
  by (induction m k v rule: map_insert.induct) auto

lemma map_insert_distinct: "distinct (map fst m) \<Longrightarrow> distinct (map fst (map_insert m k v))"
proof (induction m k v rule: map_insert.induct)
  case (1 k v)
  then show ?case by simp
next
  case (2 k' w m k v)
  have "fst ` set (map_insert m k v) = insert k (fst ` set m)" by simp
  with 2 show ?case by (auto simp del: map_insert_keys)
qed

text \<open>
  \<open>remove\<close>, and an update of the value of a key that is there.
\<close>

definition map_remove :: "('k \<times> 'v) list \<Rightarrow> 'k \<Rightarrow> ('k \<times> 'v) list" where
  "map_remove m k = filter (\<lambda>kv. fst kv \<noteq> k) m"

definition map_adjust :: "('k \<times> 'v) list \<Rightarrow> 'k \<Rightarrow> ('v \<Rightarrow> 'v) \<Rightarrow> ('k \<times> 'v) list" where
  "map_adjust m k f = map (\<lambda>kv. (fst kv, if fst kv = k then f (snd kv) else snd kv)) m"

definition map_all :: "('k \<times> 'v) list \<Rightarrow> ('v \<Rightarrow> 'v) \<Rightarrow> ('k \<times> 'v) list" where
  "map_all m f = map (\<lambda>kv. (fst kv, f (snd kv))) m"

lemma map_remove_lookup: "map_of (map_remove m k) = (map_of m)(k := None)"
  by (induction m) (auto simp: map_remove_def fun_eq_iff)

lemma map_adjust_lookup: "map_of (map_adjust m k f) = (map_of m)(k := map_option f (map_of m k))"
  by (induction m) (auto simp: map_adjust_def fun_eq_iff)

lemma map_all_lookup: "map_of (map_all m f) x = map_option f (map_of m x)"
  by (induction m) (auto simp: map_all_def)

lemma map_remove_keys [simp]: "fst ` set (map_remove m k) = fst ` set m - {k}"
  by (force simp: map_remove_def)

lemma map_adjust_keys [simp]: "map fst (map_adjust m k f) = map fst m"
  by (simp add: map_adjust_def)

lemma map_all_keys [simp]: "map fst (map_all m f) = map fst m"
  by (simp add: map_all_def)

lemma map_remove_distinct: "distinct (map fst m) \<Longrightarrow> distinct (map fst (map_remove m k))"
  by (simp add: map_remove_def distinct_map_filter)

lemmas map_lookup = map_insert_lookup map_remove_lookup map_adjust_lookup map_all_lookup

text \<open>With different keys, what only one key can satisfy picks out one item.\<close>

lemma filter_by_key:
  "distinct (map k xs) \<Longrightarrow> r \<in> set xs \<Longrightarrow> P r \<Longrightarrow> (\<And>x. P x \<Longrightarrow> k x = k r) \<Longrightarrow> filter P xs = [r]"
proof (induction xs)
  case (Cons x xs)
  show ?case
  proof (cases "x = r")
    case True
    then have "k r \<notin> k ` set xs" using Cons.prems(1) by simp
    then have "filter P xs = []" using Cons.prems(4) unfolding filter_empty_conv by (metis imageI)
    then show ?thesis using True Cons.prems(3) by simp
  next
    case False
    then have r: "r \<in> set xs" using Cons.prems(2) by simp
    then have "\<not> P x" using Cons.prems(1,4) by (metis distinct.simps(2) imageI list.map(2) list.set_map)
    then show ?thesis using Cons.IH [OF _ r Cons.prems(3,4)] Cons.prems(1) by simp
  qed
qed simp

end
