(* ===== verification/Y_Protocol.thy ===== *)
theory Y_Protocol
  imports Prelude
begin

text \<open>
  The wire messages of \<open>lib/realtime-protocol/src/message.rs\<close>: \<open>Message\<close>, \<open>SyncMessage\<close>,
  \<open>CustomMessage\<close> and \<open>SyncMeta\<close>, their encoders and decoders and the \<open>MessageReader\<close>
  iterator, with \<open>gen_update_message\<close> of the server's broadcast group, which writes the same
  format by hand.

  The primitive encoder and decoder of the \<open>yrs\<close> crate (variable-length integers, length-prefixed
  buffers and strings), its state vectors and awareness updates (type variables \<open>'sv\<close> and
  \<open>'aw\<close>), \<open>merge_updates_v1\<close> and the \<open>bincode\<close> serialisation of \<open>SyncMeta\<close> are not in the
  repository: they are the fields of the record \<open>yrs\<close>, an argument of the definitions that use
  them.  \<open>yrs_laws\<close> is what the code relies on: each read returns what the matching write
  produced and leaves the rest of the buffer, reading an empty buffer is \<open>EndOfBuffer\<close>, and a
  read that succeeds consumes at least one byte.
\<close>

section \<open>Messages\<close>

text \<open>\<open>yrs::encoding::read::Error\<close>, as far as the code tells its cases apart.\<close>

datatype read_error = EndOfBuffer | UnexpectedValue | OtherReadError

record sync_meta =
  last_sync_at :: u64

datatype custom_message = SyncCheck sync_meta

datatype 'sv sync_message = SyncStep1 'sv | SyncStep2 bytes | Update bytes

datatype ('sv, 'aw) message =
    Sync "'sv sync_message"
  | Auth "string option"
  | Awareness 'aw
  | Custom custom_message

definition MSG_SYNC :: u8 where "MSG_SYNC = 0"
definition MSG_AWARENESS :: u8 where "MSG_AWARENESS = 1"
definition MSG_AUTH :: u8 where "MSG_AUTH = 2"
definition MSG_CUSTOM :: u8 where "MSG_CUSTOM = 3"
definition PERMISSION_DENIED :: u8 where "PERMISSION_DENIED = 0"
definition PERMISSION_GRANTED :: u8 where "PERMISSION_GRANTED = 1"
definition MSG_CUSTOM_START_SYNC :: u8 where "MSG_CUSTOM_START_SYNC = 0"
definition MSG_SYNC_STEP_1 :: u8 where "MSG_SYNC_STEP_1 = 0"
definition MSG_SYNC_STEP_2 :: u8 where "MSG_SYNC_STEP_2 = 1"
definition MSG_SYNC_UPDATE :: u8 where "MSG_SYNC_UPDATE = 2"

named_theorems tag_defs

lemmas protocol_tags [tag_defs] =
  MSG_SYNC_def MSG_AWARENESS_def MSG_AUTH_def MSG_CUSTOM_def PERMISSION_DENIED_def
  PERMISSION_GRANTED_def MSG_CUSTOM_START_SYNC_def MSG_SYNC_STEP_1_def MSG_SYNC_STEP_2_def
  MSG_SYNC_UPDATE_def

section \<open>The operations of the \<open>yrs\<close> and \<open>bincode\<close> crates\<close>

record ('sv, 'aw) yrs =
  write_var :: "u8 \<Rightarrow> bytes"
  read_var :: "bytes \<Rightarrow> read_error + u8 \<times> bytes"
  write_buf :: "bytes \<Rightarrow> bytes"
  read_buf :: "bytes \<Rightarrow> read_error + bytes \<times> bytes"
  write_string :: "string \<Rightarrow> bytes"
  read_string :: "bytes \<Rightarrow> read_error + string \<times> bytes"
  sv_encode :: "'sv \<Rightarrow> bytes"
  sv_decode :: "bytes \<Rightarrow> read_error + 'sv"
  aw_encode :: "'aw \<Rightarrow> bytes"
  aw_decode :: "bytes \<Rightarrow> read_error + 'aw"
  meta_serialize :: "sync_meta \<Rightarrow> bytes"
  meta_deserialize :: "bytes \<Rightarrow> sync_meta option"
  merge_updates :: "bytes list \<Rightarrow> read_error + bytes"

definition consumes :: "(bytes \<Rightarrow> read_error + 'a \<times> bytes) \<Rightarrow> bool" where
  "consumes rd \<longleftrightarrow> (\<forall>b v r. rd b = Inr (v, r) \<longrightarrow> length r < length b)"

definition yrs_laws :: "('sv, 'aw) yrs \<Rightarrow> bool" where
  "yrs_laws Y \<longleftrightarrow>
     (\<forall>v r. read_var Y (write_var Y v @ r) = Inr (v, r)) \<and>
     (\<forall>v r. read_buf Y (write_buf Y v @ r) = Inr (v, r)) \<and>
     (\<forall>v r. read_string Y (write_string Y v @ r) = Inr (v, r)) \<and>
     (\<forall>v. sv_decode Y (sv_encode Y v) = Inr v) \<and>
     (\<forall>v. aw_decode Y (aw_encode Y v) = Inr v) \<and>
     (\<forall>m. meta_deserialize Y (meta_serialize Y m) = Some m) \<and>
     read_var Y [] = Inl EndOfBuffer \<and>
     consumes (read_var Y) \<and> consumes (read_buf Y) \<and> consumes (read_string Y)"

section \<open>Encoding and decoding\<close>

definition SyncMeta_from_vec :: "('sv, 'aw) yrs \<Rightarrow> bytes \<Rightarrow> read_error + sync_meta" where
  "SyncMeta_from_vec Y data =
     (case meta_deserialize Y data of None \<Rightarrow> Err UnexpectedValue | Some meta \<Rightarrow> Ok meta)"

fun sync_message_encode :: "('sv, 'aw) yrs \<Rightarrow> 'sv sync_message \<Rightarrow> bytes" where
  "sync_message_encode Y (SyncStep1 sv) = write_var Y MSG_SYNC_STEP_1 @ write_buf Y (sv_encode Y sv)"
| "sync_message_encode Y (SyncStep2 u) = write_var Y MSG_SYNC_STEP_2 @ write_buf Y u"
| "sync_message_encode Y (Update u) = write_var Y MSG_SYNC_UPDATE @ write_buf Y u"

definition sync_message_decode ::
  "('sv, 'aw) yrs \<Rightarrow> bytes \<Rightarrow> read_error + 'sv sync_message \<times> bytes" where
  "sync_message_decode Y b =
     try_bind (read_var Y b) (\<lambda>(tag, b1).
       if tag = MSG_SYNC_STEP_1 then
         try_bind (read_buf Y b1) (\<lambda>(buf, b2).
         try_bind (sv_decode Y buf) (\<lambda>sv. Ok (SyncStep1 sv, b2)))
       else if tag = MSG_SYNC_STEP_2 then
         try_bind (read_buf Y b1) (\<lambda>(buf, b2). Ok (SyncStep2 buf, b2))
       else if tag = MSG_SYNC_UPDATE then
         try_bind (read_buf Y b1) (\<lambda>(buf, b2). Ok (Update buf, b2))
       else Err UnexpectedValue)"

fun custom_message_encode :: "('sv, 'aw) yrs \<Rightarrow> custom_message \<Rightarrow> bytes" where
  "custom_message_encode Y (SyncCheck msg) =
     write_var Y MSG_CUSTOM_START_SYNC @ write_buf Y (meta_serialize Y msg)"

definition custom_message_decode ::
  "('sv, 'aw) yrs \<Rightarrow> bytes \<Rightarrow> read_error + custom_message \<times> bytes" where
  "custom_message_decode Y b =
     try_bind (read_var Y b) (\<lambda>(tag, b1).
       if tag = MSG_CUSTOM_START_SYNC then
         try_bind (read_buf Y b1) (\<lambda>(buf, b2).
         try_bind (SyncMeta_from_vec Y buf) (\<lambda>meta. Ok (SyncCheck meta, b2)))
       else Err UnexpectedValue)"

fun message_encode :: "('sv, 'aw) yrs \<Rightarrow> ('sv, 'aw) message \<Rightarrow> bytes" where
  "message_encode Y (Sync msg) = write_var Y MSG_SYNC @ sync_message_encode Y msg"
| "message_encode Y (Auth reason) =
     write_var Y MSG_AUTH @
     (case reason of
        Some r \<Rightarrow> write_var Y PERMISSION_DENIED @ write_string Y r
      | None \<Rightarrow> write_var Y PERMISSION_GRANTED)"
| "message_encode Y (Awareness update) = write_var Y MSG_AWARENESS @ write_buf Y (aw_encode Y update)"
| "message_encode Y (Custom msg) = write_var Y MSG_CUSTOM @ custom_message_encode Y msg"

definition message_decode ::
  "('sv, 'aw) yrs \<Rightarrow> bytes \<Rightarrow> read_error + ('sv, 'aw) message \<times> bytes" where
  "message_decode Y b =
     try_bind (read_var Y b) (\<lambda>(tag, b1).
       if tag = MSG_SYNC then
         try_bind (sync_message_decode Y b1) (\<lambda>(msg, b2). Ok (Sync msg, b2))
       else if tag = MSG_AWARENESS then
         try_bind (read_buf Y b1) (\<lambda>(data, b2).
         try_bind (aw_decode Y data) (\<lambda>update. Ok (Awareness update, b2)))
       else if tag = MSG_AUTH then
         try_bind (read_var Y b1) (\<lambda>(perm, b2).
           if perm = PERMISSION_DENIED then
             try_bind (read_string Y b2) (\<lambda>(r, b3). Ok (Auth (Some r), b3))
           else Ok (Auth None, b2))
       else if tag = MSG_CUSTOM then
         try_bind (custom_message_decode Y b1) (\<lambda>(msg, b2). Ok (Custom msg, b2))
       else Err UnexpectedValue)"

text \<open>
  \<open>MessageReader::next\<close>: the item and, when it is a message, the buffer behind it.  The
  position after an undecodable item is the decoder's affair; no caller reads on from there.
\<close>

definition reader_next ::
  "('sv, 'aw) yrs \<Rightarrow> bytes \<Rightarrow> (read_error + ('sv, 'aw) message \<times> bytes) option" where
  "reader_next Y b =
     (case message_decode Y b of
        Inr (msg, r) \<Rightarrow> Some (Ok (msg, r))
      | Inl EndOfBuffer \<Rightarrow> None
      | Inl e \<Rightarrow> Some (Err e))"

text \<open>
  A \<open>for\<close> loop over the reader that stops at the first error: the messages it yields, in order,
  and the error, if one ended it.  The loop may only fail to end if the decoder consumed nothing;
  \<open>None\<close> is "out of fuel", and \<open>read_all_total\<close> shows one more round than there are bytes is enough.
\<close>

fun read_loop ::
  "('sv, 'aw) yrs \<Rightarrow> nat \<Rightarrow> bytes \<Rightarrow> (('sv, 'aw) message list \<times> read_error option) option" where
  "read_loop Y 0 b = None"
| "read_loop Y (Suc n) b =
     (case reader_next Y b of
        None \<Rightarrow> Some ([], None)
      | Some (Inl e) \<Rightarrow> Some ([], Some e)
      | Some (Inr (msg, r)) \<Rightarrow> map_option (\<lambda>(ms, e). (msg # ms, e)) (read_loop Y n r))"

definition read_all ::
  "('sv, 'aw) yrs \<Rightarrow> bytes \<Rightarrow> (('sv, 'aw) message list \<times> read_error option) option" where
  "read_all Y b = read_loop Y (Suc (length b)) b"

text \<open>\<open>gen_update_message\<close> of \<open>group_broadcast.rs\<close>: the tags are written by hand.\<close>

definition gen_update_message :: "('sv, 'aw) yrs \<Rightarrow> bytes \<Rightarrow> bytes" where
  "gen_update_message Y update = write_var Y MSG_SYNC @ write_var Y MSG_SYNC_UPDATE @ write_buf Y update"

section \<open>Lemmas\<close>

named_theorems yrs_simps

lemma yrs_read_write [yrs_simps]:
  assumes "yrs_laws Y"
  shows "read_var Y (write_var Y v @ r) = Inr (v, r)"
    and "read_buf Y (write_buf Y b @ r) = Inr (b, r)"
    and "read_string Y (write_string Y s @ r) = Inr (s, r)"
    and "sv_decode Y (sv_encode Y sv) = Inr sv"
    and "aw_decode Y (aw_encode Y aw) = Inr aw"
    and "meta_deserialize Y (meta_serialize Y m) = Some m"
    and "read_var Y [] = Inl EndOfBuffer"
  using assms by (simp_all add: yrs_laws_def)

lemma sync_message_decode_encode:
  assumes "yrs_laws Y"
  shows "sync_message_decode Y (sync_message_encode Y m @ r) = Inr (m, r)"
  by (cases m) (simp_all add: sync_message_decode_def yrs_simps [OF assms] tag_defs)

lemma custom_message_decode_encode:
  assumes "yrs_laws Y"
  shows "custom_message_decode Y (custom_message_encode Y m @ r) = Inr (m, r)"
  by (cases m) (simp add: custom_message_decode_def SyncMeta_from_vec_def yrs_simps [OF assms] tag_defs)

lemma message_decode_encode:
  assumes "yrs_laws Y"
  shows "message_decode Y (message_encode Y m @ r) = Inr (m, r)"
  by (cases m)
     (simp_all add: message_decode_def yrs_simps [OF assms] tag_defs
        sync_message_decode_encode [OF assms] custom_message_decode_encode [OF assms]
        split: option.splits)

lemma consumesD: "consumes rd \<Longrightarrow> rd b = Inr (v, r) \<Longrightarrow> length r < length b"
  by (auto simp: consumes_def)

lemma sync_message_decode_consumes:
  assumes "yrs_laws Y" and "sync_message_decode Y b = Inr (m, r)"
  shows "length r < length b"
proof -
  have c: "consumes (read_var Y)" "consumes (read_buf Y)" using assms(1) by (simp_all add: yrs_laws_def)
  show ?thesis using assms(2)
    by (auto simp: sync_message_decode_def try_bind_Inr_iff split: if_splits
             dest!: consumesD [OF c(1)] consumesD [OF c(2)])
qed

lemma custom_message_decode_consumes:
  assumes "yrs_laws Y" and "custom_message_decode Y b = Inr (m, r)"
  shows "length r < length b"
proof -
  have c: "consumes (read_var Y)" "consumes (read_buf Y)" using assms(1) by (simp_all add: yrs_laws_def)
  show ?thesis using assms(2)
    by (auto simp: custom_message_decode_def try_bind_Inr_iff split: if_splits
             dest!: consumesD [OF c(1)] consumesD [OF c(2)])
qed

lemma message_decode_consumes:
  assumes "yrs_laws Y" and "message_decode Y b = Inr (m, r)"
  shows "length r < length b"
proof -
  have c: "consumes (read_var Y)" "consumes (read_buf Y)" "consumes (read_string Y)"
    using assms(1) by (simp_all add: yrs_laws_def)
  show ?thesis using assms(2)
    by (auto simp: message_decode_def try_bind_Inr_iff split: if_splits
             dest!: consumesD [OF c(1)] consumesD [OF c(2)] consumesD [OF c(3)]
                    sync_message_decode_consumes [OF assms(1)]
                    custom_message_decode_consumes [OF assms(1)])
qed

lemma read_loop_total:
  assumes "yrs_laws Y"
  shows "length b < n \<Longrightarrow> \<exists>res. read_loop Y n b = Some res"
proof (induction n arbitrary: b)
  case 0
  then show ?case by simp
next
  case (Suc n)
  show ?case
  proof (cases "reader_next Y b")
    case None
    then show ?thesis by simp
  next
    case (Some item)
    show ?thesis
    proof (cases item)
      case (Inl e)
      with Some show ?thesis by simp
    next
      case (Inr p)
      obtain msg r where p: "p = (msg, r)" by (cases p)
      have "message_decode Y b = Inr (msg, r)"
        using Some Inr p by (auto simp: reader_next_def split: sum.splits read_error.splits)
      with assms have "length r < length b" by (rule message_decode_consumes)
      with Suc.prems have "length r < n" by simp
      then obtain res where "read_loop Y n r = Some res" using Suc.IH by blast
      with Some Inr p show ?thesis by simp
    qed
  qed
qed

lemma reader_next_encode:
  "yrs_laws Y \<Longrightarrow> reader_next Y (message_encode Y m @ r) = Some (Inr (m, r))"
  by (simp add: reader_next_def message_decode_encode)

lemma reader_next_Nil: "yrs_laws Y \<Longrightarrow> reader_next Y [] = None"
  by (simp add: reader_next_def message_decode_def yrs_simps)

lemma message_encode_length:
  assumes "yrs_laws Y" shows "0 < length (message_encode Y m)"
proof -
  have "message_decode Y (message_encode Y m @ []) = Inr (m, [])"
    using assms by (rule message_decode_encode)
  from message_decode_consumes [OF assms this] show ?thesis by simp
qed

lemma read_loop_encode:
  assumes "yrs_laws Y"
  shows "length ms < n \<Longrightarrow> read_loop Y n (concat (map (message_encode Y) ms)) = Some (ms, None)"
proof (induction ms arbitrary: n)
  case Nil
  then obtain k where "n = Suc k" by (cases n) auto
  then show ?case by (simp add: reader_next_Nil [OF assms])
next
  case (Cons m ms)
  then obtain k where k: "n = Suc k" "length ms < k" by (cases n) auto
  with Cons.IH [OF k(2)] show ?case by (simp add: reader_next_encode [OF assms])
qed

lemma length_concat_encode:
  assumes "yrs_laws Y" shows "length ms \<le> length (concat (map (message_encode Y) ms))"
proof (induction ms)
  case (Cons m ms)
  have "0 < length (message_encode Y m)" using assms by (rule message_encode_length)
  with Cons show ?case by (simp del: length_greater_0_conv)
qed simp

lemma read_all_encode:
  assumes "yrs_laws Y"
  shows "read_all Y (concat (map (message_encode Y) ms)) = Some (ms, None)"
proof -
  have "length ms < Suc (length (concat (map (message_encode Y) ms)))"
    using length_concat_encode [OF assms] by (simp add: less_Suc_eq_le)
  with read_loop_encode [OF assms] show ?thesis unfolding read_all_def by blast
qed

lemma read_all_encode1: "yrs_laws Y \<Longrightarrow> read_all Y (message_encode Y m) = Some ([m], None)"
  using read_all_encode [of Y "[m]"] by simp

lemma read_all_encode2:
  "yrs_laws Y \<Longrightarrow> read_all Y (message_encode Y m @ message_encode Y n) = Some ([m, n], None)"
  using read_all_encode [of Y "[m, n]"] by simp

lemma read_all_ends: "yrs_laws Y \<Longrightarrow> read_all Y b \<noteq> None"
  using read_loop_total [of Y b "Suc (length b)"] by (auto simp: read_all_def)

section \<open>An executable instance of the primitives\<close>

text \<open>
  The \<open>lib0\<close> wire format: an unsigned integer is its 7-bit groups, least significant first,
  each but the last with the top bit set; a buffer or a string is its length and its bytes.
  A \<open>SyncMeta\<close> is its eight little-endian bytes.  State vectors and awareness updates are
  byte strings here, and merging updates joins them.  The instance serves the witnesses.
\<close>

fun varuint_write :: "nat \<Rightarrow> bytes" where
  "varuint_write n =
     (if n < 128 then [of_nat n] else of_nat (128 + n mod 128) # varuint_write (n div 128))"

declare varuint_write.simps [simp del]

fun varuint_read :: "bytes \<Rightarrow> read_error + nat \<times> bytes" where
  "varuint_read [] = Err EndOfBuffer"
| "varuint_read (v # r) =
     (if unat v < 128 then Ok (unat v, r)
      else try_bind (varuint_read r) (\<lambda>(n, r'). Ok (unat v - 128 + 128 * n, r')))"

definition lib0_read_var :: "bytes \<Rightarrow> read_error + u8 \<times> bytes" where
  "lib0_read_var b = try_bind (varuint_read b) (\<lambda>(n, r).
     if n < 256 then Ok (of_nat n, r) else Err OtherReadError)"

definition lib0_read_buf :: "bytes \<Rightarrow> read_error + bytes \<times> bytes" where
  "lib0_read_buf b = try_bind (varuint_read b) (\<lambda>(n, r).
     if n \<le> length r then Ok (take n r, drop n r) else Err EndOfBuffer)"

definition lib0_write_buf :: "bytes \<Rightarrow> bytes" where
  "lib0_write_buf b = varuint_write (length b) @ b"

definition lib0_read_string :: "bytes \<Rightarrow> read_error + string \<times> bytes" where
  "lib0_read_string b =
     try_bind (lib0_read_buf b) (\<lambda>(s, r). Ok (map (\<lambda>w. char_of (unat w)) s, r))"

definition lib0_write_string :: "string \<Rightarrow> bytes" where
  "lib0_write_string s = lib0_write_buf (map (\<lambda>c. of_nat (of_char c)) s)"

fun le_bytes :: "nat \<Rightarrow> nat \<Rightarrow> bytes" where
  "le_bytes 0 n = []"
| "le_bytes (Suc k) n = of_nat (n mod 256) # le_bytes k (n div 256)"

fun le_value :: "bytes \<Rightarrow> nat" where
  "le_value [] = 0"
| "le_value (b # bs) = unat b + 256 * le_value bs"

definition lib0 :: "(bytes, bytes) yrs" where
  "lib0 = \<lparr>write_var = \<lambda>v. varuint_write (unat v), read_var = lib0_read_var,
     write_buf = lib0_write_buf, read_buf = lib0_read_buf,
     write_string = lib0_write_string, read_string = lib0_read_string,
     sv_encode = id, sv_decode = Inr, aw_encode = id, aw_decode = Inr,
     meta_serialize = \<lambda>m. le_bytes 8 (unat (last_sync_at m)),
     meta_deserialize = \<lambda>b. if length b = 8 then Some \<lparr>last_sync_at = of_nat (le_value b)\<rparr> else None,
     merge_updates = \<lambda>us. Inr (concat us)\<rparr>"

lemma unat_u8_of_nat: "n < 256 \<Longrightarrow> unat (of_nat n :: u8) = n"
  by (simp add: unat_of_nat take_bit_eq_mod)

lemma varuint_read_write: "varuint_read (varuint_write n @ r) = Inr (n, r)"
proof (induction n rule: varuint_write.induct)
  case (1 n)
  show ?case
  proof (cases "n < 128")
    case True
    then show ?thesis by (subst varuint_write.simps) (simp add: unat_u8_of_nat)
  next
    case False
    have b: "128 + n mod 128 < 256" by simp
    have v: "unat (of_nat (128 + n mod 128) :: u8) = 128 + n mod 128"
      using b by (rule unat_u8_of_nat)
    have "n mod 128 + 128 * (n div 128) = n" by simp
    with 1 [OF False] False v show ?thesis
      by (subst varuint_write.simps) (simp del: of_nat_add)
  qed
qed

lemma varuint_read_consumes: "varuint_read b = Inr (n, r) \<Longrightarrow> length r < length b"
proof (induction b arbitrary: n r)
  case (Cons v b)
  show ?case
  proof (cases "unat v < 128")
    case True
    with Cons.prems show ?thesis by simp
  next
    case False
    with Cons.prems obtain m where "varuint_read b = Inr (m, r)"
      by (auto simp: try_bind_Inr_iff)
    from Cons.IH [OF this] show ?thesis by simp
  qed
qed simp

lemma unat_u8_less: "unat (w :: u8) < 256"
  using unsigned_less [of w, where ?'a = nat] by simp

lemma lib0_buf: "lib0_read_buf (lib0_write_buf b @ r) = Inr (b, r)"
  by (simp add: lib0_read_buf_def lib0_write_buf_def varuint_read_write)

lemma lib0_string: "lib0_read_string (lib0_write_string s @ r) = Inr (s, r)"
proof -
  have "char_of (unat (of_nat (of_char c) :: u8)) = c" for c :: char
  proof -
    have "(of_char c :: nat) < 256" by simp
    then show ?thesis by (simp add: unat_u8_of_nat)
  qed
  then show ?thesis
    by (simp add: lib0_read_string_def lib0_write_string_def lib0_buf comp_def)
qed

lemma le_value_bytes: "le_value (le_bytes k n) = n mod 256 ^ k"
proof (induction k arbitrary: n)
  case (Suc k)
  have m: "unat (of_nat (n mod 256) :: u8) = n mod 256" by (rule unat_u8_of_nat) simp
  have "le_value (le_bytes (Suc k) n) = n mod 256 + 256 * (n div 256 mod 256 ^ k)"
    by (simp only: le_bytes.simps le_value.simps m Suc)
  also have "\<dots> = n mod 256 ^ Suc k" by (simp add: mod_mult2_eq)
  finally show ?case .
qed simp

lemma le_bytes_length [simp]: "length (le_bytes k n) = k"
  by (induction k arbitrary: n) auto

lemma lib0_meta: "meta_deserialize lib0 (meta_serialize lib0 m) = Some m"
proof -
  have "unat (last_sync_at m) < 256 ^ 8" using unsigned_less [of "last_sync_at m", where ?'a = nat] by simp
  then have "le_value (le_bytes 8 (unat (last_sync_at m))) = unat (last_sync_at m)"
    by (simp add: le_value_bytes)
  then show ?thesis by (simp add: lib0_def)
qed

lemma lib0_read_var_consumes: "consumes lib0_read_var"
  by (auto simp: consumes_def lib0_read_var_def try_bind_Inr_iff split: if_splits
           dest!: varuint_read_consumes)

lemma lib0_read_buf_consumes: "consumes lib0_read_buf"
  by (auto simp: consumes_def lib0_read_buf_def try_bind_Inr_iff split: if_splits
           dest!: varuint_read_consumes)

lemma lib0_read_string_consumes: "consumes lib0_read_string"
  using lib0_read_buf_consumes
  by (auto simp: consumes_def lib0_read_string_def try_bind_Inr_iff)

lemma yrs_laws_lib0: "yrs_laws lib0"
proof -
  have rv: "lib0_read_var (varuint_write (unat v) @ r) = Inr (v, r)" for v r
    using unat_u8_less [of v] by (simp add: lib0_read_var_def varuint_read_write)
  have "read_var lib0 (write_var lib0 v @ r) = Inr (v, r)" for v r
    using rv by (simp add: lib0_def)
  moreover have "read_var lib0 [] = Inl EndOfBuffer"
    by (simp add: lib0_def lib0_read_var_def)
  moreover have "read_buf lib0 (write_buf lib0 b @ r) = Inr (b, r)"
    "read_string lib0 (write_string lib0 s @ r) = Inr (s, r)" for b s r
    by (simp_all add: lib0_def lib0_buf lib0_string)
  moreover have "consumes (read_var lib0)" "consumes (read_buf lib0)" "consumes (read_string lib0)"
    by (simp_all add: lib0_def lib0_read_var_consumes lib0_read_buf_consumes lib0_read_string_consumes)
  moreover have "sv_decode lib0 (sv_encode lib0 v) = Inr v" "aw_decode lib0 (aw_encode lib0 v) = Inr v" for v
    by (simp_all add: lib0_def)
  ultimately show ?thesis using lib0_meta by (simp add: yrs_laws_def)
qed

section \<open>Properties\<close>

text \<open>
  C36: Decoding inverts encoding for whole payloads: reading a payload made of the encodings of any
  list of messages, one after the other, yields exactly those messages in order and ends without
  an error.
\<close>

theorem reader_roundtrip:
  assumes "yrs_laws Y"
  shows "read_all Y (concat (map (message_encode Y) ms)) = Some (ms, None)"
  using assms by (rule read_all_encode)

theorem reader_roundtrip_witness:
  "read_all lib0 (concat (map (message_encode lib0) [Sync (Update [1, 2]), Auth (Some ''no''), Custom (SyncCheck \<lparr>last_sync_at = 5\<rparr>)]))
     = Some ([Sync (Update [1, 2]), Auth (Some ''no''), Custom (SyncCheck \<lparr>last_sync_at = 5\<rparr>)], None)"
  by (rule reader_roundtrip [OF yrs_laws_lib0])

text \<open>
  C37: Reading any payload ends: on arbitrary bytes, well-formed or not, the message loop yields a
  result after at most one more round than there are bytes.
\<close>

theorem reader_total:
  assumes "yrs_laws Y"
  shows "\<exists>ms e. read_all Y b = Some (ms, e)"
  using read_loop_total [OF assms, of b "Suc (length b)"] by (auto simp: read_all_def)

theorem reader_total_witness: "\<exists>ms e. read_all lib0 [9, 200, 255] = Some (ms, e)"
  by (rule reader_total [OF yrs_laws_lib0])

text \<open>
  The payload the broadcast group writes by hand for a document update is the encoding of the
  message \<open>Sync (Update u)\<close>, so a client's reader decodes it as that message.
\<close>

theorem gen_update_message_eq: "gen_update_message Y u = message_encode Y (Sync (Update u))"
  by (simp add: gen_update_message_def)

end
