(* ===== verification/Collab_Msg.thy ===== *)
theory Collab_Msg
  imports Y_Protocol
begin

text \<open>
  The collaboration messages of \<open>lib/realtime-entity/src/collab_msg.rs\<close>: the payload structs,
  the enums \<open>CollabMessage\<close>, \<open>ClientCollabMessage\<close> (client to server) and
  \<open>ServerCollabMessage\<close> (server to client), their accessors, priorities, merging and
  conversions, and the trait \<open>CollabSinkMessage\<close> as a record of operations with its contract as
  a locale, interpreted for both implementors.

  \<open>CollabOrigin\<close> and \<open>CollabType\<close> come from crates outside the repository: they are the type
  variables \<open>'o\<close> and \<open>'t\<close>, and what the code asks of an origin is the record \<open>origin_ops\<close>.
  An \<open>anyhow\<close> error is its message.
\<close>

section \<open>Data\<close>

type_synonym MsgId = u64

record 'o origin_ops =
  client_user_id :: "'o \<Rightarrow> int option"
  client_device_id :: "'o \<Rightarrow> string option"
  server_origin :: "'o"

record 'o AwarenessSync =
  aws_object_id :: string
  aws_payload :: bytes
  aws_origin :: 'o

record ('o, 't) InitSync =
  is_origin :: 'o
  is_object_id :: string
  is_collab_type :: 't
  is_workspace_id :: string
  is_msg_id :: MsgId
  is_payload :: bytes

record 'o ServerInit =
  si_origin :: 'o
  si_object_id :: string
  si_msg_id :: MsgId
  si_payload :: bytes

record 'o UpdateSync =
  us_origin :: 'o
  us_object_id :: string
  us_msg_id :: MsgId
  us_payload :: bytes

datatype AckCode = AckSuccess | CannotApplyUpdate | AckRetry | AckInternal

fun ack_code_repr :: "AckCode \<Rightarrow> u8" where
  "ack_code_repr AckSuccess = 0"
| "ack_code_repr CannotApplyUpdate = 1"
| "ack_code_repr AckRetry = 2"
| "ack_code_repr AckInternal = 3"

record AckSource =
  as_verbose :: string
  as_msg_id :: MsgId

record 'o CollabAck =
  ack_origin :: 'o
  ack_object_id :: string
  ack_source :: AckSource
  ack_payload :: bytes
  ack_code :: AckCode

record 'o BroadcastSync =
  bs_origin :: 'o
  bs_object_id :: string
  bs_payload :: bytes
  bs_seq_num :: u32

datatype ('o, 't) CollabMessage =
    ClientInitSync "('o, 't) InitSync"
  | ClientUpdateSync "'o UpdateSync"
  | ClientAck "'o CollabAck"
  | ServerInitSync "'o ServerInit"
  | CM_AwarenessSync "'o AwarenessSync"
  | ServerBroadcast "'o BroadcastSync"

datatype ('o, 't) ClientCollabMessage =
    CC_InitSync "('o, 't) InitSync"
  | CC_UpdateSync "'o UpdateSync"
  | CC_ServerInitSync "'o ServerInit"
  | CC_AwarenessSync "'o UpdateSync"

datatype 'o ServerCollabMessage =
    SC_ClientAck "'o CollabAck"
  | SC_ServerInitSync "'o ServerInit"
  | SC_AwarenessSync "'o AwarenessSync"
  | SC_ServerBroadcast "'o BroadcastSync"

section \<open>Constructors\<close>

definition AwarenessSync_new :: "'o origin_ops \<Rightarrow> string \<Rightarrow> bytes \<Rightarrow> 'o AwarenessSync" where
  "AwarenessSync_new D object_id payload =
     \<lparr>aws_object_id = object_id, aws_payload = payload, aws_origin = server_origin D\<rparr>"

definition InitSync_new ::
  "'o \<Rightarrow> string \<Rightarrow> 't \<Rightarrow> string \<Rightarrow> MsgId \<Rightarrow> bytes \<Rightarrow> ('o, 't) InitSync" where
  "InitSync_new origin object_id collab_type workspace_id msg_id payload =
     \<lparr>is_origin = origin, is_object_id = object_id, is_collab_type = collab_type,
      is_workspace_id = workspace_id, is_msg_id = msg_id, is_payload = payload\<rparr>"

definition ServerInit_new :: "'o \<Rightarrow> string \<Rightarrow> bytes \<Rightarrow> MsgId \<Rightarrow> 'o ServerInit" where
  "ServerInit_new origin object_id payload msg_id =
     \<lparr>si_origin = origin, si_object_id = object_id, si_msg_id = msg_id, si_payload = payload\<rparr>"

definition UpdateSync_new :: "'o \<Rightarrow> string \<Rightarrow> bytes \<Rightarrow> MsgId \<Rightarrow> 'o UpdateSync" where
  "UpdateSync_new origin object_id payload msg_id =
     \<lparr>us_origin = origin, us_object_id = object_id, us_msg_id = msg_id, us_payload = payload\<rparr>"

definition CollabAck_new :: "'o \<Rightarrow> string \<Rightarrow> MsgId \<Rightarrow> 'o CollabAck" where
  "CollabAck_new origin object_id msg_id =
     \<lparr>ack_origin = origin, ack_object_id = object_id,
      ack_source = \<lparr>as_verbose = '''', as_msg_id = msg_id\<rparr>,
      ack_payload = [], ack_code = AckSuccess\<rparr>"

definition with_payload :: "'o CollabAck \<Rightarrow> bytes \<Rightarrow> 'o CollabAck" where
  "with_payload ack payload = ack\<lparr>ack_payload := payload\<rparr>"

definition with_code :: "'o CollabAck \<Rightarrow> AckCode \<Rightarrow> 'o CollabAck" where
  "with_code ack code = ack\<lparr>ack_code := code\<rparr>"

definition BroadcastSync_new :: "'o \<Rightarrow> string \<Rightarrow> bytes \<Rightarrow> u32 \<Rightarrow> 'o BroadcastSync" where
  "BroadcastSync_new origin object_id payload seq_num =
     \<lparr>bs_origin = origin, bs_object_id = object_id, bs_payload = payload, bs_seq_num = seq_num\<rparr>"

section \<open>\<open>CollabMessage\<close>\<close>

fun collab_msg_id :: "('o, 't) CollabMessage \<Rightarrow> MsgId option" where
  "collab_msg_id (ClientInitSync v) = Some (is_msg_id v)"
| "collab_msg_id (ClientUpdateSync v) = Some (us_msg_id v)"
| "collab_msg_id (ClientAck v) = Some (as_msg_id (ack_source v))"
| "collab_msg_id (ServerInitSync v) = Some (si_msg_id v)"
| "collab_msg_id (ServerBroadcast _) = None"
| "collab_msg_id (CM_AwarenessSync _) = None"

fun collab_payload :: "('o, 't) CollabMessage \<Rightarrow> bytes option" where
  "collab_payload (ClientInitSync v) = Some (is_payload v)"
| "collab_payload (ClientUpdateSync v) = Some (us_payload v)"
| "collab_payload (ClientAck v) = Some (ack_payload v)"
| "collab_payload (ServerInitSync v) = Some (si_payload v)"
| "collab_payload (ServerBroadcast v) = Some (bs_payload v)"
| "collab_payload (CM_AwarenessSync v) = Some (aws_payload v)"

definition collab_len :: "('o, 't) CollabMessage \<Rightarrow> nat" where
  "collab_len m = (case collab_payload m of None \<Rightarrow> 0 | Some p \<Rightarrow> length p)"

definition collab_is_empty :: "('o, 't) CollabMessage \<Rightarrow> bool" where
  "collab_is_empty m \<longleftrightarrow> collab_len m = 0"

fun collab_origin :: "('o, 't) CollabMessage \<Rightarrow> 'o" where
  "collab_origin (ClientInitSync v) = is_origin v"
| "collab_origin (ClientUpdateSync v) = us_origin v"
| "collab_origin (ClientAck v) = ack_origin v"
| "collab_origin (ServerInitSync v) = si_origin v"
| "collab_origin (ServerBroadcast v) = bs_origin v"
| "collab_origin (CM_AwarenessSync v) = aws_origin v"

definition collab_uid :: "'o origin_ops \<Rightarrow> ('o, 't) CollabMessage \<Rightarrow> int option" where
  "collab_uid D m = client_user_id D (collab_origin m)"

fun collab_object_id :: "('o, 't) CollabMessage \<Rightarrow> string" where
  "collab_object_id (ClientInitSync v) = is_object_id v"
| "collab_object_id (ClientUpdateSync v) = us_object_id v"
| "collab_object_id (ClientAck v) = ack_object_id v"
| "collab_object_id (ServerInitSync v) = si_object_id v"
| "collab_object_id (ServerBroadcast v) = bs_object_id v"
| "collab_object_id (CM_AwarenessSync v) = aws_object_id v"

definition collab_device_id :: "'o origin_ops \<Rightarrow> ('o, 't) CollabMessage \<Rightarrow> string option" where
  "collab_device_id D m = client_device_id D (collab_origin m)"

fun collab_type_str :: "('o, 't) CollabMessage \<Rightarrow> string" where
  "collab_type_str (ClientInitSync _) = ''ClientInitSync''"
| "collab_type_str (ClientUpdateSync _) = ''UpdateSync''"
| "collab_type_str (ClientAck _) = ''ClientAck''"
| "collab_type_str (ServerInitSync _) = ''ServerInitSync''"
| "collab_type_str (ServerBroadcast _) = ''Broadcast''"
| "collab_type_str (CM_AwarenessSync _) = ''Awareness''"

fun collab_is_client_init :: "('o, 't) CollabMessage \<Rightarrow> bool" where
  "collab_is_client_init (ClientInitSync _) = True"
| "collab_is_client_init _ = False"

fun collab_is_server_init :: "('o, 't) CollabMessage \<Rightarrow> bool" where
  "collab_is_server_init (ServerInitSync _) = True"
| "collab_is_server_init _ = False"

fun collab_is_update_sync :: "('o, 't) CollabMessage \<Rightarrow> bool" where
  "collab_is_update_sync (ClientUpdateSync _) = True"
| "collab_is_update_sync _ = False"

fun collab_set_msg_id :: "('o, 't) CollabMessage \<Rightarrow> MsgId \<Rightarrow> ('o, 't) CollabMessage" where
  "collab_set_msg_id (ClientInitSync v) i = ClientInitSync (v\<lparr>is_msg_id := i\<rparr>)"
| "collab_set_msg_id (ClientUpdateSync v) i = ClientUpdateSync (v\<lparr>us_msg_id := i\<rparr>)"
| "collab_set_msg_id (ClientAck v) i =
     ClientAck (v\<lparr>ack_source := (ack_source v)\<lparr>as_msg_id := i\<rparr>\<rparr>)"
| "collab_set_msg_id (ServerInitSync v) i = ServerInitSync (v\<lparr>si_msg_id := i\<rparr>)"
| "collab_set_msg_id (ServerBroadcast v) i = ServerBroadcast v"
| "collab_set_msg_id (CM_AwarenessSync v) i = CM_AwarenessSync v"

definition collab_eq :: "('o, 't) CollabMessage \<Rightarrow> ('o, 't) CollabMessage \<Rightarrow> bool" where
  "collab_eq a b \<longleftrightarrow> collab_msg_id a = collab_msg_id b \<and> collab_origin a = collab_origin b \<and>
     collab_object_id a = collab_object_id b"

fun collab_cmp :: "('o, 't) CollabMessage \<Rightarrow> ('o, 't) CollabMessage \<Rightarrow> ordering" where
  "collab_cmp (ClientInitSync _) (ClientInitSync _) = Equal"
| "collab_cmp (ClientInitSync _) _ = Greater"
| "collab_cmp _ (ClientInitSync _) = Less"
| "collab_cmp (ServerInitSync _) (ServerInitSync _) = Equal"
| "collab_cmp (ServerInitSync _) _ = Greater"
| "collab_cmp _ (ServerInitSync _) = Less"
| "collab_cmp a b = ord_reverse (opt_cmp (collab_msg_id a) (collab_msg_id b))"

section \<open>Merging updates\<close>

text \<open>\<open>UpdateSync::as_update\<close>: the first message of the payload, if it decodes.\<close>

definition as_update :: "('sv, 'aw) yrs \<Rightarrow> 'o UpdateSync \<Rightarrow> ('sv, 'aw) message option" where
  "as_update Y u =
     (case reader_next Y (us_payload u) of
        None \<Rightarrow> None
      | Some (Inl _) \<Rightarrow> None
      | Some (Inr (msg, _)) \<Rightarrow> Some msg)"

text \<open>
  \<open>merge_payload(&mut self, other)\<close>: the new \<open>self\<close> and the result.  Only two payloads that
  both start with an update message are merged.
\<close>

definition merge_payload ::
  "('sv, 'aw) yrs \<Rightarrow> 'o UpdateSync \<Rightarrow> 'o UpdateSync \<Rightarrow> 'o UpdateSync \<times> (read_error + bool)" where
  "merge_payload Y self other =
     (case (as_update Y self, as_update Y other) of
        (Some (Sync (Update left)), Some (Sync (Update right))) \<Rightarrow>
          (case merge_updates Y [left, right] of
             Inl e \<Rightarrow> (self, Err e)
           | Inr update \<Rightarrow>
               (self\<lparr>us_payload := message_encode Y (Sync (Update update))\<rparr>, Ok True))
      | _ \<Rightarrow> (self, Ok False))"

fun collab_merge ::
  "('sv, 'aw) yrs \<Rightarrow> ('o, 't) CollabMessage \<Rightarrow> ('o, 't) CollabMessage \<Rightarrow> nat \<Rightarrow>
     ('o, 't) CollabMessage \<times> (read_error + bool)" where
  "collab_merge Y (ClientUpdateSync v) (ClientUpdateSync other) maximum_payload_size =
     (if maximum_payload_size < length (us_payload v) then (ClientUpdateSync v, Ok False)
      else case merge_payload Y v other of (v', r) \<Rightarrow> (ClientUpdateSync v', r))"
| "collab_merge Y self _ _ = (self, Ok False)"

section \<open>\<open>ClientCollabMessage\<close>\<close>

fun client_size :: "('o, 't) ClientCollabMessage \<Rightarrow> nat" where
  "client_size (CC_InitSync d) = length (is_payload d)"
| "client_size (CC_UpdateSync d) = length (us_payload d)"
| "client_size (CC_ServerInitSync d) = length (si_payload d)"
| "client_size (CC_AwarenessSync d) = length (us_payload d)"

fun client_object_id :: "('o, 't) ClientCollabMessage \<Rightarrow> string" where
  "client_object_id (CC_InitSync d) = is_object_id d"
| "client_object_id (CC_UpdateSync d) = us_object_id d"
| "client_object_id (CC_ServerInitSync d) = si_object_id d"
| "client_object_id (CC_AwarenessSync d) = us_object_id d"

fun client_origin :: "('o, 't) ClientCollabMessage \<Rightarrow> 'o" where
  "client_origin (CC_InitSync d) = is_origin d"
| "client_origin (CC_UpdateSync d) = us_origin d"
| "client_origin (CC_ServerInitSync d) = si_origin d"
| "client_origin (CC_AwarenessSync d) = us_origin d"

fun client_payload :: "('o, 't) ClientCollabMessage \<Rightarrow> bytes" where
  "client_payload (CC_InitSync d) = is_payload d"
| "client_payload (CC_UpdateSync d) = us_payload d"
| "client_payload (CC_ServerInitSync d) = si_payload d"
| "client_payload (CC_AwarenessSync d) = us_payload d"

definition client_msg_device_id ::
  "'o origin_ops \<Rightarrow> ('o, 't) ClientCollabMessage \<Rightarrow> string option" where
  "client_msg_device_id D m = client_device_id D (client_origin m)"

fun client_msg_id :: "('o, 't) ClientCollabMessage \<Rightarrow> MsgId" where
  "client_msg_id (CC_InitSync d) = is_msg_id d"
| "client_msg_id (CC_UpdateSync d) = us_msg_id d"
| "client_msg_id (CC_ServerInitSync d) = si_msg_id d"
| "client_msg_id (CC_AwarenessSync d) = us_msg_id d"

fun client_is_init_sync :: "('o, 't) ClientCollabMessage \<Rightarrow> bool" where
  "client_is_init_sync (CC_InitSync _) = True"
| "client_is_init_sync _ = False"

fun client_is_server_init_sync :: "('o, 't) ClientCollabMessage \<Rightarrow> bool" where
  "client_is_server_init_sync (CC_ServerInitSync _) = True"
| "client_is_server_init_sync _ = False"

fun client_is_update_sync :: "('o, 't) ClientCollabMessage \<Rightarrow> bool" where
  "client_is_update_sync (CC_UpdateSync _) = True"
| "client_is_update_sync _ = False"

fun client_set_msg_id :: "('o, 't) ClientCollabMessage \<Rightarrow> MsgId \<Rightarrow> ('o, 't) ClientCollabMessage" where
  "client_set_msg_id (CC_InitSync d) i = CC_InitSync (d\<lparr>is_msg_id := i\<rparr>)"
| "client_set_msg_id (CC_UpdateSync d) i = CC_UpdateSync (d\<lparr>us_msg_id := i\<rparr>)"
| "client_set_msg_id (CC_ServerInitSync d) i = CC_ServerInitSync (d\<lparr>si_msg_id := i\<rparr>)"
| "client_set_msg_id (CC_AwarenessSync d) i = CC_AwarenessSync (d\<lparr>us_msg_id := i\<rparr>)"

definition client_eq :: "('o, 't) ClientCollabMessage \<Rightarrow> ('o, 't) ClientCollabMessage \<Rightarrow> bool" where
  "client_eq a b \<longleftrightarrow> client_msg_id a = client_msg_id b \<and> client_object_id a = client_object_id b \<and>
     client_origin a = client_origin b"

fun client_cmp :: "('o, 't) ClientCollabMessage \<Rightarrow> ('o, 't) ClientCollabMessage \<Rightarrow> ordering" where
  "client_cmp (CC_InitSync _) (CC_InitSync _) = Equal"
| "client_cmp (CC_InitSync _) _ = Greater"
| "client_cmp _ (CC_InitSync _) = Less"
| "client_cmp (CC_ServerInitSync _) (CC_ServerInitSync _) = Equal"
| "client_cmp (CC_ServerInitSync _) _ = Greater"
| "client_cmp _ (CC_ServerInitSync _) = Less"
| "client_cmp a b = ord_reverse (int_cmp (client_msg_id a) (client_msg_id b))"

fun client_merge ::
  "('sv, 'aw) yrs \<Rightarrow> ('o, 't) ClientCollabMessage \<Rightarrow> ('o, 't) ClientCollabMessage \<Rightarrow> nat \<Rightarrow>
     ('o, 't) ClientCollabMessage \<times> (read_error + bool)" where
  "client_merge Y (CC_UpdateSync d) (CC_UpdateSync other) maximum_payload_size =
     (if maximum_payload_size < length (us_payload d) then (CC_UpdateSync d, Ok False)
      else case merge_payload Y d other of (d', r) \<Rightarrow> (CC_UpdateSync d', r))"
| "client_merge Y self _ _ = (self, Ok False)"

section \<open>\<open>ServerCollabMessage\<close>\<close>

fun server_object_id :: "'o ServerCollabMessage \<Rightarrow> string" where
  "server_object_id (SC_ClientAck v) = ack_object_id v"
| "server_object_id (SC_ServerInitSync v) = si_object_id v"
| "server_object_id (SC_AwarenessSync v) = aws_object_id v"
| "server_object_id (SC_ServerBroadcast v) = bs_object_id v"

fun server_msg_id :: "'o ServerCollabMessage \<Rightarrow> MsgId option" where
  "server_msg_id (SC_ClientAck v) = Some (as_msg_id (ack_source v))"
| "server_msg_id (SC_ServerInitSync v) = Some (si_msg_id v)"
| "server_msg_id (SC_AwarenessSync _) = None"
| "server_msg_id (SC_ServerBroadcast _) = None"

fun server_payload :: "'o ServerCollabMessage \<Rightarrow> bytes" where
  "server_payload (SC_ClientAck v) = ack_payload v"
| "server_payload (SC_ServerInitSync v) = si_payload v"
| "server_payload (SC_AwarenessSync v) = aws_payload v"
| "server_payload (SC_ServerBroadcast v) = bs_payload v"

fun server_size :: "'o ServerCollabMessage \<Rightarrow> nat" where
  "server_size (SC_ClientAck v) = length (ack_payload v)"
| "server_size (SC_ServerInitSync v) = length (si_payload v)"
| "server_size (SC_AwarenessSync v) = length (aws_payload v)"
| "server_size (SC_ServerBroadcast v) = length (bs_payload v)"

fun server_msg_origin :: "'o ServerCollabMessage \<Rightarrow> 'o" where
  "server_msg_origin (SC_ClientAck v) = ack_origin v"
| "server_msg_origin (SC_ServerInitSync v) = si_origin v"
| "server_msg_origin (SC_AwarenessSync v) = aws_origin v"
| "server_msg_origin (SC_ServerBroadcast v) = bs_origin v"

section \<open>Printing\<close>

definition show_uid :: "'o origin_ops \<Rightarrow> 'o \<Rightarrow> string" where
  "show_uid D o1 = int_to_string (case client_user_id D o1 of None \<Rightarrow> 0 | Some i \<Rightarrow> i)"

definition InitSync_fmt :: "'o origin_ops \<Rightarrow> ('o, 't) InitSync \<Rightarrow> string" where
  "InitSync_fmt D v = ''client init: [uid:'' @ show_uid D (is_origin v) @ ''|oid:'' @ is_object_id v @
     ''|msg_id:'' @ u64_to_string (is_msg_id v) @ ''|len:'' @ nat_digits (length (is_payload v)) @ '']''"

definition ServerInit_fmt :: "'o origin_ops \<Rightarrow> 'o ServerInit \<Rightarrow> string" where
  "ServerInit_fmt D v = ''server init: [uid:'' @ show_uid D (si_origin v) @ ''|oid:'' @ si_object_id v @
     ''|msg_id:'' @ u64_to_string (si_msg_id v) @ ''|len:'' @ nat_digits (length (si_payload v)) @ '']''"

definition UpdateSync_fmt :: "'o origin_ops \<Rightarrow> 'o UpdateSync \<Rightarrow> string" where
  "UpdateSync_fmt D v = ''update: [uid:'' @ show_uid D (us_origin v) @ ''|oid:'' @ us_object_id v @
     ''|msg_id:'' @ u64_to_string (us_msg_id v) @ ''|len:'' @ nat_digits (length (us_payload v)) @ '']''"

definition CollabAck_fmt :: "'o origin_ops \<Rightarrow> 'o CollabAck \<Rightarrow> string" where
  "CollabAck_fmt D v = ''ack: [uid:'' @ show_uid D (ack_origin v) @ ''|oid:'' @ ack_object_id v @
     ''|msg_id:'' @ u64_to_string (as_msg_id (ack_source v)) @ ''|len:'' @ nat_digits (length (ack_payload v)) @ '']''"

definition BroadcastSync_fmt :: "'o origin_ops \<Rightarrow> 'o BroadcastSync \<Rightarrow> string" where
  "BroadcastSync_fmt D v = ''broadcast: [uid:'' @ show_uid D (bs_origin v) @ ''|oid:'' @ bs_object_id v @
     ''|len:'' @ nat_digits (length (bs_payload v)) @ '']''"

definition AwarenessSync_fmt :: "'o AwarenessSync \<Rightarrow> string" where
  "AwarenessSync_fmt v = ''awareness: [|oid:'' @ aws_object_id v @
     ''|len:'' @ nat_digits (length (aws_payload v)) @ '']''"

fun collab_fmt :: "'o origin_ops \<Rightarrow> ('o, 't) CollabMessage \<Rightarrow> string" where
  "collab_fmt D (ClientInitSync v) = InitSync_fmt D v"
| "collab_fmt D (ClientUpdateSync v) = UpdateSync_fmt D v"
| "collab_fmt D (ClientAck v) = CollabAck_fmt D v"
| "collab_fmt D (ServerInitSync v) = ServerInit_fmt D v"
| "collab_fmt D (ServerBroadcast v) = BroadcastSync_fmt D v"
| "collab_fmt D (CM_AwarenessSync v) = AwarenessSync_fmt v"

fun client_fmt :: "'o origin_ops \<Rightarrow> ('o, 't) ClientCollabMessage \<Rightarrow> string" where
  "client_fmt D (CC_InitSync d) = InitSync_fmt D d"
| "client_fmt D (CC_UpdateSync d) = UpdateSync_fmt D d"
| "client_fmt D (CC_ServerInitSync d) = ServerInit_fmt D d"
| "client_fmt D (CC_AwarenessSync d) =
     ''awareness: [uid:'' @ show_uid D (us_origin d) @ ''|oid:'' @ us_object_id d @
     ''|msg_id:'' @ u64_to_string (us_msg_id d) @ ''|len:'' @ nat_digits (length (us_payload d)) @ '']''"

fun server_fmt :: "'o origin_ops \<Rightarrow> 'o ServerCollabMessage \<Rightarrow> string" where
  "server_fmt D (SC_ClientAck v) = CollabAck_fmt D v"
| "server_fmt D (SC_ServerInitSync v) = ServerInit_fmt D v"
| "server_fmt D (SC_AwarenessSync v) = AwarenessSync_fmt v"
| "server_fmt D (SC_ServerBroadcast v) = BroadcastSync_fmt D v"

section \<open>Conversions\<close>

fun client_try_from ::
  "'o origin_ops \<Rightarrow> ('o, 't) CollabMessage \<Rightarrow> string + ('o, 't) ClientCollabMessage" where
  "client_try_from D (ClientInitSync msg) = Ok (CC_InitSync msg)"
| "client_try_from D (ClientUpdateSync msg) = Ok (CC_UpdateSync msg)"
| "client_try_from D (ServerInitSync msg) = Ok (CC_ServerInitSync msg)"
| "client_try_from D value =
     Err (''Can't convert to ClientCollabMessage for given collab message:'' @ collab_fmt D value)"

fun collab_from_client :: "('o, 't) ClientCollabMessage \<Rightarrow> ('o, 't) CollabMessage" where
  "collab_from_client (CC_InitSync d) = ClientInitSync d"
| "collab_from_client (CC_UpdateSync d) = ClientUpdateSync d"
| "collab_from_client (CC_ServerInitSync d) = ServerInitSync d"
| "collab_from_client (CC_AwarenessSync d) = ClientUpdateSync d"

fun server_try_from :: "('o, 't) CollabMessage \<Rightarrow> string + 'o ServerCollabMessage" where
  "server_try_from (ClientAck msg) = Ok (SC_ClientAck msg)"
| "server_try_from (ServerInitSync msg) = Ok (SC_ServerInitSync msg)"
| "server_try_from (CM_AwarenessSync msg) = Ok (SC_AwarenessSync msg)"
| "server_try_from (ServerBroadcast msg) = Ok (SC_ServerBroadcast msg)"
| "server_try_from _ = Err ''Invalid collab message type.''"

section \<open>The trait \<open>CollabSinkMessage\<close>\<close>

record 'm sink_message =
  sm_cmp :: "'m \<Rightarrow> 'm \<Rightarrow> ordering"
  sm_payload_size :: "'m \<Rightarrow> nat"
  sm_mergeable :: "'m \<Rightarrow> bool"
  sm_merge :: "'m \<Rightarrow> 'm \<Rightarrow> nat \<Rightarrow> 'm \<times> (read_error + bool)"
  sm_is_client_init_sync :: "'m \<Rightarrow> bool"
  sm_is_server_init_sync :: "'m \<Rightarrow> bool"
  sm_is_update_sync :: "'m \<Rightarrow> bool"
  sm_set_msg_id :: "'m \<Rightarrow> MsgId \<Rightarrow> 'm"
  sm_get_msg_id :: "'m \<Rightarrow> MsgId option"

definition collab_sink_message :: "('sv, 'aw) yrs \<Rightarrow> ('o, 't) CollabMessage sink_message" where
  "collab_sink_message Y =
     \<lparr>sm_cmp = collab_cmp, sm_payload_size = collab_len, sm_mergeable = collab_is_update_sync,
      sm_merge = collab_merge Y, sm_is_client_init_sync = collab_is_client_init,
      sm_is_server_init_sync = collab_is_server_init, sm_is_update_sync = collab_is_update_sync,
      sm_set_msg_id = collab_set_msg_id, sm_get_msg_id = collab_msg_id\<rparr>"

definition client_sink_message :: "('sv, 'aw) yrs \<Rightarrow> ('o, 't) ClientCollabMessage sink_message" where
  "client_sink_message Y =
     \<lparr>sm_cmp = client_cmp, sm_payload_size = client_size, sm_mergeable = client_is_update_sync,
      sm_merge = client_merge Y, sm_is_client_init_sync = client_is_init_sync,
      sm_is_server_init_sync = client_is_server_init_sync, sm_is_update_sync = client_is_update_sync,
      sm_set_msg_id = client_set_msg_id, sm_get_msg_id = (\<lambda>m. Some (client_msg_id m))\<rparr>"

text \<open>
  What the sink relies on: a client init message outranks everything else, and merging changes
  neither the identity nor the rank of the message merged into, nor anything when it reports
  that nothing was merged.
\<close>

locale sink_message_contract = rust_ord "sm_cmp S" for S :: "'m sink_message" +
  assumes init_greatest: "sm_is_client_init_sync S m \<Longrightarrow> sm_cmp S m' m \<noteq> Greater"
    and init_upward: "sm_is_client_init_sync S m \<Longrightarrow> sm_cmp S m' m \<noteq> Less \<Longrightarrow> sm_is_client_init_sync S m'"
    and mergeable_not_init: "sm_mergeable S m \<Longrightarrow> \<not> sm_is_client_init_sync S m"
    and merge_unchanged: "snd (sm_merge S a b n) \<noteq> Inr True \<Longrightarrow> fst (sm_merge S a b n) = a"
    and merge_get_msg_id: "sm_get_msg_id S (fst (sm_merge S a b n)) = sm_get_msg_id S a"
    and merge_cmp: "sm_cmp S (fst (sm_merge S a b n)) c = sm_cmp S a c"
    and merge_init: "sm_is_client_init_sync S (fst (sm_merge S a b n)) = sm_is_client_init_sync S a"
begin

lemma pop_init_first:
  assumes "bheap_pop (sm_cmp S) h = Some (x, h')" and "y \<in> set h" and "sm_is_client_init_sync S y"
  shows "sm_is_client_init_sync S x"
proof -
  have "sm_cmp S y x \<noteq> Greater" using assms(1,2) by (rule bheap_pop_max)
  then have "sm_cmp S x y \<noteq> Less" using ord_Greater_swap [of y x] by simp
  with assms(3) show ?thesis by (rule init_upward)
qed

end

section \<open>Priorities\<close>

text \<open>Both orders compare an integer rank.\<close>

fun collab_rank :: "('o, 't) CollabMessage \<Rightarrow> int" where
  "collab_rank (ClientInitSync _) = 2"
| "collab_rank (ServerInitSync _) = 1"
| "collab_rank m = (case collab_msg_id m of None \<Rightarrow> 0 | Some i \<Rightarrow> - 1 - uint i)"

fun client_rank :: "('o, 't) ClientCollabMessage \<Rightarrow> int" where
  "client_rank (CC_InitSync _) = 2"
| "client_rank (CC_ServerInitSync _) = 1"
| "client_rank m = - 1 - uint (client_msg_id m)"

lemma uint_pos_rank: "- 1 - uint (w :: u64) < 0"
  using unsigned_greater_eq [of w, where ?'a = int] by linarith

lemma rank_neg [simp]:
  "- 1 - uint (w :: u64) < 0" "- 1 - uint (w :: u64) < 1" "- 1 - uint (w :: u64) < 2"
  using uint_pos_rank [of w] by linarith+

lemma rank_neq2: "- 1 - uint (w :: u64) \<noteq> 2"
  using uint_pos_rank [of w] by linarith

lemma int_cmp_rank: "int_cmp (- 1 - uint (v :: u64)) (- 1 - uint w) = ord_reverse (int_cmp v w)"
  by (auto simp: int_cmp_def word_less_def word_uint_eq_iff)

lemma int_cmp_rank_const [simp]:
  "int_cmp (- 1 - uint (w :: u64)) 0 = Less" "int_cmp (- 1 - uint w) 1 = Less"
  "int_cmp (- 1 - uint w) 2 = Less" "int_cmp 0 (- 1 - uint w) = Greater"
  "int_cmp 1 (- 1 - uint w) = Greater" "int_cmp 2 (- 1 - uint w) = Greater"
  using uint_pos_rank [of w] by (simp_all add: int_cmp_def)

lemma int_cmp_consts [simp]:
  "int_cmp (0::int) 1 = Less" "int_cmp (0::int) 2 = Less" "int_cmp (1::int) 2 = Less"
  "int_cmp (1::int) 0 = Greater" "int_cmp (2::int) 0 = Greater" "int_cmp (2::int) 1 = Greater"
  "int_cmp (k::int) k = Equal"
  by (simp_all add: int_cmp_def)

lemma client_cmp_rank: "client_cmp a b = int_cmp (client_rank a) (client_rank b)"
  by (cases a; cases b) (simp_all add: int_cmp_rank)

lemma collab_cmp_rank: "collab_cmp a b = int_cmp (collab_rank a) (collab_rank b)"
  by (cases a; cases b) (simp_all add: int_cmp_rank)

lemma rust_ord_client: "rust_ord client_cmp"
  by unfold_locales (auto simp: client_cmp_rank int_cmp_def split: if_splits)

lemma rust_ord_collab: "rust_ord collab_cmp"
  by unfold_locales (auto simp: collab_cmp_rank int_cmp_def split: if_splits)

lemma merge_payload_id:
  "us_msg_id (fst (merge_payload Y a b)) = us_msg_id a"
  "us_origin (fst (merge_payload Y a b)) = us_origin a"
  "us_object_id (fst (merge_payload Y a b)) = us_object_id a"
  by (auto simp: merge_payload_def split: option.splits message.splits sync_message.splits sum.splits)

lemma merge_payload_unchanged: "snd (merge_payload Y a b) \<noteq> Inr True \<Longrightarrow> fst (merge_payload Y a b) = a"
  by (auto simp: merge_payload_def split: option.splits message.splits sync_message.splits sum.splits)

lemma client_merge_cases:
  "fst (client_merge Y a b n) = a \<or>
   (\<exists>d d'. a = CC_UpdateSync d \<and> fst (client_merge Y a b n) = CC_UpdateSync d' \<and> us_msg_id d' = us_msg_id d)"
proof (cases a)
  case (CC_UpdateSync d)
  then show ?thesis
  proof (cases b)
    case (CC_UpdateSync other)
    obtain d' r where m: "merge_payload Y d other = (d', r)" by (cases "merge_payload Y d other")
    have "us_msg_id d' = us_msg_id d" using merge_payload_id(1) [of Y d other] m by simp
    with m CC_UpdateSync \<open>a = CC_UpdateSync d\<close> show ?thesis by simp
  qed simp_all
qed simp_all

lemma collab_merge_cases:
  "fst (collab_merge Y a b n) = a \<or>
   (\<exists>d d'. a = ClientUpdateSync d \<and> fst (collab_merge Y a b n) = ClientUpdateSync d' \<and> us_msg_id d' = us_msg_id d)"
proof (cases a)
  case (ClientUpdateSync d)
  then show ?thesis
  proof (cases b)
    case (ClientUpdateSync other)
    obtain d' r where m: "merge_payload Y d other = (d', r)" by (cases "merge_payload Y d other")
    have "us_msg_id d' = us_msg_id d" using merge_payload_id(1) [of Y d other] m by simp
    with m ClientUpdateSync \<open>a = ClientUpdateSync d\<close> show ?thesis by simp
  qed simp_all
qed simp_all

lemma client_merge_unchanged: "snd (client_merge Y a b n) \<noteq> Inr True \<Longrightarrow> fst (client_merge Y a b n) = a"
proof (cases "\<exists>d d'. a = CC_UpdateSync d \<and> b = CC_UpdateSync d'")
  case True
  then obtain d d' where ab: "a = CC_UpdateSync d" "b = CC_UpdateSync d'" by blast
  assume "snd (client_merge Y a b n) \<noteq> Inr True"
  with ab merge_payload_unchanged [of Y d d'] show ?thesis
    by (cases "merge_payload Y d d'") (simp split: if_splits)
qed (cases a; cases b; simp)

lemma collab_merge_unchanged: "snd (collab_merge Y a b n) \<noteq> Inr True \<Longrightarrow> fst (collab_merge Y a b n) = a"
proof (cases "\<exists>d d'. a = ClientUpdateSync d \<and> b = ClientUpdateSync d'")
  case True
  then obtain d d' where ab: "a = ClientUpdateSync d" "b = ClientUpdateSync d'" by blast
  assume "snd (collab_merge Y a b n) \<noteq> Inr True"
  with ab merge_payload_unchanged [of Y d d'] show ?thesis
    by (cases "merge_payload Y d d'") (simp split: if_splits)
qed (cases a; cases b; simp)

lemma client_merge_rank: "client_rank (fst (client_merge Y a b n)) = client_rank a"
  using client_merge_cases [of Y a b n] by auto

lemma collab_merge_rank: "collab_rank (fst (collab_merge Y a b n)) = collab_rank a"
  using collab_merge_cases [of Y a b n] by auto

lemma client_init_rank: "client_is_init_sync m \<longleftrightarrow> client_rank m = 2"
  by (cases m) (simp_all add: rank_neq2 [simplified])

lemma client_rank_le: "client_rank m \<le> 2"
  by (cases m) (simp_all add: less_imp_le)

lemma collab_rank_le: "collab_rank m \<le> 2"
  by (cases m) (simp_all add: less_imp_le)

lemma collab_init_rank: "collab_is_client_init m \<longleftrightarrow> collab_rank m = 2"
  by (cases m) (simp_all add: rank_neq2 [simplified])

lemma client_merge_msg_id: "client_msg_id (fst (client_merge Y a b n)) = client_msg_id a"
  using client_merge_cases [of Y a b n] by auto

lemma collab_merge_msg_id: "collab_msg_id (fst (collab_merge Y a b n)) = collab_msg_id a"
  using collab_merge_cases [of Y a b n] by auto

lemma client_mergeable_not_init: "client_is_update_sync m \<Longrightarrow> \<not> client_is_init_sync m"
  by (cases m) simp_all

lemma collab_mergeable_not_init: "collab_is_update_sync m \<Longrightarrow> \<not> collab_is_client_init m"
  by (cases m) simp_all

interpretation client_sink: sink_message_contract "client_sink_message Y" for Y
proof (intro sink_message_contract.intro sink_message_contract_axioms.intro)
  show "rust_ord (sm_cmp (client_sink_message Y))"
    by (simp add: client_sink_message_def rust_ord_client)
  fix m m' :: "('c, 'd) ClientCollabMessage"
  assume "sm_is_client_init_sync (client_sink_message Y) m"
  then have r: "client_rank m = 2" by (simp add: client_sink_message_def client_init_rank)
  then show "sm_cmp (client_sink_message Y) m' m \<noteq> Greater"
    using client_rank_le [of m'] by (simp add: client_sink_message_def client_cmp_rank)
  assume "sm_cmp (client_sink_message Y) m' m \<noteq> Less"
  with r show "sm_is_client_init_sync (client_sink_message Y) m'"
    using client_rank_le [of m'] by (simp add: client_sink_message_def client_cmp_rank client_init_rank)
qed (simp_all add: client_sink_message_def client_cmp_rank client_merge_rank client_merge_unchanged
       client_init_rank client_mergeable_not_init [unfolded client_init_rank] client_merge_msg_id)

interpretation collab_sink: sink_message_contract "collab_sink_message Y" for Y
proof (intro sink_message_contract.intro sink_message_contract_axioms.intro)
  show "rust_ord (sm_cmp (collab_sink_message Y))"
    by (simp add: collab_sink_message_def rust_ord_collab)
  fix m m' :: "('c, 'd) CollabMessage"
  assume "sm_is_client_init_sync (collab_sink_message Y) m"
  then have r: "collab_rank m = 2" by (simp add: collab_sink_message_def collab_init_rank)
  then show "sm_cmp (collab_sink_message Y) m' m \<noteq> Greater"
    using collab_rank_le [of m'] by (simp add: collab_sink_message_def collab_cmp_rank)
  assume "sm_cmp (collab_sink_message Y) m' m \<noteq> Less"
  with r show "sm_is_client_init_sync (collab_sink_message Y) m'"
    using collab_rank_le [of m'] by (simp add: collab_sink_message_def collab_cmp_rank collab_init_rank)
qed (simp_all add: collab_sink_message_def collab_cmp_rank collab_merge_rank collab_merge_unchanged
       collab_init_rank collab_mergeable_not_init [unfolded collab_init_rank] collab_merge_msg_id)

section \<open>Properties\<close>

text \<open>
  The priority in which the client's queues send messages: init syncs outrank everything,
  then server inits, and of the remaining messages the one with the smaller message id comes
  first.  Two init syncs rank equal whatever their ids.
\<close>

theorem client_priority:
  "client_cmp a b = Greater \<longleftrightarrow>
     (if client_is_init_sync a \<or> client_is_init_sync b
      then client_is_init_sync a \<and> \<not> client_is_init_sync b
      else if client_is_server_init_sync a \<or> client_is_server_init_sync b
      then client_is_server_init_sync a \<and> \<not> client_is_server_init_sync b
      else client_msg_id a < client_msg_id b)"
  by (cases a; cases b) auto

text \<open>
  Merging two update messages: when both payloads begin with an update and the CRDT merge of
  the two succeeds, the payload of the first becomes one update message that decodes to the merged
  update, and its id, origin and object are kept.
\<close>

theorem merge_payload_roundtrip:
  assumes "yrs_laws Y"
    and "as_update Y a = Some (Sync (Update l))" and "as_update Y b = Some (Sync (Update r))"
    and "merge_updates Y [l, r] = Inr u"
  shows "snd (merge_payload Y a b) = Ok True \<and>
    as_update Y (fst (merge_payload Y a b)) = Some (Sync (Update u)) \<and>
    fst (merge_payload Y a b) = a\<lparr>us_payload := us_payload (fst (merge_payload Y a b))\<rparr>"
proof -
  have m: "merge_payload Y a b = (a\<lparr>us_payload := message_encode Y (Sync (Update u))\<rparr>, Ok True)"
    using assms(2-4) by (simp add: merge_payload_def)
  have "reader_next Y (message_encode Y (Sync (Update u)) @ []) = Some (Inr (Sync (Update u), []))"
    using assms(1) by (rule reader_next_encode)
  with m show ?thesis by (simp add: as_update_def)
qed

definition sample_update :: "MsgId \<Rightarrow> bytes \<Rightarrow> nat UpdateSync" where
  "sample_update i u = UpdateSync_new 0 ''doc'' (message_encode lib0 (Sync (Update u))) i"

lemma sample_update_as_update: "as_update lib0 (sample_update i u) = Some (Sync (Update u))"
proof -
  have "reader_next lib0 (message_encode lib0 (Sync (Update u)) @ []) = Some (Inr (Sync (Update u), []))"
    by (rule reader_next_encode [OF yrs_laws_lib0])
  then show ?thesis by (simp add: as_update_def sample_update_def UpdateSync_new_def)
qed

theorem merge_payload_roundtrip_witness:
  "as_update lib0 (fst (merge_payload lib0 (sample_update 1 [7]) (sample_update 2 [8, 9]))) =
     Some (Sync (Update [7, 8, 9]))"
proof -
  have "merge_updates lib0 [[7], [8, 9]] = Inr [7, 8, 9]" by (simp add: lib0_def)
  from merge_payload_roundtrip [OF yrs_laws_lib0 sample_update_as_update sample_update_as_update this]
  show ?thesis by blast
qed

text \<open>
  Converting a client message to a \<open>CollabMessage\<close> and back never fails and gives the same
  message, except that an awareness update comes back as a document update.
\<close>

theorem client_collab_roundtrip:
  "client_try_from D (collab_from_client m) =
     Ok (case m of CC_AwarenessSync d \<Rightarrow> CC_UpdateSync d | _ \<Rightarrow> m)"
  by (cases m) simp_all

text \<open>
  The conversions from \<open>CollabMessage\<close> split the messages by direction: every message
  converts to a client or to a server message, a server init converts to both and is the only
  one that does, and the server-side conversion keeps object id, message id and payload.
\<close>

theorem collab_direction:
  "(is_ok (client_try_from D m) \<or> is_ok (server_try_from m)) \<and>
   (is_ok (client_try_from D m) \<and> is_ok (server_try_from m) \<longleftrightarrow> collab_is_server_init m) \<and>
   (case server_try_from m of
      Inl e \<Rightarrow> e = ''Invalid collab message type.''
    | Inr s \<Rightarrow> server_object_id s = collab_object_id m \<and> server_msg_id s = collab_msg_id m \<and>
        Some (server_payload s) = collab_payload m \<and> server_msg_origin s = collab_origin m)"
  by (cases m) simp_all

text \<open>
  \<open>Ord\<close> and \<open>Eq\<close> of \<open>ClientCollabMessage\<close> disagree: there are messages that compare as
  equal in the queue's order and are not equal (two init syncs with different ids).
\<close>

theorem client_ord_eq_mismatch:
  "\<exists>a b :: (nat, nat) ClientCollabMessage. client_cmp a b = Equal \<and> \<not> client_eq a b"
proof -
  let ?m = "\<lambda>i. CC_InitSync (InitSync_new (0::nat) ''doc'' (0::nat) ''ws'' i [])"
  have "client_cmp (?m 1) (?m 2) = Equal \<and> \<not> client_eq (?m 1) (?m 2)"
    by (simp add: client_eq_def InitSync_new_def)
  then show ?thesis by blast
qed

end
