(* ===== verification/Sink.thy ===== *)
theory Sink
  imports Collab_Msg
begin

text \<open>
  The client's outgoing queue: \<open>SinkQueue\<close>, \<open>QueueItem\<close> (\<open>sink_queue.rs\<close>), \<open>SinkConfig\<close>
  (\<open>sink_config.rs\<close>), \<open>CollabSink\<close>, its message-id counter and its runner (\<open>sink.rs\<close>), all
  under \<open>lib/client-api/src/collab_sync\<close>.

  The sink is generic in its message type, so the definitions take the record
  \<open>'m sink_message\<close> of the trait's operations.  Each method is one transition of the record
  \<open>collab_sink\<close>; \<open>watch\<close> channels are the last value sent, with a flag for a value the
  runner has not seen.  Where the code tries a lock, whether it gets it is an argument.
\<close>

section \<open>State\<close>

datatype SinkState = SinkInit | SinkSyncing | SinkFinished | SinkPause

fun sink_state_is_init :: "SinkState \<Rightarrow> bool" where
  "sink_state_is_init SinkInit = True"
| "sink_state_is_init _ = False"

fun sink_state_is_syncing :: "SinkState \<Rightarrow> bool" where
  "sink_state_is_syncing SinkSyncing = True"
| "sink_state_is_syncing _ = False"

datatype SinkSignal = SigStop | SigProceed | SigProcessAfterMillis u64

definition COLLAB_SINK_DELAY_MILLIS :: u64 where "COLLAB_SINK_DELAY_MILLIS = 500"
definition DEFAULT_SYNC_TIMEOUT :: u64 where "DEFAULT_SYNC_TIMEOUT = 10"

record SinkConfig =
  send_timeout_secs :: u64
  maximum_payload_size :: nat
  disable_merge_message :: bool

definition SinkConfig_default :: SinkConfig where
  "SinkConfig_default = \<lparr>send_timeout_secs = DEFAULT_SYNC_TIMEOUT,
     maximum_payload_size = 1024 * 10, disable_merge_message = False\<rparr>"

definition SinkConfig_send_timeout :: "SinkConfig \<Rightarrow> u64 \<Rightarrow> SinkConfig" where
  "SinkConfig_send_timeout c secs = c\<lparr>send_timeout_secs := secs\<rparr>"

record 'm QueueItem =
  qi_inner :: 'm
  qi_msg_id :: MsgId

definition QueueItem_new :: "'m \<Rightarrow> MsgId \<Rightarrow> 'm QueueItem" where
  "QueueItem_new msg msg_id = \<lparr>qi_inner = msg, qi_msg_id = msg_id\<rparr>"

definition QueueItem_cmp :: "'m sink_message \<Rightarrow> 'm QueueItem \<Rightarrow> 'm QueueItem \<Rightarrow> ordering" where
  "QueueItem_cmp S a b = sm_cmp S (qi_inner a) (qi_inner b)"

definition QueueItem_mergeable :: "'m sink_message \<Rightarrow> 'm QueueItem \<Rightarrow> bool" where
  "QueueItem_mergeable S a = sm_mergeable S (qi_inner a)"

definition QueueItem_merge ::
  "'m sink_message \<Rightarrow> 'm QueueItem \<Rightarrow> 'm QueueItem \<Rightarrow> nat \<Rightarrow> 'm QueueItem \<times> (read_error + bool)" where
  "QueueItem_merge S self other max_size =
     (case sm_merge S (qi_inner self) (qi_inner other) max_size of
        (m, r) \<Rightarrow> (self\<lparr>qi_inner := m\<rparr>, r))"

record 'm SinkQueue =
  sq_uid :: int
  sq_queue :: "'m QueueItem list"

definition SinkQueue_new :: "int \<Rightarrow> 'm SinkQueue" where
  "SinkQueue_new uid = \<lparr>sq_uid = uid, sq_queue = []\<rparr>"

definition push_msg :: "'m SinkQueue \<Rightarrow> MsgId \<Rightarrow> 'm \<Rightarrow> 'm SinkQueue" where
  "push_msg q msg_id msg = q\<lparr>sq_queue := bheap_push (sq_queue q) (QueueItem_new msg msg_id)\<rparr>"

record 'm CollabSink =
  cs_uid :: int
  cs_object_id :: string
  cs_message_queue :: "'m SinkQueue"
  cs_msg_id_counter :: u64
  cs_signal :: SinkSignal
  cs_signal_unseen :: bool
  cs_config :: SinkConfig
  cs_state :: SinkState
  cs_pause :: bool
  cs_flying_messages :: "MsgId set"

abbreviation cs_items :: "'m CollabSink \<Rightarrow> 'm QueueItem list" where
  "cs_items s \<equiv> sq_queue (cs_message_queue s)"

definition set_items :: "'m CollabSink \<Rightarrow> 'm QueueItem list \<Rightarrow> 'm CollabSink" where
  "set_items s q = s\<lparr>cs_message_queue := (cs_message_queue s)\<lparr>sq_queue := q\<rparr>\<rparr>"

definition CollabSink_new :: "int \<Rightarrow> string \<Rightarrow> SinkConfig \<Rightarrow> bool \<Rightarrow> 'm CollabSink" where
  "CollabSink_new uid object_id config pause =
     \<lparr>cs_uid = uid, cs_object_id = object_id, cs_message_queue = SinkQueue_new uid,
      cs_msg_id_counter = 0, cs_signal = SigProceed, cs_signal_unseen = False,
      cs_config = config, cs_state = SinkInit, cs_pause = pause, cs_flying_messages = {}\<rparr>"

section \<open>Operations\<close>

definition send_signal :: "SinkSignal \<Rightarrow> 'm CollabSink \<Rightarrow> 'm CollabSink" where
  "send_signal sig s = s\<lparr>cs_signal := sig, cs_signal_unseen := True\<rparr>"

definition notify :: "'m CollabSink \<Rightarrow> 'm CollabSink" where
  "notify s = send_signal SigProceed s"

definition retry_later :: "'m CollabSink \<Rightarrow> 'm CollabSink" where
  "retry_later s = send_signal (SigProcessAfterMillis 200) s"

text \<open>\<open>DefaultMsgIdCounter::next\<close>: \<open>fetch_add\<close> returns the old value and wraps.\<close>

definition counter_next :: "u64 \<Rightarrow> MsgId \<times> u64" where
  "counter_next c = (c, c + 1)"

text \<open>
  The loop of \<open>merge\<close>: items are popped in priority order and pushed on \<open>items\<close> (its last
  element first here), or merged into the last one.  A merge that returns \<open>Ok(false)\<close> counts
  as done: the code asks \<open>is_ok()\<close>.
\<close>

function merge_loop ::
  "'m sink_message \<Rightarrow> nat \<Rightarrow> MsgId set \<Rightarrow> 'm QueueItem list \<Rightarrow> 'm QueueItem list \<Rightarrow> 'm QueueItem list" where
  "merge_loop S max_size flying items q =
     (case bheap_pop (QueueItem_cmp S) q of
        None \<Rightarrow> rev items
      | Some (next, q') \<Rightarrow>
          if qi_msg_id next \<in> flying then merge_loop S max_size flying (next # items) q'
          else (case items of
             prev # items' \<Rightarrow>
               if qi_msg_id prev \<notin> flying \<and> sm_payload_size S (qi_inner prev) < max_size \<and>
                  QueueItem_mergeable S prev
               then (case QueueItem_merge S prev next max_size of
                       (prev', r) \<Rightarrow>
                         if is_ok r then merge_loop S max_size flying (prev' # items') q'
                         else merge_loop S max_size flying (next # prev' # items') q')
               else merge_loop S max_size flying (next # prev # items') q'
           | [] \<Rightarrow> merge_loop S max_size flying [next] q'))"
  by pat_completeness auto
termination
  by (relation "measure (\<lambda>(S, n, fl, items, q). length q)") (auto dest: bheap_pop_length)

declare merge_loop.simps [simp del]

definition sink_merge :: "'m sink_message \<Rightarrow> bool \<Rightarrow> 'm CollabSink \<Rightarrow> 'm CollabSink" where
  "sink_merge S locked s =
     (if disable_merge_message (cs_config s) then s
      else if locked then
        set_items s (bheap_extend []
          (merge_loop S (maximum_payload_size (cs_config s)) (cs_flying_messages s) [] (cs_items s)))
      else s)"

definition queue_msg :: "'m sink_message \<Rightarrow> bool \<Rightarrow> (MsgId \<Rightarrow> 'm) \<Rightarrow> 'm CollabSink \<Rightarrow> 'm CollabSink" where
  "queue_msg S locked f s =
     (let s1 = (if \<not> sink_state_is_syncing (cs_state s) then s\<lparr>cs_state := SinkSyncing\<rparr> else s);
          (msg_id, c) = counter_next (cs_msg_id_counter s1);
          s2 = s1\<lparr>cs_msg_id_counter := c,
                  cs_message_queue := push_msg (cs_message_queue s1) msg_id (f msg_id)\<rparr>;
          s3 = send_signal (SigProcessAfterMillis COLLAB_SINK_DELAY_MILLIS) s2
      in sink_merge S locked s3)"

definition sink_clear :: "bool \<Rightarrow> bool \<Rightarrow> 'm CollabSink \<Rightarrow> 'm CollabSink" where
  "sink_clear queue_locked flying_locked s =
     (let s1 = (if queue_locked then set_items s [] else s)
      in if flying_locked then s1\<lparr>cs_flying_messages := {}\<rparr> else s1)"

definition queue_init_sync :: "bool \<Rightarrow> bool \<Rightarrow> (MsgId \<Rightarrow> 'm) \<Rightarrow> 'm CollabSink \<Rightarrow> 'm CollabSink" where
  "queue_init_sync queue_locked flying_locked f s =
     (let s1 = (if \<not> sink_state_is_syncing (cs_state s) then s\<lparr>cs_state := SinkSyncing\<rparr> else s);
          s2 = sink_clear queue_locked flying_locked s1;
          (msg_id, c) = counter_next (cs_msg_id_counter s2);
          s3 = s2\<lparr>cs_msg_id_counter := c,
                  cs_message_queue := push_msg (cs_message_queue s2) msg_id (f msg_id)\<rparr>
      in send_signal SigProceed s3)"

definition can_queue_init_sync :: "'m sink_message \<Rightarrow> 'm CollabSink \<Rightarrow> bool" where
  "can_queue_init_sync S s =
     (case bheap_peek (QueueItem_cmp S) (cs_items s) of
        Some item \<Rightarrow> \<not> sm_is_client_init_sync S (qi_inner item)
      | None \<Rightarrow> True)"

definition sink_pause :: "'m CollabSink \<Rightarrow> 'm CollabSink" where
  "sink_pause s = s\<lparr>cs_pause := True, cs_state := SinkPause\<rparr>"

definition sink_resume :: "'m CollabSink \<Rightarrow> 'm CollabSink" where
  "sink_resume s = notify (s\<lparr>cs_pause := False\<rparr>)"

definition validate_response ::
  "'m sink_message \<Rightarrow> 'o ServerCollabMessage \<Rightarrow> 'm CollabSink \<Rightarrow> bool \<times> 'm CollabSink" where
  "validate_response S server_message s =
     (case server_msg_id server_message of
        None \<Rightarrow> (True, s)
      | Some income_message_id \<Rightarrow>
          if income_message_id \<notin> cs_flying_messages s then (False, s)
          else
            (let (is_valid, s1) =
               (case bheap_pop (QueueItem_cmp S) (cs_items s) of
                  Some (current_item, q') \<Rightarrow>
                    if qi_msg_id current_item \<noteq> income_message_id
                    then (False, set_items s (bheap_push q' current_item))
                    else (True, (set_items s q')
                           \<lparr>cs_flying_messages := cs_flying_messages s - {income_message_id}\<rparr>)
                | None \<Rightarrow> (False, s))
             in (is_valid, if cs_items s1 = [] then s1\<lparr>cs_state := SinkFinished\<rparr> else s1)))"

text \<open>The loop of \<open>get_next_batch_item\<close>: the batch, the items to put back, what is left of the queue.\<close>

function batch_loop ::
  "'m sink_message \<Rightarrow> MsgId set \<Rightarrow> 'm QueueItem list \<Rightarrow> 'm QueueItem list \<Rightarrow> 'm QueueItem list \<Rightarrow>
     'm QueueItem list \<times> 'm QueueItem list \<times> 'm QueueItem list" where
  "batch_loop S flying items requeue q =
     (case bheap_pop (QueueItem_cmp S) q of
        None \<Rightarrow> (items, requeue, q)
      | Some (item, q') \<Rightarrow>
          if 20 < length items then (items, requeue @ [item], q')
          else if qi_msg_id item \<in> flying then (items, requeue @ [item], q')
          else if sm_is_client_init_sync S (qi_inner item) then (items @ [item], requeue @ [item], q')
          else batch_loop S flying (items @ [item]) (requeue @ [item]) q')"
  by pat_completeness auto
termination
  by (relation "measure (\<lambda>(S, fl, items, rq, q). length q)") (auto dest: bheap_pop_length)

declare batch_loop.simps [simp del]

definition get_next_batch_item ::
  "'m sink_message \<Rightarrow> MsgId set \<Rightarrow> 'm QueueItem list \<Rightarrow> 'm QueueItem list \<times> MsgId set \<times> 'm QueueItem list" where
  "get_next_batch_item S flying q =
     (let (items, requeue, q') = batch_loop S flying [] [] q
      in (items, flying \<union> set (map qi_msg_id items), bheap_extend q' requeue))"

text \<open>What happened to the batch handed to the sender.\<close>

datatype send_outcome = SendOk | SendErr | SenderBusy

definition send_immediately ::
  "send_outcome \<Rightarrow> 'm QueueItem list \<Rightarrow> 'm CollabSink \<Rightarrow> 'm list option \<times> 'm CollabSink" where
  "send_immediately outcome items s =
     (let message_ids = set (map qi_msg_id items); messages = map qi_inner items
      in case outcome of
           SendOk \<Rightarrow> (Some messages, s)
         | SendErr \<Rightarrow> (None, s\<lparr>cs_flying_messages := cs_flying_messages s - message_ids\<rparr>)
         | SenderBusy \<Rightarrow> (None, retry_later (s\<lparr>cs_flying_messages := cs_flying_messages s - message_ids\<rparr>)))"

definition process_next_msg ::
  "'m sink_message \<Rightarrow> bool \<Rightarrow> send_outcome \<Rightarrow> 'm CollabSink \<Rightarrow> 'm list option \<times> 'm CollabSink" where
  "process_next_msg S locked outcome s =
     (if cs_pause s then (None, s)
      else if \<not> locked then (None, retry_later s)
      else
        (let (items, flying, q) = get_next_batch_item S (cs_flying_messages s) (cs_items s);
             s1 = (set_items s q)\<lparr>cs_flying_messages := flying\<rparr>
         in if items = [] then (None, s1) else send_immediately outcome items s1))"

text \<open>One tick of the resend interval; the flying set is forgotten so that the head is sent again.\<close>

definition interval_tick :: "'m CollabSink \<Rightarrow> 'm CollabSink" where
  "interval_tick s = send_signal SigProceed (s\<lparr>cs_flying_messages := {}\<rparr>)"

definition sink_drop :: "'m CollabSink \<Rightarrow> 'm CollabSink" where
  "sink_drop s = send_signal SigStop s"

text \<open>
  One round of \<open>CollabSinkRunner::run\<close>: wait for an unseen signal, then act on it.  The result
  says whether the runner goes on.
\<close>

definition runner_round ::
  "'m sink_message \<Rightarrow> bool \<Rightarrow> send_outcome \<Rightarrow> 'm CollabSink \<Rightarrow> bool \<times> 'm list option \<times> 'm CollabSink" where
  "runner_round S locked outcome s =
     (if \<not> cs_signal_unseen s then (True, None, s)
      else let s1 = s\<lparr>cs_signal_unseen := False\<rparr> in
        case cs_signal s1 of
          SigStop \<Rightarrow> (False, None, s1)
        | SigProceed \<Rightarrow> (True, process_next_msg S locked outcome s1)
        | SigProcessAfterMillis millis \<Rightarrow> (True, process_next_msg S locked outcome s1))"

section \<open>Lemmas: the items are ordered like their messages\<close>

definition item_ids :: "'m QueueItem list \<Rightarrow> MsgId set" where
  "item_ids q = qi_msg_id ` set q"

lemma item_ids_simps [simp]:
  "item_ids [] = {}" "item_ids (x # q) = insert (qi_msg_id x) (item_ids q)"
  "item_ids (q @ r) = item_ids q \<union> item_ids r"
  by (auto simp: item_ids_def)

lemma item_ids_mset: "mset q = mset r \<Longrightarrow> item_ids q = item_ids r"
  by (metis item_ids_def set_mset_mset)

lemma set_items_simps [simp]:
  "cs_items (set_items s q) = q" "cs_flying_messages (set_items s q) = cs_flying_messages s"
  "cs_msg_id_counter (set_items s q) = cs_msg_id_counter s" "cs_state (set_items s q) = cs_state s"
  "cs_pause (set_items s q) = cs_pause s" "cs_config (set_items s q) = cs_config s"
  "cs_signal (set_items s q) = cs_signal s"
  by (simp_all add: set_items_def)

lemma send_signal_simps [simp]:
  "cs_items (send_signal g s) = cs_items s"
  "cs_flying_messages (send_signal g s) = cs_flying_messages s"
  "cs_msg_id_counter (send_signal g s) = cs_msg_id_counter s"
  "cs_state (send_signal g s) = cs_state s" "cs_pause (send_signal g s) = cs_pause s"
  "cs_config (send_signal g s) = cs_config s"
  "cs_signal (send_signal g s) = g" "cs_signal_unseen (send_signal g s)"
  by (simp_all add: send_signal_def)

text \<open>No two items of the queue rank equal.\<close>

definition no_ties :: "'m sink_message \<Rightarrow> 'm QueueItem list \<Rightarrow> bool" where
  "no_ties S q \<longleftrightarrow> (\<forall>x \<in># mset q. \<forall>y \<in># mset q - {#x#}. QueueItem_cmp S x y \<noteq> Equal)"

sublocale sink_message_contract \<subseteq> item: rust_ord "QueueItem_cmp S"
  by unfold_locales (unfold QueueItem_cmp_def, (rule ord_refl ord_swap | erule (1) ord_trans)+)

context sink_message_contract
begin

text \<open>The batch: which items, in which order, and where the rest stays.\<close>

lemma batch_loop_spec:
  "\<exists>b t r. batch_loop S fl items rq q = (items @ b, rq @ b @ t, r) \<and>
     mset q = mset b + mset t + mset r \<and>
     (length items \<le> 21 \<longrightarrow> length items + length b \<le> 21) \<and>
     item_ids b \<inter> fl = {} \<and>
     (\<forall>x \<in> set (butlast b). \<not> sm_is_client_init_sync S (qi_inner x)) \<and>
     sorted_wrt (\<lambda>x y. QueueItem_cmp S y x \<noteq> Greater) b \<and>
     (\<forall>x \<in> set b. \<forall>y \<in> set t \<union> set r. QueueItem_cmp S y x \<noteq> Greater)"
proof (induction q arbitrary: items rq rule: measure_induct_rule [of length])
  case (less q)
  note unfold = batch_loop.simps [of S fl items rq q]
  show ?case
  proof (cases "bheap_pop (QueueItem_cmp S) q")
    case None
    then show ?thesis
      by (intro exI [of _ "[]"] exI [of _ q]) (simp add: batch_loop.simps [of S fl items rq "[]"])
  next
    case (Some p)
    obtain x q' where p: "p = (x, q')" by (cases p)
    with Some have pop: "bheap_pop (QueueItem_cmp S) q = Some (x, q')" by simp
    have ms: "mset q = add_mset x (mset q')" using pop by (rule bheap_pop_mset)
    have mx: "\<forall>y \<in> set q'. QueueItem_cmp S y x \<noteq> Greater"
      using item.bheap_pop_max [OF pop] bheap_pop_set [OF pop] by blast
    consider (stop) "20 < length items \<or> qi_msg_id x \<in> fl"
      | (init) "length items \<le> 20" "qi_msg_id x \<notin> fl" "sm_is_client_init_sync S (qi_inner x)"
      | (go) "length items \<le> 20" "qi_msg_id x \<notin> fl" "\<not> sm_is_client_init_sync S (qi_inner x)"
      by linarith
    then show ?thesis
    proof cases
      case stop
      then show ?thesis
        by (intro exI [of _ "[]"] exI [of _ "[x]"] exI [of _ q']) (auto simp: unfold pop ms)
    next
      case init
      then show ?thesis using mx
        by (intro exI [of _ "[x]"] exI [of _ "[]"] exI [of _ q']) (simp add: unfold pop ms)
    next
      case go
      have "length q' < length q" using bheap_pop_length [OF pop] by simp
      from less.IH [OF this, of "items @ [x]" "rq @ [x]"]
      obtain b t r where IH:
        "batch_loop S fl (items @ [x]) (rq @ [x]) q' = ((items @ [x]) @ b, (rq @ [x]) @ b @ t, r)"
        "mset q' = mset b + mset t + mset r"
        "length (items @ [x]) \<le> 21 \<longrightarrow> length (items @ [x]) + length b \<le> 21"
        "item_ids b \<inter> fl = {}"
        "\<forall>y \<in> set (butlast b). \<not> sm_is_client_init_sync S (qi_inner y)"
        "sorted_wrt (\<lambda>x y. QueueItem_cmp S y x \<noteq> Greater) b"
        "\<forall>x \<in> set b. \<forall>y \<in> set t \<union> set r. QueueItem_cmp S y x \<noteq> Greater"
        by blast
      have sub: "set q' = set b \<union> set t \<union> set r"
        using arg_cong [OF IH(2), of set_mset] by simp
      have step: "batch_loop S fl items rq q = batch_loop S fl (items @ [x]) (rq @ [x]) q'"
        using go by (simp add: unfold pop)
      show ?thesis
      proof (intro exI conjI)
        show "batch_loop S fl items rq q = (items @ (x # b), rq @ (x # b) @ t, r)"
          using step IH(1) by simp
        show "mset q = mset (x # b) + mset t + mset r" using ms IH(2) by simp
        show "length items \<le> 21 \<longrightarrow> length items + length (x # b) \<le> 21" using go(1) IH(3) by simp
        show "item_ids (x # b) \<inter> fl = {}" using go(2) IH(4) by simp
        show "\<forall>y \<in> set (butlast (x # b)). \<not> sm_is_client_init_sync S (qi_inner y)"
          using go(3) IH(5) by (cases b) auto
        show "sorted_wrt (\<lambda>x y. QueueItem_cmp S y x \<noteq> Greater) (x # b)"
          using mx IH(6) sub by simp
        show "\<forall>x \<in> set (x # b). \<forall>y \<in> set t \<union> set r. QueueItem_cmp S y x \<noteq> Greater"
          using mx IH(7) sub by auto
      qed
    qed
  qed
qed

lemma get_next_batch_spec:
  assumes "get_next_batch_item S fl q = (items, fl', q')"
  shows "mset q' = mset q" "fl' = fl \<union> item_ids items" "length items \<le> 21"
    "item_ids items \<inter> fl = {}" "set items \<subseteq> set q"
    "\<forall>x \<in> set (butlast items). \<not> sm_is_client_init_sync S (qi_inner x)"
    "\<exists>rest. mset q = mset items + mset rest \<and>
       sorted_wrt (\<lambda>x y. QueueItem_cmp S y x \<noteq> Greater) items \<and>
       (\<forall>x \<in> set items. \<forall>y \<in> set rest. QueueItem_cmp S y x \<noteq> Greater)"
proof -
  obtain b t r where B: "batch_loop S fl [] [] q = ([] @ b, [] @ b @ t, r)"
     "mset q = mset b + mset t + mset r" "length ([] :: 'a QueueItem list) \<le> 21 \<longrightarrow> 0 + length b \<le> 21"
     "item_ids b \<inter> fl = {}"
     "\<forall>x \<in> set (butlast b). \<not> sm_is_client_init_sync S (qi_inner x)"
     "sorted_wrt (\<lambda>x y. QueueItem_cmp S y x \<noteq> Greater) b"
     "\<forall>x \<in> set b. \<forall>y \<in> set t \<union> set r. QueueItem_cmp S y x \<noteq> Greater"
    using batch_loop_spec [of fl "[]" "[]" q] by auto
  from assms B(1) have e: "items = b" "fl' = fl \<union> item_ids b" "q' = bheap_extend r (b @ t)"
    by (auto simp: get_next_batch_item_def item_ids_def)
  show "mset q' = mset q" "fl' = fl \<union> item_ids items" "length items \<le> 21"
    "item_ids items \<inter> fl = {}" "\<forall>x \<in> set (butlast items). \<not> sm_is_client_init_sync S (qi_inner x)"
    using B e by (simp_all add: ac_simps)
  show "set items \<subseteq> set q" using arg_cong [OF B(2), of set_mset] e(1) by auto
  show "\<exists>rest. mset q = mset items + mset rest \<and>
       sorted_wrt (\<lambda>x y. QueueItem_cmp S y x \<noteq> Greater) items \<and>
       (\<forall>x \<in> set items. \<forall>y \<in> set rest. QueueItem_cmp S y x \<noteq> Greater)"
    using B e by (intro exI [of _ "t @ r"]) (simp add: ac_simps)
qed

lemma get_next_batch_nonempty:
  assumes "q \<noteq> []" and "fl = {}"
  shows "fst (get_next_batch_item S fl q) \<noteq> []"
proof -
  from assms(1) obtain x q' where pop: "bheap_pop (QueueItem_cmp S) q = Some (x, q')"
    by (metis bheap_pop_None not_Some_eq surj_pair)
  obtain b t r where "batch_loop S fl [x] [x] q' = ([x] @ b, [x] @ b @ t, r)"
    using batch_loop_spec [of fl "[x]" "[x]" q'] by blast
  with pop assms(2) show ?thesis
    by (simp add: get_next_batch_item_def batch_loop.simps [of S "{}" "[]" "[]" q] split: prod.splits)
qed

text \<open>Merging: what happens to ids, to items in flight and to init syncs.\<close>

lemma QueueItem_merge_id: "qi_msg_id (fst (QueueItem_merge S a b n)) = qi_msg_id a"
  by (simp add: QueueItem_merge_def split: prod.splits)

lemma QueueItem_merge_init:
  "sm_is_client_init_sync S (qi_inner (fst (QueueItem_merge S a b n))) =
     sm_is_client_init_sync S (qi_inner a)"
  using merge_init [of "qi_inner a" "qi_inner b" n]
  by (cases "sm_merge S (qi_inner a) (qi_inner b) n") (simp add: QueueItem_merge_def)

text \<open>
  One induction covers every invariant of the loop: a predicate \<open>P\<close> of the items collected and
  the queue left is kept by pushing and by merging, so it holds of the result.
\<close>

lemma merge_loop_induct:
  assumes start: "P items q"
    and push: "\<And>items q x q'. P items q \<Longrightarrow> bheap_pop (QueueItem_cmp S) q = Some (x, q') \<Longrightarrow> P (x # items) q'"
    and merge: "\<And>prev items q x q'. P (prev # items) q \<Longrightarrow>
       bheap_pop (QueueItem_cmp S) q = Some (x, q') \<Longrightarrow> qi_msg_id x \<notin> fl \<Longrightarrow> qi_msg_id prev \<notin> fl \<Longrightarrow>
       QueueItem_mergeable S prev \<Longrightarrow> P (fst (QueueItem_merge S prev x n) # items) q'"
  shows "\<exists>res. merge_loop S n fl items q = rev res \<and> P res []"
  using start
proof (induction q arbitrary: items rule: measure_induct_rule [of length])
  case (less q)
  note unfold = merge_loop.simps [of S n fl _ q]
  show ?case
  proof (cases "bheap_pop (QueueItem_cmp S) q")
    case None
    with less.prems show ?thesis by (auto simp: merge_loop.simps [of S n fl items "[]"])
  next
    case (Some p)
    obtain x q' where p: "p = (x, q')" by (cases p)
    with Some have pop: "bheap_pop (QueueItem_cmp S) q = Some (x, q')" by simp
    then have len: "length q' < length q" by (simp add: bheap_pop_length)
    have pushed: "\<exists>res. merge_loop S n fl (x # items) q' = rev res \<and> P res []"
      using less.IH [OF len] push [OF less.prems pop] by blast
    show ?thesis
    proof (cases "items = [] \<or> qi_msg_id x \<in> fl \<or> qi_msg_id (hd items) \<in> fl \<or>
                  \<not> sm_payload_size S (qi_inner (hd items)) < n \<or> \<not> QueueItem_mergeable S (hd items)")
      case True
      then have "merge_loop S n fl items q = merge_loop S n fl (x # items) q'"
        by (cases items) (auto simp: unfold pop)
      with pushed show ?thesis by simp
    next
      case False
      then obtain prev items' where i: "items = prev # items'" by (cases items) auto
      obtain prev' r where m: "QueueItem_merge S prev x n = (prev', r)"
        by (cases "QueueItem_merge S prev x n")
      have merged: "P (prev' # items') q'"
        using merge [of prev items' q x q'] less.prems pop False i m by simp
      show ?thesis
      proof (cases "is_ok r")
        case True
        then have "merge_loop S n fl items q = merge_loop S n fl (prev' # items') q'"
          using False i m by (simp add: unfold pop)
        with less.IH [OF len merged] show ?thesis by simp
      next
        case err: False
        then have "r \<noteq> Inr True" by auto
        then have "prev' = prev" using m merge_unchanged [of "qi_inner prev" "qi_inner x" n]
          by (auto simp: QueueItem_merge_def split: prod.splits)
        then have "merge_loop S n fl items q = merge_loop S n fl (x # items) q'"
          using False i m err by (simp add: unfold pop)
        with pushed show ?thesis by simp
      qed
    qed
  qed
qed

lemma merge_loop_ids:
  "mset (map qi_msg_id (merge_loop S n fl items q)) \<subseteq># mset (map qi_msg_id items) + mset (map qi_msg_id q)"
proof -
  let ?M = "mset (map qi_msg_id items) + mset (map qi_msg_id q)"
  let ?P = "\<lambda>(items' :: 'm QueueItem list) (q' :: 'm QueueItem list). mset (map qi_msg_id items') + mset (map qi_msg_id q') \<subseteq># ?M"
  have "\<exists>res. merge_loop S n fl items q = rev res \<and> ?P res []"
  proof (rule merge_loop_induct [where P = ?P])
    fix items' q' x q''
    assume P: "?P items' q'" and pop: "bheap_pop (QueueItem_cmp S) q' = Some (x, q'')"
    have ms: "image_mset qi_msg_id (mset q') = add_mset (qi_msg_id x) (image_mset qi_msg_id (mset q''))"
      by (simp add: bheap_pop_mset [OF pop])
    then show "?P (x # items') q''" using P by simp
  next
    fix prev items' q' x q''
    assume P: "?P (prev # items') q'" and pop: "bheap_pop (QueueItem_cmp S) q' = Some (x, q'')"
    have ms: "image_mset qi_msg_id (mset q') = add_mset (qi_msg_id x) (image_mset qi_msg_id (mset q''))"
      by (simp add: bheap_pop_mset [OF pop])
    have "mset (map qi_msg_id (fst (QueueItem_merge S prev x n) # items')) + mset (map qi_msg_id q'')
        \<subseteq># mset (map qi_msg_id (prev # items')) + mset (map qi_msg_id q')"
      by (simp add: QueueItem_merge_id ms)
    with P show "?P (fst (QueueItem_merge S prev x n) # items') q''"
      using subset_mset.order_trans by blast
  qed simp
  then show ?thesis by (auto simp: mset_map)
qed

lemma merge_loop_flying:
  "filter_mset (\<lambda>x. qi_msg_id x \<in> fl) (mset (merge_loop S n fl items q)) =
   filter_mset (\<lambda>x. qi_msg_id x \<in> fl) (mset items + mset q)"
proof -
  let ?F = "filter_mset (\<lambda>x. qi_msg_id x \<in> fl)"
  let ?P = "\<lambda>items' q'. ?F (mset items' + mset q') = ?F (mset items + mset q)"
  have "\<exists>res. merge_loop S n fl items q = rev res \<and> ?P res []"
    by (rule merge_loop_induct [where P = ?P]) (auto dest!: bheap_pop_mset simp: QueueItem_merge_id)
  then show ?thesis by auto
qed

lemma merge_loop_init:
  "filter_mset (\<lambda>x. sm_is_client_init_sync S (qi_inner x)) (mset (merge_loop S n fl [] q)) =
   filter_mset (\<lambda>x. sm_is_client_init_sync S (qi_inner x)) (mset q)"
proof -
  let ?I = "\<lambda>x. sm_is_client_init_sync S (qi_inner x)"
  let ?P = "\<lambda>items' q'. filter_mset ?I (mset items' + mset q') = filter_mset ?I (mset q) \<and>
    ((\<exists>x \<in> set q'. ?I x) \<longrightarrow> (\<forall>y \<in> set items'. ?I y))"
  have first: "?I x" if "bheap_pop (QueueItem_cmp S) q' = Some (x, q'')" "y \<in> set q'" "?I y" for x y q' q''
    using item.bheap_pop_max [OF that(1,2)] that(3) init_upward [of "qi_inner y" "qi_inner x"]
      ord_Greater_swap [of "qi_inner y" "qi_inner x"] by (simp add: QueueItem_cmp_def)
  have "\<exists>res. merge_loop S n fl [] q = rev res \<and> ?P res []"
  proof (rule merge_loop_induct [where P = ?P])
    fix items' q' x q''
    assume P: "?P items' q'" and pop: "bheap_pop (QueueItem_cmp S) q' = Some (x, q'')"
    have s: "set q' = insert x (set q'')" using pop by (rule bheap_pop_set)
    from P have "filter_mset ?I (mset (x # items') + mset q'') = filter_mset ?I (mset q)"
      by (simp add: bheap_pop_mset [OF pop])
    moreover have "\<forall>y \<in> set (x # items'). ?I y" if ex: "\<exists>y \<in> set q''. ?I y"
    proof -
      obtain y where y: "y \<in> set q'" "?I y" using ex s by blast
      have "?I x" using first [OF pop y] .
      moreover have "\<forall>y \<in> set items'. ?I y" using P y by blast
      ultimately show ?thesis by simp
    qed
    ultimately show "?P (x # items') q''" by blast
  next
    fix prev items' q' x q''
    assume P: "?P (prev # items') q'" and pop: "bheap_pop (QueueItem_cmp S) q' = Some (x, q'')"
      and mg: "QueueItem_mergeable S prev"
    have s: "set q' = insert x (set q'')" using pop by (rule bheap_pop_set)
    have ni: "\<not> ?I prev" using mg mergeable_not_init by (simp add: QueueItem_mergeable_def)
    with P have none: "\<not> (\<exists>y \<in> set q'. ?I y)" by auto
    have "\<not> ?I (fst (QueueItem_merge S prev x n))" using ni QueueItem_merge_init by simp
    moreover have "\<not> ?I x" "\<not> (\<exists>y \<in> set q''. ?I y)" using none s by auto
    ultimately show "?P (fst (QueueItem_merge S prev x n) # items') q''"
      using P ni by (simp add: bheap_pop_mset [OF pop])
  qed simp
  then show ?thesis by auto
qed

text \<open>Ties and the order in which acknowledgements are accepted.\<close>

lemma no_ties_mset: "mset q = mset r \<Longrightarrow> no_ties S q = no_ties S r"
  by (simp add: no_ties_def)

lemma no_ties_sub:
  assumes "no_ties S q" and "mset q = add_mset x (mset r)"
  shows "no_ties S r"
  unfolding no_ties_def
proof (intro ballI)
  fix a b assume a: "a \<in># mset r" and b: "b \<in># mset r - {#a#}"
  have "a \<in># mset q" using a assms(2) by simp
  moreover have "b \<in># mset q - {#a#}"
    using b unfolding assms(2) by (auto simp: in_diff_count split: if_splits)
  ultimately show "QueueItem_cmp S a b \<noteq> Equal" using assms(1) by (simp add: no_ties_def)
qed

lemma pop_greatest:
  assumes "no_ties S q" and "mset q = add_mset x (mset r)"
    and "\<forall>y \<in> set r. QueueItem_cmp S y x \<noteq> Greater"
  shows "\<exists>q'. bheap_pop (QueueItem_cmp S) q = Some (x, q') \<and> mset q' = mset r"
proof -
  have x: "x \<in> set q" using assms(2) by (metis set_mset_mset union_single_eq_member)
  then obtain y q' where pop: "bheap_pop (QueueItem_cmp S) q = Some (y, q')"
    by (metis bheap_pop_None empty_iff empty_set not_Some_eq surj_pair)
  have ms: "mset q = add_mset y (mset q')" using pop by (rule bheap_pop_mset)
  have "y = x"
  proof (rule ccontr)
    assume "y \<noteq> x"
    then have "y \<in># mset q - {#x#}" using ms assms(2) by (metis add_mset_remove_trivial insert_noteq_member)
    then have ne: "QueueItem_cmp S x y \<noteq> Equal" using assms(1) x by (simp add: no_ties_def)
    have "QueueItem_cmp S x y \<noteq> Greater" using item.bheap_pop_max [OF pop x] .
    moreover have "y \<in> set r" using \<open>y \<in># mset q - {#x#}\<close> assms(2) by simp
    then have "QueueItem_cmp S y x \<noteq> Greater" using assms(3) by blast
    ultimately show False using ne item.ord_swap [of x y] by (cases "QueueItem_cmp S y x") auto
  qed
  with pop ms assms(2) show ?thesis by auto
qed

end

end
