(* ===== verification/Sink_Sync.thy ===== *)
theory Sink_Sync
  imports Sink
begin

text \<open>
  The sink as a transition system: the calls and timer events of a \<open>CollabSink\<close> as the datatype
  \<open>sink_event\<close>, runs over a list of events, the invariant every run keeps, and what the sink
  promises: no message in flight is touched, batches follow the priority order, an answer removes
  exactly the message it answers, and a queue that is processed and acknowledged drains.
\<close>

section \<open>Events and runs\<close>

datatype ('m, 'o) sink_event =
    EvQueue bool "MsgId \<Rightarrow> 'm"
  | EvQueueInit bool bool "MsgId \<Rightarrow> 'm"
  | EvResponse "'o ServerCollabMessage"
  | EvProcess bool send_outcome
  | EvTick
  | EvPause
  | EvResume
  | EvClear bool bool

fun sink_step :: "'m sink_message \<Rightarrow> ('m, 'o) sink_event \<Rightarrow> 'm CollabSink \<Rightarrow> 'm CollabSink" where
  "sink_step S (EvQueue l f) s = queue_msg S l f s"
| "sink_step S (EvQueueInit ql fl f) s = queue_init_sync ql fl f s"
| "sink_step S (EvResponse m) s = snd (validate_response S m s)"
| "sink_step S (EvProcess l out) s = snd (process_next_msg S l out s)"
| "sink_step S EvTick s = interval_tick s"
| "sink_step S EvPause s = sink_pause s"
| "sink_step S EvResume s = sink_resume s"
| "sink_step S (EvClear ql fl) s = sink_clear ql fl s"

fun sink_run :: "'m sink_message \<Rightarrow> ('m, 'o) sink_event list \<Rightarrow> 'm CollabSink \<Rightarrow> 'm CollabSink" where
  "sink_run S [] s = s"
| "sink_run S (e # es) s = sink_run S es (sink_step S e s)"

lemma sink_run_append: "sink_run S (es @ fs) s = sink_run S fs (sink_run S es s)"
  by (induction es arbitrary: s) auto

text \<open>A clear that gets the queue also gets the flying set (nobody holds it in between).\<close>

fun uncontended :: "('m, 'o) sink_event \<Rightarrow> bool" where
  "uncontended (EvQueueInit ql fl f) = (fl \<or> \<not> ql)"
| "uncontended (EvClear ql fl) = (fl \<or> \<not> ql)"
| "uncontended _ = True"

definition sink_inv :: "'m CollabSink \<Rightarrow> bool" where
  "sink_inv s \<longleftrightarrow> distinct (map qi_msg_id (cs_items s)) \<and>
     (\<forall>i \<in> item_ids (cs_items s). i < cs_msg_id_counter s) \<and>
     cs_flying_messages s \<subseteq> item_ids (cs_items s)"

text \<open>What the processing steps of a run hand to the network.\<close>

fun sink_sent :: "'m sink_message \<Rightarrow> ('m, 'o) sink_event list \<Rightarrow> 'm CollabSink \<Rightarrow> 'm list" where
  "sink_sent S [] s = []"
| "sink_sent S (e # es) s =
     (case e of
        EvProcess l out \<Rightarrow> (case fst (process_next_msg S l out s) of None \<Rightarrow> [] | Some ms \<Rightarrow> ms)
      | _ \<Rightarrow> []) @ sink_sent S es (sink_step S e s)"

lemma sink_sent_append: "sink_sent S (es @ fs) s = sink_sent S es s @ sink_sent S fs (sink_run S es s)"
  by (induction es arbitrary: s) auto

text \<open>Acknowledgements of a list of message ids.\<close>

definition acks :: "'o \<Rightarrow> string \<Rightarrow> MsgId list \<Rightarrow> ('m, 'o) sink_event list" where
  "acks o1 oid is = map (\<lambda>i. EvResponse (SC_ClientAck (CollabAck_new o1 oid i))) is"

lemma sink_sent_acks [simp]: "sink_sent S (acks o1 oid is) s = []"
  by (induction "is" arbitrary: s) (simp_all add: acks_def)

text \<open>Processing with a free network, or acknowledging.\<close>

fun sync_event :: "'o \<Rightarrow> string \<Rightarrow> ('m, 'o) sink_event \<Rightarrow> bool" where
  "sync_event o1 oid (EvProcess l out) = (l \<and> out = SendOk)"
| "sync_event o1 oid (EvResponse m) = (\<exists>i. m = SC_ClientAck (CollabAck_new o1 oid i))"
| "sync_event o1 oid _ = False"

lemma sink_inv_new: "sink_inv (CollabSink_new uid oid c p)"
  by (simp add: sink_inv_def CollabSink_new_def SinkQueue_new_def)

lemma distinct_ids_mset: "distinct (map qi_msg_id q) \<longleftrightarrow> (\<forall>i. count (mset (map qi_msg_id q)) i \<le> 1)"
  by (metis One_nat_def count_mset_0_iff distinct_count_atmost_1 le_Suc_eq le_zero_eq order_refl not_one_le_zero)

lemma distinct_ids_subset:
  assumes "mset (map qi_msg_id r) \<subseteq># mset (map qi_msg_id q)" and "distinct (map qi_msg_id q)"
  shows "distinct (map qi_msg_id r)"
  using assms unfolding distinct_ids_mset by (meson mset_subset_eq_count order_trans)

lemma distinct_ids_cong:
  "mset q = mset r \<Longrightarrow> distinct (map qi_msg_id q) = distinct (map qi_msg_id r)"
  unfolding distinct_ids_mset by (simp add: mset_map)

lemma sink_inv_cong:
  assumes "mset (cs_items t) = mset (cs_items s)" and "cs_msg_id_counter t = cs_msg_id_counter s"
    and "cs_flying_messages t \<subseteq> cs_flying_messages s" and "sink_inv s"
  shows "sink_inv t"
  using assms distinct_ids_cong [OF assms(1)] item_ids_mset [OF assms(1)]
  by (auto simp: sink_inv_def)

text \<open>Frames of the operations.\<close>

lemma sink_merge_frame [simp]:
  "cs_msg_id_counter (sink_merge S l s) = cs_msg_id_counter s"
  "cs_flying_messages (sink_merge S l s) = cs_flying_messages s"
  "cs_pause (sink_merge S l s) = cs_pause s" "cs_state (sink_merge S l s) = cs_state s"
  "cs_config (sink_merge S l s) = cs_config s"
  by (simp_all add: sink_merge_def)

lemma send_immediately_frame:
  "cs_items (snd (send_immediately out items s)) = cs_items s"
  "cs_msg_id_counter (snd (send_immediately out items s)) = cs_msg_id_counter s"
  "cs_flying_messages (snd (send_immediately out items s)) =
     (if out = SendOk then cs_flying_messages s else cs_flying_messages s - item_ids items)"
  by (cases out; simp add: send_immediately_def Let_def retry_later_def item_ids_def)+

section \<open>Preservation of the invariant\<close>

lemma queue_msg_shape:
  "\<exists>s3. queue_msg S l f s = sink_merge S l s3 \<and>
     cs_items s3 = cs_items s @ [QueueItem_new (f (cs_msg_id_counter s)) (cs_msg_id_counter s)] \<and>
     cs_msg_id_counter s3 = cs_msg_id_counter s + 1 \<and> cs_flying_messages s3 = cs_flying_messages s \<and>
     cs_pause s3 = cs_pause s \<and> cs_config s3 = cs_config s \<and> cs_state s3 = SinkSyncing"
  by (cases "cs_state s";
      simp add: queue_msg_def counter_next_def push_msg_def bheap_push_def Let_def;
      rule exI; rule conjI; (rule refl)?; simp)

lemma counter_less:
  assumes "unat (c :: u64) + 1 < 2 ^ 64"
  shows "c < c + 1" and "i < c \<Longrightarrow> i < c + 1" and "unat (c + 1) = unat c + 1"
proof -
  show u: "unat (c + 1) = unat c + 1" using assms by (simp add: unat_word_ariths)
  show "c < c + 1" using u by (simp add: word_less_nat_alt)
  then show "i < c \<Longrightarrow> i < c + 1" by (rule less_trans [rotated])
qed

lemma push_inv:
  assumes "sink_inv s" and "unat (cs_msg_id_counter s) + 1 < 2 ^ 64"
    and "cs_items t = cs_items s @ [QueueItem_new m (cs_msg_id_counter s)]"
    and "cs_msg_id_counter t = cs_msg_id_counter s + 1"
  shows "distinct (map qi_msg_id (cs_items t)) \<and>
    (\<forall>i \<in> item_ids (cs_items t). i < cs_msg_id_counter t) \<and> item_ids (cs_items s) \<subseteq> item_ids (cs_items t)"
proof -
  let ?c = "cs_msg_id_counter s"
  have lt: "\<forall>i \<in> item_ids (cs_items s). i < ?c" using assms(1) by (simp add: sink_inv_def)
  then have "?c \<notin> item_ids (cs_items s)" by auto
  then have "distinct (map qi_msg_id (cs_items t))"
    using assms(1,3) by (auto simp: sink_inv_def item_ids_def QueueItem_new_def)
  moreover have "\<forall>i \<in> item_ids (cs_items t). i < cs_msg_id_counter t"
    using lt counter_less [OF assms(2)] assms(3,4) by (auto simp: QueueItem_new_def)
  ultimately show ?thesis using assms(3) by auto
qed

lemma queue_init_inv:
  assumes "sink_inv s" and "unat (cs_msg_id_counter s) + 1 < 2 ^ 64" and "fl \<or> \<not> ql"
  shows "sink_inv (queue_init_sync ql fl f s)"
proof -
  let ?s0 = "sink_clear ql fl s"
  have s0: "sink_inv ?s0" "cs_msg_id_counter ?s0 = cs_msg_id_counter s"
    using assms(1,3) by (auto simp: sink_clear_def Let_def sink_inv_def)
  let ?t = "queue_init_sync ql fl f s"
  have t: "cs_items ?t = cs_items ?s0 @ [QueueItem_new (f (cs_msg_id_counter s)) (cs_msg_id_counter ?s0)]"
    "cs_msg_id_counter ?t = cs_msg_id_counter ?s0 + 1" "cs_flying_messages ?t = cs_flying_messages ?s0"
    by (cases "cs_state s"; simp add: queue_init_sync_def sink_clear_def counter_next_def push_msg_def
          bheap_push_def Let_def set_items_def)+
  have "unat (cs_msg_id_counter ?s0) + 1 < 2 ^ 64" using assms(2) s0(2) by simp
  from push_inv [OF s0(1) this t(1,2)] t(3) s0(1) show ?thesis by (auto simp: sink_inv_def)
qed

lemma counter_step:
  assumes "unat (cs_msg_id_counter s) + 1 < 2 ^ 64"
  shows "unat (cs_msg_id_counter (sink_step S e s)) \<le> unat (cs_msg_id_counter s) + 1"
proof (cases e)
  case (EvQueue l f)
  obtain s3 where "queue_msg S l f s = sink_merge S l s3" "cs_msg_id_counter s3 = cs_msg_id_counter s + 1"
    using queue_msg_shape [of S l f s] by blast
  with EvQueue counter_less(3) [OF assms] show ?thesis by simp
next
  case (EvQueueInit ql fl f)
  have "cs_msg_id_counter (queue_init_sync ql fl f s) = cs_msg_id_counter s + 1"
    by (cases "cs_state s"; simp add: queue_init_sync_def sink_clear_def counter_next_def Let_def)
  with EvQueueInit counter_less(3) [OF assms] show ?thesis by simp
next
  case (EvResponse m)
  have "cs_msg_id_counter (snd (validate_response S m s)) = cs_msg_id_counter s"
    by (auto simp: validate_response_def Let_def split: option.splits prod.splits if_splits)
  with EvResponse show ?thesis by simp
next
  case (EvProcess l out)
  have "cs_msg_id_counter (snd (process_next_msg S l out s)) = cs_msg_id_counter s"
    by (auto simp: process_next_msg_def Let_def retry_later_def send_immediately_frame split: prod.splits)
  with EvProcess show ?thesis by simp
qed (simp_all add: interval_tick_def sink_pause_def sink_resume_def notify_def sink_clear_def Let_def)

context sink_message_contract
begin

lemma sink_merge_inv:
  assumes "sink_inv s" shows "sink_inv (sink_merge S l s)"
proof (cases "disable_merge_message (cs_config s) \<or> \<not> l")
  case True
  then show ?thesis using assms by (auto simp: sink_merge_def)
next
  case False
  let ?q = "cs_items s" and ?fl = "cs_flying_messages s"
  let ?r = "merge_loop S (maximum_payload_size (cs_config s)) ?fl [] ?q"
  have t: "cs_items (sink_merge S l s) = ?r"
    using False by (simp add: sink_merge_def bheap_extend_def)
  have sub: "mset (map qi_msg_id ?r) \<subseteq># mset (map qi_msg_id ?q)"
    using merge_loop_ids [of _ ?fl "[]" ?q] by simp
  then have d: "distinct (map qi_msg_id ?r)"
    using assms by (intro distinct_ids_subset [OF sub]) (simp add: sink_inv_def)
  have ids: "item_ids ?r \<subseteq> item_ids ?q"
    using set_mset_mono [OF sub] by (simp add: item_ids_def)
  have "?fl \<subseteq> item_ids ?r"
  proof
    fix i assume i: "i \<in> ?fl"
    then obtain x where x: "x \<in> set ?q" "qi_msg_id x = i"
      using assms by (auto simp: sink_inv_def item_ids_def)
    then have "x \<in># filter_mset (\<lambda>x. qi_msg_id x \<in> ?fl) (mset ?q)" using i by simp
    then have "x \<in># filter_mset (\<lambda>x. qi_msg_id x \<in> ?fl) (mset ?r)"
      using merge_loop_flying [of ?fl _ "[]" ?q] by simp
    then show "i \<in> item_ids ?r" using x(2) by (auto simp: item_ids_def)
  qed
  with d ids assms show ?thesis by (auto simp: sink_inv_def t)
qed

lemma queue_msg_inv:
  assumes "sink_inv s" and "unat (cs_msg_id_counter s) + 1 < 2 ^ 64"
  shows "sink_inv (queue_msg S l f s)"
proof -
  obtain s3 where s3: "queue_msg S l f s = sink_merge S l s3"
    "cs_items s3 = cs_items s @ [QueueItem_new (f (cs_msg_id_counter s)) (cs_msg_id_counter s)]"
    "cs_msg_id_counter s3 = cs_msg_id_counter s + 1" "cs_flying_messages s3 = cs_flying_messages s"
    using queue_msg_shape [of S l f s] by blast
  have "sink_inv s3"
    using push_inv [OF assms s3(2,3)] s3(4) assms(1) by (auto simp: sink_inv_def)
  then show ?thesis unfolding s3(1) by (rule sink_merge_inv)
qed

lemma validate_response_inv:
  assumes "sink_inv s" shows "sink_inv (snd (validate_response S m s))"
proof (cases "server_msg_id m")
  case None
  with assms show ?thesis by (simp add: validate_response_def)
next
  case (Some i)
  show ?thesis
  proof (cases "i \<in> cs_flying_messages s")
    case False
    with Some assms show ?thesis by (simp add: validate_response_def)
  next
    case True
    with assms have "cs_items s \<noteq> []" by (auto simp: sink_inv_def)
    then obtain x q' where pop: "bheap_pop (QueueItem_cmp S) (cs_items s) = Some (x, q')"
      by (metis bheap_pop_None not_Some_eq surj_pair)
    have ms: "mset (cs_items s) = add_mset x (mset q')" using pop by (rule bheap_pop_mset)
    show ?thesis
    proof (cases "qi_msg_id x = i")
      case eq: True
      have d: "distinct (map qi_msg_id (x # q'))"
        using assms distinct_ids_cong [of "x # q'" "cs_items s"] ms by (simp add: sink_inv_def)
      have ids: "item_ids (cs_items s) = insert i (item_ids q')"
        using item_ids_mset [of "cs_items s" "x # q'"] ms eq by simp
      let ?t = "snd (validate_response S m s)"
      have t: "cs_items ?t = q'" "cs_flying_messages ?t = cs_flying_messages s - {i}"
        "cs_msg_id_counter ?t = cs_msg_id_counter s"
        using Some True pop eq by (simp_all add: validate_response_def Let_def)
      show ?thesis using assms d ids by (auto simp: sink_inv_def t)
    next
      case False
      let ?t = "snd (validate_response S m s)"
      have t: "cs_items ?t = bheap_push q' x" "cs_flying_messages ?t = cs_flying_messages s"
        "cs_msg_id_counter ?t = cs_msg_id_counter s"
        using Some True pop False by (simp_all add: validate_response_def Let_def)
      show ?thesis by (rule sink_inv_cong [OF _ _ _ assms]) (simp_all add: t ms)
    qed
  qed
qed

lemma process_next_msg_inv:
  assumes "sink_inv s" shows "sink_inv (snd (process_next_msg S l out s))"
proof (cases "cs_pause s \<or> \<not> l")
  case True
  with assms show ?thesis
    by (auto simp: process_next_msg_def retry_later_def intro: sink_inv_cong [OF _ _ _ assms])
next
  case False
  obtain items fl q where b: "get_next_batch_item S (cs_flying_messages s) (cs_items s) = (items, fl, q)"
    by (cases "get_next_batch_item S (cs_flying_messages s) (cs_items s)")
  note spec = get_next_batch_spec [OF b]
  let ?s1 = "(set_items s q)\<lparr>cs_flying_messages := fl\<rparr>"
  have sub: "item_ids items \<subseteq> item_ids (cs_items s)" using spec(5) by (auto simp: item_ids_def)
  have inv1: "sink_inv ?s1"
    using assms distinct_ids_cong [OF spec(1)] item_ids_mset [OF spec(1)] sub spec(2)
    by (auto simp: sink_inv_def)
  have res: "snd (process_next_msg S l out s) =
      (if items = [] then ?s1 else snd (send_immediately out items ?s1))"
    using False b by (simp add: process_next_msg_def)
  show ?thesis unfolding res using inv1
    by (auto simp: send_immediately_frame intro!: sink_inv_cong [OF _ _ _ inv1] split: if_splits)
qed

lemma sink_step_inv:
  assumes "sink_inv s" and "uncontended e" and "unat (cs_msg_id_counter s) + 1 < 2 ^ 64"
  shows "sink_inv (sink_step S e s)"
  using assms
proof (cases e)
  case (EvQueue l f)
  then show ?thesis using queue_msg_inv [OF assms(1,3)] by simp
next
  case (EvQueueInit ql fl f)
  then show ?thesis using queue_init_inv [OF assms(1,3)] assms(2) by simp
next
  case (EvResponse m)
  then show ?thesis using validate_response_inv [OF assms(1)] by simp
next
  case (EvProcess l out)
  then show ?thesis using process_next_msg_inv [OF assms(1)] by simp
next
  case (EvClear ql fl)
  then show ?thesis using assms(1,2) by (auto simp: sink_clear_def Let_def sink_inv_def)
qed (auto simp: sink_inv_def interval_tick_def sink_pause_def sink_resume_def notify_def)

lemma sink_run_inv:
  assumes "sink_inv s" and "list_all uncontended es"
    and "unat (cs_msg_id_counter s) + length es < 2 ^ 64"
  shows "sink_inv (sink_run S es s)"
  using assms
proof (induction es arbitrary: s)
  case Nil
  then show ?case by simp
next
  case (Cons e es)
  have inv: "sink_inv (sink_step S e s)" using Cons.prems by (intro sink_step_inv) simp_all
  have "unat (cs_msg_id_counter (sink_step S e s)) \<le> unat (cs_msg_id_counter s) + 1"
    using Cons.prems(3) by (intro counter_step) simp
  then have "unat (cs_msg_id_counter (sink_step S e s)) + length es < 2 ^ 64"
    using Cons.prems(3) by simp
  with Cons.IH [OF inv] Cons.prems(2) show ?case by simp
qed

lemma sync_events_inv:
  "sink_inv s \<Longrightarrow> list_all (sync_event o1 oid) es \<Longrightarrow> sink_inv (sink_run S es s)"
proof (induction es arbitrary: s)
  case (Cons e es)
  have "sink_inv (sink_step S e s)"
    using Cons.prems by (cases e) (auto intro: validate_response_inv process_next_msg_inv)
  with Cons show ?case by simp
qed simp

lemma no_ties_suffix: "no_ties S q \<Longrightarrow> mset q = mset b + mset r \<Longrightarrow> no_ties S r"
proof (induction b arbitrary: q)
  case Nil
  then show ?case using no_ties_mset [of q r] by simp
next
  case (Cons x b)
  have "mset q = add_mset x (mset (b @ r))" using Cons.prems(2) by simp
  from no_ties_sub [OF Cons.prems(1) this] show ?case using Cons.IH [of "b @ r"] by simp
qed

text \<open>Acknowledging a batch in order, and one round of sending and acknowledging.\<close>

lemma ack_step:
  assumes "no_ties S (cs_items s)" and "mset (cs_items s) = add_mset x (mset r)"
    and "\<forall>y \<in> set r. QueueItem_cmp S y x \<noteq> Greater" and "qi_msg_id x \<in> cs_flying_messages s"
    and "server_msg_id m = Some (qi_msg_id x)"
  shows "\<exists>q'. validate_response S m s =
      (True, (set_items s q')\<lparr>cs_flying_messages := cs_flying_messages s - {qi_msg_id x},
                              cs_state := (if r = [] then SinkFinished else cs_state s)\<rparr>) \<and>
      mset q' = mset r"
proof -
  obtain q' where pop: "bheap_pop (QueueItem_cmp S) (cs_items s) = Some (x, q')" and ms: "mset q' = mset r"
    using pop_greatest [OF assms(1-3)] by blast
  have e: "q' = [] \<longleftrightarrow> r = []" using ms by (metis mset_zero_iff)
  have noop: "(set_items s q')\<lparr>cs_flying_messages := F, cs_state := cs_state s\<rparr> =
      (set_items s q')\<lparr>cs_flying_messages := F\<rparr>" for F
    by (cases s) (simp add: set_items_def)
  show ?thesis
    by (rule exI [of _ q']) (simp add: validate_response_def assms(4,5) pop ms e noop)
qed

lemma ack_batch:
  assumes "mset (cs_items s) = mset b + mset rest" and "sorted_wrt (\<lambda>x y. QueueItem_cmp S y x \<noteq> Greater) b"
    and "\<forall>x \<in> set b. \<forall>y \<in> set rest. QueueItem_cmp S y x \<noteq> Greater" and "no_ties S (cs_items s)"
    and "cs_flying_messages s = item_ids b" and "distinct (map qi_msg_id b)"
    and "t = sink_run S (acks o1 oid (map qi_msg_id b)) s"
  shows "mset (cs_items t) = mset rest \<and> cs_flying_messages t = {} \<and> cs_pause t = cs_pause s \<and>
    cs_state t = (if b \<noteq> [] \<and> rest = [] then SinkFinished else cs_state s)"
  using assms
proof (induction b arbitrary: s)
  case Nil
  then show ?case by (simp add: acks_def)
next
  case (Cons x b)
  have ms: "mset (cs_items s) = add_mset x (mset (b @ rest))" using Cons.prems(1) by simp
  have top: "\<forall>y \<in> set (b @ rest). QueueItem_cmp S y x \<noteq> Greater" using Cons.prems(2,3) by auto
  let ?m = "SC_ClientAck (CollabAck_new o1 oid (qi_msg_id x))"
  have m: "server_msg_id ?m = Some (qi_msg_id x)" by (simp add: CollabAck_new_def)
  obtain q' where v: "validate_response S ?m s =
      (True, (set_items s q')\<lparr>cs_flying_messages := cs_flying_messages s - {qi_msg_id x},
                              cs_state := (if b @ rest = [] then SinkFinished else cs_state s)\<rparr>)"
    and q': "mset q' = mset (b @ rest)"
    using ack_step [OF Cons.prems(4) ms top _ m] Cons.prems(5) by auto
  let ?t = "snd (validate_response S ?m s)"
  have t: "cs_items ?t = q'" "cs_flying_messages ?t = item_ids b" "cs_pause ?t = cs_pause s"
    "cs_state ?t = (if b @ rest = [] then SinkFinished else cs_state s)"
    using Cons.prems(5,6) by (auto simp: v item_ids_def)
  have nt: "no_ties S (cs_items ?t)"
    unfolding t(1) using Cons.prems(4) ms q' no_ties_sub [of "cs_items s" x q'] by simp
  have run: "t = sink_run S (acks o1 oid (map qi_msg_id b)) ?t"
    using Cons.prems(7) by (simp add: acks_def)
  have "mset (cs_items t) = mset rest \<and> cs_flying_messages t = {} \<and> cs_pause t = cs_pause ?t \<and>
    cs_state t = (if b \<noteq> [] \<and> rest = [] then SinkFinished else cs_state ?t)"
    by (rule Cons.IH [OF _ _ _ nt _ _ run]) (use Cons.prems q' t in auto)
  then show ?case using t(3,4) by auto
qed

lemma sync_round:
  assumes "sink_inv s" and "cs_flying_messages s = {}" and "\<not> cs_pause s" and "cs_items s \<noteq> []"
    and "no_ties S (cs_items s)"
  shows "\<exists>b rest t. t = sink_run S (EvProcess True SendOk # acks o1 oid (map qi_msg_id b)) s \<and>
    sink_sent S (EvProcess True SendOk # acks o1 oid (map qi_msg_id b)) s = map qi_inner b \<and> b \<noteq> [] \<and>
    mset (cs_items s) = mset b + mset rest \<and> mset (cs_items t) = mset rest \<and>
    cs_flying_messages t = {} \<and> \<not> cs_pause t \<and> (rest = [] \<longrightarrow> cs_state t = SinkFinished)"
proof -
  obtain b fl q where g: "get_next_batch_item S {} (cs_items s) = (b, fl, q)"
    by (cases "get_next_batch_item S {} (cs_items s)")
  note spec = get_next_batch_spec [OF g]
  have ne: "b \<noteq> []" using get_next_batch_nonempty [OF assms(4) refl] g by simp
  obtain rest where rest: "mset (cs_items s) = mset b + mset rest"
    "sorted_wrt (\<lambda>x y. QueueItem_cmp S y x \<noteq> Greater) b"
    "\<forall>x \<in> set b. \<forall>y \<in> set rest. QueueItem_cmp S y x \<noteq> Greater"
    using spec(7) by blast
  let ?s1 = "(set_items s q)\<lparr>cs_flying_messages := fl\<rparr>"
  have p: "process_next_msg S True SendOk s = (Some (map qi_inner b), ?s1)"
    using assms(2,3) g ne by (simp add: process_next_msg_def send_immediately_def)
  have d: "distinct (map qi_msg_id b)"
    using assms(1) rest(1) distinct_ids_cong [of "cs_items s" "b @ rest"] by (simp add: sink_inv_def)
  let ?t = "sink_run S (acks o1 oid (map qi_msg_id b)) ?s1"
  have "mset (cs_items ?t) = mset rest \<and> cs_flying_messages ?t = {} \<and> cs_pause ?t = cs_pause ?s1 \<and>
    cs_state ?t = (if b \<noteq> [] \<and> rest = [] then SinkFinished else cs_state ?s1)"
    by (rule ack_batch [OF _ rest(2,3) _ _ d refl])
       (use rest(1) spec(1,2) assms(5) no_ties_mset [OF spec(1)] in simp_all)
  then have T: "mset (cs_items ?t) = mset rest" "cs_flying_messages ?t = {}" "\<not> cs_pause ?t"
    "rest = [] \<longrightarrow> cs_state ?t = SinkFinished" using assms(3) ne by simp_all
  have run: "?t = sink_run S (EvProcess True SendOk # acks o1 oid (map qi_msg_id b)) s"
    by (simp add: p)
  have sent: "sink_sent S (EvProcess True SendOk # acks o1 oid (map qi_msg_id b)) s = map qi_inner b"
    by (simp add: p sink_sent_acks)
  from run sent ne rest(1) T show ?thesis by blast
qed

lemma sink_drains:
  assumes "sink_inv s" and "cs_flying_messages s = {}" and "\<not> cs_pause s" and "cs_items s \<noteq> []"
    and "no_ties S (cs_items s)"
  shows "\<exists>es. list_all (sync_event o1 oid) es \<and>
    cs_items (sink_run S es s) = [] \<and> cs_state (sink_run S es s) = SinkFinished \<and>
    mset (sink_sent S es s) = mset (map qi_inner (cs_items s))"
  using assms
proof (induction "length (cs_items s)" arbitrary: s rule: less_induct)
  case less
  obtain b rest t where r: "t = sink_run S (EvProcess True SendOk # acks o1 oid (map qi_msg_id b)) s"
    "sink_sent S (EvProcess True SendOk # acks o1 oid (map qi_msg_id b)) s = map qi_inner b" "b \<noteq> []"
    "mset (cs_items s) = mset b + mset rest" "mset (cs_items t) = mset rest"
    "cs_flying_messages t = {}" "\<not> cs_pause t" "rest = [] \<longrightarrow> cs_state t = SinkFinished"
    using sync_round [OF less.prems, of o1 oid] by blast
  let ?es = "(EvProcess True SendOk # acks o1 oid (map qi_msg_id b)) :: ('m, 'a) sink_event list"
  have ok: "list_all (sync_event o1 oid) ?es" by (auto simp: acks_def list_all_iff)
  show ?case
  proof (cases "rest = []")
    case True
    then show ?thesis using r ok by (intro exI [of _ ?es]) (simp add: mset_map)
  next
    case False
    have inv: "sink_inv t" unfolding r(1) using less.prems(1) sync_events_inv [OF _ ok] by blast
    have len: "length (cs_items t) < length (cs_items s)"
      using arg_cong [OF r(4), of size] arg_cong [OF r(5), of size] r(3) by simp
    have ne: "cs_items t \<noteq> []" using r(5) False by (metis mset_zero_iff)
    have "mset (cs_items s) = mset b + mset (cs_items t)" using r(4,5) by simp
    then have nt: "no_ties S (cs_items t)" using less.prems(5) no_ties_suffix by blast
    obtain fs where fs: "list_all (sync_event o1 oid) fs" "cs_items (sink_run S fs t) = []"
      "cs_state (sink_run S fs t) = SinkFinished" "mset (sink_sent S fs t) = mset (map qi_inner (cs_items t))"
      using less.hyps [OF len inv r(6,7) ne nt] by blast
    have "sink_run S (?es @ fs) s = sink_run S fs t" by (simp only: sink_run_append r(1))
    moreover have "sink_sent S (?es @ fs) s = map qi_inner b @ sink_sent S fs t"
      by (simp only: sink_sent_append r(1,2))
    moreover have "mset (map qi_inner (cs_items s)) = mset (map qi_inner b) + mset (map qi_inner (cs_items t))"
      using r(4,5) by (simp add: mset_map)
    ultimately show ?thesis using ok fs by (intro exI [of _ "?es @ fs"]) simp
  qed
qed

end

section \<open>Properties of the client's sink\<close>

abbreviation csink :: "('sv, 'aw) yrs \<Rightarrow> ('o, 't) ClientCollabMessage sink_message" where
  "csink Y \<equiv> client_sink_message Y"

definition upd_item :: "MsgId \<Rightarrow> bytes \<Rightarrow> (nat, nat) ClientCollabMessage QueueItem" where
  "upd_item i u = QueueItem_new (CC_UpdateSync (sample_update i u)) i"

definition sample_sink :: "(nat, nat) ClientCollabMessage QueueItem list \<Rightarrow>
    (nat, nat) ClientCollabMessage CollabSink" where
  "sample_sink q = (set_items (CollabSink_new 1 ''doc'' SinkConfig_default False) q)\<lparr>cs_msg_id_counter := 100\<rparr>"

text \<open>
  C2: Whatever a client does with a sink (queueing updates and init syncs, sending, failing to
  send, receiving answers, timer ticks, pausing, clearing), in any order and with fewer than
  $2^{64}$ calls, the queued messages have distinct ids below the counter and every message
  marked as in flight is still in the queue.  The one assumption is that a clear that gets the
  queue's lock also gets the lock of the in-flight set.
\<close>

theorem sink_reachable_inv:
  assumes "list_all uncontended es" and "length es < 2 ^ 64"
  shows "sink_inv (sink_run (client_sink_message Y) es (CollabSink_new uid oid c p))"
  by (rule client_sink.sink_run_inv [OF sink_inv_new assms(1)])
    (use assms(2) in \<open>simp add: CollabSink_new_def\<close>)

theorem sink_reachable_inv_witness:
  "sink_inv (sink_run (client_sink_message lib0)
     [EvQueue True (\<lambda>i. CC_UpdateSync (sample_update i [7])), EvProcess True SendErr,
      EvQueueInit True True (\<lambda>i. CC_InitSync (InitSync_new (0::nat) ''doc'' (0::nat) ''ws'' i [])),
      EvTick, EvProcess True SendOk] (CollabSink_new 1 ''doc'' SinkConfig_default False))"
  by (rule sink_reachable_inv) simp_all



text \<open>
  An answer from the server is accepted exactly when it has no message id (a broadcast or an
  awareness update) or names a message in flight that is at the head of the queue; then exactly
  that message leaves the queue and the in-flight set, and a queue left empty makes the sink
  finished.  Any other answer leaves the queued messages and the in-flight set as they were.
\<close>

theorem validate_response_spec:
  assumes "sink_inv s" and "validate_response (client_sink_message Y) m s = (ok, s')"
  shows "case server_msg_id m of
      None \<Rightarrow> ok \<and> s' = s
    | Some i \<Rightarrow>
        (ok \<longleftrightarrow> i \<in> cs_flying_messages s \<and>
           map_option qi_msg_id (bheap_peek (QueueItem_cmp (client_sink_message Y)) (cs_items s)) = Some i) \<and>
        (if ok
         then cs_flying_messages s' = cs_flying_messages s - {i} \<and>
              (\<exists>x. qi_msg_id x = i \<and> mset (cs_items s) = add_mset x (mset (cs_items s'))) \<and>
              cs_state s' = (if cs_items s' = [] then SinkFinished else cs_state s)
         else cs_flying_messages s' = cs_flying_messages s \<and> mset (cs_items s') = mset (cs_items s) \<and>
              cs_state s' = cs_state s)"
proof (cases "server_msg_id m")
  case None
  with assms(2) show ?thesis by (simp add: validate_response_def)
next
  case (Some i)
  show ?thesis
  proof (cases "i \<in> cs_flying_messages s")
    case False
    with Some assms(2) show ?thesis by (simp add: validate_response_def)
  next
    case True
    with assms(1) have "cs_items s \<noteq> []" by (auto simp: sink_inv_def)
    then obtain x q' where pop: "bheap_pop (QueueItem_cmp (client_sink_message Y)) (cs_items s) = Some (x, q')"
      by (metis bheap_pop_None not_Some_eq surj_pair)
    note ms = bheap_pop_mset [OF pop]
    have peek: "bheap_peek (QueueItem_cmp (client_sink_message Y)) (cs_items s) = Some x"
      using pop by (simp add: bheap_peek_def)
    have push: "bheap_push q' x \<noteq> []" by (simp add: bheap_push_def)
    have e: "(\<lambda>t. if cs_items t = [] then t\<lparr>cs_state := SinkFinished\<rparr> else t)
        (if qi_msg_id x \<noteq> i then set_items s (bheap_push q' x)
         else (set_items s q')\<lparr>cs_flying_messages := cs_flying_messages s - {i}\<rparr>) = s'"
      "ok = (qi_msg_id x = i)"
      using assms(2) Some True pop push by (auto simp: validate_response_def Let_def split: if_splits)
    show ?thesis
      using Some True peek ms push unfolding e(1) [symmetric] e(2) by (auto simp: push)
  qed
qed

theorem validate_response_spec_witness:
  "fst (validate_response (client_sink_message lib0) (SC_ClientAck (CollabAck_new (0::nat) ''doc'' 1))
     (sink_run (client_sink_message lib0)
       ([EvQueue True (\<lambda>i. CC_UpdateSync (sample_update i [7]))] :: ((nat, nat) ClientCollabMessage, nat) sink_event list)
       (CollabSink_new 1 ''doc'' SinkConfig_default False))) = False"
proof -
  let ?es = "[EvQueue True (\<lambda>i. CC_UpdateSync (sample_update i [7]))] :: ((nat, nat) ClientCollabMessage, nat) sink_event list"
  let ?s = "sink_run (client_sink_message lib0) ?es (CollabSink_new 1 ''doc'' SinkConfig_default False)"
  let ?m = "SC_ClientAck (CollabAck_new (0::nat) ''doc'' 1)"
  have inv: "sink_inv ?s"
    by (rule client_sink.sink_run_inv [OF sink_inv_new]) (simp_all add: CollabSink_new_def)
  have no: "cs_flying_messages ?s = {}"
    by (simp add: queue_msg_def counter_next_def CollabSink_new_def)
  show ?thesis
    using validate_response_spec [OF inv, of lib0 ?m "fst (validate_response (client_sink_message lib0) ?m ?s)"
        "snd (validate_response (client_sink_message lib0) ?m ?s)"] no
    by (simp add: CollabAck_new_def)
qed

text \<open>
  C35: Merging the queue never touches a message in flight nor an init sync, invents no message
  id and duplicates none.
\<close>

theorem merge_preserves:
  "filter_mset (\<lambda>x. qi_msg_id x \<in> cs_flying_messages s) (mset (cs_items (sink_merge (client_sink_message Y) l s)))
     = filter_mset (\<lambda>x. qi_msg_id x \<in> cs_flying_messages s) (mset (cs_items s)) \<and>
   filter_mset (\<lambda>x. client_is_init_sync (qi_inner x)) (mset (cs_items (sink_merge (client_sink_message Y) l s)))
     = filter_mset (\<lambda>x. client_is_init_sync (qi_inner x)) (mset (cs_items s)) \<and>
   mset (map qi_msg_id (cs_items (sink_merge (client_sink_message Y) l s))) \<subseteq># mset (map qi_msg_id (cs_items s))"
proof -
  have i: "sm_is_client_init_sync (client_sink_message Y) = client_is_init_sync"
    by (simp add: client_sink_message_def)
  show ?thesis
    using client_sink.merge_loop_flying [of "cs_flying_messages s" Y "maximum_payload_size (cs_config s)" "[]" "cs_items s"]
      client_sink.merge_loop_init [of Y "maximum_payload_size (cs_config s)" "cs_flying_messages s" "cs_items s"]
      client_sink.merge_loop_ids [of Y "maximum_payload_size (cs_config s)" "cs_flying_messages s" "[]" "cs_items s"]
    by (simp add: sink_merge_def bheap_extend_def i)
qed

text \<open>
  C6: A queue drains.  From any state the invariant allows, with nothing in flight, the sink not
  paused and at most one init sync and one server init queued (no two messages of equal rank),
  there is a schedule of sends over a working connection and of acknowledgements in the order of
  sending after which the queue is empty, the sink is finished, and what was sent is exactly the
  queued messages, each once.
\<close>

theorem sink_drains_all:
  assumes "sink_inv s" and "cs_flying_messages s = {}" and "\<not> cs_pause s" and "cs_items s \<noteq> []"
    and "no_ties (client_sink_message Y) (cs_items s)"
  shows "\<exists>es. list_all (sync_event o1 oid) es \<and>
    cs_items (sink_run (client_sink_message Y) es s) = [] \<and>
    cs_state (sink_run (client_sink_message Y) es s) = SinkFinished \<and>
    mset (sink_sent (client_sink_message Y) es s) = mset (map qi_inner (cs_items s))"
  using assms by (rule client_sink.sink_drains)

theorem sink_drains_all_witness:
  "\<exists>es. list_all (sync_event (0::nat) ''doc'') es \<and>
     mset (sink_sent (client_sink_message lib0) es (sample_sink [upd_item 1 [7], upd_item 2 [9]])) =
       mset [CC_UpdateSync (sample_update 1 [7]), CC_UpdateSync (sample_update 2 [9])]"
proof -
  let ?s = "sample_sink [upd_item 1 [7], upd_item 2 [9]]"
  have inv: "sink_inv ?s" "cs_flying_messages ?s = {}" "\<not> cs_pause ?s" "cs_items ?s \<noteq> []"
    by (simp_all add: sample_sink_def sink_inv_def CollabSink_new_def upd_item_def QueueItem_new_def)
  have nt: "no_ties (client_sink_message lib0) (cs_items ?s)"
    by (auto simp: sample_sink_def no_ties_def upd_item_def QueueItem_new_def QueueItem_cmp_def
        client_sink_message_def sample_update_def UpdateSync_new_def split: if_splits)
  from sink_drains_all [OF inv nt, of "0::nat" "''doc''"] obtain es where
    "list_all (sync_event (0::nat) ''doc'') es"
    "mset (sink_sent (client_sink_message lib0) es ?s) = mset (map qi_inner (cs_items ?s))"
    by (elim exE conjE) (rule that)
  then show ?thesis
    by (intro exI [of _ es]) (simp add: sample_sink_def upd_item_def QueueItem_new_def)
qed

text \<open>
  Merging can lose a message: when an update message that does not carry a document update
  (the plugin queues awareness updates as such) is followed by a document update and neither is
  in flight, the merge leaves the first unchanged and drops the second, whose payload is then
  nowhere in the queue.
\<close>

theorem merge_drops_update:
  assumes "\<not> disable_merge_message (cs_config s)" and "length (us_payload a) < maximum_payload_size (cs_config s)"
    and "cs_items s = [QueueItem_new (CC_UpdateSync a) i, QueueItem_new (CC_UpdateSync b) j]"
    and "us_msg_id a < us_msg_id b" and "cs_flying_messages s = {}"
    and "case as_update Y a of Some (Sync (Update u)) \<Rightarrow> False | _ \<Rightarrow> True"
  shows "cs_items (sink_merge (client_sink_message Y) True s) = [QueueItem_new (CC_UpdateSync a) i]"
proof -
  let ?a = "QueueItem_new (CC_UpdateSync a) i" and ?b = "QueueItem_new (CC_UpdateSync b) j"
  let ?S = "client_sink_message Y"
  have cmp: "QueueItem_cmp ?S ?a ?b = Greater" "QueueItem_cmp ?S ?b ?a = Less"
    using assms(4) by (simp_all add: QueueItem_cmp_def client_sink_message_def QueueItem_new_def)
  have m: "merge_payload Y a b = (a, Ok False)"
    using assms(6) by (auto simp: merge_payload_def split: option.splits message.splits sync_message.splits)
  have qm: "QueueItem_merge ?S ?a ?b (maximum_payload_size (cs_config s)) = (?a, Ok False)"
    using assms(2) m by (simp add: QueueItem_merge_def client_sink_message_def QueueItem_new_def)
  have mg: "QueueItem_mergeable ?S ?a" "sm_payload_size ?S (qi_inner ?a) = length (us_payload a)"
    by (simp_all add: QueueItem_mergeable_def client_sink_message_def QueueItem_new_def)
  have pop: "bheap_pop (QueueItem_cmp ?S) [?a, ?b] = Some (?a, [?b])"
    "bheap_pop (QueueItem_cmp ?S) [?b] = Some (?b, [])" "bheap_pop (QueueItem_cmp ?S) [] = None"
    by (simp_all add: cmp)
  have "merge_loop ?S (maximum_payload_size (cs_config s)) {} [] [?a, ?b] = [?a]"
    by (simp add: pop qm mg assms(2) merge_loop.simps [of _ _ _ _ "[?a, ?b]"]
        merge_loop.simps [of _ _ _ _ "[?b]"] merge_loop.simps [of _ _ _ _ "[]"] del: bheap_pop.simps)
  then show ?thesis using assms(1,3,5) by (simp add: sink_merge_def bheap_extend_def)
qed

definition awareness_as_update :: "MsgId \<Rightarrow> bytes \<Rightarrow> nat UpdateSync" where
  "awareness_as_update i w = UpdateSync_new 0 ''doc'' (message_encode lib0 (Awareness w)) i"

theorem merge_drops_update_witness:
  "cs_items (sink_merge (client_sink_message lib0) True
     (sample_sink [QueueItem_new (CC_UpdateSync (awareness_as_update 1 [5])) 1, upd_item 2 [9]])) =
   [QueueItem_new (CC_UpdateSync (awareness_as_update 1 [5])) 1]"
proof -
  have "reader_next lib0 (message_encode lib0 (Awareness [5]) @ []) = Some (Inr (Awareness [5], []))"
    by (rule reader_next_encode [OF yrs_laws_lib0])
  then have a: "as_update lib0 (awareness_as_update 1 [5]) = Some (Awareness [5])"
    by (simp add: as_update_def awareness_as_update_def UpdateSync_new_def)
  have len: "length (us_payload (awareness_as_update 1 [5])) < 10240"
    by (simp add: awareness_as_update_def UpdateSync_new_def lib0_def tag_defs lib0_write_buf_def varuint_write.simps [of "Suc 0"]
        varuint_write.simps [of 1])
  show ?thesis
    by (rule merge_drops_update [where b = "sample_update 2 [9]" and j = 2])
       (use a len in \<open>simp_all add: sample_sink_def CollabSink_new_def SinkConfig_default_def upd_item_def
          awareness_as_update_def sample_update_def UpdateSync_new_def\<close>)
qed

end
