(* ===== verification/Sync_Protocol.thy ===== *)
theory Sync_Protocol
  imports Y_Protocol
begin

text \<open>
  The two-way sync protocol: the trait \<open>CollabSyncProtocol\<close> with its default methods,
  \<open>ClientSyncProtocol\<close> and \<open>handle_collab_message\<close>
  (\<open>lib/realtime-protocol/src/protocol.rs\<close>), and \<open>ServerSyncProtocol\<close>
  (\<open>lib/realtime/src/server/collaborate/sync_protocol.rs\<close>).

  The shared document (\<open>collab\<close> and \<open>yrs\<close> crates) is not in the repository.  A document with its
  awareness is a value of the type variable \<open>'d\<close> and the crate's operations are the fields of the
  record \<open>collab_lib\<close>.  \<open>collab_laws\<close> states what the protocol relies on: the difference of a
  document against the state vector of another one, applied to that other one (or to a later
  version of it), adds exactly what was missing.
\<close>

section \<open>The document and the errors\<close>

datatype protocol_error =
    DecodingError read_error
  | AwarenessEncoding
  | PermissionDenied string
  | Unsupported u8
  | YrsTransaction string
  | YrsApplyUpdate string
  | BinCodeSerde
  | InternalError

text \<open>
  \<open>cl_apply\<close> applies an update in a write transaction of the origin: the document afterwards, an
  error if there was one, and the update events the commit hands to the document's observers.
\<close>

record ('d, 'sv, 'aw, 'u, 'o) collab_lib =
  cl_try_transact :: "'d \<Rightarrow> string option"
  cl_state_vector :: "'d \<Rightarrow> 'sv"
  cl_encode_state_as_update :: "'d \<Rightarrow> 'sv \<Rightarrow> bytes"
  cl_awareness_update :: "'d \<Rightarrow> 'aw option"
  cl_awareness_apply :: "'d \<Rightarrow> 'aw \<Rightarrow> bool \<times> 'd"
  cl_update_decode :: "bytes \<Rightarrow> read_error + 'u"
  cl_write_txn :: "'d \<Rightarrow> 'o \<Rightarrow> string option"
  cl_apply :: "'o \<Rightarrow> 'd \<Rightarrow> 'u \<Rightarrow> string option \<times> 'd \<times> bytes list"

text \<open>The result of a handler: a reply or an error, the document, and the update events.\<close>

type_synonym 'd handled = "(protocol_error + bytes option) \<times> 'd \<times> bytes list"

section \<open>The trait's default methods\<close>

definition default_check :: "u64 \<Rightarrow> bytes" where
  "default_check last_sync = []"

definition start :: "('sv, 'aw) yrs \<Rightarrow> ('d, 'sv, 'aw, 'u, 'o) collab_lib \<Rightarrow> 'd \<Rightarrow> protocol_error + bytes" where
  "start Y L d =
     (case cl_try_transact L d of
        Some e \<Rightarrow> Err (YrsTransaction e)
      | None \<Rightarrow>
          (case cl_awareness_update L d of
             None \<Rightarrow> Err AwarenessEncoding
           | Some update \<Rightarrow>
               Ok (message_encode Y (Sync (SyncStep1 (cl_state_vector L d))) @
                   message_encode Y (Awareness update))))"

definition handle_sync_step1 ::
  "('sv, 'aw) yrs \<Rightarrow> ('d, 'sv, 'aw, 'u, 'o) collab_lib \<Rightarrow> 'd \<Rightarrow> 'sv \<Rightarrow> protocol_error + bytes option" where
  "handle_sync_step1 Y L d sv =
     (case cl_try_transact L d of
        Some e \<Rightarrow> Err (YrsTransaction (''fail to handle sync step1. error: '' @ e))
      | None \<Rightarrow> Ok (Some (message_encode Y (Sync (SyncStep2 (cl_encode_state_as_update L d sv))))))"

definition handle_sync_step2 ::
  "('d, 'sv, 'aw, 'u, 'o) collab_lib \<Rightarrow> 'o \<Rightarrow> 'd \<Rightarrow> 'u \<Rightarrow> 'd handled" where
  "handle_sync_step2 L origin d update =
     (case cl_write_txn L d origin of
        Some e \<Rightarrow> (Err (YrsTransaction (''sync step2 transaction acquire: '' @ e)), d, [])
      | None \<Rightarrow>
          (case cl_apply L origin d update of
             (Some e, d', ev) \<Rightarrow> (Err (YrsApplyUpdate (''sync step2 apply update: '' @ e)), d', ev)
           | (None, d', ev) \<Rightarrow> (Ok None, d', ev)))"

definition handle_update ::
  "('d, 'sv, 'aw, 'u, 'o) collab_lib \<Rightarrow> 'o \<Rightarrow> 'd \<Rightarrow> 'u \<Rightarrow> 'd handled" where
  "handle_update L origin d update = handle_sync_step2 L origin d update"

definition handle_auth :: "string option \<Rightarrow> protocol_error + bytes option" where
  "handle_auth deny_reason =
     (case deny_reason of Some reason \<Rightarrow> Err (PermissionDenied reason) | None \<Rightarrow> Ok None)"

definition handle_awareness_update ::
  "('d, 'sv, 'aw, 'u, 'o) collab_lib \<Rightarrow> 'd \<Rightarrow> 'aw \<Rightarrow> 'd handled" where
  "handle_awareness_update L d update =
     (case cl_awareness_apply L d update of
        (ok, d') \<Rightarrow> (if ok then Ok None else Err AwarenessEncoding, d', []))"

definition default_handle_custom_message :: "'d \<Rightarrow> custom_message \<Rightarrow> 'd handled" where
  "default_handle_custom_message d msg = (Ok None, d, [])"

section \<open>The trait and its two implementations\<close>

record ('d, 'sv, 'u, 'o) sync_protocol =
  sp_check :: "u64 \<Rightarrow> bytes"
  sp_handle_sync_step1 :: "'d \<Rightarrow> 'sv \<Rightarrow> protocol_error + bytes option"
  sp_handle_custom_message :: "'d \<Rightarrow> custom_message \<Rightarrow> 'd handled"

definition client_check :: "('sv, 'aw) yrs \<Rightarrow> u64 \<Rightarrow> bytes" where
  "client_check Y last_sync = message_encode Y (Custom (SyncCheck \<lparr>last_sync_at = last_sync\<rparr>))"

definition ClientSyncProtocol ::
  "('sv, 'aw) yrs \<Rightarrow> ('d, 'sv, 'aw, 'u, 'o) collab_lib \<Rightarrow> ('d, 'sv, 'u, 'o) sync_protocol" where
  "ClientSyncProtocol Y L =
     \<lparr>sp_check = client_check Y, sp_handle_sync_step1 = handle_sync_step1 Y L,
      sp_handle_custom_message = default_handle_custom_message\<rparr>"

text \<open>
  The server answers a first step with the client's missing updates and with its own state
  vector.  It reads the document with \<open>transact\<close>, under the lock of the document, so no other
  transaction is open.
\<close>

definition server_handle_sync_step1 ::
  "('sv, 'aw) yrs \<Rightarrow> ('d, 'sv, 'aw, 'u, 'o) collab_lib \<Rightarrow> 'd \<Rightarrow> 'sv \<Rightarrow> protocol_error + bytes option" where
  "server_handle_sync_step1 Y L d sv =
     (let client_step2_update = cl_encode_state_as_update L d sv;
          server_step1_update = cl_state_vector L d
      in Ok (Some (message_encode Y (Sync (SyncStep2 client_step2_update)) @
                   message_encode Y (Sync (SyncStep1 server_step1_update)))))"

definition server_handle_custom_message :: "'d \<Rightarrow> custom_message \<Rightarrow> 'd handled" where
  "server_handle_custom_message d msg = (Ok None, d, [])"

definition ServerSyncProtocol ::
  "('sv, 'aw) yrs \<Rightarrow> ('d, 'sv, 'aw, 'u, 'o) collab_lib \<Rightarrow> ('d, 'sv, 'u, 'o) sync_protocol" where
  "ServerSyncProtocol Y L =
     \<lparr>sp_check = default_check, sp_handle_sync_step1 = server_handle_sync_step1 Y L,
      sp_handle_custom_message = server_handle_custom_message\<rparr>"

text \<open>
  \<open>handle_collab_message\<close>: an update that does not decode is an error before the document is
  touched.
\<close>

fun handle_collab_message ::
  "('d, 'sv, 'aw, 'u, 'o) collab_lib \<Rightarrow> 'o \<Rightarrow> ('d, 'sv, 'u, 'o) sync_protocol \<Rightarrow> 'd \<Rightarrow>
     ('sv, 'aw) message \<Rightarrow> 'd handled" where
  "handle_collab_message L origin P d (Sync (SyncStep1 sv)) = (sp_handle_sync_step1 P d sv, d, [])"
| "handle_collab_message L origin P d (Sync (SyncStep2 update)) =
     (case cl_update_decode L update of
        Inl e \<Rightarrow> (Err (DecodingError e), d, [])
      | Inr u \<Rightarrow> handle_sync_step2 L origin d u)"
| "handle_collab_message L origin P d (Sync (Update update)) =
     (case cl_update_decode L update of
        Inl e \<Rightarrow> (Err (DecodingError e), d, [])
      | Inr u \<Rightarrow> handle_update L origin d u)"
| "handle_collab_message L origin P d (Auth reason) = (handle_auth reason, d, [])"
| "handle_collab_message L origin P d (Awareness update) = handle_awareness_update L d update"
| "handle_collab_message L origin P d (Custom msg) = sp_handle_custom_message P d msg"

section \<open>What the protocol relies on\<close>

text \<open>
  \<open>content\<close> is the set of operations a document holds.  Transactions are available, the awareness
  holds no document content, and differences behave as said above.
\<close>

definition collab_laws :: "('d, 'sv, 'aw, 'u, 'o) collab_lib \<Rightarrow> ('d \<Rightarrow> 'c set) \<Rightarrow> bool" where
  "collab_laws L content \<longleftrightarrow>
     (\<forall>d. cl_try_transact L d = None) \<and> (\<forall>d o1. cl_write_txn L d o1 = None) \<and>
     (\<forall>d. cl_awareness_update L d \<noteq> None) \<and>
     (\<forall>d a. fst (cl_awareness_apply L d a) \<and> content (snd (cl_awareness_apply L d a)) = content d) \<and>
     (\<forall>s c0. is_ok (cl_update_decode L (cl_encode_state_as_update L s (cl_state_vector L c0)))) \<and>
     (\<forall>s c0 c1 u o1. content c0 \<subseteq> content c1 \<longrightarrow>
        cl_update_decode L (cl_encode_state_as_update L s (cl_state_vector L c0)) = Inr u \<longrightarrow>
        fst (cl_apply L o1 c1 u) = None \<and>
        content (fst (snd (cl_apply L o1 c1 u))) = content c1 \<union> content s)"

text \<open>
  An instance: documents are lists of operations, the state vector is the document itself and the
  difference lists what is missing.
\<close>

definition op_lib :: "(bytes, bytes, bytes, bytes, nat) collab_lib" where
  "op_lib =
     \<lparr>cl_try_transact = (\<lambda>d. None), cl_state_vector = (\<lambda>d. d),
      cl_encode_state_as_update = (\<lambda>d sv. filter (\<lambda>x. x \<notin> set sv) d),
      cl_awareness_update = (\<lambda>d. Some []), cl_awareness_apply = (\<lambda>d a. (True, d)),
      cl_update_decode = Ok, cl_write_txn = (\<lambda>d o1. None),
      cl_apply = (\<lambda>o1 d u. (None, d @ u, if u = [] then [] else [u]))\<rparr>"

lemma collab_laws_op_lib: "collab_laws op_lib set"
  by (auto simp: collab_laws_def op_lib_def)

lemma collab_step2_law:
  assumes "collab_laws L content" and "content c0 \<subseteq> content c1"
  shows "\<exists>d ev. handle_collab_message L o1 P c1
      (Sync (SyncStep2 (cl_encode_state_as_update L s (cl_state_vector L c0)))) = (Ok None, d, ev) \<and>
      content d = content c1 \<union> content s"
proof -
  have "is_ok (cl_update_decode L (cl_encode_state_as_update L s (cl_state_vector L c0)))"
    using assms(1) unfolding collab_laws_def by blast
  then obtain u where u: "cl_update_decode L (cl_encode_state_as_update L s (cl_state_vector L c0)) = Inr u"
    using is_ok_Inr by blast
  obtain r d ev where a: "cl_apply L o1 c1 u = (r, d, ev)" by (cases "cl_apply L o1 c1 u")
  have "r = None" "content d = content c1 \<union> content s"
    using assms u a unfolding collab_laws_def by (metis fst_conv snd_conv)+
  with assms(1) u a show ?thesis by (simp add: handle_sync_step2_def collab_laws_def)
qed

lemma collab_awareness_law:
  assumes "collab_laws L content"
  shows "\<exists>d. handle_collab_message L o1 P c (Awareness a) = (Ok None, d, []) \<and> content d = content c"
proof -
  have "fst (cl_awareness_apply L c a) \<and> content (snd (cl_awareness_apply L c a)) = content c"
    using assms unfolding collab_laws_def by blast
  then show ?thesis by (cases "cl_awareness_apply L c a") (simp add: handle_awareness_update_def)
qed

lemma start_law:
  assumes "collab_laws L content"
  shows "\<exists>aw. start Y L d = Ok (message_encode Y (Sync (SyncStep1 (cl_state_vector L d))) @ message_encode Y (Awareness aw))"
proof -
  have "cl_try_transact L d = None" "cl_awareness_update L d \<noteq> None"
    using assms unfolding collab_laws_def by blast+
  then show ?thesis by (auto simp: start_def)
qed

lemma start_nonempty:
  assumes "yrs_laws Y" and "collab_laws L content"
  shows "\<exists>aw p. start Y L d = Ok p \<and> p \<noteq> [] \<and>
    p = message_encode Y (Sync (SyncStep1 (cl_state_vector L d))) @ message_encode Y (Awareness aw)"
proof -
  obtain aw where aw: "start Y L d =
      Ok (message_encode Y (Sync (SyncStep1 (cl_state_vector L d))) @ message_encode Y (Awareness aw))"
    using start_law [OF assms(2)] by blast
  have "message_encode Y (Awareness aw) \<noteq> []"
    using message_encode_length [OF assms(1)] by (metis length_greater_0_conv)
  with aw show ?thesis by blast
qed

text \<open>Which replies and errors a message can get.\<close>

lemma handle_no_reply:
  assumes "case msg of Sync (SyncStep1 sv) \<Rightarrow> False | Custom c \<Rightarrow> False | _ \<Rightarrow> True"
  shows "fst (handle_collab_message L o1 P d msg) = Inr r \<Longrightarrow> r = None"
  using assms
  by (auto simp: handle_sync_step2_def handle_update_def handle_auth_def handle_awareness_update_def
      split: message.splits sync_message.splits sum.splits option.splits prod.splits if_splits)

section \<open>Properties\<close>

text \<open>
  The handler touches the document only for the messages that carry data: a first step, an
  authorisation and a custom message leave it as it is, and so does an update that does not
  decode or whose write transaction is not granted.  Only a first step is ever answered with a
  payload.
\<close>

theorem handle_collab_message_frame:
  assumes "P = ClientSyncProtocol Y L \<or> P = ServerSyncProtocol Y L"
    and "handle_collab_message L origin P d msg = (r, d', ev)"
  shows "(case msg of
      Sync (SyncStep1 sv) \<Rightarrow> d' = d \<and> ev = []
    | Sync (SyncStep2 b) \<Rightarrow> (case cl_update_decode L b of
        Inl e \<Rightarrow> r = Err (DecodingError e) \<and> d' = d \<and> ev = []
      | Inr u \<Rightarrow> (case cl_write_txn L d origin of
          Some e \<Rightarrow> d' = d \<and> ev = [] \<and> \<not> is_ok r
        | None \<Rightarrow> (d', ev) = snd (cl_apply L origin d u) \<and> is_ok r = (fst (cl_apply L origin d u) = None)))
    | Sync (Update b) \<Rightarrow> handle_collab_message L origin P d (Sync (SyncStep2 b)) = (r, d', ev)
    | Auth None \<Rightarrow> r = Ok None \<and> d' = d \<and> ev = []
    | Auth (Some reason) \<Rightarrow> r = Err (PermissionDenied reason) \<and> d' = d \<and> ev = []
    | Awareness a \<Rightarrow> d' = snd (cl_awareness_apply L d a) \<and> ev = [] \<and> is_ok r = fst (cl_awareness_apply L d a)
    | Custom c \<Rightarrow> r = Ok None \<and> d' = d \<and> ev = []) \<and>
    (\<exists>e. r = Err e \<or> r = Ok None \<or> (\<exists>sv p. msg = Sync (SyncStep1 sv) \<and> r = Ok (Some p)))"
proof -
  have custom: "sp_handle_custom_message P d c = (Ok None, d, [])" for c
    using assms(1) by (auto simp: ClientSyncProtocol_def ServerSyncProtocol_def
        default_handle_custom_message_def server_handle_custom_message_def)
  show ?thesis
  proof (cases msg)
    case (Sync s)
    show ?thesis
    proof (cases s)
      case (SyncStep1 sv)
      then show ?thesis using Sync assms(2) by (cases r) (auto split: option.splits)
    qed (use Sync assms(2) in \<open>auto simp: handle_sync_step2_def handle_update_def
          split: sum.splits option.splits prod.splits\<close>)
  next
    case (Custom c)
    then show ?thesis using custom assms(2) by simp
  qed (use assms(2) in \<open>auto simp: handle_auth_def handle_awareness_update_def
        split: option.splits prod.splits if_splits\<close>)
qed

theorem handle_collab_message_frame_witness:
  "snd (handle_collab_message op_lib 0 (ServerSyncProtocol lib0 op_lib) [1] (Auth (Some ''no''))) = ([1], [])"
proof -
  let ?h = "handle_collab_message op_lib 0 (ServerSyncProtocol lib0 op_lib) [1] (Auth (Some ''no''))"
  obtain r d ev where h: "?h = (r, d, ev)" by (cases ?h)
  show ?thesis
    using handle_collab_message_frame [OF _ h, where Y = lib0] unfolding h by simp
qed

end
