(* ===== verification/Connect_State.thy ===== *)
theory Connect_State
  imports Prelude
begin

text \<open>
  The state of the client's connection and its notifications (\<open>lib/client-api/src/ws/state.rs\<close>).
\<close>

datatype ConnectState = PingTimeout | Connecting | Connected | Unauthorized | Lost

fun cs_is_connecting :: "ConnectState \<Rightarrow> bool" where
  "cs_is_connecting Connecting = True"
| "cs_is_connecting _ = False"

fun cs_is_connected :: "ConnectState \<Rightarrow> bool" where
  "cs_is_connected Connected = True"
| "cs_is_connected _ = False"

fun cs_is_timeout :: "ConnectState \<Rightarrow> bool" where
  "cs_is_timeout PingTimeout = True"
| "cs_is_timeout _ = False"

fun cs_is_lost :: "ConnectState \<Rightarrow> bool" where
  "cs_is_lost Lost = True"
| "cs_is_lost _ = False"

text \<open>\<open>ConnectStateNotify\<close>: the state and the states sent to the subscribers so far.\<close>

record ConnectStateNotify =
  csn_state :: ConnectState
  csn_sent :: "ConnectState list"

definition ConnectStateNotify_new :: ConnectStateNotify where
  "ConnectStateNotify_new = \<lparr>csn_state = Lost, csn_sent = []\<rparr>"

definition set_state :: "ConnectState \<Rightarrow> ConnectStateNotify \<Rightarrow> ConnectStateNotify" where
  "set_state state n =
     (if csn_state n \<noteq> state then n\<lparr>csn_state := state, csn_sent := csn_sent n @ [state]\<rparr> else n)"

lemma cs_is_simps [simp]: "cs_is_connecting s \<longleftrightarrow> s = Connecting" "cs_is_connected s \<longleftrightarrow> s = Connected"
  by (cases s; simp)+

lemma set_state_state [simp]: "csn_state (set_state s n) = s"
  by (simp add: set_state_def)

text \<open>Every notification is a change, and the last one is the state.\<close>

definition notify_ok :: "ConnectStateNotify \<Rightarrow> bool" where
  "notify_ok n \<longleftrightarrow> last (Lost # csn_sent n) = csn_state n \<and> distinct_adj (Lost # csn_sent n)"

lemma notify_ok_new [simp]: "notify_ok ConnectStateNotify_new"
  by (simp add: notify_ok_def ConnectStateNotify_new_def)

lemma notify_ok_set_state [simp]: "notify_ok n \<Longrightarrow> notify_ok (set_state s n)"
  by (auto simp: notify_ok_def set_state_def distinct_adj_append_iff distinct_adj_Cons split: if_splits)

end
