(* ===== verification/Sync_Control.thy ===== *)
theory Sync_Control
  imports Sink_Sync Sync_Protocol Connect_State
begin

text \<open>
  The client's sync control and plugin: \<open>sync_control.rs\<close>, \<open>plugin.rs\<close> and \<open>error.rs\<close> under
  \<open>lib/client-api/src/collab_sync\<close>.

  The state \<open>client_sync\<close> collects what the code shares between \<open>SyncControl\<close>, the task that
  observes the server's messages and the plugin: the sink, the published sync state, the sequence
  number of the last broadcast, the time of the last init sync and the local document.  Instants
  are milliseconds; locks that are tried are arguments.
\<close>

section \<open>Errors\<close>

datatype SyncError =
    YSync protocol_error
  | YAwareness
  | SE_DecodingError read_error
  | SE_CannotApplyUpdate string
  | SerdeError
  | TokioTask
  | SE_IO
  | NoWorkspaceId
  | MissingBroadcast string
  | SE_Internal

fun is_cannot_apply_update :: "SyncError \<Rightarrow> bool" where
  "is_cannot_apply_update (SE_CannotApplyUpdate _) = True"
| "is_cannot_apply_update _ = False"

section \<open>State\<close>

record 't SyncObject =
  so_object_id :: string
  so_workspace_id :: string
  so_collab_type :: 't
  so_device_id :: string

definition SyncObject_new :: "string \<Rightarrow> string \<Rightarrow> 't \<Rightarrow> string \<Rightarrow> 't SyncObject" where
  "SyncObject_new object_id workspace_id collab_type device_id =
     \<lparr>so_object_id = object_id, so_workspace_id = workspace_id, so_collab_type = collab_type,
      so_device_id = device_id\<rparr>"

datatype SyncState = InitSyncBegin | SyncSyncing | SyncFinished

definition NUMBER_OF_UPDATE_TRIGGER_INIT_SYNC :: u32 where
  "NUMBER_OF_UPDATE_TRIGGER_INIT_SYNC = 1"

definition DEBOUNCE_DURATION :: nat where "DEBOUNCE_DURATION = 10 * 1000"

definition debounce_duration :: "bool \<Rightarrow> nat" where
  "debounce_duration debug_assertions = (if debug_assertions then 2 * 1000 else DEBOUNCE_DURATION)"

text \<open>\<open>LastSyncTime\<close>.\<close>

definition LastSyncTime_new :: "nat \<Rightarrow> nat" where
  "LastSyncTime_new now = (if 3600 * 1000 \<le> now then now - 3600 * 1000 else now)"

definition should_sync :: "nat \<Rightarrow> nat \<Rightarrow> nat \<Rightarrow> bool \<times> nat" where
  "should_sync now debounce last_sync =
     (if debounce < now - last_sync then (True, now) else (False, last_sync))"

record ('d, 'o, 't) client_sync =
  cy_object :: "'t SyncObject"
  cy_origin :: 'o
  cy_sink :: "('o, 't) ClientCollabMessage CollabSink"
  cy_sync_state :: SyncState
  cy_broadcast_seq_num :: u32
  cy_last_sync :: nat
  cy_doc :: 'd

text \<open>The locks an operation tries: the document's, and those of the sink.\<close>

record sync_locks =
  lk_collab :: bool
  lk_queue :: bool
  lk_flying :: bool
  lk_merge :: bool

text \<open>The task that publishes the sink's state as sync state.\<close>

fun publish_sync_state :: "SinkState \<Rightarrow> SyncState \<Rightarrow> SyncState" where
  "publish_sync_state SinkSyncing s = SyncSyncing"
| "publish_sync_state SinkFinished s = SyncFinished"
| "publish_sync_state SinkInit s = InitSyncBegin"
| "publish_sync_state SinkPause s = s"

definition SyncControl_new ::
  "'o origin_ops \<Rightarrow> 't SyncObject \<Rightarrow> 'o \<Rightarrow> SinkConfig \<Rightarrow> 'd \<Rightarrow> bool \<Rightarrow> nat \<Rightarrow> ('d, 'o, 't) client_sync" where
  "SyncControl_new D object origin sink_config d pause now =
     \<lparr>cy_object = object, cy_origin = origin,
      cy_sink = CollabSink_new (case client_user_id D origin of Some uid \<Rightarrow> uid | None \<Rightarrow> 0)
                  (so_object_id object) sink_config pause,
      cy_sync_state = InitSyncBegin, cy_broadcast_seq_num = 0,
      cy_last_sync = LastSyncTime_new now, cy_doc = d\<rparr>"

section \<open>Init sync\<close>

definition doc_init_state ::
  "('sv, 'aw) yrs \<Rightarrow> ('d, 'sv, 'aw, 'u, 'o) collab_lib \<Rightarrow> 'd \<Rightarrow> bytes option" where
  "doc_init_state Y L d =
     (case start Y L d of
        Inl e \<Rightarrow> None
      | Inr payload \<Rightarrow> if payload = [] then None else Some payload)"

definition init_sync ::
  "('sv, 'aw) yrs \<Rightarrow> ('d, 'sv, 'aw, 'u, 'o) collab_lib \<Rightarrow> sync_locks \<Rightarrow> ('d, 'o, 't) client_sync \<Rightarrow>
     ('d, 'o, 't) client_sync" where
  "init_sync Y L lk c =
     (case doc_init_state Y L (cy_doc c) of
        Some payload \<Rightarrow>
          c\<lparr>cy_sink := queue_init_sync (lk_queue lk) (lk_flying lk)
             (\<lambda>msg_id. CC_InitSync (InitSync_new (cy_origin c) (so_object_id (cy_object c))
                (so_collab_type (cy_object c)) (so_workspace_id (cy_object c)) msg_id payload)) (cy_sink c)\<rparr>
      | None \<Rightarrow> c\<lparr>cy_sink := notify (cy_sink c)\<rparr>)"

definition try_init_sync ::
  "('sv, 'aw) yrs \<Rightarrow> ('d, 'sv, 'aw, 'u, 'o) collab_lib \<Rightarrow> bool \<Rightarrow> nat \<Rightarrow> sync_locks \<Rightarrow>
     ('d, 'o, 't) client_sync \<Rightarrow> ('d, 'o, 't) client_sync" where
  "try_init_sync Y L debug now lk c =
     (if can_queue_init_sync (client_sink_message Y) (cy_sink c) then
        (case should_sync now (debounce_duration debug) (cy_last_sync c) of
           (granted, t) \<Rightarrow>
             (let c1 = c\<lparr>cy_last_sync := t\<rparr>
              in if granted \<and> lk_collab lk then init_sync Y L lk c1 else c1))
      else c)"

section \<open>The server's messages\<close>

text \<open>
  \<open>validate_broadcast\<close>: the received number replaces the last one before it is checked.  The
  addition on the last number wraps, as it does in a release build.
\<close>

definition validate_broadcast ::
  "'t SyncObject \<Rightarrow> 'o BroadcastSync \<Rightarrow> u32 \<Rightarrow> (SyncError + unit) \<times> u32" where
  "validate_broadcast object b prev_seq_num =
     (if prev_seq_num + NUMBER_OF_UPDATE_TRIGGER_INIT_SYNC < bs_seq_num b
      then (Err (MissingBroadcast (so_object_id object @ '' missing updates len: '' @
              int_to_string (uint (bs_seq_num b - prev_seq_num)) @ '', start init sync'')), bs_seq_num b)
      else (Ok (), bs_seq_num b))"

text \<open>
  The loop of \<open>process_payload\<close>: the messages read, the error that ended the reading, the sink and
  the document.
\<close>

fun process_msgs ::
  "('sv, 'aw) yrs \<Rightarrow> ('d, 'sv, 'aw, 'u, 'o) collab_lib \<Rightarrow> bool \<Rightarrow> 'o \<Rightarrow> string \<Rightarrow>
     ('sv, 'aw) message list \<Rightarrow> read_error option \<Rightarrow> ('o, 't) ClientCollabMessage CollabSink \<Rightarrow> 'd \<Rightarrow>
     (SyncError + unit) \<times> ('o, 't) ClientCollabMessage CollabSink \<times> 'd" where
  "process_msgs Y L lkm origin object_id [] None sink d = (Ok (), sink, d)"
| "process_msgs Y L lkm origin object_id [] (Some e) sink d = (Err (SE_DecodingError e), sink, d)"
| "process_msgs Y L lkm origin object_id (msg # ms) e sink d =
     (case handle_collab_message L origin (ClientSyncProtocol Y L) d msg of
        (Inl err, d1, ev) \<Rightarrow> (Err (YSync err), sink, d1)
      | (Inr None, d1, ev) \<Rightarrow> process_msgs Y L lkm origin object_id ms e sink d1
      | (Inr (Some payload), d1, ev) \<Rightarrow>
          process_msgs Y L lkm origin object_id ms e
            (queue_msg (client_sink_message Y) lkm
               (\<lambda>msg_id. case msg of
                   Sync (SyncStep1 sv) \<Rightarrow> CC_ServerInitSync (ServerInit_new origin object_id payload msg_id)
                 | _ \<Rightarrow> CC_UpdateSync (UpdateSync_new origin object_id payload msg_id)) sink) d1)"

text \<open>A document whose lock is taken is not updated, and the payload is not kept.\<close>

definition process_payload ::
  "('sv, 'aw) yrs \<Rightarrow> ('d, 'sv, 'aw, 'u, 'o) collab_lib \<Rightarrow> sync_locks \<Rightarrow> 'o \<Rightarrow> bytes \<Rightarrow>
     ('d, 'o, 't) client_sync \<Rightarrow> ((SyncError + unit) \<times> ('d, 'o, 't) client_sync) option" where
  "process_payload Y L lk origin payload c =
     (if lk_collab lk then
        map_option (\<lambda>(ms, e).
          (case process_msgs Y L (lk_merge lk) origin (so_object_id (cy_object c)) ms e (cy_sink c) (cy_doc c) of
             (r, sink, d) \<Rightarrow> (r, c\<lparr>cy_sink := sink, cy_doc := d\<rparr>)))
          (read_all Y payload)
      else Some (Ok (), c))"

text \<open>\<open>process_message\<close>: the result and the state; \<open>None\<close> is a payload whose reading never ends.\<close>

definition check_broadcast ::
  "('sv, 'aw) yrs \<Rightarrow> ('d, 'sv, 'aw, 'u, 'o) collab_lib \<Rightarrow> bool \<Rightarrow> nat \<Rightarrow> sync_locks \<Rightarrow>
     'o ServerCollabMessage \<Rightarrow> ('d, 'o, 't) client_sync \<Rightarrow> ('d, 'o, 't) client_sync" where
  "check_broadcast Y L debug now lk msg c =
     (case msg of
        SC_ServerBroadcast b \<Rightarrow>
          (case validate_broadcast (cy_object c) b (cy_broadcast_seq_num c) of
             (r, seq) \<Rightarrow>
               (let c1 = c\<lparr>cy_broadcast_seq_num := seq\<rparr>
                in if is_ok r then c1 else try_init_sync Y L debug now lk c1))
      | _ \<Rightarrow> c)"

definition process_message ::
  "('sv, 'aw) yrs \<Rightarrow> ('d, 'sv, 'aw, 'u, 'o) collab_lib \<Rightarrow> bool \<Rightarrow> nat \<Rightarrow> sync_locks \<Rightarrow>
     'o ServerCollabMessage \<Rightarrow> ('d, 'o, 't) client_sync \<Rightarrow>
     ((SyncError + unit) \<times> ('d, 'o, 't) client_sync) option" where
  "process_message Y L debug now lk msg c =
     (if (case msg of SC_ClientAck ack \<Rightarrow> ack_code ack = CannotApplyUpdate | _ \<Rightarrow> False)
      then Some (Err (SE_CannotApplyUpdate (so_object_id (cy_object c))), c)
      else
        (let c1 = check_broadcast Y L debug now lk msg c;
             (is_valid, sink) = validate_response (client_sink_message Y) msg (cy_sink c1);
             c2 = c1\<lparr>cy_sink := sink\<rparr>
         in case (if is_valid \<and> server_payload msg \<noteq> []
                  then process_payload Y L lk (server_msg_origin msg) (server_payload msg) c2
                  else Some (Ok (), c2)) of
              None \<Rightarrow> None
            | Some (Inl e, c3) \<Rightarrow> Some (Err e, c3)
            | Some (Inr u, c3) \<Rightarrow>
                Some (Ok (), if is_valid then c3\<lparr>cy_sink := notify (cy_sink c3)\<rparr> else c3)))"

text \<open>
  \<open>observer_collab_message\<close>, one turn of its loop: whether it goes on, and the state.  The stream's
  item is an error or a message; \<open>alive\<close> says that the document and the sink still exist.
\<close>

definition observe_turn ::
  "('sv, 'aw) yrs \<Rightarrow> ('d, 'sv, 'aw, 'u, 'o) collab_lib \<Rightarrow> bool \<Rightarrow> nat \<Rightarrow> sync_locks \<Rightarrow> bool \<Rightarrow>
     'e + 'o ServerCollabMessage \<Rightarrow> ('d, 'o, 't) client_sync \<Rightarrow> (bool \<times> ('d, 'o, 't) client_sync) option" where
  "observe_turn Y L debug now lk alive item c =
     (if \<not> alive then Some (False, c)
      else case item of
        Inl err \<Rightarrow> Some (False, c)
      | Inr msg \<Rightarrow>
          map_option (\<lambda>(r, c'). (case r of Inl e \<Rightarrow> \<not> is_cannot_apply_update e | Inr u \<Rightarrow> True, c'))
            (process_message Y L debug now lk msg c))"

section \<open>The plugin\<close>

definition receive_local_state ::
  "('sv, 'aw) yrs \<Rightarrow> sync_locks \<Rightarrow> 'o \<Rightarrow> bytes \<Rightarrow> ('d, 'o, 't) client_sync \<Rightarrow> ('d, 'o, 't) client_sync" where
  "receive_local_state Y lk origin update c =
     (let payload = message_encode Y (Sync (Update update))
      in c\<lparr>cy_sink := queue_msg (client_sink_message Y) (lk_merge lk)
            (\<lambda>msg_id. CC_UpdateSync (UpdateSync_new origin (so_object_id (cy_object c)) payload msg_id)) (cy_sink c)\<rparr>)"

definition receive_local_update ::
  "('sv, 'aw) yrs \<Rightarrow> sync_locks \<Rightarrow> 'o \<Rightarrow> string \<Rightarrow> 'aw \<Rightarrow> ('d, 'o, 't) client_sync \<Rightarrow> ('d, 'o, 't) client_sync" where
  "receive_local_update Y lk origin object_id update c =
     (let payload = message_encode Y (Awareness update)
      in c\<lparr>cy_sink := queue_msg (client_sink_message Y) (lk_merge lk)
            (\<lambda>msg_id. CC_UpdateSync (UpdateSync_new origin object_id payload msg_id)) (cy_sink c)\<rparr>)"

definition plugin_reset :: "sync_locks \<Rightarrow> ('d, 'o, 't) client_sync \<Rightarrow> ('d, 'o, 't) client_sync" where
  "plugin_reset lk c = c\<lparr>cy_sink := sink_clear (lk_queue lk) (lk_flying lk) (cy_sink c)\<rparr>"

text \<open>The task that follows the connection: resume and init sync, or pause.\<close>

definition on_connect_state ::
  "('sv, 'aw) yrs \<Rightarrow> ('d, 'sv, 'aw, 'u, 'o) collab_lib \<Rightarrow> sync_locks \<Rightarrow> ConnectState \<Rightarrow>
     ('d, 'o, 't) client_sync \<Rightarrow> ('d, 'o, 't) client_sync" where
  "on_connect_state Y L lk state c =
     (case state of
        Connected \<Rightarrow>
          if lk_collab lk then init_sync Y L lk (c\<lparr>cy_sink := sink_resume (cy_sink c)\<rparr>) else c
      | Unauthorized \<Rightarrow> c\<lparr>cy_sink := sink_pause (cy_sink c)\<rparr>
      | Lost \<Rightarrow> c\<lparr>cy_sink := sink_pause (cy_sink c)\<rparr>
      | _ \<Rightarrow> c)"

section \<open>Lemmas\<close>

text \<open>A queue with one message.\<close>

lemma batch_single:
  "i \<notin> fl \<Longrightarrow> qi_msg_id x = i \<Longrightarrow> get_next_batch_item S fl [x] = ([x], insert i fl, [x])"
  by (simp add: get_next_batch_item_def batch_loop.simps [of S fl "[]" "[]" "[x]"]
      batch_loop.simps [of S fl "[x]" "[x]" "[]"] bheap_extend_def)

lemma merge_single [simp]: "merge_loop S n fl [] [x] = [x]"
  by (simp add: merge_loop.simps [of S n fl "[]" "[x]"] merge_loop.simps [of S n fl "[x]" "[]"])

lemma sink_merge_single: "cs_items s = [x] \<Longrightarrow> cs_items (sink_merge S l s) = [x]"
  by (simp add: sink_merge_def bheap_extend_def)

text \<open>A payload whose start of sync is available.\<close>

lemma doc_init_state_Some:
  assumes "start Y L d = Ok p" and "p \<noteq> []"
  shows "doc_init_state Y L d = Some p"
  using assms by (simp add: doc_init_state_def)

definition all_locks :: sync_locks where
  "all_locks = \<lparr>lk_collab = True, lk_queue = True, lk_flying = True, lk_merge = True\<rparr>"

lemma all_locks_simps [simp]: "lk_collab all_locks" "lk_queue all_locks" "lk_flying all_locks" "lk_merge all_locks"
  by (simp_all add: all_locks_def)

definition init_item :: "('d, 'o, 't) client_sync \<Rightarrow> bytes \<Rightarrow> ('o, 't) ClientCollabMessage QueueItem" where
  "init_item c payload = QueueItem_new (CC_InitSync (InitSync_new (cy_origin c) (so_object_id (cy_object c))
      (so_collab_type (cy_object c)) (so_workspace_id (cy_object c)) (cs_msg_id_counter (cy_sink c)) payload))
      (cs_msg_id_counter (cy_sink c))"

lemma init_sync_queue:
  assumes "start Y L (cy_doc c) = Ok p" and "p \<noteq> []" and "lk_queue lk" and "lk_flying lk"
  shows "cs_items (cy_sink (init_sync Y L lk c)) = [init_item c p] \<and>
    cs_flying_messages (cy_sink (init_sync Y L lk c)) = {} \<and>
    cs_state (cy_sink (init_sync Y L lk c)) = SinkSyncing \<and>
    cs_pause (cy_sink (init_sync Y L lk c)) = cs_pause (cy_sink c) \<and>
    cs_config (cy_sink (init_sync Y L lk c)) = cs_config (cy_sink c) \<and>
    cs_msg_id_counter (cy_sink (init_sync Y L lk c)) = cs_msg_id_counter (cy_sink c) + 1 \<and>
    cy_doc (init_sync Y L lk c) = cy_doc c \<and> cy_object (init_sync Y L lk c) = cy_object c \<and>
    cy_origin (init_sync Y L lk c) = cy_origin c"
  using assms(3,4)
  by (cases "cs_state (cy_sink c)";
      simp add: init_sync_def doc_init_state_Some [OF assms(1,2)] queue_init_sync_def sink_clear_def
        counter_next_def push_msg_def bheap_push_def Let_def init_item_def set_items_def)

text \<open>The times at which \<open>should_sync\<close>, asked again and again, says yes.\<close>

fun sync_grants :: "nat \<Rightarrow> nat list \<Rightarrow> nat \<Rightarrow> nat list" where
  "sync_grants debounce [] t = []"
| "sync_grants debounce (now # ns) t =
     (case should_sync now debounce t of
        (granted, t') \<Rightarrow> (if granted then [now] else []) @ sync_grants debounce ns t')"

lemma sync_grants_after: "g \<in> set (sync_grants debounce ns t) \<Longrightarrow> debounce < g - t"
proof (induction ns arbitrary: t)
  case (Cons n ns)
  then show ?case by (fastforce simp: should_sync_def split: if_splits)
qed simp

section \<open>Properties\<close>

text \<open>
  A broadcast whose sequence number leaves a gap makes the client start over: if the debounce time
  has passed since the last init sync, no init sync is at the head of the queue and the locks are
  free, everything queued is replaced by one init sync for the local document, and nothing is in
  flight.  A broadcast without a gap leaves the sink alone.  In both cases its number is recorded.
\<close>

theorem broadcast_gap_resyncs:
  assumes "start Y L (cy_doc c) = Ok p" and "p \<noteq> []" and "lk_collab lk" and "lk_queue lk" and "lk_flying lk"
    and "can_queue_init_sync (client_sink_message Y) (cy_sink c)"
    and "debounce_duration debug < now - cy_last_sync c"
  shows "cy_broadcast_seq_num (check_broadcast Y L debug now lk (SC_ServerBroadcast b) c) = bs_seq_num b \<and>
    (if cy_broadcast_seq_num c + 1 < bs_seq_num b
     then cs_items (cy_sink (check_broadcast Y L debug now lk (SC_ServerBroadcast b) c)) = [init_item c p] \<and>
          cs_flying_messages (cy_sink (check_broadcast Y L debug now lk (SC_ServerBroadcast b) c)) = {}
     else cy_sink (check_broadcast Y L debug now lk (SC_ServerBroadcast b) c) = cy_sink c)"
proof -
  let ?c1 = "c\<lparr>cy_broadcast_seq_num := bs_seq_num b, cy_last_sync := now\<rparr>"
  have q: "cs_items (cy_sink (init_sync Y L lk ?c1)) = [init_item c p] \<and>
      cs_flying_messages (cy_sink (init_sync Y L lk ?c1)) = {}"
    using init_sync_queue [of Y L ?c1 p lk] assms by (simp add: init_item_def)
  have s: "cy_broadcast_seq_num (init_sync Y L lk ?c1) = bs_seq_num b"
    by (simp add: init_sync_def split: option.splits)
  show ?thesis
    using assms(3-7) q s
    by (simp add: check_broadcast_def validate_broadcast_def try_init_sync_def should_sync_def Let_def
        NUMBER_OF_UPDATE_TRIGGER_INIT_SYNC_def)
qed

definition sample_client :: "(bytes, nat, nat) client_sync" where
  "sample_client = \<lparr>cy_object = SyncObject_new ''doc'' ''ws'' 0 ''dev'', cy_origin = 7,
     cy_sink = sample_sink [], cy_sync_state = InitSyncBegin, cy_broadcast_seq_num = 3, cy_last_sync = 0, cy_doc = [1, 2]\<rparr>"

lemma sample_start: "\<exists>p. start lib0 op_lib (cy_doc sample_client) = Ok p \<and> p \<noteq> []"
  using start_nonempty [OF yrs_laws_lib0 collab_laws_op_lib] by blast

theorem broadcast_gap_resyncs_witness:
  "\<exists>x. cs_items (cy_sink (check_broadcast lib0 op_lib False 20000 all_locks
     (SC_ServerBroadcast (BroadcastSync_new 1 ''doc'' [] 9)) sample_client)) = [x]"
proof -
  obtain p where p: "start lib0 op_lib (cy_doc sample_client) = Ok p" "p \<noteq> []" using sample_start by blast
  have q: "can_queue_init_sync (client_sink_message lib0) (cy_sink sample_client)"
    by (simp add: sample_client_def sample_sink_def can_queue_init_sync_def bheap_peek_def)
  have d: "debounce_duration False < 20000 - cy_last_sync sample_client"
    by (simp add: sample_client_def debounce_duration_def DEBOUNCE_DURATION_def)
  have n: "cy_broadcast_seq_num sample_client + 1 < bs_seq_num (BroadcastSync_new (1::nat) ''doc'' [] 9)"
    by (simp add: sample_client_def BroadcastSync_new_def)
  from broadcast_gap_resyncs [OF p _ _ _ q d, of all_locks "BroadcastSync_new 1 ''doc'' [] 9"] n
  show ?thesis by (simp only: all_locks_simps if_True) blast
qed

text \<open>
  A gap is noticed only once.  When a broadcast leaves a gap before the debounce time has passed,
  nothing is requested, yet its number is recorded, so the following broadcasts in sequence never
  make up for it: at whatever later time the next one arrives, the sink stays as it was.
\<close>

theorem broadcast_gap_forgotten:
  assumes "cy_broadcast_seq_num c + 1 < bs_seq_num b" and "now - cy_last_sync c \<le> debounce_duration debug"
    and "bs_seq_num b' = bs_seq_num b + 1"
  shows "cy_sink (check_broadcast Y L debug later lk' (SC_ServerBroadcast b')
           (check_broadcast Y L debug now lk (SC_ServerBroadcast b) c)) = cy_sink c"
proof -
  have "check_broadcast Y L debug now lk (SC_ServerBroadcast b) c =
      c\<lparr>cy_broadcast_seq_num := bs_seq_num b\<rparr>"
    using assms(1,2)
    by (simp add: check_broadcast_def validate_broadcast_def try_init_sync_def should_sync_def Let_def
        NUMBER_OF_UPDATE_TRIGGER_INIT_SYNC_def)
  then show ?thesis using assms(3)
    by (simp add: check_broadcast_def validate_broadcast_def NUMBER_OF_UPDATE_TRIGGER_INIT_SYNC_def)
qed

theorem broadcast_gap_forgotten_witness:
  "cy_sink (check_broadcast lib0 op_lib False 99999 all_locks (SC_ServerBroadcast (BroadcastSync_new 1 ''doc'' [] 10))
     (check_broadcast lib0 op_lib False 5000 all_locks (SC_ServerBroadcast (BroadcastSync_new 1 ''doc'' [] 9)) sample_client))
   = cy_sink sample_client"
  by (rule broadcast_gap_forgotten)
    (simp_all add: sample_client_def BroadcastSync_new_def debounce_duration_def DEBOUNCE_DURATION_def)

text \<open>
  An acknowledgement with the code \<open>Retry\<close> is treated like a success: the message it answers
  leaves the queue and the in-flight set and is not queued again, and no error is reported.
\<close>

theorem retry_ack_drops_message:
  assumes "sink_inv (cy_sink c)" and "ack_code a = AckRetry" and "ack_payload a = []"
    and "bheap_pop (QueueItem_cmp (client_sink_message Y)) (cs_items (cy_sink c)) = Some (x, rest)"
    and "qi_msg_id x = as_msg_id (ack_source a)" and "qi_msg_id x \<in> cs_flying_messages (cy_sink c)"
  shows "\<exists>c'. process_message Y L debug now lk (SC_ClientAck a) c = Some (Ok (), c') \<and>
    mset (cs_items (cy_sink c')) = mset (cs_items (cy_sink c)) - {#x#} \<and>
    qi_msg_id x \<notin> item_ids (cs_items (cy_sink c')) \<and>
    cs_flying_messages (cy_sink c') = cs_flying_messages (cy_sink c) - {qi_msg_id x} \<and> cy_doc c' = cy_doc c"
proof -
  have ms: "mset (cs_items (cy_sink c)) = add_mset x (mset rest)" using assms(4) by (rule bheap_pop_mset)
  have "distinct (map qi_msg_id (x # rest))"
    using assms(1) distinct_ids_cong [of "x # rest" "cs_items (cy_sink c)"] ms by (simp add: sink_inv_def)
  then have "qi_msg_id x \<notin> item_ids rest" by (simp add: item_ids_def)
  then show ?thesis
    using assms(2,3,5,6) ms
    by (simp add: process_message_def check_broadcast_def validate_response_def assms(4) Let_def notify_def)
qed

theorem retry_ack_drops_message_witness:
  "\<exists>c'. process_message lib0 op_lib False 0 all_locks
      (SC_ClientAck (with_code (CollabAck_new 0 ''doc'' 1) AckRetry))
      (sample_client\<lparr>cy_sink := (sample_sink [upd_item 1 [7]])\<lparr>cs_flying_messages := {1}\<rparr>\<rparr>) = Some (Ok (), c') \<and>
    mset (cs_items (cy_sink c')) = {#}"
proof -
  let ?c = "sample_client\<lparr>cy_sink := (sample_sink [upd_item 1 [7]])\<lparr>cs_flying_messages := {1}\<rparr>\<rparr>"
  let ?a = "with_code (CollabAck_new (0::nat) ''doc'' 1) AckRetry"
  have "sink_inv (cy_sink ?c)"
    by (simp add: sample_sink_def sink_inv_def upd_item_def QueueItem_new_def)
  moreover have "ack_code ?a = AckRetry" "ack_payload ?a = []"
    by (simp_all add: with_code_def CollabAck_new_def)
  moreover have "bheap_pop (QueueItem_cmp (client_sink_message lib0)) (cs_items (cy_sink ?c)) = Some (upd_item 1 [7], [])"
    by (simp add: sample_sink_def)
  moreover have "qi_msg_id (upd_item 1 [7]) = as_msg_id (ack_source ?a)"
    "qi_msg_id (upd_item 1 [7]) \<in> cs_flying_messages (cy_sink ?c)"
    by (simp_all add: with_code_def CollabAck_new_def upd_item_def QueueItem_new_def)
  ultimately obtain c' where c': "process_message lib0 op_lib False 0 all_locks (SC_ClientAck ?a) ?c = Some (Ok (), c')"
    "mset (cs_items (cy_sink c')) = mset (cs_items (cy_sink ?c)) - {#upd_item 1 [7]#}"
    using retry_ack_drops_message by blast
  then show ?thesis by (intro exI [of _ c'] conjI) (simp_all add: sample_sink_def)
qed

text \<open>
  A broadcast that arrives while the document's lock is taken is lost: the message counts as
  processed, its sequence number is recorded when it continues the sequence, and neither the
  document nor the queue changes.
\<close>

theorem busy_document_loses_broadcast:
  assumes "\<not> lk_collab lk" and "bs_seq_num b = cy_broadcast_seq_num c + 1"
  shows "process_message Y L debug now lk (SC_ServerBroadcast b) c =
    Some (Ok (), c\<lparr>cy_broadcast_seq_num := bs_seq_num b, cy_sink := notify (cy_sink c)\<rparr>)"
  using assms
  by (simp add: process_message_def check_broadcast_def validate_broadcast_def validate_response_def
      process_payload_def NUMBER_OF_UPDATE_TRIGGER_INIT_SYNC_def Let_def)

theorem busy_document_loses_broadcast_witness:
  "cy_doc (snd (the (process_message lib0 op_lib False 0 (all_locks\<lparr>lk_collab := False\<rparr>)
     (SC_ServerBroadcast (BroadcastSync_new 1 ''doc'' (message_encode lib0 (Sync (Update [9]))) 4)) sample_client)))
   = cy_doc sample_client"
  by (subst busy_document_loses_broadcast) (simp_all add: sample_client_def BroadcastSync_new_def)

text \<open>
  Init syncs caused by gaps are debounced: of two grants of \<open>should_sync\<close>, with any number of
  refusals between them, the second comes more than the debounce time after the first.
\<close>

theorem init_syncs_debounced:
  "sorted_wrt (\<lambda>a b. debounce < b - a) (t # sync_grants debounce ns t)"
proof (induction ns arbitrary: t)
  case (Cons n ns)
  have "debounce < n - t \<Longrightarrow> \<forall>g \<in> set (sync_grants debounce ns n). debounce < g - t"
    using sync_grants_after [of _ debounce ns n] by fastforce
  then show ?case using Cons [of n] Cons [of t]
    by (cases "debounce < n - t") (simp_all add: should_sync_def)
qed simp

text \<open>
  When the connection comes back, the sink is resumed and its queue holds exactly one message, the
  init sync of the local document; whatever was queued or in flight before is discarded.  When it
  is lost or unauthorised, the sink is paused and sends nothing, and keeps its queue.
\<close>

theorem reconnect_resets_queue:
  assumes "start Y L (cy_doc c) = Ok p" and "p \<noteq> []"
  shows "cs_items (cy_sink (on_connect_state Y L all_locks Connected c)) = [init_item c p] \<and>
    cs_flying_messages (cy_sink (on_connect_state Y L all_locks Connected c)) = {} \<and>
    \<not> cs_pause (cy_sink (on_connect_state Y L all_locks Connected c)) \<and>
    process_next_msg S l out (cy_sink (on_connect_state Y L lk Lost c)) = (None, cy_sink (on_connect_state Y L lk Lost c)) \<and>
    cs_items (cy_sink (on_connect_state Y L lk Lost c)) = cs_items (cy_sink c) \<and>
    on_connect_state Y L lk Unauthorized c = on_connect_state Y L lk Lost c"
proof -
  let ?c = "c\<lparr>cy_sink := sink_resume (cy_sink c)\<rparr>"
  have "init_item ?c p = init_item c p" by (simp add: init_item_def sink_resume_def notify_def)
  moreover have "\<not> cs_pause (cy_sink ?c)" by (simp add: sink_resume_def notify_def)
  ultimately have "cs_items (cy_sink (init_sync Y L all_locks ?c)) = [init_item c p]"
    "cs_flying_messages (cy_sink (init_sync Y L all_locks ?c)) = {}" "\<not> cs_pause (cy_sink (init_sync Y L all_locks ?c))"
    using init_sync_queue [of Y L ?c p all_locks] assms by simp_all
  then show ?thesis by (simp add: on_connect_state_def process_next_msg_def sink_pause_def)
qed

theorem reconnect_resets_queue_witness:
  "\<exists>x. cs_items (cy_sink (on_connect_state lib0 op_lib all_locks Connected sample_client)) = [x]"
proof -
  obtain p where p: "start lib0 op_lib (cy_doc sample_client) = Ok p" "p \<noteq> []" using sample_start by blast
  show ?thesis by (rule exI, rule reconnect_resets_queue [OF p, THEN conjunct1])
qed

end
