(* ===== verification/Broadcast.thy ===== *)
theory Broadcast
  imports Collab_Msg Sync_Protocol
begin

text \<open>
  The server's broadcast group, \<open>lib/realtime/src/server/collaborate/group_broadcast.rs\<close>: the
  observers that turn document and awareness changes into broadcasts, the two tasks of a
  subscription, and the handler of a client's message with its acknowledgements.

  The channel itself is \<open>tokio\<close>'s; a task is the function of what its receiver yields.  Whether the
  handler gets the document's lock for its n-th message is an argument.
\<close>

section \<open>The group and its observers\<close>

record CollabBroadcast =
  cb_object_id :: string
  cb_seq_num_counter :: u32

definition CollabBroadcast_new :: "string \<Rightarrow> CollabBroadcast" where
  "CollabBroadcast_new object_id = \<lparr>cb_object_id = object_id, cb_seq_num_counter = 0\<rparr>"

text \<open>The document observer: one broadcast per update event, with the origin of its transaction.\<close>

definition on_doc_update ::
  "('sv, 'aw) yrs \<Rightarrow> 'o \<Rightarrow> bytes \<Rightarrow> CollabBroadcast \<Rightarrow> ('o, 't) CollabMessage \<times> CollabBroadcast" where
  "on_doc_update Y origin update bc =
     (let value = cb_seq_num_counter bc;
          msg = BroadcastSync_new origin (cb_object_id bc) (gen_update_message Y update) (value + 1)
      in (ServerBroadcast msg, bc\<lparr>cb_seq_num_counter := value + 1\<rparr>))"

fun on_doc_updates ::
  "('sv, 'aw) yrs \<Rightarrow> 'o \<Rightarrow> bytes list \<Rightarrow> CollabBroadcast \<Rightarrow> ('o, 't) CollabMessage list \<times> CollabBroadcast" where
  "on_doc_updates Y origin [] bc = ([], bc)"
| "on_doc_updates Y origin (u # us) bc =
     (let (m, bc1) = on_doc_update Y origin u bc; (ms, bc2) = on_doc_updates Y origin us bc1
      in (m # ms, bc2))"

text \<open>The awareness observer; an awareness update that cannot be generated is dropped.\<close>

definition on_awareness_change ::
  "('sv, 'aw) yrs \<Rightarrow> 'o origin_ops \<Rightarrow> 'aw option \<Rightarrow> CollabBroadcast \<Rightarrow> ('o, 't) CollabMessage list" where
  "on_awareness_change Y D update bc =
     (case update of
        None \<Rightarrow> []
      | Some aw \<Rightarrow> [CM_AwarenessSync (AwarenessSync_new D (cb_object_id bc) (message_encode Y (Awareness aw)))])"

section \<open>Handling a client's message\<close>

fun ack_code_from_error :: "protocol_error \<Rightarrow> AckCode" where
  "ack_code_from_error (YrsTransaction _) = AckRetry"
| "ack_code_from_error (YrsApplyUpdate _) = CannotApplyUpdate"
| "ack_code_from_error _ = AckInternal"

text \<open>
  The loop over the messages of one client message: the acknowledgements so far, the document, and
  the update events of the whole loop.
\<close>

fun client_msgs_loop ::
  "('sv, 'aw) yrs \<Rightarrow> ('d, 'sv, 'aw, 'u, 'o) collab_lib \<Rightarrow> string \<Rightarrow> 'o \<Rightarrow> MsgId \<Rightarrow> (nat \<Rightarrow> bool) \<Rightarrow> nat \<Rightarrow>
     'd \<Rightarrow> 'o CollabAck list \<Rightarrow> ('sv, 'aw) message list \<Rightarrow> 'o CollabAck list \<times> 'd \<times> bytes list" where
  "client_msgs_loop Y L object_id origin msg_id locked n d resps [] = (resps, d, [])"
| "client_msgs_loop Y L object_id origin msg_id locked n d resps (msg # ms) =
     (if locked n then
        (case handle_collab_message L origin (ServerSyncProtocol Y L) d msg of
           (Inr payload, d1, ev) \<Rightarrow>
             (let resp = with_payload (CollabAck_new origin object_id msg_id)
                           (case payload of None \<Rightarrow> [] | Some p \<Rightarrow> p);
                  resps1 = (if resps = [] then resps @ [resp] else resps);
                  (resps2, d2, ev2) = client_msgs_loop Y L object_id origin msg_id locked (Suc n) d1 resps1 ms
              in (resps2, d2, ev @ ev2))
         | (Inl err, d1, ev) \<Rightarrow>
             (let resp = with_code (CollabAck_new origin object_id msg_id) (ack_code_from_error err);
                  (resps2, d2, ev2) = client_msgs_loop Y L object_id origin msg_id locked (Suc n) d1 (resps @ [resp]) ms
              in (resps2, d2, ev @ ev2)))
      else client_msgs_loop Y L object_id origin msg_id locked (Suc n) d resps ms)"

text \<open>
  \<open>handle_client_collab_message\<close>: what it sends back, the document, and the update events.  An
  undecodable item ends the loop and is only logged.  \<open>None\<close> is a reader that never ends.
\<close>

definition handle_client_collab_message ::
  "('sv, 'aw) yrs \<Rightarrow> ('d, 'sv, 'aw, 'u, 'o) collab_lib \<Rightarrow> string \<Rightarrow> (nat \<Rightarrow> bool) \<Rightarrow> ('o, 't) ClientCollabMessage \<Rightarrow>
     'd \<Rightarrow> (('o, 't) CollabMessage list \<times> 'd \<times> bytes list) option" where
  "handle_client_collab_message Y L object_id locked m d =
     map_option (\<lambda>(ms, e).
       (case client_msgs_loop Y L object_id (client_origin m) (client_msg_id m) locked 0 d [] ms of
          (resps, d', ev) \<Rightarrow> (map ClientAck resps, d', ev)))
     (read_all Y (client_payload m))"

section \<open>The tasks of a subscription\<close>

text \<open>The sink task: what of the channel's values is forwarded to the subscriber.\<close>

fun sink_task :: "'o \<Rightarrow> ('e + ('o, 't) CollabMessage) list \<Rightarrow> ('o, 't) CollabMessage list" where
  "sink_task subscriber_origin [] = []"
| "sink_task subscriber_origin (Inr message # rs) =
     (if collab_origin message = subscriber_origin then sink_task subscriber_origin rs
      else message # sink_task subscriber_origin rs)"
| "sink_task subscriber_origin (Inl e # rs) = []"

text \<open>The group as the stream task sees it: the document, the broadcast state, what was sent.\<close>

record ('d, 'o, 't) group_state =
  gs_doc :: 'd
  gs_broadcast :: CollabBroadcast
  gs_replies :: "('o, 't) CollabMessage list"
  gs_channel :: "('o, 't) CollabMessage list"

definition group_handle ::
  "('sv, 'aw) yrs \<Rightarrow> ('d, 'sv, 'aw, 'u, 'o) collab_lib \<Rightarrow> (nat \<Rightarrow> bool) \<Rightarrow> ('o, 't) ClientCollabMessage \<Rightarrow>
     ('d, 'o, 't) group_state \<Rightarrow> ('d, 'o, 't) group_state option" where
  "group_handle Y L locked m g =
     map_option (\<lambda>(acks, d, ev).
       (case on_doc_updates Y (client_origin m) ev (gs_broadcast g) of
          (bs, bc) \<Rightarrow> g\<lparr>gs_doc := d, gs_broadcast := bc, gs_replies := gs_replies g @ acks,
                       gs_channel := gs_channel g @ bs\<rparr>))
     (handle_client_collab_message Y L (cb_object_id (gs_broadcast g)) locked m (gs_doc g))"

fun group_handle_all ::
  "('sv, 'aw) yrs \<Rightarrow> ('d, 'sv, 'aw, 'u, 'o) collab_lib \<Rightarrow> (nat \<Rightarrow> bool) \<Rightarrow> ('o, 't) ClientCollabMessage list \<Rightarrow>
     ('d, 'o, 't) group_state \<Rightarrow> ('d, 'o, 't) group_state option" where
  "group_handle_all Y L locked [] g = Some g"
| "group_handle_all Y L locked (m # ms) g =
     Option.bind (group_handle Y L locked m g) (group_handle_all Y L locked ms)"

text \<open>The stream task on one value of the stream: the messages of this object are handled, in order.\<close>

fun stream_task ::
  "('sv, 'aw) yrs \<Rightarrow> ('d, 'sv, 'aw, 'u, 'o) collab_lib \<Rightarrow> (nat \<Rightarrow> bool) \<Rightarrow>
     (string \<times> ('o, 't) ClientCollabMessage list) list \<Rightarrow> ('d, 'o, 't) group_state \<Rightarrow>
     ('d, 'o, 't) group_state option" where
  "stream_task Y L locked [] g = Some g"
| "stream_task Y L locked ((msg_oid, collab_messages) # m) g =
     (if cb_object_id (gs_broadcast g) = msg_oid
      then Option.bind (group_handle_all Y L locked collab_messages g) (stream_task Y L locked m)
      else stream_task Y L locked m g)"

record 'o Subscription =
  sub_origin :: 'o
  sub_sink_stop :: bool
  sub_stream_stop :: bool

definition subscribe :: "'o \<Rightarrow> 'o Subscription" where
  "subscribe subscriber_origin =
     \<lparr>sub_origin = subscriber_origin, sub_sink_stop = True, sub_stream_stop = True\<rparr>"

definition subscription_stop :: "'o Subscription \<Rightarrow> 'o Subscription" where
  "subscription_stop s = s\<lparr>sub_sink_stop := False, sub_stream_stop := False\<rparr>"

text \<open>Whether dropping a subscription reports that it was not stopped.\<close>

definition subscription_drop_error :: "'o Subscription \<Rightarrow> bool" where
  "subscription_drop_error s \<longleftrightarrow> sub_stream_stop s \<or> sub_stream_stop s"

section \<open>Lemmas\<close>

lemma on_doc_updates_length [simp]: "length (fst (on_doc_updates Y o1 us bc)) = length us"
  by (induction us arbitrary: bc) (simp_all add: on_doc_update_def Let_def split: prod.splits, metis fst_conv)

definition seq_nums :: "u32 \<Rightarrow> nat \<Rightarrow> u32 list" where
  "seq_nums c n = map (\<lambda>i. c + 1 + of_nat i) [0..<n]"

lemma seq_nums_0 [simp]: "seq_nums c 0 = []"
  by (simp add: seq_nums_def)

lemma seq_nums_Suc [simp]: "seq_nums c (Suc n) = (c + 1) # seq_nums (c + 1) n"
  unfolding seq_nums_def map_upt_Suc by (simp add: ac_simps)

lemma on_doc_updates_spec:
  "on_doc_updates Y o1 us bc =
     (map2 (\<lambda>u i. ServerBroadcast (BroadcastSync_new o1 (cb_object_id bc) (gen_update_message Y u) i))
        us (seq_nums (cb_seq_num_counter bc) (length us)),
      bc\<lparr>cb_seq_num_counter := cb_seq_num_counter bc + of_nat (length us)\<rparr>)"
proof (induction us arbitrary: bc)
  case (Cons u us)
  show ?case by (simp add: on_doc_update_def Cons.IH add.assoc Let_def)
qed simp

text \<open>Every acknowledgement carries the id of the client's message.\<close>

lemma client_msgs_loop_ids:
  assumes "\<forall>a \<in> set resps. as_msg_id (ack_source a) = i \<and> ack_object_id a = oid \<and> ack_origin a = o1"
  shows "\<forall>a \<in> set (fst (client_msgs_loop Y L oid o1 i locked n d resps ms)).
    as_msg_id (ack_source a) = i \<and> ack_object_id a = oid \<and> ack_origin a = o1"
  using assms
proof (induction ms arbitrary: n d resps)
  case (Cons m ms)
  obtain r d1 ev where h: "handle_collab_message L o1 (ServerSyncProtocol Y L) d m = (r, d1, ev)"
    by (cases "handle_collab_message L o1 (ServerSyncProtocol Y L) d m")
  let ?r1 = "\<lambda>p. if resps = [] then resps @ [with_payload (CollabAck_new o1 oid i) p] else resps"
  let ?r2 = "\<lambda>c. resps @ [with_code (CollabAck_new o1 oid i) c]"
  have 1: "\<forall>a \<in> set (?r1 p). as_msg_id (ack_source a) = i \<and> ack_object_id a = oid \<and> ack_origin a = o1" for p
    using Cons.prems by (simp add: with_payload_def CollabAck_new_def)
  have 2: "\<forall>a \<in> set (?r2 c). as_msg_id (ack_source a) = i \<and> ack_object_id a = oid \<and> ack_origin a = o1" for c
    using Cons.prems by (auto simp: with_code_def CollabAck_new_def)
  show ?case
    using Cons.IH [OF Cons.prems, of "Suc n" d] Cons.IH [OF 1, of "Suc n" d1] Cons.IH [OF 2, of "Suc n" d1] h
    by (cases r) (simp_all add: Let_def split_beta)
qed simp

lemma sink_task_filter:
  "sink_task o1 rs = filter (\<lambda>m. collab_origin m \<noteq> o1) (map projr (takeWhile (\<lambda>r. \<not> isl r) rs))"
  by (induction o1 rs rule: sink_task.induct) simp_all

text \<open>When every message is handled, one acknowledgement goes back: the reply to the first one.\<close>

lemma client_msgs_loop_ok:
  assumes "resps \<noteq> []"
    and "client_msgs_loop Y L oid o1 i (\<lambda>_. True) n d resps ms = (rs, d', ev)"
    and "\<forall>a \<in> set rs. ack_code a = AckSuccess"
  shows "rs = resps"
  using assms
proof (induction ms arbitrary: n d resps rs d' ev)
  case (Cons m ms)
  obtain r d1 ev1 where h: "handle_collab_message L o1 (ServerSyncProtocol Y L) d m = (r, d1, ev1)"
    by (cases "handle_collab_message L o1 (ServerSyncProtocol Y L) d m")
  show ?case
  proof (cases r)
    case (Inr p)
    obtain rs2 d2 ev2 where l: "client_msgs_loop Y L oid o1 i (\<lambda>_. True) (Suc n) d1 resps ms = (rs2, d2, ev2)"
      by (cases "client_msgs_loop Y L oid o1 i (\<lambda>_. True) (Suc n) d1 resps ms")
    have "rs2 = rs" using Cons.prems(1,2) h Inr l by (simp add: Let_def)
    with Cons.IH [OF Cons.prems(1) l] Cons.prems(3) show ?thesis by simp
  next
    case (Inl e)
    let ?rs = "resps @ [with_code (CollabAck_new o1 oid i) (ack_code_from_error e)]"
    obtain rs2 d2 ev2 where l: "client_msgs_loop Y L oid o1 i (\<lambda>_. True) (Suc n) d1 ?rs ms = (rs2, d2, ev2)"
      by (cases "client_msgs_loop Y L oid o1 i (\<lambda>_. True) (Suc n) d1 ?rs ms")
    have e: "rs2 = rs" using Cons.prems(1,2) h Inl l by (simp add: Let_def)
    have "rs2 = ?rs" by (rule Cons.IH [OF _ l]) (use e Cons.prems(3) in simp_all)
    then have "AckSuccess = ack_code_from_error e"
      using e Cons.prems(3) by (simp add: with_code_def)
    then show ?thesis by (cases e) simp_all
  qed
qed simp

lemma client_msgs_loop_one:
  assumes "client_msgs_loop Y L oid o1 i (\<lambda>_. True) n d [] ms = (rs, d', ev)"
    and "\<forall>a \<in> set rs. ack_code a = AckSuccess"
  shows "length rs \<le> 1"
proof (cases ms)
  case (Cons m ms')
  obtain r d1 ev1 where h: "handle_collab_message L o1 (ServerSyncProtocol Y L) d m = (r, d1, ev1)"
    by (cases "handle_collab_message L o1 (ServerSyncProtocol Y L) d m")
  have "\<exists>a d2 ev2. client_msgs_loop Y L oid o1 i (\<lambda>_. True) (Suc n) d1 [a] ms' = (rs, d2, ev2)"
    using assms(1) h unfolding Cons by (cases r) (auto simp: Let_def split: prod.splits)
  then obtain a d2 ev2 where "client_msgs_loop Y L oid o1 i (\<lambda>_. True) (Suc n) d1 [a] ms' = (rs, d2, ev2)"
    by blast
  from client_msgs_loop_ok [OF _ this assms(2)] show ?thesis by simp
qed (use assms(1) in simp)

section \<open>Properties\<close>



text \<open>
  No echo: the sink task forwards to a subscriber exactly the messages whose origin is not the
  subscriber's own, in the order of the channel, up to the first receive error.
\<close>

theorem no_echo:
  "sink_task o1 (map Inr ms @ Inl e # rs) = filter (\<lambda>m. collab_origin m \<noteq> o1) ms \<and>
   list_all (\<lambda>m. collab_origin m \<noteq> o1) (sink_task o1 rs)"
proof -
  have "takeWhile (\<lambda>r. \<not> isl r) (map Inr ms @ Inl e # rs) = map Inr ms"
    by (induction ms) simp_all
  then show ?thesis by (simp add: sink_task_filter list_all_iff o_def)
qed

text \<open>
  Every answer to a client message is an acknowledgement that carries the message's id, the
  group's object and the client's origin, whatever the payload and however the document's lock
  was contended; if all of them report success and the lock was free there is at most one.
\<close>

theorem acks_identify:
  assumes "handle_client_collab_message Y L oid locked m d = Some (out, d', ev)"
  shows "list_all (\<lambda>a. case a of
      ClientAck k \<Rightarrow> as_msg_id (ack_source k) = client_msg_id m \<and> ack_object_id k = oid \<and> ack_origin k = client_origin m
    | _ \<Rightarrow> False) out \<and>
    (locked = (\<lambda>_. True) \<and> list_all (\<lambda>a. case a of ClientAck k \<Rightarrow> ack_code k = AckSuccess | _ \<Rightarrow> False) out \<longrightarrow>
       length out \<le> 1)"
proof -
  obtain ms e rs where ms: "read_all Y (client_payload m) = Some (ms, e)"
    and l: "client_msgs_loop Y L oid (client_origin m) (client_msg_id m) locked 0 d [] ms = (rs, d', ev)"
      "out = map ClientAck rs"
  proof -
    obtain ms e where ms: "read_all Y (client_payload m) = Some (ms, e)"
      using assms by (cases "read_all Y (client_payload m)") (auto simp: handle_client_collab_message_def)
    obtain rs d1 ev1 where "client_msgs_loop Y L oid (client_origin m) (client_msg_id m) locked 0 d [] ms = (rs, d1, ev1)"
      by (cases "client_msgs_loop Y L oid (client_origin m) (client_msg_id m) locked 0 d [] ms")
    with ms assms that show ?thesis by (simp add: handle_client_collab_message_def)
  qed
  show ?thesis
    using client_msgs_loop_ids [of "[]" "client_msg_id m" oid "client_origin m" Y L locked 0 d ms] l
      client_msgs_loop_one [of Y L oid "client_origin m" "client_msg_id m" 0 d ms rs d' ev]
    by (auto simp: list_all_iff)
qed

definition sample_client_msg :: "bytes \<Rightarrow> (nat, nat) ClientCollabMessage" where
  "sample_client_msg b = CC_UpdateSync (UpdateSync_new 7 ''doc'' b 3)"

theorem acks_identify_witness:
  "\<exists>out d' ev. handle_client_collab_message lib0 op_lib ''doc'' (\<lambda>n. True)
      (sample_client_msg (message_encode lib0 (Sync (Update [1])))) [] = Some (out, d', ev) \<and>
    list_all (\<lambda>a. case a of ClientAck k \<Rightarrow> as_msg_id (ack_source k) = 3 \<and> ack_object_id k = ''doc'' \<and> ack_origin k = 7
      | _ \<Rightarrow> False) (out :: (nat, nat) CollabMessage list)"
proof -
  let ?h = "handle_client_collab_message lib0 op_lib ''doc'' (\<lambda>n. True)
      (sample_client_msg (message_encode lib0 (Sync (Update [1])))) [] :: ((nat, nat) CollabMessage list \<times> _ \<times> _) option"
  have "?h \<noteq> None"
    by (simp add: handle_client_collab_message_def read_all_ends [OF yrs_laws_lib0])
  then obtain out d' ev where h: "?h = Some (out, d', ev)" by auto
  have ids: "client_msg_id (sample_client_msg b) = 3" "client_origin (sample_client_msg b) = 7" for b
    by (simp_all add: sample_client_msg_def UpdateSync_new_def)
  note acks_identify [OF h, unfolded ids]
  then show ?thesis using h by blast
qed

text \<open>
  A client message whose payload does not start with a decodable message is not acknowledged at
  all: nothing is sent back and the document is untouched, so the client keeps it at the head of
  its queue and sends it again at every resend tick.
\<close>

theorem undecodable_not_acked:
  assumes "reader_next Y (client_payload m) = Some (Inl e)"
  shows "handle_client_collab_message Y L oid locked m d = Some ([], d, [])"
  using assms by (simp add: handle_client_collab_message_def read_all_def)

theorem undecodable_not_acked_witness:
  "handle_client_collab_message lib0 op_lib ''doc'' (\<lambda>n. True) (sample_client_msg [9]) [5] = Some ([], [5], [])"
proof -
  have "reader_next lib0 (client_payload (sample_client_msg [9])) = Some (Inl UnexpectedValue)"
    by (simp add: sample_client_msg_def UpdateSync_new_def lib0_def lib0_read_var_def reader_next_def
        message_decode_def tag_defs)
  then show ?thesis by (rule undecodable_not_acked)
qed

text \<open>
  Dropping a subscription whose stream task was stopped reports no error even when its sink task
  is still running: the check asks for the stream task twice.
\<close>

theorem subscription_drop_misses_sink:
  "\<not> subscription_drop_error \<lparr>sub_origin = o1, sub_sink_stop = True, sub_stream_stop = False\<rparr>"
  by (simp add: subscription_drop_error_def)

end
