(* ===== verification/Handshake.thy ===== *)
theory Handshake
  imports Sync_Control Broadcast
begin

text \<open>
  The client's sync control and the server's broadcast group run against each other: the exchange
  drawn at the top of \<open>realtime-protocol/src/protocol.rs\<close> (first step, second step with the
  server's own first step, second step back) brings both documents to the same content.

  A round is \<open>client_send\<close> (the sink hands its batch to the connection), \<open>server_receive\<close> (the
  group's handler with the document's lock free) and \<open>process_message\<close> on the answer.
\<close>

section \<open>A round\<close>

definition client_send ::
  "('sv, 'aw) yrs \<Rightarrow> ('d, 'o, 't) client_sync \<Rightarrow> ('o, 't) ClientCollabMessage list \<times> ('d, 'o, 't) client_sync" where
  "client_send Y c =
     (case process_next_msg (client_sink_message Y) True SendOk (cy_sink c) of
        (None, s) \<Rightarrow> ([], c\<lparr>cy_sink := s\<rparr>)
      | (Some ms, s) \<Rightarrow> (ms, c\<lparr>cy_sink := s\<rparr>))"

abbreviation server_receive where
  "server_receive Y L oid m d \<equiv> handle_client_collab_message Y L oid (\<lambda>_. True) m d"

section \<open>One message at a time\<close>

lemma client_send_single:
  assumes "\<not> cs_pause (cy_sink c)" and "cs_items (cy_sink c) = [x]" and "cs_flying_messages (cy_sink c) = {}"
  shows "client_send Y c = ([qi_inner x],
    c\<lparr>cy_sink := (set_items (cy_sink c) [x])\<lparr>cs_flying_messages := {qi_msg_id x}\<rparr>\<rparr>)"
  using assms by (simp add: client_send_def process_next_msg_def batch_single send_immediately_def)

lemma validate_single:
  assumes "cs_items s = [x]" and "cs_flying_messages s = {qi_msg_id x}" and "server_msg_id m = Some (qi_msg_id x)"
  shows "validate_response S m s =
    (True, (set_items s [])\<lparr>cs_flying_messages := {}, cs_state := SinkFinished\<rparr>)"
  using assms by (simp add: validate_response_def)

lemma queue_msg_single:
  assumes "cs_items s = []" and "cs_flying_messages s = {}"
  shows "cs_items (queue_msg S l f s) = [QueueItem_new (f (cs_msg_id_counter s)) (cs_msg_id_counter s)] \<and>
    cs_flying_messages (queue_msg S l f s) = {} \<and> cs_pause (queue_msg S l f s) = cs_pause s"
proof -
  obtain s3 where s3: "queue_msg S l f s = sink_merge S l s3"
    "cs_items s3 = cs_items s @ [QueueItem_new (f (cs_msg_id_counter s)) (cs_msg_id_counter s)]"
    "cs_flying_messages s3 = cs_flying_messages s" "cs_pause s3 = cs_pause s"
    using queue_msg_shape [of S l f s] by blast
  then show ?thesis using assms by (simp add: sink_merge_single)
qed

text \<open>The server's answer to an init message, and to a second step.\<close>

lemma server_answers_init:
  assumes "yrs_laws Y" and "collab_laws L content"
    and "client_payload m = message_encode Y (Sync (SyncStep1 sv)) @ message_encode Y (Awareness aw)"
  shows "\<exists>d. server_receive Y L oid m s = Some ([ClientAck (with_payload (CollabAck_new (client_origin m) oid (client_msg_id m))
      (message_encode Y (Sync (SyncStep2 (cl_encode_state_as_update L s sv))) @
       message_encode Y (Sync (SyncStep1 (cl_state_vector L s)))))], d, []) \<and> content d = content s"
proof -
  obtain d where d: "handle_collab_message L (client_origin m) (ServerSyncProtocol Y L) s (Awareness aw) = (Ok None, d, [])"
    "content d = content s"
    using collab_awareness_law [OF assms(2)] by blast
  have r: "read_all Y (client_payload m) = Some ([Sync (SyncStep1 sv), Awareness aw], None)"
    unfolding assms(3) by (rule read_all_encode2 [OF assms(1)])
  have h: "handle_collab_message L (client_origin m) (ServerSyncProtocol Y L) s (Sync (SyncStep1 sv)) =
      (Ok (Some (message_encode Y (Sync (SyncStep2 (cl_encode_state_as_update L s sv))) @
                 message_encode Y (Sync (SyncStep1 (cl_state_vector L s))))), s, [])"
    by (simp add: ServerSyncProtocol_def server_handle_sync_step1_def del: message_encode.simps)
  have "server_receive Y L oid m s = Some ([ClientAck (with_payload (CollabAck_new (client_origin m) oid (client_msg_id m))
      (message_encode Y (Sync (SyncStep2 (cl_encode_state_as_update L s sv))) @
       message_encode Y (Sync (SyncStep1 (cl_state_vector L s)))))], d, [])"
    by (simp add: handle_client_collab_message_def r h d(1) Let_def
        del: message_encode.simps handle_collab_message.simps)
  with d(2) show ?thesis by blast
qed

lemma server_takes_step2:
  assumes "yrs_laws Y" and "collab_laws L content" and "content s0 \<subseteq> content s"
    and "client_payload m = message_encode Y (Sync (SyncStep2 (cl_encode_state_as_update L c (cl_state_vector L s0))))"
  shows "\<exists>d ev. server_receive Y L oid m s =
      Some ([ClientAck (with_payload (CollabAck_new (client_origin m) oid (client_msg_id m)) [])], d, ev) \<and>
    content d = content s \<union> content c"
proof -
  obtain d ev where h: "handle_collab_message L (client_origin m) (ServerSyncProtocol Y L) s
      (Sync (SyncStep2 (cl_encode_state_as_update L c (cl_state_vector L s0)))) = (Ok None, d, ev)"
    "content d = content s \<union> content c"
    using collab_step2_law [OF assms(2,3)] by blast
  have r: "read_all Y (client_payload m) =
      Some ([Sync (SyncStep2 (cl_encode_state_as_update L c (cl_state_vector L s0)))], None)"
    unfolding assms(4) by (rule read_all_encode1 [OF assms(1)])
  have "server_receive Y L oid m s =
      Some ([ClientAck (with_payload (CollabAck_new (client_origin m) oid (client_msg_id m)) [])], d, ev)"
    by (simp add: handle_client_collab_message_def r h(1) Let_def del: handle_collab_message.simps)
  with h(2) show ?thesis by blast
qed

text \<open>The client takes the answer to its init message and queues its second step.\<close>

lemma client_takes_answer:
  assumes "yrs_laws Y" and "collab_laws L content"
    and "cs_items (cy_sink c) = [x]" and "cs_flying_messages (cy_sink c) = {qi_msg_id x}"
    and "ack_code a = AckSuccess" and "as_msg_id (ack_source a) = qi_msg_id x"
    and "ack_payload a = message_encode Y (Sync (SyncStep2 (cl_encode_state_as_update L s (cl_state_vector L c0)))) @
           message_encode Y (Sync (SyncStep1 (cl_state_vector L s)))"
    and "content c0 \<subseteq> content (cy_doc c)"
  shows "\<exists>c' y. process_message Y L debug now all_locks (SC_ClientAck a) c = Some (Ok (), c') \<and>
    content (cy_doc c') = content (cy_doc c) \<union> content s \<and>
    cs_items (cy_sink c') = [y] \<and> cs_flying_messages (cy_sink c') = {} \<and>
    cs_pause (cy_sink c') = cs_pause (cy_sink c) \<and>
    client_payload (qi_inner y) =
      message_encode Y (Sync (SyncStep2 (cl_encode_state_as_update L (cy_doc c') (cl_state_vector L s)))) \<and>
    client_msg_id (qi_inner y) = qi_msg_id y"
proof -
  let ?s2 = "Sync (SyncStep2 (cl_encode_state_as_update L s (cl_state_vector L c0)))"
  let ?s1 = "Sync (SyncStep1 (cl_state_vector L s))"
  let ?c2 = "c\<lparr>cy_sink := (set_items (cy_sink c) [])\<lparr>cs_flying_messages := {}, cs_state := SinkFinished\<rparr>\<rparr>"
  let ?o = "ack_origin a"
  obtain d ev where h2: "handle_collab_message L ?o (ClientSyncProtocol Y L) (cy_doc c) ?s2 = (Ok None, d, ev)"
    "content d = content (cy_doc c) \<union> content s"
    using collab_step2_law [OF assms(2,8)] by blast
  let ?p = "message_encode Y (Sync (SyncStep2 (cl_encode_state_as_update L d (cl_state_vector L s))))"
  have "cl_try_transact L d = None" using assms(2) unfolding collab_laws_def by blast
  then have h1: "handle_collab_message L ?o (ClientSyncProtocol Y L) d ?s1 = (Ok (Some ?p), d, [])"
    by (simp add: ClientSyncProtocol_def handle_sync_step1_def del: message_encode.simps)
  let ?f = "\<lambda>i. CC_ServerInitSync (ServerInit_new ?o (so_object_id (cy_object c)) ?p i)"
  let ?q = "queue_msg (client_sink_message Y) True ?f (cy_sink ?c2)"
  have v: "validate_response (client_sink_message Y) (SC_ClientAck a) (cy_sink c) = (True, cy_sink ?c2)"
    by (subst validate_single [OF assms(3,4)]) (simp_all add: assms(6))
  have r: "read_all Y (ack_payload a) = Some ([?s2, ?s1], None)"
    unfolding assms(7) by (rule read_all_encode2 [OF assms(1)])
  have ne: "ack_payload a \<noteq> []"
    unfolding assms(7) using message_encode_length [OF assms(1), of ?s2] by (metis append_is_Nil_conv less_irrefl list.size(3))
  have pm: "process_msgs Y L True ?o (so_object_id (cy_object c)) [?s2, ?s1] None (cy_sink ?c2) (cy_doc c) = (Ok (), ?q, d)"
    by (simp add: h2(1) h1 del: message_encode.simps handle_collab_message.simps)
  let ?c' = "?c2\<lparr>cy_sink := notify ?q, cy_doc := d\<rparr>"
  have pp: "process_payload Y L all_locks ?o (ack_payload a) ?c2 = Some (Ok (), ?c2\<lparr>cy_sink := ?q, cy_doc := d\<rparr>)"
    using pm by (simp add: process_payload_def r del: message_encode.simps process_msgs.simps)
  have pr: "process_message Y L debug now all_locks (SC_ClientAck a) c = Some (Ok (), ?c')"
    using pp by (simp add: process_message_def check_broadcast_def v assms(5) Let_def ne)
  have i: "qi_msg_id (QueueItem_new m j) = j" "qi_inner (QueueItem_new m j) = m" for m :: "('e, 't) ClientCollabMessage" and j
    by (simp_all add: QueueItem_new_def)
  let ?j = "cs_msg_id_counter (cy_sink c)"
  have "cs_items ?q = [QueueItem_new (?f ?j) ?j] \<and> cs_flying_messages ?q = {} \<and> cs_pause ?q = cs_pause (cy_sink c)"
    using queue_msg_single [of "cy_sink ?c2" "client_sink_message Y" True ?f] by simp
  then show ?thesis
    by (intro exI [of _ ?c'] exI [of _ "QueueItem_new (?f ?j) ?j"])
       (simp add: pr h2(2) notify_def i ServerInit_new_def del: message_encode.simps)
qed

lemma client_takes_ack:
  assumes "cs_items (cy_sink c) = [x]" and "cs_flying_messages (cy_sink c) = {qi_msg_id x}"
    and "ack_code a = AckSuccess" and "as_msg_id (ack_source a) = qi_msg_id x" and "ack_payload a = []"
  shows "\<exists>c'. process_message Y L debug now lk (SC_ClientAck a) c = Some (Ok (), c') \<and> cy_doc c' = cy_doc c \<and>
    cs_items (cy_sink c') = [] \<and> cs_flying_messages (cy_sink c') = {} \<and> cs_state (cy_sink c') = SinkFinished"
proof -
  have "validate_response (client_sink_message Y) (SC_ClientAck a) (cy_sink c) =
      (True, (set_items (cy_sink c) [])\<lparr>cs_flying_messages := {}, cs_state := SinkFinished\<rparr>)"
    by (rule validate_single [OF assms(1,2)]) (simp add: assms(4))
  then show ?thesis by (simp add: process_message_def check_broadcast_def assms(3,5) Let_def notify_def)
qed

section \<open>Properties\<close>

text \<open>
  C1: Convergence of the sync handshake.  A client that is not paused starts an init sync; its sink
  sends one message, the server answers it with one acknowledgement, the client takes the answer
  and sends one message back, and the server acknowledges that one too.  Then the client's and the
  server's documents have the same content, everything either of them held at the start, the
  client's queue is empty and its sink is finished.
\<close>

theorem handshake_converges:
  assumes "yrs_laws Y" and "collab_laws L content" and "\<not> cs_pause (cy_sink c)"
  shows "\<exists>m1 c1 a1 s1 c2 m2 c3 a2 s2 ev c4.
    client_send Y (init_sync Y L all_locks c) = ([m1], c1) \<and>
    server_receive Y L oid m1 s = Some ([ClientAck a1], s1, []) \<and>
    process_message Y L debug now all_locks (SC_ClientAck a1) c1 = Some (Ok (), c2) \<and>
    client_send Y c2 = ([m2], c3) \<and>
    server_receive Y L oid m2 s1 = Some ([ClientAck a2], s2, ev) \<and>
    process_message Y L debug now all_locks (SC_ClientAck a2) c3 = Some (Ok (), c4) \<and>
    content (cy_doc c4) = content (cy_doc c) \<union> content s \<and> content s2 = content (cy_doc c) \<union> content s \<and>
    cs_items (cy_sink c4) = [] \<and> cs_state (cy_sink c4) = SinkFinished"
proof -
  obtain aw p where p: "start Y L (cy_doc c) = Ok p" "p \<noteq> []"
    "p = message_encode Y (Sync (SyncStep1 (cl_state_vector L (cy_doc c)))) @ message_encode Y (Awareness aw)"
    using start_nonempty [OF assms(1,2)] by blast
  let ?c0 = "init_sync Y L all_locks c" and ?x = "init_item c p"
  have c0: "cs_items (cy_sink ?c0) = [?x]" "cs_flying_messages (cy_sink ?c0) = {}" "\<not> cs_pause (cy_sink ?c0)"
    "cy_doc ?c0 = cy_doc c"
    using init_sync_queue [OF p(1,2), of all_locks] assms(3) by simp_all
  let ?m1 = "qi_inner ?x"
  let ?c1 = "?c0\<lparr>cy_sink := (set_items (cy_sink ?c0) [?x])\<lparr>cs_flying_messages := {qi_msg_id ?x}\<rparr>\<rparr>"
  have send1: "client_send Y ?c0 = ([?m1], ?c1)" by (rule client_send_single [OF c0(3,1,2)])
  have m1: "client_payload ?m1 = message_encode Y (Sync (SyncStep1 (cl_state_vector L (cy_doc c)))) @
      message_encode Y (Awareness aw)" "client_msg_id ?m1 = qi_msg_id ?x"
    using p(3) by (simp_all add: init_item_def QueueItem_new_def InitSync_new_def del: message_encode.simps)
  let ?a1 = "with_payload (CollabAck_new (client_origin ?m1) oid (client_msg_id ?m1))
      (message_encode Y (Sync (SyncStep2 (cl_encode_state_as_update L s (cl_state_vector L (cy_doc c))))) @
       message_encode Y (Sync (SyncStep1 (cl_state_vector L s))))"
  obtain s1 where s1: "server_receive Y L oid ?m1 s = Some ([ClientAck ?a1], s1, [])" "content s1 = content s"
    using server_answers_init [OF assms(1,2) m1(1), of oid s] by blast
  have "\<exists>c' y. process_message Y L debug now all_locks (SC_ClientAck ?a1) ?c1 = Some (Ok (), c') \<and>
    content (cy_doc c') = content (cy_doc ?c1) \<union> content s \<and>
    cs_items (cy_sink c') = [y] \<and> cs_flying_messages (cy_sink c') = {} \<and>
    cs_pause (cy_sink c') = cs_pause (cy_sink ?c1) \<and>
    client_payload (qi_inner y) =
      message_encode Y (Sync (SyncStep2 (cl_encode_state_as_update L (cy_doc c') (cl_state_vector L s)))) \<and>
    client_msg_id (qi_inner y) = qi_msg_id y"
    by (rule client_takes_answer [OF assms(1,2), where x = ?x and ?c0.0 = "cy_doc c"])
       (simp_all add: m1(2) c0(4) with_payload_def CollabAck_new_def del: message_encode.simps)
  then obtain c2 y where c2: "process_message Y L debug now all_locks (SC_ClientAck ?a1) ?c1 = Some (Ok (), c2)"
    "content (cy_doc c2) = content (cy_doc c) \<union> content s" "cs_items (cy_sink c2) = [y]"
    "cs_flying_messages (cy_sink c2) = {}" "\<not> cs_pause (cy_sink c2)"
    "client_payload (qi_inner y) =
      message_encode Y (Sync (SyncStep2 (cl_encode_state_as_update L (cy_doc c2) (cl_state_vector L s))))"
    "client_msg_id (qi_inner y) = qi_msg_id y"
    using c0(3,4) by (auto simp del: message_encode.simps)
  let ?c3 = "c2\<lparr>cy_sink := (set_items (cy_sink c2) [y])\<lparr>cs_flying_messages := {qi_msg_id y}\<rparr>\<rparr>"
  have send2: "client_send Y c2 = ([qi_inner y], ?c3)" by (rule client_send_single [OF c2(5,3,4)])
  let ?a2 = "with_payload (CollabAck_new (client_origin (qi_inner y)) oid (client_msg_id (qi_inner y))) []"
  obtain s2 ev where s2: "server_receive Y L oid (qi_inner y) s1 = Some ([ClientAck ?a2], s2, ev)"
    "content s2 = content s1 \<union> content (cy_doc c2)"
    using server_takes_step2 [OF assms(1,2) _ c2(6), of s1 oid] s1(2) by blast
  have "\<exists>c'. process_message Y L debug now all_locks (SC_ClientAck ?a2) ?c3 = Some (Ok (), c') \<and> cy_doc c' = cy_doc ?c3 \<and>
    cs_items (cy_sink c') = [] \<and> cs_flying_messages (cy_sink c') = {} \<and> cs_state (cy_sink c') = SinkFinished"
    by (rule client_takes_ack [where x = y]) (simp_all add: c2(7) with_payload_def CollabAck_new_def)
  then obtain c4 where c4: "process_message Y L debug now all_locks (SC_ClientAck ?a2) ?c3 = Some (Ok (), c4)"
    "cy_doc c4 = cy_doc c2" "cs_items (cy_sink c4) = []" "cs_state (cy_sink c4) = SinkFinished"
    by auto
  have "content (cy_doc c4) = content (cy_doc c) \<union> content s" "content s2 = content (cy_doc c) \<union> content s"
    using c4(2) c2(2) s2(2) s1(2) by auto
  with send1 s1(1) c2(1) send2 s2(1) c4 show ?thesis by blast
qed

theorem handshake_converges_witness:
  "\<exists>m1 c1 a1 s1 c2 m2 c3 a2 s2 ev c4.
    client_send lib0 (init_sync lib0 op_lib all_locks sample_client) = ([m1], c1) \<and>
    server_receive lib0 op_lib ''doc'' m1 [3] = Some ([ClientAck a1], s1, []) \<and>
    process_message lib0 op_lib False 0 all_locks (SC_ClientAck a1) c1 = Some (Ok (), c2) \<and>
    client_send lib0 c2 = ([m2], c3) \<and>
    server_receive lib0 op_lib ''doc'' m2 s1 = Some ([ClientAck a2], s2, ev) \<and>
    process_message lib0 op_lib False 0 all_locks (SC_ClientAck a2) c3 = Some (Ok (), c4) \<and>
    set (cy_doc c4) = {1, 2, 3} \<and> set s2 = {1, 2, 3} \<and>
    cs_items (cy_sink c4) = [] \<and> cs_state (cy_sink c4) = SinkFinished"
proof -
  have p: "\<not> cs_pause (cy_sink sample_client)"
    by (simp add: sample_client_def sample_sink_def CollabSink_new_def set_items_def)
  have u: "set (cy_doc sample_client) \<union> set [3] = {1, 2, 3}" by (auto simp: sample_client_def)
  show ?thesis
    using handshake_converges [OF yrs_laws_lib0 collab_laws_op_lib p, of "''doc''" "[3]" False 0] unfolding u .
qed

end
