(* ===== verification/Dto.thy ===== *)
theory Dto
  imports Prelude
begin

text \<open>
  Data transfer objects: \<open>lib/database-entity/src/dto.rs\<close> (collab parameters and their validators,
  roles, access levels, invitations, workspaces) and the conversions of database rows of
  \<open>lib/database/src/pg_row.rs\<close>.  The types of \<open>collab_entity\<close>, \<open>uuid\<close> and \<open>serde_json\<close> are type
  variables (\<open>'t\<close>, \<open>'id\<close>, \<open>'j\<close>), instants are integers of seconds.
\<close>

section \<open>Parameters and validators\<close>

type_synonym validation = "string + unit"

definition validate_not_empty_str :: "string \<Rightarrow> validation" where
  "validate_not_empty_str s = (if s = [] then Err ''should not be empty string'' else Ok ())"

definition validate_not_empty_payload :: "bytes \<Rightarrow> validation" where
  "validate_not_empty_payload p = (if p = [] then Err ''should not be empty payload'' else Ok ())"

text \<open>The derived \<open>validate\<close> runs every field's validator and collects the errors.\<close>

definition all_valid :: "validation list \<Rightarrow> string list + unit" where
  "all_valid vs =
     (case concat (map (\<lambda>v. case v of Inl e \<Rightarrow> [e] | Inr u \<Rightarrow> []) vs) of
        [] \<Rightarrow> Ok ()
      | es \<Rightarrow> Err es)"

lemma all_valid_ok [simp]: "is_ok (all_valid vs) \<longleftrightarrow> list_all is_ok vs"
proof -
  let ?es = "concat (map (\<lambda>v. case v of Inl e \<Rightarrow> [e] | Inr u \<Rightarrow> []) vs)"
  have "?es = [] \<longleftrightarrow> list_all is_ok vs"
    by (induction vs) (auto simp: is_ok_def split: sum.splits)
  moreover have "is_ok (all_valid vs) \<longleftrightarrow> ?es = []"
    unfolding all_valid_def by (cases ?es) (simp_all del: concat_eq_Nil_conv)
  ultimately show ?thesis by (simp only:)
qed

lemma validators_ok [simp]:
  "is_ok (validate_not_empty_str s) \<longleftrightarrow> s \<noteq> []" "is_ok (validate_not_empty_payload p) \<longleftrightarrow> p \<noteq> []"
  by (simp_all add: validate_not_empty_str_def validate_not_empty_payload_def)

record 't CollabParams =
  cp_object_id :: string
  cp_encoded_collab_v1 :: bytes
  cp_collab_type :: 't
  cp_override_if_exist :: bool

definition CollabParams_new :: "string \<Rightarrow> 't \<Rightarrow> bytes \<Rightarrow> 't CollabParams" where
  "CollabParams_new object_id collab_type encoded =
     \<lparr>cp_object_id = object_id, cp_encoded_collab_v1 = encoded, cp_collab_type = collab_type,
      cp_override_if_exist = False\<rparr>"

definition override_collab_if_exist :: "'t CollabParams \<Rightarrow> bool \<Rightarrow> 't CollabParams" where
  "override_collab_if_exist p b = p\<lparr>cp_override_if_exist := b\<rparr>"

definition validate_CollabParams :: "'t CollabParams \<Rightarrow> string list + unit" where
  "validate_CollabParams p =
     all_valid [validate_not_empty_str (cp_object_id p), validate_not_empty_payload (cp_encoded_collab_v1 p)]"

record 't CreateCollabParams =
  cc_workspace_id :: string
  cc_object_id :: string
  cc_encoded_collab_v1 :: bytes
  cc_collab_type :: 't
  cc_override_if_exist :: bool

definition validate_CreateCollabParams :: "'t CreateCollabParams \<Rightarrow> string list + unit" where
  "validate_CreateCollabParams p =
     all_valid [validate_not_empty_str (cc_workspace_id p), validate_not_empty_str (cc_object_id p),
                validate_not_empty_payload (cc_encoded_collab_v1 p)]"

definition create_collab_params_from :: "string \<times> 't CollabParams \<Rightarrow> 't CreateCollabParams" where
  "create_collab_params_from wp =
     (case wp of (workspace_id, p) \<Rightarrow>
       \<lparr>cc_workspace_id = workspace_id, cc_object_id = cp_object_id p,
        cc_encoded_collab_v1 = cp_encoded_collab_v1 p, cc_collab_type = cp_collab_type p,
        cc_override_if_exist = cp_override_if_exist p\<rparr>)"

definition create_collab_params_split :: "'t CreateCollabParams \<Rightarrow> 't CollabParams \<times> string" where
  "create_collab_params_split p =
     (\<lparr>cp_object_id = cc_object_id p, cp_encoded_collab_v1 = cc_encoded_collab_v1 p,
       cp_collab_type = cc_collab_type p, cp_override_if_exist = cc_override_if_exist p\<rparr>, cc_workspace_id p)"

record 't BatchCreateCollabParams =
  bc_workspace_id :: string
  bc_params_list :: "'t CollabParams list"

definition validate_BatchCreateCollabParams :: "'t BatchCreateCollabParams \<Rightarrow> string list + unit" where
  "validate_BatchCreateCollabParams p = all_valid [validate_not_empty_str (bc_workspace_id p)]"

record DeleteCollabParams =
  dc_object_id :: string
  dc_workspace_id :: string

definition validate_DeleteCollabParams :: "DeleteCollabParams \<Rightarrow> string list + unit" where
  "validate_DeleteCollabParams p =
     all_valid [validate_not_empty_str (dc_object_id p), validate_not_empty_str (dc_workspace_id p)]"

record InsertSnapshotParams =
  isp_object_id :: string
  isp_encoded_collab_v1 :: bytes
  isp_workspace_id :: string

definition validate_InsertSnapshotParams :: "InsertSnapshotParams \<Rightarrow> string list + unit" where
  "validate_InsertSnapshotParams p =
     all_valid [validate_not_empty_str (isp_object_id p), validate_not_empty_payload (isp_encoded_collab_v1 p),
                validate_not_empty_str (isp_workspace_id p)]"

record SnapshotData =
  sd_object_id :: string
  sd_encoded_collab_v1 :: bytes
  sd_workspace_id :: string

record 't QueryCollab =
  qc_object_id :: string
  qc_collab_type :: 't

record 't QueryCollabParams =
  qp_workspace_id :: string
  qp_inner :: "'t QueryCollab"

definition QueryCollabParams_new :: "string \<Rightarrow> 't \<Rightarrow> string \<Rightarrow> 't QueryCollabParams" where
  "QueryCollabParams_new object_id collab_type workspace_id =
     \<lparr>qp_workspace_id = workspace_id, qp_inner = \<lparr>qc_object_id = object_id, qc_collab_type = collab_type\<rparr>\<rparr>"

definition validate_QueryCollabParams :: "'t QueryCollabParams \<Rightarrow> string list + unit" where
  "validate_QueryCollabParams p =
     all_valid [validate_not_empty_str (qp_workspace_id p), validate_not_empty_str (qc_object_id (qp_inner p))]"

datatype QueryCollabResult = QC_Success bytes | QC_Failed string

record AFSnapshotMeta =
  sm_snapshot_id :: int
  sm_object_id :: string
  sm_created_at :: int

section \<open>Roles, access levels, invitations\<close>

datatype AFRole = RoleOwner | RoleMember | RoleGuest

definition can_create_collab :: "AFRole \<Rightarrow> bool" where
  "can_create_collab r \<longleftrightarrow> (case r of RoleOwner \<Rightarrow> True | RoleMember \<Rightarrow> True | RoleGuest \<Rightarrow> False)"

definition role_from_i32 :: "int \<Rightarrow> AFRole" where
  "role_from_i32 v = (if v = 1 then RoleOwner else if v = 2 then RoleMember else if v = 3 then RoleGuest else RoleGuest)"

fun role_to_i32 :: "AFRole \<Rightarrow> int" where
  "role_to_i32 RoleOwner = 1"
| "role_to_i32 RoleMember = 2"
| "role_to_i32 RoleGuest = 3"

text \<open>\<open>i32::from_str\<close>: an optional sign, at least one decimal digit, and a value in range.\<close>

definition is_digit :: "char \<Rightarrow> bool" where
  "is_digit c \<longleftrightarrow> 48 \<le> (of_char c :: nat) \<and> (of_char c :: nat) \<le> 57"

definition i32_from_str :: "string \<Rightarrow> int option" where
  "i32_from_str s =
     (let (neg, ds) = (case s of [] \<Rightarrow> (False, [])
                       | c # cs \<Rightarrow> if c = CHR ''-'' then (True, cs) else if c = CHR ''+'' then (False, cs) else (False, s));
          v = (if neg then - int (parse_digits 0 ds) else int (parse_digits 0 ds))
      in if ds \<noteq> [] \<and> list_all is_digit ds \<and> - (2 ^ 31) \<le> v \<and> v < 2 ^ 31 then Some v else None)"

definition role_from_str :: "string \<Rightarrow> AFRole" where
  "role_from_str s = (case i32_from_str s of Some v \<Rightarrow> role_from_i32 v | None \<Rightarrow> RoleGuest)"

datatype AFAccessLevel = ReadOnly | ReadAndComment | ReadAndWrite | FullAccess

fun can_write :: "AFAccessLevel \<Rightarrow> bool" where
  "can_write ReadOnly = False"
| "can_write ReadAndComment = False"
| "can_write ReadAndWrite = True"
| "can_write FullAccess = True"

fun can_delete :: "AFAccessLevel \<Rightarrow> bool" where
  "can_delete ReadOnly = False"
| "can_delete ReadAndComment = False"
| "can_delete ReadAndWrite = False"
| "can_delete FullAccess = True"

fun level_from_role :: "AFRole \<Rightarrow> AFAccessLevel" where
  "level_from_role RoleOwner = FullAccess"
| "level_from_role RoleMember = ReadAndWrite"
| "level_from_role RoleGuest = ReadOnly"

definition level_from_i32 :: "int \<Rightarrow> AFAccessLevel" where
  "level_from_i32 v =
     (if v = 10 then ReadOnly else if v = 20 then ReadAndComment else if v = 30 then ReadAndWrite
      else if v = 50 then FullAccess else ReadOnly)"

definition level_from_str :: "string \<Rightarrow> AFAccessLevel" where
  "level_from_str s = (case i32_from_str s of Some v \<Rightarrow> level_from_i32 v | None \<Rightarrow> ReadOnly)"

fun level_to_i32 :: "AFAccessLevel \<Rightarrow> int" where
  "level_to_i32 ReadOnly = 10"
| "level_to_i32 ReadAndComment = 20"
| "level_to_i32 ReadAndWrite = 30"
| "level_to_i32 FullAccess = 50"

record InsertCollabMemberParams =
  icm_uid :: int
  icm_workspace_id :: string
  icm_object_id :: string
  icm_access_level :: AFAccessLevel

definition validate_InsertCollabMemberParams :: "InsertCollabMemberParams \<Rightarrow> string list + unit" where
  "validate_InsertCollabMemberParams p =
     all_valid [validate_not_empty_str (icm_workspace_id p), validate_not_empty_str (icm_object_id p)]"

record CollabMemberIdentify =
  cmi_uid :: int
  cmi_workspace_id :: string
  cmi_object_id :: string

definition validate_CollabMemberIdentify :: "CollabMemberIdentify \<Rightarrow> string list + unit" where
  "validate_CollabMemberIdentify p =
     all_valid [validate_not_empty_str (cmi_workspace_id p), validate_not_empty_str (cmi_object_id p)]"

record QueryCollabMembers =
  qcm_workspace_id :: string
  qcm_object_id :: string

definition validate_QueryCollabMembers :: "QueryCollabMembers \<Rightarrow> string list + unit" where
  "validate_QueryCollabMembers p =
     all_valid [validate_not_empty_str (qcm_workspace_id p), validate_not_empty_str (qcm_object_id p)]"

record AFPermission =
  pm_id :: int
  pm_name :: string
  pm_access_level :: AFAccessLevel
  pm_description :: string

record AFCollabMember =
  cm_uid :: int
  cm_oid :: string
  cm_permission :: AFPermission

record AFWorkspaceMember =
  wm_name :: string
  wm_email :: string
  wm_role :: AFRole
  wm_avatar_url :: "string option"

datatype AFWorkspaceInvitationStatus = InvPending | InvAccepted | InvRejected

definition invitation_status_from_i16 :: "int \<Rightarrow> AFWorkspaceInvitationStatus" where
  "invitation_status_from_i16 v =
     (if v = 0 then InvPending else if v = 1 then InvAccepted else if v = 2 then InvRejected else InvPending)"

fun invitation_status_repr :: "AFWorkspaceInvitationStatus \<Rightarrow> int" where
  "invitation_status_repr InvPending = 0"
| "invitation_status_repr InvAccepted = 1"
| "invitation_status_repr InvRejected = 2"

section \<open>Workspaces, profiles and their rows\<close>

record 'id AFWorkspace =
  ws_workspace_id :: 'id
  ws_database_storage_id :: 'id
  ws_owner_uid :: int
  ws_owner_name :: string
  ws_workspace_type :: int
  ws_workspace_name :: string
  ws_created_at :: int
  ws_icon :: string

record 'id AFWorkspaceRow =
  wr_workspace_id :: 'id
  wr_database_storage_id :: "'id option"
  wr_owner_uid :: "int option"
  wr_owner_name :: "string option"
  wr_created_at :: "int option"
  wr_workspace_type :: int
  wr_deleted_at :: "int option"
  wr_workspace_name :: "string option"
  wr_icon :: "string option"

definition or_default :: "'a \<Rightarrow> 'a option \<Rightarrow> 'a" where
  "or_default d v = (case v of Some x \<Rightarrow> x | None \<Rightarrow> d)"

definition workspace_try_from :: "int \<Rightarrow> 'id AFWorkspaceRow \<Rightarrow> string + 'id AFWorkspace" where
  "workspace_try_from now r =
     (case wr_owner_uid r of
        None \<Rightarrow> Err ''Unexpected empty owner_uid''
      | Some owner_uid \<Rightarrow>
          (case wr_database_storage_id r of
             None \<Rightarrow> Err ''unexpected empty workspace_id''
           | Some database_storage_id \<Rightarrow>
               Ok \<lparr>ws_workspace_id = wr_workspace_id r, ws_database_storage_id = database_storage_id,
                   ws_owner_uid = owner_uid, ws_owner_name = or_default [] (wr_owner_name r),
                   ws_workspace_type = wr_workspace_type r,
                   ws_workspace_name = or_default [] (wr_workspace_name r),
                   ws_created_at = or_default now (wr_created_at r), ws_icon = or_default [] (wr_icon r)\<rparr>))"

record ('id, 'j) AFUserProfile =
  up_uid :: int
  up_uuid :: 'id
  up_email :: "string option"
  up_password :: "string option"
  up_name :: "string option"
  up_metadata :: "'j option"
  up_encryption_sign :: "string option"
  up_latest_workspace_id :: 'id
  up_updated_at :: int

record ('id, 'j) AFUserProfileRow =
  ur_uid :: "int option"
  ur_uuid :: "'id option"
  ur_email :: "string option"
  ur_password :: "string option"
  ur_name :: "string option"
  ur_metadata :: "'j option"
  ur_encryption_sign :: "string option"
  ur_deleted_at :: "int option"
  ur_updated_at :: "int option"
  ur_created_at :: "int option"
  ur_latest_workspace_id :: "'id option"

definition user_profile_try_from :: "('id, 'j) AFUserProfileRow \<Rightarrow> string + ('id, 'j) AFUserProfile" where
  "user_profile_try_from r =
     (case ur_uid r of
        None \<Rightarrow> Err ''unexpected empty uid''
      | Some uid \<Rightarrow>
          (case ur_uuid r of
             None \<Rightarrow> Err ''Unexpected empty uuid''
           | Some uuid \<Rightarrow>
               (case ur_latest_workspace_id r of
                  None \<Rightarrow> Err ''Unexpected empty latest_workspace_id''
                | Some latest \<Rightarrow>
                    Ok \<lparr>up_uid = uid, up_uuid = uuid, up_email = ur_email r, up_password = ur_password r,
                        up_name = ur_name r, up_metadata = ur_metadata r,
                        up_encryption_sign = ur_encryption_sign r, up_latest_workspace_id = latest,
                        up_updated_at = or_default 0 (ur_updated_at r)\<rparr>)))"

section \<open>Lemmas\<close>

lemma role_roundtrip [simp]: "role_from_i32 (role_to_i32 r) = r"
  by (cases r) (simp_all add: role_from_i32_def)

lemma level_roundtrip [simp]: "level_from_i32 (level_to_i32 l) = l"
  by (cases l) (simp_all add: level_from_i32_def)

lemma i32_to_string: "- (2 ^ 31) \<le> v \<Longrightarrow> v < 2 ^ 31 \<Longrightarrow> i32_from_str (int_to_string v) = Some v"
proof -
  assume v: "- (2 ^ 31) \<le> v" "v < 2 ^ 31"
  have ds: "list_all is_digit (nat_digits n)" for n
    using nat_digits_chars by (simp add: list_all_iff is_digit_def)
  have ne: "nat_digits n \<noteq> []" for n by (subst nat_digits.simps) simp
  show ?thesis
  proof (cases "v < 0")
    case True
    then show ?thesis using v ds ne by (simp add: i32_from_str_def int_to_string_def parse_nat_digits)
  next
    case False
    obtain c cs where c: "nat_digits (nat v) = c # cs" using ne by (cases "nat_digits (nat v)") auto
    then have "c \<in> set (nat_digits (nat v))" by simp
    from nat_digits_chars [OF this] have "c \<noteq> CHR ''-''" "c \<noteq> CHR ''+''" by auto
    then have "i32_from_str (nat_digits (nat v)) =
        (let w = int (parse_digits 0 (nat_digits (nat v)))
         in if nat_digits (nat v) \<noteq> [] \<and> list_all is_digit (nat_digits (nat v)) \<and> - (2 ^ 31) \<le> w \<and> w < 2 ^ 31
            then Some w else None)"
      by (simp add: i32_from_str_def c)
    also have "\<dots> = Some v" using False v ds ne by (simp add: parse_nat_digits)
    finally show ?thesis using False by (simp add: int_to_string_def)
  qed
qed

section \<open>Properties\<close>

text \<open>
  Roles and access levels survive being written as a number or as text, and any text that is not
  the decimal of a known role or level reads as the least privileged one, a guest or read-only.
\<close>

theorem privileges_roundtrip:
  "role_from_i32 (role_to_i32 r) = r \<and> role_from_str (int_to_string (role_to_i32 r)) = r \<and>
   level_from_i32 (level_to_i32 l) = l \<and> level_from_str (int_to_string (level_to_i32 l)) = l \<and>
   (if role_from_str s = RoleGuest then True else i32_from_str s = Some (role_to_i32 (role_from_str s))) \<and>
   (if level_from_str s = ReadOnly then True else i32_from_str s = Some (level_to_i32 (level_from_str s)))"
proof -
  have "i32_from_str (int_to_string (role_to_i32 r)) = Some (role_to_i32 r)"
    by (rule i32_to_string) (cases r, simp_all)+
  moreover have "i32_from_str (int_to_string (level_to_i32 l)) = Some (level_to_i32 l)"
    by (rule i32_to_string) (cases l, simp_all)+
  moreover have "role_from_i32 v = RoleGuest \<or> v = role_to_i32 (role_from_i32 v)" for v
    by (simp add: role_from_i32_def)
  then have "role_from_str s = RoleGuest \<or> i32_from_str s = Some (role_to_i32 (role_from_str s))"
    by (cases "i32_from_str s") (simp_all add: role_from_str_def)
  moreover have "level_from_i32 v = ReadOnly \<or> v = level_to_i32 (level_from_i32 v)" for v
    by (simp add: level_from_i32_def)
  then have "level_from_str s = ReadOnly \<or> i32_from_str s = Some (level_to_i32 (level_from_str s))"
    by (cases "i32_from_str s") (simp_all add: level_from_str_def)
  ultimately show ?thesis
    by (auto simp: role_from_str_def [of "int_to_string _"] level_from_str_def [of "int_to_string _"])
qed

end
