(* ===== verification/Realtime_Message.thy ===== *)
theory Realtime_Message
  imports Collab_Msg Dto
begin

text \<open>
  The envelope of the websocket: \<open>RealtimeMessage\<close> and its size limit
  (\<open>lib/realtime-entity/src/message.rs\<close>, \<open>user.rs\<close>), and the client's aggregate queue that packs
  collab messages into one envelope a second (\<open>lib/client-api/src/ws/msg_queue.rs\<close>).

  \<open>bincode\<close> is a parameter: \<open>rt_ser\<close> and \<open>rt_de\<close> of the record \<open>rt_codec\<close>, with the law that reading
  back what was written, with any bytes after it, gives the message.  The build without the
  \<open>rt_compress\<close> feature is modelled (the other one does not compile: the decompressed bytes are
  not bound).  A \<open>HashMap\<close> by object id is an association list with distinct keys.
\<close>

section \<open>Messages\<close>

record AFUserChange =
  uc_uid :: int
  uc_name :: "string option"
  uc_email :: "string option"
  uc_metadata :: "string option"

record AFWorkspaceMemberChange =
  wc_added :: "AFWorkspaceMember list"
  wc_updated :: "AFWorkspaceMember list"
  wc_removed :: "AFWorkspaceMember list"

datatype UserMessage =
    ProfileChange AFUserChange
  | WorkspaceMemberChange AFWorkspaceMemberChange

datatype SystemMessage = RateLimit u32 | KickOff | DuplicateConnection

type_synonym ('o, 't) MessageByObjectId = "(string \<times> ('o, 't) ClientCollabMessage list) list"

datatype ('o, 't) RealtimeMessage =
    RM_Collab "('o, 't) CollabMessage"
  | RM_User UserMessage
  | RM_System SystemMessage
  | RM_ClientCollabV1 "('o, 't) ClientCollabMessage list"
  | RM_ClientCollabV2 "('o, 't) MessageByObjectId"
  | RM_ServerCollabV1 "'o ServerCollabMessage list"

definition MAXIMUM_REALTIME_MESSAGE_SIZE :: nat where
  "MAXIMUM_REALTIME_MESSAGE_SIZE = 10 * 1024 * 1024"

fun rt_size :: "('o, 't) RealtimeMessage \<Rightarrow> nat" where
  "rt_size (RM_Collab msg) = collab_len msg"
| "rt_size (RM_User _) = 1"
| "rt_size (RM_System _) = 1"
| "rt_size (RM_ClientCollabV1 msgs) = sum_list (map client_size msgs)"
| "rt_size (RM_ClientCollabV2 msgs) = sum_list (map (\<lambda>(_, value). sum_list (map client_size value)) msgs)"
| "rt_size (RM_ServerCollabV1 msgs) = sum_list (map server_size msgs)"

fun rt_fmt :: "'o origin_ops \<Rightarrow> ('o, 't) RealtimeMessage \<Rightarrow> string" where
  "rt_fmt D (RM_Collab msg) = ''Collab:'' @ collab_fmt D msg"
| "rt_fmt D (RM_User _) = ''User''"
| "rt_fmt D (RM_System _) = ''System''"
| "rt_fmt D (RM_ClientCollabV1 _) = ''ClientCollabV1''"
| "rt_fmt D (RM_ClientCollabV2 _) = ''ClientCollabV2''"
| "rt_fmt D (RM_ServerCollabV1 _) = ''ServerCollabV1''"

text \<open>\<open>try_into_message_by_object_id\<close>: collecting pairs into a map keeps the last value of a key.\<close>

fun try_into_message_by_object_id ::
  "'o origin_ops \<Rightarrow> ('o, 't) RealtimeMessage \<Rightarrow> string + ('o, 't) MessageByObjectId" where
  "try_into_message_by_object_id D (RM_Collab m) =
     try_bind (client_try_from D m) (\<lambda>cm. Ok [(collab_object_id m, [cm])])"
| "try_into_message_by_object_id D (RM_ClientCollabV1 ms) =
     Ok (foldl (\<lambda>acc m. map_insert acc (client_object_id m) [m]) [] ms)"
| "try_into_message_by_object_id D (RM_ClientCollabV2 ms) = Ok ms"
| "try_into_message_by_object_id D m =
     Err (''Failed to convert RealtimeMessage:'' @ rt_fmt D m @ '' to ClientCollabMessage'')"

section \<open>Encoding\<close>

record ('o, 't) rt_codec =
  rt_ser :: "('o, 't) RealtimeMessage \<Rightarrow> bytes"
  rt_de :: "bytes \<Rightarrow> (('o, 't) RealtimeMessage \<times> nat) option"

text \<open>\<open>rt_de\<close> gives the message and the number of bytes it took.\<close>

definition rt_codec_law :: "('o, 't) rt_codec \<Rightarrow> ('o, 't) RealtimeMessage \<Rightarrow> bool" where
  "rt_codec_law K m \<longleftrightarrow> (\<forall>r. rt_de K (rt_ser K m @ r) = Some (m, length (rt_ser K m)))"

definition rt_encode :: "('o, 't) rt_codec \<Rightarrow> ('o, 't) RealtimeMessage \<Rightarrow> string + bytes" where
  "rt_encode K m =
     (if MAXIMUM_REALTIME_MESSAGE_SIZE < length (rt_ser K m) then Err ''the size limit has been reached''
      else Ok (rt_ser K m))"

definition rt_decode :: "('o, 't) rt_codec \<Rightarrow> bytes \<Rightarrow> string + ('o, 't) RealtimeMessage" where
  "rt_decode K data =
     (case rt_de K data of
        None \<Rightarrow> Err ''invalid''
      | Some (m, n) \<Rightarrow>
          if MAXIMUM_REALTIME_MESSAGE_SIZE < n then Err ''the size limit has been reached'' else Ok m)"

section \<open>The aggregate queue\<close>

record ('o, 't) AggregateMessageQueue =
  amq_maximum_payload_size :: nat
  amq_queue :: "('o, 't) ClientCollabMessage list"

definition AggregateMessageQueue_new :: "nat \<Rightarrow> ('o, 't) AggregateMessageQueue" where
  "AggregateMessageQueue_new n = \<lparr>amq_maximum_payload_size = n, amq_queue = []\<rparr>"

definition amq_push ::
  "('o, 't) ClientCollabMessage list \<Rightarrow> ('o, 't) AggregateMessageQueue \<Rightarrow> ('o, 't) AggregateMessageQueue" where
  "amq_push msgs q = q\<lparr>amq_queue := foldl bheap_push (amq_queue q) msgs\<rparr>"

definition amq_clear :: "('o, 't) AggregateMessageQueue \<Rightarrow> ('o, 't) AggregateMessageQueue" where
  "amq_clear q = q\<lparr>amq_queue := []\<rparr>"

text \<open>
  The loop of \<open>next_batch_message\<close>.  Both limits are checked after a message has been taken, so the
  message that goes over a limit is still part of the batch.
\<close>

function next_batch_loop ::
  "nat \<Rightarrow> nat \<Rightarrow> ('o, 't) MessageByObjectId \<Rightarrow> nat \<Rightarrow> nat \<Rightarrow> ('o, 't) ClientCollabMessage list \<Rightarrow>
     ('o, 't) MessageByObjectId \<times> ('o, 't) ClientCollabMessage list" where
  "next_batch_loop max_init max_size m sz inits q =
     (case bheap_pop client_cmp q of
        None \<Rightarrow> (m, q)
      | Some (msg, q') \<Rightarrow>
          (let size' = sz + client_size msg;
               inits' = (if client_is_init_sync msg then inits + 1 else inits);
               m' = entry_push m (client_object_id msg) msg
           in if max_init < inits' then (m', q')
              else if max_size < size' then (m', q')
              else next_batch_loop max_init max_size m' size' inits' q'))"
  by pat_completeness auto
termination
  by (relation "measure (\<lambda>(mi, ms, m, s, i, q). length q)") (auto dest: bheap_pop_length)

declare next_batch_loop.simps [simp del]

definition next_batch_message ::
  "nat \<Rightarrow> nat \<Rightarrow> ('o, 't) ClientCollabMessage list \<Rightarrow>
     ('o, 't) MessageByObjectId \<times> ('o, 't) ClientCollabMessage list" where
  "next_batch_message max_init max_size q = next_batch_loop max_init max_size [] 0 0 q"

text \<open>
  One tick of the task started by \<open>set_sender\<close>: a batch with at most ten init syncs before the limit
  is encoded and sent.  A batch that cannot be encoded is only logged.
\<close>

definition amq_tick ::
  "('o, 't) rt_codec \<Rightarrow> ('o, 't) AggregateMessageQueue \<Rightarrow> bytes option \<times> ('o, 't) AggregateMessageQueue" where
  "amq_tick K q =
     (case next_batch_message 10 (amq_maximum_payload_size q) (amq_queue q) of
        (m, q') \<Rightarrow>
          (if m = [] then None
           else (case rt_encode K (RM_ClientCollabV2 m) of Inr data \<Rightarrow> Some data | Inl e \<Rightarrow> None),
           q\<lparr>amq_queue := q'\<rparr>))"

section \<open>Lemmas\<close>

interpretation client_order: rust_ord client_cmp
  by (rule rust_ord_client)

lemma map_values_mono_size:
  "sum_list (map (\<lambda>(_, vs). sum_list (map f vs)) (entry_push m k v)) =
     sum_list (map (\<lambda>(_, vs). sum_list (map f vs)) m) + (f v :: nat)"
  by (induction m k v rule: entry_push.induct) simp_all

lemma entry_push_not_Nil [simp]: "entry_push m k v \<noteq> []"
  by (cases "(m, k, v)" rule: entry_push.cases) simp_all

text \<open>The messages taken, in order: their map, the queue they leave, the limits.\<close>

lemma next_batch_loop_spec:
  "\<exists>b. fst (next_batch_loop mi ms m s i q) = foldl (\<lambda>acc x. entry_push acc (client_object_id x) x) m b \<and>
     mset q = mset b + mset (snd (next_batch_loop mi ms m s i q)) \<and>
     sorted_wrt (\<lambda>x y. client_cmp y x \<noteq> Greater) b \<and>
     (\<forall>x \<in> set b. \<forall>y \<in> set (snd (next_batch_loop mi ms m s i q)). client_cmp y x \<noteq> Greater) \<and>
     (b \<noteq> [] \<longrightarrow> i + length (filter client_is_init_sync (butlast b)) \<le> mi \<or> mi < i) \<and>
     (b \<noteq> [] \<longrightarrow> s + sum_list (map client_size (butlast b)) \<le> ms \<or> ms < s) \<and>
     (q \<noteq> [] \<longrightarrow> b \<noteq> []) \<and>
     (snd (next_batch_loop mi ms m s i q) \<noteq> [] \<longrightarrow>
        mi < i + length (filter client_is_init_sync b) \<or> ms < s + sum_list (map client_size b))"
proof (induction q arbitrary: m s i rule: measure_induct_rule [of length])
  case (less q)
  note unfold = next_batch_loop.simps [of mi ms m s i q]
  show ?case
  proof (cases "bheap_pop client_cmp q")
    case None
    then have "q = []" by simp
    then show ?thesis by (simp add: next_batch_loop.simps [of mi ms m s i "[]"])
  next
    case (Some p)
    obtain x q' where p: "p = (x, q')" by (cases p)
    with Some have pop: "bheap_pop client_cmp q = Some (x, q')" by simp
    have mset: "mset q = add_mset x (mset q')" using pop by (rule bheap_pop_mset)
    have mx: "\<forall>y \<in> set q'. client_cmp y x \<noteq> Greater"
      using client_order.bheap_pop_max [OF pop] bheap_pop_set [OF pop] by blast
    let ?s = "s + client_size x" and ?i = "if client_is_init_sync x then i + 1 else i"
    let ?m = "entry_push m (client_object_id x) x"
    show ?thesis
    proof (cases "mi < ?i \<or> ms < ?s")
      case True
      then have "next_batch_loop mi ms m s i q = (?m, q')" by (auto simp: unfold pop Let_def)
      then show ?thesis using mset mx True by (intro exI [of _ "[x]"]) (auto split: if_splits)
    next
      case False
      then have step: "next_batch_loop mi ms m s i q = next_batch_loop mi ms ?m ?s ?i q'"
        by (simp add: unfold pop Let_def)
      have len: "length q' < length q" using bheap_pop_length [OF pop] by simp
      obtain b where b:
        "fst (next_batch_loop mi ms ?m ?s ?i q') = foldl (\<lambda>acc x. entry_push acc (client_object_id x) x) ?m b"
        "mset q' = mset b + mset (snd (next_batch_loop mi ms ?m ?s ?i q'))"
        "sorted_wrt (\<lambda>x y. client_cmp y x \<noteq> Greater) b"
        "\<forall>x \<in> set b. \<forall>y \<in> set (snd (next_batch_loop mi ms ?m ?s ?i q')). client_cmp y x \<noteq> Greater"
        "b \<noteq> [] \<longrightarrow> ?i + length (filter client_is_init_sync (butlast b)) \<le> mi \<or> mi < ?i"
        "b \<noteq> [] \<longrightarrow> ?s + sum_list (map client_size (butlast b)) \<le> ms \<or> ms < ?s"
        "q' \<noteq> [] \<longrightarrow> b \<noteq> []"
        "snd (next_batch_loop mi ms ?m ?s ?i q') \<noteq> [] \<longrightarrow>
           mi < ?i + length (filter client_is_init_sync b) \<or> ms < ?s + sum_list (map client_size b)"
        using less.IH [OF len, of ?m ?s ?i] by blast
      have sub: "set q' = set b \<union> set (snd (next_batch_loop mi ms ?m ?s ?i q'))"
        using arg_cong [OF b(2), of set_mset] by simp
      show ?thesis
        unfolding step
      proof (intro exI [of _ "x # b"] conjI)
        show "sorted_wrt (\<lambda>x y. client_cmp y x \<noteq> Greater) (x # b)" using b(3) mx sub by simp
        show "\<forall>y \<in> set (x # b). \<forall>z \<in> set (snd (next_batch_loop mi ms ?m ?s ?i q')). client_cmp z y \<noteq> Greater"
          using b(4) mx sub by auto
        show "x # b \<noteq> [] \<longrightarrow> i + length (filter client_is_init_sync (butlast (x # b))) \<le> mi \<or> mi < i"
          using b(5) False by (cases b) (auto split: if_splits)
        show "x # b \<noteq> [] \<longrightarrow> s + sum_list (map client_size (butlast (x # b))) \<le> ms \<or> ms < s"
          using b(6) False by (cases b) auto
        show "snd (next_batch_loop mi ms ?m ?s ?i q') \<noteq> [] \<longrightarrow>
           mi < i + length (filter client_is_init_sync (x # b)) \<or> ms < s + sum_list (map client_size (x # b))"
          using b(8) by (auto split: if_splits)
      qed (use b mset in simp_all)
    qed
  qed
qed

lemma foldl_entry_push_values:
  "map_values (foldl (\<lambda>acc x. entry_push acc (f x) x) m b) = map_values m + mset b"
  by (induction b arbitrary: m) simp_all

lemma foldl_entry_push_lookup:
  "map_of (foldl (\<lambda>acc x. entry_push acc (f x) x) m b) k =
     (case map_of m k of
        None \<Rightarrow> (if filter (\<lambda>x. f x = k) b = [] then None else Some (filter (\<lambda>x. f x = k) b))
      | Some vs \<Rightarrow> Some (vs @ filter (\<lambda>x. f x = k) b))"
  by (induction b arbitrary: m) (auto simp: entry_push_lookup split: option.splits)

lemma foldl_entry_push_distinct:
  "distinct (map fst m) \<Longrightarrow> distinct (map fst (foldl (\<lambda>acc x. entry_push acc (f x) x) m b))"
  by (induction b arbitrary: m) (simp_all add: entry_push_distinct)

lemma foldl_map_insert_lookup:
  "map_of (foldl (\<lambda>acc x. map_insert acc (f x) [x]) m b) k =
     (case filter (\<lambda>x. f x = k) b of [] \<Rightarrow> map_of m k | xs \<Rightarrow> Some [last xs])"
proof (induction b arbitrary: m)
  case (Cons x b)
  show ?case unfolding foldl_Cons Cons.IH
    by (cases "filter (\<lambda>x. f x = k) b"; cases "f x = k") (simp_all add: map_insert_lookup)
qed simp

section \<open>Properties\<close>

text \<open>
  The aggregate queue's batch.  The messages taken and the messages left are those queued; what is
  taken is a prefix in priority order and is grouped by object with that order kept within each
  object; the size and the init-sync limit are exceeded at most by the last message taken; a
  queue that is not empty gives a batch that is not empty, and messages are left only when a limit
  was reached.
\<close>

theorem next_batch_message_spec:
  assumes "next_batch_message mi ms q = (m, q')"
  shows "\<exists>b. mset q = mset b + mset q' \<and> sorted_wrt (\<lambda>x y. client_cmp y x \<noteq> Greater) b \<and>
    list_all (\<lambda>x. list_all (\<lambda>y. client_cmp y x \<noteq> Greater) q') b \<and>
    distinct (map fst m) \<and> map_values m = mset b \<and>
    map_of m = (\<lambda>k. if filter (\<lambda>x. client_object_id x = k) b = [] then None
                    else Some (filter (\<lambda>x. client_object_id x = k) b)) \<and>
    length (filter client_is_init_sync (butlast b)) \<le> mi \<and> sum_list (map client_size (butlast b)) \<le> ms \<and>
    (b = []) = (q = []) \<and>
    (q' = [] \<or> mi < length (filter client_is_init_sync b) \<or> ms < sum_list (map client_size b))"
proof -
  obtain b where b: "m = foldl (\<lambda>acc x. entry_push acc (client_object_id x) x) [] b" "mset q = mset b + mset q'"
    "sorted_wrt (\<lambda>x y. client_cmp y x \<noteq> Greater) b" "\<forall>x \<in> set b. \<forall>y \<in> set q'. client_cmp y x \<noteq> Greater"
    "b \<noteq> [] \<longrightarrow> length (filter client_is_init_sync (butlast b)) \<le> mi"
    "b \<noteq> [] \<longrightarrow> sum_list (map client_size (butlast b)) \<le> ms" "q \<noteq> [] \<longrightarrow> b \<noteq> []"
    "q' \<noteq> [] \<longrightarrow> mi < length (filter client_is_init_sync b) \<or> ms < sum_list (map client_size b)"
    using next_batch_loop_spec [of mi ms "[]" 0 0 q] assms by (auto simp: next_batch_message_def)
  have "map_of m = (\<lambda>k. if filter (\<lambda>x. client_object_id x = k) b = [] then None
                    else Some (filter (\<lambda>x. client_object_id x = k) b))"
    unfolding b(1) foldl_entry_push_lookup by (rule ext) simp
  moreover have "distinct (map fst m)" "map_values m = mset b"
    unfolding b(1) by (simp_all add: foldl_entry_push_distinct foldl_entry_push_values)
  moreover have "(b = []) = (q = [])" using b(2,7) by auto
  moreover have "length (filter client_is_init_sync (butlast b)) \<le> mi" "sum_list (map client_size (butlast b)) \<le> ms"
    using b(5,6) by (cases b; simp)+
  ultimately show ?thesis using b(2,3,4,8) by (intro exI [of _ b]) (auto simp: list_all_iff)
qed

definition sample_msg :: "string \<Rightarrow> MsgId \<Rightarrow> (nat, nat) ClientCollabMessage" where
  "sample_msg oid i = CC_UpdateSync (UpdateSync_new 0 oid [1] i)"

theorem next_batch_message_spec_witness:
  "\<exists>b. mset [sample_msg ''a'' 1, sample_msg ''b'' 2] =
     mset b + mset (snd (next_batch_message 10 100 [sample_msg ''a'' 1, sample_msg ''b'' 2]))"
  using next_batch_message_spec [of 10 100 "[sample_msg ''a'' 1, sample_msg ''b'' 2]"
      "fst (next_batch_message 10 100 [sample_msg ''a'' 1, sample_msg ''b'' 2])"
      "snd (next_batch_message 10 100 [sample_msg ''a'' 1, sample_msg ''b'' 2])"]
  by (simp only: prod.collapse) blast

text \<open>
  The envelope's encoding: what is encoded has at most ten megabytes and decodes to the same
  message, also with bytes after it; a message is refused exactly when it would be larger.
\<close>

theorem rt_codec_roundtrip:
  assumes "rt_codec_law K m"
  shows "(case rt_encode K m of
      Inr data \<Rightarrow> length data \<le> 10485760 \<and> rt_decode K (data @ rest) = Ok m
    | Inl e \<Rightarrow> 10485760 < length (rt_ser K m))"
proof -
  have "rt_de K (rt_ser K m @ rest) = Some (m, length (rt_ser K m))"
    using assms unfolding rt_codec_law_def by blast
  then show ?thesis by (simp add: rt_encode_def rt_decode_def MAXIMUM_REALTIME_MESSAGE_SIZE_def)
qed

definition kick_codec :: "(nat, nat) rt_codec" where
  "kick_codec = \<lparr>rt_ser = (\<lambda>m. [1]), rt_de = (\<lambda>d. Some (RM_System KickOff, 1))\<rparr>"

theorem rt_codec_roundtrip_witness:
  "rt_encode kick_codec (RM_System KickOff) = Ok [1] \<and> rt_decode kick_codec ([1] @ [2, 3]) = Ok (RM_System KickOff)"
proof -
  have "rt_codec_law kick_codec (RM_System KickOff)" by (simp add: rt_codec_law_def kick_codec_def)
  moreover have "rt_encode kick_codec (RM_System KickOff) = Ok [1]"
    by (simp add: rt_encode_def kick_codec_def MAXIMUM_REALTIME_MESSAGE_SIZE_def)
  ultimately show ?thesis using rt_codec_roundtrip [of kick_codec "RM_System KickOff" "[2, 3]"] by simp
qed

text \<open>
  Converting the first version of the client envelope loses messages: of several messages for the
  same object only the last one is kept, and the result is not an error.
\<close>

theorem client_v1_keeps_last_only:
  "\<exists>m. try_into_message_by_object_id D (RM_ClientCollabV1 ms) = Ok m \<and>
     map_of m = (\<lambda>k. case filter (\<lambda>x. client_object_id x = k) ms of [] \<Rightarrow> None | xs \<Rightarrow> Some [last xs])"
  by (simp add: foldl_map_insert_lookup fun_eq_iff cong: list.case_cong)

text \<open>
  A batch that is too large to encode is lost: the tick sends nothing, and its messages are no
  longer in the queue.
\<close>

theorem oversized_batch_lost:
  assumes "amq_queue q = [x]" and "MAXIMUM_REALTIME_MESSAGE_SIZE < length (rt_ser K (RM_ClientCollabV2 [(client_object_id x, [x])]))"
  shows "amq_tick K q = (None, q\<lparr>amq_queue := []\<rparr>)"
proof -
  have "next_batch_message 10 n [x] = ([(client_object_id x, [x])], [])" for n
    by (simp add: next_batch_message_def next_batch_loop.simps [of _ _ _ _ _ "[x]"] next_batch_loop.simps [of _ _ _ _ _ "[]"] Let_def)
  then show ?thesis using assms by (simp add: amq_tick_def rt_encode_def)
qed

theorem oversized_batch_lost_witness:
  "amq_tick \<lparr>rt_ser = (\<lambda>m. replicate 10485761 0), rt_de = (\<lambda>d. None)\<rparr>
     \<lparr>amq_maximum_payload_size = 100, amq_queue = [sample_msg ''a'' 1]\<rparr> =
   (None, \<lparr>amq_maximum_payload_size = 100, amq_queue = []\<rparr>)"
  by (subst oversized_batch_lost) (simp_all add: MAXIMUM_REALTIME_MESSAGE_SIZE_def)

end
