(* ===== verification/Rt_Server.thy ===== *)
theory Rt_Server
  imports Broadcast Realtime_Message
begin

text \<open>
  The realtime server: connections, the command runner of each document, the groups with their
  subscribers, and the tasks of a subscription (\<open>lib/realtime/src/server/rt_server.rs\<close>, \<open>entities.rs\<close>,
  and \<open>group_cmd.rs\<close>, \<open>all_group.rs\<close>, \<open>group.rs\<close>, \<open>group_sub.rs\<close> under \<open>server/collaborate/\<close>).

  Every message of an actor, every command of a runner and every value a task takes from its channel
  is one step, run to its end; the interleaving of steps is free.  Channels are queues; that a
  receiver of a bounded broadcast channel reports it has lagged behind is a step of its own, which may
  come at any time.  A websocket's recipient is a number, an instant is a number of seconds.
\<close>

section \<open>Users and connections\<close>

record RealtimeUserImpl =
  ru_uid :: int
  ru_device_id :: string
  ru_timestamp :: int

definition user_device :: "RealtimeUserImpl \<Rightarrow> string" where
  "user_device u = int_to_string (ru_uid u) @ ''-'' @ ru_device_id u"

definition user_fmt :: "RealtimeUserImpl \<Rightarrow> string" where
  "user_fmt u = ''uid:'' @ int_to_string (ru_uid u) @ ''|device_id:'' @ ru_device_id u @
     ''|connected_at:'' @ int_to_string (ru_timestamp u)"

record UserDevice =
  ud_device_id :: string
  ud_uid :: int

definition UserDevice_new :: "string \<Rightarrow> int \<Rightarrow> UserDevice" where
  "UserDevice_new device_id uid = \<lparr>ud_device_id = device_id, ud_uid = uid\<rparr>"

definition UserDevice_from :: "RealtimeUserImpl \<Rightarrow> UserDevice" where
  "UserDevice_from user = \<lparr>ud_device_id = ru_device_id user, ud_uid = ru_uid user\<rparr>"

record 'o Editing =
  ed_object_id :: string
  ed_origin :: 'o

record CollabClientStream =
  ccs_sink :: nat

text \<open>The collab types of the \<open>collab_entity\<close> crate that the code tells apart.\<close>

datatype CollabType = Document | Database | WorkspaceDatabase | Folder | DatabaseRow | UserAwareness

section \<open>A subscriber and its tasks\<close>

text \<open>
  The subscription with the two tasks of \<open>client_channel\<close> (from the client's stream to the group, and
  from the group to the websocket) and the receiver of the group's broadcast.
\<close>

record 'o subscriber =
  sb_subscription :: "'o Subscription"
  sb_workspace_id :: string
  sb_uid :: int
  sb_object_id :: string
  sb_sink :: nat
  sb_stream_rx :: "('o, CollabType) RealtimeMessage list"
  sb_forwarding :: bool
  sb_stream :: "('o, CollabType) MessageByObjectId list"
  sb_broadcast_rx :: "('o, CollabType) CollabMessage list"
  sb_broadcasting :: bool
  sb_client_sink :: "('o, CollabType) CollabMessage list"

definition client_channel :: "CollabClientStream \<Rightarrow> string \<Rightarrow> int \<Rightarrow> string \<Rightarrow> 'o \<Rightarrow> 'o subscriber" where
  "client_channel cs workspace_id uid object_id origin =
     \<lparr>sb_subscription = subscribe origin, sb_workspace_id = workspace_id, sb_uid = uid,
      sb_object_id = object_id, sb_sink = ccs_sink cs, sb_stream_rx = [], sb_forwarding = True, sb_stream = [],
      sb_broadcast_rx = [], sb_broadcasting = True, sb_client_sink = []\<rparr>"

text \<open>The access control as the tasks see it, one answer (or an error) for a workspace, a user and an object.\<close>

record rt_access =
  ra_can_write :: "string \<Rightarrow> int \<Rightarrow> string \<Rightarrow> string + bool"
  ra_can_read :: "string \<Rightarrow> int \<Rightarrow> string \<Rightarrow> string + bool"

definition unwrap_or_false :: "'e + bool \<Rightarrow> bool" where
  "unwrap_or_false r = (case r of Inl _ \<Rightarrow> False | Inr b \<Rightarrow> b)"

fun access_loop ::
  "bool \<Rightarrow> bool \<Rightarrow> ('o, 't) ClientCollabMessage list \<Rightarrow> ('o, 't) ClientCollabMessage list \<Rightarrow>
     ('o, 't) ClientCollabMessage list \<Rightarrow> ('o, 't) ClientCollabMessage list \<times> ('o, 't) ClientCollabMessage list" where
  "access_loop writable readable valid invalid [] = (valid, invalid)"
| "access_loop writable readable valid invalid (message # ms) =
     (if client_is_init_sync message \<and> readable then access_loop writable readable (valid @ [message]) invalid ms
      else if writable then access_loop writable readable (valid @ [message]) invalid ms
      else access_loop writable readable valid (invalid @ [message]) ms)"

definition access_control ::
  "rt_access \<Rightarrow> string \<Rightarrow> int \<Rightarrow> string \<Rightarrow> ('o, 't) ClientCollabMessage list \<Rightarrow>
     ('o, 't) ClientCollabMessage list \<times> ('o, 't) ClientCollabMessage list" where
  "access_control A workspace_id uid object_id messages =
     (let writable = unwrap_or_false (ra_can_write A workspace_id uid object_id);
          readable = unwrap_or_false (ra_can_read A workspace_id uid object_id)
      in access_loop writable readable [] [] messages)"

text \<open>The forwarding task on one value of the client's stream: what it sends on to the group.\<close>

fun forward_loop ::
  "rt_access \<Rightarrow> 'o subscriber \<Rightarrow> ('o, CollabType) MessageByObjectId \<Rightarrow> ('o, CollabType) MessageByObjectId list" where
  "forward_loop A sb [] = []"
| "forward_loop A sb ((msg_oid, original_messages) # m) =
     (if sb_object_id sb \<noteq> msg_oid then forward_loop A sb m
      else
        (case access_control A (sb_workspace_id sb) (sb_uid sb) msg_oid original_messages of
           (valid_messages, invalid_message) \<Rightarrow>
             if valid_messages = [] then forward_loop A sb m
             else [(msg_oid, valid_messages)] # forward_loop A sb m))"

definition forward_task :: "'o origin_ops \<Rightarrow> rt_access \<Rightarrow> 'o subscriber \<Rightarrow> 'o subscriber" where
  "forward_task D A sb =
     (if sb_forwarding sb then
        (case sb_stream_rx sb of
           [] \<Rightarrow> sb
         | realtime_msg # rest \<Rightarrow>
             (case try_into_message_by_object_id D realtime_msg of
                Inr messages_by_oid \<Rightarrow>
                  sb\<lparr>sb_stream_rx := rest, sb_stream := sb_stream sb @ forward_loop A sb messages_by_oid\<rparr>
              | Inl err \<Rightarrow> sb\<lparr>sb_stream_rx := rest\<rparr>))
      else sb)"

text \<open>The task of \<open>client_channel\<close> that writes to the websocket: what it sends, if anything.\<close>

definition client_sink_task ::
  "rt_access \<Rightarrow> 'o subscriber \<Rightarrow> (nat \<times> ('o, CollabType) RealtimeMessage) list \<times> 'o subscriber" where
  "client_sink_task A sb =
     (case sb_client_sink sb of
        [] \<Rightarrow> ([], sb)
      | msg # rest \<Rightarrow>
          (case ra_can_read A (sb_workspace_id sb) (sb_uid sb) (sb_object_id sb) of
             Inr is_allowed \<Rightarrow>
               (if is_allowed then [(sb_sink sb, RM_Collab msg)] else [], sb\<lparr>sb_client_sink := rest\<rparr>)
           | Inl err \<Rightarrow> ([], sb\<lparr>sb_client_sink := rest\<rparr>)))"

text \<open>The sink task of the subscription on the next broadcast.\<close>

definition broadcast_task :: "'o subscriber \<Rightarrow> 'o subscriber" where
  "broadcast_task sb =
     (if sb_broadcasting sb then
        (case sb_broadcast_rx sb of
           [] \<Rightarrow> sb
         | message # rest \<Rightarrow>
             sb\<lparr>sb_broadcast_rx := rest,
                sb_client_sink := sb_client_sink sb @ sink_task (sub_origin (sb_subscription sb)) [Inr message :: unit + ('o, CollabType) CollabMessage]\<rparr>)
      else sb)"

section \<open>A group\<close>

record ('d, 'o) CollabGroup =
  cg_workspace_id :: string
  cg_object_id :: string
  cg_collab_type :: CollabType
  cg_doc :: 'd
  cg_broadcast :: CollabBroadcast
  cg_modified_at :: nat
  cg_subscribers :: "(RealtimeUserImpl \<times> 'o subscriber) list"
  cg_user_by_user_device :: "(string \<times> RealtimeUserImpl) list"

definition CollabGroup_new :: "nat \<Rightarrow> string \<Rightarrow> string \<Rightarrow> CollabType \<Rightarrow> 'd \<Rightarrow> ('d, 'o) CollabGroup" where
  "CollabGroup_new now workspace_id object_id collab_type d =
     \<lparr>cg_workspace_id = workspace_id, cg_object_id = object_id, cg_collab_type = collab_type, cg_doc = d,
      cg_broadcast = CollabBroadcast_new object_id, cg_modified_at = now,
      cg_subscribers = [], cg_user_by_user_device = []\<rparr>"

definition group_contains_user :: "RealtimeUserImpl \<Rightarrow> ('d, 'o) CollabGroup \<Rightarrow> bool" where
  "group_contains_user user g \<longleftrightarrow> map_of (cg_subscribers g) user \<noteq> None"

definition group_remove_user :: "RealtimeUserImpl \<Rightarrow> ('d, 'o) CollabGroup \<Rightarrow> ('d, 'o) CollabGroup" where
  "group_remove_user user g = g\<lparr>cg_subscribers := map_remove (cg_subscribers g) user\<rparr>"

definition user_count :: "('d, 'o) CollabGroup \<Rightarrow> nat" where
  "user_count g = length (cg_subscribers g)"

definition group_subscribe :: "RealtimeUserImpl \<Rightarrow> 'o subscriber \<Rightarrow> ('d, 'o) CollabGroup \<Rightarrow> ('d, 'o) CollabGroup" where
  "group_subscribe user sub g =
     (let device = user_device user;
          subs = (case map_of (cg_user_by_user_device g) device of
                    Some old \<Rightarrow> map_remove (cg_subscribers g) old
                  | None \<Rightarrow> cg_subscribers g);
          devices = map_remove (cg_user_by_user_device g) device
      in g\<lparr>cg_user_by_user_device := map_insert devices device user, cg_subscribers := map_insert subs user sub\<rparr>)"

fun timeout_secs :: "CollabType \<Rightarrow> nat" where
  "timeout_secs Document = 10 * 60"
| "timeout_secs Database = 60 * 60"
| "timeout_secs DatabaseRow = 60 * 60"
| "timeout_secs WorkspaceDatabase = 2 * 60 * 60"
| "timeout_secs Folder = 2 * 60 * 60"
| "timeout_secs UserAwareness = 2 * 60 * 60"

definition is_inactive :: "bool \<Rightarrow> nat \<Rightarrow> ('d, 'o) CollabGroup \<Rightarrow> bool" where
  "is_inactive debug now g \<longleftrightarrow>
     (if debug then now - cg_modified_at g > 60 \<and> cg_subscribers g = []
      else now - cg_modified_at g > timeout_secs (cg_collab_type g) \<and> cg_subscribers g = [])"

text \<open>\<open>stop\<close> ends both tasks of every subscriber.\<close>

definition stop_subscriber :: "'o subscriber \<Rightarrow> 'o subscriber" where
  "stop_subscriber sb =
     sb\<lparr>sb_subscription := subscription_stop (sb_subscription sb), sb_broadcasting := False, sb_forwarding := False,
        sb_stream := []\<rparr>"

definition group_stop :: "('d, 'o) CollabGroup \<Rightarrow> ('d, 'o) CollabGroup" where
  "group_stop g = g\<lparr>cg_subscribers := map_all (cg_subscribers g) stop_subscriber\<rparr>"

definition push_broadcast :: "('o, CollabType) CollabMessage list \<Rightarrow> 'o subscriber \<Rightarrow> 'o subscriber" where
  "push_broadcast ms sb =
     (if sb_broadcasting sb then sb\<lparr>sb_broadcast_rx := sb_broadcast_rx sb @ ms\<rparr> else sb)"

text \<open>
  The stream task of a subscriber on its next value: the group's document and broadcast state, the
  acknowledgements for this subscriber, and the broadcasts for all of them.  Every update event of
  the document sets \<open>modified_at\<close>.
\<close>

definition group_stream_task ::
  "('sv, 'aw) yrs \<Rightarrow> ('d, 'sv, 'aw, 'u, 'o) collab_lib \<Rightarrow> (nat \<Rightarrow> bool) \<Rightarrow> nat \<Rightarrow> RealtimeUserImpl \<Rightarrow>
     ('d, 'o) CollabGroup \<Rightarrow> ('d, 'o) CollabGroup" where
  "group_stream_task Y L locked now user g =
     (case map_of (cg_subscribers g) user of
        None \<Rightarrow> g
      | Some sb \<Rightarrow>
          (case sb_stream sb of
             [] \<Rightarrow> g
           | m # rest \<Rightarrow>
               (case stream_task Y L locked m
                       \<lparr>gs_doc = cg_doc g, gs_broadcast = cg_broadcast g, gs_replies = [], gs_channel = []\<rparr> of
                  None \<Rightarrow> g
                | Some gs \<Rightarrow>
                    g\<lparr>cg_doc := gs_doc gs, cg_broadcast := gs_broadcast gs,
                      cg_modified_at := (if gs_channel gs = [] then cg_modified_at g else now),
                      cg_subscribers :=
                        map_all
                          (map_adjust (cg_subscribers g) user
                             (\<lambda>s. s\<lparr>sb_stream := rest, sb_client_sink := sb_client_sink s @ gs_replies gs\<rparr>))
                          (push_broadcast (gs_channel gs))\<rparr>)))"

definition group_awareness ::
  "('sv, 'aw) yrs \<Rightarrow> 'o origin_ops \<Rightarrow> 'aw option \<Rightarrow> ('d, 'o) CollabGroup \<Rightarrow> ('d, 'o) CollabGroup" where
  "group_awareness Y D update g =
     g\<lparr>cg_subscribers := map_all (cg_subscribers g) (push_broadcast (on_awareness_change Y D update (cg_broadcast g)))\<rparr>"

section \<open>\<open>AllGroup\<close>\<close>

type_synonym ('d, 'o) groups = "(string \<times> ('d, 'o) CollabGroup) list"

definition contains_group :: "('d, 'o) groups \<Rightarrow> string \<Rightarrow> bool" where
  "contains_group gs object_id \<longleftrightarrow> map_of gs object_id \<noteq> None"

definition get_group :: "('d, 'o) groups \<Rightarrow> string \<Rightarrow> ('d, 'o) CollabGroup option" where
  "get_group gs object_id = map_of gs object_id"

definition contains_user :: "('d, 'o) groups \<Rightarrow> string \<Rightarrow> RealtimeUserImpl \<Rightarrow> bool" where
  "contains_user gs object_id user =
     (case map_of gs object_id of Some g \<Rightarrow> group_contains_user user g | None \<Rightarrow> False)"

definition groups_remove_user :: "('d, 'o) groups \<Rightarrow> string \<Rightarrow> RealtimeUserImpl \<Rightarrow> ('d, 'o) groups" where
  "groups_remove_user gs object_id user = map_adjust gs object_id (group_remove_user user)"

text \<open>
  \<open>create_group\<close>: \<open>init\<close> is the document that \<open>initialize\<close> builds for the owner, workspace, object
  and type at this moment (the storage plugin loads it).
\<close>

definition create_group ::
  "(int \<Rightarrow> string \<Rightarrow> string \<Rightarrow> CollabType \<Rightarrow> 'd) \<Rightarrow> nat \<Rightarrow> int \<Rightarrow> string \<Rightarrow> string \<Rightarrow> CollabType \<Rightarrow>
     ('d, 'o) groups \<Rightarrow> ('d, 'o) groups" where
  "create_group init now uid workspace_id object_id collab_type gs =
     (let collab = init uid workspace_id object_id collab_type;
          grp = CollabGroup_new now workspace_id object_id collab_type collab
      in map_insert gs object_id grp)"

text \<open>\<open>remove_group\<close>: the groups left, and what is flushed to the storage.\<close>

definition remove_group :: "('d, 'o) groups \<Rightarrow> string \<Rightarrow> ('d, 'o) groups \<times> (string \<times> 'd) list" where
  "remove_group gs object_id =
     (case map_of gs object_id of
        Some g \<Rightarrow> (map_remove gs object_id, [(object_id, cg_doc (group_stop g))])
      | None \<Rightarrow> (gs, []))"

fun inactive_loop :: "bool \<Rightarrow> nat \<Rightarrow> string list \<Rightarrow> ('d, 'o) groups \<Rightarrow> string list" where
  "inactive_loop debug now ids [] = ids"
| "inactive_loop debug now ids ((object_id, grp) # gs) =
     (if is_inactive debug now grp then
        (let ids' = ids @ [object_id] in
         if 5 < length ids' then ids' else inactive_loop debug now ids' gs)
      else inactive_loop debug now ids gs)"

fun remove_groups :: "string list \<Rightarrow> ('d, 'o) groups \<Rightarrow> ('d, 'o) groups \<times> (string \<times> 'd) list" where
  "remove_groups [] gs = (gs, [])"
| "remove_groups (object_id # ids) gs =
     (case remove_group gs object_id of
        (gs1, f1) \<Rightarrow> (case remove_groups ids gs1 of (gs2, f2) \<Rightarrow> (gs2, f1 @ f2)))"

definition groups_tick :: "bool \<Rightarrow> nat \<Rightarrow> ('d, 'o) groups \<Rightarrow> string list \<times> ('d, 'o) groups \<times> (string \<times> 'd) list" where
  "groups_tick debug now gs =
     (let inactive_group_ids = inactive_loop debug now [] gs
      in (inactive_group_ids, remove_groups inactive_group_ids gs))"

section \<open>The server\<close>

datatype ('o) GroupCommand =
    HandleClientCollabMessage RealtimeUserImpl string "('o, CollabType) ClientCollabMessage list"
  | EncodeCollab string nat

text \<open>
  A runner is the queue of its commands; \<open>rs_group_sender\<close> names the runner of a document.  A runner
  whose sender has been dropped still works off its queue.  \<open>rs_sent\<close>, \<open>rs_flushed\<close> and
  \<open>rs_encoded\<close> are what left the server: websocket messages, documents for the storage, and the
  answers to \<open>GetEncodeCollab\<close> (\<open>'e\<close> is the crate's \<open>EncodedCollab\<close>).
\<close>

record ('d, 'o, 'e) RealtimeServer =
  rs_groups :: "('d, 'o) groups"
  rs_user_by_device :: "(UserDevice \<times> RealtimeUserImpl) list"
  rs_session_id_by_user :: "(RealtimeUserImpl \<times> string) list"
  rs_editing :: "(RealtimeUserImpl \<times> 'o Editing list) list"
  rs_client_stream :: "(RealtimeUserImpl \<times> CollabClientStream) list"
  rs_group_sender :: "(string \<times> nat) list"
  rs_runners :: "'o GroupCommand list list"
  rs_sent :: "(nat \<times> ('o, CollabType) RealtimeMessage) list"
  rs_flushed :: "(string \<times> 'd) list"
  rs_encoded :: "(nat \<times> 'e option) list"

definition RealtimeServer_new :: "('d, 'o, 'e) RealtimeServer" where
  "RealtimeServer_new =
     \<lparr>rs_groups = [], rs_user_by_device = [], rs_session_id_by_user = [], rs_editing = [], rs_client_stream = [],
      rs_group_sender = [], rs_runners = [], rs_sent = [], rs_flushed = [], rs_encoded = []\<rparr>"

text \<open>What the code under \<open>src/\<close> takes from other crates and from the moment at which a step runs.\<close>

record ('d, 'sv, 'aw, 'u, 'o, 'e) rt_env =
  ev_yrs :: "('sv, 'aw) yrs"
  ev_lib :: "('d, 'sv, 'aw, 'u, 'o) collab_lib"
  ev_origin :: "'o origin_ops"
  ev_encode :: "'d \<Rightarrow> 'e"
  ev_debug :: bool
  ev_now :: nat
  ev_access :: rt_access
  ev_locked :: "nat \<Rightarrow> bool"
  ev_init :: "int \<Rightarrow> string \<Rightarrow> string \<Rightarrow> CollabType \<Rightarrow> 'd"
  ev_old_receivers :: bool

definition send_command :: "nat \<Rightarrow> 'o GroupCommand \<Rightarrow> ('d, 'o, 'e) RealtimeServer \<Rightarrow> ('d, 'o, 'e) RealtimeServer" where
  "send_command i c s = s\<lparr>rs_runners := (rs_runners s)[i := rs_runners s ! i @ [c]]\<rparr>"

definition process_client_collab_message ::
  "RealtimeUserImpl \<Rightarrow> string \<Rightarrow> ('o, CollabType) ClientCollabMessage list \<Rightarrow>
     ('d, 'o, 'e) RealtimeServer \<Rightarrow> ('d, 'o, 'e) RealtimeServer" where
  "process_client_collab_message user object_id collab_messages s =
     (case map_of (rs_group_sender s) object_id of
        Some sender \<Rightarrow> send_command sender (HandleClientCollabMessage user object_id collab_messages) s
      | None \<Rightarrow>
          (let new_sender = length (rs_runners s);
               s1 = s\<lparr>rs_runners := rs_runners s @ [[]],
                      rs_group_sender := map_insert (rs_group_sender s) object_id new_sender\<rparr>
           in send_command new_sender (HandleClientCollabMessage user object_id collab_messages) s1))"

definition get_encode_collab :: "string \<Rightarrow> nat \<Rightarrow> ('d, 'o, 'e) RealtimeServer \<Rightarrow> ('d, 'o, 'e) RealtimeServer" where
  "get_encode_collab object_id ret s =
     (case map_of (rs_group_sender s) object_id of
        Some sender \<Rightarrow> send_command sender (EncodeCollab object_id ret) s
      | None \<Rightarrow> s\<lparr>rs_encoded := rs_encoded s @ [(ret, None)]\<rparr>)"

fun remove_from_groups :: "RealtimeUserImpl \<Rightarrow> 'o Editing list \<Rightarrow> ('d, 'o) groups \<Rightarrow> ('d, 'o) groups" where
  "remove_from_groups user [] gs = gs"
| "remove_from_groups user (editing # es) gs =
     remove_from_groups user es (groups_remove_user gs (ed_object_id editing) user)"

definition remove_user :: "RealtimeUserImpl \<Rightarrow> ('d, 'o, 'e) RealtimeServer \<Rightarrow> ('d, 'o, 'e) RealtimeServer" where
  "remove_user user s =
     (let entry = map_of (rs_editing s) user;
          s1 = s\<lparr>rs_editing := map_remove (rs_editing s) user\<rparr>
      in case entry of
           Some es \<Rightarrow> s1\<lparr>rs_groups := remove_from_groups user es (rs_groups s1)\<rparr>
         | None \<Rightarrow> s1)"

definition handle_connect ::
  "RealtimeUserImpl \<Rightarrow> string \<Rightarrow> nat \<Rightarrow> ('d, 'o, 'e) RealtimeServer \<Rightarrow> ('d, 'o, 'e) RealtimeServer" where
  "handle_connect user session_id socket s =
     (let s1 = s\<lparr>rs_session_id_by_user := map_insert (rs_session_id_by_user s) user session_id\<rparr>;
          old_user = map_of (rs_user_by_device s1) (UserDevice_from user);
          s2 = s1\<lparr>rs_user_by_device := map_insert (rs_user_by_device s1) (UserDevice_from user) user\<rparr>;
          s3 = (case old_user of
                  Some old \<Rightarrow>
                    remove_user old
                      (case map_of (rs_client_stream s2) old of
                         Some old_stream \<Rightarrow>
                           s2\<lparr>rs_client_stream := map_remove (rs_client_stream s2) old,
                              rs_sent := rs_sent s2 @ [(ccs_sink old_stream, RM_System DuplicateConnection)]\<rparr>
                       | None \<Rightarrow> s2)
                | None \<Rightarrow> s2)
      in s3\<lparr>rs_client_stream := map_insert (rs_client_stream s3) user \<lparr>ccs_sink = socket\<rparr>\<rparr>)"

definition handle_disconnect ::
  "RealtimeUserImpl \<Rightarrow> string \<Rightarrow> ('d, 'o, 'e) RealtimeServer \<Rightarrow> ('d, 'o, 'e) RealtimeServer" where
  "handle_disconnect user session_id s =
     (if map_of (rs_session_id_by_user s) user \<noteq> None \<and> map_of (rs_session_id_by_user s) user \<noteq> Some session_id
      then s
      else (let s1 = remove_user user s in s1\<lparr>rs_client_stream := map_remove (rs_client_stream s1) user\<rparr>))"

fun process_messages ::
  "RealtimeUserImpl \<Rightarrow> ('o, CollabType) MessageByObjectId \<Rightarrow> ('d, 'o, 'e) RealtimeServer \<Rightarrow> ('d, 'o, 'e) RealtimeServer" where
  "process_messages user [] s = s"
| "process_messages user ((oid, collab_messages) # m) s =
     process_messages user m (process_client_collab_message user oid collab_messages s)"

definition handle_client_message ::
  "'o origin_ops \<Rightarrow> RealtimeUserImpl \<Rightarrow> ('o, CollabType) RealtimeMessage \<Rightarrow>
     ('d, 'o, 'e) RealtimeServer \<Rightarrow> ('d, 'o, 'e) RealtimeServer" where
  "handle_client_message D user message s =
     (case try_into_message_by_object_id D message of
        Inr m \<Rightarrow> process_messages user m s
      | Inl err \<Rightarrow> s)"

text \<open>
  A message that came over http: the connection of its user and device handles it.  A missing device
  id is taken from the first message that has one, and kept for the messages after it.
\<close>

fun stream_messages ::
  "'o origin_ops \<Rightarrow> int \<Rightarrow> string \<Rightarrow> ('o, CollabType) MessageByObjectId \<Rightarrow>
     ('d, 'o, 'e) RealtimeServer \<Rightarrow> ('d, 'o, 'e) RealtimeServer" where
  "stream_messages D uid device_id [] s = s"
| "stream_messages D uid device_id ((oid, collab_messages) # m) s =
     (let device_id1 = (if device_id = [] then
                          (case collab_messages of
                             [] \<Rightarrow> device_id
                           | v # _ \<Rightarrow> (case client_msg_device_id D v of Some d \<Rightarrow> d | None \<Rightarrow> device_id))
                        else device_id);
          s1 = (case map_of (rs_user_by_device s) (UserDevice_new device_id1 uid) of
                  Some user \<Rightarrow> process_client_collab_message user oid collab_messages s
                | None \<Rightarrow> s)
      in stream_messages D uid device_id1 m s1)"

definition handle_client_stream_message ::
  "'o origin_ops \<Rightarrow> int \<Rightarrow> string \<Rightarrow> ('o, CollabType) RealtimeMessage option \<Rightarrow>
     ('d, 'o, 'e) RealtimeServer \<Rightarrow> ('d, 'o, 'e) RealtimeServer" where
  "handle_client_stream_message D uid device_id next_message s =
     (case next_message of
        None \<Rightarrow> s
      | Some message \<Rightarrow>
          (case try_into_message_by_object_id D message of
             Inr m \<Rightarrow> stream_messages D uid device_id m s
           | Inl err \<Rightarrow> s))"

section \<open>The command runner of a document\<close>

text \<open>
  \<open>stream_tx.send\<close> fails when no receiver is left: no forwarding task of the user's subscriptions, and
  none of an earlier subscription (\<open>ev_old_receivers\<close>).
\<close>

definition has_receiver :: "RealtimeUserImpl \<Rightarrow> ('d, 'o) groups \<Rightarrow> bool" where
  "has_receiver user gs \<longleftrightarrow>
     list_ex (\<lambda>(oid, g). list_ex (\<lambda>(u, sb). u = user \<and> sb_forwarding sb) (cg_subscribers g)) gs"

definition push_stream :: "('o, CollabType) RealtimeMessage \<Rightarrow> 'o subscriber \<Rightarrow> 'o subscriber" where
  "push_stream m sb = (if sb_forwarding sb then sb\<lparr>sb_stream_rx := sb_stream_rx sb @ [m]\<rparr> else sb)"

definition broadcast_client_collab_message ::
  "bool \<Rightarrow> RealtimeUserImpl \<Rightarrow> string \<Rightarrow> ('o, CollabType) ClientCollabMessage list \<Rightarrow>
     ('d, 'o, 'e) RealtimeServer \<Rightarrow> ('d, 'o, 'e) RealtimeServer" where
  "broadcast_client_collab_message old_receivers user object_id collab_messages s =
     (case map_of (rs_client_stream s) user of
        None \<Rightarrow> s
      | Some client_stream \<Rightarrow>
          (if has_receiver user (rs_groups s) \<or> old_receivers then
             s\<lparr>rs_groups := map_all (rs_groups s) (\<lambda>g. g\<lparr>cg_subscribers :=
                 map_adjust (cg_subscribers g) user (push_stream (RM_ClientCollabV2 [(object_id, collab_messages)]))\<rparr>)\<rparr>
           else s\<lparr>rs_client_stream := map_remove (rs_client_stream s) user\<rparr>))"

definition subscribe_group ::
  "RealtimeUserImpl \<Rightarrow> ('o, CollabType) ClientCollabMessage \<Rightarrow>
     ('d, 'o, 'e) RealtimeServer \<Rightarrow> ('d, 'o, 'e) RealtimeServer" where
  "subscribe_group user collab_message s =
     (let object_id = client_object_id collab_message; origin = client_origin collab_message
      in case map_of (rs_client_stream s) user of
           Some client_stream \<Rightarrow>
             (case get_group (rs_groups s) object_id of
                Some collab_group \<Rightarrow>
                  (if \<not> group_contains_user user collab_group then
                     (let client_uid = ru_uid user;
                          editing = \<lparr>ed_object_id = object_id, ed_origin = origin\<rparr>;
                          edits = (case map_of (rs_editing s) user of Some es \<Rightarrow> es | None \<Rightarrow> []);
                          sub = client_channel client_stream (cg_workspace_id collab_group) client_uid object_id origin
                      in s\<lparr>rs_editing := map_insert (rs_editing s) user (List.insert editing edits),
                           rs_groups := map_adjust (rs_groups s) object_id (group_subscribe user sub)\<rparr>)
                   else s)
              | None \<Rightarrow> s)
         | None \<Rightarrow> s)"

datatype realtime_error = ExpectInitSync string

definition runner_create_group ::
  "('d, 'sv, 'aw, 'u, 'o, 'e) rt_env \<Rightarrow> ('o, CollabType) ClientCollabMessage \<Rightarrow>
     ('d, 'o, 'e) RealtimeServer \<Rightarrow> realtime_error + ('d, 'o, 'e) RealtimeServer" where
  "runner_create_group E collab_message s =
     (case collab_message of
        CC_InitSync data \<Rightarrow>
          (case client_user_id (ev_origin E) (is_origin data) of
             None \<Rightarrow> Err (ExpectInitSync ''The client user id is empty'')
           | Some uid \<Rightarrow>
               Ok (s\<lparr>rs_groups := create_group (ev_init E) (ev_now E) uid (is_workspace_id data)
                      (client_object_id collab_message) (is_collab_type data) (rs_groups s)\<rparr>))
      | _ \<Rightarrow> Err (ExpectInitSync (client_fmt (ev_origin E) collab_message)))"

text \<open>\<open>GroupCommandRunner::handle_collab_message\<close>: an error ends it before anything has changed.\<close>

definition runner_handle_collab_message ::
  "('d, 'sv, 'aw, 'u, 'o, 'e) rt_env \<Rightarrow> RealtimeUserImpl \<Rightarrow> string \<Rightarrow> ('o, CollabType) ClientCollabMessage list \<Rightarrow>
     ('d, 'o, 'e) RealtimeServer \<Rightarrow> realtime_error + ('d, 'o, 'e) RealtimeServer" where
  "runner_handle_collab_message E user object_id messages s =
     (case messages of
        [] \<Rightarrow> Ok s
      | first_message # _ \<Rightarrow>
          (if map_of (rs_client_stream s) user = None then Ok s
           else if contains_group (rs_groups s) object_id then
             (let s1 = (if client_is_init_sync first_message
                        then s\<lparr>rs_groups := groups_remove_user (rs_groups s) object_id user\<rparr> else s);
                  is_user_subscribed = contains_user (rs_groups s1) object_id user;
                  s2 = (if \<not> is_user_subscribed then subscribe_group user first_message s1 else s1)
              in Ok (broadcast_client_collab_message (ev_old_receivers E) user object_id messages s2))
           else if client_is_init_sync first_message then
             try_bind (runner_create_group E first_message s)
               (\<lambda>s1. let s2 = subscribe_group user first_message s1
                     in Ok (broadcast_client_collab_message (ev_old_receivers E) user object_id messages s2))
           else Ok s))"

definition run_command ::
  "('d, 'sv, 'aw, 'u, 'o, 'e) rt_env \<Rightarrow> 'o GroupCommand \<Rightarrow> ('d, 'o, 'e) RealtimeServer \<Rightarrow>
     ('d, 'o, 'e) RealtimeServer" where
  "run_command E c s =
     (case c of
        HandleClientCollabMessage user object_id collab_messages \<Rightarrow>
          (case runner_handle_collab_message E user object_id collab_messages s of
             Inr s' \<Rightarrow> s'
           | Inl err \<Rightarrow> s)
      | EncodeCollab object_id ret \<Rightarrow>
          s\<lparr>rs_encoded := rs_encoded s @ [(ret, map_option (\<lambda>g. ev_encode E (cg_doc g)) (get_group (rs_groups s) object_id))]\<rparr>)"

definition runner_next :: "('d, 'sv, 'aw, 'u, 'o, 'e) rt_env \<Rightarrow> nat \<Rightarrow> ('d, 'o, 'e) RealtimeServer \<Rightarrow> ('d, 'o, 'e) RealtimeServer" where
  "runner_next E i s =
     (if i < length (rs_runners s) then
        (case rs_runners s ! i of
           [] \<Rightarrow> s
         | c # cs \<Rightarrow> run_command E c (s\<lparr>rs_runners := (rs_runners s)[i := cs]\<rparr>))
      else s)"

text \<open>The periodic check: inactive groups are removed with their senders.\<close>

definition server_tick :: "bool \<Rightarrow> nat \<Rightarrow> ('d, 'o, 'e) RealtimeServer \<Rightarrow> ('d, 'o, 'e) RealtimeServer" where
  "server_tick debug now s =
     (case groups_tick debug now (rs_groups s) of
        (inactive_group_ids, gs, flushed) \<Rightarrow>
          s\<lparr>rs_groups := gs, rs_flushed := rs_flushed s @ flushed,
            rs_group_sender := foldl map_remove (rs_group_sender s) inactive_group_ids\<rparr>)"

section \<open>Steps\<close>

datatype ('o, 'aw) server_event =
    EvConnect RealtimeUserImpl string nat
  | EvDisconnect RealtimeUserImpl string
  | EvClientMessage RealtimeUserImpl "('o, CollabType) RealtimeMessage"
  | EvClientStream int string "('o, CollabType) RealtimeMessage option"
  | EvGetEncodeCollab string nat
  | EvRunner nat
  | EvTick
  | EvForward string RealtimeUserImpl
  | EvForwardLagged string RealtimeUserImpl
  | EvStream string RealtimeUserImpl
  | EvBroadcast string RealtimeUserImpl
  | EvBroadcastLagged string RealtimeUserImpl
  | EvClientSink string RealtimeUserImpl
  | EvAwareness string "'aw option"

definition on_group :: "string \<Rightarrow> (('d, 'o) CollabGroup \<Rightarrow> ('d, 'o) CollabGroup) \<Rightarrow> ('d, 'o, 'e) RealtimeServer \<Rightarrow> ('d, 'o, 'e) RealtimeServer" where
  "on_group oid f s = s\<lparr>rs_groups := map_adjust (rs_groups s) oid f\<rparr>"

definition on_subscriber :: "string \<Rightarrow> RealtimeUserImpl \<Rightarrow> ('o subscriber \<Rightarrow> 'o subscriber) \<Rightarrow> ('d, 'o, 'e) RealtimeServer \<Rightarrow> ('d, 'o, 'e) RealtimeServer" where
  "on_subscriber oid user f = on_group oid (\<lambda>g. g\<lparr>cg_subscribers := map_adjust (cg_subscribers g) user f\<rparr>)"

definition client_sink_sent :: "rt_access \<Rightarrow> string \<Rightarrow> RealtimeUserImpl \<Rightarrow> ('d, 'o) groups \<Rightarrow> (nat \<times> ('o, CollabType) RealtimeMessage) list" where
  "client_sink_sent A oid user gs =
     (case map_of gs oid of
        None \<Rightarrow> []
      | Some g \<Rightarrow> (case map_of (cg_subscribers g) user of None \<Rightarrow> [] | Some sb \<Rightarrow> fst (client_sink_task A sb)))"

fun server_step ::
  "('d, 'sv, 'aw, 'u, 'o, 'e) rt_env \<Rightarrow> ('o, 'aw) server_event \<Rightarrow> ('d, 'o, 'e) RealtimeServer \<Rightarrow>
     ('d, 'o, 'e) RealtimeServer" where
  "server_step E (EvConnect user session_id socket) s = handle_connect user session_id socket s"
| "server_step E (EvDisconnect user session_id) s = handle_disconnect user session_id s"
| "server_step E (EvClientMessage user m) s = handle_client_message (ev_origin E) user m s"
| "server_step E (EvClientStream uid device_id m) s = handle_client_stream_message (ev_origin E) uid device_id m s"
| "server_step E (EvGetEncodeCollab oid ret) s = get_encode_collab oid ret s"
| "server_step E (EvRunner i) s = runner_next E i s"
| "server_step E EvTick s = server_tick (ev_debug E) (ev_now E) s"
| "server_step E (EvForward oid user) s = on_subscriber oid user (forward_task (ev_origin E) (ev_access E)) s"
| "server_step E (EvForwardLagged oid user) s = on_subscriber oid user (\<lambda>sb. sb\<lparr>sb_forwarding := False\<rparr>) s"
| "server_step E (EvStream oid user) s =
     on_group oid (group_stream_task (ev_yrs E) (ev_lib E) (ev_locked E) (ev_now E) user) s"
| "server_step E (EvBroadcast oid user) s = on_subscriber oid user broadcast_task s"
| "server_step E (EvBroadcastLagged oid user) s = on_subscriber oid user (\<lambda>sb. sb\<lparr>sb_broadcasting := False\<rparr>) s"
| "server_step E (EvClientSink oid user) s =
     (on_subscriber oid user (\<lambda>sb. snd (client_sink_task (ev_access E) sb)) s)
       \<lparr>rs_sent := rs_sent s @ client_sink_sent (ev_access E) oid user (rs_groups s)\<rparr>"
| "server_step E (EvAwareness oid update) s = on_group oid (group_awareness (ev_yrs E) (ev_origin E) update) s"

text \<open>The states a server gets to when every step runs in an environment that \<open>R\<close> allows.\<close>

inductive server_reachable ::
  "(('d, 'sv, 'aw, 'u, 'o, 'e) rt_env \<Rightarrow> bool) \<Rightarrow> ('d, 'o, 'e) RealtimeServer \<Rightarrow> bool"
  for R :: "('d, 'sv, 'aw, 'u, 'o, 'e) rt_env \<Rightarrow> bool" where
  server_init: "server_reachable R RealtimeServer_new"
| server_next: "server_reachable R s \<Longrightarrow> R E \<Longrightarrow> server_reachable R (server_step E e s)"

end
