(* ===== verification/Access_Control.thy ===== *)
theory Access_Control
  imports Dto
begin

text \<open>
  Access control of the server: policies, requests and the enforcer (\<open>access_control.rs\<close>,
  \<open>request.rs\<close>, \<open>enforcer.rs\<close>, \<open>adapter.rs\<close>, \<open>pg_listen.rs\<close> under \<open>src/biz/casbin\<close>), the collab,
  workspace and realtime access controls on top of it (\<open>collab_ac.rs\<close>, \<open>workspace_ac.rs\<close>) with the
  realtime action cache.

  \<open>casbin\<close> itself is not in the repository: the record \<open>casbin\<close> has the operations the code calls
  and \<open>casbin_laws\<close> their documented behaviour (policies are sets of rules; \<open>g\<close> is reachability
  in the grouping rules).  The matcher and the effect are the ones of \<open>MODEL_CONF\<close>.
\<close>

section \<open>Objects, actions, policies\<close>

datatype ObjectType = WorkspaceObj string | CollabObj string

fun policy_object :: "ObjectType \<Rightarrow> string" where
  "policy_object (CollabObj s) = ''collab::'' @ s"
| "policy_object (WorkspaceObj s) = ''workspace::'' @ s"

fun object_id :: "ObjectType \<Rightarrow> string" where
  "object_id (CollabObj s) = s"
| "object_id (WorkspaceObj s) = s"

datatype Action = ActRead | ActWrite | ActDelete

fun action_cmp :: "Action \<Rightarrow> Action \<Rightarrow> ordering" where
  "action_cmp ActRead ActRead = Equal"
| "action_cmp ActRead _ = Less"
| "action_cmp _ ActRead = Greater"
| "action_cmp ActWrite ActWrite = Equal"
| "action_cmp ActWrite ActDelete = Less"
| "action_cmp ActDelete ActWrite = Greater"
| "action_cmp ActDelete ActDelete = Equal"

fun action_str :: "Action \<Rightarrow> string" where
  "action_str ActRead = ''read''"
| "action_str ActWrite = ''write''"
| "action_str ActDelete = ''delete''"

definition action_from_redis :: "string \<Rightarrow> string + Action" where
  "action_from_redis s =
     (if s = ''read'' then Ok ActRead else if s = ''write'' then Ok ActWrite
      else if s = ''delete'' then Ok ActDelete else Err ''invalid action'')"

datatype Method = GET | POST | PUT | DELETE | OtherMethod string

fun action_from_method :: "Method \<Rightarrow> Action" where
  "action_from_method POST = ActWrite"
| "action_from_method PUT = ActWrite"
| "action_from_method DELETE = ActDelete"
| "action_from_method _ = ActRead"

datatype ActionVariant = FromRole AFRole | FromAccessLevel AFAccessLevel | FromAction Action

fun level_to_action :: "AFAccessLevel \<Rightarrow> string" where
  "level_to_action ReadOnly = ''10''"
| "level_to_action ReadAndComment = ''20''"
| "level_to_action ReadAndWrite = ''30''"
| "level_to_action FullAccess = ''50''"

fun role_to_action :: "AFRole \<Rightarrow> string" where
  "role_to_action RoleOwner = ''1''"
| "role_to_action RoleMember = ''2''"
| "role_to_action RoleGuest = ''3''"

fun to_action :: "ActionVariant \<Rightarrow> string" where
  "to_action (FromRole role) = role_to_action role"
| "to_action (FromAccessLevel level) = level_to_action level"
| "to_action (FromAction action) = action_str action"

type_synonym policy = "string list"

definition POLICY_FIELD_INDEX_SUBJECT :: nat where "POLICY_FIELD_INDEX_SUBJECT = 0"
definition POLICY_FIELD_INDEX_OBJECT :: nat where "POLICY_FIELD_INDEX_OBJECT = 1"
definition POLICY_FIELD_INDEX_ACTION :: nat where "POLICY_FIELD_INDEX_ACTION = 2"

lemmas policy_index = POLICY_FIELD_INDEX_SUBJECT_def POLICY_FIELD_INDEX_OBJECT_def POLICY_FIELD_INDEX_ACTION_def

section \<open>The operations of \<open>casbin\<close>\<close>

text \<open>Several policies are added when none of them is there already, and removed when all of them are.\<close>

record casbin =
  cb_link :: "(string \<times> string) list \<Rightarrow> string \<Rightarrow> string \<Rightarrow> bool"
  cb_add_policy :: "policy list \<Rightarrow> policy \<Rightarrow> policy list"
  cb_add_policies :: "policy list \<Rightarrow> policy list \<Rightarrow> policy list"
  cb_remove_policies :: "policy list \<Rightarrow> policy list \<Rightarrow> policy list"
  cb_get_filtered_policy :: "policy list \<Rightarrow> nat \<Rightarrow> string list \<Rightarrow> policy list"

definition casbin_laws :: "casbin \<Rightarrow> bool" where
  "casbin_laws C \<longleftrightarrow>
     (\<forall>G a b. cb_link C G a b \<longleftrightarrow> (a, b) \<in> (set G)\<^sup>*) \<and>
     (\<forall>P p. set (cb_add_policy C P p) = insert p (set P)) \<and>
     (\<forall>P ps. set P \<inter> set ps = {} \<longrightarrow> set (cb_add_policies C P ps) = set P \<union> set ps) \<and>
     (\<forall>P ps. set ps \<subseteq> set P \<longrightarrow> set (cb_remove_policies C P ps) = set P - set ps) \<and>
     (\<forall>P i v. set (cb_get_filtered_policy C P i [v]) = {p \<in> set P. p ! i = v})"

text \<open>The matcher and the effect of \<open>MODEL_CONF\<close>: some policy allows.\<close>

definition model_enforce :: "casbin \<Rightarrow> policy list \<Rightarrow> (string \<times> string) list \<Rightarrow> string list \<Rightarrow> bool" where
  "model_enforce C P G r = list_ex (\<lambda>p. r ! 0 = p ! 0 \<and> p ! 1 = r ! 1 \<and> cb_link C G (p ! 2) (r ! 2)) P"

section \<open>Requests\<close>

definition policy_request :: "int \<Rightarrow> ObjectType \<Rightarrow> ActionVariant \<Rightarrow> string list" where
  "policy_request uid obj act = [int_to_string uid, policy_object obj, to_action act]"

definition group_policy_request :: "string \<Rightarrow> ObjectType \<Rightarrow> ActionVariant \<Rightarrow> string list" where
  "group_policy_request guid obj act = [guid, policy_object obj, to_action act]"

fun workspace_policy_request :: "string \<Rightarrow> int \<Rightarrow> ObjectType \<Rightarrow> ActionVariant \<Rightarrow> string list" where
  "workspace_policy_request workspace_id uid (WorkspaceObj w) act =
     [int_to_string uid, policy_object (WorkspaceObj w), to_action act]"
| "workspace_policy_request workspace_id uid (CollabObj c) act =
     [int_to_string uid, policy_object (WorkspaceObj workspace_id), to_action act]"

section \<open>The enforcer\<close>

record AFEnforcer =
  ef_policies :: "policy list"
  ef_groups :: "(string \<times> string) list"
  ef_total_read_enforce_result :: nat

text \<open>\<open>load_group_policies\<close>: what each level and each role may do.\<close>

definition level_groups :: "AFAccessLevel \<Rightarrow> (string \<times> string) list" where
  "level_groups level =
     [(level_to_action level, action_str ActRead)] @
     (if can_write level then [(level_to_action level, action_str ActWrite)] else []) @
     (if can_delete level then [(level_to_action level, action_str ActDelete)] else [])"

fun role_groups :: "AFRole \<Rightarrow> (string \<times> string) list" where
  "role_groups RoleOwner =
     [(role_to_action RoleOwner, action_str ActDelete), (role_to_action RoleOwner, action_str ActWrite),
      (role_to_action RoleOwner, action_str ActRead)]"
| "role_groups RoleMember =
     [(role_to_action RoleMember, action_str ActWrite), (role_to_action RoleMember, action_str ActRead)]"
| "role_groups RoleGuest = [(role_to_action RoleGuest, action_str ActRead)]"

definition group_policies :: "(string \<times> string) list" where
  "group_policies =
     concat (map level_groups [ReadOnly, ReadAndComment, ReadAndWrite, FullAccess]) @
     concat (map role_groups [RoleOwner, RoleMember, RoleGuest])"

definition AFEnforcer_new :: "policy list \<Rightarrow> AFEnforcer" where
  "AFEnforcer_new policies =
     \<lparr>ef_policies = policies, ef_groups = group_policies, ef_total_read_enforce_result = 0\<rparr>"

text \<open>\<open>validate_obj_action\<close>: roles go with workspaces, access levels with collabs.\<close>

fun validate_obj_action :: "ObjectType \<Rightarrow> ActionVariant \<Rightarrow> string + unit" where
  "validate_obj_action (WorkspaceObj _) (FromRole _) = Ok ()"
| "validate_obj_action (CollabObj _) (FromAccessLevel _) = Ok ()"
| "validate_obj_action obj act = Err ''invalid object type and action type combination''"

definition enforcer_update_policy ::
  "casbin \<Rightarrow> int \<Rightarrow> ObjectType \<Rightarrow> ActionVariant \<Rightarrow> AFEnforcer \<Rightarrow> (string + unit) \<times> AFEnforcer" where
  "enforcer_update_policy C uid obj act e =
     (case validate_obj_action obj act of
        Inl err \<Rightarrow> (Err err, e)
      | Inr u \<Rightarrow>
          (Ok (), e\<lparr>ef_policies := cb_add_policy C (ef_policies e)
                      [int_to_string uid, policy_object obj, to_action act]\<rparr>))"

definition policies_for_subject_with_given_object ::
  "casbin \<Rightarrow> string \<Rightarrow> ObjectType \<Rightarrow> policy list \<Rightarrow> policy list" where
  "policies_for_subject_with_given_object C subject object_type P =
     filter (\<lambda>p. p ! POLICY_FIELD_INDEX_OBJECT = subject)
       (cb_get_filtered_policy C P POLICY_FIELD_INDEX_OBJECT [policy_object object_type])"

definition enforcer_remove_policy ::
  "casbin \<Rightarrow> int \<Rightarrow> ObjectType \<Rightarrow> AFEnforcer \<Rightarrow> (string + unit) \<times> AFEnforcer" where
  "enforcer_remove_policy C uid obj e =
     (let ps = policies_for_subject_with_given_object C (int_to_string uid) obj (ef_policies e)
      in if ps = [] then (Ok (), e)
         else (Ok (), e\<lparr>ef_policies := cb_remove_policies C (ef_policies e) ps\<rparr>))"

text \<open>
  \<open>enforce_policy\<close>: the workspace request, then the group's, then the direct one.  \<open>group_of\<close> is the
  \<open>EnforcerGroup\<close>; the server uses \<open>NoEnforceGroup\<close>.
\<close>

definition NoEnforceGroup :: "int \<Rightarrow> string option" where
  "NoEnforceGroup uid = None"

definition enforce_policy ::
  "casbin \<Rightarrow> (int \<Rightarrow> string option) \<Rightarrow> string \<Rightarrow> int \<Rightarrow> ObjectType \<Rightarrow> ActionVariant \<Rightarrow> AFEnforcer \<Rightarrow>
     bool \<times> AFEnforcer" where
  "enforce_policy C group_of workspace_id uid obj act e =
     (let e1 = e\<lparr>ef_total_read_enforce_result := ef_total_read_enforce_result e + 1\<rparr>;
          r1 = model_enforce C (ef_policies e) (ef_groups e) (workspace_policy_request workspace_id uid obj act);
          r2 = (if \<not> r1 then
                  (case group_of uid of
                     Some guid \<Rightarrow> model_enforce C (ef_policies e) (ef_groups e) (group_policy_request guid obj act)
                   | None \<Rightarrow> r1)
                else r1);
          r3 = (if \<not> r2 then model_enforce C (ef_policies e) (ef_groups e) (policy_request uid obj act) else r2)
      in (r3, e1))"

section \<open>\<open>AccessControl\<close> and the access controls built on it\<close>

datatype AccessControlChange = ChUpdatePolicy int string | ChRemovePolicy int string

record AccessControl =
  ac_enforcer :: AFEnforcer
  ac_changes :: "AccessControlChange list"

text \<open>\<open>enabled\<close> is \<open>enable_access_control()\<close>, read once from the environment.\<close>

definition ac_update_policy ::
  "casbin \<Rightarrow> bool \<Rightarrow> int \<Rightarrow> ObjectType \<Rightarrow> ActionVariant \<Rightarrow> AccessControl \<Rightarrow> (string + unit) \<times> AccessControl" where
  "ac_update_policy C enabled uid obj act a =
     (if enabled then
        (case enforcer_update_policy C uid obj act (ac_enforcer a) of
           (r, e) \<Rightarrow> (r, a\<lparr>ac_enforcer := e, ac_changes := ac_changes a @ [ChUpdatePolicy uid (object_id obj)]\<rparr>))
      else (Ok (), a))"

definition ac_remove_policy ::
  "casbin \<Rightarrow> bool \<Rightarrow> int \<Rightarrow> ObjectType \<Rightarrow> AccessControl \<Rightarrow> (string + unit) \<times> AccessControl" where
  "ac_remove_policy C enabled uid obj a =
     (if enabled then
        (case enforcer_remove_policy C uid obj (ac_enforcer a) of
           (Inl err, e) \<Rightarrow> (Err err, a\<lparr>ac_enforcer := e\<rparr>)
         | (Inr u, e) \<Rightarrow>
             (Ok (), a\<lparr>ac_enforcer := e, ac_changes := ac_changes a @ [ChRemovePolicy uid (object_id obj)]\<rparr>))
      else (Ok (), a))"

definition ac_enforce ::
  "casbin \<Rightarrow> bool \<Rightarrow> string \<Rightarrow> int \<Rightarrow> ObjectType \<Rightarrow> ActionVariant \<Rightarrow> AccessControl \<Rightarrow> bool \<times> AccessControl" where
  "ac_enforce C enabled workspace_id uid obj act a =
     (if enabled then
        (case enforce_policy C NoEnforceGroup workspace_id uid obj act (ac_enforcer a) of
           (r, e) \<Rightarrow> (r, a\<lparr>ac_enforcer := e\<rparr>))
      else (True, a))"

definition env_enable :: "string option \<Rightarrow> bool" where
  "env_enable var =
     (case var of
        Some value \<Rightarrow> map (\<lambda>c. if 65 \<le> (of_char c :: nat) \<and> (of_char c :: nat) \<le> 90
                              then char_of ((of_char c :: nat) + 32) else c) value = ''true'' \<or> value = ''1''
      | None \<Rightarrow> False)"

text \<open>\<open>CollabAccessControlImpl\<close> and \<open>WorkspaceAccessControlImpl\<close>.\<close>

definition collab_enforce_action where
  "collab_enforce_action C enabled workspace_id uid oid action a =
     ac_enforce C enabled workspace_id uid (CollabObj oid) (FromAction action) a"

definition collab_enforce_access_level where
  "collab_enforce_access_level C enabled workspace_id uid oid level a =
     ac_enforce C enabled workspace_id uid (CollabObj oid) (FromAccessLevel level) a"

definition update_access_level_policy where
  "update_access_level_policy C enabled uid oid level a =
     ac_update_policy C enabled uid (CollabObj oid) (FromAccessLevel level) a"

definition remove_access_level where
  "remove_access_level C enabled uid oid a = ac_remove_policy C enabled uid (CollabObj oid) a"

definition workspace_enforce_role where
  "workspace_enforce_role C enabled uid workspace_id role a =
     ac_enforce C enabled workspace_id uid (WorkspaceObj workspace_id) (FromRole role) a"

definition workspace_enforce_action where
  "workspace_enforce_action C enabled uid workspace_id action a =
     ac_enforce C enabled workspace_id uid (WorkspaceObj workspace_id) (FromAction action) a"

definition insert_role ::
  "casbin \<Rightarrow> bool \<Rightarrow> int \<Rightarrow> string \<Rightarrow> AFRole \<Rightarrow> AccessControl \<Rightarrow> (string + unit) \<times> AccessControl" where
  "insert_role C enabled uid workspace_id role a =
     (let access_level = level_from_role role
      in case ac_update_policy C enabled uid (WorkspaceObj workspace_id) (FromRole role) a of
           (Inl e, a1) \<Rightarrow> (Err e, a1)
         | (Inr u, a1) \<Rightarrow>
             ac_update_policy C enabled uid (CollabObj workspace_id) (FromAccessLevel access_level) a1)"

definition remove_role ::
  "casbin \<Rightarrow> bool \<Rightarrow> int \<Rightarrow> string \<Rightarrow> AccessControl \<Rightarrow> (string + unit) \<times> AccessControl" where
  "remove_role C enabled uid workspace_id a =
     (case ac_remove_policy C enabled uid (WorkspaceObj workspace_id) a of
        (Inl e, a1) \<Rightarrow> (Err e, a1)
      | (Inr u, a1) \<Rightarrow> ac_remove_policy C enabled uid (CollabObj workspace_id) a1)"

section \<open>The realtime access control and its cache\<close>

text \<open>
  \<open>action_by_oid\<close> is keyed by \<open>uid:oid\<close>; \<open>rt_seen\<close> counts the changes its listener task has applied.
\<close>

record RealtimeAC =
  rt_cache :: "string \<Rightarrow> Action option"
  rt_seen :: nat

definition cache_key :: "int \<Rightarrow> string \<Rightarrow> string" where
  "cache_key uid oid = int_to_string uid @ '':'' @ oid"

definition RealtimeAC_new :: RealtimeAC where
  "RealtimeAC_new = \<lparr>rt_cache = Map.empty, rt_seen = 0\<rparr>"

fun rt_on_change :: "AccessControlChange \<Rightarrow> RealtimeAC \<Rightarrow> RealtimeAC" where
  "rt_on_change (ChUpdatePolicy uid oid) r = r\<lparr>rt_cache := (rt_cache r)(cache_key uid oid := None)\<rparr>"
| "rt_on_change (ChRemovePolicy uid oid) r = r\<lparr>rt_cache := (rt_cache r)(cache_key uid oid := None)\<rparr>"

definition rt_listen :: "AccessControl \<Rightarrow> RealtimeAC \<Rightarrow> RealtimeAC" where
  "rt_listen a r =
     (if rt_seen r < length (ac_changes a)
      then (rt_on_change (ac_changes a ! rt_seen r) r)\<lparr>rt_seen := rt_seen r + 1\<rparr> else r)"

definition can_perform_action ::
  "casbin \<Rightarrow> bool \<Rightarrow> string \<Rightarrow> int \<Rightarrow> string \<Rightarrow> Action \<Rightarrow> AccessControl \<Rightarrow> RealtimeAC \<Rightarrow>
     bool \<times> AccessControl \<times> RealtimeAC" where
  "can_perform_action C enabled workspace_id uid oid required a r =
     (if enabled then
        (let key = cache_key uid oid in
         case rt_cache r key of
           Some action \<Rightarrow> (action_cmp action required \<noteq> Less, a, r)
         | None \<Rightarrow>
             (case ac_enforce C enabled workspace_id uid (CollabObj oid) (FromAction required) a of
                (permitted, a1) \<Rightarrow>
                  (permitted, a1, if permitted then r\<lparr>rt_cache := (rt_cache r)(key \<mapsto> required)\<rparr> else r)))
      else (True, a, r))"

definition can_write_collab where
  "can_write_collab C enabled workspace_id uid oid a r =
     can_perform_action C enabled workspace_id uid oid ActWrite a r"

definition can_read_collab where
  "can_read_collab C enabled workspace_id uid oid a r =
     can_perform_action C enabled workspace_id uid oid ActRead a r"

section \<open>Loading the policies and following the database\<close>

definition load_collab_policies :: "(int \<times> string \<times> AFAccessLevel) list \<Rightarrow> policy list" where
  "load_collab_policies rows =
     map (\<lambda>(uid, oid, level). [int_to_string uid, policy_object (CollabObj oid), level_to_action level]) rows"

definition load_workspace_policies :: "(int \<times> string \<times> AFRole) list \<Rightarrow> policy list" where
  "load_workspace_policies rows =
     map (\<lambda>(uid, wid, role). [int_to_string uid, policy_object (WorkspaceObj wid), role_to_action role]) rows"

text \<open>The streams end at the first row that fails to load, so the rows are the ones before it.\<close>

definition load_policy ::
  "casbin \<Rightarrow> (int \<times> string \<times> AFRole) list \<Rightarrow> (int \<times> string \<times> AFAccessLevel) list \<Rightarrow> policy list" where
  "load_policy C members collabs =
     cb_add_policies C (cb_add_policies C [] (load_workspace_policies members)) (load_collab_policies collabs)"

text \<open>\<open>role_id as i32\<close>: the cast keeps the low 32 bits.\<close>

definition as_i32 :: "int \<Rightarrow> int" where
  "as_i32 v = signed_take_bit 31 v"

datatype MemberAction = INSERT | UPDATE | DELETE_ROW

record CollabMemberRow =
  cmr_uid :: int
  cmr_oid :: string
  cmr_permission_id :: int

record CollabMemberNotification =
  cmn_old :: "CollabMemberRow option"
  cmn_new :: "CollabMemberRow option"
  cmn_action :: MemberAction

record WorkspaceMemberRow =
  wmr_uid :: int
  wmr_role_id :: int
  wmr_workspace_id :: string

record WorkspaceMemberNotification =
  wmn_old :: "WorkspaceMemberRow option"
  wmn_new :: "WorkspaceMemberRow option"
  wmn_action :: MemberAction

text \<open>\<open>select_permission\<close> is the database's: the access level of a permission id, if there is one.\<close>

definition on_collab_member_change ::
  "casbin \<Rightarrow> bool \<Rightarrow> (int \<Rightarrow> AFAccessLevel option) \<Rightarrow> CollabMemberNotification \<Rightarrow> AccessControl \<Rightarrow> AccessControl" where
  "on_collab_member_change C enabled permission change a =
     (case cmn_action change of
        DELETE_ROW \<Rightarrow>
          (case cmn_old change of
             Some row \<Rightarrow> snd (ac_remove_policy C enabled (cmr_uid row) (CollabObj (cmr_oid row)) a)
           | None \<Rightarrow> a)
      | _ \<Rightarrow>
          (case cmn_new change of
             None \<Rightarrow> a
           | Some row \<Rightarrow>
               (case permission (cmr_permission_id row) of
                  None \<Rightarrow> a
                | Some level \<Rightarrow>
                    snd (ac_update_policy C enabled (cmr_uid row) (CollabObj (cmr_oid row)) (FromAccessLevel level) a))))"

definition on_workspace_member_change ::
  "casbin \<Rightarrow> bool \<Rightarrow> WorkspaceMemberNotification \<Rightarrow> AccessControl \<Rightarrow> AccessControl" where
  "on_workspace_member_change C enabled change a =
     (case wmn_action change of
        DELETE_ROW \<Rightarrow>
          (case wmn_old change of
             None \<Rightarrow> a
           | Some row \<Rightarrow> snd (ac_remove_policy C enabled (wmr_uid row) (WorkspaceObj (wmr_workspace_id row)) a))
      | _ \<Rightarrow>
          (case wmn_new change of
             None \<Rightarrow> a
           | Some row \<Rightarrow>
               snd (ac_update_policy C enabled (wmr_uid row) (WorkspaceObj (wmr_workspace_id row))
                      (FromRole (role_from_i32 (as_i32 (wmr_role_id row)))) a)))"

section \<open>What a role or a level permits\<close>

fun role_permits :: "AFRole \<Rightarrow> Action \<Rightarrow> bool" where
  "role_permits RoleOwner _ = True"
| "role_permits RoleMember a = (a \<noteq> ActDelete)"
| "role_permits RoleGuest a = (a = ActRead)"

fun level_permits :: "AFAccessLevel \<Rightarrow> Action \<Rightarrow> bool" where
  "level_permits FullAccess _ = True"
| "level_permits ReadAndWrite a = (a \<noteq> ActDelete)"
| "level_permits _ a = (a = ActRead)"

text \<open>The policies of a workspace role and of a collab's access level, and sets of only those.\<close>

definition role_policy :: "int \<Rightarrow> string \<Rightarrow> AFRole \<Rightarrow> policy" where
  "role_policy uid w r = [int_to_string uid, policy_object (WorkspaceObj w), role_to_action r]"

definition level_policy :: "int \<Rightarrow> string \<Rightarrow> AFAccessLevel \<Rightarrow> policy" where
  "level_policy uid c l = [int_to_string uid, policy_object (CollabObj c), level_to_action l]"

definition policies_wf :: "policy list \<Rightarrow> bool" where
  "policies_wf P \<longleftrightarrow> (\<forall>p \<in> set P. (\<exists>uid w r. p = role_policy uid w r) \<or> (\<exists>uid c l. p = level_policy uid c l))"

lemma group_policies_eq:
  "group_policies =
     [(''10'', ''read''), (''20'', ''read''), (''30'', ''read''), (''30'', ''write''),
      (''50'', ''read''), (''50'', ''write''), (''50'', ''delete''),
      (''1'', ''delete''), (''1'', ''write''), (''1'', ''read''),
      (''2'', ''write''), (''2'', ''read''), (''3'', ''read'')]"
  by (simp add: group_policies_def level_groups_def)

lemma group_no_chain: "(a, b) \<in> set group_policies \<Longrightarrow> (b, c) \<notin> set group_policies"
  unfolding group_policies_eq by auto

lemma group_link: "(a, b) \<in> (set group_policies)\<^sup>* \<longleftrightarrow> a = b \<or> (a, b) \<in> set group_policies"
proof
  assume "(a, b) \<in> (set group_policies)\<^sup>*"
  then show "a = b \<or> (a, b) \<in> set group_policies"
    by (induction rule: rtrancl_induct) (use group_no_chain in blast)+
qed auto

lemma role_link: "(role_to_action r, action_str a) \<in> (set group_policies)\<^sup>* \<longleftrightarrow> role_permits r a"
  unfolding group_link unfolding group_policies_eq by (cases r; cases a) simp_all

lemma level_link: "(level_to_action l, action_str a) \<in> (set group_policies)\<^sup>* \<longleftrightarrow> level_permits l a"
  unfolding group_link unfolding group_policies_eq by (cases l; cases a) simp_all

lemma level_level_link: "(level_to_action l, level_to_action k) \<in> (set group_policies)\<^sup>* \<longleftrightarrow> l = k"
  unfolding group_link unfolding group_policies_eq by (cases l; cases k) simp_all

lemma role_level_link: "(role_to_action r, level_to_action k) \<notin> (set group_policies)\<^sup>*"
  unfolding group_link unfolding group_policies_eq by (cases r; cases k) simp_all

lemma role_role_link: "(role_to_action r, role_to_action k) \<in> (set group_policies)\<^sup>* \<longleftrightarrow> r = k"
  unfolding group_link unfolding group_policies_eq by (cases r; cases k) simp_all

lemma policy_object_inj [simp]: "policy_object a = policy_object b \<longleftrightarrow> a = b"
  by (cases a; cases b) simp_all

lemma role_policy_inj [simp]: "role_policy u w r = role_policy u' w' r' \<longleftrightarrow> u = u' \<and> w = w' \<and> r = r'"
  by (cases r; cases r') (auto simp: role_policy_def)

lemma level_policy_inj [simp]: "level_policy u c l = level_policy u' c' l' \<longleftrightarrow> u = u' \<and> c = c' \<and> l = l'"
  by (cases l; cases l') (auto simp: level_policy_def)

lemma role_not_level: "role_policy u w r \<noteq> level_policy u' c l" "level_policy u' c l \<noteq> role_policy u w r"
  by (simp_all add: role_policy_def level_policy_def)

lemma policy_object_not_uid: "policy_object obj \<noteq> int_to_string uid"
proof
  assume eq: "policy_object obj = int_to_string uid"
  obtain c where c: "c \<in> set (policy_object obj)" "c = CHR '':''" by (cases obj) auto
  from c int_to_string_chars [of c uid] eq show False by simp
qed

text \<open>Enforcement as the existence of a policy.\<close>

lemma casbin_link: "casbin_laws C \<Longrightarrow> cb_link C G a b \<longleftrightarrow> (a, b) \<in> (set G)\<^sup>*"
  by (simp add: casbin_laws_def)

lemma model_enforce_iff:
  assumes "casbin_laws C" and "policies_wf P"
  shows "model_enforce C P G [s, ob, a] \<longleftrightarrow> (\<exists>b. [s, ob, b] \<in> set P \<and> (b, a) \<in> (set G)\<^sup>*)"
proof
  assume "model_enforce C P G [s, ob, a]"
  then obtain p where p: "p \<in> set P" "p ! 0 = s" "p ! 1 = ob" "(p ! 2, a) \<in> (set G)\<^sup>*"
    using assms(1) by (auto simp: model_enforce_def list_ex_iff casbin_laws_def)
  obtain x y z where "p = [x, y, z]"
    using bspec [OF assms(2) [unfolded policies_wf_def] p(1)]
    by (elim disjE exE) (simp_all add: role_policy_def level_policy_def)
  with p show "\<exists>b. [s, ob, b] \<in> set P \<and> (b, a) \<in> (set G)\<^sup>*" by (intro exI [of _ z]) simp
next
  assume "\<exists>b. [s, ob, b] \<in> set P \<and> (b, a) \<in> (set G)\<^sup>*"
  then obtain b where b: "[s, ob, b] \<in> set P" "(b, a) \<in> (set G)\<^sup>*" by blast
  have "cb_link C G b a" using b(2) by (simp add: casbin_link [OF assms(1)])
  then show "model_enforce C P G [s, ob, a]"
    unfolding model_enforce_def list_ex_iff by (intro bexI [OF _ b(1)]) simp_all
qed

lemma workspace_enforce_iff:
  assumes "casbin_laws C" and "policies_wf P"
  shows "model_enforce C P G [int_to_string uid, policy_object (WorkspaceObj w), a] \<longleftrightarrow>
    (\<exists>r. role_policy uid w r \<in> set P \<and> (role_to_action r, a) \<in> (set G)\<^sup>*)"
proof -
  have "\<exists>r. b = role_to_action r" if "[int_to_string uid, policy_object (WorkspaceObj w), b] \<in> set P" for b
  proof -
    from that assms(2) consider (r) u v r where "[int_to_string uid, policy_object (WorkspaceObj w), b] = role_policy u v r"
      | (l) u v l where "[int_to_string uid, policy_object (WorkspaceObj w), b] = level_policy u v l"
      unfolding policies_wf_def by blast
    then show ?thesis
    proof cases
      case r then show ?thesis unfolding role_policy_def by blast
    next
      case l
      then have "policy_object (WorkspaceObj w) = policy_object (CollabObj v)"
        unfolding level_policy_def by (metis list.inject)
      then show ?thesis unfolding policy_object_inj by simp
    qed
  qed
  then show ?thesis unfolding model_enforce_iff [OF assms] role_policy_def by blast
qed

lemma collab_enforce_iff:
  assumes "casbin_laws C" and "policies_wf P"
  shows "model_enforce C P G [int_to_string uid, policy_object (CollabObj c), a] \<longleftrightarrow>
    (\<exists>l. level_policy uid c l \<in> set P \<and> (level_to_action l, a) \<in> (set G)\<^sup>*)"
proof -
  have "\<exists>r. b = level_to_action r" if "[int_to_string uid, policy_object (CollabObj c), b] \<in> set P" for b
  proof -
    from that assms(2) consider (r) u v r where "[int_to_string uid, policy_object (CollabObj c), b] = role_policy u v r"
      | (l) u v l where "[int_to_string uid, policy_object (CollabObj c), b] = level_policy u v l"
      unfolding policies_wf_def by blast
    then show ?thesis
    proof cases
      case l then show ?thesis unfolding level_policy_def by blast
    next
      case r
      then have "policy_object (CollabObj c) = policy_object (WorkspaceObj v)"
        unfolding role_policy_def by (metis list.inject)
      then show ?thesis unfolding policy_object_inj by simp
    qed
  qed
  then show ?thesis unfolding model_enforce_iff [OF assms] level_policy_def by blast
qed

lemma enforce_policy_eq:
  "fst (enforce_policy C NoEnforceGroup w uid obj act e) \<longleftrightarrow>
     model_enforce C (ef_policies e) (ef_groups e) (workspace_policy_request w uid obj act) \<or>
     model_enforce C (ef_policies e) (ef_groups e) (policy_request uid obj act)"
  by (simp add: enforce_policy_def NoEnforceGroup_def Let_def)

text \<open>An invariant of the enforcer's state, kept by everything that changes it.\<close>

definition ac_inv :: "AccessControl \<Rightarrow> bool" where
  "ac_inv a \<longleftrightarrow> policies_wf (ef_policies (ac_enforcer a)) \<and> ef_groups (ac_enforcer a) = group_policies"

lemma remove_policy_same:
  assumes "casbin_laws C" shows "enforcer_remove_policy C uid obj e = (Ok (), e)"
proof -
  have "p ! POLICY_FIELD_INDEX_OBJECT \<noteq> int_to_string uid"
    if "p \<in> set (cb_get_filtered_policy C (ef_policies e) POLICY_FIELD_INDEX_OBJECT [policy_object obj])" for p
    using that assms policy_object_not_uid by (simp add: casbin_laws_def)
  then have "policies_for_subject_with_given_object C (int_to_string uid) obj (ef_policies e) = []"
    by (simp add: policies_for_subject_with_given_object_def filter_empty_conv)
  then show ?thesis by (simp add: enforcer_remove_policy_def)
qed

lemma ac_remove_enforcer:
  "casbin_laws C \<Longrightarrow> ac_enforcer (snd (ac_remove_policy C en uid obj a)) = ac_enforcer a"
  by (simp add: ac_remove_policy_def remove_policy_same)

lemma ac_update_policies:
  assumes "casbin_laws C"
  shows "set (ef_policies (ac_enforcer a)) \<subseteq> set (ef_policies (ac_enforcer (snd (ac_update_policy C en uid obj act a))))"
    and "ef_groups (ac_enforcer (snd (ac_update_policy C en uid obj act a))) = ef_groups (ac_enforcer a)"
    and "ac_inv a \<Longrightarrow> ac_inv (snd (ac_update_policy C en uid obj act a))"
proof -
  let ?p = "[int_to_string uid, policy_object obj, to_action act]"
  have s: "set (cb_add_policy C P p) = insert p (set P)" for P p using assms by (simp add: casbin_laws_def)
  have cases: "snd (ac_update_policy C en uid obj act a) = a \<or>
     snd (ac_update_policy C en uid obj act a) =
       a\<lparr>ac_changes := ac_changes a @ [ChUpdatePolicy uid (object_id obj)]\<rparr> \<or>
     (is_ok (validate_obj_action obj act) \<and> snd (ac_update_policy C en uid obj act a) =
       a\<lparr>ac_enforcer := (ac_enforcer a)\<lparr>ef_policies := cb_add_policy C (ef_policies (ac_enforcer a)) ?p\<rparr>,
         ac_changes := ac_changes a @ [ChUpdatePolicy uid (object_id obj)]\<rparr>)"
    by (cases "validate_obj_action obj act") (auto simp: ac_update_policy_def enforcer_update_policy_def)
  show "set (ef_policies (ac_enforcer a)) \<subseteq> set (ef_policies (ac_enforcer (snd (ac_update_policy C en uid obj act a))))"
    using cases s by auto
  show "ef_groups (ac_enforcer (snd (ac_update_policy C en uid obj act a))) = ef_groups (ac_enforcer a)"
    using cases by auto
  have p: "(\<exists>u w r. ?p = role_policy u w r) \<or> (\<exists>u c l. ?p = level_policy u c l)"
    if "is_ok (validate_obj_action obj act)"
    using that by (cases obj; cases act) (auto simp: role_policy_def level_policy_def)
  show "ac_inv (snd (ac_update_policy C en uid obj act a))" if inv: "ac_inv a"
    using cases
  proof (elim disjE)
    assume "is_ok (validate_obj_action obj act) \<and> snd (ac_update_policy C en uid obj act a) =
       a\<lparr>ac_enforcer := (ac_enforcer a)\<lparr>ef_policies := cb_add_policy C (ef_policies (ac_enforcer a)) ?p\<rparr>,
         ac_changes := ac_changes a @ [ChUpdatePolicy uid (object_id obj)]\<rparr>"
    then show ?thesis using inv p s by (simp add: ac_inv_def policies_wf_def)
  qed (use inv in \<open>simp_all add: ac_inv_def\<close>)
qed

text \<open>Enforcing grows with the policies.\<close>

lemma model_enforce_mono:
  "set P \<subseteq> set P' \<Longrightarrow> model_enforce C P G r \<Longrightarrow> model_enforce C P' G r"
  by (auto simp: model_enforce_def list_ex_iff)

lemma ac_enforce_fst:
  "fst (ac_enforce C en w uid obj act a) \<longleftrightarrow> \<not> en \<or> fst (enforce_policy C NoEnforceGroup w uid obj act (ac_enforcer a))"
  by (simp add: ac_enforce_def case_prod_beta)

lemma ac_enforce_mono:
  assumes "set (ef_policies (ac_enforcer a)) \<subseteq> set (ef_policies (ac_enforcer b))"
    and "ef_groups (ac_enforcer b) = ef_groups (ac_enforcer a)"
    and "fst (ac_enforce C en w uid obj act a)"
  shows "fst (ac_enforce C en w uid obj act b)"
proof (cases en)
  case True
  have "fst (enforce_policy C NoEnforceGroup w uid obj act (ac_enforcer a))"
    using assms(3) True by (simp add: ac_enforce_fst)
  then have "fst (enforce_policy C NoEnforceGroup w uid obj act (ac_enforcer b))"
    unfolding enforce_policy_eq assms(2) using model_enforce_mono [OF assms(1)] by blast
  then show ?thesis by (simp add: ac_enforce_fst)
qed (simp add: ac_enforce_def)

text \<open>Everything that changes the policies, as one step.\<close>

datatype ac_op =
    OpUpdate int ObjectType ActionVariant
  | OpRemove int ObjectType
  | OpInsertRole int string AFRole
  | OpRemoveRole int string
  | OpCollabChange CollabMemberNotification
  | OpWorkspaceChange WorkspaceMemberNotification
  | OpEnforce string int ObjectType ActionVariant

fun ac_step :: "casbin \<Rightarrow> bool \<Rightarrow> (int \<Rightarrow> AFAccessLevel option) \<Rightarrow> AccessControl \<Rightarrow> ac_op \<Rightarrow> AccessControl" where
  "ac_step C en pm a (OpUpdate uid obj act) = snd (ac_update_policy C en uid obj act a)"
| "ac_step C en pm a (OpRemove uid obj) = snd (ac_remove_policy C en uid obj a)"
| "ac_step C en pm a (OpInsertRole uid w r) = snd (insert_role C en uid w r a)"
| "ac_step C en pm a (OpRemoveRole uid w) = snd (remove_role C en uid w a)"
| "ac_step C en pm a (OpCollabChange n) = on_collab_member_change C en pm n a"
| "ac_step C en pm a (OpWorkspaceChange n) = on_workspace_member_change C en n a"
| "ac_step C en pm a (OpEnforce w uid obj act) = snd (ac_enforce C en w uid obj act a)"

text \<open>What an access control grows to: the same groups, at least the same policies, the invariant.\<close>

definition ac_grows :: "AccessControl \<Rightarrow> AccessControl \<Rightarrow> bool" where
  "ac_grows a b \<longleftrightarrow> set (ef_policies (ac_enforcer a)) \<subseteq> set (ef_policies (ac_enforcer b)) \<and>
     ef_groups (ac_enforcer b) = ef_groups (ac_enforcer a) \<and> (ac_inv a \<longrightarrow> ac_inv b)"

lemma ac_grows_refl [simp]: "ac_grows a a"
  by (simp add: ac_grows_def)

lemma ac_grows_trans: "ac_grows a b \<Longrightarrow> ac_grows b c \<Longrightarrow> ac_grows a c"
  by (auto simp: ac_grows_def)

lemma ac_grows_update: "casbin_laws C \<Longrightarrow> ac_grows a (snd (ac_update_policy C en uid obj act a))"
  by (simp add: ac_grows_def ac_update_policies)

lemma ac_grows_same: "ac_enforcer b = ac_enforcer a \<Longrightarrow> ac_grows a b"
  by (simp add: ac_grows_def ac_inv_def)

lemma ac_grows_remove: "casbin_laws C \<Longrightarrow> ac_grows a (snd (ac_remove_policy C en uid obj a))"
  by (rule ac_grows_same) (rule ac_remove_enforcer)

lemma ac_grows_enforce: "ac_grows a (snd (ac_enforce C en w uid obj act a))"
  by (auto simp: ac_enforce_def enforce_policy_def Let_def ac_grows_def ac_inv_def)

lemma ac_grows_step: assumes "casbin_laws C" shows "ac_grows a (ac_step C en pm a op)"
proof (cases op)
  case (OpInsertRole uid w r)
  obtain x a1 where u: "ac_update_policy C en uid (WorkspaceObj w) (FromRole r) a = (x, a1)"
    by (cases "ac_update_policy C en uid (WorkspaceObj w) (FromRole r) a")
  then have 1: "ac_grows a a1" using ac_grows_update [OF assms, of a en uid "WorkspaceObj w" "FromRole r"] by simp
  show ?thesis using OpInsertRole u 1 ac_grows_trans [OF 1 ac_grows_update [OF assms]]
    by (cases x) (simp_all add: insert_role_def)
next
  case (OpRemoveRole uid w)
  obtain x a1 where u: "ac_remove_policy C en uid (WorkspaceObj w) a = (x, a1)"
    by (cases "ac_remove_policy C en uid (WorkspaceObj w) a")
  then have 1: "ac_grows a a1" using ac_grows_remove [OF assms, of a en uid "WorkspaceObj w"] by simp
  show ?thesis using OpRemoveRole u 1 ac_grows_trans [OF 1 ac_grows_remove [OF assms]]
    by (cases x) (simp_all add: remove_role_def)
next
  case (OpCollabChange n)
  then show ?thesis
    by (cases "cmn_action n")
       (simp_all add: on_collab_member_change_def ac_grows_update [OF assms] ac_grows_remove [OF assms] split: option.splits)
next
  case (OpWorkspaceChange n)
  then show ?thesis
    by (cases "wmn_action n")
       (simp_all add: on_workspace_member_change_def ac_grows_update [OF assms] ac_grows_remove [OF assms] split: option.splits)
qed (simp_all add: ac_grows_update [OF assms] ac_grows_remove [OF assms] ac_grows_enforce)

lemma ac_grows_run: "casbin_laws C \<Longrightarrow> ac_grows a (foldl (ac_step C en pm) a ops)"
  by (induction ops rule: rev_induct) (simp_all add: ac_grows_trans [OF _ ac_grows_step])

lemma cache_key_inj [simp]: "cache_key u o1 = cache_key v o2 \<longleftrightarrow> u = v \<and> o1 = o2"
proof
  assume eq: "cache_key u o1 = cache_key v o2"
  have n: "c \<noteq> CHR '':''" if "c \<in> set (int_to_string w)" for c w
    using int_to_string_chars [OF that] by auto
  have t: "takeWhile (\<lambda>c. c \<noteq> CHR '':'') (cache_key w x) = int_to_string w" for w x
    using n by (simp add: cache_key_def takeWhile_append2)
  have "int_to_string u = int_to_string v" using arg_cong [OF eq, of "takeWhile (\<lambda>c. c \<noteq> CHR '':'')"] t by simp
  with eq show "u = v \<and> o1 = o2" by (simp add: cache_key_def)
qed simp

text \<open>An instance of the operations, and the cache's soundness.\<close>

definition casbin_std :: casbin where
  "casbin_std = \<lparr>cb_link = (\<lambda>G a b. (a, b) \<in> (set G)\<^sup>*),
     cb_add_policy = (\<lambda>P p. if p \<in> set P then P else P @ [p]),
     cb_add_policies = (\<lambda>P ps. if list_ex (\<lambda>p. p \<in> set P) ps then P else P @ ps),
     cb_remove_policies = (\<lambda>P ps. if list_all (\<lambda>p. p \<in> set P) ps then filter (\<lambda>p. p \<notin> set ps) P else P),
     cb_get_filtered_policy = (\<lambda>P i vs. filter (\<lambda>p. p ! i = hd vs) P)\<rparr>"

lemma casbin_laws_std: "casbin_laws casbin_std"
  by (auto simp: casbin_laws_def casbin_std_def list_ex_iff list_all_iff)

lemma permits_mono:
  "action_cmp a b \<noteq> Less \<Longrightarrow> role_permits r a \<Longrightarrow> role_permits r b"
  "action_cmp a b \<noteq> Less \<Longrightarrow> level_permits l a \<Longrightarrow> level_permits l b"
  by (cases r; cases a; cases b; simp) (cases l; cases a; cases b; simp)

lemma enforce_action_iff:
  assumes "casbin_laws C" and "ac_inv a"
  shows "fst (ac_enforce C True w uid (CollabObj c) (FromAction act) a) \<longleftrightarrow>
      (\<exists>r. role_policy uid w r \<in> set (ef_policies (ac_enforcer a)) \<and> role_permits r act) \<or>
      (\<exists>l. level_policy uid c l \<in> set (ef_policies (ac_enforcer a)) \<and> level_permits l act)"
    and "fst (ac_enforce C True w uid (WorkspaceObj w') (FromAction act) a) \<longleftrightarrow>
      (\<exists>r. role_policy uid w' r \<in> set (ef_policies (ac_enforcer a)) \<and> role_permits r act)"
proof -
  have P: "policies_wf (ef_policies (ac_enforcer a))" and G: "ef_groups (ac_enforcer a) = group_policies"
    using assms(2) by (simp_all add: ac_inv_def)
  show "fst (ac_enforce C True w uid (CollabObj c) (FromAction act) a) \<longleftrightarrow>
      (\<exists>r. role_policy uid w r \<in> set (ef_policies (ac_enforcer a)) \<and> role_permits r act) \<or>
      (\<exists>l. level_policy uid c l \<in> set (ef_policies (ac_enforcer a)) \<and> level_permits l act)"
    unfolding ac_enforce_fst enforce_policy_eq workspace_policy_request.simps policy_request_def to_action.simps G
      workspace_enforce_iff [OF assms(1) P] collab_enforce_iff [OF assms(1) P] role_link level_link by simp
  show "fst (ac_enforce C True w uid (WorkspaceObj w') (FromAction act) a) \<longleftrightarrow>
      (\<exists>r. role_policy uid w' r \<in> set (ef_policies (ac_enforcer a)) \<and> role_permits r act)"
    unfolding ac_enforce_fst enforce_policy_eq workspace_policy_request.simps policy_request_def to_action.simps G
      workspace_enforce_iff [OF assms(1) P] role_link by simp
qed

lemma enforce_level_iff:
  assumes "casbin_laws C" and "ac_inv a"
  shows "fst (ac_enforce C True w uid (CollabObj c) (FromAccessLevel l) a) \<longleftrightarrow>
    level_policy uid c l \<in> set (ef_policies (ac_enforcer a))"
proof -
  have P: "policies_wf (ef_policies (ac_enforcer a))" and G: "ef_groups (ac_enforcer a) = group_policies"
    using assms(2) by (simp_all add: ac_inv_def)
  show ?thesis
    unfolding ac_enforce_fst enforce_policy_eq workspace_policy_request.simps
      policy_request_def to_action.simps G workspace_enforce_iff [OF assms(1) P] collab_enforce_iff [OF assms(1) P]
    by (simp add: role_level_link level_level_link)
qed

lemma enforce_role_iff:
  assumes "casbin_laws C" and "ac_inv a"
  shows "fst (ac_enforce C True w' uid (WorkspaceObj w) (FromRole r) a) \<longleftrightarrow>
    role_policy uid w r \<in> set (ef_policies (ac_enforcer a))"
proof -
  have P: "policies_wf (ef_policies (ac_enforcer a))" and G: "ef_groups (ac_enforcer a) = group_policies"
    using assms(2) by (simp_all add: ac_inv_def)
  show ?thesis
    unfolding ac_enforce_fst enforce_policy_eq workspace_policy_request.simps
      policy_request_def to_action.simps G workspace_enforce_iff [OF assms(1) P]
    by (simp add: role_role_link)
qed

definition cache_sound :: "casbin \<Rightarrow> (string \<Rightarrow> string) \<Rightarrow> AccessControl \<Rightarrow> RealtimeAC \<Rightarrow> bool" where
  "cache_sound C w a r \<longleftrightarrow> (\<forall>uid oid act b. rt_cache r (cache_key uid oid) = Some act \<longrightarrow> action_cmp act b \<noteq> Less \<longrightarrow>
     fst (ac_enforce C True (w oid) uid (CollabObj oid) (FromAction b) a))"

lemma cache_sound_grows:
  assumes "casbin_laws C" and "cache_sound C w a r" and "ac_grows a b"
  shows "cache_sound C w b r"
  using assms ac_enforce_mono [of a b] unfolding cache_sound_def ac_grows_def by blast

section \<open>Properties\<close>

text \<open>
  C16: Who may do what.  With the grouping rules the server loads, a request for an action on a
  workspace is granted exactly when a policy gives the user a role there that permits the action
  (an owner everything, a member all but deleting, a guest reading); on a collab, when such a role
  in the workspace named by the request does, or a policy for the collab gives an access level
  that does.
\<close>

theorem access_matrix:
  assumes "casbin_laws C" and "ac_inv a"
  shows "fst (ac_enforce C True w uid obj (FromAction act) a) \<longleftrightarrow>
    (\<exists>r. role_policy uid (case obj of WorkspaceObj w' \<Rightarrow> w' | CollabObj c \<Rightarrow> w) r \<in> set (ef_policies (ac_enforcer a)) \<and>
         role_permits r act) \<or>
    (\<exists>c l. obj = CollabObj c \<and> level_policy uid c l \<in> set (ef_policies (ac_enforcer a)) \<and> level_permits l act)"
  using enforce_action_iff [OF assms] by (cases obj) simp_all

definition sample_ac :: "policy list \<Rightarrow> AccessControl" where
  "sample_ac P = \<lparr>ac_enforcer = AFEnforcer_new P, ac_changes = []\<rparr>"

lemma sample_ac_inv: "policies_wf P \<Longrightarrow> ac_inv (sample_ac P)"
  by (simp add: ac_inv_def sample_ac_def AFEnforcer_new_def)

theorem access_matrix_witness:
  "fst (ac_enforce casbin_std True ''w'' 7 (CollabObj ''c'') (FromAction ActWrite) (sample_ac [role_policy 7 ''w'' RoleMember]))"
proof -
  have i: "ac_inv (sample_ac [role_policy 7 ''w'' RoleMember])"
    by (rule sample_ac_inv) (auto simp: policies_wf_def)
  have "role_policy 7 ''w'' RoleMember \<in> set (ef_policies (ac_enforcer (sample_ac [role_policy 7 ''w'' RoleMember])))"
    by (simp add: sample_ac_def AFEnforcer_new_def)
  then show ?thesis unfolding access_matrix [OF casbin_laws_std i]
    by (intro disjI1 exI [of _ RoleMember]) simp
qed

text \<open>
  Removing a policy never removes anything: the filter that should pick the user's rules compares
  the object field, which always has a prefix, with the user id, so the enforcer is unchanged and
  the call reports success.
\<close>

theorem remove_policy_is_noop:
  assumes "casbin_laws C"
  shows "enforcer_remove_policy C uid obj e = (Ok (), e)"
  using assms by (rule remove_policy_same)

theorem remove_policy_is_noop_witness:
  "enforcer_remove_policy casbin_std 7 (WorkspaceObj ''w'') (AFEnforcer_new [role_policy 7 ''w'' RoleOwner]) =
     (Ok (), AFEnforcer_new [role_policy 7 ''w'' RoleOwner])"
  by (rule remove_policy_is_noop [OF casbin_laws_std])

text \<open>
  C15: The policies keep their shape: whatever changes, requests and notifications come, every policy is a role of a user in a
  workspace or a level of a user on a document, and the levels and roles mean what they meant.
\<close>

theorem policies_keep_shape:
  assumes "casbin_laws C" and "policies_wf (ef_policies (ac_enforcer a))" and "ef_groups (ac_enforcer a) = group_policies"
  shows "policies_wf (ef_policies (ac_enforcer (foldl (ac_step C en pm) a ops)))
     \<and> ef_groups (ac_enforcer (foldl (ac_step C en pm) a ops)) = group_policies"
  using ac_grows_run [OF assms(1), of a en pm ops] assms(2,3) by (simp add: ac_grows_def ac_inv_def)

theorem policies_keep_shape_witness:
  "policies_wf (ef_policies (ac_enforcer (foldl (ac_step casbin_std True (\<lambda>_. None)) (sample_ac [role_policy 7 ''w'' RoleOwner])
     [OpInsertRole 7 ''w'' RoleGuest, OpUpdate 8 (CollabObj ''c'') (FromAccessLevel ReadOnly), OpRemoveRole 7 ''w''])))"
proof -
  have "ac_inv (sample_ac [role_policy 7 ''w'' RoleOwner])" by (rule sample_ac_inv) (auto simp: policies_wf_def)
  then have "policies_wf (ef_policies (ac_enforcer (sample_ac [role_policy 7 ''w'' RoleOwner])))"
    "ef_groups (ac_enforcer (sample_ac [role_policy 7 ''w'' RoleOwner])) = group_policies"
    by (simp_all add: ac_inv_def)
  from policies_keep_shape [OF casbin_laws_std this, THEN conjunct1] show ?thesis .
qed

text \<open>
  C20: Access is never taken back.  Whatever follows (roles inserted, lowered or removed, access levels
  updated or removed, database notifications, further requests), a request that was granted once
  is granted for ever: a policy update adds a rule and leaves the old one in place, and a removal
  removes none.
\<close>

theorem access_never_revoked:
  assumes "casbin_laws C" and "fst (ac_enforce C en w uid obj act a)"
  shows "fst (ac_enforce C en w uid obj act (foldl (ac_step C en pm) a ops))"
  using ac_grows_run [OF assms(1), of a en pm ops] ac_enforce_mono [OF _ _ assms(2)] by (simp add: ac_grows_def)

theorem access_never_revoked_witness:
  "fst (ac_enforce casbin_std True ''w'' 7 (WorkspaceObj ''w'') (FromAction ActDelete)
     (foldl (ac_step casbin_std True (\<lambda>_. None)) (sample_ac [role_policy 7 ''w'' RoleOwner])
        [OpInsertRole 7 ''w'' RoleGuest, OpRemoveRole 7 ''w'']))"
proof -
  let ?a = "sample_ac [role_policy 7 ''w'' RoleOwner]"
  have i: "ac_inv ?a" by (rule sample_ac_inv) (auto simp: policies_wf_def)
  have "role_policy 7 ''w'' RoleOwner \<in> set (ef_policies (ac_enforcer ?a))"
    by (simp add: sample_ac_def AFEnforcer_new_def)
  then have "fst (ac_enforce casbin_std True ''w'' 7 (WorkspaceObj ''w'') (FromAction ActDelete) ?a)"
    unfolding enforce_action_iff(2) [OF casbin_laws_std i] by (intro exI [of _ RoleOwner]) simp
  then show ?thesis by (rule access_never_revoked [OF casbin_laws_std])
qed

text \<open>
  The realtime cache never grants more than the policies do.  If every cached entry is covered by
  the policies, an answer of yes means the policies grant the action, and the entries stay covered
  after the request and after any later change of the policies.
\<close>

theorem realtime_cache_sound:
  assumes "casbin_laws C" and "ac_inv a" and "cache_sound C w a r"
    and "can_perform_action C True (w oid) uid oid act a r = (ok, a', r')"
  shows "(ok \<longrightarrow> fst (ac_enforce C True (w oid) uid (CollabObj oid) (FromAction act) a)) \<and>
    cache_sound C w (foldl (ac_step C True pm) a' ops) r'"
proof (cases "rt_cache r (cache_key uid oid)")
  case (Some cached)
  then have r: "ok = (action_cmp cached act \<noteq> Less)" "a' = a" "r' = r"
    using assms(4) by (simp_all add: can_perform_action_def Let_def)
  have "cache_sound C w (foldl (ac_step C True pm) a ops) r"
    by (rule cache_sound_grows [OF assms(1,3) ac_grows_run [OF assms(1)]])
  then show ?thesis using Some assms(3) r unfolding cache_sound_def by blast
next
  case None
  let ?e = "ac_enforce C True (w oid) uid (CollabObj oid) (FromAction act) a"
  have r: "ok = fst ?e" "a' = snd ?e"
    "r' = (if fst ?e then r\<lparr>rt_cache := (rt_cache r)(cache_key uid oid \<mapsto> act)\<rparr> else r)"
    using assms(4) None by (auto simp: can_perform_action_def Let_def split: prod.splits)
  have g: "ac_grows a a'" unfolding r(2) by (rule ac_grows_enforce)
  have "cache_sound C w a r'"
    unfolding cache_sound_def
  proof (intro allI impI)
    fix u x c b assume c: "rt_cache r' (cache_key u x) = Some c" and le: "action_cmp c b \<noteq> Less"
    show "fst (ac_enforce C True (w x) u (CollabObj x) (FromAction b) a)"
    proof (cases "fst ?e \<and> u = uid \<and> x = oid")
      case True
      then have "c = act" using c r(3) by simp
      with True le permits_mono show ?thesis unfolding enforce_action_iff(1) [OF assms(1,2)] by blast
    next
      case False
      then have "rt_cache r (cache_key u x) = Some c" using c r(3) by (auto split: if_splits)
      then show ?thesis using assms(3) le unfolding cache_sound_def by blast
    qed
  qed
  then have "cache_sound C w (foldl (ac_step C True pm) a' ops) r'"
    by (rule cache_sound_grows [OF assms(1) _ ac_grows_trans [OF g ac_grows_run [OF assms(1)]]])
  then show ?thesis using r(1) by simp
qed

theorem realtime_cache_sound_witness:
  "case can_perform_action casbin_std True ''w'' 7 ''c'' ActRead (sample_ac [role_policy 7 ''w'' RoleGuest]) RealtimeAC_new of
     (ok, a', r') \<Rightarrow> cache_sound casbin_std (\<lambda>_. ''w'') a' r'"
proof -
  let ?a = "sample_ac [role_policy 7 ''w'' RoleGuest]"
  have i: "ac_inv ?a" by (rule sample_ac_inv) (auto simp: policies_wf_def)
  have c: "cache_sound casbin_std (\<lambda>_. ''w'') ?a RealtimeAC_new"
    by (simp add: cache_sound_def RealtimeAC_new_def)
  obtain ok a' r' where p: "can_perform_action casbin_std True ((\<lambda>_. ''w'') ''c'') 7 ''c'' ActRead ?a RealtimeAC_new = (ok, a', r')"
    by (rule prod_cases3)
  show ?thesis using realtime_cache_sound [OF casbin_laws_std i c p, of _ "[]"] p by simp
qed

text \<open>
  The cache refuses what the policies grant: once a user's read of a collab has been granted and
  cached, writing it is refused without asking the enforcer, whatever the user's role or access
  level is, until a policy change for that user and collab clears the entry.
\<close>

theorem cached_read_denies_write:
  assumes "rt_cache r (cache_key uid oid) = None"
    and "fst (ac_enforce C True w uid (CollabObj oid) (FromAction ActRead) a)"
    and "can_read_collab C True w uid oid a r = (ok, a', r')"
  shows "ok \<and> can_write_collab C True w uid oid b r' = (False, b, r')"
  using assms
  by (auto simp: can_read_collab_def can_write_collab_def can_perform_action_def Let_def split: prod.splits)

theorem cached_read_denies_write_witness:
  "\<exists>a' r'. can_read_collab casbin_std True ''w'' 7 ''c'' (sample_ac [role_policy 7 ''w'' RoleOwner]) RealtimeAC_new = (True, a', r') \<and>
     can_write_collab casbin_std True ''w'' 7 ''c'' a' r' = (False, a', r')"
proof -
  let ?a = "sample_ac [role_policy 7 ''w'' RoleOwner]"
  have i: "ac_inv ?a" by (rule sample_ac_inv) (auto simp: policies_wf_def)
  have "role_policy 7 ''w'' RoleOwner \<in> set (ef_policies (ac_enforcer ?a))"
    by (simp add: sample_ac_def AFEnforcer_new_def)
  then have e: "fst (ac_enforce casbin_std True ''w'' 7 (CollabObj ''c'') (FromAction ActRead) ?a)"
    unfolding enforce_action_iff(1) [OF casbin_laws_std i] by (intro disjI1 exI [of _ RoleOwner]) simp
  obtain ok a' r' where p: "can_read_collab casbin_std True ''w'' 7 ''c'' ?a RealtimeAC_new = (ok, a', r')"
    by (rule prod_cases3)
  have n: "rt_cache RealtimeAC_new (cache_key 7 ''c'') = None" by (simp add: RealtimeAC_new_def)
  then have "ok" "can_write_collab casbin_std True ''w'' 7 ''c'' a' r' = (False, a', r')"
    using cached_read_denies_write [OF n e p] by simp_all
  with p show ?thesis by simp
qed

text \<open>
  A request for an access level is a request for exactly that level: it is granted only by a
  policy with the same level on the collab, so a user with full access is refused where reading
  and writing is asked for, and a workspace's owner, whose role grants every action, is refused
  the full access that deleting a collab requires.
\<close>

theorem access_level_is_exact:
  assumes "casbin_laws C" and "ac_inv a"
  shows "fst (collab_enforce_access_level C True w uid c l a) \<longleftrightarrow>
    level_policy uid c l \<in> set (ef_policies (ac_enforcer a))"
  unfolding collab_enforce_access_level_def by (rule enforce_level_iff [OF assms])

theorem access_level_is_exact_witness:
  "\<not> fst (collab_enforce_access_level casbin_std True ''w'' 7 ''c'' FullAccess (sample_ac [role_policy 7 ''w'' RoleOwner]))"
proof -
  have i: "ac_inv (sample_ac [role_policy 7 ''w'' RoleOwner])"
    by (rule sample_ac_inv) (auto simp: policies_wf_def)
  show ?thesis unfolding access_level_is_exact [OF casbin_laws_std i]
    by (simp add: sample_ac_def AFEnforcer_new_def role_policy_def level_policy_def)
qed

end
