(* ===== verification/Rt_Server_Inv.thy ===== *)
theory Rt_Server_Inv
  imports Rt_Server Access_Control
begin

text \<open>
  The invariant of the realtime server and what follows from it: which subscriptions a connection
  has and what ends them, who may change a document, and which groups the periodic check removes.
\<close>

section \<open>The invariant\<close>

text \<open>
  Of a group: it is stored under its own object id, no user is subscribed twice, a subscriber's tasks
  work for that user, object and workspace, and the group's table of devices names the subscriber, so
  that a device has at most one.  Of the server: a subscriber has an entry for the document in
  \<open>editing_collab_by_user\<close>, which is all that a disconnect looks at.
\<close>

definition sub_ok :: "string \<Rightarrow> string \<Rightarrow> RealtimeUserImpl \<Rightarrow> 'o subscriber \<Rightarrow> bool" where
  "sub_ok oid w u sb \<longleftrightarrow> sb_object_id sb = oid \<and> sb_workspace_id sb = w \<and> sb_uid sb = ru_uid u"

definition group_ok :: "(RealtimeUserImpl \<Rightarrow> bool) \<Rightarrow> string \<Rightarrow> ('d, 'o) CollabGroup \<Rightarrow> bool" where
  "group_ok P oid g \<longleftrightarrow> cg_object_id g = oid \<and> cb_object_id (cg_broadcast g) = oid \<and>
     distinct (map fst (cg_subscribers g)) \<and>
     (\<forall>u sb. map_of (cg_subscribers g) u = Some sb \<longrightarrow>
        P u \<and> sub_ok oid (cg_workspace_id g) u sb \<and> map_of (cg_user_by_user_device g) (user_device u) = Some u)"

definition edits :: "('d, 'o, 'e) RealtimeServer \<Rightarrow> string \<Rightarrow> RealtimeUserImpl \<Rightarrow> bool" where
  "edits s oid u \<longleftrightarrow> (\<exists>es. map_of (rs_editing s) u = Some es \<and> oid \<in> ed_object_id ` set es)"

definition groups_ok :: "(string \<Rightarrow> RealtimeUserImpl \<Rightarrow> bool) \<Rightarrow> ('d, 'o) groups \<Rightarrow> bool" where
  "groups_ok P gs \<longleftrightarrow> distinct (map fst gs) \<and> (\<forall>oid g. map_of gs oid = Some g \<longrightarrow> group_ok (P oid) oid g)"

definition server_inv :: "('d, 'o, 'e) RealtimeServer \<Rightarrow> bool" where
  "server_inv s \<longleftrightarrow> groups_ok (edits s) (rs_groups s)"

section \<open>Operations of a group keep it\<close>

definition sub_keep :: "('o subscriber \<Rightarrow> 'o subscriber) \<Rightarrow> bool" where
  "sub_keep f \<longleftrightarrow> (\<forall>sb. sb_object_id (f sb) = sb_object_id sb \<and> sb_workspace_id (f sb) = sb_workspace_id sb \<and>
     sb_uid (f sb) = sb_uid sb)"

lemma sub_keep_ok [simp]: "sub_keep f \<Longrightarrow> sub_ok oid w u (f sb) = sub_ok oid w u sb"
  by (simp add: sub_keep_def sub_ok_def)

lemma sub_keep_tasks [simp]:
  "sub_keep (forward_task D A)" "sub_keep broadcast_task" "sub_keep (\<lambda>sb. snd (client_sink_task A sb))"
  "sub_keep (push_broadcast ms)" "sub_keep (push_stream m)" "sub_keep stop_subscriber"
  "sub_keep (\<lambda>sb. sb\<lparr>sb_forwarding := v\<rparr>)" "sub_keep (\<lambda>sb. sb\<lparr>sb_broadcasting := v\<rparr>)"
  "sub_keep (\<lambda>sb. sb\<lparr>sb_stream := r, sb_client_sink := sb_client_sink sb @ rs\<rparr>)"
  by (auto simp: sub_keep_def forward_task_def broadcast_task_def client_sink_task_def push_broadcast_def
      push_stream_def stop_subscriber_def split: list.splits sum.splits)

lemma group_ok_mono: "group_ok P oid g \<Longrightarrow> (\<And>u. P u \<Longrightarrow> Q u) \<Longrightarrow> group_ok Q oid g"
  by (auto simp: group_ok_def)

lemma group_ok_adjust:
  "group_ok P oid g \<Longrightarrow> sub_keep f \<Longrightarrow> group_ok P oid (g\<lparr>cg_subscribers := map_adjust (cg_subscribers g) u f\<rparr>)"
  by (auto simp: group_ok_def map_lookup)

lemma group_ok_all:
  "group_ok P oid g \<Longrightarrow> sub_keep f \<Longrightarrow> group_ok P oid (g\<lparr>cg_subscribers := map_all (cg_subscribers g) f\<rparr>)"
  by (auto simp: group_ok_def map_lookup)

lemma group_ok_remove: "group_ok P oid g \<Longrightarrow> group_ok P oid (group_remove_user u g)"
  by (auto simp: group_ok_def group_remove_user_def map_lookup map_remove_distinct split: if_splits)

lemma group_ok_new: "group_ok P oid (CollabGroup_new now w oid t d)"
  by (simp add: group_ok_def CollabGroup_new_def CollabBroadcast_new_def)

lemma group_ok_subscribe:
  assumes "group_ok P oid g" and "P u" and "sub_ok oid (cg_workspace_id g) u sb"
  shows "group_ok P oid (group_subscribe u sb g)"
proof (cases "map_of (cg_user_by_user_device g) (user_device u)")
  case None
  have "user_device v \<noteq> user_device u" if "map_of (cg_subscribers g) v = Some sv" for v sv
    using assms(1) None that by (metis group_ok_def option.distinct(1))
  with assms None show ?thesis
    by (auto simp: group_ok_def group_subscribe_def Let_def map_lookup map_insert_distinct
        simp del: map_of_eq_Some_iff split: if_splits)
next
  case (Some old)
  have "map_of (cg_subscribers g) v = None" if "user_device v = user_device u" "v \<noteq> old" for v
    using assms(1) Some that by (metis group_ok_def not_None_eq option.inject)
  with assms Some show ?thesis
    by (auto simp: group_ok_def group_subscribe_def Let_def map_lookup map_insert_distinct map_remove_distinct
        simp del: map_of_eq_Some_iff split: if_splits)
qed

lemma group_handle_object_id:
  "group_handle Y L locked m gs = Some gs' \<Longrightarrow> cb_object_id (gs_broadcast gs') = cb_object_id (gs_broadcast gs)"
  by (auto simp: group_handle_def on_doc_updates_spec split: prod.splits)

lemma group_handle_all_object_id:
  "group_handle_all Y L locked ms gs = Some gs' \<Longrightarrow> cb_object_id (gs_broadcast gs') = cb_object_id (gs_broadcast gs)"
  by (induction ms arbitrary: gs) (auto simp: bind_eq_Some_conv group_handle_object_id)

lemma stream_task_object_id:
  "stream_task Y L locked m gs = Some gs' \<Longrightarrow> cb_object_id (gs_broadcast gs') = cb_object_id (gs_broadcast gs)"
  by (induction Y L locked m gs rule: stream_task.induct)
     (auto simp: bind_eq_Some_conv group_handle_all_object_id split: if_splits)

lemma group_ok_broadcast:
  "group_ok P oid g \<Longrightarrow> cb_object_id b = oid \<Longrightarrow> sub_keep f \<Longrightarrow>
     group_ok P oid (g\<lparr>cg_doc := d, cg_broadcast := b, cg_modified_at := t,
       cg_subscribers := map_all (map_adjust (cg_subscribers g) u f) (push_broadcast ms)\<rparr>)"
  by (auto simp: group_ok_def map_lookup simp del: map_of_eq_Some_iff split: if_splits)

lemma group_ok_stream:
  assumes "group_ok P oid g"
  shows "group_ok P oid (group_stream_task Y L locked now u g)"
proof (cases "map_of (cg_subscribers g) u")
  case (Some sb)
  show ?thesis
  proof (cases "sb_stream sb")
    case (Cons m rest)
    let ?gs = "\<lparr>gs_doc = cg_doc g, gs_broadcast = cg_broadcast g, gs_replies = [], gs_channel = []\<rparr>"
    show ?thesis
    proof (cases "stream_task Y L locked m ?gs")
      case (Some gs)
      have "cb_object_id (gs_broadcast gs) = oid"
        using stream_task_object_id [OF Some] assms by (simp add: group_ok_def)
      then show ?thesis
        unfolding group_stream_task_def \<open>map_of (cg_subscribers g) u = Some sb\<close> Cons option.case list.case Some
        by (intro group_ok_broadcast [OF assms]) simp_all
    qed (use assms \<open>map_of (cg_subscribers g) u = Some sb\<close> Cons in \<open>simp add: group_stream_task_def\<close>)
  qed (use assms Some in \<open>simp add: group_stream_task_def\<close>)
qed (use assms in \<open>simp add: group_stream_task_def\<close>)

lemma group_ok_awareness: "group_ok P oid g \<Longrightarrow> group_ok P oid (group_awareness Y D a g)"
  unfolding group_awareness_def by (rule group_ok_all) simp_all

section \<open>Operations of the server keep it\<close>

lemma groups_ok_mono:
  "groups_ok P gs \<Longrightarrow> (\<And>oid u. P oid u \<Longrightarrow> Q oid u) \<Longrightarrow> groups_ok Q gs"
  unfolding groups_ok_def by (blast intro: group_ok_mono)

lemma groups_ok_adjust:
  "groups_ok P gs \<Longrightarrow> (\<And>g. group_ok (P oid) oid g \<Longrightarrow> group_ok (P oid) oid (f g)) \<Longrightarrow> groups_ok P (map_adjust gs oid f)"
  by (auto simp: groups_ok_def map_lookup)

lemma groups_ok_insert:
  "groups_ok P gs \<Longrightarrow> group_ok (P oid) oid g \<Longrightarrow> groups_ok P (map_insert gs oid g)"
  by (auto simp: groups_ok_def map_lookup map_insert_distinct)

lemma groups_ok_map_all:
  "groups_ok P gs \<Longrightarrow> (\<And>oid g. group_ok (P oid) oid g \<Longrightarrow> group_ok (P oid) oid (f g)) \<Longrightarrow> groups_ok P (map_all gs f)"
  by (auto simp: groups_ok_def map_lookup)

lemma groups_ok_remove: "groups_ok P gs \<Longrightarrow> groups_ok P (map_remove gs oid)"
  by (auto simp: groups_ok_def map_lookup map_remove_distinct split: if_splits)

lemma groups_ok_remove_groups: "groups_ok P gs \<Longrightarrow> groups_ok P (fst (remove_groups ids gs))"
  by (induction ids arbitrary: gs)
     (auto simp: remove_group_def groups_ok_remove split: prod.splits option.splits, (metis fst_conv groups_ok_remove)+)

lemma group_remove_user_idem [simp]: "group_remove_user u (group_remove_user u g) = group_remove_user u g"
  by (simp add: group_remove_user_def map_remove_def)

lemma remove_from_groups_lookup:
  "map_of (remove_from_groups u es gs) oid =
     (if oid \<in> ed_object_id ` set es then map_option (group_remove_user u) (map_of gs oid) else map_of gs oid)"
proof (induction u es gs rule: remove_from_groups.induct)
  case (2 user editing es gs)
  from 2 show ?case by (auto simp: groups_remove_user_def map_lookup option.map_comp o_def)
qed simp

lemma remove_from_groups_keys [simp]: "map fst (remove_from_groups u es gs) = map fst gs"
  by (induction u es gs rule: remove_from_groups.induct) (simp_all add: groups_remove_user_def)

text \<open>The user is in no group once the documents of the editing table have been gone through.\<close>

lemma remove_user_groups:
  assumes "server_inv s" and "map_of (rs_groups (remove_user u s)) oid = Some g"
  shows "\<exists>g0. map_of (rs_groups s) oid = Some g0 \<and> g = (if edits s oid u then group_remove_user u g0 else g0) \<and>
    \<not> group_contains_user u g"
proof -
  obtain g0 where g0: "map_of (rs_groups s) oid = Some g0"
    "g = (if edits s oid u then group_remove_user u g0 else g0)"
    using assms(2) by (auto simp: remove_user_def Let_def edits_def remove_from_groups_lookup split: option.splits if_splits)
  have "group_ok (edits s oid) oid g0" using assms(1) g0(1) by (auto simp: server_inv_def groups_ok_def)
  then have "\<not> edits s oid u \<Longrightarrow> map_of (cg_subscribers g0) u = None"
    by (cases "map_of (cg_subscribers g0) u") (auto simp: group_ok_def)
  with g0 show ?thesis by (auto simp: group_contains_user_def group_remove_user_def map_lookup)
qed

lemma edits_remove_user: "edits (remove_user u s) oid v \<longleftrightarrow> edits s oid v \<and> v \<noteq> u"
  by (auto simp: edits_def remove_user_def Let_def map_lookup split: option.splits)

lemma server_inv_remove_user:
  assumes "server_inv s"
  shows "server_inv (remove_user u s)"
  unfolding server_inv_def groups_ok_def
proof (intro conjI allI impI)
  show "distinct (map fst (rs_groups (remove_user u s)))"
    using assms by (simp add: server_inv_def groups_ok_def remove_user_def Let_def split: option.splits)
  fix oid g assume "map_of (rs_groups (remove_user u s)) oid = Some g"
  from remove_user_groups [OF assms this] obtain g0 where g0: "map_of (rs_groups s) oid = Some g0"
    "g = (if edits s oid u then group_remove_user u g0 else g0)" "\<not> group_contains_user u g" by blast
  have "group_ok (edits s oid) oid g0" using assms g0(1) by (auto simp: server_inv_def groups_ok_def)
  then have "group_ok (edits s oid) oid g" using g0(2) by (simp add: group_ok_remove)
  then show "group_ok (edits (remove_user u s) oid) oid g"
    using g0(3) by (auto simp: group_ok_def edits_remove_user group_contains_user_def)
qed

text \<open>Only the groups and the editing table matter.\<close>

lemma edits_updates [simp]:
  "edits (s\<lparr>rs_groups := a\<rparr>) = edits s" "edits (s\<lparr>rs_user_by_device := b\<rparr>) = edits s"
  "edits (s\<lparr>rs_session_id_by_user := c\<rparr>) = edits s" "edits (s\<lparr>rs_client_stream := d\<rparr>) = edits s"
  "edits (s\<lparr>rs_group_sender := e\<rparr>) = edits s" "edits (s\<lparr>rs_runners := f\<rparr>) = edits s"
  "edits (s\<lparr>rs_sent := h\<rparr>) = edits s" "edits (s\<lparr>rs_flushed := i\<rparr>) = edits s" "edits (s\<lparr>rs_encoded := j\<rparr>) = edits s"
  by (simp_all add: edits_def fun_eq_iff)

lemma server_inv_updates [simp]:
  "server_inv (s\<lparr>rs_user_by_device := b\<rparr>) = server_inv s" "server_inv (s\<lparr>rs_session_id_by_user := c\<rparr>) = server_inv s"
  "server_inv (s\<lparr>rs_client_stream := d\<rparr>) = server_inv s" "server_inv (s\<lparr>rs_group_sender := e\<rparr>) = server_inv s"
  "server_inv (s\<lparr>rs_runners := f\<rparr>) = server_inv s" "server_inv (s\<lparr>rs_sent := h\<rparr>) = server_inv s"
  "server_inv (s\<lparr>rs_flushed := i\<rparr>) = server_inv s" "server_inv (s\<lparr>rs_encoded := j\<rparr>) = server_inv s"
  by (simp_all add: server_inv_def)

lemma server_inv_same:
  "rs_groups t = rs_groups s \<Longrightarrow> rs_editing t = rs_editing s \<Longrightarrow> server_inv t = server_inv s"
  by (simp add: server_inv_def edits_def [abs_def])

lemma server_inv_new: "server_inv RealtimeServer_new"
  by (simp add: server_inv_def groups_ok_def RealtimeServer_new_def)

lemma process_client_fields [simp]:
  "rs_groups (process_client_collab_message u oid ms s) = rs_groups s"
  "rs_editing (process_client_collab_message u oid ms s) = rs_editing s"
  "rs_client_stream (process_client_collab_message u oid ms s) = rs_client_stream s"
  by (simp_all add: process_client_collab_message_def send_command_def Let_def split: option.splits)

lemma process_messages_fields [simp]:
  "rs_groups (process_messages u m s) = rs_groups s" "rs_editing (process_messages u m s) = rs_editing s"
  by (induction u m s rule: process_messages.induct) simp_all

lemma stream_messages_fields [simp]:
  "rs_groups (stream_messages D uid d m s) = rs_groups s" "rs_editing (stream_messages D uid d m s) = rs_editing s"
  by (induction D uid d m s rule: stream_messages.induct) (simp_all add: Let_def split: option.splits)

lemma server_inv_connect: "server_inv s \<Longrightarrow> server_inv (handle_connect u i k s)"
  by (simp add: handle_connect_def Let_def server_inv_remove_user split: option.splits)

lemma server_inv_disconnect: "server_inv s \<Longrightarrow> server_inv (handle_disconnect u i s)"
  by (simp add: handle_disconnect_def Let_def server_inv_remove_user)

lemma server_inv_on_group:
  assumes "server_inv s" and "\<And>g. group_ok (edits s oid) oid g \<Longrightarrow> group_ok (edits s oid) oid (f g)"
  shows "server_inv (on_group oid f s)"
proof -
  have "edits (on_group oid f s) = edits s" by (simp add: on_group_def edits_def fun_eq_iff)
  then show ?thesis using assms by (simp add: server_inv_def on_group_def groups_ok_adjust)
qed

lemma server_inv_on_subscriber: "server_inv s \<Longrightarrow> sub_keep f \<Longrightarrow> server_inv (on_subscriber oid u f s)"
  unfolding on_subscriber_def by (rule server_inv_on_group) (auto intro: group_ok_adjust)

lemma edits_insert:
  "rs_editing t = map_insert (rs_editing s) u (List.insert e (case map_of (rs_editing s) u of Some es \<Rightarrow> es | None \<Rightarrow> [])) \<Longrightarrow>
     edits t oid v \<longleftrightarrow> edits s oid v \<or> (v = u \<and> oid = ed_object_id e)"
  by (auto simp: edits_def map_lookup split: option.splits if_splits)

lemma server_inv_subscribe:
  assumes "server_inv s"
  shows "server_inv (subscribe_group u m s)"
proof (cases "\<exists>cs g. map_of (rs_client_stream s) u = Some cs \<and> get_group (rs_groups s) (client_object_id m) = Some g \<and>
    \<not> group_contains_user u g")
  case True
  then obtain cs g where g: "map_of (rs_client_stream s) u = Some cs"
    "get_group (rs_groups s) (client_object_id m) = Some g" "\<not> group_contains_user u g" by blast
  let ?oid = "client_object_id m" and ?t = "subscribe_group u m s"
  let ?sub = "client_channel cs (cg_workspace_id g) (ru_uid u) ?oid (client_origin m)"
  have t: "rs_groups ?t = map_adjust (rs_groups s) ?oid (group_subscribe u ?sub)"
    "rs_editing ?t = map_insert (rs_editing s) u (List.insert \<lparr>ed_object_id = ?oid, ed_origin = client_origin m\<rparr>
       (case map_of (rs_editing s) u of Some es \<Rightarrow> es | None \<Rightarrow> []))"
    using g by (simp_all add: subscribe_group_def Let_def)
  have ed: "edits ?t x v \<longleftrightarrow> edits s x v \<or> (v = u \<and> x = ?oid)" for x v
    using edits_insert [OF t(2)] by simp
  have gs: "groups_ok (edits ?t) (rs_groups s)"
    using assms unfolding server_inv_def by (rule groups_ok_mono) (simp add: ed)
  have "group_ok (edits ?t x) x h" if "map_of (rs_groups ?t) x = Some h" for x h
  proof (cases "x = ?oid")
    case True
    have "group_ok (edits ?t ?oid) ?oid g" using gs g(2) by (simp add: groups_ok_def get_group_def)
    then have "group_ok (edits ?t ?oid) ?oid (group_subscribe u ?sub g)"
      by (rule group_ok_subscribe) (simp_all add: ed sub_ok_def client_channel_def)
    then show ?thesis using that True g(2) by (simp add: t(1) map_lookup get_group_def)
  next
    case False
    then show ?thesis using that gs by (simp add: t(1) map_lookup groups_ok_def)
  qed
  then show ?thesis using gs t(1) by (simp add: server_inv_def groups_ok_def)
next
  case False
  then have "subscribe_group u m s = s" by (auto simp: subscribe_group_def Let_def split: option.splits)
  with assms show ?thesis by simp
qed

lemma server_inv_broadcast_client: "server_inv s \<Longrightarrow> server_inv (broadcast_client_collab_message r u oid ms s)"
proof -
  assume s: "server_inv s"
  let ?t = "broadcast_client_collab_message r u oid ms s"
  have "edits ?t = edits s"
    by (simp add: broadcast_client_collab_message_def edits_def fun_eq_iff split: option.splits)
  then show ?thesis using s
    by (simp add: server_inv_def broadcast_client_collab_message_def split: option.splits)
       (auto intro!: groups_ok_map_all group_ok_adjust)
qed

lemma server_inv_create: "server_inv s \<Longrightarrow> runner_create_group E m s = Inr t \<Longrightarrow> server_inv t"
proof -
  assume s: "server_inv s" and t: "runner_create_group E m s = Inr t"
  have "edits t = edits s"
    using t by (auto simp: runner_create_group_def edits_def fun_eq_iff split: ClientCollabMessage.splits option.splits)
  with s t show ?thesis
    by (auto simp: server_inv_def runner_create_group_def create_group_def Let_def
        split: ClientCollabMessage.splits option.splits intro!: groups_ok_insert group_ok_new)
qed

lemma server_inv_rejoin: "server_inv s \<Longrightarrow> server_inv (s\<lparr>rs_groups := groups_remove_user (rs_groups s) oid u\<rparr>)"
  using server_inv_on_group [of s oid "group_remove_user u"] by (simp add: on_group_def groups_remove_user_def group_ok_remove)

lemma server_inv_handle:
  assumes "server_inv s" and "runner_handle_collab_message E u oid ms s = Inr t"
  shows "server_inv t"
proof -
  note inv = server_inv_broadcast_client server_inv_subscribe server_inv_rejoin
  have "server_inv (broadcast_client_collab_message r u oid ms (subscribe_group u m s1))"
    if "runner_create_group E m s = Inr s1" for r m s1
    using server_inv_create [OF assms(1) that] by (simp add: inv)
  then show ?thesis using assms
    by (auto simp: runner_handle_collab_message_def Let_def try_bind_Inr_iff inv split: list.splits if_splits)
qed

lemma server_inv_command: "server_inv s \<Longrightarrow> server_inv (run_command E c s)"
  by (simp add: run_command_def server_inv_handle split: GroupCommand.splits sum.splits)

lemma server_inv_tick: "server_inv s \<Longrightarrow> server_inv (server_tick d now s)"
proof -
  assume s: "server_inv s"
  have "edits (server_tick d now s) = edits s"
    by (simp add: server_tick_def groups_tick_def Let_def edits_def fun_eq_iff split: prod.splits)
  moreover have "rs_groups (server_tick d now s) = fst (remove_groups (inactive_loop d now [] (rs_groups s)) (rs_groups s))"
    by (simp add: server_tick_def groups_tick_def Let_def split: prod.splits)
  ultimately show ?thesis using s by (simp add: server_inv_def groups_ok_remove_groups)
qed

lemma server_inv_messages:
  "server_inv (handle_client_message D u m s) = server_inv s"
  "server_inv (handle_client_stream_message D uid d x s) = server_inv s"
  "server_inv (get_encode_collab oid r s) = server_inv s"
  by (simp_all add: handle_client_message_def handle_client_stream_message_def get_encode_collab_def send_command_def
      server_inv_same [of "process_messages _ _ _"] server_inv_same [of "stream_messages _ _ _ _ _"]
      split: sum.splits option.splits)

lemma server_inv_runner: "server_inv s \<Longrightarrow> server_inv (runner_next E i s)"
  by (simp add: runner_next_def server_inv_command split: list.splits)

lemma server_inv_step: "server_inv s \<Longrightarrow> server_inv (server_step E e s)"
  by (cases e)
     (simp_all add: server_inv_connect server_inv_disconnect server_inv_messages server_inv_runner server_inv_tick
       server_inv_on_subscriber server_inv_on_group group_ok_stream group_ok_awareness)

lemma server_reachable_inv: "server_reachable R s \<Longrightarrow> server_inv s"
  by (induction rule: server_reachable.induct) (simp_all add: server_inv_new server_inv_step)

section \<open>Lemmas of the properties\<close>

lemma access_loop_spec:
  "access_loop w r v i ms =
     (v @ filter (\<lambda>m. w \<or> client_is_init_sync m \<and> r) ms, i @ filter (\<lambda>m. \<not> (w \<or> client_is_init_sync m \<and> r)) ms)"
  by (induction w r v i ms rule: access_loop.induct) simp_all

lemma remove_user_fields [simp]:
  "rs_client_stream (remove_user u s) = rs_client_stream s" "rs_sent (remove_user u s) = rs_sent s"
  "rs_session_id_by_user (remove_user u s) = rs_session_id_by_user s" "rs_user_by_device (remove_user u s) = rs_user_by_device s"
  by (simp_all add: remove_user_def Let_def split: option.splits)

text \<open>The subscription of a user to a document.\<close>

definition subscriber_of :: "('d, 'o, 'e) RealtimeServer \<Rightarrow> string \<Rightarrow> RealtimeUserImpl \<Rightarrow> 'o subscriber option" where
  "subscriber_of s oid u = Option.bind (map_of (rs_groups s) oid) (\<lambda>g. map_of (cg_subscribers g) u)"

lemma subscriber_of_remove_user:
  assumes "server_inv s"
  shows "subscriber_of (remove_user u s) oid v = (if v = u then None else subscriber_of s oid v)"
proof (cases "map_of (rs_groups (remove_user u s)) oid")
  case (Some g)
  from remove_user_groups [OF assms this] Some show ?thesis
    by (auto simp: subscriber_of_def group_contains_user_def group_remove_user_def map_lookup split: if_splits)
next
  case None
  then have "map_of (rs_groups s) oid = None"
    by (auto simp: remove_user_def Let_def remove_from_groups_lookup split: option.splits if_splits)
  with None show ?thesis by (simp add: subscriber_of_def)
qed

lemma subscriber_of_client_stream [simp]:
  "subscriber_of (s\<lparr>rs_client_stream := x\<rparr>) = subscriber_of s" "subscriber_of (s\<lparr>rs_sent := y\<rparr>) = subscriber_of s"
  "subscriber_of (s\<lparr>rs_user_by_device := z\<rparr>) = subscriber_of s" "subscriber_of (s\<lparr>rs_session_id_by_user := w\<rparr>) = subscriber_of s"
  by (simp_all add: subscriber_of_def fun_eq_iff)

lemma inactive_loop_idle:
  "oid \<in> set (inactive_loop d now ids gs) \<Longrightarrow> oid \<in> set ids \<or> (\<exists>g. (oid, g) \<in> set gs \<and> is_inactive d now g)"
  by (induction d now ids gs rule: inactive_loop.induct) (fastforce simp: Let_def split: if_splits)+

lemma inactive_loop_length: "length ids \<le> 5 \<Longrightarrow> length (inactive_loop d now ids gs) \<le> 6"
  by (induction d now ids gs rule: inactive_loop.induct) (auto simp: Let_def)

lemma remove_groups_Cons:
  "fst (remove_groups (x # ids) gs) = fst (remove_groups ids (fst (remove_group gs x)))"
  "snd (remove_groups (x # ids) gs) = snd (remove_group gs x) @ snd (remove_groups ids (fst (remove_group gs x)))"
  by (simp_all split: prod.splits)

lemma remove_group_lookup: "map_of (fst (remove_group gs x)) = (map_of gs)(x := None)"
  by (auto simp: remove_group_def map_lookup fun_eq_iff split: option.splits)

lemma remove_groups_lookup:
  "map_of (fst (remove_groups ids gs)) oid = (if oid \<in> set ids then None else map_of gs oid)"
  by (induction ids arbitrary: gs) (simp_all add: remove_groups_Cons remove_group_lookup del: remove_groups.simps(2))

lemma remove_groups_flushed:
  "oid \<in> set ids \<Longrightarrow> map_of gs oid = Some g \<Longrightarrow> (oid, cg_doc g) \<in> set (snd (remove_groups ids gs))"
proof (induction ids arbitrary: gs)
  case (Cons x ids)
  show ?case
  proof (cases "oid = x")
    case True
    then have "snd (remove_group gs x) = [(oid, cg_doc g)]"
      using Cons.prems by (simp add: remove_group_def group_stop_def)
    then show ?thesis unfolding remove_groups_Cons by simp
  next
    case False
    then have "(oid, cg_doc g) \<in> set (snd (remove_groups ids (fst (remove_group gs x))))"
      using Cons by (simp add: remove_group_lookup)
    then show ?thesis unfolding remove_groups_Cons by simp
  qed
qed simp

lemma foldl_map_remove: "map_of (foldl map_remove m ks) k = (if k \<in> set ks then None else map_of m k)"
  by (induction ks arbitrary: m) (auto simp: map_lookup)

section \<open>A sample server\<close>

text \<open>
  One user who may only read, with a subscription to a document; it serves the witnesses.
\<close>

definition sample_user :: "int \<Rightarrow> RealtimeUserImpl" where
  "sample_user t = \<lparr>ru_uid = 7, ru_device_id = ''d'', ru_timestamp = t\<rparr>"

definition sample_env :: "(bytes, bytes, bytes, bytes, nat, bytes) rt_env" where
  "sample_env =
     \<lparr>ev_yrs = lib0, ev_lib = op_lib,
      ev_origin = \<lparr>client_user_id = (\<lambda>o1. Some 7), client_device_id = (\<lambda>o1. Some ''d''), server_origin = 0\<rparr>,
      ev_encode = (\<lambda>d. d), ev_debug = True, ev_now = 100,
      ev_access = \<lparr>ra_can_write = (\<lambda>w u c. Inr False), ra_can_read = (\<lambda>w u c. Inr True)\<rparr>,
      ev_locked = (\<lambda>n. True), ev_init = (\<lambda>u w c t. [5]), ev_old_receivers = False\<rparr>"

definition sample_init :: "bytes \<Rightarrow> (nat, CollabType) InitSync" where
  "sample_init payload = InitSync_new 1 ''o'' Document ''w'' 0 payload"

definition sample_server :: "bytes \<Rightarrow> (bytes, nat, bytes) RealtimeServer" where
  "sample_server payload =
     server_step sample_env (EvRunner 0)
       (server_step sample_env (EvClientMessage (sample_user 1) (RM_ClientCollabV2 [(''o'', [CC_InitSync (sample_init payload)])]))
         (server_step sample_env (EvConnect (sample_user 1) ''s'' 3) RealtimeServer_new))"

lemma sample_reachable: "server_reachable (\<lambda>E. E = sample_env) (sample_server p)"
  unfolding sample_server_def by (intro server_next server_init) simp_all

definition sample_sub :: "bytes \<Rightarrow> nat subscriber" where
  "sample_sub p = (client_channel \<lparr>ccs_sink = 3\<rparr> ''w'' 7 ''o'' 1)
     \<lparr>sb_stream_rx := [RM_ClientCollabV2 [(''o'', [CC_InitSync (sample_init p)])]]\<rparr>"

lemma sample_server_simps:
  "map_of (rs_client_stream (sample_server p)) = [sample_user 1 \<mapsto> \<lparr>ccs_sink = 3\<rparr>]"
  "map_of (rs_session_id_by_user (sample_server p)) = [sample_user 1 \<mapsto> ''s'']"
  "map_of (rs_user_by_device (sample_server p)) = [UserDevice_from (sample_user 1) \<mapsto> sample_user 1]"
  "rs_groups (sample_server p) =
     [(''o'', (CollabGroup_new 100 ''w'' ''o'' Document [5])\<lparr>cg_subscribers := [(sample_user 1, sample_sub p)],
         cg_user_by_user_device := [(user_device (sample_user 1), sample_user 1)]\<rparr>)]"
  by (simp_all add: sample_server_def handle_connect_def handle_client_message_def process_client_collab_message_def
      send_command_def runner_next_def run_command_def runner_handle_collab_message_def runner_create_group_def
      create_group_def subscribe_group_def broadcast_client_collab_message_def RealtimeServer_new_def Let_def
      contains_group_def get_group_def sample_init_def InitSync_new_def sample_env_def CollabGroup_new_def
      group_contains_user_def map_adjust_def map_remove_def group_subscribe_def has_receiver_def client_channel_def
      map_all_def push_stream_def sample_sub_def sample_user_def)

section \<open>Properties\<close>

text \<open>
  C3: Whatever the order of connections, messages, commands and task steps, a subscriber of a group
  has the document among those the server will go through when its connection ends, its tasks ask
  the access control about the group's own document and workspace and the connection's own user,
  and no two subscribers of a group share a user id and a device.
\<close>

theorem subscribers_consistent:
  assumes "server_reachable R s" and "map_of (rs_groups s) oid = Some g"
    and "map_of (cg_subscribers g) u = Some sb"
  shows "edits s oid u \<and> sb_object_id sb = oid \<and> sb_workspace_id sb = cg_workspace_id g \<and> sb_uid sb = ru_uid u \<and>
    (\<forall>v. map_of (cg_subscribers g) v \<noteq> None \<and> user_device v = user_device u \<longrightarrow> v = u)"
proof -
  have "group_ok (edits s oid) oid g"
    using server_reachable_inv [OF assms(1)] assms(2) by (simp add: server_inv_def groups_ok_def)
  then show ?thesis
    using assms(3) unfolding group_ok_def sub_ok_def by (metis not_None_eq option.inject)
qed

theorem subscribers_consistent_witness:
  "edits (sample_server []) ''o'' (sample_user 1) \<and> sb_uid (sample_sub []) = 7"
proof -
  have "\<exists>g. map_of (rs_groups (sample_server [])) ''o'' = Some g \<and>
      map_of (cg_subscribers g) (sample_user 1) = Some (sample_sub [])"
    by (simp add: sample_server_simps CollabGroup_new_def)
  then obtain g where g: "map_of (rs_groups (sample_server [])) ''o'' = Some g"
    "map_of (cg_subscribers g) (sample_user 1) = Some (sample_sub [])" by blast
  from subscribers_consistent [OF sample_reachable g] show ?thesis by (simp add: sample_user_def)
qed

text \<open>
  When a connection ends with its current session (or one the server does not know), the user is in
  no group and has no stream any more, and no other connection loses its stream or a subscription.
\<close>

theorem disconnect_leaves_groups:
  assumes "server_reachable R s" and "map_of (rs_session_id_by_user s) u \<in> {None, Some i}"
  shows "subscriber_of (server_step E (EvDisconnect u i) s) oid v = (if v = u then None else subscriber_of s oid v) \<and>
    map_of (rs_client_stream (server_step E (EvDisconnect u i) s)) v =
      (if v = u then None else map_of (rs_client_stream s) v)"
  using assms(2)
  by (auto simp: handle_disconnect_def Let_def subscriber_of_remove_user [OF server_reachable_inv [OF assms(1)]] map_lookup)

theorem disconnect_leaves_groups_witness:
  "subscriber_of (server_step sample_env (EvDisconnect (sample_user 1) ''s'') (sample_server [])) ''o'' (sample_user 1) = None \<and>
   subscriber_of (sample_server []) ''o'' (sample_user 1) \<noteq> None"
proof -
  have "map_of (rs_session_id_by_user (sample_server [])) (sample_user 1) \<in> {None, Some ''s''}"
    by (simp add: sample_server_simps)
  from disconnect_leaves_groups [OF sample_reachable this, of sample_env "''o''" "sample_user 1"] show ?thesis
    by (simp add: subscriber_of_def sample_server_simps)
qed

text \<open>
  The end of an old connection does not disturb the current one: if the server holds session \<open>j\<close> for
  user \<open>v\<close>, a disconnect of any other user or any other session leaves \<open>v\<close>'s stream and
  subscriptions as they are.
\<close>

theorem stale_disconnect_harmless:
  assumes "server_reachable R s" and "map_of (rs_session_id_by_user s) v = Some j" and "(u, i) \<noteq> (v, j)"
  shows "subscriber_of (server_step E (EvDisconnect u i) s) oid v = subscriber_of s oid v \<and>
    map_of (rs_client_stream (server_step E (EvDisconnect u i) s)) v = map_of (rs_client_stream s) v"
  using assms(2,3)
  by (auto simp: handle_disconnect_def Let_def subscriber_of_remove_user [OF server_reachable_inv [OF assms(1)]] map_lookup)

theorem stale_disconnect_harmless_witness:
  "subscriber_of (server_step sample_env (EvDisconnect (sample_user 0) ''r'') (sample_server [])) ''o'' (sample_user 1) =
     Some (sample_sub [])"
proof -
  have "map_of (rs_session_id_by_user (sample_server [])) (sample_user 1) = Some ''s''" by (simp add: sample_server_simps)
  from stale_disconnect_harmless [OF sample_reachable this, of "sample_user 0" "''r''" sample_env "''o''"] show ?thesis
    by (simp add: subscriber_of_def sample_server_simps)
qed

text \<open>
  A new connection takes over its device: the connection that held the device before is in no group
  afterwards, has lost its stream and has been told so, and the new one holds the session and stream.
\<close>

theorem connect_replaces:
  assumes "server_reachable R s" and "map_of (rs_user_by_device s) (UserDevice_from u) = Some old"
    and "map_of (rs_client_stream s) old = Some old_stream" and "old \<noteq> u"
  shows "let t = server_step E (EvConnect u i k) s in
    subscriber_of t oid old = None \<and> map_of (rs_client_stream t) old = None \<and>
    (ccs_sink old_stream, RM_System DuplicateConnection) \<in> set (rs_sent t) \<and>
    map_of (rs_client_stream t) u = Some \<lparr>ccs_sink = k\<rparr> \<and> map_of (rs_session_id_by_user t) u = Some i \<and>
    map_of (rs_user_by_device t) (UserDevice_from u) = Some u"
proof -
  have "server_inv (s\<lparr>rs_session_id_by_user := a, rs_user_by_device := b, rs_client_stream := c, rs_sent := d\<rparr>)" for a b c d
    using server_reachable_inv [OF assms(1)] by simp
  from subscriber_of_remove_user [OF this, of old] show ?thesis
    using assms(2-4) by (simp add: handle_connect_def Let_def map_lookup)
qed

theorem connect_replaces_witness:
  "map_of (rs_client_stream (server_step sample_env (EvConnect (sample_user 2) ''t'' 4) (sample_server []))) (sample_user 1) = None"
proof -
  have "UserDevice_from (sample_user 2) = UserDevice_from (sample_user 1)" and n: "sample_user 1 \<noteq> sample_user 2"
    by (simp_all add: UserDevice_from_def sample_user_def)
  then have "map_of (rs_user_by_device (sample_server [])) (UserDevice_from (sample_user 2)) = Some (sample_user 1)"
    by (simp add: sample_server_simps)
  moreover have "map_of (rs_client_stream (sample_server [])) (sample_user 1) = Some \<lparr>ccs_sink = 3\<rparr>"
    by (simp add: sample_server_simps)
  ultimately show ?thesis
    using connect_replaces [OF sample_reachable _ _ n, of "[]" "\<lparr>ccs_sink = 3\<rparr>" sample_env "''t''" 4] by (simp add: Let_def)
qed

text \<open>
  The periodic check removes at most six groups, each of them without subscribers and idle for longer
  than its type allows, hands the document of each to the storage, and leaves every other group alone.
\<close>

theorem tick_removes_idle:
  assumes "server_reachable R s" and "map_of (rs_groups s) oid = Some g"
  shows "let ids = inactive_loop (ev_debug E) (ev_now E) [] (rs_groups s); t = server_step E EvTick s in
    length ids \<le> 6 \<and>
    (if oid \<in> set ids
     then cg_subscribers g = [] \<and> is_inactive (ev_debug E) (ev_now E) g \<and> map_of (rs_groups t) oid = None \<and>
       map_of (rs_group_sender t) oid = None \<and> (oid, cg_doc g) \<in> set (rs_flushed t)
     else map_of (rs_groups t) oid = Some g \<and> map_of (rs_group_sender t) oid = map_of (rs_group_sender s) oid)"
proof -
  let ?ids = "inactive_loop (ev_debug E) (ev_now E) [] (rs_groups s)"
  have d: "distinct (map fst (rs_groups s))"
    using server_reachable_inv [OF assms(1)] by (simp add: server_inv_def groups_ok_def)
  have i: "is_inactive (ev_debug E) (ev_now E) g" if "oid \<in> set ?ids"
    using inactive_loop_idle [OF that] eq_key_imp_eq_value [OF d map_of_SomeD [OF assms(2)]] by auto
  then have e: "cg_subscribers g = []" if "oid \<in> set ?ids"
    using that by (auto simp: is_inactive_def split: if_splits)
  have t: "rs_groups (server_step E EvTick s) = fst (remove_groups ?ids (rs_groups s))"
    "rs_group_sender (server_step E EvTick s) = foldl map_remove (rs_group_sender s) ?ids"
    "rs_flushed (server_step E EvTick s) = rs_flushed s @ snd (remove_groups ?ids (rs_groups s))"
    by (simp_all add: server_tick_def groups_tick_def Let_def split: prod.splits)
  show ?thesis
    unfolding Let_def t foldl_map_remove remove_groups_lookup
    using inactive_loop_length [of "[]"] i e remove_groups_flushed [OF _ assms(2)] assms(2) by simp
qed

theorem tick_removes_idle_witness:
  "map_of (rs_groups (server_step sample_env EvTick (sample_server []))) ''o'' \<noteq> None"
proof -
  obtain g where g: "map_of (rs_groups (sample_server [])) ''o'' = Some g"
    "cg_subscribers g \<noteq> []" by (simp add: sample_server_simps)
  from tick_removes_idle [OF sample_reachable g(1), of sample_env] g(2) show ?thesis
    by (auto simp: Let_def split: if_splits)
qed

end
