(* ===== verification/Rt_Access.thy ===== *)
theory Rt_Access
  imports Rt_Server_Inv
begin

text \<open>
  Who may read and change a document through the realtime server: what the forwarding task lets
  through, what that means for a user who may only read, and which workspace the server asks about.
\<close>

section \<open>The forwarding task\<close>

definition lets_through :: "rt_access \<Rightarrow> 'o subscriber \<Rightarrow> ('o, 't) ClientCollabMessage \<Rightarrow> bool" where
  "lets_through A sb m \<longleftrightarrow>
     unwrap_or_false (ra_can_write A (sb_workspace_id sb) (sb_uid sb) (sb_object_id sb)) \<or>
     (client_is_init_sync m \<and> unwrap_or_false (ra_can_read A (sb_workspace_id sb) (sb_uid sb) (sb_object_id sb)))"

lemma access_control_spec:
  "sb_object_id sb = oid \<Longrightarrow>
     access_control A (sb_workspace_id sb) (sb_uid sb) oid ms =
       (filter (lets_through A sb) ms, filter (\<lambda>m. \<not> lets_through A sb m) ms)"
  by (auto simp: access_control_def access_loop_spec Let_def lets_through_def intro!: filter_cong)

lemma lets_through_init [simp]:
  "ra_can_read A (sb_workspace_id sb) (sb_uid sb) (sb_object_id sb) = Inr True \<Longrightarrow> lets_through A sb (CC_InitSync d)"
  by (simp add: lets_through_def unwrap_or_false_def)

text \<open>What one step of the tasks does to a group and its subscriber.\<close>

lemma on_subscriber_lookup:
  "map_of (rs_groups s) oid = Some g \<Longrightarrow>
     map_of (rs_groups (on_subscriber oid u f s)) oid = Some (g\<lparr>cg_subscribers := map_adjust (cg_subscribers g) u f\<rparr>)"
  by (simp add: on_subscriber_def on_group_def map_lookup)

lemma map_adjust_id [simp]: "map_adjust m k id = m"
  by (induction m) (auto simp: map_adjust_def)

lemma broadcast_client_groups:
  assumes "map_of (rs_groups s) oid = Some g"
  shows "\<exists>f. sub_keep f \<and> map_of (rs_groups (broadcast_client_collab_message r u oid' ms s)) oid =
    Some (g\<lparr>cg_subscribers := map_adjust (cg_subscribers g) u f\<rparr>)"
proof (cases "map_of (rs_client_stream s) u \<noteq> None \<and> (has_receiver u (rs_groups s) \<or> r)")
  case True
  then show ?thesis using assms
    by (intro exI [of _ "push_stream (RM_ClientCollabV2 [(oid', ms)])"])
       (auto simp: broadcast_client_collab_message_def map_lookup)
next
  case False
  then show ?thesis using assms
    by (intro exI [of _ id]) (auto simp: broadcast_client_collab_message_def sub_keep_def split: option.splits)
qed

lemma group_subscribe_lookup [simp]:
  "map_of (cg_subscribers (group_subscribe u sub g)) u = Some sub" "cg_doc (group_subscribe u sub g) = cg_doc g"
  by (simp_all add: group_subscribe_def Let_def map_lookup)

lemma handle_update_ok:
  assumes "yrs_laws Y" and "cl_update_decode L upd = Inr x" and "cl_write_txn L d (client_origin m) = None"
    and "cl_apply L (client_origin m) d x = (None, d', ev)" and "client_payload m = message_encode Y (Sync (Update upd))"
  shows "\<exists>acks. handle_client_collab_message Y L oid (\<lambda>_. True) m d = Some (acks, d', ev)"
  unfolding handle_client_collab_message_def assms(5) read_all_encode1 [OF assms(1)] option.map
  by (simp add: assms handle_update_def handle_sync_step2_def Let_def)

section \<open>Properties\<close>

text \<open>
  Of a value of the client's stream, the group gets the entries for its own document, each with
  exactly the messages the access control lets through, in order, and never an empty entry: every
  message if the user may write, the init syncs alone if the user may only read, and nothing else.
  An error of the access control counts as a refusal.
\<close>

theorem forwarded_messages:
  "forward_loop A sb m =
     map (\<lambda>(oid, ms). [(oid, filter (lets_through A sb) ms)])
       (filter (\<lambda>(oid, ms). oid = sb_object_id sb \<and> filter (lets_through A sb) ms \<noteq> []) m)"
  by (induction A sb m rule: forward_loop.induct) (auto simp: access_control_spec [OF refl])

text \<open>
  C19: A user who may not write can still change the document.  The forwarding task looks at the kind of
  a message and lets an init sync through for anyone who may read, while the group executes whatever
  the payload holds: an init sync that carries an update is applied.
\<close>

theorem read_only_user_writes:
  assumes "server_reachable R s" and "map_of (rs_groups s) oid = Some g"
    and "map_of (cg_subscribers g) u = Some sb"
    and "sb_forwarding sb" and "sb_stream sb = []"
    and "sb_stream_rx sb = [RM_ClientCollabV2 [(oid, [CC_InitSync data])]]"
    and "ra_can_write (ev_access E) (cg_workspace_id g) (ru_uid u) oid = Inr False"
    and "ra_can_read (ev_access E) (cg_workspace_id g) (ru_uid u) oid = Inr True"
    and "yrs_laws (ev_yrs E)" and "is_payload data = message_encode (ev_yrs E) (Sync (Update upd))"
    and "cl_update_decode (ev_lib E) upd = Inr x" and "cl_write_txn (ev_lib E) (cg_doc g) (is_origin data) = None"
    and "cl_apply (ev_lib E) (is_origin data) (cg_doc g) x = (None, d', ev)" and "ev_locked E = (\<lambda>_. True)"
  shows "map_option cg_doc (map_of (rs_groups (server_step E (EvStream oid u) (server_step E (EvForward oid u) s))) oid) =
    Some d'"
proof -
  have g: "group_ok (edits s oid) oid g"
    using server_reachable_inv [OF assms(1)] assms(2) by (simp add: server_inv_def groups_ok_def)
  then have sb: "sb_object_id sb = oid" "sb_workspace_id sb = cg_workspace_id g" "sb_uid sb = ru_uid u"
    and b: "cb_object_id (cg_broadcast g) = oid"
    using assms(3) by (auto simp: group_ok_def sub_ok_def)
  let ?sb = "forward_task (ev_origin E) (ev_access E) sb"
  let ?g = "g\<lparr>cg_subscribers := map_adjust (cg_subscribers g) u (forward_task (ev_origin E) (ev_access E))\<rparr>"
  let ?gs = "\<lparr>gs_doc = cg_doc g, gs_broadcast = cg_broadcast g, gs_replies = [], gs_channel = []\<rparr>"
  have "lets_through (ev_access E) sb (CC_InitSync data)" by (rule lets_through_init) (simp add: sb assms(8))
  then have f: "sb_stream ?sb = [[(oid, [CC_InitSync data])]]"
    unfolding forward_task_def using assms(4-6) sb by (simp add: forwarded_messages)
  have s1: "map_of (rs_groups (server_step E (EvForward oid u) s)) oid = Some ?g"
    using on_subscriber_lookup [OF assms(2)] by simp
  have "\<exists>acks. handle_client_collab_message (ev_yrs E) (ev_lib E) oid (ev_locked E) (CC_InitSync data) (cg_doc g) = Some (acks, d', ev)"
    unfolding assms(14) by (rule handle_update_ok) (use assms(9-13) in simp_all)
  then obtain acks where h: "handle_client_collab_message (ev_yrs E) (ev_lib E) oid (ev_locked E) (CC_InitSync data) (cg_doc g) =
      Some (acks, d', ev)" ..
  have "map_option gs_doc (stream_task (ev_yrs E) (ev_lib E) (ev_locked E) [(oid, [CC_InitSync data])] ?gs) = Some d'"
    by (simp add: b group_handle_def h split: prod.splits)
  then have "cg_doc (group_stream_task (ev_yrs E) (ev_lib E) (ev_locked E) (ev_now E) u ?g) = d'"
    by (auto simp: group_stream_task_def map_lookup assms(3) f)
  then show ?thesis by (simp add: on_group_def map_lookup s1 [simplified])
qed

theorem read_only_user_writes_witness:
  "let p = message_encode lib0 (Sync (Update [9])); s = sample_server p in
   ra_can_write (ev_access sample_env) ''w'' 7 ''o'' = Inr False \<and>
   map_option cg_doc (map_of (rs_groups s) ''o'') = Some [5] \<and>
   map_option cg_doc (map_of (rs_groups (server_step sample_env (EvStream ''o'' (sample_user 1))
     (server_step sample_env (EvForward ''o'' (sample_user 1)) s))) ''o'') = Some [5, 9]"
proof -
  let ?p = "message_encode lib0 (Sync (Update [9]))"
  obtain g where g: "map_of (rs_groups (sample_server ?p)) ''o'' = Some g" "cg_doc g = [5]" "cg_workspace_id g = ''w''"
    "map_of (cg_subscribers g) (sample_user 1) = Some (sample_sub ?p)"
    by (simp add: sample_server_simps CollabGroup_new_def)
  have "map_option cg_doc (map_of (rs_groups (server_step sample_env (EvStream ''o'' (sample_user 1))
     (server_step sample_env (EvForward ''o'' (sample_user 1)) (sample_server ?p)))) ''o'') = Some ([5] @ [9])"
    by (rule read_only_user_writes [OF sample_reachable g(1) g(4), where data = "sample_init ?p" and upd = "[9]" and x = "[9]" and ev = "[[9]]"])
       (simp_all add: sample_sub_def client_channel_def sample_env_def g sample_init_def InitSync_new_def
         yrs_laws_lib0 op_lib_def)
  then show ?thesis using g by (simp add: Let_def sample_env_def)
qed

text \<open>
  The workspace of a document is whatever the first client says.  An init sync for a document without
  a group creates one with the workspace named in the message, loads the document, and the tasks of the
  subscriber ask the access control about that workspace: a role in any workspace, named together with
  the id of a document of another one, is enough for every action the role permits.
\<close>

theorem workspace_named_by_client:
  assumes "map_of (rs_client_stream s) u = Some cs" and "map_of (rs_groups s) (is_object_id data) = None"
    and "client_user_id (ev_origin E) (is_origin data) = Some owner"
    and "casbin_laws C" and "ac_inv a" and "role_policy (ru_uid u) (is_workspace_id data) r \<in> set (ef_policies (ac_enforcer a))"
    and "role_permits r act"
  shows "\<exists>g sb. map_of (rs_groups (run_command E (HandleClientCollabMessage u (is_object_id data) [CC_InitSync data]) s)) (is_object_id data) = Some g \<and>
    cg_doc g = ev_init E owner (is_workspace_id data) (is_object_id data) (is_collab_type data) \<and>
    map_of (cg_subscribers g) u = Some sb \<and>
    fst (ac_enforce C True (sb_workspace_id sb) (sb_uid sb) (CollabObj (sb_object_id sb)) (FromAction act) a)"
proof -
  let ?oid = "is_object_id data"
  let ?g0 = "CollabGroup_new (ev_now E) (is_workspace_id data) ?oid (is_collab_type data)
      (ev_init E owner (is_workspace_id data) ?oid (is_collab_type data)) :: ('a, 'b) CollabGroup"
  let ?s1 = "s\<lparr>rs_groups := map_insert (rs_groups s) ?oid ?g0\<rparr>"
  let ?sub = "client_channel cs (is_workspace_id data) (ru_uid u) ?oid (is_origin data)"
  have c: "runner_create_group E (CC_InitSync data) s = Inr ?s1"
    using assms(3) by (simp add: runner_create_group_def create_group_def Let_def)
  let ?s2 = "subscribe_group u (CC_InitSync data) ?s1"
  have g2: "map_of (rs_groups ?s2) ?oid = Some (group_subscribe u ?sub ?g0)"
    and c2: "map_of (rs_client_stream ?s2) u = Some cs"
    using assms(1) by (simp_all add: subscribe_group_def Let_def get_group_def map_lookup group_contains_user_def CollabGroup_new_def)
  let ?t = "run_command E (HandleClientCollabMessage u ?oid [CC_InitSync data]) s"
  have t: "?t = broadcast_client_collab_message (ev_old_receivers E) u ?oid [CC_InitSync data] ?s2"
    using assms(1,2) c by (simp add: run_command_def runner_handle_collab_message_def contains_group_def Let_def)
  let ?g1 = "group_subscribe u ?sub ?g0"
  obtain f where f: "sub_keep f"
    "map_of (rs_groups ?t) ?oid = Some (?g1\<lparr>cg_subscribers := map_adjust (cg_subscribers ?g1) u f\<rparr>)" (is "_ = Some ?g2")
    unfolding t using broadcast_client_groups [OF g2] by blast
  have "cg_doc ?g2 = cg_doc ?g0 \<and> map_of (cg_subscribers ?g2) u = Some (f ?sub)"
    by (simp add: map_lookup)
  moreover have "sb_workspace_id (f ?sub) = is_workspace_id data \<and> sb_uid (f ?sub) = ru_uid u \<and> sb_object_id (f ?sub) = ?oid"
    using f(1) by (simp add: sub_keep_def client_channel_def)
  ultimately have "\<exists>g sb. map_of (rs_groups ?t) ?oid = Some g \<and> cg_doc g = cg_doc ?g0 \<and> map_of (cg_subscribers g) u = Some sb \<and>
      sb_workspace_id sb = is_workspace_id data \<and> sb_uid sb = ru_uid u \<and> sb_object_id sb = ?oid"
    using f(2) by blast
  moreover have "fst (ac_enforce C True (is_workspace_id data) (ru_uid u) (CollabObj ?oid) (FromAction act) a)"
    unfolding enforce_action_iff(1) [OF assms(4,5)] using assms(6,7) by blast
  ultimately show ?thesis by (auto simp: CollabGroup_new_def)
qed

theorem workspace_named_by_client_witness:
  "\<exists>g sb. map_of (rs_groups (run_command sample_env (HandleClientCollabMessage (sample_user 1) ''o'' [CC_InitSync (sample_init [])])
        (RealtimeServer_new\<lparr>rs_client_stream := [(sample_user 1, \<lparr>ccs_sink = 3\<rparr>)]\<rparr>))) ''o'' = Some g \<and> cg_doc g = [5] \<and>
     map_of (cg_subscribers g) (sample_user 1) = Some sb \<and>
     fst (ac_enforce casbin_std True (sb_workspace_id sb) (sb_uid sb) (CollabObj (sb_object_id sb)) (FromAction ActWrite)
       (sample_ac [role_policy 7 ''w'' RoleMember]))"
proof -
  let ?a = "sample_ac [role_policy 7 ''w'' RoleMember]"
  have i: "ac_inv ?a" by (rule sample_ac_inv) (auto simp: policies_wf_def)
  show ?thesis
    using workspace_named_by_client [OF _ _ _ casbin_laws_std i, where u = "sample_user 1" and data = "sample_init []" and
        act = ActWrite and r = RoleMember and owner = 7 and E = sample_env and cs = "\<lparr>ccs_sink = 3\<rparr>" and
        s = "RealtimeServer_new\<lparr>rs_client_stream := [(sample_user 1, \<lparr>ccs_sink = 3\<rparr>)]\<rparr>"]
    by (simp add: sample_init_def InitSync_new_def sample_env_def sample_user_def RealtimeServer_new_def
        sample_ac_def AFEnforcer_new_def)
qed

end
