(* ===== verification/App_Error.thy ===== *)
theory App_Error
  imports Prelude
begin

text \<open>
  The error type of the whole program and its numeric codes (\<open>lib/app-error/src/lib.rs\<close>, \<open>gotrue.rs\<close>), and
  the envelope every http answer comes in (\<open>lib/shared-entity/src/response.rs\<close>).

  An error of another crate is its message.  What the code asks of a \<open>reqwest\<close> error is a record;
  Rust's \<open>Debug\<close> text of an optional string is an argument.  All features are on.
\<close>

section \<open>\<open>AppError\<close> and \<open>ErrorCode\<close>\<close>

datatype AppError =
    AE_Ok
  | AE_Internal string
  | AE_Unhandled string
  | AE_RecordNotFound string
  | AE_RecordAlreadyExists string
  | AE_InvalidEmail string
  | AE_InvalidPassword string
  | AE_OAuthError string
  | AE_UserUnAuthorized string
  | AE_UserAlreadyRegistered string
  | AE_MissingPayload string
  | AE_DBError string
  | AE_OpenError string
  | AE_InvalidRequest string
  | AE_InvalidOAuthProvider string
  | AE_NotLoggedIn string
  | AE_NotEnoughPermissions string string
  | AE_S3Error string
  | AE_S3ResponseError string
  | AE_StorageSpaceNotEnough
  | AE_PayloadTooLarge string
  | AE_UuidError string
  | AE_IOError string
  | AE_SqlxError string
  | AE_ValidatorError string
  | AE_UrlError string
  | AE_SerdeError string
  | AE_Connect string
  | AE_RequestTimeout string
  | AE_TokioJoinError string
  | AE_BincodeError string

datatype ErrorCode =
    EC_Ok
  | EC_Unhandled
  | EC_RecordNotFound
  | EC_RecordAlreadyExists
  | EC_InvalidEmail
  | EC_InvalidPassword
  | EC_OAuthError
  | EC_MissingPayload
  | EC_DBError
  | EC_OpenError
  | EC_InvalidUrl
  | EC_InvalidRequest
  | EC_InvalidOAuthProvider
  | EC_NotLoggedIn
  | EC_NotEnoughPermissions
  | EC_S3Error
  | EC_StorageSpaceNotEnough
  | EC_PayloadTooLarge
  | EC_Internal
  | EC_UuidError
  | EC_IOError
  | EC_SqlxError
  | EC_S3ResponseError
  | EC_SerdeError
  | EC_NetworkError
  | EC_UserUnAuthorized

fun app_error_fmt :: "AppError \<Rightarrow> string" where
  "app_error_fmt AE_Ok = ''Operation completed successfully.''"
| "app_error_fmt (AE_Internal e) = e"
| "app_error_fmt (AE_Unhandled e) = ''An unhandled error occurred:'' @ e"
| "app_error_fmt (AE_RecordNotFound e) = ''Record not found:'' @ e"
| "app_error_fmt (AE_RecordAlreadyExists e) = ''Record already exist:'' @ e"
| "app_error_fmt (AE_InvalidEmail e) = ''Invalid email format:'' @ e"
| "app_error_fmt (AE_InvalidPassword e) = ''Invalid password:'' @ e"
| "app_error_fmt (AE_OAuthError e) = e"
| "app_error_fmt (AE_UserUnAuthorized e) = e"
| "app_error_fmt (AE_UserAlreadyRegistered e) = e"
| "app_error_fmt (AE_MissingPayload e) = ''Missing Payload:'' @ e"
| "app_error_fmt (AE_DBError e) = ''Database error:'' @ e"
| "app_error_fmt (AE_OpenError e) = ''Open Error:'' @ e"
| "app_error_fmt (AE_InvalidRequest e) = ''Invalid request:'' @ e"
| "app_error_fmt (AE_InvalidOAuthProvider e) = ''Invalid OAuth Provider:'' @ e"
| "app_error_fmt (AE_NotLoggedIn e) = ''Not Logged In:'' @ e"
| "app_error_fmt (AE_NotEnoughPermissions user action) = user @ '': do not have permissions to '' @ action"
| "app_error_fmt (AE_S3Error e) = e"
| "app_error_fmt (AE_S3ResponseError e) = ''s3 response error:'' @ e"
| "app_error_fmt AE_StorageSpaceNotEnough = ''Storage space not enough''"
| "app_error_fmt (AE_PayloadTooLarge e) = ''Payload too large:'' @ e"
| "app_error_fmt (AE_UuidError e) = e"
| "app_error_fmt (AE_IOError e) = e"
| "app_error_fmt (AE_SqlxError e) = e"
| "app_error_fmt (AE_ValidatorError e) = e"
| "app_error_fmt (AE_UrlError e) = e"
| "app_error_fmt (AE_SerdeError e) = e"
| "app_error_fmt (AE_Connect e) = e"
| "app_error_fmt (AE_RequestTimeout e) = e"
| "app_error_fmt (AE_TokioJoinError e) = e"
| "app_error_fmt (AE_BincodeError e) = e"

fun is_not_enough_permissions :: "AppError \<Rightarrow> bool" where
  "is_not_enough_permissions (AE_NotEnoughPermissions _ _) = True"
| "is_not_enough_permissions _ = False"

fun is_record_not_found :: "AppError \<Rightarrow> bool" where
  "is_record_not_found (AE_RecordNotFound _) = True"
| "is_record_not_found _ = False"

fun is_network_error :: "AppError \<Rightarrow> bool" where
  "is_network_error (AE_Connect _) = True"
| "is_network_error (AE_RequestTimeout _) = True"
| "is_network_error _ = False"

fun is_unauthorized :: "AppError \<Rightarrow> bool" where
  "is_unauthorized (AE_UserUnAuthorized _) = True"
| "is_unauthorized _ = False"

fun error_code :: "AppError \<Rightarrow> ErrorCode" where
  "error_code AE_Ok = EC_Ok"
| "error_code (AE_Internal _) = EC_Internal"
| "error_code (AE_Unhandled _) = EC_Unhandled"
| "error_code (AE_RecordNotFound _) = EC_RecordNotFound"
| "error_code (AE_RecordAlreadyExists _) = EC_RecordAlreadyExists"
| "error_code (AE_InvalidEmail _) = EC_InvalidEmail"
| "error_code (AE_InvalidPassword _) = EC_InvalidPassword"
| "error_code (AE_OAuthError _) = EC_OAuthError"
| "error_code (AE_UserUnAuthorized _) = EC_UserUnAuthorized"
| "error_code (AE_UserAlreadyRegistered _) = EC_RecordAlreadyExists"
| "error_code (AE_MissingPayload _) = EC_MissingPayload"
| "error_code (AE_DBError _) = EC_DBError"
| "error_code (AE_OpenError _) = EC_OpenError"
| "error_code (AE_InvalidRequest _) = EC_InvalidRequest"
| "error_code (AE_InvalidOAuthProvider _) = EC_InvalidOAuthProvider"
| "error_code (AE_NotLoggedIn _) = EC_NotLoggedIn"
| "error_code (AE_NotEnoughPermissions _ _) = EC_NotEnoughPermissions"
| "error_code (AE_S3Error _) = EC_S3Error"
| "error_code (AE_S3ResponseError _) = EC_S3ResponseError"
| "error_code AE_StorageSpaceNotEnough = EC_StorageSpaceNotEnough"
| "error_code (AE_PayloadTooLarge _) = EC_PayloadTooLarge"
| "error_code (AE_UuidError _) = EC_UuidError"
| "error_code (AE_IOError _) = EC_IOError"
| "error_code (AE_SqlxError _) = EC_SqlxError"
| "error_code (AE_ValidatorError _) = EC_InvalidRequest"
| "error_code (AE_UrlError _) = EC_InvalidUrl"
| "error_code (AE_SerdeError _) = EC_SerdeError"
| "error_code (AE_Connect _) = EC_NetworkError"
| "error_code (AE_RequestTimeout _) = EC_NetworkError"
| "error_code (AE_TokioJoinError _) = EC_Internal"
| "error_code (AE_BincodeError _) = EC_Internal"

text \<open>\<open>as i32\<close>, and the way back that \<open>Deserialize_repr\<close> derives.\<close>

fun error_code_value :: "ErrorCode \<Rightarrow> int" where
  "error_code_value EC_Ok = 0"
| "error_code_value EC_Unhandled = -1"
| "error_code_value EC_RecordNotFound = -2"
| "error_code_value EC_RecordAlreadyExists = -3"
| "error_code_value EC_InvalidEmail = 1001"
| "error_code_value EC_InvalidPassword = 1002"
| "error_code_value EC_OAuthError = 1003"
| "error_code_value EC_MissingPayload = 1004"
| "error_code_value EC_DBError = 1005"
| "error_code_value EC_OpenError = 1006"
| "error_code_value EC_InvalidUrl = 1007"
| "error_code_value EC_InvalidRequest = 1008"
| "error_code_value EC_InvalidOAuthProvider = 1009"
| "error_code_value EC_NotLoggedIn = 1011"
| "error_code_value EC_NotEnoughPermissions = 1012"
| "error_code_value EC_S3Error = 1014"
| "error_code_value EC_StorageSpaceNotEnough = 1015"
| "error_code_value EC_PayloadTooLarge = 1016"
| "error_code_value EC_Internal = 1017"
| "error_code_value EC_UuidError = 1018"
| "error_code_value EC_IOError = 1019"
| "error_code_value EC_SqlxError = 1020"
| "error_code_value EC_S3ResponseError = 1021"
| "error_code_value EC_SerdeError = 1022"
| "error_code_value EC_NetworkError = 1023"
| "error_code_value EC_UserUnAuthorized = 1024"

definition all_error_codes :: "ErrorCode list" where
  "all_error_codes =
     [EC_Ok, EC_Unhandled, EC_RecordNotFound, EC_RecordAlreadyExists,
      EC_InvalidEmail, EC_InvalidPassword, EC_OAuthError, EC_MissingPayload,
      EC_DBError, EC_OpenError, EC_InvalidUrl, EC_InvalidRequest,
      EC_InvalidOAuthProvider, EC_NotLoggedIn, EC_NotEnoughPermissions, EC_S3Error,
      EC_StorageSpaceNotEnough, EC_PayloadTooLarge, EC_Internal, EC_UuidError,
      EC_IOError, EC_SqlxError, EC_S3ResponseError, EC_SerdeError,
      EC_NetworkError, EC_UserUnAuthorized]"

definition error_code_from_i32 :: "int \<Rightarrow> ErrorCode option" where
  "error_code_from_i32 v = List.find (\<lambda>c. error_code_value c = v) all_error_codes"

section \<open>Errors of other crates\<close>

record reqwest_error =
  re_is_connect :: bool
  re_is_timeout :: bool
  re_is_request :: bool
  re_status :: "nat option"
  re_text :: string

definition app_error_from_reqwest :: "bool \<Rightarrow> reqwest_error \<Rightarrow> AppError" where
  "app_error_from_reqwest wasm e =
     (if \<not> wasm \<and> re_is_connect e then AE_Connect (re_text e)
      else if re_is_timeout e then AE_RequestTimeout (re_text e)
      else if re_is_request e then
        (if re_status e = Some 413 then AE_PayloadTooLarge (re_text e) else AE_InvalidRequest (re_text e))
      else AE_Unhandled (re_text e))"

datatype sqlx_error = SqlxRowNotFound | SqlxPoolTimedOut | SqlxOther string

definition app_error_from_sqlx :: "(sqlx_error \<Rightarrow> string) \<Rightarrow> sqlx_error \<Rightarrow> AppError" where
  "app_error_from_sqlx show_sqlx e =
     (let msg = show_sqlx e
      in case e of
           SqlxRowNotFound \<Rightarrow> AE_RecordNotFound (''Record not exist in db. '' @ msg @ '')'')
         | _ \<Rightarrow> AE_SqlxError msg)"

record GoTrueErrorSerde =
  ge_code :: int
  ge_msg :: string
  ge_error_id :: "string option"

record GotrueClientError =
  gc_error :: string
  gc_error_description :: "string option"

datatype GoTrueError =
    GT_Connect string
  | GT_RequestTimeout string
  | GT_InvalidRequest string
  | GT_ClientError GotrueClientError
  | GT_Internal GoTrueErrorSerde
  | GT_NotLoggedIn string
  | GT_Auth string
  | GT_Unhandled string

fun gotrue_is_network_error :: "GoTrueError \<Rightarrow> bool" where
  "gotrue_is_network_error (GT_Connect _) = True"
| "gotrue_is_network_error (GT_RequestTimeout _) = True"
| "gotrue_is_network_error _ = False"

definition gotrue_from_reqwest :: "bool \<Rightarrow> reqwest_error \<Rightarrow> GoTrueError" where
  "gotrue_from_reqwest wasm e =
     (if \<not> wasm \<and> re_is_connect e then GT_Connect (re_text e)
      else if re_is_timeout e then GT_RequestTimeout (re_text e)
      else if re_is_request e then GT_InvalidRequest (re_text e)
      else if re_status e = Some 401 then GT_Auth (re_text e)
      else GT_Unhandled (re_text e))"

definition gotrue_serde_fmt :: "(string option \<Rightarrow> string) \<Rightarrow> GoTrueErrorSerde \<Rightarrow> string" where
  "gotrue_serde_fmt dbg e =
     ''code: '' @ int_to_string (ge_code e) @ '', msg:'' @ ge_msg e @ '', error_id: '' @ dbg (ge_error_id e)"

definition gotrue_client_fmt :: "(string option \<Rightarrow> string) \<Rightarrow> GotrueClientError \<Rightarrow> string" where
  "gotrue_client_fmt dbg e = ''error: '' @ gc_error e @ '', description: '' @ dbg (gc_error_description e)"

definition starts_with :: "string \<Rightarrow> string \<Rightarrow> bool" where
  "starts_with p s \<longleftrightarrow> take (length p) s = p"

fun app_error_from_gotrue :: "(string option \<Rightarrow> string) \<Rightarrow> GoTrueError \<Rightarrow> AppError" where
  "app_error_from_gotrue dbg (GT_Connect msg) = AE_Connect msg"
| "app_error_from_gotrue dbg (GT_RequestTimeout msg) = AE_RequestTimeout msg"
| "app_error_from_gotrue dbg (GT_InvalidRequest msg) = AE_InvalidRequest msg"
| "app_error_from_gotrue dbg (GT_ClientError err) = AE_OAuthError (gotrue_client_fmt dbg err)"
| "app_error_from_gotrue dbg (GT_Auth err) = AE_UserUnAuthorized err"
| "app_error_from_gotrue dbg (GT_Internal err) =
     (if ge_code err = 400 \<and> starts_with ''oauth error'' (ge_msg err) then AE_OAuthError (ge_msg err)
      else if ge_code err = 400 \<and> starts_with ''User already registered'' (ge_msg err) then AE_UserAlreadyRegistered (ge_msg err)
      else if ge_code err = 401 then AE_UserUnAuthorized (int_to_string (ge_code err) @ '':'' @ ge_msg err)
      else if ge_code err = 422 then AE_InvalidRequest (ge_msg err)
      else AE_OAuthError (gotrue_serde_fmt dbg err))"
| "app_error_from_gotrue dbg (GT_Unhandled err) = AE_Internal err"
| "app_error_from_gotrue dbg (GT_NotLoggedIn msg) = AE_NotLoggedIn msg"

section \<open>The envelope of an answer\<close>

record AppResponseError =
  are_code :: ErrorCode
  are_message :: string

definition app_response_error_from :: "AppError \<Rightarrow> AppResponseError" where
  "app_response_error_from err = \<lparr>are_code = error_code err, are_message = app_error_fmt err\<rparr>"

definition response_error_is_record_not_found :: "AppResponseError \<Rightarrow> bool" where
  "response_error_is_record_not_found e \<longleftrightarrow> are_code e = EC_RecordNotFound"

record 'a AppResponse =
  ar_data :: "'a option"
  ar_code :: ErrorCode
  ar_message :: string

definition AppResponse_new :: "ErrorCode \<Rightarrow> string \<Rightarrow> 'a AppResponse" where
  "AppResponse_new code message = \<lparr>ar_data = None, ar_code = code, ar_message = message\<rparr>"

definition AppResponse_Ok :: "'a AppResponse" where
  "AppResponse_Ok = AppResponse_new (error_code AE_Ok) (app_error_fmt AE_Ok)"

definition response_is_ok :: "'a AppResponse \<Rightarrow> bool" where
  "response_is_ok r \<longleftrightarrow> ar_code r = EC_Ok"

definition response_split :: "'a AppResponse \<Rightarrow> 'a option \<times> AppResponseError" where
  "response_split r =
     (if response_is_ok r then (ar_data r, \<lparr>are_code = ar_code r, are_message = ar_message r\<rparr>)
      else (None, \<lparr>are_code = ar_code r, are_message = ar_message r\<rparr>))"

definition into_data :: "'a AppResponse \<Rightarrow> AppResponseError + 'a" where
  "into_data r =
     (if response_is_ok r then
        (case ar_data r of
           None \<Rightarrow> Err (app_response_error_from (AE_MissingPayload []))
         | Some x \<Rightarrow> Ok x)
      else Err \<lparr>are_code = ar_code r, are_message = ar_message r\<rparr>)"

definition into_error :: "'a AppResponse \<Rightarrow> AppResponseError + unit" where
  "into_error r =
     (if ar_code r = EC_Ok then Ok () else Err \<lparr>are_code = ar_code r, are_message = ar_message r\<rparr>)"

definition with_data :: "'a AppResponse \<Rightarrow> 'a \<Rightarrow> 'a AppResponse" where
  "with_data r x = r\<lparr>ar_data := Some x\<rparr>"

definition with_message :: "'a AppResponse \<Rightarrow> string \<Rightarrow> 'a AppResponse" where
  "with_message r m = r\<lparr>ar_message := m\<rparr>"

definition response_with_code :: "'a AppResponse \<Rightarrow> ErrorCode \<Rightarrow> 'a AppResponse" where
  "response_with_code r c = r\<lparr>ar_code := c\<rparr>"

definition response_from_error :: "AppResponseError \<Rightarrow> 'a AppResponse" where
  "response_from_error err = AppResponse_new (are_code err) (are_message err)"

text \<open>What a handler's result becomes: an error is an answer with its code.\<close>

definition response_of :: "AppError + 'a \<Rightarrow> 'a AppResponse" where
  "response_of r =
     (case r of Inr x \<Rightarrow> with_data AppResponse_Ok x | Inl e \<Rightarrow> response_from_error (app_response_error_from e))"

text \<open>
  The client reads the body of an answer with a status of success only; \<open>parse\<close> is \<open>serde_json\<close>, and
  \<open>show_status\<close> and \<open>show_body\<close> print the two.
\<close>

definition from_response ::
  "(bytes \<Rightarrow> string + 'a AppResponse) \<Rightarrow> (nat \<Rightarrow> string) \<Rightarrow> (bytes \<Rightarrow> string) \<Rightarrow> nat \<Rightarrow> bytes \<Rightarrow> string + 'a AppResponse" where
  "from_response parse show_status show_body status body =
     (if 200 \<le> status \<and> status < 300 then parse body
      else Err (''got error code: '' @ show_status status @ '', body: '' @ show_body body))"

section \<open>Properties\<close>

lemma error_code_values: "error_code_from_i32 (error_code_value c) = Some c"
  by (cases c) (simp_all add: error_code_from_i32_def all_error_codes_def)

text \<open>
  Error codes survive the wire: a number is read as a code exactly when it is the number of that
  code, so different codes have different numbers and every other number is rejected.
\<close>

theorem error_code_roundtrip:
  "error_code_from_i32 v = Some c \<longleftrightarrow> error_code_value c = v"
proof
  assume "error_code_from_i32 v = Some c"
  then show "error_code_value c = v" by (auto simp: error_code_from_i32_def find_Some_iff)
qed (auto simp: error_code_values)

text \<open>
  What a client gets out of the answer to a failed request is the error's code and message, unless the
  handler failed with the error that means success, and what it gets out of the answer to a
  successful one is the value.
\<close>

theorem response_carries_result:
  "into_data (response_of r) =
     (case r of
        Inr x \<Rightarrow> Ok x
      | Inl e \<Rightarrow> Err (if e = AE_Ok then app_response_error_from (AE_MissingPayload [])
                     else app_response_error_from e))"
proof (cases r)
  case (Inl e)
  have "error_code e = EC_Ok \<longleftrightarrow> e = AE_Ok" by (cases e) simp_all
  then show ?thesis
    using Inl by (simp add: response_of_def response_from_error_def into_data_def AppResponse_new_def
        response_is_ok_def app_response_error_from_def)
qed (simp add: response_of_def with_data_def into_data_def AppResponse_Ok_def AppResponse_new_def response_is_ok_def)

end
