(* ===== verification/Collab_Db.thy ===== *)
theory Collab_Db
  imports App_Error Dto Access_Control
begin

text \<open>
  The statements on the collab tables (\<open>lib/database/src/collab/collab_db_ops.rs\<close>): documents,
  document members and snapshots.

  A table is the list of its rows and a statement is what its text says of them; where SQL leaves an
  order open the list has one.  Any statement may fail: \<open>F\<close> gives the error of the n-th statement of
  an operation, if it has one.  What the schema assigns (a snapshot's id and creation time) and the
  partition key of a collab type (\<open>collab_entity\<close>) are arguments.  Texts that only end up in the
  message of an internal error are shortened to their fixed part.
\<close>

section \<open>Tables\<close>

record CollabRow =
  row_oid :: string
  row_blob :: bytes
  row_len :: int
  row_partition_key :: int
  row_encrypt :: int
  row_owner_uid :: int
  row_workspace_id :: string
  row_deleted_at :: "nat option"

record MemberRow =
  mr_uid :: int
  mr_oid :: string
  mr_permission_id :: int

record AFSnapshotRow =
  sn_sid :: int
  sn_oid :: string
  sn_blob :: bytes
  sn_len :: int
  sn_encrypt :: int
  sn_deleted_at :: "int option"
  sn_created_at :: int
  sn_workspace_id :: string

record Db =
  db_collab :: "CollabRow list"
  db_members :: "MemberRow list"
  db_snapshots :: "AFSnapshotRow list"
  db_permissions :: "AFPermission list"
  db_owner_permission :: "int option"

type_synonym faults = "nat \<Rightarrow> sqlx_error option"

definition statement :: "faults \<Rightarrow> nat \<Rightarrow> 'a \<Rightarrow> sqlx_error + 'a" where
  "statement F i x = (case F i of Some e \<Rightarrow> Err e | None \<Rightarrow> Ok x)"

definition fetch_one :: "'a list \<Rightarrow> sqlx_error + 'a" where
  "fetch_one rows = (case rows of [] \<Rightarrow> Err SqlxRowNotFound | r # _ \<Rightarrow> Ok r)"

definition fetch_optional :: "'a list \<Rightarrow> 'a option" where
  "fetch_optional rows = (case rows of [] \<Rightarrow> None | r # _ \<Rightarrow> Some r)"

text \<open>Errors of a statement as the code passes them on: with \<open>?\<close>, or under a context.\<close>

definition sql_err :: "(sqlx_error \<Rightarrow> string) \<Rightarrow> sqlx_error + 'a \<Rightarrow> AppError + 'a" where
  "sql_err show_sqlx r = (case r of Inl e \<Rightarrow> Err (app_error_from_sqlx show_sqlx e) | Inr x \<Rightarrow> Ok x)"

definition with_context :: "string \<Rightarrow> sqlx_error + 'a \<Rightarrow> AppError + 'a" where
  "with_context msg r = (case r of Inl e \<Rightarrow> Err (AE_Internal msg) | Inr x \<Rightarrow> Ok x)"

section \<open>Documents\<close>

record 't db_env =
  de_type_value :: "'t \<Rightarrow> int"
  de_parse_uuid :: "string \<Rightarrow> string option"
  de_show_sqlx :: "sqlx_error \<Rightarrow> string"

definition select_workspace_id :: "string \<Rightarrow> Db \<Rightarrow> string option" where
  "select_workspace_id oid db = fetch_optional (map row_workspace_id (filter (\<lambda>r. row_oid r = oid) (db_collab db)))"

definition update_collab_rows :: "'t db_env \<Rightarrow> int \<Rightarrow> 't CollabParams \<Rightarrow> Db \<Rightarrow> Db" where
  "update_collab_rows V uid params db =
     db\<lparr>db_collab := map (\<lambda>r. if row_oid r = cp_object_id params
         then r\<lparr>row_blob := cp_encoded_collab_v1 params, row_len := as_i32 (int (length (cp_encoded_collab_v1 params))),
                row_partition_key := de_type_value V (cp_collab_type params), row_encrypt := 0, row_owner_uid := uid\<rparr>
         else r) (db_collab db)\<rparr>"

definition upsert_member_row :: "int \<Rightarrow> string \<Rightarrow> int \<Rightarrow> Db \<Rightarrow> Db" where
  "upsert_member_row uid oid permission_id db =
     (if list_ex (\<lambda>m. mr_uid m = uid \<and> mr_oid m = oid) (db_members db)
      then db\<lparr>db_members := map (\<lambda>m. if mr_uid m = uid \<and> mr_oid m = oid then m\<lparr>mr_permission_id := permission_id\<rparr> else m) (db_members db)\<rparr>
      else db\<lparr>db_members := db_members db @ [\<lparr>mr_uid = uid, mr_oid = oid, mr_permission_id = permission_id\<rparr>]\<rparr>)"

definition new_collab_row :: "'t db_env \<Rightarrow> int \<Rightarrow> string \<Rightarrow> 't CollabParams \<Rightarrow> CollabRow" where
  "new_collab_row V uid workspace_id params =
     \<lparr>row_oid = cp_object_id params, row_blob = cp_encoded_collab_v1 params,
      row_len = as_i32 (int (length (cp_encoded_collab_v1 params))),
      row_partition_key = de_type_value V (cp_collab_type params), row_encrypt = 0, row_owner_uid = uid,
      row_workspace_id = workspace_id, row_deleted_at = None\<rparr>"

definition insert_into_af_collab ::
  "'t db_env \<Rightarrow> faults \<Rightarrow> int \<Rightarrow> string \<Rightarrow> 't CollabParams \<Rightarrow> Db \<Rightarrow> AppError + Db" where
  "insert_into_af_collab V F uid workspace_id_str params db =
     (case de_parse_uuid V workspace_id_str of
        None \<Rightarrow> Err (AE_UuidError ''invalid uuid'')
      | Some workspace_id \<Rightarrow>
          try_bind (sql_err (de_show_sqlx V) (statement F 0 (select_workspace_id (cp_object_id params) db)))
            (\<lambda>existing. case existing of
               Some existing_workspace_id \<Rightarrow>
                 (if existing_workspace_id = workspace_id then
                    with_context ''update af_collab failed'' (statement F 1 (update_collab_rows V uid params db))
                  else Err (AE_Internal ''Inserting a row with an existing object_id but different workspace_id''))
             | None \<Rightarrow>
                 try_bind (sql_err (de_show_sqlx V)
                     (try_bind (statement F 1 ()) (\<lambda>_. fetch_one (case db_owner_permission db of None \<Rightarrow> [] | Some p \<Rightarrow> [p]))))
                   (\<lambda>permission_id. try_bind (with_context ''Insert af_collab_member failed''
                        (statement F 2 (upsert_member_row uid (cp_object_id params) permission_id db)))
                      (\<lambda>db1. with_context ''Insert new af_collab failed''
                        (statement F 3 (db1\<lparr>db_collab := db_collab db1 @ [new_collab_row V uid workspace_id params]\<rparr>))))))"

definition live_rows :: "'t db_env \<Rightarrow> 't \<Rightarrow> string \<Rightarrow> Db \<Rightarrow> CollabRow list" where
  "live_rows V collab_type oid db =
     filter (\<lambda>r. row_oid r = oid \<and> row_partition_key r = de_type_value V collab_type \<and> row_deleted_at r = None) (db_collab db)"

definition select_blob_from_af_collab ::
  "'t db_env \<Rightarrow> sqlx_error option \<Rightarrow> 't \<Rightarrow> string \<Rightarrow> Db \<Rightarrow> sqlx_error + bytes" where
  "select_blob_from_af_collab V fault collab_type oid db =
     (case fault of Some e \<Rightarrow> Err e | None \<Rightarrow> fetch_one (map row_blob (live_rows V collab_type oid db)))"

text \<open>One statement for each collab type of the queries; a failed one is logged and its queries have no result.\<close>

definition batch_select_one ::
  "'t db_env \<Rightarrow> 't \<Rightarrow> string list \<Rightarrow> Db \<Rightarrow> (string \<times> QueryCollabResult) list \<Rightarrow> (string \<times> QueryCollabResult) list" where
  "batch_select_one V collab_type object_ids db results =
     (let rows = filter (\<lambda>r. row_oid r \<in> set object_ids \<and> row_partition_key r = de_type_value V collab_type \<and>
                             row_deleted_at r = None) (db_collab db);
          missing = filter (\<lambda>oid. \<not> list_ex (\<lambda>r. row_oid r = oid) rows) object_ids;
          results1 = foldl (\<lambda>m r. map_insert m (row_oid r) (QC_Success (row_blob r))) results rows
      in foldl (\<lambda>m oid. map_insert m oid (QC_Failed ''Record not found'')) results1 missing)"

fun batch_select_loop ::
  "'t db_env \<Rightarrow> faults \<Rightarrow> nat \<Rightarrow> ('t \<times> string list) list \<Rightarrow> Db \<Rightarrow>
     (string \<times> QueryCollabResult) list \<Rightarrow> (string \<times> QueryCollabResult) list" where
  "batch_select_loop V F i [] db results = results"
| "batch_select_loop V F i ((collab_type, object_ids) # m) db results =
     (case F i of
        None \<Rightarrow> batch_select_loop V F (Suc i) m db (batch_select_one V collab_type object_ids db results)
      | Some err \<Rightarrow> batch_select_loop V F (Suc i) m db results)"

definition batch_select_collab_blob ::
  "'t db_env \<Rightarrow> faults \<Rightarrow> 't QueryCollab list \<Rightarrow> Db \<Rightarrow> (string \<times> QueryCollabResult) list" where
  "batch_select_collab_blob V F queries db =
     batch_select_loop V F 0 (foldl (\<lambda>m q. entry_push m (qc_collab_type q) (qc_object_id q)) [] queries) db []"

definition db_delete_collab :: "sqlx_error option \<Rightarrow> nat \<Rightarrow> string \<Rightarrow> Db \<Rightarrow> sqlx_error + Db" where
  "db_delete_collab fault now oid db =
     (case fault of
        Some e \<Rightarrow> Err e
      | None \<Rightarrow> Ok (db\<lparr>db_collab := map (\<lambda>r. if row_oid r = oid then r\<lparr>row_deleted_at := Some now\<rparr> else r) (db_collab db)\<rparr>))"

definition transform_record_not_found_error :: "sqlx_error + bool option \<Rightarrow> sqlx_error + bool" where
  "transform_record_not_found_error result =
     (case result of
        Inr value \<Rightarrow> Ok (case value of None \<Rightarrow> False | Some b \<Rightarrow> b)
      | Inl err \<Rightarrow> (if err = SqlxRowNotFound then Ok False else Err err))"

definition is_collab_exists :: "sqlx_error option \<Rightarrow> string \<Rightarrow> Db \<Rightarrow> sqlx_error + bool" where
  "is_collab_exists fault oid db =
     transform_record_not_found_error
       (case fault of Some e \<Rightarrow> Err e | None \<Rightarrow> Ok (Some (list_ex (\<lambda>r. row_oid r = oid) (db_collab db))))"

section \<open>Members\<close>

definition upsert_collab_member_with_txn ::
  "'t db_env \<Rightarrow> faults \<Rightarrow> int \<Rightarrow> string \<Rightarrow> AFAccessLevel \<Rightarrow> Db \<Rightarrow> AppError + Db" where
  "upsert_collab_member_with_txn V F uid oid access_level db =
     try_bind (with_context ''Get permission id from access level fail''
         (try_bind (statement F 0 ()) (\<lambda>_. fetch_one (map pm_id
            (filter (\<lambda>p. level_to_i32 (pm_access_level p) = level_to_i32 access_level) (db_permissions db))))))
       (\<lambda>permission_id. with_context ''failed to insert collab member''
         (statement F 1 (upsert_member_row uid oid permission_id db)))"

definition insert_collab_member where
  "insert_collab_member V F uid oid access_level db = upsert_collab_member_with_txn V F uid oid access_level db"

definition delete_collab_member :: "'t db_env \<Rightarrow> faults \<Rightarrow> int \<Rightarrow> string \<Rightarrow> Db \<Rightarrow> AppError + Db" where
  "delete_collab_member V F uid oid db =
     sql_err (de_show_sqlx V)
       (statement F 0 (db\<lparr>db_members := filter (\<lambda>m. \<not> (mr_uid m = uid \<and> mr_oid m = oid)) (db_members db)\<rparr>))"

definition member_join :: "Db \<Rightarrow> (MemberRow \<times> AFPermission) list" where
  "member_join db =
     concat (map (\<lambda>m. map (\<lambda>p. (m, p)) (filter (\<lambda>p. mr_permission_id m = pm_id p) (db_permissions db))) (db_members db))"

definition collab_member_try_from_row :: "MemberRow \<times> AFPermission \<Rightarrow> AFCollabMember" where
  "collab_member_try_from_row r =
     \<lparr>cm_uid = mr_uid (fst r), cm_oid = mr_oid (fst r),
      cm_permission = (snd r)\<lparr>pm_access_level := level_from_i32 (level_to_i32 (pm_access_level (snd r)))\<rparr>\<rparr>"

definition select_collab_member_access_level :: "Db \<Rightarrow> (int \<times> string \<times> AFAccessLevel) list" where
  "select_collab_member_access_level db =
     map (\<lambda>(m, p). (mr_uid m, mr_oid m, pm_access_level p)) (member_join db)"

definition select_collab_members :: "'t db_env \<Rightarrow> faults \<Rightarrow> string \<Rightarrow> Db \<Rightarrow> AppError + AFCollabMember list" where
  "select_collab_members V F oid db =
     sql_err (de_show_sqlx V)
       (statement F 0 (map collab_member_try_from_row (filter (\<lambda>(m, p). mr_oid m = oid) (member_join db))))"

definition select_collab_member :: "'t db_env \<Rightarrow> faults \<Rightarrow> int \<Rightarrow> string \<Rightarrow> Db \<Rightarrow> AppError + AFCollabMember" where
  "select_collab_member V F uid oid db =
     sql_err (de_show_sqlx V)
       (try_bind (statement F 0 ()) (\<lambda>_. fetch_one
          (map collab_member_try_from_row (filter (\<lambda>(m, p). mr_uid m = uid \<and> mr_oid m = oid) (member_join db)))))"

definition is_collab_member_exists :: "sqlx_error option \<Rightarrow> int \<Rightarrow> string \<Rightarrow> Db \<Rightarrow> sqlx_error + bool" where
  "is_collab_member_exists fault uid oid db =
     transform_record_not_found_error
       (case fault of
          Some e \<Rightarrow> Err e
        | None \<Rightarrow> Ok (Some (list_ex (\<lambda>m. mr_oid m = oid \<and> mr_uid m = uid) (db_members db))))"

section \<open>Snapshots\<close>

definition COLLAB_SNAPSHOT_LIMIT :: int where "COLLAB_SNAPSHOT_LIMIT = 30"
definition SNAPSHOT_PER_HOUR :: int where "SNAPSHOT_PER_HOUR = 6"

definition new_snapshot_row :: "int \<Rightarrow> int \<Rightarrow> string \<Rightarrow> bytes \<Rightarrow> string \<Rightarrow> AFSnapshotRow" where
  "new_snapshot_row sid created_at oid blob workspace_id =
     \<lparr>sn_sid = sid, sn_oid = oid, sn_blob = blob, sn_len = int (length blob), sn_encrypt = 0, sn_deleted_at = None,
      sn_created_at = created_at, sn_workspace_id = workspace_id\<rparr>"

definition db_create_snapshot ::
  "sqlx_error option \<Rightarrow> int \<Rightarrow> int \<Rightarrow> string \<Rightarrow> bytes \<Rightarrow> string \<Rightarrow> Db \<Rightarrow> sqlx_error + Db" where
  "db_create_snapshot fault sid created_at oid encoded workspace_id db =
     (case fault of
        Some e \<Rightarrow> Err e
      | None \<Rightarrow> Ok (db\<lparr>db_snapshots := db_snapshots db @
          [(new_snapshot_row sid created_at oid encoded workspace_id)\<lparr>sn_len := as_i32 (int (length encoded))\<rparr>]\<rparr>))"

text \<open>\<open>ORDER BY created_at DESC\<close>.\<close>

definition by_created_desc :: "AFSnapshotRow list \<Rightarrow> AFSnapshotRow list" where
  "by_created_desc rows = sort_key (\<lambda>r. - sn_created_at r) rows"

definition snapshots_of :: "string \<Rightarrow> Db \<Rightarrow> AFSnapshotRow list" where
  "snapshots_of oid db = filter (\<lambda>r. sn_oid r = oid) (db_snapshots db)"

definition db_should_create_snapshot :: "sqlx_error option \<Rightarrow> int \<Rightarrow> string \<Rightarrow> Db \<Rightarrow> sqlx_error + bool" where
  "db_should_create_snapshot fault now oid db =
     (let hours = now - SNAPSHOT_PER_HOUR * 3600
      in case fault of
           Some e \<Rightarrow> Err e
         | None \<Rightarrow>
             Ok (case fetch_optional (map sn_created_at (by_created_desc (snapshots_of oid db))) of
                   Some t \<Rightarrow> t < hours
                 | None \<Rightarrow> True))"

text \<open>The \<open>DELETE\<close> of all but the newest snapshots of a document.\<close>

definition keep_newest_snapshots :: "int \<Rightarrow> string \<Rightarrow> Db \<Rightarrow> Db" where
  "keep_newest_snapshots snapshot_limit oid db =
     (let keep = map sn_sid (take (nat snapshot_limit) (by_created_desc (snapshots_of oid db)))
      in db\<lparr>db_snapshots := filter (\<lambda>r. \<not> (sn_oid r = oid \<and> sn_sid r \<notin> set keep)) (db_snapshots db)\<rparr>)"

definition create_snapshot_and_maintain_limit ::
  "'t db_env \<Rightarrow> faults \<Rightarrow> int \<Rightarrow> int \<Rightarrow> string \<Rightarrow> string \<Rightarrow> bytes \<Rightarrow> int \<Rightarrow> Db \<Rightarrow> AppError + AFSnapshotMeta \<times> Db" where
  "create_snapshot_and_maintain_limit V F sid created_at workspace_id_str oid encoded snapshot_limit db =
     (case de_parse_uuid V workspace_id_str of
        None \<Rightarrow> Err (AE_UuidError ''invalid uuid'')
      | Some workspace_id \<Rightarrow>
          try_bind (sql_err (de_show_sqlx V)
              (statement F 0 (db\<lparr>db_snapshots := db_snapshots db @ [new_snapshot_row sid created_at oid encoded workspace_id]\<rparr>)))
            (\<lambda>db1. try_bind (sql_err (de_show_sqlx V) (statement F 1
                (keep_newest_snapshots snapshot_limit oid db1)))
              (\<lambda>db2. try_bind (with_context ''fail to commit the transaction to insert collab snapshot'' (statement F 2 ()))
                (\<lambda>_. Ok (\<lparr>sm_snapshot_id = sid, sm_object_id = oid, sm_created_at = created_at\<rparr>, db2)))))"

definition select_snapshot :: "sqlx_error option \<Rightarrow> int \<Rightarrow> Db \<Rightarrow> sqlx_error + AFSnapshotRow option" where
  "select_snapshot fault snapshot_id db =
     (case fault of
        Some e \<Rightarrow> Err e
      | None \<Rightarrow> Ok (fetch_optional (filter (\<lambda>r. sn_sid r = snapshot_id \<and> sn_deleted_at r = None) (db_snapshots db))))"

definition get_all_collab_snapshot_meta :: "sqlx_error option \<Rightarrow> string \<Rightarrow> Db \<Rightarrow> sqlx_error + AFSnapshotMeta list" where
  "get_all_collab_snapshot_meta fault oid db =
     (case fault of
        Some e \<Rightarrow> Err e
      | None \<Rightarrow> Ok (map (\<lambda>r. \<lparr>sm_snapshot_id = sn_sid r, sm_object_id = sn_oid r, sm_created_at = sn_created_at r\<rparr>)
          (by_created_desc (filter (\<lambda>r. sn_deleted_at r = None) (snapshots_of oid db)))))"

end
