(* ===== verification/Collab_Storage.thy ===== *)
theory Collab_Storage
  imports Collab_Db
begin

text \<open>
  Reading and writing documents: the redis cache, the cache over the database, the access control of the
  storage, and the storage itself (\<open>mem_cache.rs\<close>, \<open>disk_cache.rs\<close>, \<open>cache.rs\<close>, \<open>storage.rs\<close> and the
  storage part of \<open>access_control.rs\<close> under \<open>src/biz/collab/\<close>).

  Redis is the list of its entries; a command may fail, and an entry may expire at any time.  A
  transaction works on a copy of the database that becomes the database when the commit succeeds.  The
  codec of \<open>EncodedCollab\<close> and the test that a document can be built from it are the \<open>collab\<close> crate's.
\<close>

section \<open>\<open>CollabMemCache\<close>\<close>

type_synonym redis = "(string \<times> bytes) list"

record 'e collab_codec =
  ck_decode :: "bytes \<Rightarrow> 'e option"
  ck_encode :: "'e \<Rightarrow> bytes option"
  ck_load :: "string \<Rightarrow> 'e \<Rightarrow> bool"

definition codec_law :: "'e collab_codec \<Rightarrow> bool" where
  "codec_law K \<longleftrightarrow> (\<forall>e b. ck_encode K e = Some b \<longrightarrow> ck_decode K b = Some e)"

definition remove_encode_collab :: "bool \<Rightarrow> string \<Rightarrow> redis \<Rightarrow> AppError + redis" where
  "remove_encode_collab fails oid m =
     (if fails then Err (AE_Internal ''Failed to remove encoded collab from redis'') else Ok (map_remove m oid))"

definition get_encode_collab_bytes :: "bool \<Rightarrow> string \<Rightarrow> redis \<Rightarrow> bytes option" where
  "get_encode_collab_bytes fails oid m = (if fails then None else map_of m oid)"

definition mem_get_encode_collab :: "'e collab_codec \<Rightarrow> bool \<Rightarrow> string \<Rightarrow> redis \<Rightarrow> 'e option" where
  "mem_get_encode_collab K fails oid m =
     (case get_encode_collab_bytes fails oid m of Some b \<Rightarrow> ck_decode K b | None \<Rightarrow> None)"

definition insert_encode_collab_bytes :: "bool \<Rightarrow> string \<Rightarrow> bytes \<Rightarrow> redis \<Rightarrow> redis" where
  "insert_encode_collab_bytes fails oid b m = (if fails then m else map_insert m oid b)"

definition insert_encode_collab :: "'e collab_codec \<Rightarrow> bool \<Rightarrow> string \<Rightarrow> 'e \<Rightarrow> redis \<Rightarrow> redis" where
  "insert_encode_collab K fails oid e m =
     (case ck_encode K e of Some b \<Rightarrow> insert_encode_collab_bytes fails oid b m | None \<Rightarrow> m)"

section \<open>\<open>CollabDiskCache\<close>\<close>

definition MAX_ATTEMPTS :: nat where "MAX_ATTEMPTS = 3"

text \<open>The loop of \<open>get_collab_encoded\<close>: only a timeout of the pool is tried again; \<open>F\<close> is by attempt.\<close>

function disk_get_loop ::
  "'t db_env \<Rightarrow> 'e collab_codec \<Rightarrow> faults \<Rightarrow> nat \<Rightarrow> 't \<Rightarrow> string \<Rightarrow> Db \<Rightarrow> AppError + 'e" where
  "disk_get_loop V K F attempts collab_type oid db =
     (case select_blob_from_af_collab V (F attempts) collab_type oid db of
        Inr data \<Rightarrow>
          (case ck_decode K data of
             Some e \<Rightarrow> Ok e
           | None \<Rightarrow> Err (AE_Internal ''fail to decode data to EncodedCollab''))
      | Inl e \<Rightarrow>
          (if e = SqlxRowNotFound then Err (AE_RecordNotFound (''Can't find the row for query: '' @ oid))
           else if attempts < MAX_ATTEMPTS - 1 \<and> e = SqlxPoolTimedOut
           then disk_get_loop V K F (attempts + 1) collab_type oid db
           else Err (app_error_from_sqlx (de_show_sqlx V) e)))"
  by pat_completeness auto
termination
  by (relation "measure (\<lambda>(V, K, F, attempts, t, oid, db). MAX_ATTEMPTS - attempts)") auto

declare disk_get_loop.simps [simp del]

definition disk_get_collab_encoded ::
  "'t db_env \<Rightarrow> 'e collab_codec \<Rightarrow> faults \<Rightarrow> 't QueryCollabParams \<Rightarrow> Db \<Rightarrow> AppError + 'e" where
  "disk_get_collab_encoded V K F params db =
     disk_get_loop V K F 0 (qc_collab_type (qp_inner params)) (qc_object_id (qp_inner params)) db"

definition disk_is_exist :: "'t db_env \<Rightarrow> sqlx_error option \<Rightarrow> string \<Rightarrow> Db \<Rightarrow> AppError + bool" where
  "disk_is_exist V fault oid db = sql_err (de_show_sqlx V) (is_collab_exists fault oid db)"

definition disk_delete_collab :: "'t db_env \<Rightarrow> sqlx_error option \<Rightarrow> nat \<Rightarrow> string \<Rightarrow> Db \<Rightarrow> AppError + Db" where
  "disk_delete_collab V fault now oid db = sql_err (de_show_sqlx V) (db_delete_collab fault now oid db)"

section \<open>\<open>CollabCache\<close>\<close>

definition check_encoded_collab_data :: "'e collab_codec \<Rightarrow> string \<Rightarrow> bytes \<Rightarrow> string + unit" where
  "check_encoded_collab_data K oid data =
     (case ck_decode K data of
        None \<Rightarrow> Err ''decode''
      | Some e \<Rightarrow> (if ck_load K oid e then Ok () else Err ''load''))"

record CollabCache =
  cc_db :: Db
  cc_redis :: redis
  cc_hits :: u64
  cc_total_attempts :: u64

text \<open>What can go wrong around one call: the database by statement, redis by command.\<close>

record call_faults =
  cf_db :: faults
  cf_redis :: "nat \<Rightarrow> bool"

definition cache_get_collab_encoded ::
  "'t db_env \<Rightarrow> 'e collab_codec \<Rightarrow> call_faults \<Rightarrow> 't QueryCollabParams \<Rightarrow> CollabCache \<Rightarrow>
     (AppError + 'e) \<times> CollabCache" where
  "cache_get_collab_encoded V K F params c =
     (let c1 = c\<lparr>cc_total_attempts := cc_total_attempts c + 1\<rparr>;
          oid = qc_object_id (qp_inner params)
      in case mem_get_encode_collab K (cf_redis F 0) oid (cc_redis c1) of
           Some encoded_collab \<Rightarrow> (Ok encoded_collab, c1\<lparr>cc_hits := cc_hits c1 + 1\<rparr>)
         | None \<Rightarrow>
             (case disk_get_collab_encoded V K (cf_db F) params (cc_db c1) of
                Inl err \<Rightarrow> (Err err, c1)
              | Inr encoded_collab \<Rightarrow>
                  (Ok encoded_collab,
                   c1\<lparr>cc_redis := insert_encode_collab K (cf_redis F 1) oid encoded_collab (cc_redis c1)\<rparr>)))"

text \<open>The batch: redis is asked for each query, in order, and the database for the rest.\<close>

fun batch_partition ::
  "(nat \<Rightarrow> bool) \<Rightarrow> nat \<Rightarrow> redis \<Rightarrow> 't QueryCollab list \<Rightarrow> 't QueryCollab list \<times> (string \<times> QueryCollabResult) list" where
  "batch_partition RF i m [] = ([], [])"
| "batch_partition RF i m (params # qs) =
     (case batch_partition RF (Suc i) m qs of
        (disk_queries, values) \<Rightarrow>
          (case get_encode_collab_bytes (RF i) (qc_object_id params) m of
             None \<Rightarrow> (params # disk_queries, values)
           | Some data \<Rightarrow> (disk_queries, (qc_object_id params, QC_Success data) # values)))"

definition map_extend :: "('k \<times> 'v) list \<Rightarrow> ('k \<times> 'v) list \<Rightarrow> ('k \<times> 'v) list" where
  "map_extend m kvs = foldl (\<lambda>m (k, v). map_insert m k v) m kvs"

definition batch_get_encode_collab ::
  "'t db_env \<Rightarrow> call_faults \<Rightarrow> 't QueryCollab list \<Rightarrow> CollabCache \<Rightarrow> (string \<times> QueryCollabResult) list" where
  "batch_get_encode_collab V F queries c =
     (case batch_partition (cf_redis F) 0 (cc_redis c) queries of
        (disk_queries, values_from_mem_cache) \<Rightarrow>
          map_extend (map_extend [] values_from_mem_cache)
            (batch_select_collab_blob V (cf_db F) disk_queries (cc_db c)))"

text \<open>\<open>insert_collab_encoded\<close>: the row goes into the transaction \<open>tx\<close>, the bytes into redis at once.\<close>

definition insert_collab_encoded ::
  "'t db_env \<Rightarrow> 'e collab_codec \<Rightarrow> call_faults \<Rightarrow> string \<Rightarrow> int \<Rightarrow> 't CollabParams \<Rightarrow> Db \<Rightarrow> CollabCache \<Rightarrow>
     (AppError + Db) \<times> CollabCache" where
  "insert_collab_encoded V K F workspace_id uid params tx c =
     (case check_encoded_collab_data K (cp_object_id params) (cp_encoded_collab_v1 params) of
        Inl err \<Rightarrow> (Err (AE_InvalidRequest (''Can not decode the data into collab:'' @ cp_object_id params @ '', '' @ err)), c)
      | Inr u \<Rightarrow>
          (case insert_into_af_collab V (cf_db F) uid workspace_id params tx of
             Inl err \<Rightarrow> (Err err, c)
           | Inr tx1 \<Rightarrow>
               (Ok tx1, c\<lparr>cc_redis := insert_encode_collab_bytes (cf_redis F 0) (cp_object_id params)
                   (cp_encoded_collab_v1 params) (cc_redis c)\<rparr>)))"

definition cache_remove_collab ::
  "'t db_env \<Rightarrow> call_faults \<Rightarrow> nat \<Rightarrow> string \<Rightarrow> CollabCache \<Rightarrow> (AppError + unit) \<times> CollabCache" where
  "cache_remove_collab V F now oid c =
     (case remove_encode_collab (cf_redis F 0) oid (cc_redis c) of
        Inl err \<Rightarrow> (Err err, c)
      | Inr m \<Rightarrow>
          (let c1 = c\<lparr>cc_redis := m\<rparr>
           in case disk_delete_collab V (cf_db F 0) now oid (cc_db c1) of
                Inl err \<Rightarrow> (Err err, c1)
              | Inr db \<Rightarrow> (Ok (), c1\<lparr>cc_db := db\<rparr>)))"

definition cache_is_exist :: "'t db_env \<Rightarrow> sqlx_error option \<Rightarrow> string \<Rightarrow> CollabCache \<Rightarrow> AppError + bool" where
  "cache_is_exist V fault oid c = disk_is_exist V fault oid (cc_db c)"

definition cache_expire :: "string \<Rightarrow> CollabCache \<Rightarrow> CollabCache" where
  "cache_expire oid c = c\<lparr>cc_redis := map_remove (cc_redis c) oid\<rparr>"

section \<open>The storage's access control\<close>

record 't storage_env =
  se_db :: "'t db_env"
  se_casbin :: casbin
  se_enabled :: bool

text \<open>Reads and writes of a document that is not in the database are an error before any policy is asked.\<close>

definition enforce_existing ::
  "'t storage_env \<Rightarrow> sqlx_error option \<Rightarrow> Action \<Rightarrow> string \<Rightarrow> int \<Rightarrow> string \<Rightarrow> CollabCache \<Rightarrow> AccessControl \<Rightarrow>
     (AppError + bool) \<times> AccessControl" where
  "enforce_existing S fault action workspace_id uid oid c a =
     (case cache_is_exist (se_db S) fault oid c of
        Inl err \<Rightarrow> (Err err, a)
      | Inr collab_exists \<Rightarrow>
          (if \<not> collab_exists then (Err (AE_RecordNotFound (''Collab not exist in db. '' @ oid)), a)
           else (case collab_enforce_action (se_casbin S) (se_enabled S) workspace_id uid oid action a of
                   (b, a1) \<Rightarrow> (Ok b, a1))))"

definition enforce_read_collab where
  "enforce_read_collab S fault workspace_id uid oid c a = enforce_existing S fault ActRead workspace_id uid oid c a"

definition enforce_write_collab where
  "enforce_write_collab S fault workspace_id uid oid c a = enforce_existing S fault ActWrite workspace_id uid oid c a"

definition enforce_delete where
  "enforce_delete S workspace_id uid oid a =
     collab_enforce_access_level (se_casbin S) (se_enabled S) workspace_id uid oid FullAccess a"

definition enforce_write_workspace where
  "enforce_write_workspace S uid workspace_id a =
     workspace_enforce_role (se_casbin S) (se_enabled S) uid workspace_id RoleOwner a"

section \<open>\<open>CollabStorageImpl\<close>\<close>

record CollabStorage =
  cs_cache :: CollabCache
  cs_ac :: AccessControl

definition check_collab_permission ::
  "'t storage_env \<Rightarrow> sqlx_error option \<Rightarrow> string \<Rightarrow> int \<Rightarrow> 't CollabParams \<Rightarrow> bool \<Rightarrow> CollabCache \<Rightarrow> AccessControl \<Rightarrow>
     (AppError + unit) \<times> AccessControl" where
  "check_collab_permission S fault workspace_id uid params is_collab_exist c a =
     (if is_collab_exist then
        (case enforce_write_collab S fault workspace_id uid (cp_object_id params) c a of
           (Inl err, a1) \<Rightarrow> (Err err, a1)
         | (Inr writable, a1) \<Rightarrow>
             (if \<not> writable
              then (Err (AE_NotEnoughPermissions (int_to_string uid) (''update collab:'' @ cp_object_id params)), a1)
              else (Ok (), a1)))
      else
        (case enforce_write_workspace S uid workspace_id a of
           (can_write_workspace, a1) \<Rightarrow>
             (if \<not> can_write_workspace
              then (Err (AE_NotEnoughPermissions (int_to_string uid) (''write workspace:'' @ workspace_id)), a1)
              else (Ok (), a1))))"

definition validator_error :: "string list + unit \<Rightarrow> AppError + unit" where
  "validator_error r = (case r of Inl es \<Rightarrow> Err (AE_ValidatorError (concat es)) | Inr u \<Rightarrow> Ok ())"

text \<open>
  What surrounds a write: the existence test in the transaction, the one of the access control, the
  insert, and the start and the commit of the transaction.
\<close>

record write_faults =
  wf_begin :: "sqlx_error option"
  wf_exists :: "sqlx_error option"
  wf_enforce :: "sqlx_error option"
  wf_insert :: call_faults
  wf_commit :: "sqlx_error option"

definition insert_or_update_collab_with_transaction ::
  "'t storage_env \<Rightarrow> 'e collab_codec \<Rightarrow> write_faults \<Rightarrow> string \<Rightarrow> int \<Rightarrow> 't CollabParams \<Rightarrow> Db \<Rightarrow> CollabStorage \<Rightarrow>
     (AppError + Db) \<times> CollabStorage" where
  "insert_or_update_collab_with_transaction S K W workspace_id uid params tx s =
     (case validator_error (validate_CollabParams params) of
        Inl err \<Rightarrow> (Err err, s)
      | Inr u \<Rightarrow>
          (case sql_err (de_show_sqlx (se_db S)) (is_collab_exists (wf_exists W) (cp_object_id params) tx) of
             Inl err \<Rightarrow> (Err err, s)
           | Inr is_collab_exist_in_db \<Rightarrow>
               (case (if \<not> is_collab_exist_in_db
                      then update_access_level_policy (se_casbin S) (se_enabled S) uid (cp_object_id params) FullAccess (cs_ac s)
                      else (Ok (), cs_ac s)) of
                  (Inl err, a1) \<Rightarrow> (Err (AE_Internal err), s\<lparr>cs_ac := a1\<rparr>)
                | (Inr _, a1) \<Rightarrow>
                    (case check_collab_permission S (wf_enforce W) workspace_id uid params is_collab_exist_in_db (cs_cache s) a1 of
                       (Inl err, a2) \<Rightarrow> (Err err, s\<lparr>cs_ac := a2\<rparr>)
                     | (Inr _, a2) \<Rightarrow>
                         (case insert_collab_encoded (se_db S) K (wf_insert W) workspace_id uid params tx (cs_cache s) of
                            (r, c1) \<Rightarrow> (r, s\<lparr>cs_cache := c1, cs_ac := a2\<rparr>))))))"

definition insert_or_update_collab ::
  "'t storage_env \<Rightarrow> 'e collab_codec \<Rightarrow> write_faults \<Rightarrow> string \<Rightarrow> int \<Rightarrow> 't CollabParams \<Rightarrow> CollabStorage \<Rightarrow>
     (AppError + unit) \<times> CollabStorage" where
  "insert_or_update_collab S K W workspace_id uid params s =
     (case validator_error (validate_CollabParams params) of
        Inl err \<Rightarrow> (Err err, s)
      | Inr u \<Rightarrow>
          (case with_context ''acquire transaction to upsert collab'' (statement (\<lambda>_. wf_begin W) 0 (cc_db (cs_cache s))) of
             Inl err \<Rightarrow> (Err err, s)
           | Inr tx \<Rightarrow>
               (case insert_or_update_collab_with_transaction S K W workspace_id uid params tx s of
                  (Inl err, s1) \<Rightarrow> (Err err, s1)
                | (Inr tx1, s1) \<Rightarrow>
                    (case wf_commit W of
                       Some e \<Rightarrow> (Err (AE_Internal ''fail to commit the transaction to upsert collab''), s1)
                     | None \<Rightarrow> (Ok (), s1\<lparr>cs_cache := (cs_cache s1)\<lparr>cc_db := tx1\<rparr>\<rparr>)))))"

text \<open>The answer of the realtime server to \<open>GetEncodeCollab\<close>, with everything that can be in its place.\<close>

datatype 'e editing_reply = SendFailed | Replied "'e option" | ReplyDropped | ReplyTimedOut

fun get_encode_collab_from_editing :: "'e editing_reply \<Rightarrow> 'e option" where
  "get_encode_collab_from_editing (Replied r) = r"
| "get_encode_collab_from_editing _ = None"

definition storage_get_collab_encoded ::
  "'t storage_env \<Rightarrow> 'e collab_codec \<Rightarrow> sqlx_error option \<Rightarrow> call_faults \<Rightarrow> 'e editing_reply \<Rightarrow> int \<Rightarrow>
     't QueryCollabParams \<Rightarrow> bool \<Rightarrow> CollabStorage \<Rightarrow> (AppError + 'e) \<times> CollabStorage" where
  "storage_get_collab_encoded S K fault F reply uid params is_collab_init s =
     (case validator_error (validate_QueryCollabParams params) of
        Inl err \<Rightarrow> (Err err, s)
      | Inr u \<Rightarrow>
          (let oid = qc_object_id (qp_inner params)
           in case enforce_read_collab S fault (qp_workspace_id params) uid oid (cs_cache s) (cs_ac s) of
                (Inl err, a1) \<Rightarrow> (Err err, s\<lparr>cs_ac := a1\<rparr>)
              | (Inr readable, a1) \<Rightarrow>
                  (let s1 = s\<lparr>cs_ac := a1\<rparr>
                   in if \<not> readable
                      then (Err (AE_NotEnoughPermissions (int_to_string uid) (''read collab:'' @ oid)), s1)
                      else
                        (case (if \<not> is_collab_init then get_encode_collab_from_editing reply else None) of
                           Some encoded \<Rightarrow> (Ok encoded, s1)
                         | None \<Rightarrow>
                             (case cache_get_collab_encoded (se_db S) K F params (cs_cache s1) of
                                (r, c1) \<Rightarrow> (r, s1\<lparr>cs_cache := c1\<rparr>))))))"

definition validate_QueryCollab :: "'t QueryCollab \<Rightarrow> string list + unit" where
  "validate_QueryCollab q = all_valid [validate_not_empty_str (qc_object_id q)]"

definition batch_get_collab ::
  "'t storage_env \<Rightarrow> call_faults \<Rightarrow> int \<Rightarrow> 't QueryCollab list \<Rightarrow> CollabStorage \<Rightarrow> (string \<times> QueryCollabResult) list" where
  "batch_get_collab S F uid queries s =
     (let valid_queries = filter (\<lambda>q. is_ok (validate_QueryCollab q)) queries;
          results = map_extend [] (map (\<lambda>q. (qc_object_id q,
              QC_Failed (case validate_QueryCollab q of Inl es \<Rightarrow> concat es | Inr u \<Rightarrow> [])))
            (filter (\<lambda>q. \<not> is_ok (validate_QueryCollab q)) queries))
      in map_extend results (batch_get_encode_collab (se_db S) F valid_queries (cs_cache s)))"

definition storage_delete_collab ::
  "'t storage_env \<Rightarrow> call_faults \<Rightarrow> nat \<Rightarrow> string \<Rightarrow> int \<Rightarrow> string \<Rightarrow> CollabStorage \<Rightarrow> (AppError + unit) \<times> CollabStorage" where
  "storage_delete_collab S F now workspace_id uid oid s =
     (case enforce_delete S workspace_id uid oid (cs_ac s) of
        (allowed, a1) \<Rightarrow>
          (if \<not> allowed
           then (Err (AE_NotEnoughPermissions (int_to_string uid) (''delete collab:'' @ oid)), s\<lparr>cs_ac := a1\<rparr>)
           else (case cache_remove_collab (se_db S) F now oid (cs_cache s) of
                   (r, c1) \<Rightarrow> (r, s\<lparr>cs_cache := c1, cs_ac := a1\<rparr>))))"

end
