(* ===== verification/Snapshot.thy ===== *)
theory Snapshot
  imports Collab_Storage
begin

text \<open>
  Snapshots of documents (\<open>src/biz/snapshot/\<close>): the queue of pending snapshots, the cache that holds their
  data, the runner that writes them one a tick, and the operations of \<open>SnapshotControl\<close>.

  The command channel is the list of the commands that wait in it; a send waits while it is full.  Each
  command of the runner is one step: what redis, the pool and the database do during it is an argument, and
  so are the id and the time of creation the database gives to a snapshot.
\<close>

section \<open>\<open>PendingQueue\<close>\<close>

record PendingItem =
  pi_workspace_id :: string
  pi_object_id :: string
  pi_seq :: "64 word"

text \<open>The smaller \<open>seq\<close> is the greater item; \<open>i64\<close> values compare as signed.\<close>

definition pending_cmp :: "PendingItem \<Rightarrow> PendingItem \<Rightarrow> ordering" where
  "pending_cmp a b = ord_reverse (int_cmp (sint (pi_seq a)) (sint (pi_seq b)))"

definition pending_eq :: "PendingItem \<Rightarrow> PendingItem \<Rightarrow> bool" where
  "pending_eq a b \<longleftrightarrow> pi_object_id a = pi_object_id b \<and> pi_seq a = pi_seq b"

record PendingQueue =
  pq_id_gen :: "64 word"
  pq_queue :: "PendingItem list"

definition PendingQueue_new :: PendingQueue where
  "PendingQueue_new = \<lparr>pq_id_gen = 0, pq_queue = []\<rparr>"

definition generate_item :: "string \<Rightarrow> string \<Rightarrow> PendingQueue \<Rightarrow> PendingItem \<times> PendingQueue" where
  "generate_item workspace_id oid q =
     (\<lparr>pi_workspace_id = workspace_id, pi_object_id = oid, pi_seq = pq_id_gen q\<rparr>, q\<lparr>pq_id_gen := pq_id_gen q + 1\<rparr>)"

definition push_item :: "PendingItem \<Rightarrow> PendingQueue \<Rightarrow> PendingQueue" where
  "push_item item q = q\<lparr>pq_queue := bheap_push (pq_queue q) item\<rparr>"

definition pop_item :: "PendingQueue \<Rightarrow> PendingItem option \<times> PendingQueue" where
  "pop_item q =
     (case bheap_pop pending_cmp (pq_queue q) of
        None \<Rightarrow> (None, q)
      | Some (item, rest) \<Rightarrow> (Some item, q\<lparr>pq_queue := rest\<rparr>))"

interpretation pending: rust_ord pending_cmp
  by unfold_locales (simp add: pending_cmp_def, auto simp: pending_cmp_def int_cmp_def split: if_splits)

section \<open>\<open>SnapshotCache\<close>\<close>

definition SNAPSHOT_PREFIX :: string where "SNAPSHOT_PREFIX = ''full_snapshot''"

definition SnapshotKey_from_object_id :: "string \<Rightarrow> string" where
  "SnapshotKey_from_object_id oid = SNAPSHOT_PREFIX @ '':'' @ oid"

lemma snapshot_key_inj [simp]: "SnapshotKey_from_object_id a = SnapshotKey_from_object_id b \<longleftrightarrow> a = b"
  by (simp add: SnapshotKey_from_object_id_def)

definition snapshot_keys :: "bool \<Rightarrow> string \<Rightarrow> redis \<Rightarrow> AppError + string list" where
  "snapshot_keys fails prefix m =
     (if fails then Err (AE_Internal ''redis'')
      else Ok (map fst (filter (\<lambda>kv. take (length prefix) (fst kv) = prefix) m)))"

definition snapshot_insert :: "bool \<Rightarrow> string \<Rightarrow> bytes \<Rightarrow> redis \<Rightarrow> (AppError + unit) \<times> redis" where
  "snapshot_insert fails key v m = (if fails then (Err (AE_Internal ''redis''), m) else (Ok (), map_insert m key v))"

text \<open>\<open>try_get\<close> also fails when the client is in use.\<close>

definition snapshot_try_get :: "bool \<Rightarrow> bool \<Rightarrow> string \<Rightarrow> redis \<Rightarrow> AppError + bytes option" where
  "snapshot_try_get locked fails key m =
     (if locked then Err (AE_Internal ''lock error'')
      else if fails then Err (AE_Internal ''redis'') else Ok (map_of m key))"

definition snapshot_remove :: "bool \<Rightarrow> string \<Rightarrow> redis \<Rightarrow> (AppError + unit) \<times> redis" where
  "snapshot_remove fails key m = (if fails then (Err (AE_Internal ''redis''), m) else (Ok (), map_remove m key))"

section \<open>\<open>SnapshotCommandRunner\<close>\<close>

datatype SnapshotCommand = InsertSnapshot InsertSnapshotParams | Tick

record SnapshotMetric =
  success_write_snapshot_count :: u64
  total_write_snapshot_count :: u64

record SnapshotRunner =
  sr_db :: Db
  sr_queue :: PendingQueue
  sr_cache :: redis
  sr_success_attempts :: u64
  sr_total_attempts :: u64

text \<open>What happens during one command.\<close>

record tick_env =
  te_insert_fails :: bool
  te_locked :: bool
  te_get_fails :: bool
  te_begin_fails :: bool
  te_db :: faults
  te_remove_fails :: bool
  te_sid :: int
  te_created_at :: int

definition process_next_batch ::
  "'t db_env \<Rightarrow> 'e collab_codec \<Rightarrow> tick_env \<Rightarrow> SnapshotRunner \<Rightarrow> (AppError + unit) \<times> SnapshotRunner" where
  "process_next_batch V K T s =
     (case pop_item (sr_queue s) of
        (None, q) \<Rightarrow> (Ok (), s)
      | (Some next_item, q) \<Rightarrow>
          (let key = SnapshotKey_from_object_id (pi_object_id next_item);
               s1 = s\<lparr>sr_queue := q, sr_total_attempts := sr_total_attempts s + 1\<rparr>;
               again = s1\<lparr>sr_queue := push_item next_item q\<rparr>
           in case snapshot_try_get (te_locked T) (te_get_fails T) key (sr_cache s1) of
                Inl err \<Rightarrow> (Ok (), again)
              | Inr None \<Rightarrow> (Ok (), s1)
              | Inr (Some data) \<Rightarrow>
                  (case check_encoded_collab_data K (pi_object_id next_item) data of
                     Inl err \<Rightarrow> (Ok (), s1)
                   | Inr u \<Rightarrow>
                       (if te_begin_fails T then (Ok (), again)
                        else
                          (case create_snapshot_and_maintain_limit V (te_db T) (te_sid T) (te_created_at T)
                                  (pi_workspace_id next_item) (pi_object_id next_item) data COLLAB_SNAPSHOT_LIMIT (sr_db s1) of
                             Inr (meta, db) \<Rightarrow>
                               (Ok (), s1\<lparr>sr_db := db, sr_cache := snd (snapshot_remove (te_remove_fails T) key (sr_cache s1)),
                                          sr_success_attempts := sr_success_attempts s1 + 1\<rparr>)
                           | Inl e \<Rightarrow> (Err e, again))))))"

definition snapshot_metric :: "SnapshotRunner \<Rightarrow> SnapshotMetric" where
  "snapshot_metric s =
     \<lparr>success_write_snapshot_count = sr_success_attempts s, total_write_snapshot_count = sr_total_attempts s\<rparr>"

text \<open>The runner's step, with the metric it answers a tick with.\<close>

fun handle_command ::
  "'t db_env \<Rightarrow> 'e collab_codec \<Rightarrow> tick_env \<Rightarrow> SnapshotCommand \<Rightarrow> SnapshotRunner \<Rightarrow> SnapshotMetric option \<times> SnapshotRunner" where
  "handle_command V K T (InsertSnapshot params) s =
     (case generate_item (isp_workspace_id params) (isp_object_id params) (sr_queue s) of
        (item, q) \<Rightarrow>
          (None, s\<lparr>sr_queue := push_item item q,
             sr_cache := snd (snapshot_insert (te_insert_fails T) (SnapshotKey_from_object_id (pi_object_id item))
               (isp_encoded_collab_v1 params) (sr_cache s))\<rparr>))"
| "handle_command V K T Tick s =
     (let s1 = snd (process_next_batch V K T s) in (Some (snapshot_metric s1), s1))"

section \<open>\<open>SnapshotControl\<close>\<close>

definition SNAPSHOT_CHANNEL_SIZE :: nat where "SNAPSHOT_CHANNEL_SIZE = 2000"

record SnapshotControl =
  sc_runner :: SnapshotRunner
  sc_channel :: "SnapshotCommand list"

definition SnapshotControl_new :: "Db \<Rightarrow> redis \<Rightarrow> SnapshotControl" where
  "SnapshotControl_new db m =
     \<lparr>sc_runner = \<lparr>sr_db = db, sr_queue = PendingQueue_new, sr_cache = m, sr_success_attempts = 0, sr_total_attempts = 0\<rparr>,
      sc_channel = []\<rparr>"

text \<open>The runner takes the next command; the ticker sends one.  A send that has to wait is no step.\<close>

definition runner_step :: "'t db_env \<Rightarrow> 'e collab_codec \<Rightarrow> tick_env \<Rightarrow> SnapshotControl \<Rightarrow> SnapshotControl" where
  "runner_step V K T c =
     (case sc_channel c of
        [] \<Rightarrow> c
      | cmd # cmds \<Rightarrow> c\<lparr>sc_runner := snd (handle_command V K T cmd (sc_runner c)), sc_channel := cmds\<rparr>)"

definition channel_send :: "SnapshotCommand \<Rightarrow> SnapshotControl \<Rightarrow> SnapshotControl option" where
  "channel_send cmd c =
     (if length (sc_channel c) < SNAPSHOT_CHANNEL_SIZE then Some (c\<lparr>sc_channel := sc_channel c @ [cmd]\<rparr>) else None)"

definition ticker_step :: "SnapshotControl \<Rightarrow> SnapshotControl option" where
  "ticker_step c = channel_send Tick c"

definition control_should_create_snapshot :: "sqlx_error option \<Rightarrow> int \<Rightarrow> string \<Rightarrow> SnapshotControl \<Rightarrow> bool" where
  "control_should_create_snapshot fault now oid c =
     (if oid = [] then False
      else case db_should_create_snapshot fault now oid (sr_db (sc_runner c)) of Inr b \<Rightarrow> b | Inl e \<Rightarrow> False)"

definition control_create_snapshot ::
  "'t db_env \<Rightarrow> tick_env \<Rightarrow> InsertSnapshotParams \<Rightarrow> SnapshotControl \<Rightarrow> (AppError + AFSnapshotMeta) \<times> SnapshotControl" where
  "control_create_snapshot V T params c =
     (case validator_error (validate_InsertSnapshotParams params) of
        Inl err \<Rightarrow> (Err err, c)
      | Inr u \<Rightarrow>
          (if te_begin_fails T
           then (Err (AE_Internal (''fail to acquire transaction to create snapshot for object:'' @ isp_object_id params)), c)
           else
             (case create_snapshot_and_maintain_limit V (te_db T) (te_sid T) (te_created_at T) (isp_workspace_id params)
                     (isp_object_id params) (isp_encoded_collab_v1 params) COLLAB_SNAPSHOT_LIMIT (sr_db (sc_runner c)) of
                Inl err \<Rightarrow> (Err err, c)
              | Inr (meta, db) \<Rightarrow> (Ok meta, c\<lparr>sc_runner := (sc_runner c)\<lparr>sr_db := db\<rparr>\<rparr>))))"

definition control_get_collab_snapshot ::
  "'t db_env \<Rightarrow> sqlx_error option \<Rightarrow> int \<Rightarrow> SnapshotControl \<Rightarrow> AppError + SnapshotData" where
  "control_get_collab_snapshot V fault snapshot_id c =
     try_bind (sql_err (de_show_sqlx V) (select_snapshot fault snapshot_id (sr_db (sc_runner c))))
       (\<lambda>row. case row of
          None \<Rightarrow> Err (AE_RecordNotFound (''Can't find the snapshot with id:'' @ int_to_string snapshot_id))
        | Some row \<Rightarrow> Ok \<lparr>sd_object_id = sn_oid row, sd_encoded_collab_v1 = sn_blob row, sd_workspace_id = sn_workspace_id row\<rparr>)"

definition control_get_collab_snapshot_list ::
  "'t db_env \<Rightarrow> sqlx_error option \<Rightarrow> string \<Rightarrow> SnapshotControl \<Rightarrow> AppError + AFSnapshotMeta list" where
  "control_get_collab_snapshot_list V fault oid c =
     sql_err (de_show_sqlx V) (get_all_collab_snapshot_meta fault oid (sr_db (sc_runner c)))"

text \<open>\<open>None\<close>: the caller waits for room in the channel.\<close>

definition queue_snapshot :: "InsertSnapshotParams \<Rightarrow> SnapshotControl \<Rightarrow> (AppError + unit) \<times> SnapshotControl option" where
  "queue_snapshot params c =
     (case validator_error (validate_InsertSnapshotParams params) of
        Inl err \<Rightarrow> (Err err, Some c)
      | Inr u \<Rightarrow> (Ok (), channel_send (InsertSnapshot params) c))"

definition control_get_snapshot ::
  "'t db_env \<Rightarrow> bool \<Rightarrow> bool \<Rightarrow> sqlx_error option \<Rightarrow> string \<Rightarrow> string \<Rightarrow> int \<Rightarrow> SnapshotControl \<Rightarrow> AppError + SnapshotData" where
  "control_get_snapshot V locked fails fault workspace_id oid snapshot_id c =
     (case (case snapshot_try_get locked fails (SnapshotKey_from_object_id oid) (sr_cache (sc_runner c)) of
              Inr r \<Rightarrow> r | Inl e \<Rightarrow> None) of
        None \<Rightarrow> control_get_collab_snapshot V fault snapshot_id c
      | Some encoded_collab_v1 \<Rightarrow>
          Ok \<lparr>sd_object_id = oid, sd_encoded_collab_v1 = encoded_collab_v1, sd_workspace_id = workspace_id\<rparr>)"

end
