(* ===== verification/Simulation.thy ===== *)
theory Simulation
  imports Main
begin

text \<open>
  Sequences of operations that return outputs, and the simulation argument shared by the components that
  are proved against a simpler machine.
\<close>

fun run_ops :: "('x \<Rightarrow> 's \<Rightarrow> 'y \<times> 's) \<Rightarrow> 'x list \<Rightarrow> 's \<Rightarrow> 'y list \<times> 's" where
  "run_ops f [] s = ([], s)"
| "run_ops f (x # xs) s = (case f x s of (y, s1) \<Rightarrow> case run_ops f xs s1 of (ys, s2) \<Rightarrow> (y # ys, s2))"

text \<open>Every operation is allowed in the state in which the sequence reaches it.\<close>

fun ops_allowed :: "('x \<Rightarrow> 's \<Rightarrow> bool) \<Rightarrow> ('x \<Rightarrow> 's \<Rightarrow> 'y \<times> 's) \<Rightarrow> 'x list \<Rightarrow> 's \<Rightarrow> bool" where
  "ops_allowed P f [] s \<longleftrightarrow> True"
| "ops_allowed P f (x # xs) s \<longleftrightarrow> P x s \<and> ops_allowed P f xs (snd (f x s))"

lemma run_ops_Cons:
  "fst (run_ops f (x # xs) s) = fst (f x s) # fst (run_ops f xs (snd (f x s)))"
  "snd (run_ops f (x # xs) s) = snd (run_ops f xs (snd (f x s)))"
  by (simp_all split: prod.splits)

text \<open>
  If each allowed step keeps the invariant, gives the output of the abstract step and commutes with the
  abstraction, so does every sequence of allowed operations.
\<close>

locale simulation =
  fixes inv :: "'c \<Rightarrow> bool" and abstr :: "'c \<Rightarrow> 'a" and allowed :: "'x \<Rightarrow> 'a \<Rightarrow> bool"
    and cstep :: "'x \<Rightarrow> 'c \<Rightarrow> 'y \<times> 'c" and astep :: "'x \<Rightarrow> 'a \<Rightarrow> 'y \<times> 'a"
  assumes step_inv: "inv c \<Longrightarrow> allowed x (abstr c) \<Longrightarrow> inv (snd (cstep x c))"
    and step_out: "inv c \<Longrightarrow> allowed x (abstr c) \<Longrightarrow> fst (cstep x c) = fst (astep x (abstr c))"
    and step_abs: "inv c \<Longrightarrow> allowed x (abstr c) \<Longrightarrow> abstr (snd (cstep x c)) = snd (astep x (abstr c))"
begin

lemma run_refines:
  assumes "inv c" and "ops_allowed allowed astep xs (abstr c)"
  shows "inv (snd (run_ops cstep xs c)) \<and> fst (run_ops cstep xs c) = fst (run_ops astep xs (abstr c)) \<and>
    abstr (snd (run_ops cstep xs c)) = snd (run_ops astep xs (abstr c))"
  using assms
proof (induction xs arbitrary: c)
  case (Cons x xs)
  then have a: "inv c" "allowed x (abstr c)" by simp_all
  note s = step_inv [OF a] step_out [OF a] step_abs [OF a]
  have "ops_allowed allowed astep xs (abstr (snd (cstep x c)))" using Cons.prems(2) s(3) by simp
  from Cons.IH [OF s(1) this] show ?case
    unfolding run_ops_Cons using s by simp
qed simp

end

end
