(* ===== verification/Storage_Refine.thy ===== *)
theory Storage_Refine
  imports Collab_Storage Simulation
begin

text \<open>
  The cached storage against the plain one: a simulation that says when the redis cache cannot be seen,
  and the cases in which it can.
\<close>

section \<open>The two machines\<close>

text \<open>Operations on the cache; redis may refuse any read, and \<open>OpExpire\<close> is an entry that expires.\<close>

datatype 't cache_op =
    OpGet "nat \<Rightarrow> bool" "'t QueryCollabParams"
  | OpPut string int "'t CollabParams"
  | OpRemove nat string
  | OpExists string
  | OpExpire string

datatype 'e cache_out =
    OutGet "AppError + 'e"
  | OutDone "AppError + unit"
  | OutExists "AppError + bool"

definition no_faults :: faults where "no_faults = (\<lambda>i. None)"

lemma statement_ok [simp]: "statement no_faults i x = Inr x"
  by (simp add: statement_def no_faults_def)

lemma sql_err_ok [simp]: "sql_err f (Inr x) = Inr x" "with_context m (Inr x) = Inr x"
  by (simp_all add: sql_err_def with_context_def)

definition calm :: call_faults where
  "calm = \<lparr>cf_db = no_faults, cf_redis = (\<lambda>i. False)\<rparr>"

fun cached_step ::
  "'t db_env \<Rightarrow> 'e collab_codec \<Rightarrow> 't cache_op \<Rightarrow> CollabCache \<Rightarrow> 'e cache_out \<times> CollabCache" where
  "cached_step V K (OpGet fails params) c =
     (case cache_get_collab_encoded V K \<lparr>cf_db = no_faults, cf_redis = fails\<rparr> params c of (r, c1) \<Rightarrow> (OutGet r, c1))"
| "cached_step V K (OpPut workspace_id uid params) c =
     (case insert_collab_encoded V K calm workspace_id uid params (cc_db c) c of
        (Inl e, c1) \<Rightarrow> (OutDone (Err e), c1)
      | (Inr tx, c1) \<Rightarrow> (OutDone (Ok ()), c1\<lparr>cc_db := tx\<rparr>))"
| "cached_step V K (OpRemove now oid) c =
     (case cache_remove_collab V calm now oid c of (r, c1) \<Rightarrow> (OutDone r, c1))"
| "cached_step V K (OpExists oid) c = (OutExists (cache_is_exist V None oid c), c)"
| "cached_step V K (OpExpire oid) c = (OutDone (Ok ()), cache_expire oid c)"

text \<open>Without a cache: the database alone.\<close>

fun plain_step ::
  "'t db_env \<Rightarrow> 'e collab_codec \<Rightarrow> 't cache_op \<Rightarrow> Db \<Rightarrow> 'e cache_out \<times> Db" where
  "plain_step V K (OpGet fails params) db = (OutGet (disk_get_collab_encoded V K no_faults params db), db)"
| "plain_step V K (OpPut workspace_id uid params) db =
     (case check_encoded_collab_data K (cp_object_id params) (cp_encoded_collab_v1 params) of
        Inl err \<Rightarrow> (OutDone (Err (AE_InvalidRequest (''Can not decode the data into collab:'' @ cp_object_id params @ '', '' @ err))), db)
      | Inr u \<Rightarrow>
          (case insert_into_af_collab V no_faults uid workspace_id params db of
             Inl e \<Rightarrow> (OutDone (Err e), db)
           | Inr db1 \<Rightarrow> (OutDone (Ok ()), db1)))"
| "plain_step V K (OpRemove now oid) db =
     (case disk_delete_collab V None now oid db of Inl e \<Rightarrow> (OutDone (Err e), db) | Inr db1 \<Rightarrow> (OutDone (Ok ()), db1))"
| "plain_step V K (OpExists oid) db = (OutExists (disk_is_exist V None oid db), db)"
| "plain_step V K (OpExpire oid) db = (OutDone (Ok ()), db)"

text \<open>A query names the type the document is stored with, and a deleted document is not written again.\<close>

fun op_allowed :: "'t db_env \<Rightarrow> 't cache_op \<Rightarrow> Db \<Rightarrow> bool" where
  "op_allowed V (OpGet fails params) db \<longleftrightarrow>
     list_all (\<lambda>r. row_oid r = qc_object_id (qp_inner params) \<longrightarrow>
       row_partition_key r = de_type_value V (qc_collab_type (qp_inner params))) (db_collab db)"
| "op_allowed V (OpPut workspace_id uid params) db \<longleftrightarrow>
     list_all (\<lambda>r. row_oid r = cp_object_id params \<longrightarrow> row_deleted_at r = None) (db_collab db)"
| "op_allowed V _ db \<longleftrightarrow> True"

section \<open>Coherence\<close>

definition entry_coherent :: "'e collab_codec \<Rightarrow> Db \<Rightarrow> string \<Rightarrow> bytes \<Rightarrow> bool" where
  "entry_coherent K db oid b \<longleftrightarrow>
     (\<exists>r \<in> set (db_collab db). row_oid r = oid \<and> row_deleted_at r = None \<and> ck_decode K b = ck_decode K (row_blob r))"

definition cache_inv :: "'e collab_codec \<Rightarrow> CollabCache \<Rightarrow> bool" where
  "cache_inv K c \<longleftrightarrow> codec_law K \<and> distinct (map row_oid (db_collab (cc_db c))) \<and>
     (\<forall>oid b. map_of (cc_redis c) oid = Some b \<longrightarrow> entry_coherent K (cc_db c) oid b)"

lemma live_rows_single:
  assumes "distinct (map row_oid (db_collab db))" and "r \<in> set (db_collab db)" and "row_oid r = oid"
    and "row_deleted_at r = None" and "row_partition_key r = de_type_value V t"
  shows "live_rows V t oid db = [r]"
  unfolding live_rows_def by (rule filter_by_key [OF assms(1,2)]) (use assms(3-5) in simp_all)

lemma disk_get_no_faults:
  "disk_get_collab_encoded V K no_faults params db =
     (case live_rows V (qc_collab_type (qp_inner params)) (qc_object_id (qp_inner params)) db of
        [] \<Rightarrow> Err (AE_RecordNotFound (''Can't find the row for query: '' @ qc_object_id (qp_inner params)))
      | r # _ \<Rightarrow> (case ck_decode K (row_blob r) of Some e \<Rightarrow> Ok e | None \<Rightarrow> Err (AE_Internal ''fail to decode data to EncodedCollab'')))"
  by (simp add: disk_get_collab_encoded_def disk_get_loop.simps select_blob_from_af_collab_def no_faults_def fetch_one_def
      split: list.splits)

text \<open>A hit is what the database holds, and what a miss puts into redis is coherent.\<close>

lemma get_hit:
  assumes "cache_inv K c" and "op_allowed V (OpGet fails params) (cc_db c)"
    and "mem_get_encode_collab K f (qc_object_id (qp_inner params)) (cc_redis c) = Some e"
  shows "disk_get_collab_encoded V K no_faults params (cc_db c) = Ok e"
proof -
  let ?oid = "qc_object_id (qp_inner params)"
  obtain b where b: "map_of (cc_redis c) ?oid = Some b" "ck_decode K b = Some e"
    using assms(3) by (auto simp: mem_get_encode_collab_def get_encode_collab_bytes_def split: option.splits if_splits)
  then obtain r where r: "r \<in> set (db_collab (cc_db c))" "row_oid r = ?oid" "row_deleted_at r = None"
    "ck_decode K (row_blob r) = Some e"
    using assms(1) unfolding cache_inv_def entry_coherent_def by metis
  then have "live_rows V (qc_collab_type (qp_inner params)) ?oid (cc_db c) = [r]"
    using assms(1,2) by (intro live_rows_single) (auto simp: cache_inv_def list_all_iff)
  then show ?thesis using r by (simp add: disk_get_no_faults)
qed

lemma get_miss:
  assumes "codec_law K" and "disk_get_collab_encoded V K no_faults params db = Ok e" and "ck_encode K e = Some b"
  shows "entry_coherent K db (qc_object_id (qp_inner params)) b"
proof -
  obtain r where "r \<in> set (live_rows V (qc_collab_type (qp_inner params)) (qc_object_id (qp_inner params)) db)"
    "ck_decode K (row_blob r) = Some e"
    using assms(2) by (auto simp: disk_get_no_faults split: list.splits option.splits)
  then show ?thesis using assms(1,3) by (auto simp: entry_coherent_def live_rows_def codec_law_def)
qed

section \<open>The steps\<close>

lemma entry_coherent_cong:
  "\<forall>r. row_oid r = oid \<longrightarrow> (r \<in> set (db_collab db') \<longleftrightarrow> r \<in> set (db_collab db)) \<Longrightarrow>
     entry_coherent K db' oid b = entry_coherent K db oid b"
  unfolding entry_coherent_def by blast

lemma select_workspace_cases:
  "select_workspace_id oid db = None \<Longrightarrow> oid \<notin> row_oid ` set (db_collab db)"
  "select_workspace_id oid db = Some w \<Longrightarrow> \<exists>r \<in> set (db_collab db). row_oid r = oid"
  by (auto simp: select_workspace_id_def fetch_optional_def filter_empty_conv split: list.splits dest!: filter_eq_ConsD)

lemma insert_cases:
  assumes "insert_into_af_collab V F uid w params db = Inr db'"
  shows "(\<exists>r \<in> set (db_collab db). row_oid r = cp_object_id params) \<and> db' = update_collab_rows V uid params db \<or>
    cp_object_id params \<notin> row_oid ` set (db_collab db) \<and>
    (\<exists>ws. db_collab db' = db_collab db @ [new_collab_row V uid ws params])"
proof (cases "select_workspace_id (cp_object_id params) db")
  case None
  then show ?thesis using assms select_workspace_cases(1) [OF None]
    by (auto simp: insert_into_af_collab_def try_bind_Inr_iff sql_err_def with_context_def statement_def
        upsert_member_row_def split: option.splits sum.splits if_splits)
next
  case (Some ws)
  then show ?thesis using assms select_workspace_cases(2) [OF Some]
    by (auto simp: insert_into_af_collab_def try_bind_Inr_iff sql_err_def with_context_def statement_def
        split: option.splits sum.splits if_splits)
qed

text \<open>A successful write: one row for the document, live and with its bytes, and the other rows as before.\<close>

lemma insert_row:
  assumes "insert_into_af_collab V F uid w params db = Inr db'" and "distinct (map row_oid (db_collab db))"
    and "op_allowed V (OpPut w' uid' params) db"
  shows "distinct (map row_oid (db_collab db')) \<and>
    (\<exists>r \<in> set (db_collab db'). row_oid r = cp_object_id params \<and> row_deleted_at r = None \<and>
       row_blob r = cp_encoded_collab_v1 params \<and> row_partition_key r = de_type_value V (cp_collab_type params)) \<and>
    (\<forall>r. row_oid r \<noteq> cp_object_id params \<longrightarrow> (r \<in> set (db_collab db') \<longleftrightarrow> r \<in> set (db_collab db)))"
proof -
  let ?oid = "cp_object_id params"
  let ?f = "\<lambda>r. if row_oid r = ?oid then r\<lparr>row_blob := cp_encoded_collab_v1 params,
      row_len := as_i32 (int (length (cp_encoded_collab_v1 params))),
      row_partition_key := de_type_value V (cp_collab_type params), row_encrypt := 0, row_owner_uid := uid\<rparr> else r"
  from insert_cases [OF assms(1)]
  consider (update) r where "r \<in> set (db_collab db)" "row_oid r = ?oid" "db' = update_collab_rows V uid params db"
    | (insert) ws where "?oid \<notin> row_oid ` set (db_collab db)" "db_collab db' = db_collab db @ [new_collab_row V uid ws params]"
    by blast
  then show ?thesis
  proof cases
    case update
    have o: "map row_oid (map ?f xs) = map row_oid xs" for xs by (induction xs) auto
    have u: "db_collab db' = map ?f (db_collab db)" using update(3) by (simp add: update_collab_rows_def)
    have "r \<in> set (db_collab db') \<longleftrightarrow> r \<in> set (db_collab db)" if "row_oid r \<noteq> ?oid" for r
      using that unfolding u by (auto simp: image_iff split: if_splits)
    moreover have "?f r \<in> set (db_collab db')" unfolding u set_map using update(1) by (rule imageI)
    moreover have "row_deleted_at r = None" using assms(3) update(1,2) by (auto simp: list_all_iff)
    moreover have "distinct (map row_oid (db_collab db'))" using assms(2) unfolding u o .
    ultimately show ?thesis using update(2) by (intro conjI bexI [of _ "?f r"]) simp_all
  next
    case insert
    then show ?thesis using assms(2) by (auto simp: new_collab_row_def)
  qed
qed

lemma db_delete_rows:
  "db_delete_collab None now oid db = Inr db' \<Longrightarrow>
     map row_oid (db_collab db') = map row_oid (db_collab db) \<and>
     (\<forall>r. row_oid r \<noteq> oid \<longrightarrow> (r \<in> set (db_collab db') \<longleftrightarrow> r \<in> set (db_collab db)))"
  by (auto simp: db_delete_collab_def image_iff)

lemma put_inv:
  assumes "cache_inv K c" and "op_allowed V (OpPut w uid params) (cc_db c)"
    and "insert_into_af_collab V no_faults uid w params (cc_db c) = Inr tx"
  shows "cache_inv K (c\<lparr>cc_redis := map_insert (cc_redis c) (cp_object_id params) (cp_encoded_collab_v1 params), cc_db := tx\<rparr>)"
proof -
  let ?oid = "cp_object_id params"
  have d: "distinct (map row_oid (db_collab (cc_db c)))" using assms(1) by (simp add: cache_inv_def)
  note r = insert_row [OF assms(3) d assms(2)]
  then have "entry_coherent K tx ?oid (cp_encoded_collab_v1 params)" unfolding entry_coherent_def by metis
  moreover have "entry_coherent K tx oid b" if "oid \<noteq> ?oid" "map_of (cc_redis c) oid = Some b" for oid b
    using entry_coherent_cong [of oid tx "cc_db c"] r that assms(1) unfolding cache_inv_def by blast
  ultimately show ?thesis using r assms(1) by (auto simp: cache_inv_def map_lookup)
qed

lemma put_redis:
  "insert_collab_encoded V K calm w uid params (cc_db c) c =
     (case check_encoded_collab_data K (cp_object_id params) (cp_encoded_collab_v1 params) of
        Inl err \<Rightarrow> (Err (AE_InvalidRequest (''Can not decode the data into collab:'' @ cp_object_id params @ '', '' @ err)), c)
      | Inr u \<Rightarrow>
          (case insert_into_af_collab V no_faults uid w params (cc_db c) of
             Inl err \<Rightarrow> (Err err, c)
           | Inr tx1 \<Rightarrow> (Ok tx1, c\<lparr>cc_redis := map_insert (cc_redis c) (cp_object_id params) (cp_encoded_collab_v1 params)\<rparr>)))"
  by (auto simp: insert_collab_encoded_def calm_def insert_encode_collab_bytes_def split: sum.splits)

lemma remove_step:
  "cache_remove_collab V calm now oid c =
     (Ok (), c\<lparr>cc_redis := map_remove (cc_redis c) oid,
        cc_db := (cc_db c)\<lparr>db_collab := map (\<lambda>r. if row_oid r = oid then r\<lparr>row_deleted_at := Some now\<rparr> else r) (db_collab (cc_db c))\<rparr>\<rparr>)"
  by (simp add: cache_remove_collab_def calm_def remove_encode_collab_def disk_delete_collab_def db_delete_collab_def
      no_faults_def Let_def sql_err_def)

lemma remove_inv:
  assumes "cache_inv K c"
  shows "cache_inv K (snd (cache_remove_collab V calm now oid c))"
proof -
  let ?db = "(cc_db c)\<lparr>db_collab := map (\<lambda>r. if row_oid r = oid then r\<lparr>row_deleted_at := Some now\<rparr> else r) (db_collab (cc_db c))\<rparr>"
  have d: "db_delete_collab None now oid (cc_db c) = Inr ?db" by (simp add: db_delete_collab_def)
  have "entry_coherent K ?db x b" if "x \<noteq> oid" "map_of (cc_redis c) x = Some b" for x b
    using entry_coherent_cong [of x ?db "cc_db c"] db_delete_rows [OF d] that assms unfolding cache_inv_def by blast
  moreover have "distinct (map row_oid (db_collab ?db))"
    using assms conjunct1 [OF db_delete_rows [OF d]] by (simp only: cache_inv_def)
  moreover have "codec_law K" using assms by (simp add: cache_inv_def)
  ultimately show ?thesis
    by (simp only: remove_step cache_inv_def snd_conv CollabCache.simps) (simp add: map_lookup)
qed

lemma get_step:
  assumes "cache_inv K c" and "op_allowed V (OpGet fails params) (cc_db c)"
  shows "fst (cache_get_collab_encoded V K \<lparr>cf_db = no_faults, cf_redis = fails\<rparr> params c) =
      disk_get_collab_encoded V K no_faults params (cc_db c)"
    and "cache_inv K (snd (cache_get_collab_encoded V K \<lparr>cf_db = no_faults, cf_redis = fails\<rparr> params c))"
    and "cc_db (snd (cache_get_collab_encoded V K \<lparr>cf_db = no_faults, cf_redis = fails\<rparr> params c)) = cc_db c"
proof -
  let ?oid = "qc_object_id (qp_inner params)"
  let ?r = "disk_get_collab_encoded V K no_faults params (cc_db c)"
  show "fst (cache_get_collab_encoded V K \<lparr>cf_db = no_faults, cf_redis = fails\<rparr> params c) = ?r"
    using get_hit [OF assms] by (auto simp: cache_get_collab_encoded_def Let_def split: option.splits sum.splits)
  show "cc_db (snd (cache_get_collab_encoded V K \<lparr>cf_db = no_faults, cf_redis = fails\<rparr> params c)) = cc_db c"
    by (simp add: cache_get_collab_encoded_def Let_def split: option.splits sum.splits)
  have k: "codec_law K" using assms(1) by (simp add: cache_inv_def)
  have "cache_inv K (c\<lparr>cc_redis := insert_encode_collab K f ?oid e (cc_redis c)\<rparr>)" if "?r = Ok e" for f e
    using assms(1) get_miss [OF k that]
    by (auto simp: cache_inv_def insert_encode_collab_def insert_encode_collab_bytes_def map_lookup split: option.splits)
  then show "cache_inv K (snd (cache_get_collab_encoded V K \<lparr>cf_db = no_faults, cf_redis = fails\<rparr> params c))"
    using assms(1)
    by (auto simp: cache_get_collab_encoded_def Let_def split: option.splits sum.splits) (auto simp: cache_inv_def)
qed

lemma fst_case_prod_pair: "fst (case p of (x, y) \<Rightarrow> (f x, y)) = f (fst p)" "snd (case p of (x, y) \<Rightarrow> (f x, y)) = snd p"
  by (simp_all split: prod.splits)

interpretation cached: simulation "cache_inv K" cc_db "op_allowed V" "cached_step V K" "plain_step V K" for K V
proof
  fix c and x :: "'b cache_op"
  assume i: "cache_inv K c" and a: "op_allowed V x (cc_db c)"
  show "cache_inv K (snd (cached_step V K x c))"
  proof (cases x)
    case (OpGet fails params)
    with get_step(2) [of K c V fails params] i a show ?thesis by (simp add: fst_case_prod_pair)
  next
    case (OpPut w uid params)
    with put_inv [of K c V w uid params] i a show ?thesis by (simp add: put_redis split: sum.splits)
  next
    case (OpRemove now oid)
    with remove_inv [OF i] show ?thesis by (simp add: fst_case_prod_pair)
  qed (use i in \<open>auto simp: cache_inv_def cache_expire_def map_lookup split: if_splits\<close>)
  show "fst (cached_step V K x c) = fst (plain_step V K x (cc_db c))"
  proof (cases x)
    case (OpGet fails params)
    with get_step(1) [of K c V fails params] i a show ?thesis by (simp add: fst_case_prod_pair)
  qed (auto simp: put_redis remove_step disk_delete_collab_def db_delete_collab_def sql_err_def cache_is_exist_def
      split: sum.splits)
  show "cc_db (snd (cached_step V K x c)) = snd (plain_step V K x (cc_db c))"
  proof (cases x)
    case (OpGet fails params)
    with get_step(3) [of K c V fails params] i a show ?thesis by (simp add: fst_case_prod_pair)
  qed (auto simp: put_redis remove_step disk_delete_collab_def db_delete_collab_def sql_err_def cache_expire_def
      split: sum.splits)
qed

end
