(* ===== verification/Storage_Props.thy ===== *)
theory Storage_Props
  imports Storage_Refine
begin

text \<open>
  What the storage of documents promises its callers, and where it does not keep it: reading what was
  written, the permissions it asks for, and the states its cache and its policies are left in by a write
  that fails.
\<close>

section \<open>What a write leaves behind\<close>

lemma check_data_decodes: "check_encoded_collab_data K oid b = Inr u \<Longrightarrow> \<exists>e. ck_decode K b = Some e"
  by (auto simp: check_encoded_collab_data_def split: option.splits)

lemma insert_encoded_ok:
  assumes "insert_collab_encoded V K F w uid params tx c = (Inr tx1, c1)"
  shows "insert_into_af_collab V (cf_db F) uid w params tx = Inr tx1"
    and "c1 = c\<lparr>cc_redis := insert_encode_collab_bytes (cf_redis F 0) (cp_object_id params) (cp_encoded_collab_v1 params) (cc_redis c)\<rparr>"
    and "\<exists>e. ck_decode K (cp_encoded_collab_v1 params) = Some e"
  using assms by (auto simp: insert_collab_encoded_def dest: check_data_decodes split: sum.splits)

lemma insert_with_transaction_ok:
  assumes "insert_or_update_collab_with_transaction S K W w uid params tx s = (Inr tx1, s1)"
  shows "insert_collab_encoded (se_db S) K (wf_insert W) w uid params tx (cs_cache s) = (Inr tx1, cs_cache s1)"
  using assms by (auto simp: insert_or_update_collab_with_transaction_def split: sum.splits prod.splits if_splits)

lemma insert_or_update_ok:
  assumes "insert_or_update_collab S K W w uid params s = (Inr u, s2)"
  obtains tx1 s1 where
    "insert_or_update_collab_with_transaction S K W w uid params (cc_db (cs_cache s)) s = (Inr tx1, s1)"
    "s2 = s1\<lparr>cs_cache := (cs_cache s1)\<lparr>cc_db := tx1\<rparr>\<rparr>"
  using assms by (auto simp: insert_or_update_collab_def statement_def with_context_def split: sum.splits prod.splits option.splits)

text \<open>A successful write, seen from the cache: its row is in the database and its bytes are in redis.\<close>

lemma written:
  assumes "insert_or_update_collab S K W w uid params s = (Inr u, s2)"
  shows "insert_into_af_collab (se_db S) (cf_db (wf_insert W)) uid w params (cc_db (cs_cache s)) = Inr (cc_db (cs_cache s2))"
    and "cc_redis (cs_cache s2) = insert_encode_collab_bytes (cf_redis (wf_insert W) 0) (cp_object_id params)
        (cp_encoded_collab_v1 params) (cc_redis (cs_cache s))"
    and "\<exists>e. ck_decode K (cp_encoded_collab_v1 params) = Some e"
proof -
  obtain tx1 s1 where t: "insert_or_update_collab_with_transaction S K W w uid params (cc_db (cs_cache s)) s = (Inr tx1, s1)"
    and s2: "s2 = s1\<lparr>cs_cache := (cs_cache s1)\<lparr>cc_db := tx1\<rparr>\<rparr>"
    by (rule insert_or_update_ok [OF assms])
  note i = insert_encoded_ok [OF insert_with_transaction_ok [OF t]]
  show "insert_into_af_collab (se_db S) (cf_db (wf_insert W)) uid w params (cc_db (cs_cache s)) = Inr (cc_db (cs_cache s2))"
    using i(1) by (simp add: s2)
  show "cc_redis (cs_cache s2) = insert_encode_collab_bytes (cf_redis (wf_insert W) 0) (cp_object_id params)
        (cp_encoded_collab_v1 params) (cc_redis (cs_cache s))"
    using i(2) by (simp add: s2)
  show "\<exists>e. ck_decode K (cp_encoded_collab_v1 params) = Some e" by (rule i(3))
qed

lemma calm_simps [simp]: "cf_db calm = no_faults" "cf_redis calm i = False" "statement (\<lambda>i. None) n x = Inr x"
  by (simp_all add: calm_def statement_def)

text \<open>A read that redis answers, and one that it does not.\<close>

lemma cached_read:
  assumes "cf_redis F 0 = False" and "map_of (cc_redis c) (qc_object_id (qp_inner q)) = Some b" and "ck_decode K b = Some e"
  shows "fst (cache_get_collab_encoded V K F q c) = Ok e"
  using assms by (simp add: cache_get_collab_encoded_def Let_def mem_get_encode_collab_def get_encode_collab_bytes_def)

lemma uncached_read:
  assumes "map_of (cc_redis c) (qc_object_id (qp_inner q)) = None"
  shows "fst (cache_get_collab_encoded V K F q c) = disk_get_collab_encoded V K (cf_db F) q (cc_db c)"
  using assms
  by (simp add: cache_get_collab_encoded_def Let_def mem_get_encode_collab_def get_encode_collab_bytes_def split: sum.splits)

lemma deleted_stays_deleted:
  assumes "insert_into_af_collab V F uid w params db = Inr db'"
    and "\<exists>r \<in> set (db_collab db). row_oid r = cp_object_id params"
    and "\<forall>r \<in> set (db_collab db). row_oid r = cp_object_id params \<longrightarrow> row_deleted_at r \<noteq> None"
  shows "live_rows V t (cp_object_id params) db' = []"
proof -
  have "db' = update_collab_rows V uid params db"
    using insert_cases [OF assms(1)] assms(2) by (auto simp: image_iff)
  then show ?thesis using assms(3) by (auto simp: live_rows_def update_collab_rows_def filter_empty_conv)
qed

section \<open>Sample values\<close>

definition sample_db_env :: "int db_env" where
  "sample_db_env = \<lparr>de_type_value = (\<lambda>t. t), de_parse_uuid = Some, de_show_sqlx = (\<lambda>e. ''sql'')\<rparr>"

definition sample_codec :: "bytes collab_codec" where
  "sample_codec = \<lparr>ck_decode = Some, ck_encode = Some, ck_load = (\<lambda>oid e. True)\<rparr>"

definition sample_row :: "string \<Rightarrow> bytes \<Rightarrow> nat option \<Rightarrow> CollabRow" where
  "sample_row oid b deleted = \<lparr>row_oid = oid, row_blob = b, row_len = int (length b), row_partition_key = 0,
     row_encrypt = 0, row_owner_uid = 7, row_workspace_id = ''w'', row_deleted_at = deleted\<rparr>"

definition sample_cache :: CollabCache where
  "sample_cache = \<lparr>cc_db = \<lparr>db_collab = [sample_row ''c'' [1] None, sample_row ''gone'' [2] (Some 5)], db_members = [],
       db_snapshots = [], db_permissions = [], db_owner_permission = Some 1\<rparr>,
     cc_redis = [], cc_hits = 0, cc_total_attempts = 0\<rparr>"

definition sample_store :: "policy list \<Rightarrow> CollabStorage" where
  "sample_store P = \<lparr>cs_cache = sample_cache, cs_ac = sample_ac P\<rparr>"

definition sample_write :: "string \<Rightarrow> bytes \<Rightarrow> int CollabParams" where
  "sample_write oid b = \<lparr>cp_object_id = oid, cp_encoded_collab_v1 = b, cp_collab_type = 0, cp_override_if_exist = False\<rparr>"

definition sample_query :: "string \<Rightarrow> int QueryCollabParams" where
  "sample_query oid = QueryCollabParams_new oid 0 ''w''"

definition storage_env_of :: "bool \<Rightarrow> int storage_env" where
  "storage_env_of enabled = \<lparr>se_db = sample_db_env, se_casbin = casbin_std, se_enabled = enabled\<rparr>"

definition calm_write :: write_faults where
  "calm_write = \<lparr>wf_begin = None, wf_exists = None, wf_enforce = None, wf_insert = calm, wf_commit = None\<rparr>"

lemmas sample_simps = sample_db_env_def sample_codec_def sample_row_def sample_cache_def sample_store_def
  sample_write_def sample_query_def QueryCollabParams_new_def storage_env_of_def calm_write_def

lemmas write_simps = insert_or_update_collab_def insert_or_update_collab_with_transaction_def
  insert_collab_encoded_def insert_into_af_collab_def insert_encode_collab_bytes_def check_encoded_collab_data_def
  check_collab_permission_def enforce_write_collab_def enforce_existing_def cache_is_exist_def disk_is_exist_def
  is_collab_exists_def transform_record_not_found_error_def collab_enforce_action_def ac_enforce_def
  update_access_level_policy_def ac_update_policy_def enforce_write_workspace_def workspace_enforce_role_def
  validator_error_def validate_CollabParams_def all_valid_def
  validate_not_empty_str_def validate_not_empty_payload_def select_workspace_id_def fetch_optional_def
  update_collab_rows_def fetch_one_def upsert_member_row_def new_collab_row_def

section \<open>Properties\<close>

text \<open>
  C5: The redis cache cannot be seen. Every sequence of reads, writes, removals, existence tests and expiries,
  with redis refusing any read, gives the answers and the database that the same sequence gives without a
  cache, as long as queries name the type a document is stored with and no deleted document is written again.
\<close>

theorem cached_storage_refines:
  assumes "cache_inv K c" and "ops_allowed (op_allowed V) (plain_step V K) xs (cc_db c)"
  shows "fst (run_ops (cached_step V K) xs c) = fst (run_ops (plain_step V K) xs (cc_db c)) \<and>
    cc_db (snd (run_ops (cached_step V K) xs c)) = snd (run_ops (plain_step V K) xs (cc_db c))"
  using cached.run_refines [OF assms] by simp

theorem cached_storage_refines_witness:
  "fst (run_ops (cached_step sample_db_env sample_codec)
     [OpPut ''w'' 7 (sample_write ''c'' [9]), OpGet (\<lambda>i. False) (sample_query ''c''), OpRemove 8 ''c'',
      OpGet (\<lambda>i. True) (sample_query ''c'')] sample_cache) =
   [OutDone (Ok ()), OutGet (Ok [9]), OutDone (Ok ()),
    OutGet (Err (AE_RecordNotFound ''Can't find the row for query: c''))]"
proof -
  have i: "cache_inv sample_codec sample_cache" by (simp add: cache_inv_def codec_law_def sample_simps)
  show ?thesis
    by (subst conjunct1 [OF cached_storage_refines [OF i]])
      (simp_all add: sample_simps write_simps disk_get_no_faults live_rows_def disk_delete_collab_def
        db_delete_collab_def as_i32_def)
qed



text \<open>
  A deleted document can be written and the write is lost. The write of a document whose row is marked as
  deleted succeeds, and the document is read back while its entry is in redis; when the entry has expired the
  document is not found.
\<close>

theorem deleted_document_write_lost:
  assumes "insert_or_update_collab S K W w uid params s = (Inr u, s2)"
    and "\<exists>r \<in> set (db_collab (cc_db (cs_cache s))). row_oid r = cp_object_id params"
    and "\<forall>r \<in> set (db_collab (cc_db (cs_cache s))). row_oid r = cp_object_id params \<longrightarrow> row_deleted_at r \<noteq> None"
    and "cf_redis (wf_insert W) 0 = False" and "qc_object_id (qp_inner q) = cp_object_id params"
  shows "(\<exists>e. fst (cache_get_collab_encoded (se_db S) K calm q (cs_cache s2)) = Ok e) \<and>
    fst (cache_get_collab_encoded (se_db S) K calm q (cache_expire (cp_object_id params) (cs_cache s2))) =
      Err (AE_RecordNotFound (''Can't find the row for query: '' @ cp_object_id params))"
proof -
  note wr = written [OF assms(1)]
  have "map_of (cc_redis (cs_cache s2)) (qc_object_id (qp_inner q)) = Some (cp_encoded_collab_v1 params)"
    using wr(2) assms(4,5) by (simp add: insert_encode_collab_bytes_def map_lookup)
  moreover obtain e where "ck_decode K (cp_encoded_collab_v1 params) = Some e" using wr(3) by blast
  ultimately have a: "\<exists>e. fst (cache_get_collab_encoded (se_db S) K calm q (cs_cache s2)) = Ok e"
    by (intro exI [of _ e] cached_read [of calm _ _ "cp_encoded_collab_v1 params"]) simp_all
  have "map_of (cc_redis (cache_expire (cp_object_id params) (cs_cache s2))) (qc_object_id (qp_inner q)) = None"
    by (simp add: cache_expire_def map_lookup assms(5))
  then have "fst (cache_get_collab_encoded (se_db S) K calm q (cache_expire (cp_object_id params) (cs_cache s2))) =
      Err (AE_RecordNotFound (''Can't find the row for query: '' @ cp_object_id params))"
    using deleted_stays_deleted [OF wr(1) assms(2,3)]
    by (simp add: uncached_read disk_get_no_faults assms(5) cache_expire_def)
  with a show ?thesis ..
qed

theorem deleted_document_write_lost_witness:
  "\<exists>s2. insert_or_update_collab (storage_env_of False) sample_codec calm_write ''w'' 7 (sample_write ''gone'' [9]) (sample_store []) =
     (Inr (), s2) \<and> fst (cache_get_collab_encoded sample_db_env sample_codec calm (sample_query ''gone'')
        (cache_expire ''gone'' (cs_cache s2))) = Err (AE_RecordNotFound ''Can't find the row for query: gone'')"
proof -
  let ?r = "insert_or_update_collab (storage_env_of False) sample_codec calm_write ''w'' 7 (sample_write ''gone'' [9]) (sample_store [])"
  have o: "fst ?r = Inr ()" by (simp add: write_simps sample_simps)
  then have p: "?r = (Inr (), snd ?r)" by (metis prod.collapse)
  have "fst (cache_get_collab_encoded (se_db (storage_env_of False)) sample_codec calm (sample_query ''gone'')
      (cache_expire (cp_object_id (sample_write ''gone'' [9])) (cs_cache (snd ?r)))) =
    Err (AE_RecordNotFound (''Can't find the row for query: '' @ cp_object_id (sample_write ''gone'' [9])))"
    by (rule conjunct2 [OF deleted_document_write_lost [OF p]]) (simp_all add: sample_simps)
  then have "fst (cache_get_collab_encoded sample_db_env sample_codec calm (sample_query ''gone'')
      (cache_expire ''gone'' (cs_cache (snd ?r)))) = Err (AE_RecordNotFound ''Can't find the row for query: gone'')"
    by (simp add: sample_write_def storage_env_of_def)
  with p show ?thesis by blast
qed

text \<open>
  A write whose transaction is not committed is visible. It is answered with an error and leaves the database
  as it was, and the next read returns the document that was not stored.
\<close>

theorem rolled_back_write_visible:
  assumes "insert_or_update_collab_with_transaction S K W w uid params (cc_db (cs_cache s)) s = (Inr tx, s1)"
    and "wf_begin W = None" and "wf_commit W = Some err"
    and "cf_redis (wf_insert W) 0 = False" and "qc_object_id (qp_inner q) = cp_object_id params"
  shows "\<exists>s2 e. insert_or_update_collab S K W w uid params s =
      (Err (AE_Internal ''fail to commit the transaction to upsert collab''), s2) \<and>
    cc_db (cs_cache s2) = cc_db (cs_cache s) \<and> ck_decode K (cp_encoded_collab_v1 params) = Some e \<and>
    fst (cache_get_collab_encoded (se_db S) K calm q (cs_cache s2)) = Ok e"
proof -
  note i = insert_encoded_ok [OF insert_with_transaction_ok [OF assms(1)]]
  obtain e where e: "ck_decode K (cp_encoded_collab_v1 params) = Some e" using i(3) by blast
  have "\<exists>v. validator_error (validate_CollabParams params) = Inr v"
    using assms(1) by (auto simp: insert_or_update_collab_with_transaction_def split: sum.splits)
  then have r: "insert_or_update_collab S K W w uid params s =
      (Err (AE_Internal ''fail to commit the transaction to upsert collab''), s1)"
    using assms(1-3) by (auto simp: insert_or_update_collab_def)
  have "map_of (cc_redis (cs_cache s1)) (qc_object_id (qp_inner q)) = Some (cp_encoded_collab_v1 params)"
    using i(2) assms(4,5) by (simp add: insert_encode_collab_bytes_def map_lookup)
  then have "fst (cache_get_collab_encoded (se_db S) K calm q (cs_cache s1)) = Ok e"
    using e by (intro cached_read [of calm _ _ "cp_encoded_collab_v1 params"]) simp_all
  then show ?thesis using r i(2) e by auto
qed

theorem rolled_back_write_visible_witness:
  "\<exists>s2. insert_or_update_collab (storage_env_of False) sample_codec (calm_write\<lparr>wf_commit := Some SqlxPoolTimedOut\<rparr>) ''w'' 7
       (sample_write ''c'' [9]) (sample_store []) =
     (Err (AE_Internal ''fail to commit the transaction to upsert collab''), s2) \<and>
    cc_db (cs_cache s2) = cc_db sample_cache \<and>
    fst (cache_get_collab_encoded sample_db_env sample_codec calm (sample_query ''c'') (cs_cache s2)) = Ok [9]"
proof -
  let ?W = "calm_write\<lparr>wf_commit := Some SqlxPoolTimedOut\<rparr>"
  let ?r = "insert_or_update_collab_with_transaction (storage_env_of False) sample_codec ?W ''w'' 7 (sample_write ''c'' [9])
    (cc_db (cs_cache (sample_store []))) (sample_store [])"
  have "\<exists>tx. fst ?r = Inr tx" by (simp add: write_simps sample_simps)
  then obtain tx where p: "?r = (Inr tx, snd ?r)" by (metis prod.collapse)
  have "qc_object_id (qp_inner (sample_query ''c'')) = cp_object_id (sample_write ''c'' [9])" by (simp add: sample_simps)
  from rolled_back_write_visible [OF p _ _ _ this, of SqlxPoolTimedOut] show ?thesis
    by (auto simp: calm_write_def sample_codec_def sample_write_def storage_env_of_def sample_store_def)
qed

text \<open>
  A refused insert makes its author the document's owner. When a document does not exist, inserting it puts the
  full access of the user into the policies before the user's role in the workspace is asked for, and the refusal
  does not take it back: afterwards the user may read, write and delete the document.
\<close>

theorem refused_insert_grants_access:
  assumes "casbin_laws (se_casbin S)" and "ac_inv (cs_ac s)" and "se_enabled S"
    and "validate_CollabParams params = Ok ()" and "wf_begin W = None" and "wf_exists W = None"
    and "\<not> list_ex (\<lambda>r. row_oid r = cp_object_id params) (db_collab (cc_db (cs_cache s)))"
    and "role_policy uid w RoleOwner \<notin> set (ef_policies (ac_enforcer (cs_ac s)))"
  shows "\<exists>s2. insert_or_update_collab S K W w uid params s =
      (Err (AE_NotEnoughPermissions (int_to_string uid) (''write workspace:'' @ w)), s2) \<and>
    fst (enforce_delete S v uid (cp_object_id params) (cs_ac s2)) \<and>
    fst (collab_enforce_action (se_casbin S) True v uid (cp_object_id params) act (cs_ac s2))"
proof -
  let ?oid = "cp_object_id params"
  obtain a where u: "update_access_level_policy (se_casbin S) True uid ?oid FullAccess (cs_ac s) = (Ok (), a)"
    by (simp add: update_access_level_policy_def ac_update_policy_def enforcer_update_policy_def)
  then have a: "a = snd (update_access_level_policy (se_casbin S) True uid ?oid FullAccess (cs_ac s))" by simp
  have p: "set (ef_policies (ac_enforcer a)) = insert (level_policy uid ?oid FullAccess) (set (ef_policies (ac_enforcer (cs_ac s))))"
    using assms(1) by (simp add: a update_access_level_policy_def ac_update_policy_def enforcer_update_policy_def casbin_laws_def
        level_policy_def)
  have i: "ac_inv a"
    using assms(2) p by (auto simp: ac_inv_def policies_wf_def a update_access_level_policy_def ac_update_policy_def
        enforcer_update_policy_def)
  obtain ok b where w: "enforce_write_workspace S uid w a = (ok, b)" by (rule prod.exhaust)
  have g: "ac_enforcer b = (ac_enforcer a)\<lparr>ef_total_read_enforce_result := ef_total_read_enforce_result (ac_enforcer a) + 1\<rparr>"
    using assms(3) w by (auto simp: enforce_write_workspace_def workspace_enforce_role_def ac_enforce_def enforce_policy_def Let_def)
  have ib: "ac_inv b" using i by (simp add: ac_inv_def g)
  have d: "fst (enforce_delete S v uid ?oid b)" "fst (collab_enforce_action (se_casbin S) True v uid ?oid act b)"
    using assms(3) p by (auto simp: enforce_delete_def collab_enforce_access_level_def collab_enforce_action_def g
        enforce_level_iff [OF assms(1) ib] enforce_action_iff(1) [OF assms(1) ib] intro: exI [of _ FullAccess])
  have n: "\<not> ok"
    using assms(3,8) p arg_cong [OF w, of fst] by (simp add: enforce_write_workspace_def workspace_enforce_role_def
        enforce_role_iff [OF assms(1) i] role_policy_def level_policy_def)
  have x: "is_collab_exists None ?oid (cc_db (cs_cache s)) = Inr False"
    using assms(7) by (simp add: is_collab_exists_def transform_record_not_found_error_def)
  have "insert_or_update_collab S K W w uid params s =
      (Err (AE_NotEnoughPermissions (int_to_string uid) (''write workspace:'' @ w)), s\<lparr>cs_ac := b\<rparr>)"
    using assms(3-6) u w n x
    by (simp add: insert_or_update_collab_def insert_or_update_collab_with_transaction_def validator_error_def
        check_collab_permission_def)
  then show ?thesis using d by auto
qed

theorem refused_insert_grants_access_witness:
  "\<exists>s2. insert_or_update_collab (storage_env_of True) sample_codec calm_write ''w'' 7 (sample_write ''new'' [9]) (sample_store []) =
     (Err (AE_NotEnoughPermissions (int_to_string 7) ''write workspace:w''), s2) \<and>
    fst (enforce_delete (storage_env_of True) ''w'' 7 ''new'' (cs_ac s2))"
proof -
  have c: "casbin_laws (se_casbin (storage_env_of True))" by (simp add: storage_env_of_def casbin_laws_std)
  have i: "ac_inv (cs_ac (sample_store []))" by (simp add: sample_store_def sample_ac_inv policies_wf_def)
  have o: "cp_object_id (sample_write ''new'' [9]) = ''new''" by (simp add: sample_write_def)
  have v: "validate_CollabParams (sample_write ''new'' [9]) = Ok ()"
    by (simp add: validate_CollabParams_def all_valid_def sample_write_def validate_not_empty_str_def validate_not_empty_payload_def)
  have e: "se_enabled (storage_env_of True)" "wf_begin calm_write = None" "wf_exists calm_write = None"
    by (simp_all add: storage_env_of_def calm_write_def)
  have n: "\<not> list_ex (\<lambda>r. row_oid r = cp_object_id (sample_write ''new'' [9])) (db_collab (cc_db (cs_cache (sample_store []))))"
    "role_policy 7 ''w'' RoleOwner \<notin> set (ef_policies (ac_enforcer (cs_ac (sample_store []))))"
    by (simp_all add: sample_simps sample_ac_def AFEnforcer_new_def)
  from refused_insert_grants_access [OF c i e(1) v e(2,3) n, of sample_codec "''w''"] show ?thesis by (auto simp: o)
qed



text \<open>The outcome of the attempts: of the first that does not time out, or of the third.\<close>

fun attempts_outcome :: "faults \<Rightarrow> sqlx_error option" where
  "attempts_outcome F =
     (if F 0 \<noteq> Some SqlxPoolTimedOut then F 0 else if F 1 \<noteq> Some SqlxPoolTimedOut then F 1 else F 2)"

text \<open>
  The database is asked for a document at most three times. Only a timeout of the connection pool is tried again,
  and the answer is that of the first of three attempts that ends otherwise, or of the third.
\<close>

theorem three_attempts:
  "disk_get_collab_encoded V K F params db =
     (case attempts_outcome F of
        None \<Rightarrow> disk_get_collab_encoded V K no_faults params db
      | Some e \<Rightarrow>
          (if e = SqlxRowNotFound then Err (AE_RecordNotFound (''Can't find the row for query: '' @ qc_object_id (qp_inner params)))
           else Err (app_error_from_sqlx (de_show_sqlx V) e)))"
proof -
  let ?t = "qc_collab_type (qp_inner params)" and ?o = "qc_object_id (qp_inner params)"
  have last: "disk_get_loop V K F i ?t ?o db =
     (case F i of None \<Rightarrow> disk_get_collab_encoded V K no_faults params db
      | Some e \<Rightarrow>
          (if e = SqlxRowNotFound then Err (AE_RecordNotFound (''Can't find the row for query: '' @ ?o))
           else Err (app_error_from_sqlx (de_show_sqlx V) e)))" if "F i \<noteq> Some SqlxPoolTimedOut \<or> i = 2" for i
    using that
    by (subst disk_get_loop.simps)
      (auto simp: select_blob_from_af_collab_def disk_get_no_faults fetch_one_def MAX_ATTEMPTS_def split: option.splits list.splits)
  have again: "disk_get_loop V K F i ?t ?o db = disk_get_loop V K F (Suc i) ?t ?o db"
    if "F i = Some SqlxPoolTimedOut" "i < 2" for i
    using that by (subst disk_get_loop.simps) (simp add: select_blob_from_af_collab_def MAX_ATTEMPTS_def)
  show ?thesis
    unfolding disk_get_collab_encoded_def [of V K F] using last [of 0] last [of 1] last [of 2] again [of 0] again [of 1]
    by (simp add: numeral_2_eq_2)
qed

text \<open>
  A batch of queries is answered without asking for permission. Whoever asks and whatever the policies are, the
  batch returns each document that is in the database under the type the query names.
\<close>

theorem batch_get_unchecked:
  assumes "r \<in> set (live_rows (se_db S) (qc_collab_type q) (qc_object_id q) (cc_db (cs_cache s)))"
    and "distinct (map row_oid (db_collab (cc_db (cs_cache s))))"
    and "cc_redis (cs_cache s) = []" and "qc_object_id q \<noteq> []" and "cf_db F = no_faults"
  shows "batch_get_collab S F uid [q] (s\<lparr>cs_ac := a\<rparr>) = [(qc_object_id q, QC_Success (row_blob r))]"
proof -
  have r: "r \<in> set (db_collab (cc_db (cs_cache s)))" "row_oid r = qc_object_id q" "row_deleted_at r = None"
    "row_partition_key r = de_type_value (se_db S) (qc_collab_type q)"
    using assms(1) by (auto simp: live_rows_def)
  have "filter (\<lambda>r. row_oid r = qc_object_id q \<and> row_partition_key r = de_type_value (se_db S) (qc_collab_type q) \<and>
      row_deleted_at r = None) (db_collab (cc_db (cs_cache s))) = [r]"
    by (rule filter_by_key [OF assms(2) r(1)]) (use r in simp_all)
  then show ?thesis
    using assms(3-5) r(2)
    by (simp add: batch_get_collab_def batch_get_encode_collab_def get_encode_collab_bytes_def batch_select_collab_blob_def
        batch_select_one_def no_faults_def validate_QueryCollab_def map_extend_def Let_def)
qed

theorem batch_get_unchecked_witness:
  "batch_get_collab (storage_env_of True) calm 666 [\<lparr>qc_object_id = ''c'', qc_collab_type = 0\<rparr>] ((sample_store [])\<lparr>cs_ac := sample_ac []\<rparr>) =
     [(''c'', QC_Success [1])]"
  using batch_get_unchecked [of "sample_row ''c'' [1] None" "storage_env_of True" "\<lparr>qc_object_id = ''c'', qc_collab_type = 0\<rparr>"
      "sample_store []" calm 666 "sample_ac []"]
  by (simp add: live_rows_def sample_simps)

end
