(* ===== verification/Snapshot_Props.thy ===== *)
theory Snapshot_Props
  imports Snapshot Storage_Props
begin

text \<open>
  The snapshots of a document: how many are kept, which the runner writes and when, and what a reader of
  snapshots gets.
\<close>

section \<open>The rows of a document\<close>

lemma sort_key_last_least:
  "(\<And>y. y \<in> set xs \<Longrightarrow> f x < f y) \<Longrightarrow> sort_key f (xs @ [x]) = x # sort_key f (xs :: 'a list)"
  for f :: "'a \<Rightarrow> int"
proof (induction xs)
  case (Cons y ys)
  then have "f x < f y" by simp
  moreover have "sort_key f (ys @ [x]) = x # sort_key f ys" using Cons by simp
  ultimately show ?case by (simp add: not_le)
qed simp

lemma filter_keep_keys:
  assumes "distinct (map k xs)"
  shows "mset (filter (\<lambda>r. k r \<in> k ` set (take n (sort_key f xs))) xs) = mset (take n (sort_key f xs))"
proof -
  let ?s = "sort_key f xs"
  let ?P = "\<lambda>r. k r \<in> k ` set (take n ?s)"
  have "distinct (map k ?s)" using assms by (metis distinct_map distinct_sort set_sort)
  then have dx: "distinct (map k (take n ?s @ drop n ?s))" by simp
  have "filter ?P (drop n ?s) = []"
    using dx unfolding map_append distinct_append by (auto simp: filter_empty_conv)
  moreover have "filter ?P (take n ?s) = take n ?s" by (simp add: filter_id_conv)
  ultimately have "filter ?P (take n ?s @ drop n ?s) = take n ?s" by (simp only: filter_append append_Nil2)
  then have "mset (filter ?P ?s) = mset (take n ?s)" by simp
  then show ?thesis by (simp add: mset_filter)
qed

definition fresh_snapshot :: "tick_env \<Rightarrow> Db \<Rightarrow> bool" where
  "fresh_snapshot T db \<longleftrightarrow>
     list_all (\<lambda>r. sn_sid r \<noteq> te_sid T \<and> sn_created_at r < te_created_at T) (db_snapshots db)"

lemma snapshot_rows_update: "db_snapshots (db\<lparr>db_snapshots := xs\<rparr>) = xs"
  by simp

lemma keep_newest_rows:
  "db_snapshots (keep_newest_snapshots limit oid db) =
     filter (\<lambda>r. \<not> (sn_oid r = oid \<and> sn_sid r \<notin> sn_sid ` set (take (nat limit) (by_created_desc (snapshots_of oid db)))))
       (db_snapshots db)"
  by (simp add: keep_newest_snapshots_def Let_def)

text \<open>What a snapshot that was stored leaves of its document's rows and of the others.\<close>

lemma maintain_rows:
  assumes "create_snapshot_and_maintain_limit V F sid t w oid b limit db = Inr (meta, db')"
    and "distinct (map sn_sid (db_snapshots db))" and "sid \<notin> sn_sid ` set (db_snapshots db)"
  shows "\<exists>ws. mset (snapshots_of oid db') =
      mset (take (nat limit) (by_created_desc (snapshots_of oid db @ [new_snapshot_row sid t oid b ws])))"
    and "o' \<noteq> oid \<Longrightarrow> snapshots_of o' db' = snapshots_of o' db"
    and "distinct (map sn_sid (db_snapshots db'))"
proof -
  obtain ws where db': "db' = keep_newest_snapshots limit oid (db\<lparr>db_snapshots := db_snapshots db @ [new_snapshot_row sid t oid b ws]\<rparr>)"
    using assms(1)
    by (auto simp: create_snapshot_and_maintain_limit_def try_bind_Inr_iff sql_err_def with_context_def statement_def
        split: option.splits sum.splits if_splits)
  let ?n = "new_snapshot_row sid t oid b ws"
  let ?rows = "snapshots_of oid db @ [?n]"
  let ?keep = "take (nat limit) (by_created_desc ?rows)"
  have n: "sn_oid ?n = oid" "sn_sid ?n = sid" by (simp_all add: new_snapshot_row_def)
  have r: "snapshots_of oid (db\<lparr>db_snapshots := db_snapshots db @ [?n]\<rparr>) = ?rows" using n by (simp add: snapshots_of_def)
  define S where "S = sn_sid ` set ?keep"
  have all: "db_snapshots db' = filter (\<lambda>r. \<not> (sn_oid r = oid \<and> sn_sid r \<notin> S)) (db_snapshots db @ [?n])"
    unfolding db' keep_newest_rows r S_def snapshot_rows_update ..
  have d: "distinct (map sn_sid (db_snapshots db @ [?n]))" using assms(2,3) n by simp
  have rows: "?rows = filter (\<lambda>r. sn_oid r = oid) (db_snapshots db @ [?n])" using n by (simp add: snapshots_of_def)
  have dr: "distinct (map sn_sid ?rows)" unfolding rows by (rule distinct_map_filter [OF d])
  show "distinct (map sn_sid (db_snapshots db'))" unfolding all by (rule distinct_map_filter [OF d])
  have "snapshots_of oid db' = filter (\<lambda>r. sn_sid r \<in> S) (filter (\<lambda>r. sn_oid r = oid) (db_snapshots db @ [?n]))"
    unfolding snapshots_of_def all filter_filter by (rule filter_cong) auto
  then have "snapshots_of oid db' = filter (\<lambda>r. sn_sid r \<in> S) ?rows" by (simp only: rows)
  then show "\<exists>ws. mset (snapshots_of oid db') =
      mset (take (nat limit) (by_created_desc (snapshots_of oid db @ [new_snapshot_row sid t oid b ws])))"
    using filter_keep_keys [OF dr, of "nat limit" "\<lambda>r. - sn_created_at r"] unfolding by_created_desc_def S_def
    by (intro exI [of _ ws]) (simp only:)
  show "snapshots_of o' db' = snapshots_of o' db" if "o' \<noteq> oid"
    using that n unfolding snapshots_of_def all filter_filter by (auto intro!: filter_cong)
qed

text \<open>
  C28: A document keeps its newest snapshots, at most thirty of them. Storing one more leaves the given number, or all
  of them when there are fewer; none of those that are dropped is newer than one that stays, and the snapshots of
  other documents stay as they are.
\<close>

theorem snapshots_bounded:
  assumes "create_snapshot_and_maintain_limit V F sid t w oid b COLLAB_SNAPSHOT_LIMIT db = Inr (meta, db')"
    and "distinct (map sn_sid (db_snapshots db))" and "sid \<notin> sn_sid ` set (db_snapshots db)"
  shows "length (snapshots_of oid db') = min 30 (Suc (length (snapshots_of oid db))) \<and>
    (\<forall>k \<in> set (snapshots_of oid db'). \<forall>r \<in> set (snapshots_of oid db) - set (snapshots_of oid db').
       sn_created_at r \<le> sn_created_at k) \<and>
    (\<forall>o'. o' \<noteq> oid \<longrightarrow> snapshots_of o' db' = snapshots_of o' db)"
proof -
  obtain ws where m: "mset (snapshots_of oid db') =
      mset (take 30 (by_created_desc (snapshots_of oid db @ [new_snapshot_row sid t oid b ws])))"
    using maintain_rows(1) [OF assms] by (auto simp: COLLAB_SNAPSHOT_LIMIT_def)
  let ?s = "by_created_desc (snapshots_of oid db @ [new_snapshot_row sid t oid b ws])"
  have kept: "set (snapshots_of oid db') = set (take 30 ?s)" using m by (metis set_mset_mset)
  have "length (snapshots_of oid db') = length (take 30 ?s)" using m by (metis size_mset)
  then have l: "length (snapshots_of oid db') = min 30 (Suc (length (snapshots_of oid db)))"
    by (simp add: by_created_desc_def min.commute)
  have "sorted (map (\<lambda>r. - sn_created_at r) (take 30 ?s @ drop 30 ?s))" by (simp add: by_created_desc_def)
  then have o: "sn_created_at r \<le> sn_created_at k" if "k \<in> set (take 30 ?s)" "r \<in> set (drop 30 ?s)" for k r
    using that unfolding map_append sorted_append by auto
  have "r \<in> set (drop 30 ?s)" if "r \<in> set (snapshots_of oid db) - set (take 30 ?s)" for r
  proof -
    have "r \<in> set ?s" using that by (simp add: by_created_desc_def)
    then show ?thesis using that by (metis Diff_iff UnE append_take_drop_id set_append)
  qed
  then show ?thesis using l o maintain_rows(2) [OF assms] unfolding kept by blast
qed

theorem snapshots_bounded_witness:
  "let db = (cc_db sample_cache)\<lparr>db_snapshots := map (\<lambda>i. new_snapshot_row i i ''c'' [1] ''w'') [1..30]\<rparr> in
   \<exists>meta db'. create_snapshot_and_maintain_limit sample_db_env no_faults 31 31 ''w'' ''c'' [2] COLLAB_SNAPSHOT_LIMIT db = Inr (meta, db') \<and>
     length (snapshots_of ''c'' db') = 30"
proof -
  let ?db = "(cc_db sample_cache)\<lparr>db_snapshots := map (\<lambda>i. new_snapshot_row i i ''c'' [1] ''w'') [1..30]\<rparr>"
  let ?r = "create_snapshot_and_maintain_limit sample_db_env no_faults 31 31 ''w'' ''c'' [2] COLLAB_SNAPSHOT_LIMIT ?db"
  have "\<exists>m. ?r = Inr m" by (simp add: create_snapshot_and_maintain_limit_def sample_db_env_def)
  then obtain meta db' where r: "?r = Inr (meta, db')" by auto
  have d: "distinct (map sn_sid (db_snapshots ?db))" "31 \<notin> sn_sid ` set (db_snapshots ?db)"
    by (simp_all add: new_snapshot_row_def comp_def image_image)
  have "snapshots_of ''c'' ?db = db_snapshots ?db"
    by (simp add: snapshots_of_def filter_id_conv new_snapshot_row_def)
  then have "length (snapshots_of ''c'' ?db) = 30" by simp
  with snapshots_bounded [OF r d] r show ?thesis by auto
qed

section \<open>The runner\<close>

definition quiet_tick :: "tick_env \<Rightarrow> bool" where
  "quiet_tick T \<longleftrightarrow> \<not> te_locked T \<and> \<not> te_get_fails T \<and> \<not> te_begin_fails T \<and> te_db T = no_faults \<and> \<not> te_remove_fails T"

definition pending_data :: "SnapshotRunner \<Rightarrow> string \<Rightarrow> bytes option" where
  "pending_data s oid = map_of (sr_cache s) (SnapshotKey_from_object_id oid)"

definition pending_items :: "SnapshotRunner \<Rightarrow> PendingItem set" where
  "pending_items s = set (pq_queue (sr_queue s))"

text \<open>Whatever is pending can be written: its workspace id is a uuid, and its data is a document.\<close>

definition item_writable :: "'t db_env \<Rightarrow> 'e collab_codec \<Rightarrow> SnapshotRunner \<Rightarrow> PendingItem \<Rightarrow> bool" where
  "item_writable V K s i \<longleftrightarrow> de_parse_uuid V (pi_workspace_id i) \<noteq> None \<and>
     (case pending_data s (pi_object_id i) of Some b \<Rightarrow> is_ok (check_encoded_collab_data K (pi_object_id i) b) | None \<Rightarrow> True)"

lemma create_snapshot_no_faults:
  "de_parse_uuid V w = Some ws \<Longrightarrow> create_snapshot_and_maintain_limit V no_faults sid t w oid b limit db =
     Ok (\<lparr>sm_snapshot_id = sid, sm_object_id = oid, sm_created_at = t\<rparr>,
         keep_newest_snapshots limit oid (db\<lparr>db_snapshots := db_snapshots db @ [new_snapshot_row sid t oid b ws]\<rparr>))"
  by (simp add: create_snapshot_and_maintain_limit_def)

lemma newest_kept:
  assumes "create_snapshot_and_maintain_limit V F sid t w oid b limit db = Inr (meta, db')"
    and "distinct (map sn_sid (db_snapshots db))"
    and "list_all (\<lambda>r. sn_sid r \<noteq> sid \<and> sn_created_at r < t) (db_snapshots db)" and "0 < limit"
  shows "\<exists>r \<in> set (snapshots_of oid db'). sn_blob r = b"
proof -
  have s: "sid \<notin> sn_sid ` set (db_snapshots db)" using assms(3) by (auto simp: list_all_iff)
  obtain ws where "mset (snapshots_of oid db') =
      mset (take (nat limit) (by_created_desc (snapshots_of oid db @ [new_snapshot_row sid t oid b ws])))"
    using maintain_rows(1) [OF assms(1,2) s] by blast
  moreover have "by_created_desc (snapshots_of oid db @ [new_snapshot_row sid t oid b ws]) =
      new_snapshot_row sid t oid b ws # by_created_desc (snapshots_of oid db)"
    unfolding by_created_desc_def
    by (rule sort_key_last_least) (use assms(3) in \<open>auto simp: list_all_iff snapshots_of_def new_snapshot_row_def\<close>)
  moreover obtain n where "nat limit = Suc n" using assms(4) by (metis gr0_implies_Suc zero_less_nat_eq)
  ultimately have "new_snapshot_row sid t oid b ws \<in> set (snapshots_of oid db')"
    by (metis list.set_intros(1) set_mset_mset take_Suc_Cons)
  then show ?thesis by (rule bexI [rotated]) (simp add: new_snapshot_row_def)
qed

definition tick_fine :: "tick_env \<Rightarrow> SnapshotRunner \<Rightarrow> bool" where
  "tick_fine T s \<longleftrightarrow> quiet_tick T \<and> fresh_snapshot T (sr_db s)"

definition snapshot_rows_wf :: "SnapshotRunner \<Rightarrow> bool" where
  "snapshot_rows_wf s \<longleftrightarrow> distinct (map sn_sid (db_snapshots (sr_db s)))"

lemma quiet_tick_empty:
  "pq_queue (sr_queue s) = [] \<Longrightarrow> snd (handle_command V K T Tick s) = s"
  by (simp add: process_next_batch_def pop_item_def Let_def)

text \<open>A quiet tick writes the oldest item, or drops it when its data is gone.\<close>

lemma quiet_tick_step:
  assumes "tick_fine T s" and "snapshot_rows_wf s"
    and "bheap_pop pending_cmp (pq_queue (sr_queue s)) = Some (i, rest)" and "item_writable V K s i"
  defines "s' \<equiv> snd (handle_command V K T Tick s)"
  shows "pq_queue (sr_queue s') = rest"
    and "pending_data s' x = (if x = pi_object_id i then None else pending_data s x)"
    and "snapshot_rows_wf s'"
    and "pending_data s (pi_object_id i) = Some b \<Longrightarrow> \<exists>r \<in> set (snapshots_of (pi_object_id i) (sr_db s')). sn_blob r = b"
    and "x \<noteq> pi_object_id i \<or> pending_data s x = None \<Longrightarrow> snapshots_of x (sr_db s') = snapshots_of x (sr_db s)"
proof -
  let ?oid = "pi_object_id i"
  have q: "\<not> te_locked T" "\<not> te_get_fails T" "\<not> te_begin_fails T" "te_db T = no_faults" "\<not> te_remove_fails T"
    and f: "fresh_snapshot T (sr_db s)" using assms(1) by (simp_all add: tick_fine_def quiet_tick_def)
  have p: "pop_item (sr_queue s) = (Some i, (sr_queue s)\<lparr>pq_queue := rest\<rparr>)" using assms(3) by (simp add: pop_item_def)
  let ?goal = "pq_queue (sr_queue s') = rest \<and>
    (\<forall>x. pending_data s' x = (if x = ?oid then None else pending_data s x)) \<and> snapshot_rows_wf s' \<and>
    (\<forall>b. pending_data s ?oid = Some b \<longrightarrow> (\<exists>r \<in> set (snapshots_of ?oid (sr_db s')). sn_blob r = b)) \<and>
    (\<forall>x. x \<noteq> ?oid \<or> pending_data s x = None \<longrightarrow> snapshots_of x (sr_db s') = snapshots_of x (sr_db s))"
  have ?goal
  proof (cases "pending_data s ?oid")
    case None
    then have s': "s' = s\<lparr>sr_queue := (sr_queue s)\<lparr>pq_queue := rest\<rparr>, sr_total_attempts := sr_total_attempts s + 1\<rparr>"
      using p q unfolding s'_def by (simp add: process_next_batch_def Let_def snapshot_try_get_def pending_data_def)
    then show ?thesis using None assms(2) by (simp add: pending_data_def snapshot_rows_wf_def)
  next
    case (Some b)
    obtain ws where ws: "de_parse_uuid V (pi_workspace_id i) = Some ws" using assms(4) by (auto simp: item_writable_def)
    have ok: "check_encoded_collab_data K ?oid b = Inr ()"
      using assms(4) Some by (auto simp: item_writable_def is_ok_def split: sum.splits)
    obtain meta db' where c: "create_snapshot_and_maintain_limit V no_faults (te_sid T) (te_created_at T) (pi_workspace_id i) ?oid b
        COLLAB_SNAPSHOT_LIMIT (sr_db s) = Inr (meta, db')"
      using create_snapshot_no_faults [OF ws] by blast
    have s': "s' = s\<lparr>sr_queue := (sr_queue s)\<lparr>pq_queue := rest\<rparr>, sr_total_attempts := sr_total_attempts s + 1,
        sr_db := db', sr_cache := map_remove (sr_cache s) (SnapshotKey_from_object_id ?oid),
        sr_success_attempts := sr_success_attempts s + 1\<rparr>"
      using p q Some ok c unfolding s'_def
      by (simp add: process_next_batch_def Let_def snapshot_try_get_def pending_data_def snapshot_remove_def)
    have d: "distinct (map sn_sid (db_snapshots (sr_db s)))" using assms(2) by (simp add: snapshot_rows_wf_def)
    have n: "te_sid T \<notin> sn_sid ` set (db_snapshots (sr_db s))" using f by (auto simp: fresh_snapshot_def list_all_iff)
    note m = maintain_rows(2,3) [OF c d n]
    have k: "\<exists>r \<in> set (snapshots_of ?oid db'). sn_blob r = b"
      using newest_kept [OF c d] f by (simp add: fresh_snapshot_def COLLAB_SNAPSHOT_LIMIT_def)
    have cache: "pending_data s' x = (if x = ?oid then None else pending_data s x)" for x
      unfolding s' pending_data_def by (simp add: map_lookup)
    have "pq_queue (sr_queue s') = rest" "snapshot_rows_wf s'" "sr_db s' = db'"
      using m(2) by (simp_all add: s' snapshot_rows_wf_def)
    then show ?thesis using cache k m(1) Some by auto
  qed
  then show "pq_queue (sr_queue s') = rest"
    and "pending_data s' x = (if x = ?oid then None else pending_data s x)"
    and "snapshot_rows_wf s'"
    and "pending_data s ?oid = Some b \<Longrightarrow> \<exists>r \<in> set (snapshots_of ?oid (sr_db s')). sn_blob r = b"
    and "x \<noteq> ?oid \<or> pending_data s x = None \<Longrightarrow> snapshots_of x (sr_db s') = snapshots_of x (sr_db s)"
    by blast+
qed

lemma item_writable_shrinks:
  "item_writable V K s i \<Longrightarrow> pending_data s' (pi_object_id i) = None \<or> pending_data s' (pi_object_id i) = pending_data s (pi_object_id i) \<Longrightarrow>
     item_writable V K s' i"
  by (auto simp: item_writable_def)

text \<open>The ticks of a run, each quiet and with a new id and a later time.\<close>

abbreviation runner_ticks where
  "runner_ticks V K Ts s \<equiv> snd (run_ops (\<lambda>T s. handle_command V K T Tick s) Ts s)"

abbreviation fine_ticks where
  "fine_ticks V K Ts s \<equiv> ops_allowed tick_fine (\<lambda>T s. handle_command V K T Tick s) Ts s"

lemma quiet_ticks_run:
  assumes "fine_ticks V K Ts s" and "snapshot_rows_wf s" and "\<forall>i \<in> pending_items s. item_writable V K s i"
    and "length Ts = length (pq_queue (sr_queue s))"
  shows "pq_queue (sr_queue (runner_ticks V K Ts s)) = [] \<and>
    (\<forall>i \<in> pending_items s. pending_data (runner_ticks V K Ts s) (pi_object_id i) = None \<and>
      (\<forall>b. pending_data s (pi_object_id i) = Some b \<longrightarrow>
        (\<exists>r \<in> set (snapshots_of (pi_object_id i) (sr_db (runner_ticks V K Ts s))). sn_blob r = b))) \<and>
    (\<forall>x. pending_data s x = None \<longrightarrow> pending_data (runner_ticks V K Ts s) x = None \<and>
      snapshots_of x (sr_db (runner_ticks V K Ts s)) = snapshots_of x (sr_db s))"
  using assms
proof (induction Ts arbitrary: s)
  case Nil
  then show ?case by (simp add: pending_items_def)
next
  note handle_command.simps [simp del]
  case (Cons T Ts)
  obtain i rest where pop: "bheap_pop pending_cmp (pq_queue (sr_queue s)) = Some (i, rest)"
    using Cons.prems(4) by (cases "bheap_pop pending_cmp (pq_queue (sr_queue s))") auto
  have mem: "pending_items s = insert i (set rest)" using bheap_pop_set [OF pop] by (simp add: pending_items_def)
  have t: "tick_fine T s" using Cons.prems(1) by simp
  have w: "item_writable V K s i" using Cons.prems(3) mem by simp
  let ?s = "snd (handle_command V K T Tick s)"
  note st = quiet_tick_step [OF t Cons.prems(2) pop w]
  have "item_writable V K ?s j" if "j \<in> pending_items ?s" for j
  proof (rule item_writable_shrinks)
    have "j \<in> pending_items s" using that st(1) mem by (simp only: pending_items_def) blast
    then show "item_writable V K s j" using Cons.prems(3) by blast
  qed (use st(2) in presburger)
  then have "\<forall>j \<in> pending_items ?s. item_writable V K ?s j" ..
  moreover have "length Ts = length (pq_queue (sr_queue ?s))"
    using Cons.prems(4) bheap_pop_length [OF pop] st(1) by simp
  moreover have "fine_ticks V K Ts ?s" using Cons.prems(1) by simp
  ultimately have IH: "pq_queue (sr_queue (runner_ticks V K Ts ?s)) = []"
    "\<forall>j \<in> pending_items ?s. pending_data (runner_ticks V K Ts ?s) (pi_object_id j) = None \<and>
      (\<forall>b. pending_data ?s (pi_object_id j) = Some b \<longrightarrow>
        (\<exists>r \<in> set (snapshots_of (pi_object_id j) (sr_db (runner_ticks V K Ts ?s))). sn_blob r = b))"
    "\<forall>x. pending_data ?s x = None \<longrightarrow> pending_data (runner_ticks V K Ts ?s) x = None \<and>
      snapshots_of x (sr_db (runner_ticks V K Ts ?s)) = snapshots_of x (sr_db ?s)"
    using Cons.IH [of ?s] st(3) by blast+
  let ?e = "runner_ticks V K Ts ?s"
  have e: "runner_ticks V K (T # Ts) s = ?e" by (rule run_ops_Cons(2))
  have "pending_data ?e (pi_object_id j) = None \<and>
      (\<forall>b. pending_data s (pi_object_id j) = Some b \<longrightarrow> (\<exists>r \<in> set (snapshots_of (pi_object_id j) (sr_db ?e)). sn_blob r = b))"
    if j: "j \<in> pending_items s" for j
  proof (cases "pi_object_id j = pi_object_id i")
    case True
    then have "pending_data ?s (pi_object_id j) = None" using st(2) by simp
    then show ?thesis using IH(3) st(4) True by simp
  next
    case False
    then have "j \<in> pending_items ?s" using j mem st(1) by (auto simp: pending_items_def)
    then show ?thesis using IH(2) st(2) False by simp
  qed
  moreover have "pending_data ?e x = None \<and> snapshots_of x (sr_db ?e) = snapshots_of x (sr_db s)"
    if x: "pending_data s x = None" for x
  proof -
    have "snapshots_of x (sr_db ?s) = snapshots_of x (sr_db s)" by (rule st(5)) (rule disjI2 [OF x])
    moreover have "pending_data ?s x = None" using st(2) x by presburger
    ultimately show ?thesis using IH(3) by presburger
  qed
  ultimately show ?case unfolding e using IH(1) by blast
qed


definition sample_tick :: "int \<Rightarrow> tick_env" where
  "sample_tick i = \<lparr>te_insert_fails = False, te_locked = False, te_get_fails = False, te_begin_fails = False, te_db = no_faults,
     te_remove_fails = False, te_sid = i, te_created_at = i\<rparr>"

definition sample_insert :: "string \<Rightarrow> string \<Rightarrow> bytes \<Rightarrow> SnapshotCommand" where
  "sample_insert w oid b = InsertSnapshot \<lparr>isp_object_id = oid, isp_encoded_collab_v1 = b, isp_workspace_id = w\<rparr>"

definition sample_runner :: "SnapshotCommand list \<Rightarrow> SnapshotRunner" where
  "sample_runner cmds = foldl (\<lambda>s c. snd (handle_command sample_db_env sample_codec (sample_tick 0) c s))
     (sc_runner (SnapshotControl_new (cc_db sample_cache) [])) cmds"

lemmas sample_runner_simps = sample_runner_def sample_insert_def sample_tick_def SnapshotControl_new_def PendingQueue_new_def
  generate_item_def push_item_def bheap_push_def snapshot_insert_def sample_cache_def


text \<open>A tick that cannot write the oldest item puts it back where it was.\<close>

lemma blocked_tick:
  assumes "quiet_tick T" and "i \<in> pending_items s" and "\<forall>j \<in> pending_items s. j \<noteq> i \<longrightarrow> sint (pi_seq i) < sint (pi_seq j)"
    and "de_parse_uuid V (pi_workspace_id i) = None" and "pending_data s (pi_object_id i) = Some b"
    and "check_encoded_collab_data K (pi_object_id i) b = Inr u"
  defines "s' \<equiv> snd (handle_command V K T Tick s)"
  shows "sr_db s' = sr_db s \<and> sr_cache s' = sr_cache s \<and> mset (pq_queue (sr_queue s')) = mset (pq_queue (sr_queue s))"
proof -
  obtain x rest where pop: "bheap_pop pending_cmp (pq_queue (sr_queue s)) = Some (x, rest)"
    using assms(2) by (cases "bheap_pop pending_cmp (pq_queue (sr_queue s))") (auto simp: pending_items_def)
  have "pending_cmp i x \<noteq> Greater" using pending.bheap_pop_max [OF pop] assms(2) by (simp add: pending_items_def)
  moreover have "x \<in> pending_items s" using bheap_pop_set [OF pop] by (simp add: pending_items_def)
  ultimately have "x = i" using assms(3) by (auto simp: pending_cmp_def)
  then show ?thesis
    using assms(1,4-6) pop bheap_pop_mset [OF pop] unfolding s'_def
    by (simp add: process_next_batch_def pop_item_def quiet_tick_def snapshot_try_get_def pending_data_def push_item_def
        create_snapshot_and_maintain_limit_def Let_def)
qed

text \<open>
  One snapshot that cannot be written stops all others. Only the length of a workspace id is checked when a
  snapshot is queued; when the oldest pending snapshot has one that is not a uuid, every tick puts it back at the
  head of the queue, and as long as its data does not expire nothing is written.
\<close>

theorem unwritable_snapshot_blocks_queue:
  assumes "list_all quiet_tick Ts" and "i \<in> pending_items s"
    and "\<forall>j \<in> pending_items s. j \<noteq> i \<longrightarrow> sint (pi_seq i) < sint (pi_seq j)"
    and "de_parse_uuid V (pi_workspace_id i) = None" and "pending_data s (pi_object_id i) = Some b"
    and "check_encoded_collab_data K (pi_object_id i) b = Inr u"
  shows "sr_db (runner_ticks V K Ts s) = sr_db s \<and> pending_items (runner_ticks V K Ts s) = pending_items s"
  using assms(1-3,5)
proof (induction Ts arbitrary: s)
  note handle_command.simps [simp del]
  case (Cons T Ts)
  let ?s = "snd (handle_command V K T Tick s)"
  have "quiet_tick T" using Cons.prems(1) by simp
  from blocked_tick [OF this Cons.prems(2,3) assms(4) Cons.prems(4) assms(6)]
  have st: "sr_db ?s = sr_db s" "pending_items ?s = pending_items s" "pending_data ?s (pi_object_id i) = Some b"
    using Cons.prems(4) by (auto simp: pending_items_def pending_data_def dest: mset_eq_setD)
  have "sr_db (runner_ticks V K Ts ?s) = sr_db ?s \<and> pending_items (runner_ticks V K Ts ?s) = pending_items ?s"
    using Cons.prems st by (intro Cons.IH) simp_all
  then show ?case unfolding run_ops_Cons(2) st(1,2) .
qed simp

theorem unwritable_snapshot_blocks_queue_witness:
  "db_snapshots (sr_db (runner_ticks (sample_db_env\<lparr>de_parse_uuid := (\<lambda>w. if w = ''x'' then None else Some w)\<rparr>) sample_codec
     (replicate 100 (sample_tick 1)) (sample_runner [sample_insert ''x'' ''bad'' [1], sample_insert ''w'' ''c'' [2]]))) = []"
proof -
  let ?s = "sample_runner [sample_insert ''x'' ''bad'' [1], sample_insert ''w'' ''c'' [2]]"
  let ?V = "sample_db_env\<lparr>de_parse_uuid := (\<lambda>w. if w = ''x'' then None else Some w)\<rparr>"
  let ?i = "\<lparr>pi_workspace_id = ''x'', pi_object_id = ''bad'', pi_seq = 0\<rparr>"
  have q: "pq_queue (sr_queue ?s) = [?i, \<lparr>pi_workspace_id = ''w'', pi_object_id = ''c'', pi_seq = 1\<rparr>]"
    "sr_cache ?s = [(SnapshotKey_from_object_id ''bad'', [1]), (SnapshotKey_from_object_id ''c'', [2])]"
    "db_snapshots (sr_db ?s) = []"
    by (simp_all add: sample_runner_simps)
  have "list_all quiet_tick (replicate 100 (sample_tick 1))" by (simp add: list_all_iff quiet_tick_def sample_tick_def)
  moreover have "?i \<in> pending_items ?s" "\<forall>j \<in> pending_items ?s. j \<noteq> ?i \<longrightarrow> sint (pi_seq ?i) < sint (pi_seq j)"
    by (simp_all add: pending_items_def q)
  moreover have "de_parse_uuid ?V (pi_workspace_id ?i) = None" "pending_data ?s (pi_object_id ?i) = Some [1]"
    "check_encoded_collab_data sample_codec (pi_object_id ?i) [1] = Inr ()"
    by (simp_all add: pending_data_def q sample_codec_def check_encoded_collab_data_def)
  ultimately have "sr_db (runner_ticks ?V sample_codec (replicate 100 (sample_tick 1)) ?s) = sr_db ?s"
    by (rule unwritable_snapshot_blocks_queue [THEN conjunct1])
  then show ?thesis by (simp only: q(3))
qed

section \<open>Readers\<close>

text \<open>
  What a reader of a snapshot gets. While data is pending for the document it gets that data, whichever snapshot it
  asks for; otherwise it gets the snapshot with the id it gives, whichever document and workspace it names.
\<close>

theorem get_snapshot_answer:
  "control_get_snapshot V False False None w oid sid c =
     (case pending_data (sc_runner c) oid of
        Some b \<Rightarrow> Ok \<lparr>sd_object_id = oid, sd_encoded_collab_v1 = b, sd_workspace_id = w\<rparr>
      | None \<Rightarrow>
          (case filter (\<lambda>r. sn_sid r = sid \<and> sn_deleted_at r = None) (db_snapshots (sr_db (sc_runner c))) of
             r # _ \<Rightarrow> Ok \<lparr>sd_object_id = sn_oid r, sd_encoded_collab_v1 = sn_blob r, sd_workspace_id = sn_workspace_id r\<rparr>
           | [] \<Rightarrow> Err (AE_RecordNotFound (''Can't find the snapshot with id:'' @ int_to_string sid))))"
  by (simp add: control_get_snapshot_def snapshot_try_get_def pending_data_def control_get_collab_snapshot_def select_snapshot_def
      fetch_optional_def sql_err_def split: option.splits list.splits)

text \<open>
  A document gets a new snapshot when its newest one is older than six hours. The number of snapshots per hour is
  used as a number of hours; a document without snapshots gets one, and the empty id never does.
\<close>

theorem six_hours_between_snapshots:
  "control_should_create_snapshot None now oid c \<longleftrightarrow>
     oid \<noteq> [] \<and> list_all (\<lambda>r. sn_created_at r < now - 6 * 3600) (snapshots_of oid (sr_db (sc_runner c)))"
proof -
  let ?rows = "snapshots_of oid (sr_db (sc_runner c))"
  have s: "sorted (map (\<lambda>r. - sn_created_at r) (by_created_desc ?rows))" "set (by_created_desc ?rows) = set ?rows"
    by (simp_all add: by_created_desc_def)
  show ?thesis
  proof (cases "by_created_desc ?rows")
    case Nil
    then have "?rows = []" using s(2) by simp
    then show ?thesis by (simp add: control_should_create_snapshot_def db_should_create_snapshot_def Let_def fetch_optional_def by_created_desc_def)
  next
    case (Cons r rs)
    then have "sn_created_at x \<le> sn_created_at r" if "x \<in> set ?rows" for x using that s by auto
    moreover have "r \<in> set ?rows" using s(2) Cons by auto
    ultimately show ?thesis
      by (auto simp: control_should_create_snapshot_def db_should_create_snapshot_def Let_def Cons fetch_optional_def
          SNAPSHOT_PER_HOUR_def list_all_iff dest: order.strict_trans1)
  qed
qed

end
