(* ===== verification/Batch_Upload.thy ===== *)
theory Batch_Upload
  imports Collab_Storage
begin

text \<open>
  Uploading many documents in one request: the frames the client sends
  (\<open>create_collab_list\<close> of \<open>lib/client-api/src/native/http_native.rs\<close>), the server's reader of the frames
  (\<open>batch_create_collab_handler\<close> of \<open>src/api/workspace.rs\<close>) and the compression headers (\<open>src/api/util.rs\<close>).

  The body arrives in chunks of any length; a chunk may be an error, which the reader skips.  Brotli and bincode
  are parameters with a named law.
\<close>

section \<open>Headers\<close>

text \<open>A header's value is visible ASCII or it is not.\<close>

datatype header_value = HStr string | HOpaque

type_synonym headers = "(string \<times> header_value) list"

definition X_COMPRESSION_TYPE :: string where "X_COMPRESSION_TYPE = ''X-Compression-Type''"
definition X_COMPRESSION_BUFFER_SIZE :: string where "X_COMPRESSION_BUFFER_SIZE = ''X-Compression-Buffer-Size''"

datatype CompressionType = Brotli nat

definition usize_from_str :: "string \<Rightarrow> nat option" where
  "usize_from_str s =
     (let ds = (case s of [] \<Rightarrow> [] | c # cs \<Rightarrow> if c = CHR ''+'' then cs else s);
          v = parse_digits 0 ds
      in if ds \<noteq> [] \<and> list_all is_digit ds \<and> v < 2 ^ 64 then Some v else None)"

definition compress_type_from_header_value :: "headers \<Rightarrow> AppError + CompressionType" where
  "compress_type_from_header_value hs =
     (case map_of hs X_COMPRESSION_TYPE of
        None \<Rightarrow> Err (AE_InvalidRequest ''Missing X-Compression-Type header'')
      | Some HOpaque \<Rightarrow> Err (AE_InvalidRequest ''Failed to parse X-Compression-Type'')
      | Some (HStr compression_type) \<Rightarrow>
          (case map_of hs X_COMPRESSION_BUFFER_SIZE of
             None \<Rightarrow> Err (AE_InvalidRequest ''Missing X-Compression-Buffer-Size header'')
           | Some HOpaque \<Rightarrow> Err (AE_InvalidRequest ''Failed to parse X-Compression-Buffer-Size'')
           | Some (HStr buffer_size_str) \<Rightarrow>
               (case usize_from_str buffer_size_str of
                  None \<Rightarrow> Err (AE_InvalidRequest ''X-Compression-Buffer-Size is not a valid usize'')
                | Some buffer_size \<Rightarrow>
                    (if compression_type = ''brotli'' then Ok (Brotli buffer_size)
                     else Err (AE_InvalidRequest (''Unknown compression type: '' @ compression_type))))))"

definition device_id_from_headers :: "headers \<Rightarrow> AppError + string" where
  "device_id_from_headers hs =
     (case map_of hs ''device_id'' of
        None \<Rightarrow> Err (AE_InvalidRequest ''Missing device_id header'')
      | Some HOpaque \<Rightarrow> Err (AE_InvalidRequest ''failed to parse device_id'')
      | Some (HStr s) \<Rightarrow> Ok s)"

section \<open>Frames\<close>

record 't upload_codec =
  uc_to_bytes :: "'t CollabParams \<Rightarrow> AppError + bytes"
  uc_from_bytes :: "bytes \<Rightarrow> string + 't CollabParams"
  uc_compress :: "bytes \<Rightarrow> AppError + bytes"
  uc_decompress :: "bytes \<Rightarrow> nat \<Rightarrow> AppError + bytes"

definition upload_law :: "'t upload_codec \<Rightarrow> bool" where
  "upload_law U \<longleftrightarrow>
     (\<forall>p b. uc_to_bytes U p = Inr b \<longrightarrow> uc_from_bytes U b = Inr p) \<and>
     (\<forall>b c n. uc_compress U b = Inr c \<longrightarrow> uc_decompress U c n = Inr b)"

definition u32_to_be_bytes :: "32 word \<Rightarrow> bytes" where
  "u32_to_be_bytes n = [ucast (drop_bit 24 n), ucast (drop_bit 16 n), ucast (drop_bit 8 n), ucast n]"

definition u32_from_be_bytes :: "u8 \<Rightarrow> u8 \<Rightarrow> u8 \<Rightarrow> u8 \<Rightarrow> 32 word" where
  "u32_from_be_bytes a b c d =
     or (push_bit 24 (ucast a)) (or (push_bit 16 (ucast b)) (or (push_bit 8 (ucast c)) (ucast d)))"

text \<open>The client: every document compressed, its size as a \<open>u32\<close> in front.\<close>

definition frame :: "bytes \<Rightarrow> bytes" where
  "frame compressed = u32_to_be_bytes (of_nat (length compressed)) @ compressed"

fun compress_all :: "'t upload_codec \<Rightarrow> 't CollabParams list \<Rightarrow> AppError + bytes list" where
  "compress_all U [] = Ok []"
| "compress_all U (p # ps) =
     try_bind (uc_to_bytes U p) (\<lambda>b. try_bind (uc_compress U b) (\<lambda>c. try_bind (compress_all U ps) (\<lambda>cs. Ok (c # cs))))"

definition framed_data :: "'t upload_codec \<Rightarrow> 't CollabParams list \<Rightarrow> AppError + bytes" where
  "framed_data U ps = try_bind (compress_all U ps) (\<lambda>cs. Ok (concat (map frame cs)))"

section \<open>The reader\<close>

text \<open>The inner loop: whole frames are taken off the buffer, what is left waits for more.\<close>

function drain_frames ::
  "'t upload_codec \<Rightarrow> nat \<Rightarrow> bytes \<Rightarrow> 't CollabParams list \<Rightarrow> AppError + 't CollabParams list \<times> bytes" where
  "drain_frames U buffer_size buf acc =
     (if 4 \<le> length buf then
        (let size = unat (u32_from_be_bytes (buf ! 0) (buf ! 1) (buf ! 2) (buf ! 3)) in
         if length buf < 4 + size then Ok (acc, buf)
         else
           (case uc_decompress U (take size (drop 4 buf)) buffer_size of
              Inl e \<Rightarrow> Err e
            | Inr data \<Rightarrow>
                (case uc_from_bytes U data of
                   Inl err \<Rightarrow> Err (AE_InvalidRequest (''Failed to parse CollabParams with brotli decompression data: '' @ err))
                 | Inr params \<Rightarrow>
                     (case validator_error (validate_CollabParams params) of
                        Inl e \<Rightarrow> Err e
                      | Inr _ \<Rightarrow> drain_frames U buffer_size (drop (4 + size) buf) (acc @ [params])))))
      else Ok (acc, buf))"
  by pat_completeness auto
termination
  by (relation "measure (\<lambda>(U, n, buf, acc). length buf)") auto

declare drain_frames.simps [simp del]

fun read_chunks ::
  "'t upload_codec \<Rightarrow> nat \<Rightarrow> (unit + bytes) list \<Rightarrow> bytes \<Rightarrow> 't CollabParams list \<Rightarrow> AppError + 't CollabParams list \<times> bytes" where
  "read_chunks U buffer_size [] buf acc = Ok (acc, buf)"
| "read_chunks U buffer_size (Inl _ # chunks) buf acc = read_chunks U buffer_size chunks buf acc"
| "read_chunks U buffer_size (Inr bytes # chunks) buf acc =
     try_bind (drain_frames U buffer_size (buf @ bytes) acc)
       (\<lambda>(acc1, buf1). read_chunks U buffer_size chunks buf1 acc1)"

text \<open>What the handler takes from the body; bytes left in the buffer are dropped.\<close>

definition batch_params :: "'t upload_codec \<Rightarrow> headers \<Rightarrow> (unit + bytes) list \<Rightarrow> AppError + 't CollabParams list" where
  "batch_params U hs chunks =
     try_bind (compress_type_from_header_value hs)
       (\<lambda>t. case t of Brotli buffer_size \<Rightarrow>
         try_bind (read_chunks U buffer_size chunks [] [])
           (\<lambda>(ps, rest). if ps = [] then Err (AE_InvalidRequest ''Empty collab params list'') else Ok ps))"

end
