(* ===== verification/Http_Access.thy ===== *)
theory Http_Access
  imports Storage_Props
begin

text \<open>
  The access control of HTTP requests (\<open>src/middleware/access_control_mw.rs\<close>, the middleware parts of
  \<open>src/biz/collab/access_control.rs\<close> and \<open>src/biz/workspace/access_control.rs\<close>).

  Routing is \<open>actix_router\<close>'s: a request comes with the path, the variables of the pattern it matched, and
  whether a pattern matches a path is a parameter with a named law.
\<close>

section \<open>Requests\<close>

definition WORKSPACE_ID_PATH :: string where "WORKSPACE_ID_PATH = ''workspace_id''"
definition COLLAB_OBJECT_ID_PATH :: string where "COLLAB_OBJECT_ID_PATH = ''object_id''"
definition WORKSPACE_PATTERN :: string where "WORKSPACE_PATTERN = ''/api/workspace''"
definition WORKSPACE_MEMBER_PATTERN :: string where "WORKSPACE_MEMBER_PATTERN = ''/api/workspace/{workspace_id}/member''"
definition WORKSPACE_INVITE_PATTERN :: string where "WORKSPACE_INVITE_PATTERN = ''/api/workspace/{workspace_id}/invite''"
definition COLLAB_PATTERN :: string where "COLLAB_PATTERN = ''/api/workspace/{workspace_id}/collab/{object_id}''"

lemmas path_names = WORKSPACE_ID_PATH_def COLLAB_OBJECT_ID_PATH_def WORKSPACE_PATTERN_def WORKSPACE_MEMBER_PATTERN_def
  WORKSPACE_INVITE_PATTERN_def COLLAB_PATTERN_def

record request =
  rq_method :: Method
  rq_matched :: bool
  rq_path :: string
  rq_vars :: "(string \<times> string) list"

text \<open>Patterns by segment: a segment in braces matches any segment that is not empty.\<close>

fun split_path :: "string \<Rightarrow> string list" where
  "split_path [] = [[]]"
| "split_path (c # cs) =
     (if c = CHR ''/'' then [] # split_path cs
      else case split_path cs of [] \<Rightarrow> [[c]] | s # ss \<Rightarrow> (c # s) # ss)"

definition segment_matches :: "string \<Rightarrow> string \<Rightarrow> bool" where
  "segment_matches p s \<longleftrightarrow>
     (if p \<noteq> [] \<and> hd p = CHR ''{'' \<and> last p = CHR ''}'' then s \<noteq> [] else p = s)"

definition segments_match :: "string \<Rightarrow> string \<Rightarrow> bool" where
  "segments_match pattern path \<longleftrightarrow> list_all2 segment_matches (split_path pattern) (split_path path)"

record 't http_env =
  he_storage :: "'t storage_env"
  he_is_match :: "string \<Rightarrow> string \<Rightarrow> bool"
  he_parse_uuid :: "string \<Rightarrow> string option"

definition route_law :: "'t http_env \<Rightarrow> bool" where
  "route_law E \<longleftrightarrow> he_is_match E = segments_match"

section \<open>The controllers\<close>

datatype AccessResource = ResWorkspace | ResCollab

definition method_str :: "Method \<Rightarrow> string" where
  "method_str m = (case m of GET \<Rightarrow> ''GET'' | POST \<Rightarrow> ''POST'' | PUT \<Rightarrow> ''PUT'' | DELETE \<Rightarrow> ''DELETE'' | OtherMethod s \<Rightarrow> s)"

definition should_skip :: "'t http_env \<Rightarrow> (Method \<times> string) list \<Rightarrow> Method \<Rightarrow> string \<Rightarrow> bool" where
  "should_skip E skip_resources m path \<longleftrightarrow> list_ex (\<lambda>(m', r). m' = m \<and> he_is_match E r path) skip_resources"

fun find_rule :: "'t http_env \<Rightarrow> (string \<times> (Method \<times> 'r) list) list \<Rightarrow> Method \<Rightarrow> string \<Rightarrow> 'r option" where
  "find_rule E [] m path = None"
| "find_rule E ((r, roles) # rules) m path =
     (case (if he_is_match E r path then map_of roles m else None) of
        Some x \<Rightarrow> Some x
      | None \<Rightarrow> find_rule E rules m path)"

definition workspace_skip_resources :: "(Method \<times> string) list" where
  "workspace_skip_resources = [(POST, WORKSPACE_PATTERN)]"

definition require_role_rules :: "(string \<times> (Method \<times> AFRole) list) list" where
  "require_role_rules =
     [(WORKSPACE_MEMBER_PATTERN, [(POST, RoleOwner), (DELETE, RoleOwner), (PUT, RoleOwner), (GET, RoleOwner)]),
      (WORKSPACE_INVITE_PATTERN, [(POST, RoleOwner)])]"

definition collab_skip_resources :: "(Method \<times> string) list" where
  "collab_skip_resources = [(POST, COLLAB_PATTERN)]"

definition require_access_levels :: "(string \<times> (Method \<times> AFAccessLevel) list) list" where
  "require_access_levels = [(COLLAB_PATTERN, [(DELETE, FullAccess)])]"

definition check_workspace_resource ::
  "'t http_env \<Rightarrow> int \<Rightarrow> string \<Rightarrow> Method \<Rightarrow> string \<Rightarrow> AccessControl \<Rightarrow> (AppError + unit) \<times> AccessControl" where
  "check_workspace_resource E uid resource_id m path a =
     (if should_skip E workspace_skip_resources m path then (Ok (), a)
      else
        (case (case find_rule E require_role_rules m path of
                 Some role \<Rightarrow> workspace_enforce_role (se_casbin (he_storage E)) (se_enabled (he_storage E)) uid resource_id role a
               | None \<Rightarrow> workspace_enforce_action (se_casbin (he_storage E)) (se_enabled (he_storage E)) uid resource_id
                   (action_from_method m) a) of
           (result, a1) \<Rightarrow>
             (if result then (Ok (), a1)
              else (Err (AE_NotEnoughPermissions (int_to_string uid)
                (''access workspace:'' @ resource_id @ '' with given url:'' @ path @ '', method: '' @ method_str m)), a1))))"

definition check_collab_resource ::
  "'t http_env \<Rightarrow> sqlx_error option \<Rightarrow> string \<Rightarrow> int \<Rightarrow> string \<Rightarrow> Method \<Rightarrow> string \<Rightarrow> CollabCache \<Rightarrow> AccessControl \<Rightarrow>
     (AppError + unit) \<times> AccessControl" where
  "check_collab_resource E fault workspace_id uid oid m path c a =
     (if should_skip E collab_skip_resources m path then (Ok (), a)
      else
        (case cache_is_exist (se_db (he_storage E)) fault oid c of
           Inl err \<Rightarrow> (Err err, a)
         | Inr collab_exists \<Rightarrow>
             (if \<not> collab_exists then (Err (AE_RecordNotFound (''Collab not exist in db. '' @ oid)), a)
              else
                (case (case find_rule E require_access_levels m path of
                         None \<Rightarrow> collab_enforce_action (se_casbin (he_storage E)) (se_enabled (he_storage E)) workspace_id uid oid
                           (action_from_method m) a
                       | Some level \<Rightarrow> collab_enforce_access_level (se_casbin (he_storage E)) (se_enabled (he_storage E)) workspace_id
                           uid oid level a) of
                   (result, a1) \<Rightarrow>
                     (if result then (Ok (), a1)
                      else (Err (AE_NotEnoughPermissions (int_to_string uid)
                        (''access collab:'' @ oid @ '' with url:'' @ path @ '', method:'' @ method_str m)), a1))))))"

section \<open>\<open>AccessControlMiddleware\<close>\<close>

text \<open>
  \<open>Ok\<close>: the request goes on to its handler.  The uid is what the token and the user cache give; a request
  that names neither a workspace nor a collab goes on without it.
\<close>

definition middleware_call ::
  "'t http_env \<Rightarrow> AccessResource list \<Rightarrow> sqlx_error option \<Rightarrow> AppError + int \<Rightarrow> request \<Rightarrow> CollabCache \<Rightarrow> AccessControl \<Rightarrow>
     (AppError + unit) \<times> AccessControl" where
  "middleware_call E services fault user req c a =
     (if \<not> se_enabled (he_storage E) then (Ok (), a)
      else if \<not> rq_matched req then (Ok (), a)
      else
        (let workspace_id = (case map_of (rq_vars req) WORKSPACE_ID_PATH of Some v \<Rightarrow> he_parse_uuid E v | None \<Rightarrow> None);
             collab_id = map_of (rq_vars req) COLLAB_OBJECT_ID_PATH
         in if workspace_id = None \<and> collab_id = None then (Ok (), a)
            else
              (case user of
                 Inl err \<Rightarrow> (Err err, a)
               | Inr uid \<Rightarrow>
                   (case workspace_id of
                      None \<Rightarrow> (Ok (), a)
                    | Some w \<Rightarrow>
                        (case (if ResWorkspace \<in> set services then check_workspace_resource E uid w (rq_method req) (rq_path req) a
                               else (Ok (), a)) of
                           (Inl err, a1) \<Rightarrow> (Err err, a1)
                         | (Inr _, a1) \<Rightarrow>
                             (case collab_id of
                                None \<Rightarrow> (Ok (), a1)
                              | Some oid \<Rightarrow>
                                  (if ResCollab \<in> set services
                                   then check_collab_resource E fault w uid oid (rq_method req) (rq_path req) c a1
                                   else (Ok (), a1))))))))"

section \<open>Routes\<close>

text \<open>A path of segments, and what a matched pattern makes of it.\<close>

definition path_of :: "string list \<Rightarrow> string" where
  "path_of segs = concat (map (\<lambda>s. CHR ''/'' # s) segs)"

definition no_slash :: "string \<Rightarrow> bool" where "no_slash s \<longleftrightarrow> CHR ''/'' \<notin> set s"

lemma split_no_slash: "no_slash s \<Longrightarrow> split_path s = [s]"
  by (induction s) (auto simp: no_slash_def)

lemma split_append: "no_slash s \<Longrightarrow> split_path (s @ CHR ''/'' # cs) = s # split_path cs"
  by (induction s) (auto simp: no_slash_def)

lemma split_path_of: "list_all no_slash segs \<Longrightarrow> split_path (path_of segs) = [] # segs"
proof -
  have *: "split_path (s @ path_of ss) = s # ss" if "no_slash s" "list_all no_slash ss" for s ss
    using that
  proof (induction ss arbitrary: s)
    case Nil
    then show ?case by (simp add: path_of_def split_no_slash)
  next
    case (Cons t ss)
    then have "split_path (t @ path_of ss) = t # ss" by simp
    moreover have "path_of (t # ss) = CHR ''/'' # t @ path_of ss" by (simp add: path_of_def)
    ultimately show ?case using Cons.prems(1) by (simp add: split_append)
  qed
  assume "list_all no_slash segs"
  with * [of "[]" segs] show ?thesis by (simp add: no_slash_def)
qed

lemma pattern_segments:
  "split_path WORKSPACE_PATTERN = [[], ''api'', ''workspace'']"
  "split_path WORKSPACE_MEMBER_PATTERN = [[], ''api'', ''workspace'', ''{workspace_id}'', ''member'']"
  "split_path WORKSPACE_INVITE_PATTERN = [[], ''api'', ''workspace'', ''{workspace_id}'', ''invite'']"
  "split_path COLLAB_PATTERN = [[], ''api'', ''workspace'', ''{workspace_id}'', ''collab'', ''{object_id}'']"
  by (simp_all add: path_names)

end
