(* ===== verification/Http_Props.thy ===== *)
theory Http_Props
  imports Http_Access
begin

text \<open>
  Which requests the access control lets through, by the role and the access level of the user.
\<close>

section \<open>Requests to a workspace\<close>

definition workspace_request :: "Method \<Rightarrow> string \<Rightarrow> string list \<Rightarrow> request" where
  "workspace_request m w rest = \<lparr>rq_method = m, rq_matched = True, rq_path = path_of (''api'' # ''workspace'' # w # rest),
     rq_vars = [(WORKSPACE_ID_PATH, w)]\<rparr>"

definition collab_request :: "Method \<Rightarrow> string \<Rightarrow> string \<Rightarrow> string list \<Rightarrow> request" where
  "collab_request m w oid rest = \<lparr>rq_method = m, rq_matched = True,
     rq_path = path_of (''api'' # ''workspace'' # w # ''collab'' # oid # rest),
     rq_vars = [(WORKSPACE_ID_PATH, w), (COLLAB_OBJECT_ID_PATH, oid)]\<rparr>"

definition owners_only :: "Method \<Rightarrow> string list \<Rightarrow> bool" where
  "owners_only m rest \<longleftrightarrow> rest = [''member''] \<and> m \<in> {GET, POST, PUT, DELETE} \<or> rest = [''invite''] \<and> m = POST"

definition only_role :: "AccessControl \<Rightarrow> int \<Rightarrow> string \<Rightarrow> AFRole \<Rightarrow> bool" where
  "only_role a uid w r \<longleftrightarrow> (\<forall>r'. role_policy uid w r' \<in> set (ef_policies (ac_enforcer a)) \<longleftrightarrow> r' = r)"

lemma no_slash_simps [simp]: "no_slash (c # s) \<longleftrightarrow> c \<noteq> CHR ''/'' \<and> no_slash s" "no_slash []"
  by (auto simp: no_slash_def)

text \<open>Matching the patterns of the rules against a path under a workspace.\<close>

lemma segment_literal: "hd p \<noteq> CHR ''{'' \<Longrightarrow> segment_matches p s \<longleftrightarrow> p = s"
  by (auto simp: segment_matches_def)

lemma segment_empty: "segment_matches [] s \<longleftrightarrow> s = []" by (auto simp: segment_matches_def)

lemma segment_var: "segment_matches ''{workspace_id}'' s \<longleftrightarrow> s \<noteq> []" "segment_matches ''{object_id}'' s \<longleftrightarrow> s \<noteq> []"
  by (simp_all add: segment_matches_def)

lemma workspace_path_matches:
  assumes "no_slash w" and "w \<noteq> []" and "list_all no_slash rest"
  defines "path \<equiv> path_of (''api'' # ''workspace'' # w # rest)"
  shows "\<not> segments_match WORKSPACE_PATTERN path"
    and "segments_match WORKSPACE_MEMBER_PATTERN path \<longleftrightarrow> rest = [''member'']"
    and "segments_match WORKSPACE_INVITE_PATTERN path \<longleftrightarrow> rest = [''invite'']"
    and "segments_match COLLAB_PATTERN path \<longleftrightarrow> (\<exists>oid. rest = [''collab'', oid] \<and> oid \<noteq> [])"
proof -
  have s: "split_path path = [] # ''api'' # ''workspace'' # w # rest"
    unfolding path_def by (rule split_path_of) (use assms(1,3) in simp)
  note simps = segments_match_def s pattern_segments segment_empty segment_literal segment_var list_all2_Cons1 assms(2)
  show "\<not> segments_match WORKSPACE_PATTERN path" by (simp add: simps)
  show "segments_match WORKSPACE_MEMBER_PATTERN path \<longleftrightarrow> rest = [''member'']" by (auto simp: simps)
  show "segments_match WORKSPACE_INVITE_PATTERN path \<longleftrightarrow> rest = [''invite'']" by (auto simp: simps)
  show "segments_match COLLAB_PATTERN path \<longleftrightarrow> (\<exists>oid. rest = [''collab'', oid] \<and> oid \<noteq> [])" by (auto simp: simps)
qed

lemma find_role_rule:
  assumes "route_law E" and "no_slash w" and "w \<noteq> []" and "list_all no_slash rest"
  shows "find_rule E require_role_rules m (path_of (''api'' # ''workspace'' # w # rest)) =
      (if owners_only m rest then Some RoleOwner else None)"
    and "\<not> should_skip E workspace_skip_resources m (path_of (''api'' # ''workspace'' # w # rest))"
proof -
  define path where "path = path_of (''api'' # ''workspace'' # w # rest)"
  note p = workspace_path_matches [OF assms(2-4), folded path_def]
  have M: "he_is_match E = segments_match" using assms(1) by (simp add: route_law_def)
  show "find_rule E require_role_rules m (path_of (''api'' # ''workspace'' # w # rest)) =
      (if owners_only m rest then Some RoleOwner else None)"
    unfolding path_def [symmetric] by (cases m) (simp_all add: require_role_rules_def M p owners_only_def)
  show "\<not> should_skip E workspace_skip_resources m (path_of (''api'' # ''workspace'' # w # rest))"
    unfolding path_def [symmetric] by (simp add: should_skip_def workspace_skip_resources_def M p(1))
qed

lemma check_workspace_iff:
  assumes "route_law E" and "casbin_laws (se_casbin (he_storage E))" and "ac_inv a" and "se_enabled (he_storage E)"
    and "no_slash w" and "w \<noteq> []" and "list_all no_slash rest"
    and "r = check_workspace_resource E uid v m (path_of (''api'' # ''workspace'' # w # rest)) a"
  shows "is_ok (fst r) \<longleftrightarrow> (if owners_only m rest then role_policy uid v RoleOwner \<in> set (ef_policies (ac_enforcer a))
      else \<exists>role. role_policy uid v role \<in> set (ef_policies (ac_enforcer a)) \<and> role_permits role (action_from_method m))"
    and "ac_inv (snd r) \<and> ef_policies (ac_enforcer (snd r)) = ef_policies (ac_enforcer a)"
proof -
  note f = find_role_rule [OF assms(1,5-7)]
  show "is_ok (fst r) \<longleftrightarrow> (if owners_only m rest then role_policy uid v RoleOwner \<in> set (ef_policies (ac_enforcer a))
      else \<exists>role. role_policy uid v role \<in> set (ef_policies (ac_enforcer a)) \<and> role_permits role (action_from_method m))"
  proof (cases "owners_only m rest")
    case True
    then show ?thesis
      using assms(4) unfolding assms(8) check_workspace_resource_def workspace_enforce_role_def
      by (simp add: f case_prod_beta if_distrib [of is_ok] if_distrib [of fst] enforce_role_iff [OF assms(2,3)])
  next
    case False
    then show ?thesis
      using assms(4) unfolding assms(8) check_workspace_resource_def workspace_enforce_action_def
      by (simp add: f case_prod_beta if_distrib [of is_ok] if_distrib [of fst] enforce_action_iff(2) [OF assms(2,3)])
  qed
  show "ac_inv (snd r) \<and> ef_policies (ac_enforcer (snd r)) = ef_policies (ac_enforcer a)"
    using assms(3,4) unfolding assms(8) check_workspace_resource_def workspace_enforce_role_def workspace_enforce_action_def
    by (auto simp: f ac_enforce_def enforce_policy_def Let_def ac_inv_def)
qed


definition sample_env :: "int http_env" where
  "sample_env = \<lparr>he_storage = storage_env_of True, he_is_match = segments_match, he_parse_uuid = Some\<rparr>"

lemma sample_env_simps [simp]:
  "he_storage sample_env = storage_env_of True" "he_parse_uuid sample_env = Some" "route_law sample_env"
  "se_casbin (storage_env_of b) = casbin_std" "se_enabled (storage_env_of b) = b"
  by (simp_all add: sample_env_def route_law_def storage_env_of_def)

lemma policies_wf_sample: "policies_wf [role_policy u w r]" "policies_wf [level_policy u c l]"
  "policies_wf [role_policy u w r, level_policy u' c l]" "policies_wf [role_policy u w r, role_policy u' v r']"
  by (auto simp: policies_wf_def)

lemma sample_ac_policies [simp]: "ef_policies (ac_enforcer (sample_ac P)) = P"
  by (simp add: sample_ac_def AFEnforcer_new_def)


section \<open>Requests to a document\<close>

lemma collab_rules:
  assumes "route_law E" and "no_slash w" and "w \<noteq> []" and "no_slash oid" and "oid \<noteq> []" and "list_all no_slash rest"
  defines "path \<equiv> path_of (''api'' # ''workspace'' # w # ''collab'' # oid # rest)"
  shows "find_rule E require_access_levels m path = (if m = DELETE \<and> rest = [] then Some FullAccess else None)"
    and "should_skip E collab_skip_resources m path \<longleftrightarrow> m = POST \<and> rest = []"
proof -
  have n: "list_all no_slash (''collab'' # oid # rest)" using assms(4,6) by simp
  have M: "he_is_match E = segments_match" using assms(1) by (simp add: route_law_def)
  have "segments_match COLLAB_PATTERN path \<longleftrightarrow> rest = []"
    using workspace_path_matches(4) [OF assms(2,3) n] assms(5) unfolding path_def by auto
  then show "find_rule E require_access_levels m path = (if m = DELETE \<and> rest = [] then Some FullAccess else None)"
    and "should_skip E collab_skip_resources m path \<longleftrightarrow> m = POST \<and> rest = []"
    by (cases m; simp add: require_access_levels_def should_skip_def collab_skip_resources_def M)+
qed

text \<open>
  Deleting a document through the API takes two grants no role gives together. The request reaches its handler only
  if the user is the owner of the workspace, the one role that permits deleting, and holds the full access to that
  document as a policy of its own: a member cannot delete the document it created, and the owner cannot delete one it
  was not given.
\<close>

theorem collab_delete_needs_both:
  assumes "route_law E" and "casbin_laws (se_casbin (he_storage E))" and "ac_inv a" and "se_enabled (he_storage E)"
    and "no_slash w" and "w \<noteq> []" and "no_slash oid" and "oid \<noteq> []" and "he_parse_uuid E w = Some v"
    and "list_ex (\<lambda>r. row_oid r = oid) (db_collab (cc_db c))"
  shows "is_ok (fst (middleware_call E [ResWorkspace, ResCollab] None (Ok uid) (collab_request DELETE w oid []) c a)) \<longleftrightarrow>
    role_policy uid v RoleOwner \<in> set (ef_policies (ac_enforcer a)) \<and>
    level_policy uid oid FullAccess \<in> set (ef_policies (ac_enforcer a))"
proof -
  let ?path = "path_of (''api'' # ''workspace'' # w # ''collab'' # oid # [])"
  obtain r1 a1 where w: "check_workspace_resource E uid v DELETE ?path a = (r1, a1)" by (rule prod.exhaust)
  have n: "list_all no_slash [''collab'', oid]" using assms(7) by simp
  note cw = check_workspace_iff [OF assms(1-6) n, where m = DELETE, OF w [symmetric], unfolded fst_conv snd_conv]
  have own: "is_ok r1 \<longleftrightarrow> role_policy uid v RoleOwner \<in> set (ef_policies (ac_enforcer a))"
  proof -
    have "(\<exists>role. P role \<and> role_permits role ActDelete) \<longleftrightarrow> P RoleOwner" for P
      by (auto intro: exI [of _ RoleOwner] elim: role_permits.elims)
    then show ?thesis using cw(1) by (simp add: owners_only_def)
  qed
  have i: "ac_inv a1" and p: "ef_policies (ac_enforcer a1) = ef_policies (ac_enforcer a)" using cw(2) by simp_all
  have x: "cache_is_exist (se_db (he_storage E)) None oid c = Inr True"
    using assms(10) by (simp add: cache_is_exist_def disk_is_exist_def is_collab_exists_def transform_record_not_found_error_def)
  have "is_ok (fst (check_collab_resource E None v uid oid DELETE ?path c a1)) \<longleftrightarrow>
      level_policy uid oid FullAccess \<in> set (ef_policies (ac_enforcer a))"
    using collab_rules [OF assms(1,5-8), of "[]" DELETE] assms(4) x
    by (simp add: check_collab_resource_def collab_enforce_access_level_def case_prod_beta if_distrib [of is_ok] if_distrib [of fst]
        enforce_level_iff [OF assms(2) i] p)
  then show ?thesis
    using assms(4,9) own w
    by (cases r1) (simp_all add: middleware_call_def collab_request_def Let_def path_names)
qed

theorem collab_delete_needs_both_witness:
  "\<not> is_ok (fst (middleware_call sample_env [ResWorkspace, ResCollab] None (Ok 7) (collab_request DELETE ''w'' ''c'' []) sample_cache
     (sample_ac [role_policy 7 ''w'' RoleOwner])))"
proof -
  let ?a = "sample_ac [role_policy 7 ''w'' RoleOwner]"
  have i: "ac_inv ?a" by (rule sample_ac_inv [OF policies_wf_sample(1)])
  have "casbin_laws (se_casbin (he_storage sample_env))" "se_enabled (he_storage sample_env)" "no_slash ''w''" "''w'' \<noteq> []"
    "no_slash ''c''" "''c'' \<noteq> []" "he_parse_uuid sample_env ''w'' = Some ''w''"
    "list_ex (\<lambda>r. row_oid r = ''c'') (db_collab (cc_db sample_cache))"
    by (simp_all add: casbin_laws_std sample_cache_def sample_row_def)
  from collab_delete_needs_both [OF sample_env_simps(3) this(1) i this(2-8), of 7] show ?thesis
    by (simp add: role_policy_def level_policy_def)
qed

text \<open>
  A workspace id that does not parse turns the access control off. A request that names a document below a workspace
  id that is not a uuid goes on to its handler, whoever the user is and whatever the policies say.
\<close>

theorem bad_workspace_id_unchecked:
  assumes "he_parse_uuid E w = None" and "user = Ok uid"
  shows "middleware_call E services fault user (collab_request m w oid rest) c a = (Ok (), a)"
  using assms by (simp add: middleware_call_def collab_request_def Let_def path_names)

theorem bad_workspace_id_unchecked_witness:
  "middleware_call (sample_env\<lparr>he_parse_uuid := (\<lambda>w. None)\<rparr>) [ResWorkspace, ResCollab] None (Ok 666)
     (collab_request DELETE ''x'' ''c'' []) sample_cache (sample_ac []) = (Ok (), sample_ac [])"
  by (rule bad_workspace_id_unchecked) simp_all

end
