(* ===== verification/Workspace_Db.thy ===== *)
theory Workspace_Db
  imports Collab_Db
begin

text \<open>
  The statements on users, workspaces, their members and invitations, and on the metadata of files
  (\<open>workspace.rs\<close>, \<open>user.rs\<close> and \<open>resource_usage.rs\<close> under \<open>lib/database/src/\<close>).

  Tables and statements are as in \<open>Collab_Db\<close>; uuids are their texts.  The schema is not part of the
  repository: the values it generates are arguments, and its triggers, cascades and views are the fields of
  \<open>schema\<close>.  Metadata of users is JSON; merging it is a field too.
\<close>

section \<open>Tables\<close>

record 'j UserRow =
  us_uid :: int
  us_uuid :: string
  us_email :: string
  us_name :: string
  us_metadata :: 'j

record WorkspaceRow =
  wt_workspace_id :: string
  wt_database_storage_id :: "string option"
  wt_owner_uid :: "int option"
  wt_created_at :: "int option"
  wt_workspace_type :: int
  wt_deleted_at :: "int option"
  wt_workspace_name :: "string option"
  wt_icon :: "string option"

record MembershipRow =
  wk_uid :: int
  wk_workspace_id :: string
  wk_role_id :: int
  wk_created_at :: int
  wk_updated_at :: int

record InvitationRow =
  iv_id :: string
  iv_workspace_id :: string
  iv_inviter :: "int option"
  iv_invitee_email :: string
  iv_role_id :: int
  iv_status :: int
  iv_updated_at :: int

record AFBlobMetadataRow =
  bl_workspace_id :: string
  bl_file_id :: string
  bl_file_type :: string
  bl_file_size :: int
  bl_modified_at :: int

record 'j WsDb =
  wd_users :: "'j UserRow list"
  wd_workspaces :: "WorkspaceRow list"
  wd_members :: "MembershipRow list"
  wd_invitations :: "InvitationRow list"
  wd_blobs :: "AFBlobMetadataRow list"
  wd_roles :: "(int \<times> string) list"
  wd_role_permissions :: "(int \<times> int) list"

record 'j schema =
  sc_show_sqlx :: "sqlx_error \<Rightarrow> string"
  sc_new_workspace :: "string option \<Rightarrow> int option \<Rightarrow> WorkspaceRow"
  sc_workspace_inserted :: "WorkspaceRow \<Rightarrow> 'j WsDb \<Rightarrow> 'j WsDb"
  sc_workspace_deleted :: "string \<Rightarrow> 'j WsDb \<Rightarrow> 'j WsDb"
  sc_invitation_updated :: "string \<Rightarrow> 'j WsDb \<Rightarrow> 'j WsDb"
  sc_profile_view :: "'j WsDb \<Rightarrow> (string, 'j) AFUserProfileRow list"
  sc_json_merge :: "'j \<Rightarrow> 'j \<Rightarrow> 'j"
  sc_no_metadata :: 'j

text \<open>\<open>(SELECT uid FROM af_user WHERE ...)\<close> and its like: NULL when there is no row.\<close>

definition uid_of_uuid :: "'j WsDb \<Rightarrow> string \<Rightarrow> int option" where
  "uid_of_uuid d uuid = fetch_optional (map us_uid (filter (\<lambda>u. us_uuid u = uuid) (wd_users d)))"

definition uid_of_email :: "'j WsDb \<Rightarrow> string \<Rightarrow> int option" where
  "uid_of_email d email = fetch_optional (map us_uid (filter (\<lambda>u. us_email u = email) (wd_users d)))"

definition email_of_uuid :: "'j WsDb \<Rightarrow> string \<Rightarrow> string option" where
  "email_of_uuid d uuid = fetch_optional (map us_email (filter (\<lambda>u. us_uuid u = uuid) (wd_users d)))"

definition name_of_uid :: "'j WsDb \<Rightarrow> int \<Rightarrow> string option" where
  "name_of_uid d uid = fetch_optional (map us_name (filter (\<lambda>u. us_uid u = uid) (wd_users d)))"

definition email_of_uid :: "'j WsDb \<Rightarrow> int \<Rightarrow> string option" where
  "email_of_uid d uid = fetch_optional (map us_email (filter (\<lambda>u. us_uid u = uid) (wd_users d)))"

definition role_named :: "'j WsDb \<Rightarrow> int \<Rightarrow> string \<Rightarrow> bool" where
  "role_named d role_id name \<longleftrightarrow> list_ex (\<lambda>r. r = (role_id, name)) (wd_roles d)"

section \<open>Users\<close>

definition select_uid_from_uuid :: "'j schema \<Rightarrow> faults \<Rightarrow> string \<Rightarrow> 'j WsDb \<Rightarrow> AppError + int" where
  "select_uid_from_uuid H F uuid d =
     sql_err (sc_show_sqlx H) (try_bind (statement F 0 ()) (\<lambda>_. fetch_one (case uid_of_uuid d uuid of None \<Rightarrow> [] | Some u \<Rightarrow> [u])))"

definition select_uid_from_email :: "'j schema \<Rightarrow> faults \<Rightarrow> string \<Rightarrow> 'j WsDb \<Rightarrow> AppError + int" where
  "select_uid_from_email H F email d =
     sql_err (sc_show_sqlx H) (try_bind (statement F 0 ()) (\<lambda>_. fetch_one (case uid_of_email d email of None \<Rightarrow> [] | Some u \<Rightarrow> [u])))"

definition select_all_uid_uuid :: "'j WsDb \<Rightarrow> (int \<times> string) list" where
  "select_all_uid_uuid d = map (\<lambda>u. (us_uid u, us_uuid u)) (wd_users d)"

definition select_email_from_user_uuid :: "'j schema \<Rightarrow> faults \<Rightarrow> string \<Rightarrow> 'j WsDb \<Rightarrow> AppError + string" where
  "select_email_from_user_uuid H F uuid d =
     sql_err (sc_show_sqlx H) (try_bind (statement F 0 ()) (\<lambda>_. fetch_one (case email_of_uuid d uuid of None \<Rightarrow> [] | Some e \<Rightarrow> [e])))"

definition is_user_exist :: "'j schema \<Rightarrow> faults \<Rightarrow> string \<Rightarrow> 'j WsDb \<Rightarrow> AppError + bool" where
  "is_user_exist H F uuid d =
     sql_err (sc_show_sqlx H) (statement F 0 (list_ex (\<lambda>u. us_uuid u = uuid) (wd_users d)))"

text \<open>Only the given columns are set; metadata is merged into what is there.\<close>

definition db_update_user ::
  "'j schema \<Rightarrow> faults \<Rightarrow> string \<Rightarrow> string option \<Rightarrow> string option \<Rightarrow> 'j option \<Rightarrow> 'j WsDb \<Rightarrow> AppError + 'j WsDb" where
  "db_update_user H F uuid name email metadata d =
     (if name = None \<and> email = None \<and> metadata = None then Ok d
      else sql_err (sc_show_sqlx H) (statement F 0
        (d\<lparr>wd_users := map (\<lambda>u. if us_uuid u = uuid then
             u\<lparr>us_name := (case name of Some n \<Rightarrow> n | None \<Rightarrow> us_name u),
               us_email := (case email of Some e \<Rightarrow> e | None \<Rightarrow> us_email u),
               us_metadata := (case metadata of Some m \<Rightarrow> sc_json_merge H (us_metadata u) m | None \<Rightarrow> us_metadata u)\<rparr>
             else u) (wd_users d)\<rparr>)))"

definition owner_permission :: "'j WsDb \<Rightarrow> int option" where
  "owner_permission d =
     fetch_optional (concat (map (\<lambda>r. map snd (filter (\<lambda>rp. fst rp = fst r) (wd_role_permissions d)))
       (filter (\<lambda>r. snd r = ''Owner'') (wd_roles d))))"

text \<open>
  One statement for the user, its workspace and its membership of the workspace's own collab; there is no
  row to return when the email is taken.
\<close>

definition create_user ::
  "'j schema \<Rightarrow> faults \<Rightarrow> int \<Rightarrow> string \<Rightarrow> string \<Rightarrow> string \<Rightarrow> Db \<times> 'j WsDb \<Rightarrow> AppError + string \<times> Db \<times> 'j WsDb" where
  "create_user H F uid user_uuid email name t =
     (let name = (if name = [] then email else name);
          (db, d) = t
      in sql_err (sc_show_sqlx H) (try_bind (statement F 0 ())
           (\<lambda>_. if list_ex (\<lambda>u. us_email u = email) (wd_users d) then Err SqlxRowNotFound
              else
                (let d1 = d\<lparr>wd_users := wd_users d @ [\<lparr>us_uid = uid, us_uuid = user_uuid, us_email = email, us_name = name,
                            us_metadata = sc_no_metadata H\<rparr>]\<rparr>;
                     row = sc_new_workspace H None (Some uid);
                     d2 = sc_workspace_inserted H row (d1\<lparr>wd_workspaces := wd_workspaces d1 @ [row]\<rparr>);
                     db1 = (case owner_permission d of
                              None \<Rightarrow> db
                            | Some p \<Rightarrow> db\<lparr>db_members := db_members db @ [\<lparr>mr_uid = uid, mr_oid = wt_workspace_id row, mr_permission_id = p\<rparr>]\<rparr>)
                 in Ok (wt_workspace_id row, db1, d2)))))"

section \<open>Workspaces\<close>

definition workspace_row :: "'j WsDb \<Rightarrow> WorkspaceRow \<Rightarrow> string AFWorkspaceRow" where
  "workspace_row d w =
     \<lparr>wr_workspace_id = wt_workspace_id w, wr_database_storage_id = wt_database_storage_id w, wr_owner_uid = wt_owner_uid w,
      wr_owner_name = (case wt_owner_uid w of None \<Rightarrow> None | Some u \<Rightarrow> name_of_uid d u), wr_created_at = wt_created_at w,
      wr_workspace_type = wt_workspace_type w, wr_deleted_at = wt_deleted_at w, wr_workspace_name = wt_workspace_name w,
      wr_icon = wt_icon w\<rparr>"

text \<open>\<open>None\<close>: the assertion that one row was deleted fails.\<close>

definition delete_from_workspace ::
  "'j schema \<Rightarrow> faults \<Rightarrow> string \<Rightarrow> 'j WsDb \<Rightarrow> (AppError + unit) option \<times> 'j WsDb" where
  "delete_from_workspace H F workspace_id d =
     (case F 0 of
        Some e \<Rightarrow> (Some (Err (app_error_from_sqlx (sc_show_sqlx H) e)), d)
      | None \<Rightarrow>
          (let n = length (filter (\<lambda>w. wt_workspace_id w = workspace_id) (wd_workspaces d));
               d1 = sc_workspace_deleted H workspace_id
                      (d\<lparr>wd_workspaces := filter (\<lambda>w. wt_workspace_id w \<noteq> workspace_id) (wd_workspaces d)\<rparr>)
           in (if n = 1 then Some (Ok ()) else None, d1)))"

definition insert_user_workspace ::
  "'j schema \<Rightarrow> faults \<Rightarrow> string \<Rightarrow> string \<Rightarrow> 'j WsDb \<Rightarrow> AppError + string AFWorkspaceRow \<times> 'j WsDb" where
  "insert_user_workspace H F user_uuid workspace_name d =
     sql_err (sc_show_sqlx H) (statement F 0
       (let row = sc_new_workspace H (Some workspace_name) (uid_of_uuid d user_uuid);
            d1 = sc_workspace_inserted H row (d\<lparr>wd_workspaces := wd_workspaces d @ [row]\<rparr>)
        in (workspace_row d row, d1)))"

definition update_workspace_rows :: "(WorkspaceRow \<Rightarrow> WorkspaceRow) \<Rightarrow> string \<Rightarrow> 'j WsDb \<Rightarrow> 'j WsDb" where
  "update_workspace_rows f workspace_id d =
     d\<lparr>wd_workspaces := map (\<lambda>w. if wt_workspace_id w = workspace_id then f w else w) (wd_workspaces d)\<rparr>"

definition rename_workspace :: "'j schema \<Rightarrow> faults \<Rightarrow> string \<Rightarrow> string \<Rightarrow> 'j WsDb \<Rightarrow> AppError + 'j WsDb" where
  "rename_workspace H F workspace_id new_workspace_name d =
     sql_err (sc_show_sqlx H) (statement F 0
       (update_workspace_rows (\<lambda>w. w\<lparr>wt_workspace_name := Some new_workspace_name\<rparr>) workspace_id d))"

definition change_workspace_icon :: "'j schema \<Rightarrow> faults \<Rightarrow> string \<Rightarrow> string \<Rightarrow> 'j WsDb \<Rightarrow> AppError + 'j WsDb" where
  "change_workspace_icon H F workspace_id icon d =
     sql_err (sc_show_sqlx H) (statement F 0
       (update_workspace_rows (\<lambda>w. w\<lparr>wt_icon := Some icon\<rparr>) workspace_id d))"

definition select_workspace :: "'j schema \<Rightarrow> faults \<Rightarrow> string \<Rightarrow> 'j WsDb \<Rightarrow> AppError + string AFWorkspaceRow" where
  "select_workspace H F workspace_id d =
     sql_err (sc_show_sqlx H) (try_bind (statement F 0 ()) (\<lambda>_. fetch_one
       (map (workspace_row d) (filter (\<lambda>w. wt_workspace_id w = workspace_id) (wd_workspaces d)))))"

definition member_of :: "'j WsDb \<Rightarrow> int option \<Rightarrow> string \<Rightarrow> bool" where
  "member_of d uid workspace_id \<longleftrightarrow> list_ex (\<lambda>m. Some (wk_uid m) = uid \<and> wk_workspace_id m = workspace_id) (wd_members d)"

definition select_all_user_workspaces :: "'j schema \<Rightarrow> faults \<Rightarrow> string \<Rightarrow> 'j WsDb \<Rightarrow> AppError + string AFWorkspaceRow list" where
  "select_all_user_workspaces H F user_uuid d =
     sql_err (sc_show_sqlx H) (statement F 0
       (map (workspace_row d) (filter (\<lambda>w. member_of d (uid_of_uuid d user_uuid) (wt_workspace_id w)) (wd_workspaces d))))"

text \<open>The join: one row for each membership.\<close>

definition select_user_workspace :: "'j schema \<Rightarrow> faults \<Rightarrow> string \<Rightarrow> 'j WsDb \<Rightarrow> AppError + string AFWorkspaceRow list" where
  "select_user_workspace H F user_uuid d =
     sql_err (sc_show_sqlx H) (statement F 0
       (concat (map (\<lambda>w. map (\<lambda>m. workspace_row d w)
          (filter (\<lambda>m. wk_workspace_id m = wt_workspace_id w \<and> Some (wk_uid m) = uid_of_uuid d user_uuid) (wd_members d)))
          (wd_workspaces d))))"

definition select_user_profile ::
  "'j schema \<Rightarrow> faults \<Rightarrow> string \<Rightarrow> 'j WsDb \<Rightarrow> AppError + (string, 'j) AFUserProfileRow option" where
  "select_user_profile H F user_uuid d =
     sql_err (sc_show_sqlx H) (statement F 0 (fetch_optional (filter (\<lambda>r. ur_uuid r = Some user_uuid) (sc_profile_view H d))))"

definition select_workspace_total_collab_bytes :: "'j schema \<Rightarrow> faults \<Rightarrow> string \<Rightarrow> Db \<Rightarrow> AppError + int" where
  "select_workspace_total_collab_bytes H F workspace_id db =
     (case sql_err (sc_show_sqlx H) (statement F 0
             (let rows = filter (\<lambda>r. row_workspace_id r = workspace_id) (db_collab db)
              in if rows = [] then None else Some (sum_list (map row_len rows)))) of
        Inl e \<Rightarrow> Err e
      | Inr (Some s) \<Rightarrow> Ok s
      | Inr None \<Rightarrow> Err (AE_RecordNotFound (''Failed to get total collab bytes for workspace_id: '' @ workspace_id)))"

section \<open>Members\<close>

definition select_user_is_workspace_owner :: "'j schema \<Rightarrow> faults \<Rightarrow> string \<Rightarrow> string \<Rightarrow> 'j WsDb \<Rightarrow> AppError + bool" where
  "select_user_is_workspace_owner H F user_uuid workspace_id d =
     sql_err (sc_show_sqlx H) (statement F 0
       (list_ex (\<lambda>m. wk_workspace_id m = workspace_id \<and> Some (wk_uid m) = uid_of_uuid d user_uuid \<and>
          role_named d (wk_role_id m) ''Owner'') (wd_members d)))"

definition select_user_role :: "'j schema \<Rightarrow> faults \<Rightarrow> int \<Rightarrow> string \<Rightarrow> 'j WsDb \<Rightarrow> AppError + AFRole" where
  "select_user_role H F uid workspace_id d =
     sql_err (sc_show_sqlx H) (try_bind (statement F 0 ()) (\<lambda>_. fetch_one
       (map (\<lambda>m. role_from_i32 (wk_role_id m))
          (filter (\<lambda>m. wk_workspace_id m = workspace_id \<and> wk_uid m = uid) (wd_members d)))))"

definition select_user_can_edit_collab ::
  "'j schema \<Rightarrow> faults \<Rightarrow> string \<Rightarrow> string \<Rightarrow> string \<Rightarrow> Db \<Rightarrow> 'j WsDb \<Rightarrow> AppError + bool" where
  "select_user_can_edit_collab H F user_uuid workspace_id oid db d =
     sql_err (sc_show_sqlx H) (statement F 0
       (\<not> list_ex (\<lambda>m. mr_oid m = oid) (db_members db) \<or>
        member_of d (uid_of_uuid d user_uuid) workspace_id \<and>
        list_ex (\<lambda>(m, p). Some (mr_uid m) = uid_of_uuid d user_uuid \<and> mr_oid m = oid \<and> 20 < level_to_i32 (pm_access_level p))
          (member_join db)))"

text \<open>Inserting a member who is there already changes nothing; an email without a user adds nobody.\<close>

definition upsert_workspace_member_with_txn ::
  "'j schema \<Rightarrow> faults \<Rightarrow> int \<Rightarrow> string \<Rightarrow> string \<Rightarrow> AFRole \<Rightarrow> 'j WsDb \<Rightarrow> AppError + 'j WsDb" where
  "upsert_workspace_member_with_txn H F now workspace_id member_email role d =
     sql_err (sc_show_sqlx H) (statement F 0
       (d\<lparr>wd_members := foldl (\<lambda>ms u. if list_ex (\<lambda>m. wk_workspace_id m = workspace_id \<and> wk_uid m = us_uid u) ms then ms
             else ms @ [\<lparr>wk_uid = us_uid u, wk_workspace_id = workspace_id, wk_role_id = role_to_i32 role,
                        wk_created_at = now, wk_updated_at = now\<rparr>])
          (wd_members d) (filter (\<lambda>u. us_email u = member_email) (wd_users d))\<rparr>))"

definition upsert_workspace_member ::
  "faults \<Rightarrow> string \<Rightarrow> string \<Rightarrow> AFRole \<Rightarrow> 'j WsDb \<Rightarrow> sqlx_error + 'j WsDb" where
  "upsert_workspace_member F workspace_id email role d =
     statement F 0
       (d\<lparr>wd_members := map (\<lambda>m. if wk_workspace_id m = workspace_id \<and> Some (wk_uid m) = uid_of_email d email
             then m\<lparr>wk_role_id := role_to_i32 role\<rparr> else m) (wd_members d)\<rparr>)"

definition workspace_owner :: "'j WsDb \<Rightarrow> string \<Rightarrow> int option" where
  "workspace_owner d workspace_id =
     (case fetch_optional (map wt_owner_uid (filter (\<lambda>w. wt_workspace_id w = workspace_id) (wd_workspaces d))) of
        Some (Some u) \<Rightarrow> Some u | _ \<Rightarrow> None)"

text \<open>A comparison with NULL is not true: without an owner or without a user no row is deleted.\<close>

definition delete_workspace_members ::
  "'j schema \<Rightarrow> faults \<Rightarrow> string \<Rightarrow> string \<Rightarrow> 'j WsDb \<Rightarrow> AppError + 'j WsDb" where
  "delete_workspace_members H F workspace_id member_email d =
     try_bind (sql_err (sc_show_sqlx H) (statement F 0
         (case uid_of_email d member_email of
            None \<Rightarrow> False
          | Some u \<Rightarrow> list_ex (\<lambda>w. wt_workspace_id w = workspace_id \<and> wt_owner_uid w = Some u) (wd_workspaces d))))
       (\<lambda>is_owner.
          if is_owner then Err (AE_NotEnoughPermissions member_email (''delete member from workspace '' @ workspace_id))
          else sql_err (sc_show_sqlx H) (statement F 1
            (d\<lparr>wd_members := filter (\<lambda>m. \<not> (wk_workspace_id m = workspace_id \<and> Some (wk_uid m) = uid_of_email d member_email \<and>
                (case workspace_owner d workspace_id of None \<Rightarrow> False | Some u \<Rightarrow> wk_uid m \<noteq> u))) (wd_members d)\<rparr>)))"

definition select_workspace_member_perm_stream :: "'j WsDb \<Rightarrow> (int \<times> AFRole \<times> string) list" where
  "select_workspace_member_perm_stream d =
     map (\<lambda>m. (wk_uid m, role_from_i32 (wk_role_id m), wk_workspace_id m)) (wd_members d)"

record AFWorkspaceMemberRow =
  mbr_uid :: int
  mbr_name :: string
  mbr_email :: string
  mbr_role :: AFRole

definition member_rows :: "'j WsDb \<Rightarrow> MembershipRow list \<Rightarrow> AFWorkspaceMemberRow list" where
  "member_rows d ms =
     concat (map (\<lambda>m. map (\<lambda>u. \<lparr>mbr_uid = us_uid u, mbr_name = us_name u, mbr_email = us_email u,
                                mbr_role = role_from_i32 (wk_role_id m)\<rparr>)
       (filter (\<lambda>u. us_uid u = wk_uid m) (wd_users d))) ms)"

definition select_workspace_member_list :: "'j schema \<Rightarrow> faults \<Rightarrow> string \<Rightarrow> 'j WsDb \<Rightarrow> AppError + AFWorkspaceMemberRow list" where
  "select_workspace_member_list H F workspace_id d =
     sql_err (sc_show_sqlx H) (statement F 0
       (member_rows d (sort_key wk_created_at (filter (\<lambda>m. wk_workspace_id m = workspace_id) (wd_members d)))))"

definition select_workspace_member :: "'j schema \<Rightarrow> faults \<Rightarrow> int \<Rightarrow> string \<Rightarrow> 'j WsDb \<Rightarrow> AppError + AFWorkspaceMemberRow" where
  "select_workspace_member H F uid workspace_id d =
     sql_err (sc_show_sqlx H) (try_bind (statement F 0 ()) (\<lambda>_. fetch_one
       (member_rows d (filter (\<lambda>m. wk_workspace_id m = workspace_id \<and> wk_uid m = uid) (wd_members d)))))"

definition update_updated_at_of_workspace ::
  "'j schema \<Rightarrow> faults \<Rightarrow> int \<Rightarrow> string \<Rightarrow> string \<Rightarrow> 'j WsDb \<Rightarrow> AppError + 'j WsDb" where
  "update_updated_at_of_workspace H F now user_uuid workspace_id d =
     sql_err (sc_show_sqlx H) (statement F 0
       (d\<lparr>wd_members := map (\<lambda>m. if Some (wk_uid m) = uid_of_uuid d user_uuid \<and> wk_workspace_id m = workspace_id
             then m\<lparr>wk_updated_at := now\<rparr> else m) (wd_members d)\<rparr>))"

definition select_permission :: "'j schema \<Rightarrow> faults \<Rightarrow> int \<Rightarrow> Db \<Rightarrow> AppError + AFPermission option" where
  "select_permission H F permission_id db =
     sql_err (sc_show_sqlx H) (statement F 0
       (fetch_optional (filter (\<lambda>p. pm_id p = as_i32 permission_id) (db_permissions db))))"

definition select_permission_from_role_id :: "'j schema \<Rightarrow> faults \<Rightarrow> int \<Rightarrow> Db \<Rightarrow> 'j WsDb \<Rightarrow> AppError + AFPermission option" where
  "select_permission_from_role_id H F role_id db d =
     sql_err (sc_show_sqlx H) (statement F 0
       (fetch_optional (concat (map (\<lambda>p. map (\<lambda>_. p) (filter (\<lambda>rp. rp = (as_i32 role_id, pm_id p)) (wd_role_permissions d)))
          (db_permissions db)))))"

section \<open>Invitations\<close>

definition insert_workspace_invitation ::
  "'j schema \<Rightarrow> faults \<Rightarrow> string \<Rightarrow> int \<Rightarrow> string \<Rightarrow> string \<Rightarrow> string \<Rightarrow> AFRole \<Rightarrow> 'j WsDb \<Rightarrow> AppError + 'j WsDb" where
  "insert_workspace_invitation H F new_id now workspace_id inviter_uuid invitee_email invitee_role d =
     sql_err (sc_show_sqlx H) (statement F 0
       (d\<lparr>wd_invitations := wd_invitations d @ [\<lparr>iv_id = new_id, iv_workspace_id = workspace_id,
          iv_inviter = uid_of_uuid d inviter_uuid, iv_invitee_email = invitee_email, iv_role_id = role_to_i32 invitee_role,
          iv_status = 0, iv_updated_at = now\<rparr>]\<rparr>))"

text \<open>Only the invitee's own invitation, by the email the invitee's account has now.\<close>

definition update_workspace_invitation_set_status_accepted ::
  "'j schema \<Rightarrow> faults \<Rightarrow> string \<Rightarrow> string \<Rightarrow> 'j WsDb \<Rightarrow> AppError + 'j WsDb" where
  "update_workspace_invitation_set_status_accepted H F invitee_uuid invite_id d =
     (let hit = (\<lambda>i. Some (iv_invitee_email i) = email_of_uuid d invitee_uuid \<and> iv_id i = invite_id);
          n = length (filter hit (wd_invitations d))
      in try_bind (sql_err (sc_show_sqlx H) (statement F 0
            (if n = 0 then d
             else sc_invitation_updated H invite_id
               (d\<lparr>wd_invitations := map (\<lambda>i. if hit i then i\<lparr>iv_status := 1\<rparr> else i) (wd_invitations d)\<rparr>))))
          (\<lambda>d1. if n = 0 then Err (AE_RecordNotFound (''Invitation not found, invitee_uuid: '' @ invitee_uuid @ '', invite_id: '' @ invite_id))
                else if n = 1 then Ok d1
                else Err (AE_Internal (''Expected 1 row to be affected, but '' @ nat_digits n @ '' rows were affected''))))"

record AFWorkspaceInvitationMinimal =
  im_workspace_id :: string
  im_inviter_uid :: "int option"
  im_invitee_uid :: "int option"
  im_status :: AFWorkspaceInvitationStatus
  im_role :: AFRole

definition get_invitation_by_id :: "'j schema \<Rightarrow> faults \<Rightarrow> string \<Rightarrow> 'j WsDb \<Rightarrow> AppError + AFWorkspaceInvitationMinimal" where
  "get_invitation_by_id H F invite_id d =
     sql_err (sc_show_sqlx H) (try_bind (statement F 0 ()) (\<lambda>_. fetch_one
       (map (\<lambda>i. \<lparr>im_workspace_id = iv_workspace_id i, im_inviter_uid = iv_inviter i,
                  im_invitee_uid = uid_of_email d (iv_invitee_email i),
                  im_status = invitation_status_from_i16 (iv_status i), im_role = role_from_i32 (iv_role_id i)\<rparr>)
          (filter (\<lambda>i. iv_id i = invite_id) (wd_invitations d)))))"

record AFWorkspaceInvitation =
  ai_invite_id :: string
  ai_workspace_id :: string
  ai_workspace_name :: "string option"
  ai_inviter_email :: "string option"
  ai_inviter_name :: "string option"
  ai_status :: AFWorkspaceInvitationStatus
  ai_updated_at :: int

definition select_workspace_invitations_for_user ::
  "'j schema \<Rightarrow> faults \<Rightarrow> string \<Rightarrow> AFWorkspaceInvitationStatus option \<Rightarrow> 'j WsDb \<Rightarrow> AppError + AFWorkspaceInvitation list" where
  "select_workspace_invitations_for_user H F invitee_uuid status_filter d =
     sql_err (sc_show_sqlx H) (statement F 0
       (map (\<lambda>i. \<lparr>ai_invite_id = iv_id i, ai_workspace_id = iv_workspace_id i,
          ai_workspace_name = (case fetch_optional (filter (\<lambda>w. wt_workspace_id w = iv_workspace_id i) (wd_workspaces d)) of
             Some w \<Rightarrow> wt_workspace_name w | None \<Rightarrow> None),
          ai_inviter_email = (case iv_inviter i of Some u \<Rightarrow> email_of_uid d u | None \<Rightarrow> None),
          ai_inviter_name = (case iv_inviter i of Some u \<Rightarrow> name_of_uid d u | None \<Rightarrow> None),
          ai_status = invitation_status_from_i16 (iv_status i), ai_updated_at = iv_updated_at i\<rparr>)
         (filter (\<lambda>i. Some (iv_invitee_email i) = email_of_uuid d invitee_uuid \<and>
            (case status_filter of None \<Rightarrow> True | Some s \<Rightarrow> iv_status i = invitation_status_repr s)) (wd_invitations d))))"

section \<open>Metadata of files\<close>

definition is_blob_metadata_exists :: "'j schema \<Rightarrow> sqlx_error option \<Rightarrow> string \<Rightarrow> string \<Rightarrow> 'j WsDb \<Rightarrow> AppError + bool" where
  "is_blob_metadata_exists H fault workspace_id file_id d =
     sql_err (sc_show_sqlx H) (statement (\<lambda>_. fault) 0
       (list_ex (\<lambda>b. bl_workspace_id b = workspace_id \<and> bl_file_id b = file_id) (wd_blobs d)))"

definition insert_blob_metadata ::
  "'j schema \<Rightarrow> sqlx_error option \<Rightarrow> int \<Rightarrow> string \<Rightarrow> string \<Rightarrow> string \<Rightarrow> nat \<Rightarrow> 'j WsDb \<Rightarrow> AppError + 'j WsDb" where
  "insert_blob_metadata H fault now file_id workspace_id file_type file_size d =
     sql_err (sc_show_sqlx H) (statement (\<lambda>_. fault) 0
       (if list_ex (\<lambda>b. bl_workspace_id b = workspace_id \<and> bl_file_id b = file_id) (wd_blobs d)
        then d\<lparr>wd_blobs := map (\<lambda>b. if bl_workspace_id b = workspace_id \<and> bl_file_id b = file_id
               then b\<lparr>bl_file_type := file_type, bl_file_size := int file_size\<rparr> else b) (wd_blobs d)\<rparr>
        else d\<lparr>wd_blobs := wd_blobs d @ [\<lparr>bl_workspace_id = workspace_id, bl_file_id = file_id, bl_file_type = file_type,
               bl_file_size = int file_size, bl_modified_at = now\<rparr>]\<rparr>))"

text \<open>\<open>None\<close>: the assertion that one row was deleted fails.\<close>

definition delete_blob_metadata ::
  "'j schema \<Rightarrow> sqlx_error option \<Rightarrow> string \<Rightarrow> string \<Rightarrow> 'j WsDb \<Rightarrow> (AppError + 'j WsDb) option" where
  "delete_blob_metadata H fault workspace_id file_id d =
     (case fault of
        Some e \<Rightarrow> Some (Err (app_error_from_sqlx (sc_show_sqlx H) e))
      | None \<Rightarrow>
          (if length (filter (\<lambda>b. bl_workspace_id b = workspace_id \<and> bl_file_id b = file_id) (wd_blobs d)) = 1
           then Some (Ok (d\<lparr>wd_blobs := filter (\<lambda>b. \<not> (bl_workspace_id b = workspace_id \<and> bl_file_id b = file_id)) (wd_blobs d)\<rparr>))
           else None))"

definition db_get_blob_metadata :: "'j schema \<Rightarrow> sqlx_error option \<Rightarrow> string \<Rightarrow> string \<Rightarrow> 'j WsDb \<Rightarrow> AppError + AFBlobMetadataRow" where
  "db_get_blob_metadata H fault workspace_id file_id d =
     sql_err (sc_show_sqlx H) (try_bind (statement (\<lambda>_. fault) 0 ()) (\<lambda>_. fetch_one
       (filter (\<lambda>b. bl_workspace_id b = workspace_id \<and> bl_file_id b = file_id) (wd_blobs d))))"

definition get_all_workspace_blob_metadata :: "'j schema \<Rightarrow> sqlx_error option \<Rightarrow> string \<Rightarrow> 'j WsDb \<Rightarrow> AppError + AFBlobMetadataRow list" where
  "get_all_workspace_blob_metadata H fault workspace_id d =
     sql_err (sc_show_sqlx H) (statement (\<lambda>_. fault) 0 (filter (\<lambda>b. bl_workspace_id b = workspace_id) (wd_blobs d)))"

definition get_all_workspace_blob_ids :: "'j schema \<Rightarrow> sqlx_error option \<Rightarrow> string \<Rightarrow> 'j WsDb \<Rightarrow> AppError + string list" where
  "get_all_workspace_blob_ids H fault workspace_id d =
     sql_err (sc_show_sqlx H) (statement (\<lambda>_. fault) 0
       (map bl_file_id (filter (\<lambda>b. bl_workspace_id b = workspace_id) (wd_blobs d))))"

text \<open>\<open>to_u64\<close> of the sum: 0 when it does not fit.\<close>

definition get_workspace_usage_size :: "'j schema \<Rightarrow> sqlx_error option \<Rightarrow> string \<Rightarrow> 'j WsDb \<Rightarrow> AppError + nat" where
  "get_workspace_usage_size H fault workspace_id d =
     sql_err (sc_show_sqlx H) (statement (\<lambda>_. fault) 0
       (let s = sum_list (map bl_file_size (filter (\<lambda>b. bl_workspace_id b = workspace_id) (wd_blobs d)))
        in if 0 \<le> s \<and> s < 2 ^ 64 then nat s else 0))"

end
