(* ===== verification/File_Storage.thy ===== *)
theory File_Storage
  imports Workspace_Db
begin

text \<open>
  Files of a workspace: the bucket client, \<open>BucketStorage\<close> and the handlers of \<open>/api/file_storage\<close>
  (\<open>lib/database/src/file/\<close>, \<open>src/api/file_storage.rs\<close>).

  The object store is the list of its objects.  What it answers to a request is an argument: an error, or
  a status code with a body; a put or a delete takes effect when the code is one of success.  A panic of
  the code, a failed assertion, is \<open>None\<close>.
\<close>

section \<open>\<open>BucketClientS3Impl\<close>\<close>

type_synonym bucket = "(string \<times> bytes) list"

record s3_response =
  s3_status :: nat
  s3_body :: bytes

type_synonym s3_answer = "AppError + s3_response"

definition s3_success :: "nat \<Rightarrow> bool" where
  "s3_success code \<longleftrightarrow> 200 \<le> code \<and> code \<le> 299"

definition check_s3_status_code :: "nat \<Rightarrow> AppError + unit" where
  "check_s3_status_code code = (if s3_success code then Ok () else Err (AE_S3ResponseError (nat_digits code)))"

definition check_s3_response_data :: "(bytes \<Rightarrow> string) \<Rightarrow> s3_response \<Rightarrow> AppError + unit" where
  "check_s3_response_data lossy resp =
     (if s3_success (s3_status resp) then Ok ()
      else Err (AE_S3ResponseError (''S3 error: '' @ lossy (s3_body resp) @ '', code: '' @ nat_digits (s3_status resp))))"

definition client_pub_blob :: "s3_answer \<Rightarrow> string \<Rightarrow> bytes \<Rightarrow> bucket \<Rightarrow> (AppError + unit) \<times> bucket" where
  "client_pub_blob ans key content b =
     (case ans of
        Inl e \<Rightarrow> (Err e, b)
      | Inr resp \<Rightarrow> (check_s3_status_code (s3_status resp), if s3_success (s3_status resp) then map_insert b key content else b))"

definition client_delete_blob :: "(bytes \<Rightarrow> string) \<Rightarrow> s3_answer \<Rightarrow> string \<Rightarrow> bucket \<Rightarrow> (AppError + bytes) \<times> bucket" where
  "client_delete_blob lossy ans key b =
     (case ans of
        Inl e \<Rightarrow> (Err e, b)
      | Inr resp \<Rightarrow>
          (try_bind (check_s3_response_data lossy resp) (\<lambda>_. Ok (s3_body resp)),
           if s3_success (s3_status resp) then map_remove b key else b))"

text \<open>The status code of a read is not looked at.\<close>

definition client_get_blob :: "s3_answer \<Rightarrow> AppError + bytes" where
  "client_get_blob ans = (case ans of Inl e \<Rightarrow> Err e | Inr resp \<Rightarrow> Ok (s3_body resp))"

text \<open>What a store that works answers to a read.\<close>

definition s3_read :: "bytes \<Rightarrow> bucket \<Rightarrow> string \<Rightarrow> s3_answer" where
  "s3_read not_found b key =
     (case map_of b key of Some c \<Rightarrow> Ok \<lparr>s3_status = 200, s3_body = c\<rparr> | None \<Rightarrow> Ok \<lparr>s3_status = 404, s3_body = not_found\<rparr>)"

section \<open>\<open>BucketStorage\<close>\<close>

record 'j FileStore =
  fs_db :: "'j WsDb"
  fs_bucket :: bucket

record store_faults =
  sf_exists :: "sqlx_error option"
  sf_begin :: "sqlx_error option"
  sf_stmt :: "sqlx_error option"
  sf_s3 :: s3_answer
  sf_commit :: "sqlx_error option"

definition object_key :: "string \<Rightarrow> string \<Rightarrow> string" where
  "object_key workspace_id file_id = workspace_id @ ''/'' @ file_id"

definition sql_unit :: "'j schema \<Rightarrow> sqlx_error option \<Rightarrow> AppError + unit" where
  "sql_unit H fault = sql_err (sc_show_sqlx H) (statement (\<lambda>_. fault) 0 ())"

definition put_blob ::
  "'j schema \<Rightarrow> store_faults \<Rightarrow> int \<Rightarrow> string \<Rightarrow> string \<Rightarrow> bytes \<Rightarrow> string \<Rightarrow> 'j FileStore \<Rightarrow> (AppError + unit) \<times> 'j FileStore" where
  "put_blob H F now workspace_id file_id file_data file_type s =
     (case is_blob_metadata_exists H (sf_exists F) workspace_id file_id (fs_db s) of
        Inl e \<Rightarrow> (Err e, s)
      | Inr True \<Rightarrow> (Ok (), s)
      | Inr False \<Rightarrow>
          (case sql_unit H (sf_begin F) of
             Inl e \<Rightarrow> (Err e, s)
           | Inr _ \<Rightarrow>
               (case insert_blob_metadata H (sf_stmt F) now file_id workspace_id file_type (length file_data) (fs_db s) of
                  Inl e \<Rightarrow> (Err e, s)
                | Inr tx \<Rightarrow>
                    (case client_pub_blob (sf_s3 F) (object_key workspace_id file_id) file_data (fs_bucket s) of
                       (Inl e, b) \<Rightarrow> (Err e, s\<lparr>fs_bucket := b\<rparr>)
                     | (Inr _, b) \<Rightarrow>
                         (case sql_unit H (sf_commit F) of
                            Inl e \<Rightarrow> (Err e, s\<lparr>fs_bucket := b\<rparr>)
                          | Inr _ \<Rightarrow> (Ok (), s\<lparr>fs_bucket := b, fs_db := tx\<rparr>))))))"

definition delete_blob ::
  "'j schema \<Rightarrow> (bytes \<Rightarrow> string) \<Rightarrow> store_faults \<Rightarrow> string \<Rightarrow> string \<Rightarrow> 'j FileStore \<Rightarrow> (AppError + unit) option \<times> 'j FileStore" where
  "delete_blob H lossy F workspace_id file_id s =
     (case sql_unit H (sf_begin F) of
        Inl e \<Rightarrow> (Some (Err e), s)
      | Inr _ \<Rightarrow>
          (case delete_blob_metadata H (sf_stmt F) workspace_id file_id (fs_db s) of
             None \<Rightarrow> (None, s)
           | Some (Inl e) \<Rightarrow> (Some (Err e), s)
           | Some (Inr tx) \<Rightarrow>
               (case client_delete_blob lossy (sf_s3 F) (object_key workspace_id file_id) (fs_bucket s) of
                  (Inl e, b) \<Rightarrow> (Some (Err e), s\<lparr>fs_bucket := b\<rparr>)
                | (Inr _, b) \<Rightarrow>
                    (case sql_unit H (sf_commit F) of
                       Inl e \<Rightarrow> (Some (Err e), s\<lparr>fs_bucket := b\<rparr>)
                     | Inr _ \<Rightarrow> (Some (Ok ()), s\<lparr>fs_bucket := b, fs_db := tx\<rparr>)))))"

definition store_get_blob_metadata :: "'j schema \<Rightarrow> sqlx_error option \<Rightarrow> string \<Rightarrow> string \<Rightarrow> 'j FileStore \<Rightarrow> AppError + AFBlobMetadataRow" where
  "store_get_blob_metadata H fault workspace_id file_id s = db_get_blob_metadata H fault workspace_id file_id (fs_db s)"

definition store_get_blob :: "s3_answer \<Rightarrow> AppError + bytes" where
  "store_get_blob ans = client_get_blob ans"

section \<open>The handlers\<close>

text \<open>
  The body of a put: \<open>content_length\<close> bytes are read, and one more is tried for.  A shorter body is an
  error of the read, a longer one the answer \<open>PayloadTooLarge\<close>.
\<close>

datatype body_read = BodyShort | BodyTooLarge | Body bytes

definition read_body :: "nat \<Rightarrow> bytes \<Rightarrow> body_read" where
  "read_body content_length payload =
     (if length payload < content_length then BodyShort
      else if content_length < length payload then BodyTooLarge else Body payload)"

definition put_blob_handler ::
  "'j schema \<Rightarrow> store_faults \<Rightarrow> int \<Rightarrow> string \<Rightarrow> string \<Rightarrow> string \<Rightarrow> nat \<Rightarrow> bytes \<Rightarrow> 'j FileStore \<Rightarrow> (AppError + unit) \<times> 'j FileStore" where
  "put_blob_handler H F now workspace_id file_id content_type content_length payload s =
     (case read_body content_length payload of
        BodyShort \<Rightarrow> (Err (AE_Internal ''early eof''), s)
      | BodyTooLarge \<Rightarrow>
          (Err (AE_PayloadTooLarge ''Content length is {}, but the actual content is larger''), s)
      | Body content \<Rightarrow> put_blob H F now workspace_id file_id content content_type s)"

definition delete_blob_handler where
  "delete_blob_handler H lossy F workspace_id file_id s = delete_blob H lossy F workspace_id file_id s"

record blob_response =
  br_etag :: string
  br_content_type :: string
  br_last_modified :: int
  br_content_length :: nat
  br_body :: bytes

datatype blob_answer = BlobNotFound | BlobServerError | BlobNotModified | BlobOk blob_response | BlobError AppError

text \<open>\<open>modified_since\<close> is the header's time when there is one that parses.\<close>

definition get_blob_handler ::
  "'j schema \<Rightarrow> sqlx_error option \<Rightarrow> s3_answer \<Rightarrow> string \<Rightarrow> string \<Rightarrow> int option \<Rightarrow> 'j FileStore \<Rightarrow> blob_answer" where
  "get_blob_handler H fault ans workspace_id file_id modified_since s =
     (case store_get_blob_metadata H fault workspace_id file_id s of
        Inl err \<Rightarrow> (if is_record_not_found err then BlobNotFound else BlobServerError)
      | Inr metadata \<Rightarrow>
          (if (case modified_since of Some t \<Rightarrow> bl_modified_at metadata \<le> t | None \<Rightarrow> False) then BlobNotModified
           else
             (case store_get_blob ans of
                Inl e \<Rightarrow> BlobError e
              | Inr blob \<Rightarrow> BlobOk \<lparr>br_etag = file_id, br_content_type = bl_file_type metadata,
                  br_last_modified = bl_modified_at metadata, br_content_length = length blob, br_body = blob\<rparr>)))"

definition get_blob_metadata_handler where
  "get_blob_metadata_handler H fault workspace_id file_id s = store_get_blob_metadata H fault workspace_id file_id s"

definition file_usage_handler where
  "file_usage_handler H fault workspace_id s = get_workspace_usage_size H fault workspace_id (fs_db s)"

definition get_all_workspace_blob_metadata_handler where
  "get_all_workspace_blob_metadata_handler H fault workspace_id s = get_all_workspace_blob_metadata H fault workspace_id (fs_db s)"

end
