(* ===== verification/File_Props.thy ===== *)
theory File_Props
  imports File_Storage
begin

text \<open>
  Files are read back as they were stored, and what is left when the object store and the database part.
\<close>

definition no_store_faults :: "s3_answer \<Rightarrow> store_faults" where
  "no_store_faults ans = \<lparr>sf_exists = None, sf_begin = None, sf_stmt = None, sf_s3 = ans, sf_commit = None\<rparr>"

definition has_metadata :: "'j FileStore \<Rightarrow> string \<Rightarrow> string \<Rightarrow> bool" where
  "has_metadata s w f \<longleftrightarrow> list_ex (\<lambda>b. bl_workspace_id b = w \<and> bl_file_id b = f) (wd_blobs (fs_db s))"

text \<open>
  Every row of the metadata has its object, of the row's length; the rows have different names, and workspace
  ids have no slash.
\<close>

definition store_inv :: "'j FileStore \<Rightarrow> bool" where
  "store_inv s \<longleftrightarrow>
     distinct (map (\<lambda>b. (bl_workspace_id b, bl_file_id b)) (wd_blobs (fs_db s))) \<and>
     list_all (\<lambda>b. CHR ''/'' \<notin> set (bl_workspace_id b) \<and>
       (case map_of (fs_bucket s) (object_key (bl_workspace_id b) (bl_file_id b)) of
          Some c \<Rightarrow> bl_file_size b = int (length c) | None \<Rightarrow> False)) (wd_blobs (fs_db s))"

lemma append_slash_inj:
  "CHR ''/'' \<notin> set w \<Longrightarrow> CHR ''/'' \<notin> set v \<Longrightarrow> w @ CHR ''/'' # f = v @ CHR ''/'' # g \<Longrightarrow> w = v \<and> f = g"
proof (induction w arbitrary: v)
  case Nil
  then show ?case by (cases v) auto
next
  case (Cons c w)
  then show ?case by (cases v) auto
qed

lemma object_key_inj:
  "CHR ''/'' \<notin> set w \<Longrightarrow> CHR ''/'' \<notin> set v \<Longrightarrow> object_key w f = object_key v g \<longleftrightarrow> w = v \<and> f = g"
  using append_slash_inj [of w v f g] by (auto simp: object_key_def)

lemma store_inv_iff:
  "store_inv s \<longleftrightarrow>
     distinct (map (\<lambda>b. (bl_workspace_id b, bl_file_id b)) (wd_blobs (fs_db s))) \<and>
     (\<forall>b \<in> set (wd_blobs (fs_db s)). CHR ''/'' \<notin> set (bl_workspace_id b) \<and>
       (\<exists>c. map_of (fs_bucket s) (object_key (bl_workspace_id b) (bl_file_id b)) = Some c \<and> bl_file_size b = int (length c)))"
  by (auto simp: store_inv_def list_all_iff split: option.splits)

lemma put_blob_cases:
  assumes "put_blob H F now w f data t s = (r, s')"
  obtains (same) "s' = s"
    | (orphan) b where "\<not> has_metadata s w f" "s' = s\<lparr>fs_bucket := b\<rparr>"
        "b = fs_bucket s \<or> b = map_insert (fs_bucket s) (object_key w f) data"
    | (stored) "\<not> has_metadata s w f" "r = Ok ()" "s' = s\<lparr>fs_bucket := map_insert (fs_bucket s) (object_key w f) data,
        fs_db := (fs_db s)\<lparr>wd_blobs := wd_blobs (fs_db s) @ [\<lparr>bl_workspace_id = w, bl_file_id = f, bl_file_type = t,
               bl_file_size = int (length data), bl_modified_at = now\<rparr>]\<rparr>\<rparr>"
proof (cases "is_blob_metadata_exists H (sf_exists F) w f (fs_db s)")
  case (Inl e)
  then show thesis using assms same by (simp add: put_blob_def)
next
  case (Inr ex)
  then have ex: "ex = has_metadata s w f"
    by (auto simp: is_blob_metadata_exists_def sql_err_def statement_def has_metadata_def split: option.splits)
  show thesis
  proof (cases ex)
    case True
    then show thesis using assms Inr same by (simp add: put_blob_def)
  next
    case False
    then have n: "\<not> list_ex (\<lambda>b. bl_workspace_id b = w \<and> bl_file_id b = f) (wd_blobs (fs_db s))"
      using ex by (simp add: has_metadata_def)
    then show thesis
      using assms Inr False ex same orphan stored
      by (auto simp: put_blob_def insert_blob_metadata_def sql_unit_def sql_err_def statement_def client_pub_blob_def
          check_s3_status_code_def split: option.splits sum.splits if_splits)
  qed
qed

lemma delete_blob_cases:
  assumes "delete_blob H lossy F w f s = (r, s')"
  obtains (same) "s' = s"
    | (lost) "s' = s\<lparr>fs_bucket := map_remove (fs_bucket s) (object_key w f)\<rparr>" "sf_commit F \<noteq> None" "has_metadata s w f"
    | (deleted) "r = Some (Ok ())" "s' = s\<lparr>fs_bucket := map_remove (fs_bucket s) (object_key w f),
        fs_db := (fs_db s)\<lparr>wd_blobs := filter (\<lambda>b. \<not> (bl_workspace_id b = w \<and> bl_file_id b = f)) (wd_blobs (fs_db s))\<rparr>\<rparr>"
        "has_metadata s w f"
proof (cases "sf_stmt F = None \<and> length (filter (\<lambda>b. bl_workspace_id b = w \<and> bl_file_id b = f) (wd_blobs (fs_db s))) = 1")
  case False
  then show thesis using assms same
    by (auto simp: delete_blob_def delete_blob_metadata_def split: option.splits sum.splits if_splits)
next
  case True
  then have "filter (\<lambda>b. bl_workspace_id b = w \<and> bl_file_id b = f) (wd_blobs (fs_db s)) \<noteq> []" by auto
  then have h: "has_metadata s w f" by (auto simp: has_metadata_def filter_empty_conv list_ex_iff)
  then show thesis using assms True same lost deleted
    by (auto simp: delete_blob_def delete_blob_metadata_def sql_unit_def sql_err_def statement_def client_delete_blob_def
        check_s3_response_data_def split: option.splits sum.splits if_splits)
qed

section \<open>Consistency\<close>

datatype file_op =
    OpPutBlob store_faults int string string bytes string
  | OpDeleteBlob store_faults string string

fun file_step :: "'j schema \<Rightarrow> (bytes \<Rightarrow> string) \<Rightarrow> file_op \<Rightarrow> 'j FileStore \<Rightarrow> 'j FileStore" where
  "file_step H lossy (OpPutBlob F now w f data t) s = snd (put_blob H F now w f data t s)"
| "file_step H lossy (OpDeleteBlob F w f) s = snd (delete_blob H lossy F w f s)"

text \<open>Workspace ids are uuids, and a delete that gets as far as its commit is committed.\<close>

fun file_op_fine :: "file_op \<Rightarrow> bool" where
  "file_op_fine (OpPutBlob F now w f data t) \<longleftrightarrow> CHR ''/'' \<notin> set w"
| "file_op_fine (OpDeleteBlob F w f) \<longleftrightarrow> CHR ''/'' \<notin> set w \<and> sf_commit F = None"

lemma store_inv_bucket:
  assumes "store_inv s" and "\<And>b. b \<in> set (wd_blobs (fs_db s)) \<Longrightarrow>
      map_of m (object_key (bl_workspace_id b) (bl_file_id b)) = map_of (fs_bucket s) (object_key (bl_workspace_id b) (bl_file_id b))"
  shows "store_inv (s\<lparr>fs_bucket := m\<rparr>)"
  using assms by (simp add: store_inv_iff)

lemma other_object:
  assumes "store_inv s" and "CHR ''/'' \<notin> set w" and "\<not> has_metadata s w f" and "b \<in> set (wd_blobs (fs_db s))"
  shows "object_key (bl_workspace_id b) (bl_file_id b) \<noteq> object_key w f"
proof -
  have "CHR ''/'' \<notin> set (bl_workspace_id b)" using assms(1,4) by (simp add: store_inv_iff)
  then show ?thesis using assms(2,3,4) by (auto simp: object_key_inj has_metadata_def list_ex_iff)
qed

lemma file_step_inv:
  assumes "store_inv s" and "file_op_fine x"
  shows "store_inv (file_step H lossy x s)"
proof (cases x)
  case (OpPutBlob F now w f data t)
  then have w: "CHR ''/'' \<notin> set w" using assms(2) by simp
  obtain r s' where r: "put_blob H F now w f data t s = (r, s')" by (rule prod.exhaust)
  from r show ?thesis
  proof (cases rule: put_blob_cases)
    case same
    then show ?thesis using OpPutBlob r assms(1) by simp
  next
    case (orphan b)
    then have "store_inv s'"
      using store_inv_bucket [OF assms(1)] other_object [OF assms(1) w orphan(1)] by (auto simp: map_lookup)
    then show ?thesis using OpPutBlob r by simp
  next
    case stored
    have "store_inv s'"
      using assms(1) w stored(1) other_object [OF assms(1) w stored(1)] unfolding stored(3)
      by (auto simp: store_inv_iff map_lookup has_metadata_def list_ex_iff)
    then show ?thesis using OpPutBlob r by simp
  qed
next
  case (OpDeleteBlob F w f)
  then have w: "CHR ''/'' \<notin> set w" "sf_commit F = None" using assms(2) by simp_all
  obtain r s' where r: "delete_blob H lossy F w f s = (r, s')" by (rule prod.exhaust)
  from r show ?thesis
  proof (cases rule: delete_blob_cases)
    case same
    then show ?thesis using OpDeleteBlob r assms(1) by simp
  next
    case lost
    then show ?thesis using w(2) by simp
  next
    case deleted
    have "object_key (bl_workspace_id b) (bl_file_id b) \<noteq> object_key w f"
      if "b \<in> set (wd_blobs (fs_db s))" "\<not> (bl_workspace_id b = w \<and> bl_file_id b = f)" for b
      using assms(1) that w(1) by (auto simp: store_inv_iff object_key_inj)
    then have "store_inv s'"
      using assms(1) unfolding deleted(2) by (auto simp: store_inv_iff map_lookup distinct_map_filter)
    then show ?thesis using OpDeleteBlob r by simp
  qed
qed


definition sample_files :: "unit FileStore" where
  "sample_files = \<lparr>fs_db = \<lparr>wd_users = [], wd_workspaces = [], wd_members = [], wd_invitations = [], wd_blobs = [],
     wd_roles = [], wd_role_permissions = []\<rparr>, fs_bucket = []\<rparr>"

definition sample_schema :: "unit schema" where
  "sample_schema = \<lparr>sc_show_sqlx = (\<lambda>e. ''sql''), sc_new_workspace = (\<lambda>n u. \<lparr>wt_workspace_id = ''n'', wt_database_storage_id = Some ''d'',
       wt_owner_uid = u, wt_created_at = None, wt_workspace_type = 0, wt_deleted_at = None, wt_workspace_name = n, wt_icon = None\<rparr>),
     sc_workspace_inserted = (\<lambda>w d. d), sc_workspace_deleted = (\<lambda>w d. d), sc_invitation_updated = (\<lambda>i d. d),
     sc_profile_view = (\<lambda>d. []), sc_json_merge = (\<lambda>a b. b), sc_no_metadata = ()\<rparr>"

definition s3_done :: s3_answer where "s3_done = Ok \<lparr>s3_status = 200, s3_body = []\<rparr>"

lemmas file_simps = put_blob_def is_blob_metadata_exists_def insert_blob_metadata_def sql_unit_def sql_err_def statement_def
  client_pub_blob_def check_s3_status_code_def s3_success_def s3_done_def no_store_faults_def


section \<open>Reading\<close>

text \<open>
  A file is read back as it was put. After a put of a new file that succeeded, a store that answers gives a
  reader the same bytes and the same content type, with their length.
\<close>

theorem file_roundtrip:
  assumes "put_blob_handler H F now w f content_type (length data) data s = (Ok (), s')" and "\<not> has_metadata s w f"
  shows "get_blob_handler H None (s3_read page (fs_bucket s') (object_key w f)) w f None s' =
    BlobOk \<lparr>br_etag = f, br_content_type = content_type, br_last_modified = now, br_content_length = length data, br_body = data\<rparr>"
proof -
  have p: "put_blob H F now w f data content_type s = (Ok (), s')"
    using assms(1) by (simp add: put_blob_handler_def read_body_def)
  from p have s': "s' = s\<lparr>fs_bucket := map_insert (fs_bucket s) (object_key w f) data,
      fs_db := (fs_db s)\<lparr>wd_blobs := wd_blobs (fs_db s) @ [\<lparr>bl_workspace_id = w, bl_file_id = f, bl_file_type = content_type,
               bl_file_size = int (length data), bl_modified_at = now\<rparr>]\<rparr>\<rparr>"
    using assms(2)
    by (auto simp: put_blob_def insert_blob_metadata_def is_blob_metadata_exists_def sql_unit_def sql_err_def statement_def
        client_pub_blob_def check_s3_status_code_def has_metadata_def split: option.splits sum.splits if_splits)
  have "filter (\<lambda>b. bl_workspace_id b = w \<and> bl_file_id b = f) (wd_blobs (fs_db s)) = []"
    using assms(2) by (auto simp: has_metadata_def filter_empty_conv list_ex_iff)
  then show ?thesis
    unfolding s'
    by (simp add: get_blob_handler_def store_get_blob_metadata_def db_get_blob_metadata_def sql_err_def statement_def
        fetch_one_def store_get_blob_def client_get_blob_def s3_read_def map_lookup)
qed

theorem file_roundtrip_witness:
  "get_blob_handler sample_schema None
     (s3_read [] (fs_bucket (snd (put_blob_handler sample_schema (no_store_faults s3_done) 1 ''w'' ''f'' ''text'' 2 [7, 8] sample_files)))
       (object_key ''w'' ''f'')) ''w'' ''f'' None
     (snd (put_blob_handler sample_schema (no_store_faults s3_done) 1 ''w'' ''f'' ''text'' 2 [7, 8] sample_files)) =
   BlobOk \<lparr>br_etag = ''f'', br_content_type = ''text'', br_last_modified = 1, br_content_length = 2, br_body = [7, 8]\<rparr>"
proof -
  let ?r = "put_blob_handler sample_schema (no_store_faults s3_done) 1 ''w'' ''f'' ''text'' (length [7, 8 :: u8]) [7, 8] sample_files"
  have "fst ?r = Ok ()" by (simp add: put_blob_handler_def read_body_def file_simps sample_files_def)
  then have r: "?r = (Ok (), snd ?r)" by (metis prod.collapse)
  have "\<not> has_metadata sample_files ''w'' ''f''" by (simp add: has_metadata_def sample_files_def)
  from file_roundtrip [OF r this] show ?thesis by (simp add: numeral_2_eq_2)
qed

text \<open>
  A file whose object is gone is answered with the store's error page. When the commit of a delete fails the
  metadata stays and the object is gone; a reader then gets, as the file, with its content type and as a success,
  what the object store answers to a read of an object it does not have.
\<close>

theorem lost_object_served_as_file:
  assumes "store_inv s" and "has_metadata s w f" and "CHR ''/'' \<notin> set w"
    and "sf_begin F = None" and "sf_stmt F = None" and "sf_s3 F = s3_done" and "sf_commit F = Some err"
  shows "\<exists>s' t. delete_blob_handler H lossy F w f s = (Some (Err (app_error_from_sqlx (sc_show_sqlx H) err)), s') \<and>
    get_blob_handler H None (s3_read page (fs_bucket s') (object_key w f)) w f None s' =
      BlobOk \<lparr>br_etag = f, br_content_type = bl_file_type t, br_last_modified = bl_modified_at t,
        br_content_length = length page, br_body = page\<rparr> \<and> t \<in> set (wd_blobs (fs_db s))"
proof -
  obtain t where t: "t \<in> set (wd_blobs (fs_db s))" "bl_workspace_id t = w" "bl_file_id t = f"
    using assms(2) by (auto simp: has_metadata_def list_ex_iff)
  have d: "distinct (map (\<lambda>b. (bl_workspace_id b, bl_file_id b)) (wd_blobs (fs_db s)))" using assms(1) by (simp add: store_inv_iff)
  have one: "filter (\<lambda>b. bl_workspace_id b = w \<and> bl_file_id b = f) (wd_blobs (fs_db s)) = [t]"
    by (rule filter_by_key [OF d t(1)]) (use t(2,3) in auto)
  have r: "delete_blob_handler H lossy F w f s = (Some (Err (app_error_from_sqlx (sc_show_sqlx H) err)),
      s\<lparr>fs_bucket := map_remove (fs_bucket s) (object_key w f)\<rparr>)"
    using assms(4-7) one
    by (simp add: delete_blob_handler_def delete_blob_def sql_unit_def sql_err_def statement_def delete_blob_metadata_def
        client_delete_blob_def check_s3_response_data_def s3_done_def s3_success_def)
  have "get_blob_handler H None (s3_read page (map_remove (fs_bucket s) (object_key w f)) (object_key w f)) w f None
      (s\<lparr>fs_bucket := map_remove (fs_bucket s) (object_key w f)\<rparr>) =
      BlobOk \<lparr>br_etag = f, br_content_type = bl_file_type t, br_last_modified = bl_modified_at t,
        br_content_length = length page, br_body = page\<rparr>"
    using one
    by (simp add: get_blob_handler_def store_get_blob_metadata_def db_get_blob_metadata_def sql_err_def statement_def
        fetch_one_def store_get_blob_def client_get_blob_def s3_read_def map_lookup)
  then show ?thesis using r t(1) by auto
qed

theorem lost_object_served_as_file_witness:
  "let s = snd (put_blob_handler sample_schema (no_store_faults s3_done) 1 ''w'' ''f'' ''text'' 2 [7, 8] sample_files);
       s' = snd (delete_blob_handler sample_schema (\<lambda>b. []) ((no_store_faults s3_done)\<lparr>sf_commit := Some SqlxPoolTimedOut\<rparr>) ''w'' ''f'' s)
   in get_blob_handler sample_schema None (s3_read [60] (fs_bucket s') (object_key ''w'' ''f'')) ''w'' ''f'' None s' =
     BlobOk \<lparr>br_etag = ''f'', br_content_type = ''text'', br_last_modified = 1, br_content_length = 1, br_body = [60]\<rparr>"
proof -
  let ?s = "snd (put_blob_handler sample_schema (no_store_faults s3_done) 1 ''w'' ''f'' ''text'' 2 [7, 8] sample_files)"
  let ?F = "(no_store_faults s3_done)\<lparr>sf_commit := Some SqlxPoolTimedOut\<rparr>"
  have s: "?s = \<lparr>fs_db = (fs_db sample_files)\<lparr>wd_blobs := [\<lparr>bl_workspace_id = ''w'', bl_file_id = ''f'', bl_file_type = ''text'',
      bl_file_size = 2, bl_modified_at = 1\<rparr>]\<rparr>, fs_bucket = [(object_key ''w'' ''f'', [7, 8])]\<rparr>"
    by (simp add: put_blob_handler_def read_body_def file_simps sample_files_def)
  have i: "store_inv ?s" "has_metadata ?s ''w'' ''f''" unfolding s by (simp_all add: store_inv_def has_metadata_def)
  have f: "sf_begin ?F = None" "sf_stmt ?F = None" "sf_s3 ?F = s3_done" "sf_commit ?F = Some SqlxPoolTimedOut"
    by (simp_all add: no_store_faults_def)
  have "CHR ''/'' \<notin> set ''w''" by simp
  from lost_object_served_as_file [OF i this f, of sample_schema "\<lambda>b. []" "[60]"] show ?thesis
    unfolding s Let_def by auto
qed

end
