(* ===== verification/App_State.thy ===== *)
theory App_State
  imports Http_Props File_Props Snapshot
begin

text \<open>
  The server's state behind its HTTP handlers (\<open>src/state.rs\<close>), and the shape of its operations: a value or
  an error with the state it leaves, transactions on the database, changes of the policies in between.

  A transaction works on copies of the collab tables and of the workspace tables that are written back when it
  commits; what it did to the policies, to redis and to the user cache stays when it does not.
\<close>

section \<open>\<open>AppState\<close>\<close>

record 'j App =
  ap_storage :: CollabStorage
  ap_ws :: "'j WsDb"
  ap_users :: "(string \<times> int) list"
  ap_snapshots :: SnapshotControl

definition ap_db :: "'j App \<Rightarrow> Db" where "ap_db s = cc_db (cs_cache (ap_storage s))"
definition ap_ac :: "'j App \<Rightarrow> AccessControl" where "ap_ac s = cs_ac (ap_storage s)"

definition set_db :: "Db \<Rightarrow> 'j App \<Rightarrow> 'j App" where
  "set_db db s = s\<lparr>ap_storage := (ap_storage s)\<lparr>cs_cache := (cs_cache (ap_storage s))\<lparr>cc_db := db\<rparr>\<rparr>\<rparr>"

definition set_ac :: "AccessControl \<Rightarrow> 'j App \<Rightarrow> 'j App" where
  "set_ac a s = s\<lparr>ap_storage := (ap_storage s)\<lparr>cs_ac := a\<rparr>\<rparr>"

lemma app_simps [simp]:
  "ap_db (set_db db s) = db" "ap_db (set_ac a s) = ap_db s" "ap_ac (set_ac a s) = a" "ap_ac (set_db db s) = ap_ac s"
  "ap_ws (set_db db s) = ap_ws s" "ap_ws (set_ac a s) = ap_ws s"
  "ap_db (s\<lparr>ap_ws := w\<rparr>) = ap_db s" "ap_ac (s\<lparr>ap_ws := w\<rparr>) = ap_ac s"
  by (simp_all add: ap_db_def ap_ac_def set_db_def set_ac_def)

record ('t, 'j) app_env =
  ae_storage :: "'t storage_env"
  ae_schema :: "'j schema"

abbreviation ae_casbin where "ae_casbin A \<equiv> se_casbin (ae_storage A)"
abbreviation ae_enabled where "ae_enabled A \<equiv> se_enabled (ae_storage A)"
abbreviation ae_db where "ae_db A \<equiv> se_db (ae_storage A)"

text \<open>\<open>UserCache\<close>: loaded with all users, filled by need, and never told of a change.\<close>

definition UserCache_new :: "'j WsDb \<Rightarrow> (string \<times> int) list" where
  "UserCache_new d = foldl (\<lambda>m (uid, uuid). map_insert m uuid uid) [] (select_all_uid_uuid d)"

definition get_user_uid :: "('t, 'j) app_env \<Rightarrow> faults \<Rightarrow> string \<Rightarrow> 'j App \<Rightarrow> (AppError + int) \<times> 'j App" where
  "get_user_uid A F uuid s =
     (case map_of (ap_users s) uuid of
        Some uid \<Rightarrow> (Ok uid, s)
      | None \<Rightarrow>
          (case select_uid_from_uuid (ae_schema A) F uuid (ap_ws s) of
             Inl e \<Rightarrow> (Err e, s)
           | Inr uid \<Rightarrow> (Ok uid, s\<lparr>ap_users := map_insert (ap_users s) uuid uid\<rparr>)))"

section \<open>Operations\<close>

type_synonym ('s, 'a) op = "'s \<Rightarrow> (AppError + 'a) \<times> 's"

definition op_return :: "'a \<Rightarrow> ('s, 'a) op" where "op_return x s = (Ok x, s)"
definition op_fail :: "AppError \<Rightarrow> ('s, 'a) op" where "op_fail e s = (Err e, s)"

definition op_bind :: "('s, 'a) op \<Rightarrow> ('a \<Rightarrow> ('s, 'b) op) \<Rightarrow> ('s, 'b) op" where
  "op_bind m f s = (case m s of (Inl e, s1) \<Rightarrow> (Err e, s1) | (Inr x, s1) \<Rightarrow> f x s1)"

abbreviation op_then :: "('s, 'a) op \<Rightarrow> ('s, 'b) op \<Rightarrow> ('s, 'b) op" where
  "op_then m n \<equiv> op_bind m (\<lambda>_. n)"

definition op_lift :: "AppError + 'a \<Rightarrow> ('s, 'a) op" where "op_lift r s = (r, s)"
definition op_read :: "('s \<Rightarrow> AppError + 'a) \<Rightarrow> ('s, 'a) op" where "op_read f s = (f s, s)"

fun op_each :: "('a \<Rightarrow> ('s, unit) op) \<Rightarrow> 'a list \<Rightarrow> ('s, unit) op" where
  "op_each f [] = op_return ()"
| "op_each f (x # xs) = op_then (f x) (op_each f xs)"

lemma op_simps [simp]:
  "op_bind (op_return x) f = f x" "op_bind (op_fail e) f = op_fail e" "op_bind (op_lift (Inr x)) f = f x"
  "op_bind (op_lift (Inl e)) f = op_fail e"
  by (simp_all add: fun_eq_iff op_bind_def op_return_def op_fail_def op_lift_def)

lemma op_bind_Ok:
  "op_bind m f s = (Inr y, s') \<longleftrightarrow> (\<exists>x s1. m s = (Inr x, s1) \<and> f x s1 = (Inr y, s'))"
  by (auto simp: op_bind_def split: prod.splits sum.splits)

section \<open>Transactions\<close>

type_synonym 'j tx = "(Db \<times> 'j WsDb) \<times> 'j App"

definition tx_ws :: "('j WsDb \<Rightarrow> AppError + 'j WsDb) \<Rightarrow> ('j tx, unit) op" where
  "tx_ws f = (\<lambda>((db, d), s). case f d of Inl e \<Rightarrow> (Err e, ((db, d), s)) | Inr d1 \<Rightarrow> (Ok (), ((db, d1), s)))"

definition tx_db :: "(Db \<Rightarrow> AppError + Db) \<Rightarrow> ('j tx, unit) op" where
  "tx_db f = (\<lambda>((db, d), s). case f db of Inl e \<Rightarrow> (Err e, ((db, d), s)) | Inr db1 \<Rightarrow> (Ok (), ((db1, d), s)))"

definition tx_query :: "(Db \<Rightarrow> 'j WsDb \<Rightarrow> AppError + 'a) \<Rightarrow> ('j tx, 'a) op" where
  "tx_query f = (\<lambda>((db, d), s). (f db d, ((db, d), s)))"

text \<open>What happens outside of the transaction while it is open.\<close>

definition tx_outside :: "('j App, 'a) op \<Rightarrow> ('j tx, 'a) op" where
  "tx_outside m = (\<lambda>(t, s). case m s of (r, s1) \<Rightarrow> (r, (t, s1)))"

definition in_transaction ::
  "(sqlx_error + unit \<Rightarrow> AppError + unit) \<Rightarrow> (sqlx_error + unit \<Rightarrow> AppError + unit) \<Rightarrow> sqlx_error option \<Rightarrow> sqlx_error option \<Rightarrow>
     ('j tx, 'a) op \<Rightarrow> ('j App, 'a) op" where
  "in_transaction begin_err commit_err begin_fault commit_fault body s =
     (case begin_err (statement (\<lambda>_. begin_fault) 0 ()) of
        Inl e \<Rightarrow> (Err e, s)
      | Inr _ \<Rightarrow>
          (case body ((ap_db s, ap_ws s), s) of
             (Inl e, (_, s1)) \<Rightarrow> (Err e, s1)
           | (Inr x, ((db, d), s1)) \<Rightarrow>
               (case commit_err (statement (\<lambda>_. commit_fault) 0 ()) of
                  Inl e \<Rightarrow> (Err e, s1)
                | Inr _ \<Rightarrow> (Ok x, (set_db db s1)\<lparr>ap_ws := d\<rparr>))))"

text \<open>Changes of the policies; an error of the enforcer is an internal error.\<close>

definition on_policies :: "(AccessControl \<Rightarrow> (string + unit) \<times> AccessControl) \<Rightarrow> ('j App, unit) op" where
  "on_policies f s =
     (case f (ap_ac s) of
        (Inl e, a) \<Rightarrow> (Err (AE_Internal e), set_ac a s)
      | (Inr _, a) \<Rightarrow> (Ok (), set_ac a s))"

definition on_storage :: "(CollabStorage \<Rightarrow> (AppError + 'a) \<times> CollabStorage) \<Rightarrow> ('j App, 'a) op" where
  "on_storage f s = (case f (ap_storage s) of (r, c) \<Rightarrow> (r, s\<lparr>ap_storage := c\<rparr>))"

text \<open>The snapshots are in the server's database.\<close>

definition on_snapshots :: "(SnapshotControl \<Rightarrow> (AppError + 'a) \<times> SnapshotControl) \<Rightarrow> ('j App, 'a) op" where
  "on_snapshots f s =
     (case f ((ap_snapshots s)\<lparr>sc_runner := (sc_runner (ap_snapshots s))\<lparr>sr_db := ap_db s\<rparr>\<rparr>) of
        (r, c) \<Rightarrow> (r, (set_db (sr_db (sc_runner c)) s)\<lparr>ap_snapshots := c\<rparr>))"

end
