(* ===== verification/Workspace_Ops.thy ===== *)
theory Workspace_Ops
  imports App_State
begin

text \<open>
  What the handlers do to workspaces, to the members of documents and to users
  (\<open>src/biz/workspace/ops.rs\<close>, \<open>src/biz/collab/ops.rs\<close>, \<open>src/biz/user.rs\<close>).

  \<open>op_faults\<close> says what fails during one operation: its begin, its commit, and the statements of its n-th
  call.  The answers of gotrue and the documents of the templates are arguments; errors of handlers are the
  \<open>AppError\<close> they are made of.
\<close>

record op_faults =
  of_begin :: "sqlx_error option"
  of_commit :: "sqlx_error option"
  of_call :: "nat \<Rightarrow> faults"
  of_write :: "nat \<Rightarrow> write_faults"
  of_now :: int

text \<open>A begin or a commit with \<open>?\<close>, and under a context.\<close>

definition plain_txn :: "('t, 'j) app_env \<Rightarrow> op_faults \<Rightarrow> ('j tx, 'a) op \<Rightarrow> ('j App, 'a) op" where
  "plain_txn A F = in_transaction (sql_err (sc_show_sqlx (ae_schema A))) (sql_err (sc_show_sqlx (ae_schema A))) (of_begin F) (of_commit F)"

definition context_txn :: "string \<Rightarrow> string \<Rightarrow> op_faults \<Rightarrow> ('j tx, 'a) op \<Rightarrow> ('j App, 'a) op" where
  "context_txn begin_msg commit_msg F = in_transaction (with_context begin_msg) (with_context commit_msg) (of_begin F) (of_commit F)"

section \<open>Documents' members\<close>

definition create_collab_member ::
  "('t, 'j) app_env \<Rightarrow> op_faults \<Rightarrow> InsertCollabMemberParams \<Rightarrow> ('j App, unit) op" where
  "create_collab_member A F params =
     op_then (op_lift (validator_error (validate_InsertCollabMemberParams params)))
       (context_txn ''acquire transaction to insert collab member'' ''fail to commit the transaction to insert collab member'' F
         (op_bind (tx_query (\<lambda>db d. sql_err (de_show_sqlx (ae_db A)) (is_collab_exists (of_call F 0 0) (icm_object_id params) db)))
           (\<lambda>collab_exists. if \<not> collab_exists
             then op_fail (AE_RecordNotFound (''Fail to insert collab member. The Collab with object_id '' @ icm_object_id params @ '' does not exist''))
             else
               op_bind (tx_query (\<lambda>db d. sql_err (de_show_sqlx (ae_db A)) (is_collab_member_exists (of_call F 1 0) (icm_uid params) (icm_object_id params) db)))
                 (\<lambda>member_exists. if member_exists
                   then op_fail (AE_RecordAlreadyExists (''Collab member with uid '' @ int_to_string (icm_uid params) @ '' and object_id '' @
                     icm_object_id params @ '' already exists''))
                   else
                     op_then (tx_db (insert_collab_member (ae_db A) (of_call F 2) (icm_uid params) (icm_object_id params) (icm_access_level params)))
                       (tx_outside (on_policies (update_access_level_policy (ae_casbin A) (ae_enabled A) (icm_uid params)
                          (icm_object_id params) (icm_access_level params))))))))"

definition upsert_collab_member ::
  "('t, 'j) app_env \<Rightarrow> op_faults \<Rightarrow> InsertCollabMemberParams \<Rightarrow> ('j App, unit) op" where
  "upsert_collab_member A F params =
     op_then (op_lift (validator_error (validate_InsertCollabMemberParams params)))
       (context_txn ''acquire transaction to upsert collab member'' ''fail to commit the transaction to upsert collab member'' F
         (op_bind (tx_query (\<lambda>db d. sql_err (de_show_sqlx (ae_db A)) (is_collab_exists (of_call F 0 0) (icm_object_id params) db)))
           (\<lambda>collab_exists. if \<not> collab_exists
             then op_fail (AE_RecordNotFound (''Fail to upsert collab member. The Collab with object_id '' @ icm_object_id params @ '' does not exist''))
             else
               op_then (tx_outside (on_policies (update_access_level_policy (ae_casbin A) (ae_enabled A) (icm_uid params)
                   (icm_object_id params) (icm_access_level params))))
                 (tx_db (insert_collab_member (ae_db A) (of_call F 1) (icm_uid params) (icm_object_id params) (icm_access_level params))))))"

definition get_collab_member :: "('t, 'j) app_env \<Rightarrow> op_faults \<Rightarrow> CollabMemberIdentify \<Rightarrow> ('j App, AFCollabMember) op" where
  "get_collab_member A F params =
     op_then (op_lift (validator_error (validate_CollabMemberIdentify params)))
       (op_read (\<lambda>s. select_collab_member (ae_db A) (of_call F 0) (cmi_uid params) (cmi_object_id params) (ap_db s)))"

definition ops_delete_collab_member :: "('t, 'j) app_env \<Rightarrow> op_faults \<Rightarrow> CollabMemberIdentify \<Rightarrow> ('j App, unit) op" where
  "ops_delete_collab_member A F params =
     op_then (op_lift (validator_error (validate_CollabMemberIdentify params)))
       (context_txn ''acquire transaction to remove collab member'' ''fail to commit the transaction to remove collab member'' F
         (op_then (tx_db (delete_collab_member (ae_db A) (of_call F 0) (cmi_uid params) (cmi_object_id params)))
           (tx_outside (on_policies (remove_access_level (ae_casbin A) (ae_enabled A) (cmi_uid params) (cmi_object_id params))))))"

definition get_collab_member_list :: "('t, 'j) app_env \<Rightarrow> op_faults \<Rightarrow> QueryCollabMembers \<Rightarrow> ('j App, AFCollabMember list) op" where
  "get_collab_member_list A F params =
     op_then (op_lift (validator_error (validate_QueryCollabMembers params)))
       (op_read (\<lambda>s. select_collab_members (ae_db A) (of_call F 0) (qcm_object_id params) (ap_db s)))"

text \<open>\<open>delete_collab\<close> of the ops goes to the database alone.\<close>

definition ops_delete_collab :: "('t, 'j) app_env \<Rightarrow> op_faults \<Rightarrow> nat \<Rightarrow> DeleteCollabParams \<Rightarrow> ('j App, unit) op" where
  "ops_delete_collab A F now params =
     op_then (op_lift (validator_error (validate_DeleteCollabParams params)))
       (\<lambda>s. case sql_err (de_show_sqlx (ae_db A)) (db_delete_collab (of_call F 0 0) now (dc_object_id params) (ap_db s)) of
              Inl e \<Rightarrow> (Err e, s)
            | Inr db \<Rightarrow> (Ok (), set_db db s))"

section \<open>Workspaces\<close>

text \<open>
  The files first, one by one, then the workspace; a failed assertion on the way is \<open>None\<close>.  Nothing of it
  is one transaction.
\<close>

fun delete_blobs ::
  "'j schema \<Rightarrow> (bytes \<Rightarrow> string) \<Rightarrow> (nat \<Rightarrow> store_faults) \<Rightarrow> nat \<Rightarrow> string \<Rightarrow> AFBlobMetadataRow list \<Rightarrow> 'j FileStore \<Rightarrow>
     (AppError + unit) option \<times> 'j FileStore" where
  "delete_blobs H lossy SF i workspace_id [] s = (Some (Ok ()), s)"
| "delete_blobs H lossy SF i workspace_id (b # bs) s =
     (case delete_blob H lossy (SF i) workspace_id (bl_file_id b) s of
        (Some (Inr _), s1) \<Rightarrow> delete_blobs H lossy SF (Suc i) workspace_id bs s1
      | (Some (Inl e), s1) \<Rightarrow> (Some (Err (AE_Internal ''Delete blob from s3'')), s1)
      | (None, s1) \<Rightarrow> (None, s1))"

definition delete_workspace_for_user ::
  "'j schema \<Rightarrow> (bytes \<Rightarrow> string) \<Rightarrow> op_faults \<Rightarrow> (nat \<Rightarrow> store_faults) \<Rightarrow> string \<Rightarrow> 'j FileStore \<Rightarrow>
     (AppError + unit) option \<times> 'j FileStore" where
  "delete_workspace_for_user H lossy F SF workspace_id s =
     (case get_all_workspace_blob_metadata H (of_call F 0 0) workspace_id (fs_db s) of
        Inl e \<Rightarrow> (Some (Err (AE_Internal ''Get all workspace blob metadata'')), s)
      | Inr blob_metadatas \<Rightarrow>
          (case delete_blobs H lossy SF 0 workspace_id blob_metadatas s of
             (Some (Inr _), s1) \<Rightarrow>
               (case delete_from_workspace H (of_call F 1) workspace_id (fs_db s1) of
                  (r, d) \<Rightarrow> (r, s1\<lparr>fs_db := d\<rparr>))
           | failed \<Rightarrow> failed))"

text \<open>The write of a document inside of a transaction that is open.\<close>

definition tx_upsert_collab ::
  "('t, 'j) app_env \<Rightarrow> 'e collab_codec \<Rightarrow> write_faults \<Rightarrow> string \<Rightarrow> int \<Rightarrow> 't CollabParams \<Rightarrow> ('j tx, unit) op" where
  "tx_upsert_collab A K W workspace_id uid params =
     (\<lambda>((db, d), s). case insert_or_update_collab_with_transaction (ae_storage A) K W workspace_id uid params db (ap_storage s) of
        (Inl e, c) \<Rightarrow> (Err e, ((db, d), s\<lparr>ap_storage := c\<rparr>))
      | (Inr db1, c) \<Rightarrow> (Ok (), ((db1, d), s\<lparr>ap_storage := c\<rparr>)))"

text \<open>The templates' documents: what the builder makes for the user and the workspace, or its error.\<close>

definition initialize_workspace_for_user ::
  "('t, 'j) app_env \<Rightarrow> 'e collab_codec \<Rightarrow> op_faults \<Rightarrow> int \<Rightarrow> string \<Rightarrow> AppError + 't CollabParams list \<Rightarrow> ('j tx, unit) op" where
  "initialize_workspace_for_user A K F uid workspace_id templates =
     op_bind (op_lift templates)
       (\<lambda>ts. op_each (\<lambda>(i, params). tx_upsert_collab A K (of_write F i) workspace_id uid params) (enumerate 0 ts))"

definition create_workspace_for_user ::
  "('t, 'j) app_env \<Rightarrow> 'e collab_codec \<Rightarrow> op_faults \<Rightarrow> (string \<Rightarrow> AppError + 't CollabParams list) \<Rightarrow> string \<Rightarrow> int \<Rightarrow> string \<Rightarrow>
     ('j App, string AFWorkspace) op" where
  "create_workspace_for_user A K F templates user_uuid user_uid workspace_name =
     plain_txn A F
       (op_bind (\<lambda>((db, d), s). case insert_user_workspace (ae_schema A) (of_call F 0) user_uuid workspace_name d of
             Inl e \<Rightarrow> (Err e, ((db, d), s))
           | Inr (row, d1) \<Rightarrow> (Ok row, ((db, d1), s)))
         (\<lambda>row. op_bind (op_lift (case workspace_try_from (of_now F) row of Inl e \<Rightarrow> Err (AE_Internal e) | Inr w \<Rightarrow> Ok w))
           (\<lambda>w. op_then (tx_outside (on_policies (insert_role (ae_casbin A) (ae_enabled A) user_uid (ws_workspace_id w) RoleOwner)))
             (op_then (initialize_workspace_for_user A K F user_uid (ws_workspace_id w) (templates (ws_workspace_id w)))
               (op_return w)))))"

definition patch_workspace ::
  "('t, 'j) app_env \<Rightarrow> op_faults \<Rightarrow> string \<Rightarrow> string option \<Rightarrow> string option \<Rightarrow> ('j App, unit) op" where
  "patch_workspace A F workspace_id workspace_name workspace_icon =
     plain_txn A F
       (op_then (case workspace_name of Some n \<Rightarrow> tx_ws (rename_workspace (ae_schema A) (of_call F 0) workspace_id n) | None \<Rightarrow> op_return ())
         (case workspace_icon of Some i \<Rightarrow> tx_ws (change_workspace_icon (ae_schema A) (of_call F 1) workspace_id i) | None \<Rightarrow> op_return ()))"

definition get_all_user_workspaces :: "('t, 'j) app_env \<Rightarrow> op_faults \<Rightarrow> string \<Rightarrow> ('j App, string AFWorkspaceRow list) op" where
  "get_all_user_workspaces A F user_uuid = op_read (\<lambda>s. select_all_user_workspaces (ae_schema A) (of_call F 0) user_uuid (ap_ws s))"

definition open_workspace :: "('t, 'j) app_env \<Rightarrow> op_faults \<Rightarrow> string \<Rightarrow> string \<Rightarrow> ('j App, string AFWorkspace) op" where
  "open_workspace A F user_uuid workspace_id =
     op_bind (context_txn ''Begin transaction to open workspace'' ''Commit transaction to open workspace'' F
         (op_bind (tx_query (\<lambda>db d. select_workspace (ae_schema A) (of_call F 0) workspace_id d))
           (\<lambda>row. op_then (tx_ws (update_updated_at_of_workspace (ae_schema A) (of_call F 1) (of_now F) user_uuid workspace_id))
             (op_return row))))
       (\<lambda>row. op_lift (case workspace_try_from (of_now F) row of Inl e \<Rightarrow> Err (AE_Internal e) | Inr w \<Rightarrow> Ok w))"

definition accept_workspace_invite :: "('t, 'j) app_env \<Rightarrow> op_faults \<Rightarrow> string \<Rightarrow> string \<Rightarrow> ('j App, unit) op" where
  "accept_workspace_invite A F user_uuid invite_id =
     plain_txn A F
       (op_then (tx_ws (update_workspace_invitation_set_status_accepted (ae_schema A) (of_call F 0) user_uuid invite_id))
         (op_bind (tx_query (\<lambda>db d. get_invitation_by_id (ae_schema A) (of_call F 1) invite_id d))
           (\<lambda>inv. case im_invitee_uid inv of
               None \<Rightarrow> op_fail (AE_Internal ''Invitee uid is missing'')
             | Some invited_uid \<Rightarrow>
                 tx_outside (on_policies (insert_role (ae_casbin A) (ae_enabled A) invited_uid (im_workspace_id inv) (im_role inv))))))"

record WorkspaceMemberInvitation =
  wi_email :: string
  wi_role :: AFRole

text \<open>\<open>gotrue\<close> answers for each email; an account that exists already is no error.\<close>

definition invite_result :: "(string option \<Rightarrow> string) \<Rightarrow> GoTrueError + unit \<Rightarrow> AppError + unit" where
  "invite_result dbg r =
     (case r of
        Inr _ \<Rightarrow> Ok ()
      | Inl (GT_Internal err) \<Rightarrow>
          (if ge_code err = 422 \<and> ge_msg err = ''A user with this email address has already been registered'' then Ok ()
           else Err (AE_Internal (gotrue_serde_fmt dbg err)))
      | Inl err \<Rightarrow> Err (app_error_from_gotrue dbg err))"

definition invite_workspace_members ::
  "('t, 'j) app_env \<Rightarrow> op_faults \<Rightarrow> (string option \<Rightarrow> string) \<Rightarrow> AppError + string \<Rightarrow> (string \<Rightarrow> GoTrueError + unit) \<Rightarrow> (nat \<Rightarrow> string) \<Rightarrow>
     string \<Rightarrow> string \<Rightarrow> WorkspaceMemberInvitation list \<Rightarrow> ('j App, unit) op" where
  "invite_workspace_members A F dbg admin_token gotrue new_id inviter workspace_id invitations =
     context_txn ''Begin transaction to invite workspace members'' ''Commit transaction to invite workspace members'' F
       (op_bind (op_lift admin_token)
         (\<lambda>token. op_each (\<lambda>(i, inv).
             op_then (op_lift (invite_result dbg (gotrue (wi_email inv))))
               (tx_ws (insert_workspace_invitation (ae_schema A) (of_call F i) (new_id i) (of_now F) workspace_id inviter
                  (wi_email inv) (wi_role inv)))) (enumerate 0 invitations)))"

definition list_workspace_invitations_for_user ::
  "('t, 'j) app_env \<Rightarrow> op_faults \<Rightarrow> string \<Rightarrow> AFWorkspaceInvitationStatus option \<Rightarrow> ('j App, AFWorkspaceInvitation list) op" where
  "list_workspace_invitations_for_user A F user_uuid status =
     op_read (\<lambda>s. select_workspace_invitations_for_user (ae_schema A) (of_call F 0) user_uuid status (ap_ws s))"

record CreateWorkspaceMember =
  cwm_email :: string
  cwm_role :: AFRole

text \<open>One member: the uid by the email, the membership, and the access to the workspace's own collab.\<close>

definition add_member_rows ::
  "('t, 'j) app_env \<Rightarrow> op_faults \<Rightarrow> nat \<Rightarrow> string \<Rightarrow> CreateWorkspaceMember \<Rightarrow> ('j tx, int) op" where
  "add_member_rows A F i workspace_id m =
     op_bind (tx_query (\<lambda>db d. select_uid_from_email (ae_schema A) (of_call F (3 * i)) (cwm_email m) d))
       (\<lambda>uid. op_then (tx_ws (upsert_workspace_member_with_txn (ae_schema A) (of_call F (3 * i + 1)) (of_now F) workspace_id
             (cwm_email m) (cwm_role m)))
         (op_then (tx_db (upsert_collab_member_with_txn (ae_db A) (of_call F (3 * i + 2)) uid workspace_id (level_from_role (cwm_role m))))
           (op_return uid)))"

fun add_members_loop ::
  "('t, 'j) app_env \<Rightarrow> op_faults \<Rightarrow> nat \<Rightarrow> string \<Rightarrow> CreateWorkspaceMember list \<Rightarrow> (int \<times> AFRole) list \<Rightarrow>
     ('j tx, (int \<times> AFRole) list) op" where
  "add_members_loop A F i workspace_id [] role_by_uid = op_return role_by_uid"
| "add_members_loop A F i workspace_id (m # ms) role_by_uid =
     op_bind (add_member_rows A F i workspace_id m)
       (\<lambda>uid. add_members_loop A F (Suc i) workspace_id ms (map_insert role_by_uid uid (cwm_role m)))"

definition add_workspace_members ::
  "('t, 'j) app_env \<Rightarrow> op_faults \<Rightarrow> string \<Rightarrow> CreateWorkspaceMember list \<Rightarrow> ('j App, unit) op" where
  "add_workspace_members A F workspace_id members =
     context_txn ''Begin transaction to insert workspace members'' ''Commit transaction to insert workspace members'' F
       (op_bind (add_members_loop A F 0 workspace_id members [])
         (\<lambda>role_by_uid. op_each (\<lambda>(uid, role). tx_outside (on_policies
             (insert_role (ae_casbin A) (ae_enabled A) uid workspace_id role))) role_by_uid))"

definition add_workspace_members_db_only ::
  "('t, 'j) app_env \<Rightarrow> op_faults \<Rightarrow> string \<Rightarrow> CreateWorkspaceMember list \<Rightarrow> ('j App, unit) op" where
  "add_workspace_members_db_only A F workspace_id members =
     context_txn ''Begin transaction to insert workspace members'' ''Commit transaction to insert workspace members'' F
       (op_then (add_members_loop A F 0 workspace_id members []) (op_return ()))"

text \<open>The role goes only if the email still has a user; the error of the query is dropped.\<close>

definition remove_workspace_members ::
  "('t, 'j) app_env \<Rightarrow> op_faults \<Rightarrow> string \<Rightarrow> string list \<Rightarrow> ('j App, unit) op" where
  "remove_workspace_members A F workspace_id member_emails =
     context_txn ''Begin transaction to delete workspace members'' ''Commit transaction to delete workspace members'' F
       (op_each (\<lambda>(i, email).
          op_then (tx_ws (delete_workspace_members (ae_schema A) (of_call F (2 * i)) workspace_id email))
            (\<lambda>((db, d), s). case select_uid_from_email (ae_schema A) (of_call F (2 * i + 1)) email d of
               Inl e \<Rightarrow> (Ok (), ((db, d), s))
             | Inr uid \<Rightarrow> tx_outside (on_policies (remove_role (ae_casbin A) (ae_enabled A) uid workspace_id)) ((db, d), s)))
        (enumerate 0 member_emails))"

definition leave_workspace :: "('t, 'j) app_env \<Rightarrow> faults \<Rightarrow> op_faults \<Rightarrow> string \<Rightarrow> string \<Rightarrow> ('j App, unit) op" where
  "leave_workspace A F0 F workspace_id user_uuid =
     op_bind (op_read (\<lambda>s. select_email_from_user_uuid (ae_schema A) F0 user_uuid (ap_ws s)))
       (\<lambda>email. remove_workspace_members A F workspace_id [email])"

definition get_workspace_members :: "('t, 'j) app_env \<Rightarrow> op_faults \<Rightarrow> string \<Rightarrow> ('j App, AFWorkspaceMemberRow list) op" where
  "get_workspace_members A F workspace_id = op_read (\<lambda>s. select_workspace_member_list (ae_schema A) (of_call F 0) workspace_id (ap_ws s))"

record WorkspaceMemberChangeset =
  wc_email :: string
  wc_role :: "AFRole option"
  wc_name :: "string option"

text \<open>No transaction: the row, if there is one, and then the policy.\<close>

definition update_workspace_member ::
  "('t, 'j) app_env \<Rightarrow> op_faults \<Rightarrow> int \<Rightarrow> string \<Rightarrow> WorkspaceMemberChangeset \<Rightarrow> ('j App, unit) op" where
  "update_workspace_member A F uid workspace_id changeset =
     (case wc_role changeset of
        None \<Rightarrow> op_return ()
      | Some role \<Rightarrow>
          op_then (\<lambda>s. case sql_err (sc_show_sqlx (ae_schema A)) (upsert_workspace_member (of_call F 0) workspace_id (wc_email changeset) role (ap_ws s)) of
                     Inl e \<Rightarrow> (Err e, s)
                   | Inr d \<Rightarrow> (Ok (), s\<lparr>ap_ws := d\<rparr>))
            (on_policies (insert_role (ae_casbin A) (ae_enabled A) uid workspace_id role)))"

definition get_workspace_document_total_bytes :: "('t, 'j) app_env \<Rightarrow> op_faults \<Rightarrow> string \<Rightarrow> string \<Rightarrow> ('j App, int) op" where
  "get_workspace_document_total_bytes A F user_uuid workspace_id =
     op_bind (op_read (\<lambda>s. select_user_is_workspace_owner (ae_schema A) (of_call F 0) user_uuid workspace_id (ap_ws s)))
       (\<lambda>is_owner. if \<not> is_owner then op_fail (AE_UserUnAuthorized ''User is not the owner of the workspace'')
          else op_read (\<lambda>s. select_workspace_total_collab_bytes (ae_schema A) (of_call F 1) workspace_id (ap_db s)))"

section \<open>Users\<close>

datatype json = JNull | JBool bool | JNumber int | JString string | JArray "json list" | JObject "(string \<times> json) list"

fun json_get :: "json \<Rightarrow> string \<Rightarrow> json option" where
  "json_get (JObject kvs) k = map_of kvs k"
| "json_get _ k = None"

fun json_as_str :: "json \<Rightarrow> string option" where
  "json_as_str (JString s) = Some s"
| "json_as_str _ = None"

definition name_from_user_metadata :: "json \<Rightarrow> string" where
  "name_from_user_metadata v =
     (let found = (case json_get v ''name'' of
                     Some x \<Rightarrow> Some x
                   | None \<Rightarrow> (case json_get v ''full_name'' of Some x \<Rightarrow> Some x | None \<Rightarrow> json_get v ''nickname''))
      in case found of None \<Rightarrow> [] | Some x \<Rightarrow> (case json_as_str x of Some s \<Rightarrow> s | None \<Rightarrow> []))"

record gotrue_user =
  gu_id :: string
  gu_email :: string
  gu_metadata :: json

text \<open>
  \<open>user\<close> is gotrue's answer for the token, \<open>new_uid\<close> the next id of the generator.  The advisory lock of
  the user is a statement that may fail.
\<close>

definition verify_token ::
  "('t, 'j) app_env \<Rightarrow> 'e collab_codec \<Rightarrow> op_faults \<Rightarrow> (string \<Rightarrow> AppError + 't CollabParams list) \<Rightarrow> GoTrueError + gotrue_user \<Rightarrow>
     (string option \<Rightarrow> string) \<Rightarrow> int \<Rightarrow> ('j App, bool) op" where
  "verify_token A K F templates user dbg new_uid =
     op_bind (op_lift (case user of Inl e \<Rightarrow> Err (app_error_from_gotrue dbg e) | Inr u \<Rightarrow> Ok u))
       (\<lambda>u. case de_parse_uuid (ae_db A) (gu_id u) of
          None \<Rightarrow> op_fail (AE_UuidError ''invalid uuid'')
        | Some user_uuid \<Rightarrow>
            context_txn ''acquire transaction to verify token'' ''fail to commit transaction to verify token'' F
              (op_then (tx_query (\<lambda>db d. sql_err (sc_show_sqlx (ae_schema A)) (statement (of_call F 0) 0 ())))
                (op_bind (tx_query (\<lambda>db d. is_user_exist (ae_schema A) (of_call F 1) user_uuid d))
                  (\<lambda>user_exists. if user_exists then op_return False
                    else
                      op_bind (\<lambda>((db, d), s). case create_user (ae_schema A) (of_call F 2) new_uid user_uuid (gu_email u)
                              (name_from_user_metadata (gu_metadata u)) (db, d) of
                            Inl e \<Rightarrow> (Err e, ((db, d), s))
                          | Inr (w, db1, d1) \<Rightarrow> (Ok w, ((db1, d1), s)))
                        (\<lambda>w. op_then (tx_outside (on_policies (insert_role (ae_casbin A) (ae_enabled A) new_uid w RoleOwner)))
                          (op_then (initialize_workspace_for_user A K F new_uid w (templates w))
                            (op_return True)))))))"

definition get_profile :: "('t, 'j) app_env \<Rightarrow> op_faults \<Rightarrow> string \<Rightarrow> ('j App, (string, 'j) AFUserProfile) op" where
  "get_profile A F uuid =
     op_bind (op_read (\<lambda>s. select_user_profile (ae_schema A) (of_call F 0) uuid (ap_ws s)))
       (\<lambda>row. case row of
          None \<Rightarrow> op_fail (AE_RecordNotFound (''Can't find the user profile for user: '' @ uuid))
        | Some r \<Rightarrow> op_lift (case user_profile_try_from r of Inl e \<Rightarrow> Err (AE_Internal e) | Inr p \<Rightarrow> Ok p))"

record 'j AFUserWorkspaceInfo =
  uwi_user_profile :: "(string, 'j) AFUserProfile"
  uwi_visiting_workspace :: "string AFWorkspace"
  uwi_workspaces :: "string AFWorkspace list"

text \<open>\<open>None\<close>: the profile has no latest workspace, and its \<open>unwrap\<close> panics.\<close>

definition get_user_workspace_info ::
  "('t, 'j) app_env \<Rightarrow> op_faults \<Rightarrow> string \<Rightarrow> 'j App \<Rightarrow> (AppError + 'j AFUserWorkspaceInfo) option" where
  "get_user_workspace_info A F uuid s =
     (case with_context ''failed to acquire the transaction to query the user workspace info'' (statement (\<lambda>_. of_begin F) 0 ()) of
        Inl e \<Rightarrow> Some (Err e)
      | Inr _ \<Rightarrow>
          (case select_user_profile (ae_schema A) (of_call F 0) uuid (ap_ws s) of
             Inl e \<Rightarrow> Some (Err e)
           | Inr None \<Rightarrow> Some (Err (AE_RecordNotFound (''Can't find the user profile for '' @ uuid)))
           | Inr (Some row) \<Rightarrow>
               (case ur_latest_workspace_id row of
                  None \<Rightarrow> None
                | Some latest \<Rightarrow>
                    Some (try_bind (select_workspace (ae_schema A) (of_call F 1) latest (ap_ws s))
                      (\<lambda>wrow. try_bind (case workspace_try_from (of_now F) wrow of Inl e \<Rightarrow> Err (AE_Internal e) | Inr w \<Rightarrow> Ok w)
                        (\<lambda>visiting. try_bind (case user_profile_try_from row of Inl e \<Rightarrow> Err (AE_Internal e) | Inr p \<Rightarrow> Ok p)
                          (\<lambda>profile. try_bind (select_user_workspace (ae_schema A) (of_call F 2) uuid (ap_ws s))
                            (\<lambda>rows. try_bind (with_context ''failed to commit the transaction to get user workspace info''
                                (statement (\<lambda>_. of_commit F) 0 ()))
                              (\<lambda>_. Ok \<lparr>uwi_user_profile = profile, uwi_visiting_workspace = visiting,
                                 uwi_workspaces = concat (map (\<lambda>r. case workspace_try_from (of_now F) r of Inl e \<Rightarrow> [] | Inr w \<Rightarrow> [w]) rows)\<rparr>)))))))))"

record 'j UpdateUserParams =
  uup_name :: "string option"
  uup_password :: "string option"
  uup_email :: "string option"
  uup_metadata :: "'j option"

definition update_user :: "('t, 'j) app_env \<Rightarrow> op_faults \<Rightarrow> string \<Rightarrow> 'j UpdateUserParams \<Rightarrow> ('j App, unit) op" where
  "update_user A F user_uuid params =
     (\<lambda>s. case db_update_user (ae_schema A) (of_call F 0) user_uuid (uup_name params) (uup_email params) (uup_metadata params) (ap_ws s) of
            Inl e \<Rightarrow> (Err e, s)
          | Inr d \<Rightarrow> (Ok (), s\<lparr>ap_ws := d\<rparr>))"

end
