(* ===== verification/Api_Workspace.thy ===== *)
theory Api_Workspace
  imports Batch_Upload Workspace_Ops Realtime_Message
begin

text \<open>
  The HTTP handlers of \<open>/api/workspace\<close>, \<open>/api/realtime\<close> and \<open>/api/user\<close>
  (\<open>src/api/workspace.rs\<close>, \<open>src/api/user.rs\<close>), over the state of \<open>App_State\<close>.

  A handler runs after the middleware of \<open>Http_Access\<close>.  Its arguments are what actix extracts: the uuid of the
  token, the variables of the path, the payload, the headers.  JSON is parsed outside; the payloads that are bytes
  are parsed by the fields of \<open>body_codec\<close>.  A panic is \<open>None\<close>.
\<close>

section \<open>Payloads\<close>

record CreateWorkspaceParam =
  cw_workspace_name :: "string option"

record PatchWorkspaceParam =
  pw_workspace_id :: string
  pw_workspace_name :: "string option"
  pw_workspace_icon :: "string option"

record 't body_codec = "'t upload_codec" +
  bd_create_json :: "bytes \<Rightarrow> string + 't CreateCollabParams"
  bd_create_bytes :: "bytes \<Rightarrow> string + 't CreateCollabParams"
  bd_batch_bytes :: "bytes \<Rightarrow> string + 't BatchCreateCollabParams"

definition parsed :: "string \<Rightarrow> string + 'a \<Rightarrow> AppError + 'a" where
  "parsed msg r = (case r of Inl err \<Rightarrow> Err (AE_InvalidRequest (msg @ err)) | Inr x \<Rightarrow> Ok x)"

text \<open>A body as it is, or compressed as its headers say.\<close>

definition read_payload ::
  "'t body_codec \<Rightarrow> headers \<Rightarrow> (bytes \<Rightarrow> AppError + 'a) \<Rightarrow> (bytes \<Rightarrow> AppError + 'a) \<Rightarrow> bytes \<Rightarrow> AppError + 'a" where
  "read_payload B hs plain compressed payload =
     (case map_of hs X_COMPRESSION_TYPE of
        None \<Rightarrow> plain payload
      | Some _ \<Rightarrow>
          try_bind (compress_type_from_header_value hs)
            (\<lambda>t. case t of Brotli buffer_size \<Rightarrow> try_bind (uc_decompress B payload buffer_size) compressed))"

definition create_collab_payload :: "'t body_codec \<Rightarrow> headers \<Rightarrow> bytes \<Rightarrow> AppError + 't CreateCollabParams" where
  "create_collab_payload B hs payload =
     read_payload B hs
       (\<lambda>b. parsed ''Failed to parse CreateCollabParams from JSON: '' (bd_create_json B b))
       (\<lambda>b. parsed ''Failed to parse CreateCollabParams with brotli decompression data: '' (bd_create_bytes B b)) payload"

definition create_collab_list_payload :: "'t body_codec \<Rightarrow> headers \<Rightarrow> bytes \<Rightarrow> AppError + 't BatchCreateCollabParams" where
  "create_collab_list_payload B hs payload =
     read_payload B hs
       (\<lambda>b. parsed ''Failed to parse batch BatchCreateCollabParams: '' (bd_batch_bytes B b))
       (\<lambda>b. parsed ''Failed to parse BatchCreateCollabParams with decompression data: '' (bd_batch_bytes B b)) payload"

section \<open>Workspaces\<close>

definition user_cache_uid :: "('t, 'j) app_env \<Rightarrow> faults \<Rightarrow> string \<Rightarrow> ('j App, int) op" where
  "user_cache_uid A UF uuid = get_user_uid A UF uuid"

definition create_workspace_handler ::
  "('t, 'j) app_env \<Rightarrow> 'e collab_codec \<Rightarrow> faults \<Rightarrow> op_faults \<Rightarrow> (int \<Rightarrow> string \<Rightarrow> AppError + 't CollabParams list) \<Rightarrow> string \<Rightarrow>
     CreateWorkspaceParam \<Rightarrow> ('j App, string AFWorkspace) op" where
  "create_workspace_handler A K UF F templates uuid p =
     (let workspace_name = (case cw_workspace_name p of Some n \<Rightarrow> n | None \<Rightarrow> ''workspace_'' @ int_to_string (of_now F))
      in op_bind (user_cache_uid A UF uuid)
           (\<lambda>uid. create_workspace_for_user A K F (templates uid) uuid uid workspace_name))"

definition patch_workspace_handler ::
  "('t, 'j) app_env \<Rightarrow> op_faults \<Rightarrow> string \<Rightarrow> PatchWorkspaceParam \<Rightarrow> ('j App, unit) op" where
  "patch_workspace_handler A F uuid p =
     patch_workspace A F (pw_workspace_id p) (pw_workspace_name p) (pw_workspace_icon p)"

definition delete_workspace_handler ::
  "'j schema \<Rightarrow> (bytes \<Rightarrow> string) \<Rightarrow> op_faults \<Rightarrow> (nat \<Rightarrow> store_faults) \<Rightarrow> string \<Rightarrow> string \<Rightarrow> 'j FileStore \<Rightarrow>
     (AppError + unit) option \<times> 'j FileStore" where
  "delete_workspace_handler H lossy F SF uuid workspace_id s = delete_workspace_for_user H lossy F SF workspace_id s"

definition list_workspace_handler :: "('t, 'j) app_env \<Rightarrow> op_faults \<Rightarrow> string \<Rightarrow> ('j App, string AFWorkspace list) op" where
  "list_workspace_handler A F uuid =
     op_bind (get_all_user_workspaces A F uuid)
       (\<lambda>rows. op_return (concat (map (\<lambda>row. case workspace_try_from (of_now F) row of Inl err \<Rightarrow> [] | Inr w \<Rightarrow> [w]) rows)))"

definition create_workspace_members_handler ::
  "('t, 'j) app_env \<Rightarrow> op_faults \<Rightarrow> string \<Rightarrow> string \<Rightarrow> CreateWorkspaceMember list \<Rightarrow> ('j App, unit) op" where
  "create_workspace_members_handler A F uuid workspace_id create_members = add_workspace_members A F workspace_id create_members"

definition post_workspace_invite_handler ::
  "('t, 'j) app_env \<Rightarrow> op_faults \<Rightarrow> (string option \<Rightarrow> string) \<Rightarrow> AppError + string \<Rightarrow> (string \<Rightarrow> GoTrueError + unit) \<Rightarrow> (nat \<Rightarrow> string) \<Rightarrow>
     string \<Rightarrow> string \<Rightarrow> WorkspaceMemberInvitation list \<Rightarrow> ('j App, unit) op" where
  "post_workspace_invite_handler A F dbg admin_token gotrue new_id uuid workspace_id invited_members =
     invite_workspace_members A F dbg admin_token gotrue new_id uuid workspace_id invited_members"

definition get_workspace_invite_handler ::
  "('t, 'j) app_env \<Rightarrow> op_faults \<Rightarrow> string \<Rightarrow> AFWorkspaceInvitationStatus option \<Rightarrow> ('j App, AFWorkspaceInvitation list) op" where
  "get_workspace_invite_handler A F uuid status = list_workspace_invitations_for_user A F uuid status"

definition post_accept_workspace_invite_handler :: "('t, 'j) app_env \<Rightarrow> op_faults \<Rightarrow> string \<Rightarrow> string \<Rightarrow> ('j App, unit) op" where
  "post_accept_workspace_invite_handler A F uuid invite_id = accept_workspace_invite A F uuid invite_id"

definition get_workspace_members_handler :: "('t, 'j) app_env \<Rightarrow> op_faults \<Rightarrow> string \<Rightarrow> string \<Rightarrow> ('j App, AFWorkspaceMember list) op" where
  "get_workspace_members_handler A F uuid workspace_id =
     op_bind (get_workspace_members A F workspace_id)
       (\<lambda>rows. op_return (map (\<lambda>m. \<lparr>wm_name = mbr_name m, wm_email = mbr_email m, wm_role = mbr_role m, wm_avatar_url = None\<rparr>) rows))"

definition remove_workspace_member_handler ::
  "('t, 'j) app_env \<Rightarrow> op_faults \<Rightarrow> string \<Rightarrow> string \<Rightarrow> string list \<Rightarrow> ('j App, unit) op" where
  "remove_workspace_member_handler A F uuid workspace_id member_emails = remove_workspace_members A F workspace_id member_emails"

definition open_workspace_handler :: "('t, 'j) app_env \<Rightarrow> op_faults \<Rightarrow> string \<Rightarrow> string \<Rightarrow> ('j App, string AFWorkspace) op" where
  "open_workspace_handler A F uuid workspace_id = open_workspace A F uuid workspace_id"

definition leave_workspace_handler :: "('t, 'j) app_env \<Rightarrow> faults \<Rightarrow> op_faults \<Rightarrow> string \<Rightarrow> string \<Rightarrow> ('j App, unit) op" where
  "leave_workspace_handler A F0 F uuid workspace_id = leave_workspace A F0 F workspace_id uuid"

definition update_workspace_member_handler ::
  "('t, 'j) app_env \<Rightarrow> faults \<Rightarrow> op_faults \<Rightarrow> string \<Rightarrow> WorkspaceMemberChangeset \<Rightarrow> ('j App, unit) op" where
  "update_workspace_member_handler A F0 F workspace_id changeset =
     (if WorkspaceMemberChangeset.wc_role changeset \<noteq> None then
        op_bind (op_read (\<lambda>s. select_uid_from_email (ae_schema A) F0 (WorkspaceMemberChangeset.wc_email changeset) (ap_ws s)))
          (\<lambda>uid. update_workspace_member A F uid workspace_id changeset)
      else op_return ())"

definition get_workspace_usage_handler :: "('t, 'j) app_env \<Rightarrow> op_faults \<Rightarrow> string \<Rightarrow> string \<Rightarrow> ('j App, int) op" where
  "get_workspace_usage_handler A F uuid workspace_id = get_workspace_document_total_bytes A F uuid workspace_id"

section \<open>Documents\<close>

definition create_collab_handler ::
  "('t, 'j) app_env \<Rightarrow> 'e collab_codec \<Rightarrow> 't body_codec \<Rightarrow> faults \<Rightarrow> write_faults \<Rightarrow> string \<Rightarrow> headers \<Rightarrow> bytes \<Rightarrow> ('j App, unit) op" where
  "create_collab_handler A K B UF W uuid hs payload =
     op_bind (user_cache_uid A UF uuid)
       (\<lambda>uid. op_bind (op_lift (create_collab_payload B hs payload))
         (\<lambda>p. let (params, workspace_id) = create_collab_params_split p
              in on_storage (insert_or_update_collab (ae_storage A) K W workspace_id uid params)))"

text \<open>Each document of a batch: the write, and the full access to it for the user.\<close>

definition batch_create_one ::
  "('t, 'j) app_env \<Rightarrow> 'e collab_codec \<Rightarrow> write_faults \<Rightarrow> string \<Rightarrow> int \<Rightarrow> 't CollabParams \<Rightarrow> ('j tx, unit) op" where
  "batch_create_one A K W workspace_id uid params =
     op_then (tx_upsert_collab A K W workspace_id uid params)
       (tx_outside (on_policies (update_access_level_policy (ae_casbin A) (ae_enabled A) uid (cp_object_id params) FullAccess)))"

definition batch_create_collab_handler ::
  "('t, 'j) app_env \<Rightarrow> 'e collab_codec \<Rightarrow> 't body_codec \<Rightarrow> faults \<Rightarrow> op_faults \<Rightarrow> string \<Rightarrow> string \<Rightarrow> headers \<Rightarrow> (unit + bytes) list \<Rightarrow>
     ('j App, unit) op" where
  "batch_create_collab_handler A K B UF F uuid workspace_id hs chunks =
     op_bind (user_cache_uid A UF uuid)
       (\<lambda>uid. op_bind (op_lift (batch_params (upload_codec.truncate B) hs chunks))
         (\<lambda>params_list. context_txn ''acquire transaction to upsert collab'' ''fail to commit the transaction to upsert collab'' F
            (op_each (\<lambda>(i, params). batch_create_one A K (of_write F i) workspace_id uid params) (enumerate 0 params_list))))"

definition create_collab_list_handler ::
  "('t, 'j) app_env \<Rightarrow> 'e collab_codec \<Rightarrow> 't body_codec \<Rightarrow> faults \<Rightarrow> op_faults \<Rightarrow> string \<Rightarrow> headers \<Rightarrow> bytes \<Rightarrow> ('j App, unit) op" where
  "create_collab_list_handler A K B UF F uuid hs payload =
     op_bind (user_cache_uid A UF uuid)
       (\<lambda>uid. op_bind (op_lift (create_collab_list_payload B hs payload))
         (\<lambda>params. op_then (op_lift (validator_error (validate_BatchCreateCollabParams params)))
           (if bc_params_list params = [] then op_fail (AE_InvalidRequest ''Empty collab params list'')
            else context_txn ''acquire transaction to upsert collab'' ''fail to commit the transaction to upsert collab'' F
              (op_each (\<lambda>(i, p). tx_upsert_collab A K (of_write F i) (bc_workspace_id params) uid p)
                (enumerate 0 (bc_params_list params))))))"

definition get_collab_handler ::
  "('t, 'j) app_env \<Rightarrow> 'e collab_codec \<Rightarrow> faults \<Rightarrow> sqlx_error option \<Rightarrow> call_faults \<Rightarrow> 'e editing_reply \<Rightarrow> string \<Rightarrow>
     't QueryCollabParams \<Rightarrow> ('j App, 'e) op" where
  "get_collab_handler A K UF fault F reply uuid payload =
     op_bind (user_cache_uid A UF uuid)
       (\<lambda>uid. on_storage (storage_get_collab_encoded (ae_storage A) K fault F reply uid payload False))"

definition batch_get_collab_handler ::
  "('t, 'j) app_env \<Rightarrow> faults \<Rightarrow> call_faults \<Rightarrow> string \<Rightarrow> 't QueryCollab list \<Rightarrow> ('j App, (string \<times> QueryCollabResult) list) op" where
  "batch_get_collab_handler A UF F uuid payload =
     op_bind (user_cache_uid A UF uuid)
       (\<lambda>uid. op_read (\<lambda>s. Ok (batch_get_collab (ae_storage A) F uid payload (ap_storage s))))"

text \<open>The parameters go to a \<open>CreateCollabParams\<close> and back before the write.\<close>

definition update_collab_handler ::
  "('t, 'j) app_env \<Rightarrow> 'e collab_codec \<Rightarrow> faults \<Rightarrow> write_faults \<Rightarrow> string \<Rightarrow> 't CreateCollabParams \<Rightarrow> ('j App, unit) op" where
  "update_collab_handler A K UF W uuid payload =
     (let (params, workspace_id) = create_collab_params_split payload
      in op_bind (user_cache_uid A UF uuid)
           (\<lambda>uid. let (params', workspace_id') = create_collab_params_split (create_collab_params_from (workspace_id, params))
                  in on_storage (insert_or_update_collab (ae_storage A) K W workspace_id' uid params')))"

definition delete_collab_handler ::
  "('t, 'j) app_env \<Rightarrow> faults \<Rightarrow> call_faults \<Rightarrow> nat \<Rightarrow> string \<Rightarrow> DeleteCollabParams \<Rightarrow> ('j App, unit) op" where
  "delete_collab_handler A UF F now uuid payload =
     op_then (op_lift (validator_error (validate_DeleteCollabParams payload)))
       (op_bind (user_cache_uid A UF uuid)
         (\<lambda>uid. on_storage (storage_delete_collab (ae_storage A) F now (dc_workspace_id payload) uid (dc_object_id payload))))"

section \<open>Snapshots\<close>

definition get_collab_snapshot_handler ::
  "('t, 'j) app_env \<Rightarrow> bool \<Rightarrow> bool \<Rightarrow> sqlx_error option \<Rightarrow> string \<times> string \<Rightarrow> int \<Rightarrow> ('j App, SnapshotData) op" where
  "get_collab_snapshot_handler A locked fails fault path snapshot_id =
     (case path of (workspace_id, oid) \<Rightarrow>
        on_snapshots (\<lambda>c. (control_get_snapshot (ae_db A) locked fails fault workspace_id oid snapshot_id c, c)))"

definition create_collab_snapshot_handler ::
  "('t, 'j) app_env \<Rightarrow> 'e collab_codec \<Rightarrow> faults \<Rightarrow> sqlx_error option \<Rightarrow> call_faults \<Rightarrow> 'e editing_reply \<Rightarrow> tick_env \<Rightarrow> string \<Rightarrow>
     string \<times> string \<Rightarrow> 't \<Rightarrow> 'j App \<Rightarrow> (AppError + AFSnapshotMeta) option \<times> 'j App" where
  "create_collab_snapshot_handler A K UF fault F reply T uuid path collab_type s =
     (case path of (workspace_id, oid) \<Rightarrow>
        (case op_bind (user_cache_uid A UF uuid)
                (\<lambda>uid. on_storage (storage_get_collab_encoded (ae_storage A) K fault F reply uid
                   (QueryCollabParams_new oid collab_type workspace_id) False)) s of
           (Inl e, s1) \<Rightarrow> (Some (Err e), s1)
         | (Inr encoded, s1) \<Rightarrow>
             (case ck_encode K encoded of
                None \<Rightarrow> (None, s1)
              | Some encoded_collab_v1 \<Rightarrow>
                  (case on_snapshots (control_create_snapshot (ae_db A) T
                          \<lparr>isp_object_id = oid, isp_encoded_collab_v1 = encoded_collab_v1, isp_workspace_id = workspace_id\<rparr>) s1 of
                     (r, s2) \<Rightarrow> (Some r, s2)))))"

definition get_all_collab_snapshot_list_handler ::
  "('t, 'j) app_env \<Rightarrow> sqlx_error option \<Rightarrow> string \<times> string \<Rightarrow> ('j App, AFSnapshotMeta list) op" where
  "get_all_collab_snapshot_list_handler A fault path =
     on_snapshots (\<lambda>c. (control_get_collab_snapshot_list (ae_db A) fault (snd path) c, c))"

section \<open>Members of documents\<close>

text \<open>The path names a document too; only the payload's is used.\<close>

definition add_collab_member_handler ::
  "('t, 'j) app_env \<Rightarrow> op_faults \<Rightarrow> InsertCollabMemberParams \<Rightarrow> ('j App, unit) op" where
  "add_collab_member_handler A F payload = create_collab_member A F payload"

definition update_collab_member_handler ::
  "('t, 'j) app_env \<Rightarrow> op_faults \<Rightarrow> string \<Rightarrow> InsertCollabMemberParams \<Rightarrow> ('j App, unit) op" where
  "update_collab_member_handler A F uuid payload = upsert_collab_member A F payload"

definition get_collab_member_handler :: "('t, 'j) app_env \<Rightarrow> op_faults \<Rightarrow> CollabMemberIdentify \<Rightarrow> ('j App, AFCollabMember) op" where
  "get_collab_member_handler A F payload = get_collab_member A F payload"

definition remove_collab_member_handler :: "('t, 'j) app_env \<Rightarrow> op_faults \<Rightarrow> CollabMemberIdentify \<Rightarrow> ('j App, unit) op" where
  "remove_collab_member_handler A F payload = ops_delete_collab_member A F payload"

definition get_collab_member_list_handler ::
  "('t, 'j) app_env \<Rightarrow> op_faults \<Rightarrow> QueryCollabMembers \<Rightarrow> ('j App, AFCollabMember list) op" where
  "get_collab_member_list_handler A F payload = get_collab_member_list A F payload"

section \<open>Realtime messages over HTTP\<close>

definition MAX_RETRIES :: nat where "MAX_RETRIES = 3"

text \<open>\<open>sends\<close> is what \<open>try_send\<close> answers to each attempt.\<close>

function send_with_retries :: "(nat \<Rightarrow> string + unit) \<Rightarrow> nat \<Rightarrow> AppError + unit" where
  "send_with_retries sends attempts =
     (if attempts < MAX_RETRIES then
        (case sends attempts of
           Inr _ \<Rightarrow> Ok ()
         | Inl err \<Rightarrow>
             (if attempts < MAX_RETRIES - 1 then send_with_retries sends (attempts + 1)
              else Err (AE_Internal (''Failed to send client stream message to websocket server after '' @ nat_digits (attempts + 1) @
                     '' attempts: '' @ err))))
      else Err (AE_Internal ''Failed to send message to websocket server''))"
  by pat_completeness auto
termination
  by (relation "measure (\<lambda>(sends, n). MAX_RETRIES - n)") auto

declare send_with_retries.simps [simp del]

record HttpRealtimeMessage =
  hr_device_id :: string
  hr_payload :: bytes

text \<open>\<open>prost\<close> reads the envelope; a message made of bytes is a binary one.\<close>

definition parser_realtime_msg ::
  "('o, 't) rt_codec \<Rightarrow> 't body_codec \<Rightarrow> (bytes \<Rightarrow> string + HttpRealtimeMessage) \<Rightarrow> headers \<Rightarrow> bytes \<Rightarrow>
     AppError + ('o, 't) RealtimeMessage" where
  "parser_realtime_msg R B prost_decode hs payload =
     try_bind (case prost_decode payload of Inl err \<Rightarrow> Err (AE_Internal err) | Inr m \<Rightarrow> Ok m)
       (\<lambda>m. try_bind (read_payload B hs Ok Ok (hr_payload m))
         (\<lambda>bs. parsed ''Failed to parse RealtimeMessage: '' (rt_decode R bs)))"

fun collect_body :: "(AppError + bytes) list \<Rightarrow> AppError + bytes" where
  "collect_body [] = Ok []"
| "collect_body (Inl e # chunks) = Err e"
| "collect_body (Inr b # chunks) = try_bind (collect_body chunks) (\<lambda>bs. Ok (b @ bs))"

record ('o, 't) ClientStreamMessage =
  csm_uid :: int
  csm_device_id :: string
  csm_message :: "('o, 't) RealtimeMessage"

text \<open>The answer, with the message that has been handed to the realtime server.\<close>

definition post_realtime_message_stream_handler ::
  "('o, 't) rt_codec \<Rightarrow> ('t, 'j) app_env \<Rightarrow> 't body_codec \<Rightarrow> (bytes \<Rightarrow> string + HttpRealtimeMessage) \<Rightarrow> faults \<Rightarrow>
     (nat \<Rightarrow> string + unit) \<Rightarrow> string \<Rightarrow> headers \<Rightarrow> (AppError + bytes) list \<Rightarrow> ('j App, ('o, 't) ClientStreamMessage) op" where
  "post_realtime_message_stream_handler R A B prost_decode UF sends uuid hs chunks =
     (let device_id = (case device_id_from_headers hs of Inl _ \<Rightarrow> [] | Inr d \<Rightarrow> d)
      in op_bind (user_cache_uid A UF uuid)
           (\<lambda>uid. op_lift (try_bind (collect_body chunks)
             (\<lambda>bs. try_bind (parser_realtime_msg R B prost_decode hs bs)
               (\<lambda>message. try_bind (send_with_retries sends 0)
                 (\<lambda>_. Ok \<lparr>csm_uid = uid, csm_device_id = device_id, csm_message = message\<rparr>))))))"

section \<open>Users\<close>

definition verify_user_handler ::
  "('t, 'j) app_env \<Rightarrow> 'e collab_codec \<Rightarrow> op_faults \<Rightarrow> (string \<Rightarrow> AppError + 't CollabParams list) \<Rightarrow> GoTrueError + gotrue_user \<Rightarrow>
     (string option \<Rightarrow> string) \<Rightarrow> int \<Rightarrow> ('j App, bool) op" where
  "verify_user_handler A K F templates user dbg new_uid = verify_token A K F templates user dbg new_uid"

definition get_user_profile_handler :: "('t, 'j) app_env \<Rightarrow> op_faults \<Rightarrow> string \<Rightarrow> ('j App, (string, 'j) AFUserProfile) op" where
  "get_user_profile_handler A F uuid = get_profile A F uuid"

definition get_user_workspace_info_handler ::
  "('t, 'j) app_env \<Rightarrow> op_faults \<Rightarrow> string \<Rightarrow> 'j App \<Rightarrow> (AppError + 'j AFUserWorkspaceInfo) option" where
  "get_user_workspace_info_handler A F uuid s = get_user_workspace_info A F uuid s"

text \<open>The uuid is the token's subject, when it has one that parses.\<close>

definition update_user_handler ::
  "('t, 'j) app_env \<Rightarrow> op_faults \<Rightarrow> AppError + string \<Rightarrow> 'j UpdateUserParams \<Rightarrow> ('j App, unit) op" where
  "update_user_handler A F auth_uuid params = op_bind (op_lift auth_uuid) (\<lambda>uuid. update_user A F uuid params)"

end
