(* ===== verification/Tx_Props.thy ===== *)
theory Tx_Props
  imports Api_Workspace
begin

text \<open>
  What a request that fails leaves behind: nothing in the tables, as every handler writes them in one
  transaction; but the policies it changed on the way stay changed.
\<close>

section \<open>Operations and the tables\<close>

definition tables :: "'j App \<Rightarrow> Db \<times> 'j WsDb" where "tables s = (ap_db s, ap_ws s)"

definition tables_kept :: "('j App, 'a) op \<Rightarrow> bool" where
  "tables_kept m \<longleftrightarrow> (\<forall>s. tables (snd (m s)) = tables s)"

definition all_or_nothing :: "('j App, 'a) op \<Rightarrow> bool" where
  "all_or_nothing m \<longleftrightarrow> (\<forall>s. is_ok (fst (m s)) \<or> tables (snd (m s)) = tables s)"

text \<open>A step of a transaction: it may change its own copy of the tables, not the committed ones.\<close>

definition tx_step :: "('j tx, 'a) op \<Rightarrow> bool" where
  "tx_step m \<longleftrightarrow> (\<forall>t s. tables (snd (snd (m (t, s)))) = tables s)"

named_theorems op_tables

lemma tables_simps [simp]:
  "tables (set_ac a s) = tables s" "tables (s\<lparr>ap_users := u\<rparr>) = tables s"
  "tables (set_db db s) = (db, ap_ws s)" "tables (s\<lparr>ap_ws := w\<rparr>) = (ap_db s, w)"
  by (simp_all add: tables_def) (simp add: ap_db_def)

lemma tables_kept_simps [op_tables]:
  "tables_kept (op_return x)" "tables_kept (op_fail e)" "tables_kept (op_lift r)" "tables_kept (op_read f)"
  by (simp_all add: tables_kept_def op_return_def op_fail_def op_lift_def op_read_def)

lemma get_user_uid_kept [op_tables]: "tables_kept (user_cache_uid A UF uuid)"
  by (simp add: tables_kept_def user_cache_uid_def get_user_uid_def split: option.splits sum.splits)

lemma on_policies_kept [op_tables]: "tables_kept (on_policies f)"
  by (simp add: tables_kept_def on_policies_def split: prod.splits sum.splits)

lemma kept_all_or_nothing: "tables_kept m \<Longrightarrow> all_or_nothing m"
  by (simp add: tables_kept_def all_or_nothing_def)

lemmas simple_all_or_nothing [op_tables] = tables_kept_simps [THEN kept_all_or_nothing]

lemma bind_kept [op_tables]: "tables_kept m \<Longrightarrow> (\<And>x. tables_kept (f x)) \<Longrightarrow> tables_kept (op_bind m f)"
  by (simp add: tables_kept_def op_bind_def case_prod_beta split: sum.splits)

lemma bind_all_or_nothing [op_tables]:
  "tables_kept m \<Longrightarrow> (\<And>x. all_or_nothing (f x)) \<Longrightarrow> all_or_nothing (op_bind m f)"
  unfolding tables_kept_def all_or_nothing_def op_bind_def case_prod_beta
  by (simp split: sum.splits) metis

section \<open>Transactions\<close>

lemma tx_simple [op_tables]:
  "tx_step (op_return x)" "tx_step (op_fail e)" "tx_step (op_lift r)" "tx_step (tx_ws f)" "tx_step (tx_db g)" "tx_step (tx_query q)"
  by (simp_all add: tx_step_def op_return_def op_fail_def op_lift_def tx_ws_def tx_db_def tx_query_def
      split: prod.splits sum.splits)

lemma tx_bind [op_tables]: "tx_step m \<Longrightarrow> (\<And>x. tx_step (f x)) \<Longrightarrow> tx_step (op_bind m f)"
  unfolding tx_step_def op_bind_def by (simp add: case_prod_beta split: sum.splits) (metis prod.collapse)

lemma tx_each [op_tables]: "(\<And>x. tx_step (f x)) \<Longrightarrow> tx_step (op_each f xs)"
  by (induction xs) (auto intro: op_tables)

lemma tx_outside_step [op_tables]: "tables_kept m \<Longrightarrow> tx_step (tx_outside m)"
  by (simp add: tx_step_def tables_kept_def tx_outside_def case_prod_beta)

lemma insert_with_transaction_db:
  "cc_db (cs_cache (snd (insert_or_update_collab_with_transaction S K W w uid params tx s))) = cc_db (cs_cache s)"
  by (simp add: insert_or_update_collab_with_transaction_def insert_collab_encoded_def case_prod_beta split: sum.splits prod.splits)

lemma insert_with_transaction_tables [simp]:
  "tables (s\<lparr>ap_storage := snd (insert_or_update_collab_with_transaction S K W w uid params db (ap_storage s))\<rparr>) = tables s"
  by (simp add: tables_def ap_db_def insert_with_transaction_db)

lemma tx_upsert_step [op_tables]: "tx_step (tx_upsert_collab A K W w uid params)"
  by (simp add: tx_step_def tx_upsert_collab_def case_prod_beta split: sum.splits)

lemma tx_case_option [op_tables]: "tx_step m \<Longrightarrow> (\<And>x. tx_step (f x)) \<Longrightarrow> tx_step (case o' of None \<Rightarrow> m | Some x \<Rightarrow> f x)"
  by (simp split: option.splits)

lemma tx_if [op_tables]: "tx_step m \<Longrightarrow> tx_step n \<Longrightarrow> tx_step (if b then m else n)"
  by simp

lemma in_transaction_all_or_nothing [op_tables]:
  "tx_step body \<Longrightarrow> all_or_nothing (in_transaction be ce bf cf body)"
  unfolding all_or_nothing_def
proof (intro allI)
  fix s :: "'a App"
  assume "tx_step body"
  then have "tables (snd (snd (body ((ap_db s, ap_ws s), s)))) = tables s" by (simp add: tx_step_def)
  then show "is_ok (fst (in_transaction be ce bf cf body s)) \<or> tables (snd (in_transaction be ce bf cf body s)) = tables s"
    by (simp add: in_transaction_def is_ok_def case_prod_beta split: sum.splits)
qed

lemma txn_all_or_nothing [op_tables]:
  "tx_step body \<Longrightarrow> all_or_nothing (plain_txn A F body)" "tx_step body \<Longrightarrow> all_or_nothing (context_txn b c F body)"
  by (simp_all add: plain_txn_def context_txn_def in_transaction_all_or_nothing)

section \<open>The handlers\<close>

lemma members_loop_step [op_tables]: "tx_step (add_members_loop A F i w ms m)"
  by (induction A F i w ms m rule: add_members_loop.induct) (auto simp: add_member_rows_def intro!: op_tables)

lemma initialize_step [op_tables]: "tx_step (initialize_workspace_for_user A K F uid w ts)"
  unfolding initialize_workspace_for_user_def by (auto intro!: op_tables)

lemma create_workspace_atomic [op_tables]: "all_or_nothing (create_workspace_for_user A K F t uuid uid n)"
proof -
  have "tx_step (\<lambda>((db, d), s). case insert_user_workspace H G uuid n d of
             Inl e \<Rightarrow> (Err e, ((db, d), s))
           | Inr (row, d1) \<Rightarrow> (Ok row, ((db, d1), s)))" for H G
    by (simp add: tx_step_def split: prod.splits sum.splits)
  then show ?thesis unfolding create_workspace_for_user_def by (auto intro!: op_tables)
qed

lemma remove_members_atomic [op_tables]: "all_or_nothing (remove_workspace_members A F w emails)"
proof -
  have "tx_step (\<lambda>((db, d), s). case select_uid_from_email H G email d of
               Inl e \<Rightarrow> (Ok (), ((db, d), s))
             | Inr uid \<Rightarrow> tx_outside (on_policies (remove_role C en uid w)) ((db, d), s))" for H G email C en
    by (simp add: tx_step_def tx_outside_def on_policies_def case_prod_beta split: sum.splits)
  then show ?thesis unfolding remove_workspace_members_def by (auto intro!: op_tables)
qed

lemma insert_or_update_atomic [op_tables]: "all_or_nothing (on_storage (insert_or_update_collab S K W w uid params))"
proof -
  have "is_ok (fst (insert_or_update_collab S K W w uid params c)) \<or>
      cc_db (cs_cache (snd (insert_or_update_collab S K W w uid params c))) = cc_db (cs_cache c)" for c
    using insert_with_transaction_db [of S K W w uid params "cc_db (cs_cache c)" c]
    by (auto simp: insert_or_update_collab_def with_context_def statement_def case_prod_beta is_ok_def split: sum.splits option.splits)
  then show ?thesis
    by (simp add: all_or_nothing_def on_storage_def tables_def ap_db_def case_prod_beta)
qed

lemma storage_delete_atomic [op_tables]: "all_or_nothing (on_storage (storage_delete_collab S F now w uid oid))"
proof -
  have "is_ok (fst (storage_delete_collab S F now w uid oid c)) \<or>
      cc_db (cs_cache (snd (storage_delete_collab S F now w uid oid c))) = cc_db (cs_cache c)" for c
    by (auto simp: storage_delete_collab_def cache_remove_collab_def case_prod_beta is_ok_def Let_def split: sum.splits)
  then show ?thesis
    by (simp add: all_or_nothing_def on_storage_def tables_def ap_db_def case_prod_beta)
qed

lemma insert_role_ok: "fst (insert_role C en uid w r a) = Ok ()"
  by (simp add: insert_role_def ac_update_policy_def enforcer_update_policy_def)

lemma update_member_atomic [op_tables]: "all_or_nothing (update_workspace_member A F uid w changeset)"
proof (cases "wc_role changeset")
  case None
  then show ?thesis by (auto simp: update_workspace_member_def intro: op_tables)
next
  case (Some r)
  then show ?thesis
    by (simp add: update_workspace_member_def all_or_nothing_def op_bind_def on_policies_def case_prod_beta insert_role_ok is_ok_def
        split: sum.splits)
qed


end
