(* ===== verification/Collab_Plugin.thy ===== *)
theory Collab_Plugin
  imports Tx_Props Rt_Server
begin

text \<open>
  The plugin that loads a document of the realtime server from the storage and writes it back
  (\<open>lib/realtime/src/server/collaborate/plugin.rs\<close>), over the storage and the snapshots of \<open>App_State\<close>.

  The document is \<open>yrs\<close>'s: encoding it, applying an encoded state to it and the validity tests of the collab crates
  are the fields of \<open>doc_env\<close>, and so is the digest.  A task that is spawned is a step of its own.
\<close>

section \<open>Documents\<close>

record ('d, 'e, 'm) doc_env =
  dv_encode :: "'d \<Rightarrow> 'e"
  dv_state_empty :: "'e \<Rightarrow> bool"
  dv_apply :: "'e \<Rightarrow> 'd \<Rightarrow> string + 'd"
  dv_md5 :: "bytes \<Rightarrow> 'm"
  dv_new_collab :: "string \<Rightarrow> 'e \<Rightarrow> bool"
  dv_document_valid :: "'e \<Rightarrow> bool"
  dv_folder_valid :: "'e \<Rightarrow> bool"

definition init_collab :: "('d, 'e, 'm) doc_env \<Rightarrow> 'e \<Rightarrow> 'd \<Rightarrow> string + 'd" where
  "init_collab V e doc = (if dv_state_empty V e then Err ''doc state is empty'' else dv_apply V e doc)"

section \<open>\<open>CollabEditState\<close>\<close>

record CollabEditState =
  es_edit_count :: u32
  es_prev_edit_count :: u32
  es_prev_flush_timestamp :: int
  es_did_load :: bool

definition CollabEditState_new :: "int \<Rightarrow> CollabEditState" where
  "CollabEditState_new now = \<lparr>es_edit_count = 0, es_prev_edit_count = 0, es_prev_flush_timestamp = now, es_did_load = False\<rparr>"

definition set_did_load :: "CollabEditState \<Rightarrow> CollabEditState" where
  "set_did_load st = st\<lparr>es_did_load := True\<rparr>"

definition increment_edit_count :: "CollabEditState \<Rightarrow> CollabEditState" where
  "increment_edit_count st = st\<lparr>es_edit_count := es_edit_count st + 1\<rparr>"

definition edit_tick :: "int \<Rightarrow> CollabEditState \<Rightarrow> CollabEditState" where
  "edit_tick now st = st\<lparr>es_prev_edit_count := es_edit_count st, es_prev_flush_timestamp := now\<rparr>"

definition should_flush :: "u32 \<Rightarrow> int \<Rightarrow> int \<Rightarrow> CollabEditState \<Rightarrow> bool" where
  "should_flush max_edit_count max_interval now st =
     (let current = es_edit_count st; prev_count = es_prev_edit_count st
      in if prev_count < current then max_edit_count \<le> current - prev_count
         else
           (let prev = es_prev_flush_timestamp st
            in if prev < now \<and> current \<noteq> prev_count then max_interval \<le> now - prev else False))"

definition receive_update :: "int \<Rightarrow> CollabEditState \<Rightarrow> CollabEditState" where
  "receive_update now st =
     (let st1 = increment_edit_count st
      in if \<not> es_did_load st1 then st1
         else if should_flush 100 (3 * 60) now st1 then edit_tick now st1 else st1)"

section \<open>\<open>CollabStoragePlugin\<close>\<close>

record 'm CollabStoragePlugin =
  pl_uid :: int
  pl_workspace_id :: string
  pl_collab_type :: CollabType
  pl_edit_state :: CollabEditState
  pl_latest_md5 :: "'m option"

definition CollabStoragePlugin_new :: "int \<Rightarrow> string \<Rightarrow> CollabType \<Rightarrow> int \<Rightarrow> 'm CollabStoragePlugin" where
  "CollabStoragePlugin_new uid workspace_id collab_type now =
     \<lparr>pl_uid = uid, pl_workspace_id = workspace_id, pl_collab_type = collab_type, pl_edit_state = CollabEditState_new now,
      pl_latest_md5 = None\<rparr>"

definition plugin_params :: "'m CollabStoragePlugin \<Rightarrow> string \<Rightarrow> bytes \<Rightarrow> CollabType CollabParams" where
  "plugin_params p oid b =
     \<lparr>cp_object_id = oid, cp_encoded_collab_v1 = b, cp_collab_type = pl_collab_type p, cp_override_if_exist = False\<rparr>"

definition save_collab ::
  "(CollabType, 'j) app_env \<Rightarrow> 'e collab_codec \<Rightarrow> write_faults \<Rightarrow> 'm CollabStoragePlugin \<Rightarrow> CollabType CollabParams \<Rightarrow> ('j App, unit) op" where
  "save_collab A K W p params = on_storage (insert_or_update_collab (ae_storage A) K W (pl_workspace_id p) (pl_uid p) params)"

definition insert_new_collab ::
  "(CollabType, 'j) app_env \<Rightarrow> 'e collab_codec \<Rightarrow> ('d, 'e, 'm) doc_env \<Rightarrow> write_faults \<Rightarrow> 'm CollabStoragePlugin \<Rightarrow> string \<Rightarrow> 'd \<Rightarrow>
     ('j App, unit) op" where
  "insert_new_collab A K V W p oid doc =
     (case ck_encode K (dv_encode V doc) of
        None \<Rightarrow> op_fail (AE_Internal ''fail to encode doc to bytes'')
      | Some b \<Rightarrow> save_collab A K W p (plugin_params p oid b))"

text \<open>What surrounds \<open>init\<close>: the read of the document, the write of a new one, and the reads of its snapshots.\<close>

record snapshot_faults =
  sn_locked :: "nat \<Rightarrow> bool"
  sn_get_fails :: "nat \<Rightarrow> bool"
  sn_list :: "sqlx_error option"
  sn_select :: "nat \<Rightarrow> sqlx_error option"

definition the_snapshots :: "'j App \<Rightarrow> SnapshotControl" where
  "the_snapshots s = (ap_snapshots s)\<lparr>sc_runner := (sc_runner (ap_snapshots s))\<lparr>sr_db := ap_db s\<rparr>\<rparr>"

definition restorable :: "'e collab_codec \<Rightarrow> ('d, 'e, 'm) doc_env \<Rightarrow> string \<Rightarrow> CollabType \<Rightarrow> bytes \<Rightarrow> 'e option" where
  "restorable K V oid collab_type b =
     (case ck_decode K b of
        None \<Rightarrow> None
      | Some e \<Rightarrow>
          (if dv_new_collab V oid e then
             (case collab_type of
                Document \<Rightarrow> (if dv_document_valid V e then Some e else None)
              | Database \<Rightarrow> None
              | WorkspaceDatabase \<Rightarrow> None
              | Folder \<Rightarrow> (if dv_folder_valid V e then Some e else None)
              | DatabaseRow \<Rightarrow> None
              | UserAwareness \<Rightarrow> None)
           else None))"

fun latest_snapshot_loop ::
  "'t db_env \<Rightarrow> 'e collab_codec \<Rightarrow> ('d, 'e, 'm) doc_env \<Rightarrow> snapshot_faults \<Rightarrow> string \<Rightarrow> string \<Rightarrow> CollabType \<Rightarrow> SnapshotControl \<Rightarrow>
     nat \<Rightarrow> AFSnapshotMeta list \<Rightarrow> 'e option" where
  "latest_snapshot_loop DB K V SF workspace_id oid collab_type c i [] = None"
| "latest_snapshot_loop DB K V SF workspace_id oid collab_type c i (meta # metas) =
     (case control_get_snapshot DB (sn_locked SF i) (sn_get_fails SF i) (sn_select SF i) workspace_id (sm_object_id meta)
             (sm_snapshot_id meta) c of
        Inl e \<Rightarrow> None
      | Inr snapshot_data \<Rightarrow>
          (case restorable K V oid collab_type (sd_encoded_collab_v1 snapshot_data) of
             Some e \<Rightarrow> Some e
           | None \<Rightarrow> latest_snapshot_loop DB K V SF workspace_id oid collab_type c (Suc i) metas))"

definition get_latest_snapshot ::
  "'t db_env \<Rightarrow> 'e collab_codec \<Rightarrow> ('d, 'e, 'm) doc_env \<Rightarrow> snapshot_faults \<Rightarrow> string \<Rightarrow> string \<Rightarrow> CollabType \<Rightarrow> SnapshotControl \<Rightarrow> 'e option" where
  "get_latest_snapshot DB K V SF workspace_id oid collab_type c =
     (case control_get_collab_snapshot_list DB (sn_list SF) oid c of
        Inl e \<Rightarrow> None
      | Inr metas \<Rightarrow> latest_snapshot_loop DB K V SF workspace_id oid collab_type c 0 metas)"

record init_faults =
  if_exists :: "sqlx_error option"
  if_read :: call_faults
  if_write :: write_faults
  if_should :: "sqlx_error option"
  if_now :: int
  if_snapshots :: snapshot_faults

text \<open>A queue that is full lets the task wait; a panic of the encoding stays in the task that has it.\<close>

definition queue_init_snapshot :: "string \<Rightarrow> string \<Rightarrow> bytes option \<Rightarrow> 'j App \<Rightarrow> 'j App" where
  "queue_init_snapshot workspace_id oid encoded s =
     (case encoded of
        None \<Rightarrow> s
      | Some b \<Rightarrow>
          (case queue_snapshot \<lparr>isp_object_id = oid, isp_encoded_collab_v1 = b, isp_workspace_id = workspace_id\<rparr> (the_snapshots s) of
             (r, Some c) \<Rightarrow> s\<lparr>ap_snapshots := c\<rparr>
           | (r, None) \<Rightarrow> s))"

definition plugin_init ::
  "(CollabType, 'j) app_env \<Rightarrow> 'e collab_codec \<Rightarrow> ('d, 'e, 'm) doc_env \<Rightarrow> init_faults \<Rightarrow> 'm CollabStoragePlugin \<Rightarrow> string \<Rightarrow> 'd \<Rightarrow> 'j App \<Rightarrow>
     'd \<times> 'j App" where
  "plugin_init A K V F p oid doc s =
     (case on_storage (storage_get_collab_encoded (ae_storage A) K (if_exists F) (if_read F) SendFailed (pl_uid p)
             (QueryCollabParams_new oid (pl_collab_type p) (pl_workspace_id p)) True) s of
        (Inr e, s1) \<Rightarrow>
          (case init_collab V e doc of
             Inr doc1 \<Rightarrow>
               (doc1, if control_should_create_snapshot (if_should F) (if_now F) oid (the_snapshots s1)
                      then queue_init_snapshot (pl_workspace_id p) oid (ck_encode K e) s1 else s1)
           | Inl err \<Rightarrow>
               (case get_latest_snapshot (ae_db A) K V (if_snapshots F) (pl_workspace_id p) oid (pl_collab_type p) (the_snapshots s1) of
                  None \<Rightarrow> (doc, s1)
                | Some e' \<Rightarrow> (case init_collab V e' doc of Inr doc1 \<Rightarrow> (doc1, s1) | Inl err \<Rightarrow> (doc, s1))))
      | (Inl (AE_RecordNotFound m), s1) \<Rightarrow> (doc, snd (insert_new_collab A K V (if_write F) p oid doc s1))
      | (Inl err, s1) \<Rightarrow> (doc, s1))"

definition plugin_did_init :: "'m CollabStoragePlugin \<Rightarrow> 'm CollabStoragePlugin" where
  "plugin_did_init p = p\<lparr>pl_edit_state := set_did_load (pl_edit_state p)\<rparr>"

definition plugin_receive_update :: "int \<Rightarrow> 'm CollabStoragePlugin \<Rightarrow> 'm CollabStoragePlugin" where
  "plugin_receive_update now p = p\<lparr>pl_edit_state := receive_update now (pl_edit_state p)\<rparr>"

text \<open>\<open>flush\<close>: the digest is kept at once, the write is a task that is spawned.\<close>

definition plugin_flush ::
  "'e collab_codec \<Rightarrow> ('d, 'e, 'm) doc_env \<Rightarrow> string \<Rightarrow> 'd \<Rightarrow> 'm CollabStoragePlugin \<Rightarrow> 'm CollabStoragePlugin \<times> CollabType CollabParams option" where
  "plugin_flush K V oid doc p =
     (case ck_encode K (dv_encode V doc) of
        None \<Rightarrow> (p, None)
      | Some b \<Rightarrow>
          (let digest = dv_md5 V b
           in if pl_latest_md5 p = Some digest then (p, None)
              else (p\<lparr>pl_latest_md5 := Some digest\<rparr>, Some (plugin_params p oid b))))"

end
