(* ===== verification/Plugin_Props.thy ===== *)
theory Plugin_Props
  imports Collab_Plugin
begin

text \<open>
  The plugin's edit counters, what a flush writes and what it forgets, and which snapshot a broken document is
  restored from.
\<close>

section \<open>Counting edits\<close>

definition unflushed :: "CollabEditState \<Rightarrow> nat" where
  "unflushed st = unat (es_edit_count st) - unat (es_prev_edit_count st)"

definition edits_ok :: "nat \<Rightarrow> CollabEditState \<Rightarrow> bool" where
  "edits_ok n st \<longleftrightarrow> es_did_load st \<and> unat (es_edit_count st) = n \<and> unat (es_prev_edit_count st) \<le> n \<and> unflushed st < 100"

text \<open>
  Time never makes a document due. As long as the counter of edits has not wrapped around, a document is due exactly
  when a hundred edits have come since the last time, whatever the clock says and whatever the interval is.
\<close>

theorem time_never_flushes:
  assumes "es_prev_edit_count st \<le> es_edit_count st"
  shows "should_flush 100 max_interval now st \<longleftrightarrow> 100 \<le> unflushed st"
proof -
  have "unat (es_edit_count st - es_prev_edit_count st) = unflushed st"
    using assms by (simp add: unflushed_def unat_sub)
  moreover have "(100 :: u32) \<le> es_edit_count st - es_prev_edit_count st \<longleftrightarrow>
      100 \<le> unat (es_edit_count st - es_prev_edit_count st)"
    by (simp add: word_le_nat_alt)
  moreover have "unflushed st = 0" if "es_edit_count st = es_prev_edit_count st"
    using that by (simp add: unflushed_def)
  ultimately show ?thesis
    using assms by (cases "es_edit_count st = es_prev_edit_count st") (simp_all add: should_flush_def Let_def order.strict_iff_order)
qed

lemma receive_update_ok:
  assumes "edits_ok n st" and "Suc n < 2 ^ 32"
  shows "edits_ok (Suc n) (receive_update now st)"
proof -
  let ?st = "increment_edit_count st"
  have n: "unat (es_edit_count st) = n" using assms(1) by (simp add: edits_ok_def)
  then have c: "unat (es_edit_count ?st) = Suc n"
    using assms(2) by (simp add: increment_edit_count_def unat_word_ariths)
  have p: "es_prev_edit_count ?st = es_prev_edit_count st" "es_did_load ?st" using assms(1)
    by (simp_all add: increment_edit_count_def edits_ok_def)
  have le: "es_prev_edit_count ?st \<le> es_edit_count ?st"
    using assms(1) c p by (simp add: edits_ok_def word_le_nat_alt)
  show ?thesis
  proof (cases "100 \<le> unflushed ?st")
    case True
    then show ?thesis using time_never_flushes [OF le, of "3 * 60" now] c p
      by (simp add: receive_update_def Let_def edits_ok_def edit_tick_def unflushed_def)
  next
    case False
    then show ?thesis using time_never_flushes [OF le, of "3 * 60" now] c p assms(1)
      by (simp add: receive_update_def Let_def edits_ok_def)
  qed
qed

text \<open>
  Fewer than a hundred edits are ever counted as new. Once a document has been loaded, after every update and
  whatever the times of the updates are, the edits since the last time it was due are fewer than a hundred.
\<close>

theorem fewer_than_hundred_unflushed:
  assumes "length nows < 2 ^ 32"
  shows "unflushed (foldl (\<lambda>st now. receive_update now st) (set_did_load (CollabEditState_new t0)) nows) < 100"
proof -
  have "length nows < 2 ^ 32 \<longrightarrow>
      edits_ok (length nows) (foldl (\<lambda>st now. receive_update now st) (set_did_load (CollabEditState_new t0)) nows)"
  proof (induction nows rule: rev_induct)
    case Nil
    show ?case by (simp add: edits_ok_def CollabEditState_new_def set_did_load_def unflushed_def)
  next
    case (snoc now nows)
    then show ?case using receive_update_ok by auto
  qed
  with assms show ?thesis by (simp add: edits_ok_def)
qed

section \<open>Flushing\<close>

text \<open>
  A flush that fails is not tried again. The digest of what is to be written is kept before the write: when the
  write fails, no table has changed, and every later flush of the same content writes nothing.
\<close>

theorem failed_flush_forgotten:
  assumes "plugin_flush K V oid doc p = (p1, Some params)" and "save_collab A K W p1 params s = (Inl e, s1)"
    and "dv_encode V doc' = dv_encode V doc"
  shows "tables s1 = tables s \<and> plugin_flush K V oid doc' p1 = (p1, None)"
proof -
  have "all_or_nothing (save_collab A K W p1 params)"
    unfolding save_collab_def by (rule insert_or_update_atomic)
  then have "tables s1 = tables s" using assms(2) unfolding all_or_nothing_def by (metis fst_conv is_ok_simps(2) snd_conv)
  moreover have "plugin_flush K V oid doc' p1 = (p1, None)"
    using assms(1,3) by (auto simp: plugin_flush_def Let_def split: option.splits if_splits)
  ultimately show ?thesis by simp
qed

section \<open>Restoring from a snapshot\<close>

text \<open>The snapshots of a document as the list of their states, the newest first.\<close>

definition snapshot_blobs :: "string \<Rightarrow> Db \<Rightarrow> bytes list" where
  "snapshot_blobs oid db = map sn_blob (by_created_desc (filter (\<lambda>r. sn_deleted_at r = None) (snapshots_of oid db)))"

definition no_snapshot_faults :: "snapshot_faults \<Rightarrow> bool" where
  "no_snapshot_faults SF \<longleftrightarrow> sn_list SF = None \<and> sn_select SF = (\<lambda>i. None)"

fun first_some :: "('a \<Rightarrow> 'b option) \<Rightarrow> 'a list \<Rightarrow> 'b option" where
  "first_some f [] = None"
| "first_some f (x # xs) = (case f x of Some y \<Rightarrow> Some y | None \<Rightarrow> first_some f xs)"

lemma filter_sid:
  assumes "distinct (map sn_sid rows)" and "r \<in> set rows" and "sn_deleted_at r = None"
  shows "fetch_optional (filter (\<lambda>x. sn_sid x = sn_sid r \<and> sn_deleted_at x = None) rows) = Some r"
proof -
  have "\<exists>rs. filter (\<lambda>x. sn_sid x = sn_sid r \<and> sn_deleted_at x = None) rows = r # rs"
    using assms
  proof (induction rows)
    case (Cons x rows)
    then show ?case by (auto simp: image_iff)
  qed simp
  then show ?thesis by (auto simp: fetch_optional_def)
qed

lemma snapshot_of_meta:
  assumes "distinct (map sn_sid (db_snapshots (sr_db (sc_runner c))))" and "r \<in> set (db_snapshots (sr_db (sc_runner c)))"
    and "sn_deleted_at r = None" and "map_of (sr_cache (sc_runner c)) (SnapshotKey_from_object_id (sn_oid r)) = None"
  shows "\<exists>d. control_get_snapshot DB locked fails None w (sn_oid r) (sn_sid r) c = Ok d \<and> sd_encoded_collab_v1 d = sn_blob r"
  using filter_sid [OF assms(1-3)] assms(4)
  by (auto simp: control_get_snapshot_def snapshot_try_get_def control_get_collab_snapshot_def select_snapshot_def sql_err_def try_bind_def)

lemma latest_snapshot_loop_rows:
  assumes "distinct (map sn_sid (db_snapshots (sr_db (sc_runner c))))" and "sn_select SF = (\<lambda>i. None)"
    and "map_of (sr_cache (sc_runner c)) (SnapshotKey_from_object_id oid) = None"
    and "list_all (\<lambda>r. r \<in> set (db_snapshots (sr_db (sc_runner c))) \<and> sn_deleted_at r = None \<and> sn_oid r = oid) rows"
  shows "latest_snapshot_loop DB K V SF w oid ty c i
      (map (\<lambda>r. \<lparr>sm_snapshot_id = sn_sid r, sm_object_id = sn_oid r, sm_created_at = sn_created_at r\<rparr>) rows) =
    first_some (restorable K V oid ty) (map sn_blob rows)"
  using assms(4)
proof (induction rows arbitrary: i)
  case (Cons r rows)
  then have r: "r \<in> set (db_snapshots (sr_db (sc_runner c)))" "sn_deleted_at r = None" "sn_oid r = oid" by simp_all
  have "map_of (sr_cache (sc_runner c)) (SnapshotKey_from_object_id (sn_oid r)) = None" using assms(3) r(3) by simp
  from snapshot_of_meta [OF assms(1) r(1,2) this, of DB "sn_locked SF i" "sn_get_fails SF i" w] obtain d where
    d: "control_get_snapshot DB (sn_locked SF i) (sn_get_fails SF i) None w (sn_oid r) (sn_sid r) c = Ok d"
      "sd_encoded_collab_v1 d = sn_blob r" by blast
  then show ?case using Cons by (simp add: assms(2) split: option.splits)
qed simp

text \<open>
  A document that does not load is restored from its newest good snapshot. When no snapshot of it waits to be
  written and every read succeeds, the state it is restored from is the first, by creation from the newest, that
  decodes, makes a collab and is a valid document or folder; collabs of the other types have none.
\<close>

theorem newest_good_snapshot:
  assumes "no_snapshot_faults SF" and "distinct (map sn_sid (db_snapshots (sr_db (sc_runner c))))"
    and "map_of (sr_cache (sc_runner c)) (SnapshotKey_from_object_id oid) = None"
  shows "get_latest_snapshot DB K V SF w oid ty c = first_some (restorable K V oid ty) (snapshot_blobs oid (sr_db (sc_runner c))) \<and>
    (if ty \<in> {Document, Folder} then True else get_latest_snapshot DB K V SF w oid ty c = None)"
proof -
  let ?rows = "by_created_desc (filter (\<lambda>r. sn_deleted_at r = None) (snapshots_of oid (sr_db (sc_runner c))))"
  have "list_all (\<lambda>r. r \<in> set (db_snapshots (sr_db (sc_runner c))) \<and> sn_deleted_at r = None \<and> sn_oid r = oid) ?rows"
    by (auto simp: list_all_iff by_created_desc_def snapshots_of_def)
  moreover have SF: "sn_list SF = None" "sn_select SF = (\<lambda>i. None)" using assms(1) by (simp_all add: no_snapshot_faults_def)
  ultimately have "latest_snapshot_loop DB K V SF w oid ty c 0
      (map (\<lambda>r. \<lparr>sm_snapshot_id = sn_sid r, sm_object_id = sn_oid r, sm_created_at = sn_created_at r\<rparr>) ?rows) =
      first_some (restorable K V oid ty) (map sn_blob ?rows)"
    using latest_snapshot_loop_rows [OF assms(2) SF(2) assms(3)] by blast
  then have "get_latest_snapshot DB K V SF w oid ty c = first_some (restorable K V oid ty) (snapshot_blobs oid (sr_db (sc_runner c)))"
    by (simp add: get_latest_snapshot_def SF(1) control_get_collab_snapshot_list_def get_all_collab_snapshot_meta_def
        sql_err_def snapshot_blobs_def)
  moreover have "first_some (restorable K V oid ty) bs = None" if "ty \<notin> {Document, Folder}" for bs
    using that by (induction bs) (auto simp: restorable_def split: option.splits CollabType.splits)
  ultimately show ?thesis by simp
qed

section \<open>Instances\<close>

definition sample_doc_env :: "(bytes, bytes, bytes) doc_env" where
  "sample_doc_env = \<lparr>dv_encode = (\<lambda>d. d), dv_state_empty = (\<lambda>e. e = []), dv_apply = (\<lambda>e d. Ok e), dv_md5 = (\<lambda>b. b),
     dv_new_collab = (\<lambda>oid e. True), dv_document_valid = (\<lambda>e. e \<noteq> [0]), dv_folder_valid = (\<lambda>e. True)\<rparr>"

definition sample_plugin :: "bytes CollabStoragePlugin" where
  "sample_plugin = CollabStoragePlugin_new 7 ''w'' Document 0"

definition sample_doc_server :: "(CollabType, unit) app_env" where
  "sample_doc_server = \<lparr>ae_storage = \<lparr>se_db = \<lparr>de_type_value = (\<lambda>t. 0), de_parse_uuid = Some, de_show_sqlx = (\<lambda>e. ''sql'')\<rparr>,
     se_casbin = casbin_std, se_enabled = True\<rparr>, ae_schema = sample_schema\<rparr>"

definition sample_doc_app :: "unit App" where
  "sample_doc_app = \<lparr>ap_storage = sample_store [], ap_ws = fs_db sample_files, ap_users = [], ap_snapshots = SnapshotControl_new (cc_db sample_cache) []\<rparr>"

theorem time_never_flushes_witness:
  "\<not> should_flush 100 180 1000000 \<lparr>es_edit_count = 99, es_prev_edit_count = 0, es_prev_flush_timestamp = 0, es_did_load = True\<rparr>"
  using time_never_flushes [of "\<lparr>es_edit_count = 99, es_prev_edit_count = 0, es_prev_flush_timestamp = 0, es_did_load = True\<rparr>" 180 1000000]
  by (simp add: unflushed_def)

theorem fewer_than_hundred_unflushed_witness:
  "unflushed (foldl (\<lambda>st now. receive_update now st) (set_did_load (CollabEditState_new 0)) [3, 5, 400]) < 100"
  using fewer_than_hundred_unflushed [of "[3, 5, 400]" 0] by simp

definition refused_write :: write_faults where
  "refused_write = calm_write\<lparr>wf_begin := Some SqlxPoolTimedOut\<rparr>"

theorem failed_flush_forgotten_witness:
  "let r = plugin_flush sample_codec sample_doc_env ''c'' [9] sample_plugin;
       t = save_collab sample_doc_server sample_codec refused_write (fst r) (the (snd r)) sample_doc_app
   in \<not> is_ok (fst t) \<and> tables (snd t) = tables sample_doc_app \<and>
      snd (plugin_flush sample_codec sample_doc_env ''c'' [9] (fst r)) = None"
proof -
  let ?p1 = "sample_plugin\<lparr>pl_latest_md5 := Some [9]\<rparr>" and ?params = "plugin_params sample_plugin ''c'' [9]"
  have f: "plugin_flush sample_codec sample_doc_env ''c'' [9] sample_plugin = (?p1, Some ?params)"
    by (simp add: plugin_flush_def sample_codec_def sample_doc_env_def sample_plugin_def CollabStoragePlugin_new_def)
  obtain r s1 where t: "save_collab sample_doc_server sample_codec refused_write ?p1 ?params sample_doc_app = (r, s1)" by (rule prod.exhaust)
  have "\<not> is_ok r"
    using arg_cong [OF t, of fst] by (auto simp: save_collab_def on_storage_def case_prod_beta insert_or_update_collab_def
      with_context_def statement_def refused_write_def calm_write_def is_ok_def split: sum.splits)
  then obtain e where "save_collab sample_doc_server sample_codec refused_write ?p1 ?params sample_doc_app = (Inl e, s1)"
    using t by (cases r) simp_all
  from failed_flush_forgotten [OF f this refl] this show ?thesis by (simp add: Let_def f)
qed

theorem newest_good_snapshot_witness:
  "let c = SnapshotControl_new ((cc_db sample_cache)\<lparr>db_snapshots :=
         [new_snapshot_row 1 10 ''c'' [5] ''w'', new_snapshot_row 2 20 ''c'' [6] ''w'', new_snapshot_row 3 30 ''c'' [0] ''w'']\<rparr>) []
   in get_latest_snapshot sample_db_env sample_codec sample_doc_env
        \<lparr>sn_locked = (\<lambda>i. False), sn_get_fails = (\<lambda>i. False), sn_list = None, sn_select = (\<lambda>i. None)\<rparr> ''w'' ''c'' Document c = Some [6]"
proof -
  let ?db = "(cc_db sample_cache)\<lparr>db_snapshots :=
         [new_snapshot_row 1 10 ''c'' [5] ''w'', new_snapshot_row 2 20 ''c'' [6] ''w'', new_snapshot_row 3 30 ''c'' [0] ''w'']\<rparr>"
  let ?SF = "\<lparr>sn_locked = (\<lambda>i. False), sn_get_fails = (\<lambda>i. False), sn_list = None, sn_select = (\<lambda>i :: nat. None :: sqlx_error option)\<rparr>"
  have "no_snapshot_faults ?SF" by (simp add: no_snapshot_faults_def)
  moreover have "distinct (map sn_sid (db_snapshots (sr_db (sc_runner (SnapshotControl_new ?db [])))))"
    "map_of (sr_cache (sc_runner (SnapshotControl_new ?db []))) (SnapshotKey_from_object_id ''c'') = None"
    by (simp_all add: SnapshotControl_new_def new_snapshot_row_def)
  moreover have "first_some (restorable sample_codec sample_doc_env ''c'' Document) (snapshot_blobs ''c'' ?db) = Some [6]"
    by (simp add: snapshot_blobs_def snapshots_of_def by_created_desc_def new_snapshot_row_def restorable_def sample_codec_def sample_doc_env_def)
  ultimately show ?thesis
    using newest_good_snapshot [of ?SF "SnapshotControl_new ?db []" "''c''" sample_db_env sample_codec sample_doc_env "''w''" Document]
    by (simp add: Let_def SnapshotControl_new_def)
qed

end
