(* ===== verification/Rt_Client.thy ===== *)
theory Rt_Client
  imports Rt_Server
begin

text \<open>
  The server's end of a websocket (\<open>lib/realtime/src/client/rt_client.rs\<close>): the heartbeat, the limit on the
  messages taken from the client, what goes to the realtime server and what comes from it.

  A handler of the actor is one step that gives the actions it takes in their order; \<open>actix\<close> runs \<open>stopping\<close> once
  a handler has stopped the context.  Instants and durations are numbers of milliseconds, and the instants a
  handler reads are one; the count of messages starts again every second and is a number.
\<close>

section \<open>Messages and actions\<close>

datatype close_code = CloseNormal | CloseOther nat

record CloseReason =
  cr_code :: close_code
  cr_description :: "string option"

datatype ws_message =
    WsText string
  | WsBinary bytes
  | WsContinuation
  | WsPing bytes
  | WsPong bytes
  | WsClose "CloseReason option"
  | WsNop

datatype ProtocolError = ProtoOverflow | ProtoOther string

datatype client_action =
    SendConnect RealtimeUserImpl string
  | SendDisconnect RealtimeUserImpl string
  | SpawnForward bytes
  | CtxPing
  | CtxPong bytes
  | CtxBinary bytes
  | CtxClose "CloseReason option"
  | CtxStop

section \<open>\<open>RealtimeClient\<close>\<close>

definition MAX_MESSAGES_PER_INTERVAL :: nat where "MAX_MESSAGES_PER_INTERVAL = 10"
definition RATE_LIMIT_INTERVAL :: nat where "RATE_LIMIT_INTERVAL = 1000"

record RealtimeClient =
  rc_session_id :: string
  rc_user :: RealtimeUserImpl
  rc_hb :: nat
  rc_heartbeat_interval :: nat
  rc_client_timeout :: nat
  rc_message_count :: nat
  rc_interval_start :: nat

definition RealtimeClient_new :: "RealtimeUserImpl \<Rightarrow> nat \<Rightarrow> nat \<Rightarrow> string \<Rightarrow> nat \<Rightarrow> RealtimeClient" where
  "RealtimeClient_new user heartbeat_interval client_timeout session_id now =
     \<lparr>rc_session_id = session_id, rc_user = user, rc_hb = now, rc_heartbeat_interval = heartbeat_interval,
      rc_client_timeout = client_timeout, rc_message_count = 0, rc_interval_start = now\<rparr>"

text \<open>One tick of the heartbeat's interval.\<close>

definition hb_tick :: "nat \<Rightarrow> RealtimeClient \<Rightarrow> RealtimeClient \<times> client_action list" where
  "hb_tick now c =
     (if rc_client_timeout c < now - rc_hb c then (c, [SendDisconnect (rc_user c) (rc_session_id c), CtxStop])
      else (c, [CtxPing]))"

text \<open>\<open>started\<close>, with what the server answers to \<open>Connect\<close>.\<close>

definition client_started :: "bool \<Rightarrow> RealtimeClient \<Rightarrow> RealtimeClient \<times> client_action list" where
  "client_started answered_ok c =
     (c, SendConnect (rc_user c) (rc_session_id c) # (if answered_ok then [] else [CtxStop]))"

definition client_stopping :: "RealtimeClient \<Rightarrow> client_action list" where
  "client_stopping c = [SendDisconnect (rc_user c) (rc_session_id c)]"

record 'j AFUserRow =
  afu_uid :: int
  afu_uuid :: "string option"
  afu_email :: "string option"
  afu_password :: "string option"
  afu_name :: "string option"
  afu_metadata :: "'j option"
  afu_encryption_sign :: "string option"
  afu_deleted_at :: "int option"
  afu_updated_at :: "int option"
  afu_created_at :: "int option"

text \<open>A notification about the user, as the message it becomes; \<open>to_json\<close> may fail.\<close>

definition user_change_message :: "('j option \<Rightarrow> string option) \<Rightarrow> 'j AFUserRow option \<Rightarrow> ('o, 't) RealtimeMessage option" where
  "user_change_message to_json payload =
     (case payload of
        None \<Rightarrow> None
      | Some user \<Rightarrow> Some (RM_User (ProfileChange \<lparr>uc_uid = afu_uid user, uc_name = afu_name user, uc_email = afu_email user,
          uc_metadata = to_json (afu_metadata user)\<rparr>)))"

text \<open>A message of the server to the client.\<close>

definition handle_server_message ::
  "('o, 't) rt_codec \<Rightarrow> ('o, 't) RealtimeMessage \<Rightarrow> RealtimeClient \<Rightarrow> RealtimeClient \<times> client_action list" where
  "handle_server_message R msg c =
     (let closing = (if msg = RM_System DuplicateConnection
                     then [CtxClose (Some \<lparr>cr_code = CloseNormal, cr_description = Some ''Duplicate connection''\<rparr>), CtxStop]
                     else [])
      in (c, closing @ (case rt_encode R msg of Inr data \<Rightarrow> [CtxBinary data] | Inl err \<Rightarrow> [])))"

text \<open>A message of the client.\<close>

definition count_message :: "nat \<Rightarrow> RealtimeClient \<Rightarrow> RealtimeClient" where
  "count_message now c =
     (let c1 = (if RATE_LIMIT_INTERVAL < now - rc_interval_start c then c\<lparr>rc_message_count := 0, rc_interval_start := now\<rparr> else c)
      in c1\<lparr>rc_message_count := rc_message_count c1 + 1\<rparr>)"

definition handle_stream_message ::
  "nat \<Rightarrow> ProtocolError + ws_message \<Rightarrow> RealtimeClient \<Rightarrow> RealtimeClient \<times> client_action list" where
  "handle_stream_message now msg c =
     (let c2 = count_message now c
      in if MAX_MESSAGES_PER_INTERVAL < rc_message_count c2 then (c2, [])
         else
           (case msg of
              Inl err \<Rightarrow> (c2, if err = ProtoOverflow then [CtxStop] else [])
            | Inr (WsPing m) \<Rightarrow> (c2\<lparr>rc_hb := now\<rparr>, [CtxPong m])
            | Inr (WsPong m) \<Rightarrow> (c2\<lparr>rc_hb := now\<rparr>, [])
            | Inr (WsText t) \<Rightarrow> (c2, [])
            | Inr (WsBinary b) \<Rightarrow> (c2, [SpawnForward b])
            | Inr (WsClose reason) \<Rightarrow> (c2, [CtxClose reason, CtxStop])
            | Inr WsContinuation \<Rightarrow> (c2, [])
            | Inr WsNop \<Rightarrow> (c2, [])))"

text \<open>
  The task of \<open>SpawnForward\<close>: up to three tries to hand the message to the server's mailbox; \<open>sends\<close> tells whether
  the n-th succeeds.  The result is the message the server gets.
\<close>

definition CLIENT_MAX_RETRIES :: nat where "CLIENT_MAX_RETRIES = 3"

function try_send_loop :: "(nat \<Rightarrow> string + unit) \<Rightarrow> nat \<Rightarrow> string + unit" where
  "try_send_loop sends attempts =
     (if attempts < CLIENT_MAX_RETRIES then
        (case sends attempts of
           Inr _ \<Rightarrow> Ok ()
         | Inl err \<Rightarrow>
             (if attempts < CLIENT_MAX_RETRIES - 1 then try_send_loop sends (attempts + 1)
              else Err (''Failed to send message to server after retries: '' @ err)))
      else Ok ())"
  by pat_completeness auto
termination
  by (relation "measure (\<lambda>(sends, n). CLIENT_MAX_RETRIES - n)") auto

declare try_send_loop.simps [simp del]

definition send_binary_to_server ::
  "('o, 't) rt_codec \<Rightarrow> (nat \<Rightarrow> string + unit) \<Rightarrow> bytes \<Rightarrow> string + ('o, 't) RealtimeMessage" where
  "send_binary_to_server R sends b =
     (case rt_decode R b of
        Inl err \<Rightarrow> Err (''Fail to deserialize the bytes into RealtimeMessage: '' @ err)
      | Inr message \<Rightarrow> try_bind (try_send_loop sends 0) (\<lambda>_. Ok message))"

section \<open>The actor\<close>

record client_actor =
  ca_client :: RealtimeClient
  ca_running :: bool
  ca_log :: "client_action list"

datatype ('o, 't) client_event =
    EvStarted bool
  | EvHeartbeat nat
  | EvServer "('o, 't) RealtimeMessage"
  | EvStream nat "ProtocolError + ws_message"

fun client_handle :: "('o, 't) rt_codec \<Rightarrow> ('o, 't) client_event \<Rightarrow> RealtimeClient \<Rightarrow> RealtimeClient \<times> client_action list" where
  "client_handle R (EvStarted answered_ok) c = client_started answered_ok c"
| "client_handle R (EvHeartbeat now) c = hb_tick now c"
| "client_handle R (EvServer msg) c = handle_server_message R msg c"
| "client_handle R (EvStream now msg) c = handle_stream_message now msg c"

text \<open>An actor that has stopped handles nothing more.\<close>

definition client_step :: "('o, 't) rt_codec \<Rightarrow> ('o, 't) client_event \<Rightarrow> client_actor \<Rightarrow> client_actor" where
  "client_step R ev a =
     (if \<not> ca_running a then a
      else
        (case client_handle R ev (ca_client a) of
           (c, acts) \<Rightarrow>
             (if CtxStop \<in> set acts
              then \<lparr>ca_client = c, ca_running = False, ca_log = ca_log a @ acts @ client_stopping c\<rparr>
              else \<lparr>ca_client = c, ca_running = True, ca_log = ca_log a @ acts\<rparr>)))"

definition client_run :: "('o, 't) rt_codec \<Rightarrow> ('o, 't) client_event list \<Rightarrow> client_actor \<Rightarrow> client_actor" where
  "client_run R evs a = foldl (\<lambda>a ev. client_step R ev a) a evs"

definition client_actor_new :: "RealtimeClient \<Rightarrow> client_actor" where
  "client_actor_new c = \<lparr>ca_client = c, ca_running = True, ca_log = []\<rparr>"

section \<open>Properties\<close>

definition forwarded :: "client_action list \<Rightarrow> bytes list" where
  "forwarded acts = concat (map (\<lambda>a. case a of SpawnForward b \<Rightarrow> [b] | _ \<Rightarrow> []) acts)"

lemma forwarded_simps [simp]: "forwarded [] = []" "forwarded (xs @ ys) = forwarded xs @ forwarded ys"
  "forwarded (SpawnForward b # xs) = b # forwarded xs"
  by (simp_all add: forwarded_def)

text \<open>The messages of one interval, handled in turn.\<close>

fun handle_stream :: "(nat \<times> (ProtocolError + ws_message)) list \<Rightarrow> RealtimeClient \<Rightarrow> RealtimeClient \<times> client_action list" where
  "handle_stream [] c = (c, [])"
| "handle_stream ((now, msg) # ms) c =
     (case handle_stream_message now msg c of (c1, acts) \<Rightarrow> (case handle_stream ms c1 of (c2, acts') \<Rightarrow> (c2, acts @ acts')))"

lemma handle_stream_message_count:
  "rc_message_count (fst (handle_stream_message now msg c)) = rc_message_count (count_message now c)"
  "rc_interval_start (fst (handle_stream_message now msg c)) = rc_interval_start (count_message now c)"
  by (auto simp: handle_stream_message_def Let_def split: sum.splits ws_message.splits)

lemma handle_stream_message_forwards:
  "length (forwarded (snd (handle_stream_message now msg c))) \<le>
    (if MAX_MESSAGES_PER_INTERVAL < rc_message_count (count_message now c) then 0 else 1)"
  by (auto simp: handle_stream_message_def Let_def forwarded_def split: sum.splits ws_message.splits)

lemma handle_stream_forwards:
  assumes "\<forall>x \<in> set ms. fst x \<le> rc_interval_start c + RATE_LIMIT_INTERVAL"
  shows "length (forwarded (snd (handle_stream ms c))) \<le> MAX_MESSAGES_PER_INTERVAL - rc_message_count c"
  using assms
proof (induction ms c rule: handle_stream.induct)
  case (2 now msg ms c)
  obtain c1 acts where h: "handle_stream_message now msg c = (c1, acts)" by (rule prod.exhaust)
  obtain c2 acts' where t: "handle_stream ms c1 = (c2, acts')" by (rule prod.exhaust)
  have n: "count_message now c = c\<lparr>rc_message_count := rc_message_count c + 1\<rparr>"
    using 2(2) by (auto simp: count_message_def)
  have c1: "rc_message_count c1 = rc_message_count c + 1" "rc_interval_start c1 = rc_interval_start c"
    using handle_stream_message_count [of now msg c] by (simp_all add: h n)
  have "length (forwarded acts) \<le> (if MAX_MESSAGES_PER_INTERVAL < rc_message_count c + 1 then 0 else 1)"
    using handle_stream_message_forwards [of now msg c] by (simp add: h n)
  moreover have "length (forwarded acts') \<le> MAX_MESSAGES_PER_INTERVAL - rc_message_count c1"
    using 2(1) [OF h [symmetric]] 2(2) by (simp add: c1 t)
  ultimately show ?case by (simp add: h t c1 split: if_splits)
qed simp

text \<open>
  A client is limited to ten messages a second. Of the messages that come within one interval of the limit, however
  many and of whatever kind, at most ten go on to the realtime server.
\<close>

theorem ten_messages_a_second:
  assumes "\<forall>x \<in> set ms. fst x \<le> rc_interval_start c + RATE_LIMIT_INTERVAL"
  shows "length (forwarded (snd (handle_stream ms c))) \<le> MAX_MESSAGES_PER_INTERVAL"
  using handle_stream_forwards [OF assms] by simp

text \<open>The log of an actor: it has told the server exactly when it has stopped.\<close>

definition disconnects :: "client_action list \<Rightarrow> nat" where
  "disconnects acts = length (filter (\<lambda>a. case a of SendDisconnect u s \<Rightarrow> True | _ \<Rightarrow> False) acts)"

lemma disconnects_simps [simp]: "disconnects [] = 0" "disconnects (xs @ ys) = disconnects xs + disconnects ys"
  "disconnects (client_stopping c) = 1" "disconnects (SendDisconnect u s # xs) = Suc (disconnects xs)"
  "disconnects (SendConnect u s # xs) = disconnects xs" "disconnects (SpawnForward b # xs) = disconnects xs"
  "disconnects (CtxPing # xs) = disconnects xs" "disconnects (CtxPong b # xs) = disconnects xs"
  "disconnects (CtxBinary b # xs) = disconnects xs" "disconnects (CtxClose r # xs) = disconnects xs"
  "disconnects (CtxStop # xs) = disconnects xs"
  by (simp_all add: disconnects_def client_stopping_def)

lemma handle_disconnects:
  "disconnects (snd (client_handle R ev c)) \<le> (if CtxStop \<in> set (snd (client_handle R ev c)) then 1 else 0)"
  by (cases ev) (auto simp: client_started_def hb_tick_def handle_server_message_def handle_stream_message_def Let_def
      split: sum.splits ws_message.splits)

lemma client_run_append: "client_run R (evs @ [ev]) a = client_step R ev (client_run R evs a)"
  by (simp add: client_run_def)

text \<open>
  A websocket that ends is reported. In every run of the actor the realtime server has been sent a disconnect
  exactly when the actor has stopped, for whatever reason, and it has been sent at most two.
\<close>

theorem stopped_is_reported:
  "(ca_running (client_run R evs (client_actor_new c)) \<longleftrightarrow> disconnects (ca_log (client_run R evs (client_actor_new c))) = 0) \<and>
   disconnects (ca_log (client_run R evs (client_actor_new c))) \<le> 2"
proof (induction evs rule: rev_induct)
  case Nil
  then show ?case by (simp add: client_run_def client_actor_new_def)
next
  case (snoc ev evs)
  let ?a = "client_run R evs (client_actor_new c)"
  show ?case
  proof (cases "ca_running ?a")
    case True
    then show ?thesis using snoc handle_disconnects [of R ev "ca_client ?a"]
      by (auto simp: client_run_append client_step_def case_prod_beta split: if_splits)
  next
    case False
    then show ?thesis using snoc by (simp add: client_run_append client_step_def)
  qed
qed

text \<open>
  The limit also drops what keeps the connection alive and what ends it. Once ten messages of an interval have been
  counted, a pong does not count as a sign of life and a close is not taken: a heartbeat soon after stops a connection
  whose client has just answered.
\<close>

theorem limit_drops_pongs:
  assumes "MAX_MESSAGES_PER_INTERVAL \<le> rc_message_count c" and "pong \<le> rc_interval_start c + RATE_LIMIT_INTERVAL"
    and "rc_hb c + rc_client_timeout c < beat" and "ca_running a" and "ca_client a = c"
  shows "ca_running (client_step R (EvStream pong (Ok (WsClose reason))) a) \<and>
    \<not> ca_running (client_run R [EvStream pong (Ok (WsPong b)), EvHeartbeat beat] a)"
proof -
  have n: "count_message pong c = c\<lparr>rc_message_count := rc_message_count c + 1\<rparr>"
    using assms(2) by (simp add: count_message_def)
  have d: "handle_stream_message pong m c = (c\<lparr>rc_message_count := rc_message_count c + 1\<rparr>, [])" for m
    using assms(1) by (simp add: handle_stream_message_def n)
  show ?thesis
    using assms(3) by (simp add: client_run_def client_step_def assms(4,5) d hb_tick_def)
qed

definition sample_client :: "nat \<Rightarrow> RealtimeClient" where
  "sample_client n = (RealtimeClient_new \<lparr>ru_uid = 7, ru_device_id = ''d'', ru_timestamp = 0\<rparr> 5000 10000 ''s'' 0)\<lparr>rc_message_count := n\<rparr>"

theorem ten_messages_a_second_witness:
  "length (forwarded (snd (handle_stream (replicate 30 (500, Ok (WsBinary [1]))) (sample_client 0)))) \<le> 10"
  using ten_messages_a_second [of "replicate 30 (500, Ok (WsBinary [1]))" "sample_client 0"]
  by (simp add: sample_client_def RealtimeClient_new_def RATE_LIMIT_INTERVAL_def MAX_MESSAGES_PER_INTERVAL_def)

theorem limit_drops_pongs_witness:
  "\<not> ca_running (client_run R [EvStream 900 (Ok (WsPong [])), EvHeartbeat 10001]
     (client_actor_new (sample_client 10) :: client_actor))"
  using limit_drops_pongs [of "sample_client 10" 900 10001 "client_actor_new (sample_client 10)" R None "[]"]
  by (simp add: sample_client_def RealtimeClient_new_def RATE_LIMIT_INTERVAL_def MAX_MESSAGES_PER_INTERVAL_def client_actor_new_def)

end
