(* ===== verification/Ws_Message.thy ===== *)
theory Ws_Message
  imports Prelude
begin

text \<open>
  The messages and errors of a websocket as the client's library has them (\<open>lib/client-websocket/src/message.rs\<close>,
  \<open>error.rs\<close>, the conversion of messages in \<open>native.rs\<close>) and the errors of the client over it
  (\<open>lib/client-api/src/ws/error.rs\<close>).  A \<open>String\<close> is the list of the bytes of its UTF-8 form.
\<close>

section \<open>UTF-8\<close>

definition string_bytes :: "string \<Rightarrow> bytes" where
  "string_bytes s = map (\<lambda>c. of_nat (of_char c)) s"

definition bytes_string :: "bytes \<Rightarrow> string" where
  "bytes_string b = map (\<lambda>x. char_of (unat x)) b"

lemma bytes_string_bytes [simp]: "bytes_string (string_bytes s) = s"
proof -
  have "char_of (unat (of_nat (of_char c) :: u8)) = c" for c :: char
  proof -
    have "(of_char c :: nat) < 256" by simp
    then show ?thesis by (simp add: unat_of_nat)
  qed
  then show ?thesis by (simp add: bytes_string_def string_bytes_def comp_def)
qed

text \<open>The well-formed sequences of the standard (\<open>String::from_utf8\<close>), by the first byte.\<close>

definition tail_byte :: "u8 \<Rightarrow> bool" where "tail_byte b \<longleftrightarrow> 128 \<le> b \<and> b \<le> 191"

fun valid_utf8 :: "bytes \<Rightarrow> bool" where
  "valid_utf8 [] = True"
| "valid_utf8 (a # r) =
     (if a < 128 then valid_utf8 r
      else if 194 \<le> a \<and> a \<le> 223 then
        (case r of b # r1 \<Rightarrow> tail_byte b \<and> valid_utf8 r1 | [] \<Rightarrow> False)
      else if 224 \<le> a \<and> a \<le> 239 then
        (case r of b # c # r1 \<Rightarrow>
           (if a = 224 then 160 \<le> b \<and> b \<le> 191 else if a = 237 then 128 \<le> b \<and> b \<le> 159 else tail_byte b) \<and>
           tail_byte c \<and> valid_utf8 r1
         | _ \<Rightarrow> False)
      else if 240 \<le> a \<and> a \<le> 244 then
        (case r of b # c # d # r1 \<Rightarrow>
           (if a = 240 then 144 \<le> b \<and> b \<le> 191 else if a = 244 then 128 \<le> b \<and> b \<le> 143 else tail_byte b) \<and>
           tail_byte c \<and> tail_byte d \<and> valid_utf8 r1
         | _ \<Rightarrow> False)
      else False)"

section \<open>\<open>CloseCode\<close> and \<open>Message\<close>\<close>

datatype CloseCode =
    CloseCodeNormal | CloseCodeAway | CloseCodeProtocol | CloseCodeUnsupported | CloseCodeStatus | CloseCodeAbnormal
  | CloseCodeInvalid | CloseCodePolicy | CloseCodeSize | CloseCodeExtension | CloseCodeError | CloseCodeRestart
  | CloseCodeAgain | CloseCodeTls | CloseCodeReserved u16 | CloseCodeIana u16 | CloseCodeLibrary u16 | CloseCodeBad u16

fun close_is_allowed :: "CloseCode \<Rightarrow> bool" where
  "close_is_allowed (CloseCodeBad c) = False"
| "close_is_allowed (CloseCodeReserved c) = False"
| "close_is_allowed CloseCodeStatus = False"
| "close_is_allowed CloseCodeAbnormal = False"
| "close_is_allowed CloseCodeTls = False"
| "close_is_allowed c = True"

fun close_to_u16 :: "CloseCode \<Rightarrow> u16" where
  "close_to_u16 CloseCodeNormal = 1000"
| "close_to_u16 CloseCodeAway = 1001"
| "close_to_u16 CloseCodeProtocol = 1002"
| "close_to_u16 CloseCodeUnsupported = 1003"
| "close_to_u16 CloseCodeStatus = 1005"
| "close_to_u16 CloseCodeAbnormal = 1006"
| "close_to_u16 CloseCodeInvalid = 1007"
| "close_to_u16 CloseCodePolicy = 1008"
| "close_to_u16 CloseCodeSize = 1009"
| "close_to_u16 CloseCodeExtension = 1010"
| "close_to_u16 CloseCodeError = 1011"
| "close_to_u16 CloseCodeRestart = 1012"
| "close_to_u16 CloseCodeAgain = 1013"
| "close_to_u16 CloseCodeTls = 1015"
| "close_to_u16 (CloseCodeReserved code) = code"
| "close_to_u16 (CloseCodeIana code) = code"
| "close_to_u16 (CloseCodeLibrary code) = code"
| "close_to_u16 (CloseCodeBad code) = code"

definition close_from_u16 :: "u16 \<Rightarrow> CloseCode" where
  "close_from_u16 code =
     (if code = 1000 then CloseCodeNormal
      else if code = 1001 then CloseCodeAway
      else if code = 1002 then CloseCodeProtocol
      else if code = 1003 then CloseCodeUnsupported
      else if code = 1005 then CloseCodeStatus
      else if code = 1006 then CloseCodeAbnormal
      else if code = 1007 then CloseCodeInvalid
      else if code = 1008 then CloseCodePolicy
      else if code = 1009 then CloseCodeSize
      else if code = 1010 then CloseCodeExtension
      else if code = 1011 then CloseCodeError
      else if code = 1012 then CloseCodeRestart
      else if code = 1013 then CloseCodeAgain
      else if code = 1015 then CloseCodeTls
      else if 1 \<le> code \<and> code \<le> 999 then CloseCodeBad code
      else if 1016 \<le> code \<and> code \<le> 2999 then CloseCodeReserved code
      else if 3000 \<le> code \<and> code \<le> 3999 then CloseCodeIana code
      else if 4000 \<le> code \<and> code \<le> 4999 then CloseCodeLibrary code
      else CloseCodeBad code)"

definition close_fmt :: "CloseCode \<Rightarrow> string" where
  "close_fmt c = int_to_string (int (unat (close_to_u16 c)))"

record CloseFrame =
  cf_code :: CloseCode
  cf_reason :: string

definition frame_fmt :: "CloseFrame \<Rightarrow> string" where
  "frame_fmt f = cf_reason f @ '' ('' @ close_fmt (cf_code f) @ '')''"

datatype WsMsg =
    MsgText string
  | MsgBinary bytes
  | MsgClose "CloseFrame option"
  | MsgPing bytes
  | MsgPong bytes

fun msg_is_text :: "WsMsg \<Rightarrow> bool" where "msg_is_text (MsgText s) = True" | "msg_is_text m = False"
fun msg_is_binary :: "WsMsg \<Rightarrow> bool" where "msg_is_binary (MsgBinary b) = True" | "msg_is_binary m = False"
fun msg_is_ping :: "WsMsg \<Rightarrow> bool" where "msg_is_ping (MsgPing b) = True" | "msg_is_ping m = False"
fun msg_is_pong :: "WsMsg \<Rightarrow> bool" where "msg_is_pong (MsgPong b) = True" | "msg_is_pong m = False"
fun msg_is_close :: "WsMsg \<Rightarrow> bool" where "msg_is_close (MsgClose c) = True" | "msg_is_close m = False"

fun msg_len :: "WsMsg \<Rightarrow> nat" where
  "msg_len (MsgText s) = length s"
| "msg_len (MsgBinary data) = length data"
| "msg_len (MsgClose c) = (case c of Some d \<Rightarrow> length (cf_reason d) | None \<Rightarrow> 0)"
| "msg_len (MsgPing data) = length data"
| "msg_len (MsgPong data) = length data"

definition msg_is_empty :: "WsMsg \<Rightarrow> bool" where "msg_is_empty m \<longleftrightarrow> msg_len m = 0"

fun msg_into_data :: "WsMsg \<Rightarrow> bytes" where
  "msg_into_data (MsgText s) = string_bytes s"
| "msg_into_data (MsgBinary data) = data"
| "msg_into_data (MsgClose None) = []"
| "msg_into_data (MsgClose (Some frame)) = string_bytes (cf_reason frame)"
| "msg_into_data (MsgPing data) = data"
| "msg_into_data (MsgPong data) = data"

section \<open>Errors\<close>

datatype CapacityError = TooManyHeaders | MessageTooLong nat nat

datatype ProtocolErr =
    WrongHttpMethod | WrongHttpVersion | MissingConnectionUpgradeHeader | MissingUpgradeWebSocketHeader
  | MissingSecWebSocketVersionHeader | MissingSecWebSocketKey | SecWebSocketAcceptKeyMismatch | JunkAfterRequest
  | CustomResponseSuccessful | InvalidHeader string | HandshakeIncomplete | HttparseError string | SendAfterClosing
  | ReceivedAfterClosing | NonZeroReservedBits | UnmaskedFrameFromClient | MaskedFrameFromServer | FragmentedControlFrame
  | ControlFrameTooBig | UnknownControlFrameType u8 | UnknownDataFrameType u8 | UnexpectedContinueFrame
  | ExpectedFragment string | ResetWithoutClosingHandshake | InvalidOpcode u8 | InvalidCloseSequence

datatype UrlError =
  TlsFeatureNotEnabled | NoHostName | UnableToConnect string | UnsupportedUrlScheme | EmptyHostName | NoPathOrQuery

text \<open>The texts of the errors of other crates are arguments of their constructors; a response is its status.\<close>

datatype WsLibError =
    ConnectionClosed
  | AlreadyClosed
  | WsIo string
  | WsTls string
  | WsCapacity CapacityError
  | WsProtocol ProtocolErr
  | WriteBufferFull WsMsg
  | WsUtf8
  | AttackAttempt
  | WsUrl UrlError
  | WsHttp nat
  | WsHttpFormat string
  | BlobFormatUnsupported
  | UnknownFormat

fun capacity_fmt :: "CapacityError \<Rightarrow> string" where
  "capacity_fmt TooManyHeaders = ''Too many headers''"
| "capacity_fmt (MessageTooLong sz max_size) =
     ''Message too long: '' @ int_to_string (int sz) @ '' > '' @ int_to_string (int max_size)"

fun protocol_fmt :: "ProtocolErr \<Rightarrow> string" where
  "protocol_fmt WrongHttpMethod = ''Unsupported HTTP method used - only GET is allowed''"
| "protocol_fmt WrongHttpVersion = ''HTTP version must be 1.1 or higher''"
| "protocol_fmt MissingConnectionUpgradeHeader = ''No \"Connection: upgrade\" header''"
| "protocol_fmt MissingUpgradeWebSocketHeader = ''No \"Upgrade: websocket\" header''"
| "protocol_fmt MissingSecWebSocketVersionHeader = ''No \"Sec-WebSocket-Version: 13\" header''"
| "protocol_fmt MissingSecWebSocketKey = ''No \"Sec-WebSocket-Key\" header''"
| "protocol_fmt SecWebSocketAcceptKeyMismatch = ''Key mismatch in \"Sec-WebSocket-Accept\" header''"
| "protocol_fmt JunkAfterRequest = ''Junk after client request''"
| "protocol_fmt CustomResponseSuccessful = ''Custom response must not be successful''"
| "protocol_fmt (InvalidHeader h) = ''Not allowed to pass overwrite the standard header '' @ h"
| "protocol_fmt HandshakeIncomplete = ''Handshake not finished''"
| "protocol_fmt (HttparseError e) = ''httparse error: '' @ e"
| "protocol_fmt SendAfterClosing = ''Sending after closing is not allowed''"
| "protocol_fmt ReceivedAfterClosing = ''Remote sent after having closed''"
| "protocol_fmt NonZeroReservedBits = ''Reserved bits are non-zero''"
| "protocol_fmt UnmaskedFrameFromClient = ''Received an unmasked frame from client''"
| "protocol_fmt MaskedFrameFromServer = ''Received a masked frame from server''"
| "protocol_fmt FragmentedControlFrame = ''Fragmented control frame''"
| "protocol_fmt ControlFrameTooBig = ''Control frame too big (payload must be 125 bytes or less)''"
| "protocol_fmt (UnknownControlFrameType x) = ''Unknown control frame type: '' @ int_to_string (int (unat x))"
| "protocol_fmt (UnknownDataFrameType x) = ''Unknown data frame type: '' @ int_to_string (int (unat x))"
| "protocol_fmt UnexpectedContinueFrame = ''Continue frame but nothing to continue''"
| "protocol_fmt (ExpectedFragment d) = ''While waiting for more fragments received: '' @ d"
| "protocol_fmt ResetWithoutClosingHandshake = ''Connection reset without closing handshake''"
| "protocol_fmt (InvalidOpcode x) = ''Encountered invalid opcode: '' @ int_to_string (int (unat x))"
| "protocol_fmt InvalidCloseSequence = ''Invalid close sequence''"

fun url_fmt :: "UrlError \<Rightarrow> string" where
  "url_fmt TlsFeatureNotEnabled = ''TLS support not compiled in''"
| "url_fmt NoHostName = ''No host name in the URL''"
| "url_fmt (UnableToConnect u) = ''Unable to connect to '' @ u"
| "url_fmt UnsupportedUrlScheme = ''URL scheme not supported''"
| "url_fmt EmptyHostName = ''URL contains empty host name''"
| "url_fmt NoPathOrQuery = ''No path/query in URL''"

text \<open>\<open>show_status\<close> is how the \<open>http\<close> crate prints a status.\<close>

fun ws_lib_fmt :: "(nat \<Rightarrow> string) \<Rightarrow> WsLibError \<Rightarrow> string" where
  "ws_lib_fmt show_status ConnectionClosed = ''Connection closed normally''"
| "ws_lib_fmt show_status AlreadyClosed = ''Trying to work with closed connection''"
| "ws_lib_fmt show_status (WsIo e) = ''IO error: '' @ e"
| "ws_lib_fmt show_status (WsTls e) = ''TLS error: '' @ e"
| "ws_lib_fmt show_status (WsCapacity e) = ''Space limit exceeded: '' @ capacity_fmt e"
| "ws_lib_fmt show_status (WsProtocol e) = ''WebSocket protocol error: '' @ protocol_fmt e"
| "ws_lib_fmt show_status (WriteBufferFull m) = ''Write buffer is full''"
| "ws_lib_fmt show_status WsUtf8 = ''UTF-8 encoding error''"
| "ws_lib_fmt show_status AttackAttempt = ''Attack attempt detected''"
| "ws_lib_fmt show_status (WsUrl e) = ''URL error: '' @ url_fmt e"
| "ws_lib_fmt show_status (WsHttp status) = ''HTTP error: '' @ show_status status"
| "ws_lib_fmt show_status (WsHttpFormat e) = ''HTTP format error: '' @ e"
| "ws_lib_fmt show_status BlobFormatUnsupported = ''Parsing blobs is unsupported''"
| "ws_lib_fmt show_status UnknownFormat = ''Unknown data format encountered''"

text \<open>Texts of messages; binary data has to be UTF-8.\<close>

definition from_utf8 :: "bytes \<Rightarrow> WsLibError + string" where
  "from_utf8 b = (if valid_utf8 b then Ok (bytes_string b) else Err WsUtf8)"

fun msg_into_text :: "WsMsg \<Rightarrow> WsLibError + string" where
  "msg_into_text (MsgText s) = Ok s"
| "msg_into_text (MsgBinary data) = from_utf8 data"
| "msg_into_text (MsgClose None) = Ok []"
| "msg_into_text (MsgClose (Some frame)) = Ok (cf_reason frame)"
| "msg_into_text (MsgPing data) = from_utf8 data"
| "msg_into_text (MsgPong data) = from_utf8 data"

definition msg_to_text :: "WsMsg \<Rightarrow> WsLibError + string" where
  "msg_to_text m =
     (case m of
        MsgText s \<Rightarrow> Ok s
      | MsgBinary data \<Rightarrow> from_utf8 data
      | MsgClose None \<Rightarrow> Ok []
      | MsgClose (Some frame) \<Rightarrow> Ok (cf_reason frame)
      | MsgPing data \<Rightarrow> from_utf8 data
      | MsgPong data \<Rightarrow> from_utf8 data)"

definition msg_fmt :: "WsMsg \<Rightarrow> string" where
  "msg_fmt m =
     (case msg_to_text m of
        Inr s \<Rightarrow> s
      | Inl e \<Rightarrow> ''Binary Data<length='' @ int_to_string (int (msg_len m)) @ ''>'')"

text \<open>Errors of the client; \<open>Error\<close> becomes one of them by what it says of the connection.\<close>

datatype WSError =
    TungsteniteError WsLibError
  | LostConnection string
  | WSClose string
  | AuthError string
  | WSHttpError string
  | WSInternal string

definition should_stop :: "WSError \<Rightarrow> bool" where
  "should_stop e = (case e of LostConnection _ \<Rightarrow> True | WSClose _ \<Rightarrow> True | _ \<Rightarrow> False)"

definition ws_error_from :: "(nat \<Rightarrow> string) \<Rightarrow> WsLibError \<Rightarrow> WSError" where
  "ws_error_from show_status value =
     (case value of
        ConnectionClosed \<Rightarrow> LostConnection (ws_lib_fmt show_status value)
      | AlreadyClosed \<Rightarrow> WSClose (ws_lib_fmt show_status value)
      | WsProtocol SendAfterClosing \<Rightarrow> WSClose (ws_lib_fmt show_status value)
      | WsHttp status \<Rightarrow>
          (if status = 401 \<or> status = 404 then AuthError ''Unauthorized websocket connection'' else TungsteniteError value)
      | _ \<Rightarrow> TungsteniteError value)"

section \<open>The socket underneath\<close>

text \<open>
  The messages of \<open>tokio_tungstenite\<close>, with its close codes as the numbers they convert to and from.  Converting one
  of them back panics (\<open>None\<close>) for what cannot be sent through the interface.
\<close>

datatype tung_message =
    TungText string
  | TungBinary bytes
  | TungPing bytes
  | TungPong bytes
  | TungClose "(u16 \<times> string) option"
  | TungFrame

definition frame_from_tung :: "u16 \<times> string \<Rightarrow> CloseFrame" where
  "frame_from_tung f = \<lparr>cf_code = close_from_u16 (fst f), cf_reason = snd f\<rparr>"

definition frame_to_tung :: "CloseFrame \<Rightarrow> u16 \<times> string" where
  "frame_to_tung f = (close_to_u16 (cf_code f), cf_reason f)"

fun to_fut_message :: "(WsLibError + tung_message) \<Rightarrow> (WsLibError + WsMsg) option" where
  "to_fut_message (Inr (TungText inner)) = Some (Ok (MsgText inner))"
| "to_fut_message (Inr (TungBinary inner)) = Some (Ok (MsgBinary inner))"
| "to_fut_message (Inr (TungClose inner)) = Some (Ok (MsgClose (map_option frame_from_tung inner)))"
| "to_fut_message (Inr (TungPong inner)) = Some (Ok (MsgPong inner))"
| "to_fut_message (Inr (TungPing inner)) = Some (Ok (MsgPing inner))"
| "to_fut_message (Inr TungFrame) = None"
| "to_fut_message (Inl err) = Some (Err err)"

fun msg_from_tung :: "tung_message \<Rightarrow> WsMsg option" where
  "msg_from_tung (TungText inner) = Some (MsgText inner)"
| "msg_from_tung (TungBinary inner) = Some (MsgBinary inner)"
| "msg_from_tung (TungClose inner) = Some (MsgClose (map_option frame_from_tung inner))"
| "msg_from_tung m = None"

fun msg_to_tung :: "WsMsg \<Rightarrow> tung_message" where
  "msg_to_tung (MsgText inner) = TungText inner"
| "msg_to_tung (MsgBinary inner) = TungBinary inner"
| "msg_to_tung (MsgClose inner) = TungClose (map_option frame_to_tung inner)"
| "msg_to_tung (MsgPing data) = TungPing data"
| "msg_to_tung (MsgPong data) = TungPong data"

section \<open>Properties\<close>

lemma close_u16_roundtrip [simp]: "close_to_u16 (close_from_u16 code) = code"
  by (simp add: close_from_u16_def)

text \<open>The code a frame is read back with: the one its number stands for.\<close>

definition canonical_frame :: "CloseFrame \<Rightarrow> CloseFrame" where
  "canonical_frame f = f\<lparr>cf_code := close_from_u16 (close_to_u16 (cf_code f))\<rparr>"

lemma frame_tung_roundtrip [simp]:
  "frame_from_tung (frame_to_tung f) = canonical_frame f" "frame_to_tung (frame_from_tung t) = t"
  by (simp_all add: frame_from_tung_def frame_to_tung_def canonical_frame_def)

text \<open>
  A message sent through the socket is received as it was sent, but for a close code that is not the one of its
  number: its number is kept and the code becomes the one the number stands for.
\<close>

theorem ws_message_roundtrip:
  "to_fut_message (Ok (msg_to_tung m)) =
     Some (Ok (case m of MsgClose (Some f) \<Rightarrow> MsgClose (Some (canonical_frame f)) | _ \<Rightarrow> m)) \<and>
   close_to_u16 (close_from_u16 code) = code \<and> close_from_u16 (close_to_u16 (close_from_u16 code)) = close_from_u16 code"
  by (cases m) (auto split: option.split)

text \<open>
  A connection the server turns down as unauthorized or not found is an authentication error, and of the errors
  that end the sending only those of a closed connection stop it: every other error keeps its text.
\<close>

theorem ws_error_classes:
  "(should_stop (ws_error_from show_status e) \<longleftrightarrow> e \<in> {ConnectionClosed, AlreadyClosed, WsProtocol SendAfterClosing}) \<and>
   ((\<exists>t. ws_error_from show_status e = AuthError t) \<longleftrightarrow> e = WsHttp 401 \<or> e = WsHttp 404)"
  by (cases e) (auto simp: ws_error_from_def should_stop_def split: ProtocolErr.split)

end
