(* ===== verification/Ws_Client.thy ===== *)
theory Ws_Client
  imports Ws_Message Realtime_Message Connect_State
begin

text \<open>
  The client's end of the websocket (\<open>lib/client-api/src/ws\<close>: \<open>client.rs\<close>, \<open>handler.rs\<close>;
  \<open>lib/client-api/src/native\<close>: \<open>ping.rs\<close>, \<open>retry.rs\<close>): connecting with retries, the tasks of a connection that
  send, receive and ping, the channels of the documents, and the state the application watches.

  A connection has a number, and its tasks carry it.  One iteration of a task is one step; a task may take it
  whenever what it waits for is there, so the steps are a relation.  A sender of a \<open>oneshot\<close> or of a ping's stop
  channel that is used or dropped ends the task that waits on it, which may take other steps before it looks.
\<close>

section \<open>Ping\<close>

text \<open>\<open>pg_pongs\<close> are the pongs the receiving task has put into the channel (of capacity one), \<open>pg_stop\<close> says that the
  task is told to stop.\<close>

record ServerFixIntervalPing =
  pg_count :: u32
  pg_maximum :: u32
  pg_pongs :: nat
  pg_stop :: bool
  pg_running :: bool

definition ServerFixIntervalPing_new :: "u32 \<Rightarrow> ServerFixIntervalPing" where
  "ServerFixIntervalPing_new maximum =
     \<lparr>pg_count = 0, pg_maximum = maximum, pg_pongs = 0, pg_stop = False, pg_running = True\<rparr>"

text \<open>A tick; \<open>sent\<close> tells whether somebody still takes the client's messages.\<close>

definition ping_tick :: "bool \<Rightarrow> ServerFixIntervalPing \<Rightarrow> ConnectStateNotify \<Rightarrow> ServerFixIntervalPing \<times> ConnectStateNotify" where
  "ping_tick sent p n =
     (if \<not> sent then (p\<lparr>pg_running := False\<rparr>, set_state PingTimeout n)
      else if pg_maximum p \<le> pg_count p then (p, set_state PingTimeout n)
      else (p\<lparr>pg_count := pg_count p + 1\<rparr>, n))"

definition ping_pong :: "ServerFixIntervalPing \<Rightarrow> ConnectStateNotify \<Rightarrow> ServerFixIntervalPing \<times> ConnectStateNotify" where
  "ping_pong p n = (p\<lparr>pg_count := 0, pg_pongs := pg_pongs p - 1\<rparr>, set_state Connected n)"

section \<open>Channels of documents\<close>

text \<open>
  A channel as the client holds it, weakly: \<open>ch_alive\<close> says whether the document still has it, \<open>ch_streams\<close> are the
  streams it gave out with what they have received.
\<close>

record 'o WebSocketChannel =
  ch_object_id :: string
  ch_alive :: bool
  ch_streams :: "'o ServerCollabMessage list list"

definition WebSocketChannel_new :: "string \<Rightarrow> 'o WebSocketChannel" where
  "WebSocketChannel_new oid = \<lparr>ch_object_id = oid, ch_alive = True, ch_streams = []\<rparr>"

definition channel_stream :: "'o WebSocketChannel \<Rightarrow> 'o WebSocketChannel" where
  "channel_stream ch = ch\<lparr>ch_streams := ch_streams ch @ [[]]\<rparr>"

definition forward_to_stream :: "'o ServerCollabMessage \<Rightarrow> 'o WebSocketChannel \<Rightarrow> 'o WebSocketChannel" where
  "forward_to_stream msg ch = ch\<lparr>ch_streams := map (\<lambda>s. s @ [msg]) (ch_streams ch)\<rparr>"

type_synonym 'o channels = "(string \<times> 'o WebSocketChannel list) list"

definition subscribe_collab :: "string \<Rightarrow> 'o channels \<Rightarrow> 'o channels" where
  "subscribe_collab oid chs = entry_push (map_adjust chs oid (filter ch_alive)) oid (WebSocketChannel_new oid)"

definition deliver :: "'o ServerCollabMessage \<Rightarrow> 'o channels \<Rightarrow> 'o channels" where
  "deliver msg chs = map_adjust chs (server_object_id msg) (map (\<lambda>ch. if ch_alive ch then forward_to_stream msg ch else ch))"

definition handle_collab_messages :: "'o ServerCollabMessage list \<Rightarrow> 'o channels \<Rightarrow> 'o channels" where
  "handle_collab_messages msgs chs = foldl (\<lambda>m msg. deliver msg m) chs msgs"

section \<open>Sending\<close>

definition MAXIMUM_MESSAGE_SIZE :: nat where "MAXIMUM_MESSAGE_SIZE = 40960"
definition MAXIMUM_BATCH_MESSAGE_SIZE :: nat where "MAXIMUM_BATCH_MESSAGE_SIZE = 20480"

datatype sent_message = OverHttp string WsMsg | OverSocket WsMsg

text \<open>\<open>http\<close> tells whether the HTTP sender is still there, \<open>outcome\<close> is what the socket answers.\<close>

definition send_message ::
  "(nat \<Rightarrow> string) \<Rightarrow> bool \<Rightarrow> string \<Rightarrow> WsMsg \<Rightarrow> WsLibError + unit \<Rightarrow> (WSError + unit) \<times> sent_message list" where
  "send_message show_status http device_id msg outcome =
     (if msg_is_binary msg \<and> MAXIMUM_MESSAGE_SIZE < msg_len msg
      then (Ok (), if http then [OverHttp device_id msg] else [])
      else
        (case outcome of
           Inl err \<Rightarrow> (Err (ws_error_from show_status err), [])
         | Inr _ \<Rightarrow> (Ok (), [OverSocket msg])))"

definition handle_send_error :: "WSError \<Rightarrow> ConnectStateNotify \<Rightarrow> ConnectStateNotify" where
  "handle_send_error err n =
     (case err of LostConnection _ \<Rightarrow> set_state Lost n | AuthError _ \<Rightarrow> set_state Unauthorized n | _ \<Rightarrow> n)"

definition gen_rate_limiter :: "u32 \<Rightarrow> u32" where
  "gen_rate_limiter times_per_sec = (if times_per_sec = 0 then 1 else times_per_sec)"

section \<open>\<open>WSClient\<close>\<close>

record WSClientConfig =
  wf_buffer_capacity :: nat
  wf_ping_per_secs :: nat
  wf_retry_connect_per_pings :: u32

definition WSClientConfig_default :: WSClientConfig where
  "WSClientConfig_default = \<lparr>wf_buffer_capacity = 2000, wf_ping_per_secs = 6, wf_retry_connect_per_pings = 10\<rparr>"

record 'v ConnectInfo =
  ci_access_token :: string
  ci_client_version :: 'v
  ci_device_id :: string

text \<open>
  \<open>wc_next\<close> numbers the connections; \<open>wc_stop_tx\<close> is the one whose sending task the client can still stop, \<open>wc_stops\<close>
  those it told to; \<open>wc_pending\<close> are the calls of \<open>connect\<close> under way; \<open>wc_sends\<close> and \<open>wc_recvs\<close> the running tasks,
  \<open>wc_pings\<close> all pings, \<open>wc_ping\<close> the one the client holds; \<open>wc_out\<close> is what was sent.
\<close>

record ('o, 't, 'v) WSClient =
  wc_config :: WSClientConfig
  wc_info :: "'v ConnectInfo option"
  wc_notify :: ConnectStateNotify
  wc_users :: "UserMessage list"
  wc_channels :: "'o channels"
  wc_rate :: u32
  wc_queue :: "('o, 't) AggregateMessageQueue"
  wc_skip :: bool
  wc_next :: nat
  wc_stop_tx :: "nat option"
  wc_stops :: "nat set"
  wc_pending :: "(nat \<times> 'v ConnectInfo) list"
  wc_sends :: "(nat \<times> string) list"
  wc_recvs :: "nat set"
  wc_pings :: "(nat \<times> ServerFixIntervalPing) list"
  wc_ping :: "nat option"
  wc_out :: "sent_message list"

definition WSClient_new :: "WSClientConfig \<Rightarrow> ('o, 't, 'v) WSClient" where
  "WSClient_new config =
     \<lparr>wc_config = config, wc_info = None, wc_notify = ConnectStateNotify_new, wc_users = [], wc_channels = [],
      wc_rate = gen_rate_limiter 20, wc_queue = AggregateMessageQueue_new MAXIMUM_BATCH_MESSAGE_SIZE, wc_skip = False,
      wc_next = 0, wc_stop_tx = None, wc_stops = {}, wc_pending = [], wc_sends = [], wc_recvs = {}, wc_pings = [],
      wc_ping = None, wc_out = []\<rparr>"

abbreviation wc_state :: "('o, 't, 'v) WSClient \<Rightarrow> ConnectState" where "wc_state c \<equiv> csn_state (wc_notify c)"

definition set_client_state :: "ConnectState \<Rightarrow> ('o, 't, 'v) WSClient \<Rightarrow> ('o, 't, 'v) WSClient" where
  "set_client_state s c = c\<lparr>wc_notify := set_state s (wc_notify c)\<rparr>"

definition stop_ping :: "nat option \<Rightarrow> ('o, 't, 'v) WSClient \<Rightarrow> ('o, 't, 'v) WSClient" where
  "stop_ping old c =
     (case old of Some i \<Rightarrow> c\<lparr>wc_pings := map_adjust (wc_pings c) i (pg_stop_update (\<lambda>_. True))\<rparr> | None \<Rightarrow> c)"

definition clean :: "('o, 't, 'v) WSClient \<Rightarrow> ('o, 't, 'v) WSClient" where
  "clean c =
     (let c1 = (case wc_stop_tx c of Some i \<Rightarrow> c\<lparr>wc_stop_tx := None, wc_stops := insert i (wc_stops c)\<rparr> | None \<Rightarrow> c);
          c2 = stop_ping (wc_ping c1) c1
      in c2\<lparr>wc_queue := amq_clear (wc_queue c2)\<rparr>)"

text \<open>\<open>connect\<close> up to the first try.\<close>

definition connect_begin :: "'v ConnectInfo \<Rightarrow> ('o, 't, 'v) WSClient \<Rightarrow> ('o, 't, 'v) WSClient" where
  "connect_begin info c =
     (if cs_is_connecting (wc_state c) then c
      else
        (let c1 = set_client_state Connecting (clean c)
         in c1\<lparr>wc_stop_tx := Some (wc_next c1), wc_info := Some info, wc_pending := (wc_next c1, info) # wc_pending c1,
               wc_next := wc_next c1 + 1\<rparr>))"

text \<open>\<open>should_retry\<close> after a failed try; \<open>locked\<close> tells whether it takes the lock of the client's info.\<close>

definition should_retry :: "bool \<Rightarrow> WSError \<Rightarrow> 'v ConnectInfo \<Rightarrow> ('o, 't, 'v) WSClient \<Rightarrow> bool \<times> ('o, 't, 'v) WSClient" where
  "should_retry locked err info c =
     (case err of
        AuthError _ \<Rightarrow> (False, set_client_state Unauthorized c)
      | _ \<Rightarrow> (locked \<and> wc_info c = Some info, c))"

definition connect_failed ::
  "bool \<Rightarrow> WSError \<Rightarrow> nat \<Rightarrow> 'v ConnectInfo \<Rightarrow> ('o, 't, 'v) WSClient \<Rightarrow> ('o, 't, 'v) WSClient" where
  "connect_failed locked err i info c =
     (case should_retry locked err info c of
        (True, c1) \<Rightarrow> c1
      | (False, c1) \<Rightarrow>
          set_client_state (case err of AuthError _ \<Rightarrow> Unauthorized | _ \<Rightarrow> Lost) (c1\<lparr>wc_pending := map_remove (wc_pending c1) i\<rparr>))"

definition start_ping :: "nat \<Rightarrow> ('o, 't, 'v) WSClient \<Rightarrow> ('o, 't, 'v) WSClient" where
  "start_ping i c =
     (let c1 = stop_ping (wc_ping c) c
      in c1\<lparr>wc_pings := (i, ServerFixIntervalPing_new (wf_retry_connect_per_pings (wc_config c1))) # wc_pings c1, wc_ping := Some i\<rparr>)"

text \<open>The rest of \<open>connect\<close> once a try succeeds.\<close>

definition connect_succeeded :: "nat \<Rightarrow> 'v ConnectInfo \<Rightarrow> ('o, 't, 'v) WSClient \<Rightarrow> ('o, 't, 'v) WSClient" where
  "connect_succeeded i info c =
     (let c1 = start_ping i (set_client_state Connected (c\<lparr>wc_pending := map_remove (wc_pending c) i\<rparr>))
      in c1\<lparr>wc_recvs := insert i (wc_recvs c1), wc_sends := (i, ci_device_id info) # wc_sends c1\<rparr>)"

definition disconnect :: "('o, 't, 'v) WSClient \<Rightarrow> ('o, 't, 'v) WSClient" where
  "disconnect c = set_client_state Lost ((clean c)\<lparr>wc_info := None\<rparr>)"

text \<open>One message of the sending task.\<close>

definition send_step ::
  "(nat \<Rightarrow> string) \<Rightarrow> bool \<Rightarrow> nat \<Rightarrow> string \<Rightarrow> WsMsg \<Rightarrow> WsLibError + unit \<Rightarrow> ('o, 't, 'v) WSClient \<Rightarrow> ('o, 't, 'v) WSClient" where
  "send_step show_status http i device_id msg outcome c =
     (case send_message show_status http device_id msg outcome of
        (Inr _, out) \<Rightarrow> c\<lparr>wc_out := wc_out c @ out\<rparr>
      | (Inl err, out) \<Rightarrow>
          (if should_stop err then c\<lparr>wc_sends := map_remove (wc_sends c) i\<rparr>
           else c\<lparr>wc_notify := handle_send_error err (wc_notify c)\<rparr>))"

text \<open>One message of the receiving task; the result says whether the loop goes on.\<close>

definition pong_received :: "nat \<Rightarrow> ('o, 't, 'v) WSClient \<Rightarrow> bool \<times> ('o, 't, 'v) WSClient" where
  "pong_received i c =
     (case map_of (wc_pings c) i of
        Some p \<Rightarrow>
          (if pg_running p then (True, c\<lparr>wc_pings := map_adjust (wc_pings c) i (pg_pongs_update Suc)\<rparr>) else (False, c))
      | None \<Rightarrow> (False, c))"

definition recv_realtime :: "('o, 't) RealtimeMessage \<Rightarrow> ('o, 't, 'v) WSClient \<Rightarrow> bool \<times> ('o, 't, 'v) WSClient" where
  "recv_realtime msg c =
     (case msg of
        RM_Collab collab_msg \<Rightarrow>
          (True, (case server_try_from collab_msg of
                    Inr m \<Rightarrow> c\<lparr>wc_channels := handle_collab_messages [m] (wc_channels c)\<rparr>
                  | Inl err \<Rightarrow> c))
      | RM_User user_message \<Rightarrow> (True, c\<lparr>wc_users := wc_users c @ [user_message]\<rparr>)
      | RM_System (RateLimit limit) \<Rightarrow> (True, c\<lparr>wc_rate := gen_rate_limiter limit\<rparr>)
      | RM_System KickOff \<Rightarrow> (False, c)
      | RM_System DuplicateConnection \<Rightarrow> (False, c)
      | RM_ServerCollabV1 msgs \<Rightarrow> (True, c\<lparr>wc_channels := handle_collab_messages msgs (wc_channels c)\<rparr>)
      | RM_ClientCollabV1 _ \<Rightarrow> (True, c)
      | RM_ClientCollabV2 _ \<Rightarrow> (True, c))"

definition recv_message :: "('o, 't) rt_codec \<Rightarrow> nat \<Rightarrow> WsMsg \<Rightarrow> ('o, 't, 'v) WSClient \<Rightarrow> bool \<times> ('o, 't, 'v) WSClient" where
  "recv_message R i msg c =
     (case msg of
        MsgBinary data \<Rightarrow>
          (if wc_skip c then (True, c)
           else (case rt_decode R data of Inr m \<Rightarrow> recv_realtime m c | Inl err \<Rightarrow> (True, c)))
      | MsgPing _ \<Rightarrow> (wc_sends c \<noteq> [], c)
      | MsgClose _ \<Rightarrow> (False, c)
      | MsgPong _ \<Rightarrow> pong_received i c
      | MsgText _ \<Rightarrow> (True, c))"

definition recv_step :: "('o, 't) rt_codec \<Rightarrow> nat \<Rightarrow> (WsLibError + WsMsg) option \<Rightarrow> ('o, 't, 'v) WSClient \<Rightarrow> ('o, 't, 'v) WSClient" where
  "recv_step R i item c =
     (case (case item of Some (Inr msg) \<Rightarrow> recv_message R i msg c | _ \<Rightarrow> (False, c)) of
        (True, c1) \<Rightarrow> c1
      | (False, c1) \<Rightarrow> c1\<lparr>wc_recvs := wc_recvs c1 - {i}\<rparr>)"

text \<open>A pong waits until the pinging task has taken the one before.\<close>

definition pong_blocked :: "nat \<Rightarrow> (WsLibError + WsMsg) option \<Rightarrow> ('o, 't, 'v) WSClient \<Rightarrow> bool" where
  "pong_blocked i item c \<longleftrightarrow>
     (case (item, map_of (wc_pings c) i) of
        (Some (Inr (MsgPong _)), Some p) \<Rightarrow> pg_running p \<and> 0 < pg_pongs p
      | _ \<Rightarrow> False)"

text \<open>A tick and a pong of the pinging task.\<close>

definition on_ping ::
  "nat \<Rightarrow> (ServerFixIntervalPing \<Rightarrow> ConnectStateNotify \<Rightarrow> ServerFixIntervalPing \<times> ConnectStateNotify) \<Rightarrow> ('o, 't, 'v) WSClient \<Rightarrow>
     ('o, 't, 'v) WSClient" where
  "on_ping i f c =
     (case map_of (wc_pings c) i of
        Some p \<Rightarrow> (case f p (wc_notify c) of (p1, n1) \<Rightarrow> c\<lparr>wc_pings := map_adjust (wc_pings c) i (\<lambda>_. p1), wc_notify := n1\<rparr>)
      | None \<Rightarrow> c)"

definition ping_ticks :: "nat \<Rightarrow> ('o, 't, 'v) WSClient \<Rightarrow> ('o, 't, 'v) WSClient" where
  "ping_ticks i c = on_ping i (ping_tick (wc_sends c \<noteq> [])) c"

section \<open>Steps\<close>

inductive ws_step :: "(nat \<Rightarrow> string) \<Rightarrow> ('o, 't) rt_codec \<Rightarrow> ('o, 't, 'v) WSClient \<Rightarrow> ('o, 't, 'v) WSClient \<Rightarrow> bool"
  for S :: "nat \<Rightarrow> string" and R :: "('o, 't) rt_codec" where
  StepConnect: "ws_step S R c (connect_begin info c)"
| StepFail: "map_of (wc_pending c) i = Some info \<Longrightarrow> ws_step S R c (connect_failed locked err i info c)"
| StepSucceed: "map_of (wc_pending c) i = Some info \<Longrightarrow> ws_step S R c (connect_succeeded i info c)"
| StepDisconnect: "ws_step S R c (disconnect c)"
| StepSubscribe: "ws_step S R c (c\<lparr>wc_channels := subscribe_collab oid (wc_channels c)\<rparr>)"
| StepQueue: "ws_step S R c (c\<lparr>wc_queue := amq_push msgs (wc_queue c)\<rparr>)"
| StepSkip: "ws_step S R c (c\<lparr>wc_skip := b\<rparr>)"
| StepSend: "map_of (wc_sends c) i = Some device_id \<Longrightarrow> ws_step S R c (send_step S http i device_id msg outcome c)"
| StepSendStop: "i \<in> wc_stops c \<Longrightarrow> ws_step S R c (c\<lparr>wc_sends := map_remove (wc_sends c) i\<rparr>)"
| StepRecv: "i \<in> wc_recvs c \<Longrightarrow> \<not> pong_blocked i item c \<Longrightarrow> ws_step S R c (recv_step R i item c)"
| StepTick: "map_of (wc_pings c) i = Some p \<Longrightarrow> pg_running p \<Longrightarrow> ws_step S R c (ping_ticks i c)"
| StepPong: "map_of (wc_pings c) i = Some p \<Longrightarrow> pg_running p \<Longrightarrow> 0 < pg_pongs p \<Longrightarrow> ws_step S R c (on_ping i ping_pong c)"
| StepPingStop: "map_of (wc_pings c) i = Some p \<Longrightarrow> pg_running p \<Longrightarrow> pg_stop p \<Longrightarrow>
    ws_step S R c (on_ping i (\<lambda>p n. (p\<lparr>pg_running := False\<rparr>, n)) c)"

inductive ws_reachable :: "(nat \<Rightarrow> string) \<Rightarrow> ('o, 't) rt_codec \<Rightarrow> WSClientConfig \<Rightarrow> ('o, 't, 'v) WSClient \<Rightarrow> bool"
  for S :: "nat \<Rightarrow> string" and R :: "('o, 't) rt_codec" and config :: WSClientConfig where
  ReachNew: "ws_reachable S R config (WSClient_new config)"
| ReachStep: "ws_reachable S R config c \<Longrightarrow> ws_step S R c c' \<Longrightarrow> ws_reachable S R config c'"

end
