(* ===== verification/Ws_Props.thy ===== *)
theory Ws_Props
  imports Ws_Client
begin

text \<open>
  What holds of the client's websocket: an invariant of its tasks, what is noticed of a connection that ends and
  when, and what reaches the channels of the documents.
\<close>

section \<open>The invariant\<close>

text \<open>The connections below \<open>n\<close> that send or will send are told to stop, but for the one the client can stop.\<close>

definition tasks_ok :: "nat set \<Rightarrow> nat set \<Rightarrow> nat option \<Rightarrow> nat \<Rightarrow> bool" where
  "tasks_ok live stops tx n \<longleftrightarrow> (\<forall>i \<in> live. i < n \<and> (i \<in> stops \<or> tx = Some i))"

definition ping_ok :: "u32 \<Rightarrow> ServerFixIntervalPing \<Rightarrow> bool" where
  "ping_ok m p \<longleftrightarrow> pg_maximum p = m \<and> pg_count p \<le> m \<and> pg_pongs p \<le> 1"

definition pings_ok :: "u32 \<Rightarrow> nat option \<Rightarrow> nat \<Rightarrow> (nat \<times> ServerFixIntervalPing) list \<Rightarrow> bool" where
  "pings_ok m cur n ps \<longleftrightarrow> distinct (map fst ps) \<and>
     (\<forall>(i, p) \<in> set ps. i < n \<and> ping_ok m p \<and> (pg_stop p \<or> cur = Some i))"

definition pending_ok :: "(nat \<times> 'v) list \<Rightarrow> (nat \<times> 'p) list \<Rightarrow> bool" where
  "pending_ok pend ps \<longleftrightarrow> distinct (map fst pend) \<and> fst ` set pend \<inter> fst ` set ps = {}"

definition live_ids :: "('o, 't, 'v) WSClient \<Rightarrow> nat set" where
  "live_ids c = fst ` set (wc_sends c) \<union> fst ` set (wc_pending c)"

definition ws_inv :: "('o, 't, 'v) WSClient \<Rightarrow> bool" where
  "ws_inv c \<longleftrightarrow> notify_ok (wc_notify c) \<and> tasks_ok (live_ids c) (wc_stops c) (wc_stop_tx c) (wc_next c) \<and>
     pings_ok (wf_retry_connect_per_pings (wc_config c)) (wc_ping c) (wc_next c) (wc_pings c) \<and>
     pending_ok (wc_pending c) (wc_pings c)"

lemma tasks_ok_subset: "tasks_ok live stops tx n \<Longrightarrow> live' \<subseteq> live \<Longrightarrow> tasks_ok live' stops tx n"
  by (auto simp: tasks_ok_def)

lemma tasks_ok_stop:
  "tasks_ok live stops tx n \<Longrightarrow> tasks_ok live (case tx of Some i \<Rightarrow> insert i stops | None \<Rightarrow> stops) tx' n"
  by (auto simp: tasks_ok_def split: option.splits)

lemma tasks_ok_new: "tasks_ok live stops None n \<Longrightarrow> tasks_ok (insert n live) stops (Some n) (Suc n)"
  by (auto simp: tasks_ok_def)

lemma map_adjust_set: "set (map_adjust m k f) = (\<lambda>(i, v). (i, if i = k then f v else v)) ` set m"
  by (auto simp: map_adjust_def case_prod_beta)

lemma pings_ok_adjust:
  assumes "pings_ok m cur n ps"
    and "\<And>p. map_of ps i = Some p \<Longrightarrow> ping_ok m p \<Longrightarrow> ping_ok m (f p) \<and> (pg_stop (f p) \<or> \<not> pg_stop p)"
  shows "pings_ok m cur n (map_adjust ps i f)"
  using assms unfolding pings_ok_def map_adjust_set by (fastforce dest: map_of_is_SomeI)

lemma pings_ok_stop:
  "pings_ok m cur n ps \<Longrightarrow>
   pings_ok m cur' n (case cur of Some i \<Rightarrow> map_adjust ps i (pg_stop_update (\<lambda>_. True)) | None \<Rightarrow> ps)"
  by (auto simp: pings_ok_def map_adjust_set ping_ok_def split: option.splits)

lemma pings_ok_new:
  "pings_ok m None n ps \<Longrightarrow> i < n \<Longrightarrow> i \<notin> fst ` set ps \<Longrightarrow> pings_ok m (Some i) n ((i, ServerFixIntervalPing_new m) # ps)"
  by (auto simp: pings_ok_def ping_ok_def ServerFixIntervalPing_new_def)

lemma pings_ok_later: "pings_ok m cur n ps \<Longrightarrow> pings_ok m cur (Suc n) ps"
  by (auto simp: pings_ok_def)

lemma pending_ok_remove: "pending_ok pend ps \<Longrightarrow> pending_ok (map_remove pend i) ps"
  by (auto simp: pending_ok_def map_remove_distinct)

lemma pending_ok_new: "pending_ok pend ps \<Longrightarrow> n \<notin> fst ` set pend \<Longrightarrow> n \<notin> fst ` set ps \<Longrightarrow> pending_ok ((n, info) # pend) ps"
  by (auto simp: pending_ok_def)

lemma pending_ok_keys: "map fst ps' = map fst ps \<Longrightarrow> pending_ok pend ps' = pending_ok pend ps"
  unfolding pending_ok_def by (metis list.set_map)

section \<open>Steps keep it\<close>

lemma set_client_state_simps [simp]:
  "wc_notify (set_client_state s c) = set_state s (wc_notify c)" "wc_pings (set_client_state s c) = wc_pings c"
  "wc_ping (set_client_state s c) = wc_ping c" "wc_config (set_client_state s c) = wc_config c"
  "wc_sends (set_client_state s c) = wc_sends c" "wc_pending (set_client_state s c) = wc_pending c"
  "wc_stops (set_client_state s c) = wc_stops c" "wc_stop_tx (set_client_state s c) = wc_stop_tx c"
  "wc_next (set_client_state s c) = wc_next c" "wc_info (set_client_state s c) = wc_info c"
  "wc_recvs (set_client_state s c) = wc_recvs c"
  by (simp_all add: set_client_state_def)

lemma stop_ping_simps [simp]:
  "wc_pings (stop_ping old c) = (case old of Some i \<Rightarrow> map_adjust (wc_pings c) i (pg_stop_update (\<lambda>_. True)) | None \<Rightarrow> wc_pings c)"
  "wc_notify (stop_ping old c) = wc_notify c" "wc_ping (stop_ping old c) = wc_ping c" "wc_config (stop_ping old c) = wc_config c"
  "wc_sends (stop_ping old c) = wc_sends c" "wc_pending (stop_ping old c) = wc_pending c" "wc_stops (stop_ping old c) = wc_stops c"
  "wc_stop_tx (stop_ping old c) = wc_stop_tx c" "wc_next (stop_ping old c) = wc_next c" "wc_recvs (stop_ping old c) = wc_recvs c"
  "wc_queue (stop_ping old c) = wc_queue c" "wc_info (stop_ping old c) = wc_info c"
  by (simp_all add: stop_ping_def split: option.split)

lemma clean_simps [simp]:
  "wc_notify (clean c) = wc_notify c" "wc_ping (clean c) = wc_ping c" "wc_config (clean c) = wc_config c"
  "wc_sends (clean c) = wc_sends c" "wc_pending (clean c) = wc_pending c" "wc_next (clean c) = wc_next c"
  "wc_stop_tx (clean c) = None" "wc_recvs (clean c) = wc_recvs c"
  "wc_stops (clean c) = (case wc_stop_tx c of Some i \<Rightarrow> insert i (wc_stops c) | None \<Rightarrow> wc_stops c)"
  "wc_pings (clean c) =
     (case wc_ping c of Some i \<Rightarrow> map_adjust (wc_pings c) i (pg_stop_update (\<lambda>_. True)) | None \<Rightarrow> wc_pings c)"
  by (simp_all add: clean_def Let_def split: option.split)

lemma map_fst_stop [simp]:
  "map fst (case old of Some i \<Rightarrow> map_adjust ps i f | None \<Rightarrow> ps) = map fst ps"
  by (simp split: option.split)

lemma fst_set_adjust [simp]: "fst ` set (map_adjust ps i f) = fst ` set ps"
  by (metis map_adjust_keys list.set_map)

lemma fst_set_stop [simp]:
  "fst ` set (case old of Some i \<Rightarrow> map_adjust ps i f | None \<Rightarrow> ps) = fst ` set ps"
  by (metis map_fst_stop list.set_map)

lemma pending_ok_adjust [simp]:
  "pending_ok pend (map_adjust ps i f) = pending_ok pend ps"
  "pending_ok pend (case old of Some i \<Rightarrow> map_adjust ps i f | None \<Rightarrow> ps) = pending_ok pend ps"
  by (rule pending_ok_keys, simp)+

lemma ws_inv_new: "ws_inv (WSClient_new config)"
  by (simp add: ws_inv_def WSClient_new_def live_ids_def notify_ok_def ConnectStateNotify_new_def tasks_ok_def pings_ok_def
      pending_ok_def)

lemma ws_inv_state [simp]: "ws_inv c \<Longrightarrow> ws_inv (set_client_state s c)"
  by (simp add: ws_inv_def live_ids_def)

lemma ws_inv_clean:
  assumes "ws_inv c"
  shows "ws_inv (clean c)"
  using assms tasks_ok_stop [of "live_ids c" "wc_stops c" "wc_stop_tx c" "wc_next c" None]
    pings_ok_stop [of _ "wc_ping c" "wc_next c" "wc_pings c" "wc_ping c"]
  by (simp add: ws_inv_def live_ids_def)

lemma new_id_fresh:
  assumes "ws_inv c"
  shows "wc_next c \<notin> live_ids c" "wc_next c \<notin> fst ` set (wc_pings c)"
  using assms by (auto simp: ws_inv_def tasks_ok_def pings_ok_def)

lemma ws_inv_connect:
  assumes "ws_inv c"
  shows "ws_inv (connect_begin info c)"
proof -
  have c: "ws_inv (clean c)" using assms by (rule ws_inv_clean)
  have "wc_next c \<notin> fst ` set (wc_pending c)" "wc_next c \<notin> fst ` set (wc_pings c)"
    using new_id_fresh [OF assms] by (auto simp: live_ids_def)
  with c show ?thesis
    using assms tasks_ok_new [of "live_ids c" "wc_stops (clean c)" "wc_next c"]
    by (auto simp: ws_inv_def connect_begin_def live_ids_def Let_def intro: pending_ok_new pings_ok_later)
qed

lemma ws_inv_drop_pending: "ws_inv c \<Longrightarrow> ws_inv (c\<lparr>wc_pending := map_remove (wc_pending c) i\<rparr>)"
  by (auto simp: ws_inv_def live_ids_def pending_ok_remove elim: tasks_ok_subset)

lemma ws_inv_drop_send: "ws_inv c \<Longrightarrow> ws_inv (c\<lparr>wc_sends := map_remove (wc_sends c) i\<rparr>)"
  by (auto simp: ws_inv_def live_ids_def elim: tasks_ok_subset)

lemma ws_inv_failed:
  assumes "ws_inv c"
  shows "ws_inv (connect_failed locked err i info c)"
proof -
  have "ws_inv (snd (should_retry locked err info c))" using assms by (simp add: should_retry_def split: WSError.split)
  then show ?thesis
    by (cases "should_retry locked err info c") (auto simp: connect_failed_def ws_inv_drop_pending split: bool.split)
qed

lemma ws_inv_succeeded:
  assumes "ws_inv c" and "map_of (wc_pending c) i = Some info"
  shows "ws_inv (connect_succeeded i info c)"
proof -
  have i: "i \<in> fst ` set (wc_pending c)" using assms(2) by (force dest: map_of_SomeD)
  then have "i < wc_next c" "i \<notin> fst ` set (wc_pings c)"
    using assms(1) by (auto simp: ws_inv_def tasks_ok_def live_ids_def pending_ok_def)
  moreover have "live_ids (connect_succeeded i info c) = live_ids c"
    using i by (auto simp: live_ids_def connect_succeeded_def start_ping_def Let_def)
  moreover have "pings_ok (wf_retry_connect_per_pings (wc_config c)) None (wc_next c) (wc_pings (stop_ping (wc_ping c) c))"
    using assms(1) pings_ok_stop [of _ "wc_ping c" "wc_next c" "wc_pings c" None] by (simp add: ws_inv_def)
  moreover have "pending_ok (map_remove (wc_pending c) i) ((i, p) # wc_pings (stop_ping (wc_ping c) c))" for p
    using assms(1) pending_ok_remove [of "wc_pending c" "wc_pings c" i]
    by (auto simp: ws_inv_def pending_ok_def)
  ultimately show ?thesis
    using assms(1) pings_ok_new [of _ "wc_next c" "wc_pings (stop_ping (wc_ping c) c)" i]
    by (cases "wc_ping c") (simp_all add: ws_inv_def connect_succeeded_def start_ping_def Let_def)
qed

lemma ws_inv_disconnect: "ws_inv c \<Longrightarrow> ws_inv (disconnect c)"
  using ws_inv_clean [of c] by (simp add: disconnect_def ws_inv_def live_ids_def)

lemma ws_inv_send: "ws_inv c \<Longrightarrow> ws_inv (send_step S http i device_id msg outcome c)"
  using ws_inv_drop_send [of c i]
  by (auto simp: send_step_def handle_send_error_def ws_inv_def live_ids_def split: prod.split sum.split WSError.split)

lemma ws_inv_adjust:
  assumes "ws_inv c" and "notify_ok n"
    and "\<And>p. map_of (wc_pings c) i = Some p \<Longrightarrow> ping_ok (wf_retry_connect_per_pings (wc_config c)) p \<Longrightarrow>
      ping_ok (wf_retry_connect_per_pings (wc_config c)) (f p) \<and> (pg_stop (f p) \<or> \<not> pg_stop p)"
  shows "ws_inv (c\<lparr>wc_pings := map_adjust (wc_pings c) i f, wc_notify := n\<rparr>)"
  using assms pings_ok_adjust [of _ "wc_ping c" "wc_next c" "wc_pings c" i f] by (simp add: ws_inv_def live_ids_def)

lemma ws_inv_on_ping:
  assumes "ws_inv c"
    and "\<And>p. map_of (wc_pings c) i = Some p \<Longrightarrow> ping_ok (wf_retry_connect_per_pings (wc_config c)) p \<Longrightarrow>
      ping_ok (wf_retry_connect_per_pings (wc_config c)) (fst (f p (wc_notify c))) \<and> (pg_stop (fst (f p (wc_notify c))) \<or> \<not> pg_stop p)"
    and "\<And>p. notify_ok (snd (f p (wc_notify c)))"
  shows "ws_inv (on_ping i f c)"
proof (cases "map_of (wc_pings c) i")
  case (Some p)
  then show ?thesis
    using assms(2) [OF Some] assms(3) [of p] ws_inv_adjust [OF assms(1), of "snd (f p (wc_notify c))" i "\<lambda>_. fst (f p (wc_notify c))"]
    by (simp add: on_ping_def case_prod_beta)
qed (simp add: on_ping_def assms(1))

lemma ping_tick_ok: "ping_ok m p \<Longrightarrow> ping_ok m (fst (ping_tick sent p n)) \<and> pg_stop (fst (ping_tick sent p n)) = pg_stop p"
  by (auto simp: ping_tick_def ping_ok_def not_le inc_le)

lemma ping_tick_notify: "notify_ok n \<Longrightarrow> notify_ok (snd (ping_tick sent p n))"
  by (simp add: ping_tick_def)

lemma ping_pong_ok: "ping_ok m p \<Longrightarrow> ping_ok m (fst (ping_pong p n)) \<and> pg_stop (fst (ping_pong p n)) = pg_stop p"
  by (auto simp: ping_pong_def ping_ok_def)

lemma ping_pong_notify: "notify_ok n \<Longrightarrow> notify_ok (snd (ping_pong p n))"
  by (simp add: ping_pong_def)

lemma ws_inv_recv:
  assumes "ws_inv c" and "\<not> pong_blocked i item c"
  shows "ws_inv (recv_step R i item c)"
proof -
  have pong: "ws_inv (snd (pong_received i c))" if "item = Some (Inr (MsgPong b))" for b
    using assms that ws_inv_adjust [OF assms(1), of "wc_notify c" i "pg_pongs_update Suc"]
    by (auto simp: pong_received_def pong_blocked_def ping_ok_def ws_inv_def split: option.splits)
  have "ws_inv (snd (recv_realtime m c))" for m
    using assms(1) by (auto simp: recv_realtime_def ws_inv_def live_ids_def split: RealtimeMessage.split SystemMessage.split sum.split)
  then have "ws_inv (snd (recv_message R i msg c))" if "item = Some (Inr msg)" for msg
    using assms(1) pong that by (auto simp: recv_message_def split: WsMsg.split sum.split)
  then have "ws_inv (snd (case item of Some (Inr msg) \<Rightarrow> recv_message R i msg c | _ \<Rightarrow> (False, c)))"
    using assms(1) by (auto split: option.split sum.split)
  then show ?thesis
    unfolding recv_step_def by (auto simp: ws_inv_def live_ids_def split: prod.split bool.split)
qed

lemma ws_inv_step: "ws_step S R c c' \<Longrightarrow> ws_inv c \<Longrightarrow> ws_inv c'"
proof (induction rule: ws_step.induct)
  case (StepTick c i p)
  then show ?case
    unfolding ping_ticks_def by (intro ws_inv_on_ping) (auto simp: ping_tick_ok ws_inv_def intro: ping_tick_notify)
next
  case (StepPong c i p)
  then show ?case
    by (intro ws_inv_on_ping) (auto simp: ping_pong_ok ws_inv_def intro: ping_pong_notify)
next
  case (StepPingStop c i p)
  then show ?case by (intro ws_inv_on_ping) (auto simp: ws_inv_def ping_ok_def)
qed (auto simp: ws_inv_connect ws_inv_failed ws_inv_succeeded ws_inv_disconnect ws_inv_send ws_inv_recv ws_inv_drop_send,
     simp_all add: ws_inv_def live_ids_def)

lemma ws_reachable_inv: "ws_reachable S R config c \<Longrightarrow> ws_inv c"
  by (induction rule: ws_reachable.induct) (auto simp: ws_inv_new elim: ws_inv_step)

lemma ws_config_step: "ws_step S R c c' \<Longrightarrow> wc_config c' = wc_config c"
proof (induction rule: ws_step.induct)
  case (StepRecv i c item)
  have "wc_config (snd (recv_realtime m c)) = wc_config c" for m
    by (auto simp: recv_realtime_def split: RealtimeMessage.split SystemMessage.split sum.split)
  then have "wc_config (snd (recv_message R i msg c)) = wc_config c" for msg
    by (auto simp: recv_message_def pong_received_def split: WsMsg.split sum.split option.split)
  then show ?case by (auto simp: recv_step_def split: prod.split bool.split option.split sum.split)
    (metis snd_conv)+
qed (auto simp: connect_begin_def connect_failed_def should_retry_def connect_succeeded_def start_ping_def disconnect_def
    send_step_def ping_ticks_def on_ping_def Let_def split: prod.split bool.split option.split sum.split WSError.split)

lemma ws_reachable_config: "ws_reachable S R config c \<Longrightarrow> wc_config c = config"
  by (induction rule: ws_reachable.induct) (auto simp: WSClient_new_def dest: ws_config_step)

section \<open>Properties\<close>

text \<open>
  C10: However connecting, disconnecting and the tasks interleave, at most one sending task is not told to stop and it is
  the one the client can stop, at most one ping is not told to stop, no ping counts beyond its maximum, and the
  notifications are the changes of the state with the current one last.
\<close>

theorem one_live_connection:
  assumes "ws_reachable S R config c"
  shows "fst ` set (wc_sends c) - wc_stops c \<subseteq> set_option (wc_stop_tx c) \<and>
    fst ` set (filter (\<lambda>(i, p). \<not> pg_stop p) (wc_pings c)) \<subseteq> set_option (wc_ping c) \<and>
    list_all (\<lambda>(i, p). pg_count p \<le> wf_retry_connect_per_pings config \<and> pg_pongs p \<le> 1) (wc_pings c) \<and>
    last (Lost # csn_sent (wc_notify c)) = wc_state c \<and> distinct_adj (Lost # csn_sent (wc_notify c))"
proof -
  have inv: "notify_ok (wc_notify c)" "tasks_ok (live_ids c) (wc_stops c) (wc_stop_tx c) (wc_next c)"
    "pings_ok (wf_retry_connect_per_pings config) (wc_ping c) (wc_next c) (wc_pings c)"
    using ws_reachable_inv [OF assms] ws_reachable_config [OF assms] by (simp_all add: ws_inv_def)
  have "fst ` set (wc_sends c) - wc_stops c \<subseteq> set_option (wc_stop_tx c)"
    using inv(2) by (auto simp: tasks_ok_def live_ids_def)
  moreover have "fst ` set (filter (\<lambda>(i, p). \<not> pg_stop p) (wc_pings c)) \<subseteq> set_option (wc_ping c)"
    using inv(3) by (auto simp: pings_ok_def)
  moreover have "list_all (\<lambda>(i, p). pg_count p \<le> wf_retry_connect_per_pings config \<and> pg_pongs p \<le> 1) (wc_pings c)"
    using inv(3) by (auto simp: pings_ok_def ping_ok_def list_all_iff)
  ultimately show ?thesis using inv(1) by (simp add: notify_ok_def)
qed

lemma unat_u32_less: "unat (m :: u32) < 4294967296"
proof -
  have "unat m < 2 ^ LENGTH(32)" by (rule unsigned_less)
  then show ?thesis by simp
qed

lemma ping_ticks_count:
  "((\<lambda>(p, n). ping_tick True p n) ^^ k) (ServerFixIntervalPing_new m, n) =
     ((ServerFixIntervalPing_new m)\<lparr>pg_count := of_nat (min k (unat m))\<rparr>, if k \<le> unat m then n else set_state PingTimeout n)"
proof (induction k)
  case 0
  then show ?case by (simp add: ServerFixIntervalPing_new_def)
next
  case (Suc k)
  have "m \<le> of_nat (min k (unat m)) \<longleftrightarrow> unat m \<le> k"
  proof -
    have "unat (of_nat (min k (unat m)) :: u32) = min k (unat m)"
      using unat_u32_less [of m] by (simp add: unat_of_nat)
    then show ?thesis by (auto simp: word_le_nat_alt min_def split: if_splits)
  qed
  then show ?case
    using Suc.IH by (auto simp: ping_tick_def ServerFixIntervalPing_new_def min_def set_state_def not_le le_Suc_eq split: if_splits)
qed

text \<open>
  C14: A server that answers no ping is given up at the tick after the maximum, and not before: after \<open>k\<close> unanswered
  ticks the count is \<open>k\<close> up to the maximum, and the state is \<open>PingTimeout\<close> exactly when \<open>k\<close> exceeds it.
\<close>

theorem unanswered_pings:
  "let (p, n1) = ((\<lambda>(p, n). ping_tick True p n) ^^ k) (ServerFixIntervalPing_new m, n)
   in unat (pg_count p) = min k (unat m) \<and> n1 = (if k \<le> unat m then n else set_state PingTimeout n)"
  using unat_u32_less [of m] by (simp add: ping_ticks_count unat_of_nat)


text \<open>
  The end of the connection is not reported by the task that meets it: when the socket says it is closed, the sending
  task ends and the state stays what it was; the next tick of the ping finds nobody to send to and reports it.
\<close>

theorem closed_connection_noticed:
  assumes "wc_sends c = [(i, device_id)]" and "\<not> msg_is_binary msg" and "map_of (wc_pings c) j = Some p"
  shows "let c1 = send_step S http i device_id msg (Err ConnectionClosed) c
    in wc_state c1 = wc_state c \<and> wc_sends c1 = [] \<and> wc_state (ping_ticks j c1) = PingTimeout"
  using assms
  by (simp add: send_step_def send_message_def ws_error_from_def should_stop_def map_remove_def ping_ticks_def on_ping_def ping_tick_def)

text \<open>
  Disconnecting while a connect is under way does not cancel it: when the server answers, the client is connected
  although it was told to disconnect.
\<close>

theorem disconnect_while_connecting:
  assumes "wc_state c \<noteq> Connecting"
  shows "let c1 = disconnect (connect_begin info c); c2 = connect_succeeded (wc_next c) info c1
    in map_of (wc_pending c1) (wc_next c) = Some info \<and> wc_state c1 = Lost \<and> wc_state c2 = Connected \<and> wc_next c \<in> wc_stops c2"
  using assms by (simp add: disconnect_def connect_begin_def  connect_succeeded_def start_ping_def Let_def)

text \<open>
  A pong that is taken after \<open>disconnect\<close> and before the ping stops makes the state \<open>Connected\<close>, and it stays so:
  there is a run to a state that says so although nothing connects and no task of any connection is left.
\<close>

theorem late_pong_undoes_disconnect:
  "\<exists>c :: ('o, 't, 'v) WSClient. ws_reachable S R config c \<and> wc_state c = Connected \<and> wc_info c = None \<and> wc_pending c = [] \<and>
     wc_sends c = [] \<and> wc_recvs c = {} \<and> list_all (\<lambda>(i, p). \<not> pg_running p) (wc_pings c)"
proof -
  define info :: "'v ConnectInfo" where "info = \<lparr>ci_access_token = [], ci_client_version = undefined, ci_device_id = []\<rparr>"
  define c1 :: "('o, 't, 'v) WSClient" where "c1 = connect_begin info (WSClient_new config)"
  define c2 where "c2 = connect_succeeded 0 info c1"
  define c3 where "c3 = recv_step R 0 (Some (Inr (MsgPong []))) c2"
  define c4 where "c4 = disconnect c3"
  define c5 where "c5 = on_ping 0 ping_pong c4"
  define c6 where "c6 = on_ping 0 (\<lambda>p n. (p\<lparr>pg_running := False\<rparr>, n)) c5"
  define c7 where "c7 = c6\<lparr>wc_sends := map_remove (wc_sends c6) 0\<rparr>"
  define c8 where "c8 = recv_step R 0 None c7"
  note defs = WSClient_new_def ConnectStateNotify_new_def ServerFixIntervalPing_new_def  Let_def map_remove_def
    map_adjust_def clean_def stop_ping_def set_client_state_def set_state_def start_ping_def
  have c1: "map_of (wc_pending c1) 0 = Some info" by (simp add: c1_def connect_begin_def defs)
  have c2: "0 \<in> wc_recvs c2" "\<not> pong_blocked 0 (Some (Inr (MsgPong []))) c2"
    by (simp_all add: c2_def c1_def connect_begin_def connect_succeeded_def pong_blocked_def defs)
  have ping: "wc_pings c2 = [(0, ServerFixIntervalPing_new (wf_retry_connect_per_pings config))]" "wc_ping c2 = Some 0"
    "wc_stop_tx c2 = Some 0" "wc_sends c2 = [(0, [])]" "wc_recvs c2 = {0}" "wc_pending c2 = []" "wc_state c2 = Connected"
    by (simp_all add: c2_def c1_def connect_begin_def connect_succeeded_def info_def defs)
  have c3: "wc_pings c3 = [(0, (ServerFixIntervalPing_new (wf_retry_connect_per_pings config))\<lparr>pg_pongs := 1\<rparr>)]"
    "wc_ping c3 = Some 0" "wc_stop_tx c3 = Some 0" "wc_sends c3 = [(0, [])]" "wc_recvs c3 = {0}" "wc_pending c3 = []"
    by (simp_all add: c3_def recv_step_def recv_message_def pong_received_def ping defs)
  have c4: "wc_pings c4 = [(0, (ServerFixIntervalPing_new (wf_retry_connect_per_pings config))\<lparr>pg_pongs := 1, pg_stop := True\<rparr>)]"
    "wc_stops c4 = insert 0 (wc_stops c3)" "wc_sends c4 = [(0, [])]" "wc_recvs c4 = {0}" "wc_pending c4 = []" "wc_info c4 = None"
    by (simp_all add: c4_def disconnect_def c3 map_adjust_def)
  have c5: "wc_pings c5 = [(0, (ServerFixIntervalPing_new (wf_retry_connect_per_pings config))\<lparr>pg_count := 0, pg_stop := True\<rparr>)]"
    "wc_stops c5 = insert 0 (wc_stops c3)" "wc_sends c5 = [(0, [])]" "wc_recvs c5 = {0}" "wc_pending c5 = []" "wc_info c5 = None"
    "wc_state c5 = Connected"
    by (simp_all add: c5_def on_ping_def c4 ping_pong_def map_adjust_def ServerFixIntervalPing_new_def)
  have c6: "list_all (\<lambda>(i, p). \<not> pg_running p) (wc_pings c6)" "0 \<in> wc_stops c6" "wc_sends c6 = [(0, [])]" "wc_recvs c6 = {0}"
    "wc_pending c6 = []" "wc_info c6 = None" "wc_state c6 = Connected"
    by (simp_all add: c6_def on_ping_def c5 map_adjust_def)
  have "ws_reachable S R config c1" unfolding c1_def by (rule ReachStep [OF ReachNew StepConnect])
  then have "ws_reachable S R config c2" unfolding c2_def by (rule ReachStep) (rule StepSucceed [OF c1])
  then have "ws_reachable S R config c3" unfolding c3_def by (rule ReachStep) (rule StepRecv [OF c2])
  then have "ws_reachable S R config c4" unfolding c4_def by (rule ReachStep) (rule StepDisconnect)
  then have "ws_reachable S R config c5" unfolding c5_def
    by (rule ReachStep) (rule StepPong, simp add: c4, simp_all add: c4 ServerFixIntervalPing_new_def)
  then have "ws_reachable S R config c6" unfolding c6_def
    by (rule ReachStep) (rule StepPingStop, simp add: c5, simp_all add: c5 ServerFixIntervalPing_new_def)
  then have "ws_reachable S R config c7" unfolding c7_def by (rule ReachStep) (rule StepSendStop [OF c6(2)])
  then have "ws_reachable S R config c8" unfolding c8_def
    by (rule ReachStep) (rule StepRecv, simp_all add: c7_def c6 pong_blocked_def)
  moreover have "wc_state c8 = Connected \<and> wc_info c8 = None \<and> wc_pending c8 = [] \<and> wc_sends c8 = [] \<and> wc_recvs c8 = {} \<and>
      list_all (\<lambda>(i, p). \<not> pg_running p) (wc_pings c8)"
    using c6 by (simp add: c8_def recv_step_def c7_def map_remove_def)
  ultimately show ?thesis by blast
qed

section \<open>Instances\<close>

definition sample_info :: "nat ConnectInfo" where
  "sample_info = \<lparr>ci_access_token = ''token'', ci_client_version = 5, ci_device_id = ''phone''\<rparr>"

definition sample_ws :: "(nat, nat, nat) WSClient" where
  "sample_ws = connect_succeeded 0 sample_info (connect_begin sample_info (WSClient_new WSClientConfig_default))"

lemma sample_ws_fields:
  "wc_sends sample_ws = [(0, ''phone'')]" "wc_stops sample_ws = {}" "wc_stop_tx sample_ws = Some 0" "wc_state sample_ws = Connected"
  "wc_pings sample_ws = [(0, ServerFixIntervalPing_new 10)]" "wc_ping sample_ws = Some 0"
  by (simp_all add: sample_ws_def sample_info_def connect_begin_def connect_succeeded_def WSClient_new_def ConnectStateNotify_new_def
       Let_def map_remove_def start_ping_def clean_def stop_ping_def set_client_state_def set_state_def WSClientConfig_default_def)

lemma sample_ws_reachable: "ws_reachable (\<lambda>s. ''status'') kick_codec WSClientConfig_default sample_ws"
  unfolding sample_ws_def
  by (rule ReachStep [OF ReachStep [OF ReachNew StepConnect]], rule StepSucceed)
    (simp add: connect_begin_def WSClient_new_def ConnectStateNotify_new_def  Let_def clean_def stop_ping_def
      set_client_state_def)

theorem one_live_connection_witness:
  "fst ` set (wc_sends sample_ws) - wc_stops sample_ws \<subseteq> {0} \<and> fst ` set (wc_sends sample_ws) = {0} \<and>
   last (Lost # csn_sent (wc_notify sample_ws)) = Connected"
  using one_live_connection [OF sample_ws_reachable] by (simp add: sample_ws_fields)

theorem closed_connection_noticed_witness:
  "let c1 = send_step (\<lambda>s. ''status'') True 0 ''phone'' (MsgPing []) (Err ConnectionClosed) sample_ws
   in wc_state c1 = Connected \<and> wc_sends c1 = [] \<and> wc_state (ping_ticks 0 c1) = PingTimeout"
  using closed_connection_noticed [where c = sample_ws and i = 0 and j = 0 and msg = "MsgPing []" and http = True and S = "\<lambda>s. ''status''"]
  by (simp add: sample_ws_fields Let_def)

theorem disconnect_while_connecting_witness:
  "let c1 = disconnect (connect_begin sample_info (WSClient_new WSClientConfig_default :: (nat, nat, nat) WSClient));
       c2 = connect_succeeded 0 sample_info c1
   in wc_state c1 = Lost \<and> wc_state c2 = Connected \<and> 0 \<in> wc_stops c2"
  using disconnect_while_connecting [of "WSClient_new WSClientConfig_default :: (nat, nat, nat) WSClient" sample_info]
  by (simp add: Let_def WSClient_new_def ConnectStateNotify_new_def)

end
