(* ===== verification/Ws_Native.thy ===== *)
theory Ws_Native
  imports Ws_Message
begin

text \<open>
  The native websocket (\<open>lib/client-websocket/src/native.rs\<close>): the errors of \<open>tungstenite\<close> as the library's own, and
  its stream and sink over the connection.

  The constructors of \<open>tungstenite\<close>'s errors begin with \<open>Tung\<close>; a conversion that panics is \<open>None\<close>.
\<close>

section \<open>Errors\<close>

datatype TungData = TungContinue | TungTextData | TungBinaryData | TungReserved u8

datatype WsData = DataContinue | DataText | DataBinary | DataReserved u8

fun tung_data_from :: "TungData \<Rightarrow> WsData" where
  "tung_data_from TungContinue = DataContinue"
| "tung_data_from TungTextData = DataText"
| "tung_data_from TungBinaryData = DataBinary"
| "tung_data_from (TungReserved inner) = DataReserved inner"

fun data_fmt :: "WsData \<Rightarrow> string" where
  "data_fmt DataContinue = ''CONTINUE''"
| "data_fmt DataText = ''TEXT''"
| "data_fmt DataBinary = ''BINARY''"
| "data_fmt (DataReserved x) = ''RESERVED_DATA_'' @ int_to_string (int (unat x))"

datatype TungCapacity = TungTooManyHeaders | TungMessageTooLong nat nat

fun tung_capacity_from :: "TungCapacity \<Rightarrow> CapacityError" where
  "tung_capacity_from TungTooManyHeaders = TooManyHeaders"
| "tung_capacity_from (TungMessageTooLong sz max_size) = MessageTooLong sz max_size"

datatype TungUrl =
  TungTlsFeatureNotEnabled | TungNoHostName | TungUnableToConnect string | TungUnsupportedUrlScheme | TungEmptyHostName | TungNoPathOrQuery

fun tung_url_from :: "TungUrl \<Rightarrow> UrlError" where
  "tung_url_from TungTlsFeatureNotEnabled = TlsFeatureNotEnabled"
| "tung_url_from TungNoHostName = NoHostName"
| "tung_url_from (TungUnableToConnect inner) = UnableToConnect inner"
| "tung_url_from TungUnsupportedUrlScheme = UnsupportedUrlScheme"
| "tung_url_from TungEmptyHostName = EmptyHostName"
| "tung_url_from TungNoPathOrQuery = NoPathOrQuery"

datatype TungProtocol =
    TungWrongHttpMethod
  | TungWrongHttpVersion
  | TungMissingConnectionUpgradeHeader
  | TungMissingUpgradeWebSocketHeader
  | TungMissingSecWebSocketVersionHeader
  | TungMissingSecWebSocketKey
  | TungSecWebSocketAcceptKeyMismatch
  | TungJunkAfterRequest
  | TungCustomResponseSuccessful
  | TungInvalidHeader string
  | TungHandshakeIncomplete
  | TungHttparseError string
  | TungSendAfterClosing
  | TungReceivedAfterClosing
  | TungNonZeroReservedBits
  | TungUnmaskedFrameFromClient
  | TungMaskedFrameFromServer
  | TungFragmentedControlFrame
  | TungControlFrameTooBig
  | TungUnknownControlFrameType u8
  | TungUnknownDataFrameType u8
  | TungUnexpectedContinueFrame
  | TungExpectedFragment TungData
  | TungResetWithoutClosingHandshake
  | TungInvalidOpcode u8
  | TungInvalidCloseSequence

text \<open>The library's error keeps the kind of data as its text.\<close>

fun tung_protocol_from :: "TungProtocol \<Rightarrow> ProtocolErr" where
  "tung_protocol_from TungWrongHttpMethod = WrongHttpMethod"
| "tung_protocol_from TungWrongHttpVersion = WrongHttpVersion"
| "tung_protocol_from TungMissingConnectionUpgradeHeader = MissingConnectionUpgradeHeader"
| "tung_protocol_from TungMissingUpgradeWebSocketHeader = MissingUpgradeWebSocketHeader"
| "tung_protocol_from TungMissingSecWebSocketVersionHeader = MissingSecWebSocketVersionHeader"
| "tung_protocol_from TungMissingSecWebSocketKey = MissingSecWebSocketKey"
| "tung_protocol_from TungSecWebSocketAcceptKeyMismatch = SecWebSocketAcceptKeyMismatch"
| "tung_protocol_from TungJunkAfterRequest = JunkAfterRequest"
| "tung_protocol_from TungCustomResponseSuccessful = CustomResponseSuccessful"
| "tung_protocol_from (TungInvalidHeader inner) = InvalidHeader inner"
| "tung_protocol_from TungHandshakeIncomplete = HandshakeIncomplete"
| "tung_protocol_from (TungHttparseError inner) = HttparseError inner"
| "tung_protocol_from TungSendAfterClosing = SendAfterClosing"
| "tung_protocol_from TungReceivedAfterClosing = ReceivedAfterClosing"
| "tung_protocol_from TungNonZeroReservedBits = NonZeroReservedBits"
| "tung_protocol_from TungUnmaskedFrameFromClient = UnmaskedFrameFromClient"
| "tung_protocol_from TungMaskedFrameFromServer = MaskedFrameFromServer"
| "tung_protocol_from TungFragmentedControlFrame = FragmentedControlFrame"
| "tung_protocol_from TungControlFrameTooBig = ControlFrameTooBig"
| "tung_protocol_from (TungUnknownControlFrameType inner) = UnknownControlFrameType inner"
| "tung_protocol_from (TungUnknownDataFrameType inner) = UnknownDataFrameType inner"
| "tung_protocol_from TungUnexpectedContinueFrame = UnexpectedContinueFrame"
| "tung_protocol_from (TungExpectedFragment inner) = ExpectedFragment (data_fmt (tung_data_from inner))"
| "tung_protocol_from TungResetWithoutClosingHandshake = ResetWithoutClosingHandshake"
| "tung_protocol_from (TungInvalidOpcode inner) = InvalidOpcode inner"
| "tung_protocol_from TungInvalidCloseSequence = InvalidCloseSequence"

datatype TungError =
    TungConnectionClosed
  | TungAlreadyClosed
  | TungIo string
  | TungTls string
  | TungCapacityError TungCapacity
  | TungProtocolError TungProtocol
  | TungWriteBufferFull tung_message
  | TungUtf8
  | TungAttackAttempt
  | TungUrlError TungUrl
  | TungHttp nat
  | TungHttpFormat string

text \<open>The message of a full buffer is converted like one to be sent, which panics for a ping or a pong.\<close>

fun tung_error_from :: "TungError \<Rightarrow> WsLibError option" where
  "tung_error_from TungConnectionClosed = Some ConnectionClosed"
| "tung_error_from TungAlreadyClosed = Some AlreadyClosed"
| "tung_error_from (TungIo inner) = Some (WsIo inner)"
| "tung_error_from (TungTls inner) = Some (WsTls inner)"
| "tung_error_from (TungCapacityError inner) = Some (WsCapacity (tung_capacity_from inner))"
| "tung_error_from (TungProtocolError inner) = Some (WsProtocol (tung_protocol_from inner))"
| "tung_error_from (TungWriteBufferFull inner) = map_option WriteBufferFull (msg_from_tung inner)"
| "tung_error_from TungUtf8 = Some WsUtf8"
| "tung_error_from TungAttackAttempt = Some AttackAttempt"
| "tung_error_from (TungUrlError inner) = Some (WsUrl (tung_url_from inner))"
| "tung_error_from (TungHttp inner) = Some (WsHttp inner)"
| "tung_error_from (TungHttpFormat inner) = Some (WsHttpFormat inner)"

section \<open>Stream and sink\<close>

text \<open>
  The stream: frames that are no messages are skipped, an error is converted.  The outer \<open>None\<close> is a panic, the inner
  one the end of the stream.
\<close>

fun native_next ::
  "(TungError + tung_message) list \<Rightarrow> ((WsLibError + WsMsg) option \<times> (TungError + tung_message) list) option" where
  "native_next [] = Some (None, [])"
| "native_next (Inr TungFrame # rest) = native_next rest"
| "native_next (Inr msg # rest) = map_option (\<lambda>r. (Some r, rest)) (to_fut_message (Inr msg))"
| "native_next (Inl err # rest) = map_option (\<lambda>e. (Some (Err e), rest)) (tung_error_from err)"

text \<open>\<open>poll_ready\<close>, \<open>start_send\<close>, \<open>poll_flush\<close> and \<open>poll_close\<close> pass on what the connection answers.\<close>

definition native_answer :: "TungError + unit \<Rightarrow> (WsLibError + unit) option" where
  "native_answer r = (case r of Inr u \<Rightarrow> Some (Ok u) | Inl e \<Rightarrow> map_option Err (tung_error_from e))"

definition native_start_send :: "(tung_message \<Rightarrow> TungError + unit) \<Rightarrow> WsMsg \<Rightarrow> (WsLibError + unit) option" where
  "native_start_send send item = native_answer (send (msg_to_tung item))"

text \<open>Connecting: the address becomes a request or an error, the headers are the client's.\<close>

definition native_connect ::
  "(string \<Rightarrow> TungError + string) \<Rightarrow> (string \<Rightarrow> 'h \<Rightarrow> TungError + 's) \<Rightarrow> string \<Rightarrow> 'h \<Rightarrow> (WsLibError + 's) option" where
  "native_connect into_request dial url header_map =
     (case into_request url of
        Inl e \<Rightarrow> map_option Err (tung_error_from e)
      | Inr request \<Rightarrow>
          (case dial request header_map of Inl e \<Rightarrow> map_option Err (tung_error_from e) | Inr s \<Rightarrow> Some (Ok s)))"

section \<open>What the conversion keeps\<close>

lemma data_fmt_inj: "data_fmt a = data_fmt b \<longleftrightarrow> a = b"
  by (cases a; cases b) (simp_all add: word_uint_eq_iff)

lemma tung_data_inj: "tung_data_from a = tung_data_from b \<longleftrightarrow> a = b"
  by (cases a; cases b) auto

text \<open>No two errors of the protocol become the same.\<close>

lemma tung_protocol_inj: "tung_protocol_from a = tung_protocol_from b \<Longrightarrow> a = b"
  by (cases a; cases b; simp add: data_fmt_inj tung_data_inj)

text \<open>An error panics exactly when it returns a ping, a pong or a frame that did not fit the buffer.\<close>

lemma tung_error_panics:
  "tung_error_from e = None \<longleftrightarrow> (\<exists>m. e = TungWriteBufferFull m \<and> m \<in> range TungPing \<union> range TungPong \<union> {TungFrame})"
proof (cases e)
  case (TungWriteBufferFull m)
  then show ?thesis by (cases m) auto
qed auto

lemma native_next_panics_not_on_messages: "list_all is_ok rest \<Longrightarrow> native_next rest \<noteq> None"
  by (induction rest rule: native_next.induct) auto

end
