(* ===== verification/Gotrue.thy ===== *)
theory Gotrue
  imports App_Error Access_Control
begin

text \<open>
  The client of the authentication service (\<open>lib/gotrue\<close>, \<open>lib/gotrue-entity\<close>, \<open>lib/infra/src/reqwest.rs\<close>): the
  request of every method and what its answer becomes.

  A method makes a request, sends it and reads the answer; sending is \<open>reqwest\<close>'s and a field of the client.  \<open>'j\<close> is the type of the JSON values the code only passes on; parsing a body is a parameter.
\<close>

section \<open>Requests and answers\<close>

record 'b http_call =
  hc_method :: Method
  hc_url :: string
  hc_query :: "(string \<times> string) list"
  hc_headers :: "(string \<times> string) list"
  hc_bearer :: "string option"
  hc_body :: "'b option"

definition call :: "Method \<Rightarrow> string \<Rightarrow> 'b http_call" where
  "call m url = \<lparr>hc_method = m, hc_url = url, hc_query = [], hc_headers = [], hc_bearer = None, hc_body = None\<rparr>"

text \<open>An answer, its headers by their names in lower case; a header that is no text is \<open>None\<close>, and reading the body may fail.\<close>

record http_answer =
  an_status :: nat
  an_headers :: "(string \<times> string option) list"
  an_body :: "reqwest_error + bytes"

definition is_success :: "nat \<Rightarrow> bool" where "is_success status \<longleftrightarrow> 200 \<le> status \<and> status < 300"
definition is_client_error :: "nat \<Rightarrow> bool" where "is_client_error status \<longleftrightarrow> 400 \<le> status \<and> status < 500"

text \<open>Texts of statuses and bodies, and \<open>Debug\<close> of an optional string.\<close>

record show_env =
  sw_status :: "nat \<Rightarrow> string"
  sw_lossy :: "bytes \<Rightarrow> string"
  sw_dbg :: "string option \<Rightarrow> string"

text \<open>\<open>infra::reqwest\<close>; the error is the text of an \<open>anyhow\<close> error.\<close>

definition check_response :: "show_env \<Rightarrow> http_answer \<Rightarrow> string + unit" where
  "check_response W a =
     (case an_body a of
        Inl e \<Rightarrow> Err (re_text e)
      | Inr body \<Rightarrow>
          (if is_success (an_status a) then Ok ()
           else Err (''got error code: '' @ sw_status W (an_status a) @ '', body: '' @ sw_lossy W body)))"

definition from_body :: "show_env \<Rightarrow> (bytes \<Rightarrow> string + 'a) \<Rightarrow> http_answer \<Rightarrow> string + 'a" where
  "from_body W parse a =
     (case an_body a of
        Inl e \<Rightarrow> Err (re_text e)
      | Inr body \<Rightarrow>
          (case parse body of
             Inl e \<Rightarrow> Err (''deserialize error: '' @ sw_status W (an_status a) @ '', status: '' @ e @ '', body: '' @ sw_lossy W body)
           | Inr x \<Rightarrow> Ok x))"

definition body_from_response :: "show_env \<Rightarrow> (bytes \<Rightarrow> string + 'a) \<Rightarrow> http_answer \<Rightarrow> string + 'a" where
  "body_from_response W parse a =
     (if \<not> is_success (an_status a) then
        (case an_body a of
           Inl e \<Rightarrow> Err (re_text e)
         | Inr body \<Rightarrow> Err (''got error code: '' @ sw_status W (an_status a) @ '', body: '' @ sw_lossy W body))
      else from_body W parse a)"

section \<open>Entities\<close>

record 'j Identity =
  id_id :: string
  id_user_id :: string
  id_identity_data :: "'j option"
  id_provider :: string
  id_last_sign_in_at :: string
  id_created_at :: string
  id_updated_at :: string

record Factor =
  fa_id :: string
  fa_created_at :: string
  fa_updated_at :: string
  fa_status :: string
  fa_friendly_name :: "string option"
  fa_factor_type :: string

record 'j User =
  us_id :: string
  us_aud :: string
  us_role :: string
  us_email :: string
  us_email_confirmed_at :: "string option"
  us_invited_at :: "string option"
  us_phone :: string
  us_phone_confirmed_at :: "string option"
  us_confirmation_sent_at :: "string option"
  us_confirmed_at :: "string option"
  us_recovery_sent_at :: "string option"
  us_new_email :: "string option"
  us_email_change_sent_at :: "string option"
  us_new_phone :: "string option"
  us_phone_change_sent_at :: "string option"
  us_reauthentication_sent_at :: "string option"
  us_last_sign_in_at :: "string option"
  us_app_metadata :: 'j
  us_user_metadata :: 'j
  us_factors :: "Factor list option"
  us_identities :: "'j Identity list option"
  us_created_at :: string
  us_updated_at :: string
  us_banned_until :: "string option"
  us_deleted_at :: "string option"

record 'j AdminListUsersResponse =
  al_users :: "'j User list"
  al_aud :: string

record 'j GotrueTokenResponse =
  gt_access_token :: string
  gt_token_type :: string
  gt_expires_in :: int
  gt_expires_at :: int
  gt_refresh_token :: string
  gt_user :: "'j User"
  gt_provider_access_token :: "string option"
  gt_provider_refresh_token :: "string option"

datatype 'j SignUpResponse = Authenticated "'j GotrueTokenResponse" | NotAuthenticated "'j User"

text \<open>A \<open>BTreeMap\<close> is the list of its pairs in the order of the keys.\<close>

record GoTrueSettings =
  gs_external :: "(string \<times> bool) list"
  gs_disable_signup :: bool
  gs_mailer_autoconfirm :: bool
  gs_phone_autoconfirm :: bool
  gs_sms_provider :: string
  gs_mfa_enabled :: bool
  gs_saml_enabled :: bool

datatype AuthProvider =
    PEmail | PPhone | PApple | PAzure | PBitbucket | PDiscord | PFacebook | PFigma | PGithub | PGitlab | PGoogle
  | PKeycloak | PKakao | PLinkedin | PNotion | PSpotify | PSlack | PWorkos | PTwitch | PTwitter | PZoom

fun provider_str :: "AuthProvider \<Rightarrow> string" where
  "provider_str PApple = ''apple''"
| "provider_str PAzure = ''azure''"
| "provider_str PBitbucket = ''bitbucket''"
| "provider_str PDiscord = ''discord''"
| "provider_str PFacebook = ''facebook''"
| "provider_str PFigma = ''figma''"
| "provider_str PGithub = ''github''"
| "provider_str PGitlab = ''gitlab''"
| "provider_str PGoogle = ''google''"
| "provider_str PKeycloak = ''keycloak''"
| "provider_str PKakao = ''kakao''"
| "provider_str PLinkedin = ''linkedin''"
| "provider_str PNotion = ''notion''"
| "provider_str PSpotify = ''spotify''"
| "provider_str PSlack = ''slack''"
| "provider_str PWorkos = ''workos''"
| "provider_str PTwitch = ''twitch''"
| "provider_str PTwitter = ''twitter''"
| "provider_str PEmail = ''email''"
| "provider_str PPhone = ''phone''"
| "provider_str PZoom = ''zoom''"

definition all_providers :: "AuthProvider list" where
  "all_providers =
     [PApple, PAzure, PBitbucket, PDiscord, PFacebook, PFigma, PGithub, PGitlab, PGoogle, PKeycloak, PKakao, PLinkedin,
      PNotion, PSpotify, PSlack, PWorkos, PTwitch, PTwitter, PEmail, PPhone, PZoom]"

definition provider_from :: "string \<Rightarrow> AuthProvider option" where
  "provider_from s = List.find (\<lambda>p. provider_str p = s) all_providers"

definition has_provider :: "(string \<times> bool) list \<Rightarrow> AuthProvider \<Rightarrow> bool" where
  "has_provider external p = (case map_of external (provider_str p) of Some v \<Rightarrow> v | None \<Rightarrow> False)"

definition oauth_providers :: "(string \<times> bool) list \<Rightarrow> string list" where
  "oauth_providers external =
     map fst (filter (\<lambda>(key, value). value \<and> key \<noteq> ''email'' \<and> key \<noteq> ''phone'') external)"

record 'j UpdateGotrueUserParams =
  ug_email :: string
  ug_password :: "string option"
  ug_nonce :: string
  ug_data :: "(string \<times> 'j) list"
  ug_app_metadata :: "(string \<times> 'j) list option"
  ug_phone :: string
  ug_channel :: string
  ug_code_challenge :: string
  ug_code_challenge_method :: string

definition UpdateGotrueUserParams_new :: "'j UpdateGotrueUserParams" where
  "UpdateGotrueUserParams_new =
     \<lparr>ug_email = [], ug_password = None, ug_nonce = [], ug_data = [], ug_app_metadata = None, ug_phone = [], ug_channel = [],
      ug_code_challenge = [], ug_code_challenge_method = []\<rparr>"

definition with_opt_email :: "string option \<Rightarrow> 'j UpdateGotrueUserParams \<Rightarrow> 'j UpdateGotrueUserParams" where
  "with_opt_email email p = p\<lparr>ug_email := (case email of Some v \<Rightarrow> v | None \<Rightarrow> [])\<rparr>"

definition with_opt_password :: "string option \<Rightarrow> 'j UpdateGotrueUserParams \<Rightarrow> 'j UpdateGotrueUserParams" where
  "with_opt_password password p = p\<lparr>ug_password := password\<rparr>"

text \<open>\<open>grant.rs\<close> and \<open>params.rs\<close>.\<close>

datatype Grant = GrantPassword string string | GrantRefreshToken string | GrantIdToken | GrantPKCE

fun grant_type_str :: "Grant \<Rightarrow> string" where
  "grant_type_str (GrantPassword e p) = ''password''"
| "grant_type_str (GrantRefreshToken t) = ''refresh_token''"
| "grant_type_str GrantIdToken = ''id_token''"
| "grant_type_str GrantPKCE = ''password''"

text \<open>The fields of the JSON object a grant is sent as.\<close>

fun grant_json :: "Grant \<Rightarrow> (string \<times> string) list" where
  "grant_json (GrantPassword email password) = [(''email'', email), (''password'', password)]"
| "grant_json (GrantRefreshToken refresh_token) = [(''refresh_token'', refresh_token)]"
| "grant_json GrantIdToken = [(''msg'', ''id_token grant is not supported'')]"
| "grant_json GrantPKCE = [(''msg'', ''pcke grant is not supported'')]"

record 'j InviteUserParams =
  iu_email :: string
  iu_data :: 'j

record 'j AdminUserParams =
  au_aud :: string
  au_role :: string
  au_email :: string
  au_phone :: string
  au_password :: "string option"
  au_email_confirm :: bool
  au_phone_confirm :: bool
  au_user_metadata :: "(string \<times> 'j) list"
  au_app_metadata :: "(string \<times> 'j) list"
  au_ban_duration :: string

definition AdminUserParams_default :: "'j AdminUserParams" where
  "AdminUserParams_default =
     \<lparr>au_aud = [], au_role = [], au_email = [], au_phone = [], au_password = None, au_email_confirm = False,
      au_phone_confirm = False, au_user_metadata = [], au_app_metadata = [], au_ban_duration = []\<rparr>"

datatype GenerateLinkType =
  LinkMagicLink | LinkRecovery | LinkInvite | LinkSignup | LinkEmailChange | LinkPhoneChange | LinkReauthenticate | LinkSms | LinkEmail

record 'j GenerateLinkParams =
  gl_type :: GenerateLinkType
  gl_email :: string
  gl_new_email :: string
  gl_password :: string
  gl_data :: "(string \<times> 'j) list"
  gl_redirect_to :: string

definition GenerateLinkParams_default :: "'j GenerateLinkParams" where
  "GenerateLinkParams_default =
     \<lparr>gl_type = LinkMagicLink, gl_email = [], gl_new_email = [], gl_password = [], gl_data = [], gl_redirect_to = ''appflowy-flutter://''\<rparr>"

record 'j MagicLinkParams =
  ml_email :: string
  ml_data :: "(string \<times> 'j) list"
  ml_code_challenge_method :: string
  ml_code_challenge :: string

definition MagicLinkParams_default :: "'j MagicLinkParams" where
  "MagicLinkParams_default = \<lparr>ml_email = [], ml_data = [], ml_code_challenge_method = [], ml_code_challenge = []\<rparr>"

record 'j CreateSSOProviderParams =
  sp_type :: string
  sp_metadata_url :: string
  sp_metadata_xml :: string
  sp_domains :: "string list"
  sp_attribute_mapping :: 'j

text \<open>What the bodies are made of.\<close>

datatype 'j gotrue_body =
    GbFields "(string \<times> string) list"
  | GbUpdateUser "'j UpdateGotrueUserParams"
  | GbDeleteUser bool
  | GbAdminUser "'j AdminUserParams"
  | GbInvite "'j InviteUserParams"
  | GbLink "'j GenerateLinkParams"
  | GbMagicLink "'j MagicLinkParams"
  | GbSso "'j CreateSSOProviderParams"

section \<open>The answers\<close>

text \<open>
  The client: where the service is, the platform it runs on, what its library does with a request, and the readers
  of the two kinds of error bodies.
\<close>

record 'j gotrue_client =
  gv_base_url :: string
  gv_wasm :: bool
  gv_show :: show_env
  gv_send :: "'j gotrue_body http_call \<Rightarrow> reqwest_error + http_answer"
  gv_parse_serde :: "bytes \<Rightarrow> string + GoTrueErrorSerde"
  gv_parse_client :: "bytes \<Rightarrow> string + GotrueClientError"

definition gotrue_anyhow :: "string + 'a \<Rightarrow> GoTrueError + 'a" where
  "gotrue_anyhow r = (case r of Inl e \<Rightarrow> Err (GT_Unhandled e) | Inr x \<Rightarrow> Ok x)"

definition exchange ::
  "'j gotrue_client \<Rightarrow> (http_answer \<Rightarrow> GoTrueError + 'a) \<Rightarrow> 'j gotrue_body http_call \<Rightarrow> GoTrueError + 'a" where
  "exchange G read r =
     (case gv_send G r of Inl e \<Rightarrow> Err (gotrue_from_reqwest (gv_wasm G) e) | Inr a \<Rightarrow> read a)"

definition to_gotrue_result :: "'j gotrue_client \<Rightarrow> (bytes \<Rightarrow> string + 'a) \<Rightarrow> http_answer \<Rightarrow> GoTrueError + 'a" where
  "to_gotrue_result G parse a =
     (if is_success (an_status a) then gotrue_anyhow (from_body (gv_show G) parse a)
      else
        (case from_body (gv_show G) (gv_parse_serde G) a of
           Inl e \<Rightarrow> Err (GT_Unhandled e)
         | Inr err \<Rightarrow> Err (GT_Internal err)))"

definition check_gotrue_result :: "'j gotrue_client \<Rightarrow> http_answer \<Rightarrow> GoTrueError + unit" where
  "check_gotrue_result G a =
     (if is_success (an_status a) then Ok ()
      else
        (case from_body (gv_show G) (gv_parse_serde G) a of
           Inl e \<Rightarrow> Err (GT_Unhandled e)
         | Inr err \<Rightarrow> Err (GT_Internal err)))"

definition read_token ::
  "'j gotrue_client \<Rightarrow> (bytes \<Rightarrow> string + 'j GotrueTokenResponse) \<Rightarrow> http_answer \<Rightarrow> GoTrueError + 'j GotrueTokenResponse" where
  "read_token G parse a =
     (if is_success (an_status a) then gotrue_anyhow (from_body (gv_show G) parse a)
      else if is_client_error (an_status a) then
        (case from_body (gv_show G) (gv_parse_client G) a of
           Inl e \<Rightarrow> Err (GT_Unhandled e)
         | Inr err \<Rightarrow> Err (GT_ClientError err))
      else Err (GT_Unhandled (''unexpected response status: '' @ sw_status (gv_show G) (an_status a))))"

section \<open>The methods\<close>

definition gotrue_with_auth :: "Method \<Rightarrow> string \<Rightarrow> string \<Rightarrow> 'j gotrue_body http_call" where
  "gotrue_with_auth m url access_token = (call m url)\<lparr>hc_bearer := Some access_token\<rparr>"

definition json_body :: "'b \<Rightarrow> 'b http_call \<Rightarrow> 'b http_call" where "json_body b r = r\<lparr>hc_body := Some b\<rparr>"

definition redirect_header :: "string option \<Rightarrow> 'b http_call \<Rightarrow> 'b http_call" where
  "redirect_header redirect_to r =
     (case redirect_to of Some u \<Rightarrow> r\<lparr>hc_headers := hc_headers r @ [(''redirect_to'', u)]\<rparr> | None \<Rightarrow> r)"

definition oauth_url :: "'j gotrue_client \<Rightarrow> AuthProvider \<Rightarrow> string" where
  "oauth_url G p = gv_base_url G @ ''/authorize?provider='' @ provider_str p"

text \<open>\<open>context\<close> replaces the text of an error.\<close>

definition gotrue_health :: "'j gotrue_client \<Rightarrow> GoTrueError + unit" where
  "gotrue_health G =
     (let url = gv_base_url G @ ''/health''
      in case gv_send G (call GET url) of
           Inl e \<Rightarrow> Err (GT_Unhandled (''calling '' @ url @ '' failed''))
         | Inr a \<Rightarrow> gotrue_anyhow (check_response (gv_show G) a))"

definition gotrue_settings :: "'j gotrue_client \<Rightarrow> (bytes \<Rightarrow> string + GoTrueSettings) \<Rightarrow> GoTrueError + GoTrueSettings" where
  "gotrue_settings G parse =
     (let url = gv_base_url G @ ''/settings''
      in exchange G
           (\<lambda>a. case body_from_response (gv_show G) parse a of
                  Inl e \<Rightarrow> Err (GT_Unhandled (''calling '' @ url @ '' failed''))
                | Inr x \<Rightarrow> Ok x)
           (call GET url))"

definition gotrue_sign_up ::
  "'j gotrue_client \<Rightarrow> (bytes \<Rightarrow> string + 'j SignUpResponse) \<Rightarrow> string \<Rightarrow> string \<Rightarrow> string option \<Rightarrow> GoTrueError + 'j SignUpResponse" where
  "gotrue_sign_up G parse email password redirect_to =
     exchange G (to_gotrue_result G parse)
       (redirect_header redirect_to
         (json_body (GbFields [(''email'', email), (''password'', password)]) (call POST (gv_base_url G @ ''/signup''))))"

definition gotrue_token ::
  "'j gotrue_client \<Rightarrow> (bytes \<Rightarrow> string + 'j GotrueTokenResponse) \<Rightarrow> Grant \<Rightarrow> GoTrueError + 'j GotrueTokenResponse" where
  "gotrue_token G parse g =
     exchange G (read_token G parse)
       (json_body (GbFields (grant_json g)) (call POST (gv_base_url G @ ''/token?grant_type='' @ grant_type_str g)))"

definition gotrue_logout :: "'j gotrue_client \<Rightarrow> string \<Rightarrow> GoTrueError + unit" where
  "gotrue_logout G access_token =
     exchange G (\<lambda>a. gotrue_anyhow (check_response (gv_show G) a))
       (gotrue_with_auth POST (gv_base_url G @ ''/logout'') access_token)"

definition gotrue_user_info :: "'j gotrue_client \<Rightarrow> (bytes \<Rightarrow> string + 'j User) \<Rightarrow> string \<Rightarrow> GoTrueError + 'j User" where
  "gotrue_user_info G parse access_token =
     exchange G (to_gotrue_result G parse) (gotrue_with_auth GET (gv_base_url G @ ''/user'') access_token)"

text \<open>The answers of links and of single sign-on providers are passed on unread: their type is \<open>'a\<close>.\<close>

definition gotrue_update_user ::
  "'j gotrue_client \<Rightarrow> (bytes \<Rightarrow> string + 'j User) \<Rightarrow> string \<Rightarrow> 'j UpdateGotrueUserParams \<Rightarrow> GoTrueError + 'j User" where
  "gotrue_update_user G parse access_token p =
     exchange G (to_gotrue_result G parse)
       (json_body (GbUpdateUser p) (gotrue_with_auth PUT (gv_base_url G @ ''/user'') access_token))"

definition gotrue_list_user ::
  "'j gotrue_client \<Rightarrow> (bytes \<Rightarrow> string + 'j AdminListUsersResponse) \<Rightarrow> string \<Rightarrow> string option \<Rightarrow> GoTrueError + 'j AdminListUsersResponse" where
  "gotrue_list_user G parse access_token flt =
     exchange G (to_gotrue_result G parse)
       (let req = gotrue_with_auth GET (gv_base_url G @ ''/admin/users'') access_token
        in case flt of Some f \<Rightarrow> req\<lparr>hc_query := [(''filter'', f)]\<rparr> | None \<Rightarrow> req)"

definition gotrue_user_details ::
  "'j gotrue_client \<Rightarrow> (bytes \<Rightarrow> string + 'j User) \<Rightarrow> string \<Rightarrow> string \<Rightarrow> GoTrueError + 'j User" where
  "gotrue_user_details G parse access_token user_id =
     exchange G (to_gotrue_result G parse)
       (gotrue_with_auth GET (gv_base_url G @ ''/admin/users/'' @ user_id) access_token)"

definition gotrue_delete_user ::
  "'j gotrue_client \<Rightarrow> string \<Rightarrow> string \<Rightarrow> bool \<Rightarrow> GoTrueError + unit" where
  "gotrue_delete_user G access_token user_uuid should_soft_delete =
     exchange G (check_gotrue_result G)
       (json_body (GbDeleteUser should_soft_delete) (gotrue_with_auth DELETE (gv_base_url G @ ''/admin/users/'' @ user_uuid) access_token))"

definition gotrue_admin_update_user ::
  "'j gotrue_client \<Rightarrow> (bytes \<Rightarrow> string + 'j User) \<Rightarrow> string \<Rightarrow> string \<Rightarrow> 'j AdminUserParams \<Rightarrow> GoTrueError + 'j User" where
  "gotrue_admin_update_user G parse access_token user_uuid p =
     exchange G (to_gotrue_result G parse)
       (json_body (GbAdminUser p) (gotrue_with_auth PUT (gv_base_url G @ ''/admin/users/'' @ user_uuid) access_token))"

definition gotrue_invite_user ::
  "'j gotrue_client \<Rightarrow> (bytes \<Rightarrow> string + 'j User) \<Rightarrow> string \<Rightarrow> 'j InviteUserParams \<Rightarrow> GoTrueError + 'j User" where
  "gotrue_invite_user G parse access_token p =
     exchange G (to_gotrue_result G parse)
       (json_body (GbInvite p) (gotrue_with_auth POST (gv_base_url G @ ''/invite'') access_token))"

definition gotrue_add_user ::
  "'j gotrue_client \<Rightarrow> (bytes \<Rightarrow> string + 'j User) \<Rightarrow> string \<Rightarrow> 'j AdminUserParams \<Rightarrow> GoTrueError + 'j User" where
  "gotrue_add_user G parse access_token p =
     exchange G (to_gotrue_result G parse)
       (json_body (GbAdminUser p) (gotrue_with_auth POST (gv_base_url G @ ''/admin/users'') access_token))"

definition gotrue_generate_link ::
  "'j gotrue_client \<Rightarrow> (bytes \<Rightarrow> string + 'a) \<Rightarrow> string \<Rightarrow> 'j GenerateLinkParams \<Rightarrow> GoTrueError + 'a" where
  "gotrue_generate_link G parse access_token p =
     exchange G (to_gotrue_result G parse)
       (json_body (GbLink p) (gotrue_with_auth POST (gv_base_url G @ ''/admin/generate_link'') access_token))"

definition gotrue_magic_link ::
  "'j gotrue_client \<Rightarrow> 'j MagicLinkParams \<Rightarrow> string option \<Rightarrow> GoTrueError + unit" where
  "gotrue_magic_link G p redirect_to =
     exchange G (check_gotrue_result G)
       (json_body (GbMagicLink p) (redirect_header redirect_to (call POST (gv_base_url G @ ''/magiclink''))))"

definition gotrue_list_sso ::
  "'j gotrue_client \<Rightarrow> (bytes \<Rightarrow> string + 'a) \<Rightarrow> string \<Rightarrow> GoTrueError + 'a" where
  "gotrue_list_sso G parse access_token =
     exchange G (to_gotrue_result G parse)
       (gotrue_with_auth GET (gv_base_url G @ ''/admin/sso/providers'') access_token)"

definition gotrue_create_sso ::
  "'j gotrue_client \<Rightarrow> (bytes \<Rightarrow> string + 'a) \<Rightarrow> string \<Rightarrow> 'j CreateSSOProviderParams \<Rightarrow> GoTrueError + 'a" where
  "gotrue_create_sso G parse access_token p =
     exchange G (to_gotrue_result G parse)
       (json_body (GbSso p) (gotrue_with_auth POST (gv_base_url G @ ''/admin/sso/providers'') access_token))"

definition gotrue_get_sso ::
  "'j gotrue_client \<Rightarrow> (bytes \<Rightarrow> string + 'a) \<Rightarrow> string \<Rightarrow> string \<Rightarrow> GoTrueError + 'a" where
  "gotrue_get_sso G parse access_token idp_id =
     exchange G (to_gotrue_result G parse)
       (gotrue_with_auth GET (gv_base_url G @ ''/admin/sso/providers/'' @ idp_id) access_token)"

definition gotrue_update_sso ::
  "'j gotrue_client \<Rightarrow> (bytes \<Rightarrow> string + 'a) \<Rightarrow> string \<Rightarrow> string \<Rightarrow> 'j CreateSSOProviderParams \<Rightarrow> GoTrueError + 'a" where
  "gotrue_update_sso G parse access_token idp_id p =
     exchange G (to_gotrue_result G parse)
       (json_body (GbSso p) (gotrue_with_auth PUT (gv_base_url G @ ''/admin/sso/providers/'' @ idp_id) access_token))"

definition gotrue_delete_sso ::
  "'j gotrue_client \<Rightarrow> (bytes \<Rightarrow> string + 'a) \<Rightarrow> string \<Rightarrow> string \<Rightarrow> GoTrueError + 'a" where
  "gotrue_delete_sso G parse access_token idp_id =
     exchange G (to_gotrue_result G parse)
       (gotrue_with_auth DELETE (gv_base_url G @ ''/admin/sso/providers/'' @ idp_id) access_token)"

section \<open>The claims of a token\<close>

record 'j GoTrueJWTClaims =
  jw_aud :: "string option"
  jw_exp :: "int option"
  jw_jti :: "string option"
  jw_iat :: "int option"
  jw_iss :: "string option"
  jw_nbf :: "int option"
  jw_sub :: "string option"
  jw_email :: string
  jw_phone :: string
  jw_app_metadata :: 'j
  jw_user_metadata :: 'j
  jw_role :: string
  jw_aal :: "string option"
  jw_amr :: "(string \<times> u64 \<times> string option) list option"
  jw_session_id :: "string option"

datatype jwt_error = MissingRequiredClaim string | ExpiredSignature | JwtOther string

definition verify_claim :: "int \<Rightarrow> 'j GoTrueJWTClaims \<Rightarrow> jwt_error + unit" where
  "verify_claim ts_now claims =
     (case jw_exp claims of
        None \<Rightarrow> Err (MissingRequiredClaim ''expect exp but not found'')
      | Some ts_expiry \<Rightarrow> if ts_expiry < ts_now then Err ExpiredSignature else Ok ())"

section \<open>Properties\<close>

lemma provider_roundtrip: "provider_from (provider_str p) = Some p"
  by (cases p) (simp_all add: provider_from_def all_providers_def)

text \<open>
  A text names a provider exactly when it is that provider's text.
\<close>

theorem provider_names:
  "(provider_from s = Some p \<longleftrightarrow> provider_str p = s)"
  by (metis (mono_tags, lifting) provider_roundtrip provider_from_def find_Some_iff option.inject)

end
