(* ===== verification/Client_Token.thy ===== *)
theory Client_Token
  imports Gotrue
begin

text \<open>
  The token the client keeps (\<open>lib/client-api/src/notify.rs\<close>), its refresh with retries
  (\<open>native/retry.rs\<close>, \<open>native/http_native.rs\<close>), signing in and out, and the head of every request
  (\<open>lib/client-api/src/http.rs\<close>).

  \<open>refresh_token\<close> may run in several tasks at once: what it does between two accesses to the shared state is one
  step, and the steps are a relation.  Waiters are numbered.
\<close>

section \<open>\<open>ClientToken\<close>\<close>

datatype TokenState = TokenRefresh | TokenInvalid

record 'j ClientToken =
  tk_token :: "'j GotrueTokenResponse option"
  tk_sent :: "TokenState list"

definition ClientToken_new :: "'j ClientToken" where "ClientToken_new = \<lparr>tk_token = None, tk_sent = []\<rparr>"

definition token_is_empty :: "'j ClientToken \<Rightarrow> bool" where "token_is_empty t \<longleftrightarrow> tk_token t = None"

text \<open>\<open>to_json\<close> may fail.\<close>

definition token_try_get :: "('j GotrueTokenResponse \<Rightarrow> string + string) \<Rightarrow> 'j ClientToken \<Rightarrow> string + string" where
  "token_try_get to_json t = (case tk_token t of None \<Rightarrow> Err ''No access token'' | Some r \<Rightarrow> to_json r)"

definition token_set :: "'j GotrueTokenResponse \<Rightarrow> 'j ClientToken \<Rightarrow> 'j ClientToken" where
  "token_set new_token t =
     (case tk_token t of
        None \<Rightarrow> \<lparr>tk_token = Some new_token, tk_sent = tk_sent t @ [TokenRefresh]\<rparr>
      | Some old_token \<Rightarrow>
          (if gt_expires_at new_token < gt_expires_at old_token then t
           else \<lparr>tk_token = Some new_token, tk_sent = tk_sent t @ [TokenRefresh]\<rparr>))"

definition token_unset :: "'j ClientToken \<Rightarrow> 'j ClientToken" where
  "token_unset t =
     (if tk_token t \<noteq> None then \<lparr>tk_token = None, tk_sent = tk_sent t @ [TokenInvalid]\<rparr> else t)"

section \<open>One refresh\<close>

text \<open>What the service answers to a refresh token, at each try.\<close>

type_synonym 'j refresh_answers = "nat \<Rightarrow> string \<Rightarrow> GoTrueError + 'j GotrueTokenResponse"

definition refresh_action :: "(string \<Rightarrow> GoTrueError + 'j GotrueTokenResponse) \<Rightarrow> 'j ClientToken \<Rightarrow> (GoTrueError + unit) \<times> 'j ClientToken" where
  "refresh_action answer t =
     (case tk_token t of
        None \<Rightarrow> (Err (GT_NotLoggedIn ''fail to refresh user token''), t)
      | Some r \<Rightarrow>
          (case answer (gt_refresh_token r) of
             Inl e \<Rightarrow> (Err e, t)
           | Inr resp \<Rightarrow> (Ok (), token_set resp t)))"

text \<open>
  \<open>RetryIf\<close> with the delays of its strategy: another try after a delay while the error is one of the network and a delay
  is left.  The last component counts the tries.
\<close>

fun refresh_retry ::
  "'j refresh_answers \<Rightarrow> nat \<Rightarrow> nat \<Rightarrow> 'j ClientToken \<Rightarrow> (GoTrueError + unit) \<times> 'j ClientToken \<times> nat" where
  "refresh_retry answers i delays t =
     (case refresh_action (answers i) t of
        (Inr _, t1) \<Rightarrow> (Ok (), t1, i + 1)
      | (Inl e, t1) \<Rightarrow>
          (case delays of
             0 \<Rightarrow> (Err e, t1, i + 1)
           | Suc n \<Rightarrow> if gotrue_is_network_error e then refresh_retry answers (i + 1) n t1 else (Err e, t1, i + 1)))"

declare refresh_retry.simps [simp del]

definition inner_refresh_token ::
  "(string option \<Rightarrow> string) \<Rightarrow> 'j refresh_answers \<Rightarrow> 'j ClientToken \<Rightarrow> (AppError + unit) \<times> 'j ClientToken" where
  "inner_refresh_token dbg answers t =
     (case refresh_retry answers 0 4 t of
        (Inr _, t1, _) \<Rightarrow> (Ok (), t1)
      | (Inl e, t1, _) \<Rightarrow>
          (let err = app_error_from_gotrue dbg e
           in (Err err, if is_unauthorized err then token_unset t1 else t1)))"

section \<open>Many refreshes at once\<close>

text \<open>Where a call of \<open>refresh_token\<close> is: after pushing its sender, after finding that nobody refreshes, refreshing,
  with a result, with the waiters taken and answered, waiting, and done (\<open>None\<close> when it timed out).\<close>

datatype refresh_phase =
    PhPushed
  | PhFree
  | PhRefreshing
  | PhResult "AppError + unit"
  | PhAnswered
  | PhWaiting
  | PhDone "(AppError + unit) option"

text \<open>\<open>rf_txs\<close> are the waiters whose senders are in the list, \<open>rf_received\<close> what was sent to each.\<close>

record 'j refresh_state =
  rf_token :: "'j ClientToken"
  rf_refreshing :: bool
  rf_txs :: "nat list"
  rf_received :: "nat \<Rightarrow> (AppError + unit) option"
  rf_calls :: "nat \<Rightarrow> refresh_phase option"

definition refresh_start :: "'j ClientToken \<Rightarrow> 'j refresh_state" where
  "refresh_start t =
     \<lparr>rf_token = t, rf_refreshing = False, rf_txs = [], rf_received = (\<lambda>_. None), rf_calls = (\<lambda>_. None)\<rparr>"

definition set_phase :: "nat \<Rightarrow> refresh_phase \<Rightarrow> 'j refresh_state \<Rightarrow> 'j refresh_state" where
  "set_phase i ph s = s\<lparr>rf_calls := (rf_calls s)(i \<mapsto> ph)\<rparr>"

definition refresh_push :: "nat \<Rightarrow> 'j refresh_state \<Rightarrow> 'j refresh_state" where
  "refresh_push i s = set_phase i PhPushed (s\<lparr>rf_txs := rf_txs s @ [i]\<rparr>)"

definition refresh_load :: "nat \<Rightarrow> 'j refresh_state \<Rightarrow> 'j refresh_state" where
  "refresh_load i s = set_phase i (if rf_refreshing s then PhWaiting else PhFree) s"

definition refresh_store :: "nat \<Rightarrow> 'j refresh_state \<Rightarrow> 'j refresh_state" where
  "refresh_store i s = set_phase i PhRefreshing (s\<lparr>rf_refreshing := True\<rparr>)"

definition refresh_inner :: "(string option \<Rightarrow> string) \<Rightarrow> 'j refresh_answers \<Rightarrow> nat \<Rightarrow> 'j refresh_state \<Rightarrow> 'j refresh_state" where
  "refresh_inner dbg answers i s =
     (case inner_refresh_token dbg answers (rf_token s) of (r, t) \<Rightarrow> set_phase i (PhResult r) (s\<lparr>rf_token := t\<rparr>))"

definition refresh_answer :: "nat \<Rightarrow> AppError + unit \<Rightarrow> 'j refresh_state \<Rightarrow> 'j refresh_state" where
  "refresh_answer i r s =
     set_phase i PhAnswered
       (s\<lparr>rf_received := (\<lambda>j. if j \<in> set (rf_txs s) then Some r else rf_received s j), rf_txs := []\<rparr>)"

definition refresh_reset :: "nat \<Rightarrow> 'j refresh_state \<Rightarrow> 'j refresh_state" where
  "refresh_reset i s = set_phase i PhWaiting (s\<lparr>rf_refreshing := False\<rparr>)"

inductive refresh_step :: "(string option \<Rightarrow> string) \<Rightarrow> 'j refresh_state \<Rightarrow> 'j refresh_state \<Rightarrow> bool"
  for dbg :: "string option \<Rightarrow> string" where
  RefPush: "rf_calls s i = None \<Longrightarrow> refresh_step dbg s (refresh_push i s)"
| RefLoad: "rf_calls s i = Some PhPushed \<Longrightarrow> refresh_step dbg s (refresh_load i s)"
| RefStore: "rf_calls s i = Some PhFree \<Longrightarrow> refresh_step dbg s (refresh_store i s)"
| RefInner: "rf_calls s i = Some PhRefreshing \<Longrightarrow> refresh_step dbg s (refresh_inner dbg answers i s)"
| RefAnswer: "rf_calls s i = Some (PhResult r) \<Longrightarrow> refresh_step dbg s (refresh_answer i r s)"
| RefReset: "rf_calls s i = Some PhAnswered \<Longrightarrow> refresh_step dbg s (refresh_reset i s)"
| RefReceive: "rf_calls s i = Some PhWaiting \<Longrightarrow> rf_received s i = Some r \<Longrightarrow> refresh_step dbg s (set_phase i (PhDone (Some r)) s)"
| RefTimeout: "rf_calls s i = Some PhWaiting \<Longrightarrow> rf_received s i = None \<Longrightarrow> refresh_step dbg s (set_phase i (PhDone None) s)"

inductive refresh_reachable :: "(string option \<Rightarrow> string) \<Rightarrow> 'j ClientToken \<Rightarrow> 'j refresh_state \<Rightarrow> bool"
  for dbg :: "string option \<Rightarrow> string" and t :: "'j ClientToken" where
  RefStart: "refresh_reachable dbg t (refresh_start t)"
| RefStep: "refresh_reachable dbg t s \<Longrightarrow> refresh_step dbg s s' \<Longrightarrow> refresh_reachable dbg t s'"

text \<open>What a call returns.\<close>

definition refresh_result :: "(AppError + unit) option \<Rightarrow> AppError + unit" where
  "refresh_result r = (case r of Some x \<Rightarrow> x | None \<Rightarrow> Err (AE_RequestTimeout ''refresh token timeout''))"

section \<open>Tokens of requests\<close>

text \<open>\<open>readable\<close> tells whether the lock is taken in time.\<close>

definition token_expires_at :: "bool \<Rightarrow> 'j ClientToken \<Rightarrow> AppError + int" where
  "token_expires_at readable t =
     (if \<not> readable then Err (AE_Unhandled ''Failed to read token'')
      else (case tk_token t of None \<Rightarrow> Err (AE_NotLoggedIn ''token is empty'') | Some r \<Rightarrow> Ok (gt_expires_at r)))"

definition access_token :: "bool \<Rightarrow> 'j ClientToken \<Rightarrow> AppError + string" where
  "access_token readable t =
     (if \<not> readable then Err (AE_Unhandled ''Failed to read token'')
      else
        (case tk_token t of
           None \<Rightarrow> Err (AE_NotLoggedIn ''fail to get access token. Token is empty'')
         | Some r \<Rightarrow> Ok (gt_access_token r)))"

text \<open>A refresh that nothing runs beside.\<close>

definition refresh_token_alone ::
  "(string option \<Rightarrow> string) \<Rightarrow> 'j refresh_answers \<Rightarrow> 'j ClientToken \<Rightarrow> (AppError + unit) \<times> 'j ClientToken" where
  "refresh_token_alone dbg answers t = inner_refresh_token dbg answers t"

definition refresh_if_expired ::
  "(string option \<Rightarrow> string) \<Rightarrow> 'j refresh_answers \<Rightarrow> bool \<Rightarrow> int \<Rightarrow> 'j ClientToken \<Rightarrow> (AppError + unit) \<times> 'j ClientToken" where
  "refresh_if_expired dbg answers readable ts t =
     (case token_expires_at readable t of
        Inl e \<Rightarrow> (Err e, t)
      | Inr expires_at \<Rightarrow>
          (if expires_at < ts + 30 then refresh_token_alone dbg answers t else (Ok (), t)))"

record 'v api_config =
  ac_base_url :: string
  ac_ws_addr :: string
  ac_gotrue_url :: string
  ac_device_id :: string
  ac_client_version :: 'v
  ac_compression_quality :: u32
  ac_compression_buffer_size :: nat

definition with_compression_quality :: "u32 \<Rightarrow> 'v api_config \<Rightarrow> 'v api_config" where
  "with_compression_quality q c = c\<lparr>ac_compression_quality := (if 11 < q then 11 else q)\<rparr>"

definition with_compression_buffer_size :: "nat \<Rightarrow> 'v api_config \<Rightarrow> 'v api_config" where
  "with_compression_buffer_size n c = c\<lparr>ac_compression_buffer_size := n\<rparr>"

definition http_client_with_auth ::
  "('v \<Rightarrow> string) \<Rightarrow> 'v api_config \<Rightarrow> (string option \<Rightarrow> string) \<Rightarrow> 'j refresh_answers \<Rightarrow> bool \<Rightarrow> bool \<Rightarrow> int \<Rightarrow> Method \<Rightarrow> string \<Rightarrow>
     'j ClientToken \<Rightarrow> (AppError + 'b http_call) \<times> 'j ClientToken" where
  "http_client_with_auth show_version C dbg answers readable1 readable2 ts_now m url t =
     (case refresh_if_expired dbg answers readable1 ts_now t of
        (Inl e, t1) \<Rightarrow> (Err e, t1)
      | (Inr _, t1) \<Rightarrow>
          (case access_token readable2 t1 of
             Inl e \<Rightarrow> (Err e, t1)
           | Inr tok \<Rightarrow>
               (Ok ((call m url)\<lparr>hc_headers := [(''client-version'', show_version (ac_client_version C)),
                       (''client-timestamp'', int_to_string ts_now), (''device_id'', ac_device_id C)],
                     hc_bearer := Some tok\<rparr>), t1)))"

definition compress_headers :: "'v api_config \<Rightarrow> 'b http_call \<Rightarrow> 'b http_call" where
  "compress_headers C r =
     r\<lparr>hc_headers := hc_headers r @ [(''X-Compression-Type'', ''brotli''),
         (''X-Compression-Buffer-Size'', int_to_string (int (ac_compression_buffer_size C)))]\<rparr>"

section \<open>Signing in and out\<close>

text \<open>\<open>verify\<close> is the outcome of \<open>verify_token_cloud\<close>: whether the user is new.\<close>

definition sign_in_password ::
  "(string option \<Rightarrow> string) \<Rightarrow> GoTrueError + 'j GotrueTokenResponse \<Rightarrow> (string \<Rightarrow> AppError + bool) \<Rightarrow> 'j ClientToken \<Rightarrow>
     (AppError + bool) \<times> 'j ClientToken" where
  "sign_in_password dbg answer verify t =
     (case answer of
        Inl e \<Rightarrow> (Err (app_error_from_gotrue dbg e), t)
      | Inr resp \<Rightarrow>
          (case verify (gt_access_token resp) of
             Inl e \<Rightarrow> (Err e, t)
           | Inr is_new \<Rightarrow> (Ok is_new, token_set resp t)))"

definition client_sign_up ::
  "(string option \<Rightarrow> string) \<Rightarrow> GoTrueError + 'j SignUpResponse \<Rightarrow> 'j ClientToken \<Rightarrow> (AppError + unit) \<times> 'j ClientToken" where
  "client_sign_up dbg answer t =
     (case answer of
        Inl e \<Rightarrow> (Err (app_error_from_gotrue dbg e), t)
      | Inr (Authenticated resp) \<Rightarrow> (Ok (), token_set resp t)
      | Inr (NotAuthenticated user) \<Rightarrow> (Ok (), t))"

definition sign_out ::
  "(string option \<Rightarrow> string) \<Rightarrow> bool \<Rightarrow> GoTrueError + unit \<Rightarrow> 'j ClientToken \<Rightarrow> (AppError + unit) \<times> 'j ClientToken" where
  "sign_out dbg readable answer t =
     (case access_token readable t of
        Inl e \<Rightarrow> (Err e, t)
      | Inr tok \<Rightarrow>
          (case answer of
             Inl e \<Rightarrow> (Err (app_error_from_gotrue dbg e), t)
           | Inr _ \<Rightarrow> (Ok (), token_unset t)))"

definition restore_token :: "(string \<Rightarrow> string + 'j GotrueTokenResponse) \<Rightarrow> string \<Rightarrow> 'j ClientToken \<Rightarrow> (AppError + unit) \<times> 'j ClientToken" where
  "restore_token parse token t =
     (case parse token of Inl e \<Rightarrow> (Err (AE_SerdeError e), t) | Inr r \<Rightarrow> (Ok (), token_set r t))"

text \<open>\<open>sign_in_with_url\<close>: the value of the first \<open>refresh_token\<close> of the fragment.\<close>

fun split_on :: "char \<Rightarrow> string \<Rightarrow> string list" where
  "split_on c [] = [[]]"
| "split_on c (x # xs) =
     (if x = c then [] # split_on c xs
      else case split_on c xs of [] \<Rightarrow> [[x]] | s # ss \<Rightarrow> (x # s) # ss)"

fun split_once :: "char \<Rightarrow> string \<Rightarrow> (string \<times> string) option" where
  "split_once c [] = None"
| "split_once c (x # xs) =
     (if x = c then Some ([], xs) else (case split_once c xs of None \<Rightarrow> None | Some (a, b) \<Rightarrow> Some (x # a, b)))"

fun find_param :: "string \<Rightarrow> string list \<Rightarrow> string option" where
  "find_param k [] = None"
| "find_param k (p # ps) =
     (case split_once (CHR ''='') p of
        Some (a, v) \<Rightarrow> if a = k then Some v else find_param k ps
      | None \<Rightarrow> find_param k ps)"

definition url_missing_param :: "string \<Rightarrow> AppError" where
  "url_missing_param p = AE_InvalidRequest (''Url Missing Parameter:'' @ p)"

text \<open>\<open>fragment\<close> is what the \<open>url\<close> crate finds in the text; \<open>verify\<close> asks both services about the new token.\<close>

definition sign_in_with_url ::
  "(string option \<Rightarrow> string) \<Rightarrow> (string \<Rightarrow> string + string option) \<Rightarrow> (string \<Rightarrow> GoTrueError + 'j GotrueTokenResponse) \<Rightarrow>
     (string \<Rightarrow> AppError + bool) \<Rightarrow> string \<Rightarrow> 'j ClientToken \<Rightarrow> (AppError + bool) \<times> 'j ClientToken" where
  "sign_in_with_url dbg fragment answer verify url t =
     (case fragment url of
        Inl e \<Rightarrow> (Err (AE_UrlError e), t)
      | Inr None \<Rightarrow> (Err (url_missing_param ''fragment''), t)
      | Inr (Some f) \<Rightarrow>
          (case find_param ''refresh_token'' (split_on (CHR ''&'') f) of
             None \<Rightarrow> (Err (url_missing_param ''refresh_token''), t)
           | Some refresh_token \<Rightarrow>
               (case answer refresh_token of
                  Inl e \<Rightarrow> (Err (app_error_from_gotrue dbg e), t)
                | Inr new_token \<Rightarrow>
                    (case verify (gt_access_token new_token) of
                       Inl e \<Rightarrow> (Err e, t)
                     | Inr new \<Rightarrow> (Ok new, token_set new_token t)))))"

end
