(* ===== verification/Api_Client.thy ===== *)
theory Api_Client
  imports Client_Token Api_Workspace File_Storage Http_Access Ws_Client
begin

text \<open>
  The client of the API (\<open>lib/client-api/src/http.rs\<close>, \<open>native/http_native.rs\<close>): one request and one reading of the
  answer per method.  Sending is \<open>reqwest\<close>'s and a field of the client, parsing an answer is an argument of the
  method, and the type of what an answer carries is the parser's.
\<close>

section \<open>The client\<close>

text \<open>The JSON bodies by what they are made of, and raw bytes.\<close>

datatype ('t, 'j) api_body =
    BUnit
  | BCreateWorkspace CreateWorkspaceParam
  | BPatchWorkspace PatchWorkspaceParam
  | BInvitations "WorkspaceMemberInvitation list"
  | BMembers "CreateWorkspaceMember list"
  | BChangeset WorkspaceMemberChangeset
  | BEmails "string list"
  | BUpdateUser "'j UpdateUserParams"
  | BCreateCollab "'t CreateCollabParams"
  | BQueryCollab "'t QueryCollabParams"
  | BBatchQuery "'t QueryCollab list"
  | BDeleteCollab DeleteCollabParams
  | BCollabMember InsertCollabMemberParams
  | BMemberIdentify CollabMemberIdentify
  | BQueryMembers QueryCollabMembers
  | BQuerySnapshot int
  | BCollabType 't
  | BBytes bytes

text \<open>The clock, whether the lock of the token is taken in time, and what the services answer.\<close>

record ('t, 'j, 'v) api_client =
  cl_config :: "'v api_config"
  cl_show_version :: "'v \<Rightarrow> string"
  cl_wasm :: bool
  cl_show :: show_env
  cl_now :: int
  cl_readable1 :: bool
  cl_readable2 :: bool
  cl_answers :: "'j refresh_answers"
  cl_send :: "('t, 'j) api_body http_call \<Rightarrow> reqwest_error + http_answer"
  cl_gotrue :: "'j gotrue_client"

text \<open>A method's request: how, where and with what; it may be compressed, then it says so in its headers.\<close>

record ('t, 'j) api_request =
  aq_method :: Method
  aq_url :: string
  aq_query :: "(string \<times> string) list"
  aq_headers :: "(string \<times> string) list"
  aq_body :: "('t, 'j) api_body option"
  aq_compressed :: bool

definition plain_request :: "Method \<Rightarrow> string \<Rightarrow> ('t, 'j) api_body option \<Rightarrow> ('t, 'j) api_request" where
  "plain_request m url body = \<lparr>aq_method = m, aq_url = url, aq_query = [], aq_headers = [], aq_body = body, aq_compressed = False\<rparr>"

definition build_call :: "'v api_config \<Rightarrow> ('t, 'j) api_request \<Rightarrow> ('t, 'j) api_body http_call \<Rightarrow> ('t, 'j) api_body http_call" where
  "build_call c q r =
     (let r1 = (if aq_compressed q then compress_headers c r else r)
      in r1\<lparr>hc_query := aq_query q, hc_headers := hc_headers r1 @ aq_headers q, hc_body := aq_body q\<rparr>)"

definition api_call ::
  "('t, 'j, 'v) api_client \<Rightarrow> ('t, 'j) api_request \<Rightarrow> (http_answer \<Rightarrow> AppResponseError + 'a) \<Rightarrow> 'j ClientToken \<Rightarrow>
     (AppResponseError + 'a) \<times> 'j ClientToken" where
  "api_call C q read t =
     (case http_client_with_auth (cl_show_version C) (cl_config C) (sw_dbg (cl_show C)) (cl_answers C) (cl_readable1 C)
         (cl_readable2 C) (cl_now C) (aq_method q) (aq_url q) t of
        (Inl e, t1) \<Rightarrow> (Err (app_response_error_from e), t1)
      | (Inr r, t1) \<Rightarrow>
          (case cl_send C (build_call (cl_config C) q r) of
             Inl e \<Rightarrow> (Err (app_response_error_from (app_error_from_reqwest (cl_wasm C) e)), t1)
           | Inr a \<Rightarrow> (read a, t1)))"

definition read_response ::
  "('t, 'j, 'v) api_client \<Rightarrow> (bytes \<Rightarrow> string + 'a AppResponse) \<Rightarrow> http_answer \<Rightarrow> AppResponseError + 'a AppResponse" where
  "read_response C parse a =
     (case an_body a of
        Inl e \<Rightarrow> Err (app_response_error_from (AE_Internal (re_text e)))
      | Inr body \<Rightarrow>
          (case from_response parse (sw_status (cl_show C)) (sw_lossy (cl_show C)) (an_status a) body of
             Inl e \<Rightarrow> Err (app_response_error_from (AE_Internal e))
           | Inr r \<Rightarrow> Ok r))"

definition read_data :: "('t, 'j, 'v) api_client \<Rightarrow> (bytes \<Rightarrow> string + 'a AppResponse) \<Rightarrow> http_answer \<Rightarrow> AppResponseError + 'a" where
  "read_data C parse a = (case read_response C parse a of Inl e \<Rightarrow> Err e | Inr r \<Rightarrow> into_data r)"

definition read_unit :: "('t, 'j, 'v) api_client \<Rightarrow> (bytes \<Rightarrow> string + unit AppResponse) \<Rightarrow> http_answer \<Rightarrow> AppResponseError + unit" where
  "read_unit C parse a = (case read_response C parse a of Inl e \<Rightarrow> Err e | Inr r \<Rightarrow> into_error r)"

abbreviation base :: "('t, 'j, 'v) api_client \<Rightarrow> string" where "base C \<equiv> ac_base_url (cl_config C)"

section \<open>User and workspaces\<close>

definition get_profile_request :: "('t, 'j, 'v) api_client \<Rightarrow> ('t, 'j) api_request" where
  "get_profile_request C =
     plain_request GET (base C @ ''/api/user/profile'') None"

definition api_get_profile ::
  "('t, 'j, 'v) api_client \<Rightarrow> (bytes \<Rightarrow> string + 'a AppResponse) \<Rightarrow> 'j ClientToken \<Rightarrow> (AppResponseError + 'a) \<times> 'j ClientToken" where
  "api_get_profile C parse t = api_call C (get_profile_request C) (read_data C parse) t"

definition get_user_workspace_info_request :: "('t, 'j, 'v) api_client \<Rightarrow> ('t, 'j) api_request" where
  "get_user_workspace_info_request C =
     plain_request GET (base C @ ''/api/user/workspace'') None"

definition api_get_user_workspace_info ::
  "('t, 'j, 'v) api_client \<Rightarrow> (bytes \<Rightarrow> string + 'a AppResponse) \<Rightarrow> 'j ClientToken \<Rightarrow> (AppResponseError + 'a) \<times> 'j ClientToken" where
  "api_get_user_workspace_info C parse t = api_call C (get_user_workspace_info_request C) (read_data C parse) t"

definition delete_workspace_request :: "('t, 'j, 'v) api_client \<Rightarrow> string \<Rightarrow> ('t, 'j) api_request" where
  "delete_workspace_request C ws =
     plain_request DELETE (base C @ ''/api/workspace/'' @ ws) None"

definition api_delete_workspace ::
  "('t, 'j, 'v) api_client \<Rightarrow> (bytes \<Rightarrow> string + unit AppResponse) \<Rightarrow> string \<Rightarrow> 'j ClientToken \<Rightarrow> (AppResponseError + unit) \<times> 'j ClientToken" where
  "api_delete_workspace C parse ws t = api_call C (delete_workspace_request C ws) (read_unit C parse) t"

definition create_workspace_request :: "('t, 'j, 'v) api_client \<Rightarrow> CreateWorkspaceParam \<Rightarrow> ('t, 'j) api_request" where
  "create_workspace_request C p =
     plain_request POST (base C @ ''/api/workspace'') (Some (BCreateWorkspace p))"

definition api_create_workspace ::
  "('t, 'j, 'v) api_client \<Rightarrow> (bytes \<Rightarrow> string + 'a AppResponse) \<Rightarrow> CreateWorkspaceParam \<Rightarrow> 'j ClientToken \<Rightarrow> (AppResponseError + 'a) \<times> 'j ClientToken" where
  "api_create_workspace C parse p t = api_call C (create_workspace_request C p) (read_data C parse) t"

definition patch_workspace_request :: "('t, 'j, 'v) api_client \<Rightarrow> PatchWorkspaceParam \<Rightarrow> ('t, 'j) api_request" where
  "patch_workspace_request C p =
     plain_request (OtherMethod ''PATCH'') (base C @ ''/api/workspace'') (Some (BPatchWorkspace p))"

definition api_patch_workspace ::
  "('t, 'j, 'v) api_client \<Rightarrow> (bytes \<Rightarrow> string + unit AppResponse) \<Rightarrow> PatchWorkspaceParam \<Rightarrow> 'j ClientToken \<Rightarrow> (AppResponseError + unit) \<times> 'j ClientToken" where
  "api_patch_workspace C parse p t = api_call C (patch_workspace_request C p) (read_unit C parse) t"

definition get_workspaces_request :: "('t, 'j, 'v) api_client \<Rightarrow> ('t, 'j) api_request" where
  "get_workspaces_request C =
     plain_request GET (base C @ ''/api/workspace'') None"

definition api_get_workspaces ::
  "('t, 'j, 'v) api_client \<Rightarrow> (bytes \<Rightarrow> string + 'a AppResponse) \<Rightarrow> 'j ClientToken \<Rightarrow> (AppResponseError + 'a) \<times> 'j ClientToken" where
  "api_get_workspaces C parse t = api_call C (get_workspaces_request C) (read_data C parse) t"

definition open_workspace_request :: "('t, 'j, 'v) api_client \<Rightarrow> string \<Rightarrow> ('t, 'j) api_request" where
  "open_workspace_request C ws =
     plain_request PUT (base C @ ''/api/workspace/'' @ ws @ ''/open'') None"

definition api_open_workspace ::
  "('t, 'j, 'v) api_client \<Rightarrow> (bytes \<Rightarrow> string + 'a AppResponse) \<Rightarrow> string \<Rightarrow> 'j ClientToken \<Rightarrow> (AppResponseError + 'a) \<times> 'j ClientToken" where
  "api_open_workspace C parse ws t = api_call C (open_workspace_request C ws) (read_data C parse) t"

definition leave_workspace_request :: "('t, 'j, 'v) api_client \<Rightarrow> string \<Rightarrow> ('t, 'j) api_request" where
  "leave_workspace_request C ws =
     plain_request POST (base C @ ''/api/workspace/'' @ ws @ ''/leave'') (Some BUnit)"

definition api_leave_workspace ::
  "('t, 'j, 'v) api_client \<Rightarrow> (bytes \<Rightarrow> string + unit AppResponse) \<Rightarrow> string \<Rightarrow> 'j ClientToken \<Rightarrow> (AppResponseError + unit) \<times> 'j ClientToken" where
  "api_leave_workspace C parse ws t = api_call C (leave_workspace_request C ws) (read_unit C parse) t"

definition get_workspace_members_request :: "('t, 'j, 'v) api_client \<Rightarrow> string \<Rightarrow> ('t, 'j) api_request" where
  "get_workspace_members_request C ws =
     plain_request GET (base C @ ''/api/workspace/'' @ ws @ ''/member'') None"

definition api_get_workspace_members ::
  "('t, 'j, 'v) api_client \<Rightarrow> (bytes \<Rightarrow> string + 'a AppResponse) \<Rightarrow> string \<Rightarrow> 'j ClientToken \<Rightarrow> (AppResponseError + 'a) \<times> 'j ClientToken" where
  "api_get_workspace_members C parse ws t = api_call C (get_workspace_members_request C ws) (read_data C parse) t"

definition invite_workspace_members_request :: "('t, 'j, 'v) api_client \<Rightarrow> string \<Rightarrow> WorkspaceMemberInvitation list \<Rightarrow> ('t, 'j) api_request" where
  "invite_workspace_members_request C ws ps =
     plain_request POST (base C @ ''/api/workspace/'' @ ws @ ''/invite'') (Some (BInvitations ps))"

definition api_invite_workspace_members ::
  "('t, 'j, 'v) api_client \<Rightarrow> (bytes \<Rightarrow> string + unit AppResponse) \<Rightarrow> string \<Rightarrow> WorkspaceMemberInvitation list \<Rightarrow> 'j ClientToken \<Rightarrow> (AppResponseError + unit) \<times> 'j ClientToken" where
  "api_invite_workspace_members C parse ws ps t = api_call C (invite_workspace_members_request C ws ps) (read_unit C parse) t"

fun invitation_status_str :: "AFWorkspaceInvitationStatus \<Rightarrow> string" where
  "invitation_status_str InvPending = ''Pending''"
| "invitation_status_str InvAccepted = ''Accepted''"
| "invitation_status_str InvRejected = ''Rejected''"

definition list_workspace_invitations_request :: "('t, 'j, 'v) api_client \<Rightarrow> AFWorkspaceInvitationStatus option \<Rightarrow> ('t, 'j) api_request" where
  "list_workspace_invitations_request C status =
     (plain_request GET (base C @ ''/api/workspace/invite'') None)
       \<lparr>aq_query := (case status of Some s \<Rightarrow> [(''status'', invitation_status_str s)] | None \<Rightarrow> [])\<rparr>"

definition api_list_workspace_invitations ::
  "('t, 'j, 'v) api_client \<Rightarrow> (bytes \<Rightarrow> string + 'a AppResponse) \<Rightarrow> AFWorkspaceInvitationStatus option \<Rightarrow> 'j ClientToken \<Rightarrow> (AppResponseError + 'a) \<times> 'j ClientToken" where
  "api_list_workspace_invitations C parse status t = api_call C (list_workspace_invitations_request C status) (read_data C parse) t"

definition accept_workspace_invitation_request :: "('t, 'j, 'v) api_client \<Rightarrow> string \<Rightarrow> ('t, 'j) api_request" where
  "accept_workspace_invitation_request C invite_id =
     plain_request POST (base C @ ''/api/workspace/accept-invite/'' @ invite_id) (Some BUnit)"

definition api_accept_workspace_invitation ::
  "('t, 'j, 'v) api_client \<Rightarrow> (bytes \<Rightarrow> string + unit AppResponse) \<Rightarrow> string \<Rightarrow> 'j ClientToken \<Rightarrow> (AppResponseError + unit) \<times> 'j ClientToken" where
  "api_accept_workspace_invitation C parse invite_id t = api_call C (accept_workspace_invitation_request C invite_id) (read_unit C parse) t"

definition add_workspace_members_request :: "('t, 'j, 'v) api_client \<Rightarrow> string \<Rightarrow> CreateWorkspaceMember list \<Rightarrow> ('t, 'j) api_request" where
  "add_workspace_members_request C ws ps =
     plain_request POST (base C @ ''/api/workspace/'' @ ws @ ''/member'') (Some (BMembers ps))"

definition api_add_workspace_members ::
  "('t, 'j, 'v) api_client \<Rightarrow> (bytes \<Rightarrow> string + unit AppResponse) \<Rightarrow> string \<Rightarrow> CreateWorkspaceMember list \<Rightarrow> 'j ClientToken \<Rightarrow> (AppResponseError + unit) \<times> 'j ClientToken" where
  "api_add_workspace_members C parse ws ps t = api_call C (add_workspace_members_request C ws ps) (read_unit C parse) t"

definition update_workspace_member_request :: "('t, 'j, 'v) api_client \<Rightarrow> string \<Rightarrow> WorkspaceMemberChangeset \<Rightarrow> ('t, 'j) api_request" where
  "update_workspace_member_request C ws p =
     plain_request PUT (base C @ ''/api/workspace/'' @ ws @ ''/member'') (Some (BChangeset p))"

definition api_update_workspace_member ::
  "('t, 'j, 'v) api_client \<Rightarrow> (bytes \<Rightarrow> string + unit AppResponse) \<Rightarrow> string \<Rightarrow> WorkspaceMemberChangeset \<Rightarrow> 'j ClientToken \<Rightarrow> (AppResponseError + unit) \<times> 'j ClientToken" where
  "api_update_workspace_member C parse ws p t = api_call C (update_workspace_member_request C ws p) (read_unit C parse) t"

definition remove_workspace_members_request :: "('t, 'j, 'v) api_client \<Rightarrow> string \<Rightarrow> string list \<Rightarrow> ('t, 'j) api_request" where
  "remove_workspace_members_request C ws emails =
     plain_request DELETE (base C @ ''/api/workspace/'' @ ws @ ''/member'') (Some (BEmails emails))"

definition api_remove_workspace_members ::
  "('t, 'j, 'v) api_client \<Rightarrow> (bytes \<Rightarrow> string + unit AppResponse) \<Rightarrow> string \<Rightarrow> string list \<Rightarrow> 'j ClientToken \<Rightarrow> (AppResponseError + unit) \<times> 'j ClientToken" where
  "api_remove_workspace_members C parse ws emails t = api_call C (remove_workspace_members_request C ws emails) (read_unit C parse) t"

section \<open>Documents\<close>

definition get_snapshot_list_request :: "('t, 'j, 'v) api_client \<Rightarrow> string \<Rightarrow> string \<Rightarrow> ('t, 'j) api_request" where
  "get_snapshot_list_request C ws oid =
     plain_request GET (base C @ ''/api/workspace/'' @ ws @ ''/'' @ oid @ ''/snapshot/list'') None"

definition api_get_snapshot_list ::
  "('t, 'j, 'v) api_client \<Rightarrow> (bytes \<Rightarrow> string + 'a AppResponse) \<Rightarrow> string \<Rightarrow> string \<Rightarrow> 'j ClientToken \<Rightarrow> (AppResponseError + 'a) \<times> 'j ClientToken" where
  "api_get_snapshot_list C parse ws oid t = api_call C (get_snapshot_list_request C ws oid) (read_data C parse) t"

definition get_snapshot_request :: "('t, 'j, 'v) api_client \<Rightarrow> string \<Rightarrow> string \<Rightarrow> int \<Rightarrow> ('t, 'j) api_request" where
  "get_snapshot_request C ws oid snapshot_id =
     plain_request GET (base C @ ''/api/workspace/'' @ ws @ ''/'' @ oid @ ''/snapshot'') (Some (BQuerySnapshot snapshot_id))"

definition api_get_snapshot ::
  "('t, 'j, 'v) api_client \<Rightarrow> (bytes \<Rightarrow> string + 'a AppResponse) \<Rightarrow> string \<Rightarrow> string \<Rightarrow> int \<Rightarrow> 'j ClientToken \<Rightarrow> (AppResponseError + 'a) \<times> 'j ClientToken" where
  "api_get_snapshot C parse ws oid snapshot_id t = api_call C (get_snapshot_request C ws oid snapshot_id) (read_data C parse) t"

definition create_snapshot_request :: "('t, 'j, 'v) api_client \<Rightarrow> string \<Rightarrow> string \<Rightarrow> 't \<Rightarrow> ('t, 'j) api_request" where
  "create_snapshot_request C ws oid collab_type =
     plain_request POST (base C @ ''/api/workspace/'' @ ws @ ''/'' @ oid @ ''/snapshot'') (Some (BCollabType collab_type))"

definition api_create_snapshot ::
  "('t, 'j, 'v) api_client \<Rightarrow> (bytes \<Rightarrow> string + 'a AppResponse) \<Rightarrow> string \<Rightarrow> string \<Rightarrow> 't \<Rightarrow> 'j ClientToken \<Rightarrow> (AppResponseError + 'a) \<times> 'j ClientToken" where
  "api_create_snapshot C parse ws oid collab_type t = api_call C (create_snapshot_request C ws oid collab_type) (read_data C parse) t"

definition update_collab_request :: "('t, 'j, 'v) api_client \<Rightarrow> 't CreateCollabParams \<Rightarrow> ('t, 'j) api_request" where
  "update_collab_request C p =
     plain_request PUT (base C @ ''/api/workspace/'' @ cc_workspace_id p @ ''/collab/'' @ cc_object_id p) (Some (BCreateCollab p))"

definition api_update_collab ::
  "('t, 'j, 'v) api_client \<Rightarrow> (bytes \<Rightarrow> string + unit AppResponse) \<Rightarrow> 't CreateCollabParams \<Rightarrow> 'j ClientToken \<Rightarrow> (AppResponseError + unit) \<times> 'j ClientToken" where
  "api_update_collab C parse p t = api_call C (update_collab_request C p) (read_unit C parse) t"

definition get_collab_request :: "('t, 'j, 'v) api_client \<Rightarrow> 't QueryCollabParams \<Rightarrow> ('t, 'j) api_request" where
  "get_collab_request C p =
     plain_request GET (base C @ ''/api/workspace/'' @ qp_workspace_id p @ ''/collab/'' @ qc_object_id (qp_inner p)) (Some (BQueryCollab p))"

definition api_get_collab ::
  "('t, 'j, 'v) api_client \<Rightarrow> (bytes \<Rightarrow> string + 'a AppResponse) \<Rightarrow> 't QueryCollabParams \<Rightarrow> 'j ClientToken \<Rightarrow> (AppResponseError + 'a) \<times> 'j ClientToken" where
  "api_get_collab C parse p t = api_call C (get_collab_request C p) (read_data C parse) t"

definition batch_get_collab_request :: "('t, 'j, 'v) api_client \<Rightarrow> string \<Rightarrow> 't QueryCollab list \<Rightarrow> ('t, 'j) api_request" where
  "batch_get_collab_request C ws ps =
     plain_request GET (base C @ ''/api/workspace/'' @ ws @ ''/collab_list'') (Some (BBatchQuery ps))"

definition api_batch_get_collab ::
  "('t, 'j, 'v) api_client \<Rightarrow> (bytes \<Rightarrow> string + 'a AppResponse) \<Rightarrow> string \<Rightarrow> 't QueryCollab list \<Rightarrow> 'j ClientToken \<Rightarrow> (AppResponseError + 'a) \<times> 'j ClientToken" where
  "api_batch_get_collab C parse ws ps t = api_call C (batch_get_collab_request C ws ps) (read_data C parse) t"

definition delete_collab_request :: "('t, 'j, 'v) api_client \<Rightarrow> DeleteCollabParams \<Rightarrow> ('t, 'j) api_request" where
  "delete_collab_request C p =
     plain_request DELETE (base C @ ''/api/workspace/'' @ dc_workspace_id p @ ''/collab/'' @ dc_object_id p) (Some (BDeleteCollab p))"

definition api_delete_collab ::
  "('t, 'j, 'v) api_client \<Rightarrow> (bytes \<Rightarrow> string + unit AppResponse) \<Rightarrow> DeleteCollabParams \<Rightarrow> 'j ClientToken \<Rightarrow> (AppResponseError + unit) \<times> 'j ClientToken" where
  "api_delete_collab C parse p t = api_call C (delete_collab_request C p) (read_unit C parse) t"

definition add_collab_member_request :: "('t, 'j, 'v) api_client \<Rightarrow> InsertCollabMemberParams \<Rightarrow> ('t, 'j) api_request" where
  "add_collab_member_request C p =
     plain_request POST (base C @ ''/api/workspace/'' @ icm_workspace_id p @ ''/collab/'' @ icm_object_id p @ ''/member'') (Some (BCollabMember p))"

definition api_add_collab_member ::
  "('t, 'j, 'v) api_client \<Rightarrow> (bytes \<Rightarrow> string + unit AppResponse) \<Rightarrow> InsertCollabMemberParams \<Rightarrow> 'j ClientToken \<Rightarrow> (AppResponseError + unit) \<times> 'j ClientToken" where
  "api_add_collab_member C parse p t = api_call C (add_collab_member_request C p) (read_unit C parse) t"

definition get_collab_member_request :: "('t, 'j, 'v) api_client \<Rightarrow> CollabMemberIdentify \<Rightarrow> ('t, 'j) api_request" where
  "get_collab_member_request C p =
     plain_request GET (base C @ ''/api/workspace/'' @ cmi_workspace_id p @ ''/collab/'' @ cmi_object_id p @ ''/member'') (Some (BMemberIdentify p))"

definition api_get_collab_member ::
  "('t, 'j, 'v) api_client \<Rightarrow> (bytes \<Rightarrow> string + 'a AppResponse) \<Rightarrow> CollabMemberIdentify \<Rightarrow> 'j ClientToken \<Rightarrow> (AppResponseError + 'a) \<times> 'j ClientToken" where
  "api_get_collab_member C parse p t = api_call C (get_collab_member_request C p) (read_data C parse) t"

definition update_collab_member_request :: "('t, 'j, 'v) api_client \<Rightarrow> InsertCollabMemberParams \<Rightarrow> ('t, 'j) api_request" where
  "update_collab_member_request C p =
     plain_request PUT (base C @ ''/api/workspace/'' @ icm_workspace_id p @ ''/collab/'' @ icm_object_id p @ ''/member'') (Some (BCollabMember p))"

definition api_update_collab_member ::
  "('t, 'j, 'v) api_client \<Rightarrow> (bytes \<Rightarrow> string + unit AppResponse) \<Rightarrow> InsertCollabMemberParams \<Rightarrow> 'j ClientToken \<Rightarrow> (AppResponseError + unit) \<times> 'j ClientToken" where
  "api_update_collab_member C parse p t = api_call C (update_collab_member_request C p) (read_unit C parse) t"

definition remove_collab_member_request :: "('t, 'j, 'v) api_client \<Rightarrow> CollabMemberIdentify \<Rightarrow> ('t, 'j) api_request" where
  "remove_collab_member_request C p =
     plain_request DELETE (base C @ ''/api/workspace/'' @ cmi_workspace_id p @ ''/collab/'' @ cmi_object_id p @ ''/member'') (Some (BMemberIdentify p))"

definition api_remove_collab_member ::
  "('t, 'j, 'v) api_client \<Rightarrow> (bytes \<Rightarrow> string + unit AppResponse) \<Rightarrow> CollabMemberIdentify \<Rightarrow> 'j ClientToken \<Rightarrow> (AppResponseError + unit) \<times> 'j ClientToken" where
  "api_remove_collab_member C parse p t = api_call C (remove_collab_member_request C p) (read_unit C parse) t"

definition get_collab_members_request :: "('t, 'j, 'v) api_client \<Rightarrow> QueryCollabMembers \<Rightarrow> ('t, 'j) api_request" where
  "get_collab_members_request C p =
     plain_request GET (base C @ ''/api/workspace/'' @ qcm_workspace_id p @ ''/collab/'' @ qcm_object_id p @ ''/member/list'') (Some (BQueryMembers p))"

definition api_get_collab_members ::
  "('t, 'j, 'v) api_client \<Rightarrow> (bytes \<Rightarrow> string + 'a AppResponse) \<Rightarrow> QueryCollabMembers \<Rightarrow> 'j ClientToken \<Rightarrow> (AppResponseError + 'a) \<times> 'j ClientToken" where
  "api_get_collab_members C parse p t = api_call C (get_collab_members_request C p) (read_data C parse) t"

section \<open>Files\<close>

definition get_blob_metadata_request :: "('t, 'j, 'v) api_client \<Rightarrow> string \<Rightarrow> ('t, 'j) api_request" where
  "get_blob_metadata_request C url =
     plain_request GET url None"

definition api_get_blob_metadata ::
  "('t, 'j, 'v) api_client \<Rightarrow> (bytes \<Rightarrow> string + 'a AppResponse) \<Rightarrow> string \<Rightarrow> 'j ClientToken \<Rightarrow> (AppResponseError + 'a) \<times> 'j ClientToken" where
  "api_get_blob_metadata C parse url t = api_call C (get_blob_metadata_request C url) (read_data C parse) t"

definition delete_blob_request :: "('t, 'j, 'v) api_client \<Rightarrow> string \<Rightarrow> ('t, 'j) api_request" where
  "delete_blob_request C url =
     plain_request DELETE url None"

definition api_delete_blob ::
  "('t, 'j, 'v) api_client \<Rightarrow> (bytes \<Rightarrow> string + unit AppResponse) \<Rightarrow> string \<Rightarrow> 'j ClientToken \<Rightarrow> (AppResponseError + unit) \<times> 'j ClientToken" where
  "api_delete_blob C parse url t = api_call C (delete_blob_request C url) (read_unit C parse) t"

definition get_workspace_usage_request :: "('t, 'j, 'v) api_client \<Rightarrow> string \<Rightarrow> ('t, 'j) api_request" where
  "get_workspace_usage_request C ws =
     plain_request GET (base C @ ''/api/file_storage/'' @ ws @ ''/usage'') None"

definition api_get_workspace_usage ::
  "('t, 'j, 'v) api_client \<Rightarrow> (bytes \<Rightarrow> string + 'a AppResponse) \<Rightarrow> string \<Rightarrow> 'j ClientToken \<Rightarrow> (AppResponseError + 'a) \<times> 'j ClientToken" where
  "api_get_workspace_usage C parse ws t = api_call C (get_workspace_usage_request C ws) (read_data C parse) t"

definition get_workspace_all_blob_metadata_request :: "('t, 'j, 'v) api_client \<Rightarrow> string \<Rightarrow> ('t, 'j) api_request" where
  "get_workspace_all_blob_metadata_request C ws =
     plain_request GET (base C @ ''/api/file_storage/'' @ ws @ ''/blobs'') None"

definition api_get_workspace_all_blob_metadata ::
  "('t, 'j, 'v) api_client \<Rightarrow> (bytes \<Rightarrow> string + 'a AppResponse) \<Rightarrow> string \<Rightarrow> 'j ClientToken \<Rightarrow> (AppResponseError + 'a) \<times> 'j ClientToken" where
  "api_get_workspace_all_blob_metadata C parse ws t = api_call C (get_workspace_all_blob_metadata_request C ws) (read_data C parse) t"

definition get_blob_url :: "('t, 'j, 'v) api_client \<Rightarrow> string \<Rightarrow> string \<Rightarrow> string" where
  "get_blob_url C ws file_id = base C @ ''/api/file_storage/'' @ ws @ ''/blob/'' @ file_id"

definition put_blob_request :: "string \<Rightarrow> bytes \<Rightarrow> string \<Rightarrow> ('t, 'j) api_request" where
  "put_blob_request url data mime = (plain_request PUT url (Some (BBytes data)))\<lparr>aq_headers := [(''content-type'', mime)]\<rparr>"

definition api_put_blob ::
  "('t, 'j, 'v) api_client \<Rightarrow> (bytes \<Rightarrow> string + unit AppResponse) \<Rightarrow> string \<Rightarrow> bytes \<Rightarrow> string \<Rightarrow> 'j ClientToken \<Rightarrow>
     (AppResponseError + unit) \<times> 'j ClientToken" where
  "api_put_blob C parse url data mime t =
     api_call C (put_blob_request url data mime)
       (\<lambda>a. if an_status a = 413 then Err (app_response_error_from (AE_PayloadTooLarge ''413 Payload Too Large''))
            else read_unit C parse a) t"

definition api_put_blob_with_content_length ::
  "('t, 'j, 'v) api_client \<Rightarrow> (bytes \<Rightarrow> string + 'a AppResponse) \<Rightarrow> string \<Rightarrow> bytes \<Rightarrow> string \<Rightarrow> nat \<Rightarrow> 'j ClientToken \<Rightarrow>
     (AppResponseError + 'a) \<times> 'j ClientToken" where
  "api_put_blob_with_content_length C parse url data mime content_length t =
     api_call C
       ((put_blob_request url data mime)
          \<lparr>aq_headers := [(''content-type'', mime), (''content-length'', int_to_string (int content_length))]\<rparr>)
       (read_data C parse) t"

text \<open>\<open>parse_mime\<close> reads a media type; the answer's body arrives in pieces, which are put together.\<close>

definition mime_of :: "(string \<Rightarrow> string option) \<Rightarrow> http_answer \<Rightarrow> string" where
  "mime_of parse_mime a =
     (case map_of (an_headers a) ''content-type'' of
        Some (Some v) \<Rightarrow> (case parse_mime v of Some m \<Rightarrow> m | None \<Rightarrow> ''text/plain'')
      | Some None \<Rightarrow> ''text/plain''
      | None \<Rightarrow> ''text/plain'')"

definition get_blob_request :: "string \<Rightarrow> ('t, 'j) api_request" where "get_blob_request url = plain_request GET url None"

definition api_get_blob ::
  "('t, 'j, 'v) api_client \<Rightarrow> (string \<Rightarrow> string option) \<Rightarrow> string \<Rightarrow> 'j ClientToken \<Rightarrow>
     (AppResponseError + string \<times> bytes) \<times> 'j ClientToken" where
  "api_get_blob C parse_mime url t =
     api_call C (get_blob_request url)
       (\<lambda>a. if an_status a = 404 then Err (app_response_error_from (AE_RecordNotFound url))
            else
              (case an_body a of
                 Inl e \<Rightarrow> Err (app_response_error_from (app_error_from_reqwest (cl_wasm C) e))
               | Inr body \<Rightarrow>
                   (if an_status a = 200 then Ok (mime_of parse_mime a, body)
                    else Err (app_response_error_from (AE_Unhandled
                      (''status code: '' @ sw_status (cl_show C) (an_status a) @ '', message: '' @ sw_lossy (cl_show C) body)))))) t"

section \<open>Compressed bodies\<close>

text \<open>\<open>to_bytes\<close> is bincode; \<open>compress\<close> is brotli with the quality and the buffer size of the configuration.\<close>

definition create_collab_request :: "('t, 'j, 'v) api_client \<Rightarrow> 't CreateCollabParams \<Rightarrow> bytes \<Rightarrow> ('t, 'j) api_request" where
  "create_collab_request C p body =
     (plain_request POST (base C @ ''/api/workspace/'' @ cc_workspace_id p @ ''/collab/'' @ cc_object_id p) (Some (BBytes body)))
       \<lparr>aq_compressed := True\<rparr>"

definition api_create_collab ::
  "('t, 'j, 'v) api_client \<Rightarrow> (bytes \<Rightarrow> string + unit AppResponse) \<Rightarrow> ('t CreateCollabParams \<Rightarrow> string + bytes) \<Rightarrow>
     (u32 \<Rightarrow> nat \<Rightarrow> bytes \<Rightarrow> AppError + bytes) \<Rightarrow> 't CreateCollabParams \<Rightarrow> 'j ClientToken \<Rightarrow>
     (AppResponseError + unit) \<times> 'j ClientToken" where
  "api_create_collab C parse to_bytes compress p t =
     (case to_bytes p of
        Inl e \<Rightarrow> (Err (app_response_error_from (AE_Internal e)), t)
      | Inr bs \<Rightarrow>
          (case compress (ac_compression_quality (cl_config C)) (ac_compression_buffer_size (cl_config C)) bs of
             Inl e \<Rightarrow> (Err (app_response_error_from e), t)
           | Inr body \<Rightarrow> api_call C (create_collab_request C p body) (read_unit C parse) t))"

definition batch_create_collab_url :: "('t, 'j, 'v) api_client \<Rightarrow> string \<Rightarrow> string" where
  "batch_create_collab_url C ws = base C @ ''/api/workspace/'' @ ws @ ''/batch/collab''"

definition create_collab_list_request :: "('t, 'j, 'v) api_client \<Rightarrow> string \<Rightarrow> bytes \<Rightarrow> ('t, 'j) api_request" where
  "create_collab_list_request C ws body = (plain_request POST (batch_create_collab_url C ws) (Some (BBytes body)))\<lparr>aq_compressed := True\<rparr>"

definition api_create_collab_list ::
  "('t, 'j, 'v) api_client \<Rightarrow> (bytes \<Rightarrow> string + unit AppResponse) \<Rightarrow> 't upload_codec \<Rightarrow> string \<Rightarrow> 't CollabParams list \<Rightarrow>
     'j ClientToken \<Rightarrow> (AppResponseError + unit) \<times> 'j ClientToken" where
  "api_create_collab_list C parse U ws ps t =
     (case framed_data U ps of
        Inl e \<Rightarrow> (Err (app_response_error_from e), t)
      | Inr body \<Rightarrow> api_call C (create_collab_list_request C ws body) (read_unit C parse) t)"

text \<open>\<open>prost_encode\<close> writes the envelope.\<close>

definition post_realtime_msg_request :: "('t, 'j, 'v) api_client \<Rightarrow> bytes \<Rightarrow> ('t, 'j) api_request" where
  "post_realtime_msg_request C body =
     (plain_request POST (base C @ ''/api/realtime/post/stream'') (Some (BBytes body)))\<lparr>aq_compressed := True\<rparr>"

definition api_post_realtime_msg ::
  "('t, 'j, 'v) api_client \<Rightarrow> (bytes \<Rightarrow> string + unit AppResponse) \<Rightarrow> (u32 \<Rightarrow> nat \<Rightarrow> bytes \<Rightarrow> AppError + bytes) \<Rightarrow>
     (HttpRealtimeMessage \<Rightarrow> bytes) \<Rightarrow> string \<Rightarrow> WsMsg \<Rightarrow> 'j ClientToken \<Rightarrow> (AppResponseError + unit) \<times> 'j ClientToken" where
  "api_post_realtime_msg C parse compress prost_encode device_id msg t =
     (case compress 6 (ac_compression_buffer_size (cl_config C)) (msg_into_data msg) of
        Inl e \<Rightarrow> (Err (app_response_error_from e), t)
      | Inr payload \<Rightarrow>
          api_call C (post_realtime_msg_request C (prost_encode \<lparr>hr_device_id = device_id, hr_payload = payload\<rparr>)) (read_unit C parse) t)"

section \<open>Users and tokens\<close>

text \<open>A request without the head of the others.\<close>

definition verify_token_cloud ::
  "('t, 'j, 'v) api_client \<Rightarrow> (bytes \<Rightarrow> string + bool AppResponse) \<Rightarrow> string \<Rightarrow> AppResponseError + bool" where
  "verify_token_cloud C parse tok =
     (case cl_send C (call GET (base C @ ''/api/user/verify/'' @ tok)) of
        Inl e \<Rightarrow> Err (app_response_error_from (app_error_from_reqwest (cl_wasm C) e))
      | Inr a \<Rightarrow> read_data C parse a)"

definition gotrue_to_response :: "('t, 'j, 'v) api_client \<Rightarrow> GoTrueError + 'a \<Rightarrow> AppResponseError + 'a" where
  "gotrue_to_response C r =
     (case r of Inl e \<Rightarrow> Err (app_response_error_from (app_error_from_gotrue (sw_dbg (cl_show C)) e)) | Inr x \<Rightarrow> Ok x)"

definition client_verify_token ::
  "('t, 'j, 'v) api_client \<Rightarrow> (bytes \<Rightarrow> string + 'j User) \<Rightarrow> (bytes \<Rightarrow> string + bool AppResponse) \<Rightarrow> string \<Rightarrow>
     AppResponseError + 'j User \<times> bool" where
  "client_verify_token C parse_user parse tok =
     (case gotrue_to_response C (gotrue_user_info (cl_gotrue C) parse_user tok) of
        Inl e \<Rightarrow> Err e
      | Inr user \<Rightarrow>
          (case verify_token_cloud C parse tok of Inl e \<Rightarrow> Err e | Inr new \<Rightarrow> Ok (user, new)))"

definition get_token :: "('j GotrueTokenResponse \<Rightarrow> string + string) \<Rightarrow> 'j ClientToken \<Rightarrow> AppResponseError + string" where
  "get_token to_json t =
     (case token_try_get to_json t of Inl e \<Rightarrow> Err (app_response_error_from (AE_OAuthError e)) | Inr s \<Rightarrow> Ok s)"

text \<open>The calls that need the token of an administrator or a user, with the service's answer.\<close>

definition with_access_token ::
  "('t, 'j, 'v) api_client \<Rightarrow> (string \<Rightarrow> GoTrueError + 'a) \<Rightarrow> 'j ClientToken \<Rightarrow> AppResponseError + 'a" where
  "with_access_token C f t =
     (case access_token (cl_readable1 C) t of
        Inl e \<Rightarrow> Err (app_response_error_from e)
      | Inr tok \<Rightarrow> gotrue_to_response C (f tok))"

definition client_create_user ::
  "('t, 'j, 'v) api_client \<Rightarrow> (bytes \<Rightarrow> string + 'j User) \<Rightarrow> string \<Rightarrow> string \<Rightarrow> 'j ClientToken \<Rightarrow> AppResponseError + 'j User" where
  "client_create_user C parse email password t =
     with_access_token C (\<lambda>tok. gotrue_add_user (cl_gotrue C) parse tok
       (AdminUserParams_default\<lparr>au_email := email, au_password := Some password, au_email_confirm := True\<rparr>)) t"

definition create_email_verified_user ::
  "('t, 'j, 'v) api_client \<Rightarrow> (bytes \<Rightarrow> string + 'j User) \<Rightarrow> string \<Rightarrow> string \<Rightarrow> 'j ClientToken \<Rightarrow> AppResponseError + 'j User" where
  "create_email_verified_user C parse email password t =
     with_access_token C (\<lambda>tok. gotrue_add_user (cl_gotrue C) parse tok
       (AdminUserParams_default\<lparr>au_email := email, au_password := Some password, au_email_confirm := True\<rparr>)) t"

definition admin_list_users ::
  "('t, 'j, 'v) api_client \<Rightarrow> (bytes \<Rightarrow> string + 'j AdminListUsersResponse) \<Rightarrow> string option \<Rightarrow> 'j ClientToken \<Rightarrow>
     AppResponseError + 'j User list" where
  "admin_list_users C parse flt t =
     (case with_access_token C (\<lambda>tok. gotrue_list_user (cl_gotrue C) parse tok flt) t of
        Inl e \<Rightarrow> Err e
      | Inr r \<Rightarrow> Ok (al_users r))"

definition client_invite :: "('t, 'j, 'v) api_client \<Rightarrow> string \<Rightarrow> AppResponseError + unit" where
  "client_invite C email =
     gotrue_to_response C (gotrue_magic_link (cl_gotrue C) (MagicLinkParams_default\<lparr>ml_email := email\<rparr>) None)"

text \<open>The service answers with the email and the link; another email than the one asked for is a panic: \<open>None\<close>.\<close>

definition generate_sign_in_action_link ::
  "('t, 'j, 'v) api_client \<Rightarrow> (bytes \<Rightarrow> string + string \<times> string) \<Rightarrow> string \<Rightarrow> 'j ClientToken \<Rightarrow> (AppResponseError + string) option" where
  "generate_sign_in_action_link C parse email t =
     (case with_access_token C
         (\<lambda>tok. gotrue_generate_link (cl_gotrue C) parse tok (GenerateLinkParams_default\<lparr>gl_email := email\<rparr>)) t of
        Inl e \<Rightarrow> Some (Err e)
      | Inr (link_email, action_link) \<Rightarrow> (if link_email = email then Some (Ok action_link) else None))"

definition DESKTOP_CALLBACK_URL :: string where "DESKTOP_CALLBACK_URL = ''appflow-flutter://login-callback''"

text \<open>The \<open>url\<close> crate parses the address and writes it with the pairs of a query.\<close>

definition generate_oauth_url_with_provider ::
  "('t, 'j, 'v) api_client \<Rightarrow> (bytes \<Rightarrow> string + GoTrueSettings) \<Rightarrow> (string \<Rightarrow> string + 'u) \<Rightarrow> ('u \<Rightarrow> (string \<times> string) list \<Rightarrow> string) \<Rightarrow>
     AuthProvider \<Rightarrow> AppResponseError + string" where
  "generate_oauth_url_with_provider C parse parse_url show_url provider =
     (case gotrue_to_response C (gotrue_settings (cl_gotrue C) parse) of
        Inl e \<Rightarrow> Err e
      | Inr settings \<Rightarrow>
          (if \<not> has_provider (gs_external settings) provider then
             Err (app_response_error_from (AE_InvalidOAuthProvider (provider_str provider)))
           else
             (case parse_url (gv_base_url (cl_gotrue C) @ ''/authorize'') of
                Inl e \<Rightarrow> Err (app_response_error_from (AE_UrlError e))
              | Inr url \<Rightarrow>
                  Ok (show_url url ([(''provider'', provider_str provider), (''redirect_to'', DESKTOP_CALLBACK_URL)] @
                    (if provider = PGoogle then [(''access_type'', ''offline''), (''prompt'', ''consent'')] else []))))))"

text \<open>The user the kept token names is the updated one, even when the second request fails.\<close>

definition update_user_request :: "('t, 'j, 'v) api_client \<Rightarrow> 'j UpdateUserParams \<Rightarrow> ('t, 'j) api_request" where
  "update_user_request C p = plain_request POST (base C @ ''/api/user/update'') (Some (BUpdateUser p))"

definition api_update_user ::
  "('t, 'j, 'v) api_client \<Rightarrow> (bytes \<Rightarrow> string + 'j User) \<Rightarrow> (bytes \<Rightarrow> string + unit AppResponse) \<Rightarrow> 'j UpdateUserParams \<Rightarrow>
     'j ClientToken \<Rightarrow> (AppResponseError + unit) \<times> 'j ClientToken" where
  "api_update_user C parse_user parse p t =
     (case with_access_token C (\<lambda>tok. gotrue_update_user (cl_gotrue C) parse_user tok
         (with_opt_password (uup_password p) (with_opt_email (uup_email p) UpdateGotrueUserParams_new))) t of
        Inl e \<Rightarrow> (Err e, t)
      | Inr updated_user \<Rightarrow>
          api_call C (update_user_request C p) (read_unit C parse)
            (t\<lparr>tk_token := map_option (\<lambda>r. r\<lparr>gt_user := updated_user\<rparr>) (tk_token t)\<rparr>))"

section \<open>The websocket\<close>

definition ws_url :: "('t, 'j, 'v) api_client \<Rightarrow> string" where
  "ws_url C = ac_ws_addr (cl_config C) @ ''/v1''"

definition ws_connect_info :: "('t, 'j, 'v) api_client \<Rightarrow> 'j ClientToken \<Rightarrow> (AppResponseError + 'v ConnectInfo) \<times> 'j ClientToken" where
  "ws_connect_info C t =
     (case refresh_if_expired (sw_dbg (cl_show C)) (cl_answers C) (cl_readable1 C) (cl_now C) t of
        (Inl e, t1) \<Rightarrow> (Err (app_response_error_from e), t1)
      | (Inr _, t1) \<Rightarrow>
          (case access_token (cl_readable2 C) t1 of
             Inl e \<Rightarrow> (Err (app_response_error_from e), t1)
           | Inr tok \<Rightarrow>
               (Ok \<lparr>ci_access_token = tok, ci_client_version = ac_client_version (cl_config C), ci_device_id = ac_device_id (cl_config C)\<rparr>, t1)))"

end
