(* ===== verification/Routes.thy ===== *)
theory Routes
  imports Api_Client Http_Props
begin

text \<open>
  The routes of the server (the scopes of \<open>src/api/*.rs\<close> in the order of \<open>src/application.rs\<close>) and where the
  requests of the client go.

  A scope takes the requests whose path starts with its segments; in it the first resource whose pattern matches
  answers, with the handler of the method or with an error of the method.
\<close>

section \<open>The tables\<close>

datatype handler =
    H_verify_user | H_update_user | H_get_user_profile | H_get_user_workspace_info
  | H_list_workspace | H_create_workspace | H_patch_workspace | H_post_workspace_invite | H_get_workspace_invite
  | H_post_accept_workspace_invite | H_delete_workspace | H_open_workspace | H_leave_workspace | H_get_workspace_members
  | H_create_workspace_members | H_update_workspace_member | H_remove_workspace_member
  | H_create_collab | H_get_collab | H_update_collab | H_delete_collab | H_batch_create_collab | H_create_collab_list
  | H_get_workspace_usage | H_get_collab_snapshot | H_create_collab_snapshot | H_get_all_collab_snapshot_list
  | H_add_collab_member | H_get_collab_member | H_update_collab_member | H_remove_collab_member | H_get_collab_member_list
  | H_batch_get_collab | H_post_realtime_message_stream
  | H_establish_ws_connection | H_establish_ws_connection_v1
  | H_put_blob | H_get_blob | H_delete_blob | H_get_blob_metadata | H_file_usage | H_get_all_workspace_blob_metadata
  | H_metrics

type_synonym resource = "string \<times> (Method \<times> handler) list"

abbreviation PATCH :: Method where "PATCH \<equiv> OtherMethod ''PATCH''"

definition user_scope :: "string \<times> resource list" where
  "user_scope = (''/api/user'',
     [(''/verify/{access_token}'', [(GET, H_verify_user)]),
      (''/update'', [(POST, H_update_user)]),
      (''/profile'', [(GET, H_get_user_profile)]),
      (''/workspace'', [(GET, H_get_user_workspace_info)])])"

definition workspace_scope :: "string \<times> resource list" where
  "workspace_scope = (''/api/workspace'',
     [(''/list'', [(GET, H_list_workspace)]),
      ([], [(GET, H_list_workspace), (POST, H_create_workspace), (PATCH, H_patch_workspace)]),
      (''/{workspace_id}/invite'', [(POST, H_post_workspace_invite)]),
      (''/invite'', [(GET, H_get_workspace_invite)]),
      (''/accept-invite/{invite_id}'', [(POST, H_post_accept_workspace_invite)]),
      (''/{workspace_id}'', [(DELETE, H_delete_workspace)]),
      (''/{workspace_id}/open'', [(PUT, H_open_workspace)]),
      (''/{workspace_id}/leave'', [(POST, H_leave_workspace)]),
      (''/{workspace_id}/member'',
         [(GET, H_get_workspace_members), (POST, H_create_workspace_members), (PUT, H_update_workspace_member),
          (DELETE, H_remove_workspace_member)]),
      (''/{workspace_id}/collab/{object_id}'',
         [(POST, H_create_collab), (GET, H_get_collab), (PUT, H_update_collab), (DELETE, H_delete_collab)]),
      (''/{workspace_id}/batch/collab'', [(POST, H_batch_create_collab)]),
      (''/{workspace_id}/collabs'', [(POST, H_create_collab_list)]),
      (''/{workspace_id}/usage'', [(GET, H_get_workspace_usage)]),
      (''/{workspace_id}/{object_id}/snapshot'', [(GET, H_get_collab_snapshot), (POST, H_create_collab_snapshot)]),
      (''/{workspace_id}/{object_id}/snapshot/list'', [(GET, H_get_all_collab_snapshot_list)]),
      (''/{workspace_id}/collab/{object_id}/member'',
         [(POST, H_add_collab_member), (GET, H_get_collab_member), (PUT, H_update_collab_member), (DELETE, H_remove_collab_member)]),
      (''/{workspace_id}/collab/{object_id}/member/list'', [(GET, H_get_collab_member_list)]),
      (''/{workspace_id}/collab_list'', [(GET, H_batch_get_collab)])])"

text \<open>A pattern without a leading slash gets one.\<close>

definition collab_scope :: "string \<times> resource list" where
  "collab_scope = (''/api/realtime'', [(''/post/stream'', [(POST, H_post_realtime_message_stream)])])"

definition ws_scope :: "string \<times> resource list" where
  "ws_scope = (''/ws'',
     [(''/{token}/{device_id}'', [(GET, H_establish_ws_connection)]),
      (''/v1'', [(GET, H_establish_ws_connection_v1)])])"

definition file_storage_scope :: "string \<times> resource list" where
  "file_storage_scope = (''/api/file_storage'',
     [(''/{workspace_id}/blob/{file_id}'', [(PUT, H_put_blob), (GET, H_get_blob), (DELETE, H_delete_blob)]),
      (''/{workspace_id}/metadata/{file_id}'', [(GET, H_get_blob_metadata)]),
      (''/{workspace_id}/usage'', [(GET, H_file_usage)]),
      (''/{workspace_id}/blobs'', [(GET, H_get_all_workspace_blob_metadata)])])"

definition metrics_scope :: "string \<times> resource list" where
  "metrics_scope = (''/metrics'', [([], [(GET, H_metrics)])])"

definition server_routes :: "(string \<times> resource list) list" where
  "server_routes = [user_scope, workspace_scope, collab_scope, ws_scope, file_storage_scope, metrics_scope]"

section \<open>Routing\<close>

datatype routed = Handled handler | MethodNotAllowed | RouteNotFound

definition prefix_matches :: "string \<Rightarrow> string \<Rightarrow> bool" where
  "prefix_matches prefix path \<longleftrightarrow>
     take (length (split_path prefix)) (split_path path) = split_path prefix"

fun route_in :: "string \<Rightarrow> resource list \<Rightarrow> Method \<Rightarrow> string \<Rightarrow> routed" where
  "route_in prefix [] m path = RouteNotFound"
| "route_in prefix ((pattern, routes) # rs) m path =
     (if segments_match (prefix @ pattern) path then
        (case map_of routes m of Some h \<Rightarrow> Handled h | None \<Rightarrow> MethodNotAllowed)
      else route_in prefix rs m path)"

fun route_request :: "(string \<times> resource list) list \<Rightarrow> Method \<Rightarrow> string \<Rightarrow> routed" where
  "route_request [] m path = RouteNotFound"
| "route_request ((prefix, rs) # scopes) m path =
     (if prefix_matches prefix path then route_in prefix rs m path else route_request scopes m path)"

text \<open>The path of an address under the server's.\<close>

definition path_under :: "string \<Rightarrow> string \<Rightarrow> string option" where
  "path_under b url = (if take (length b) url = b then Some (drop (length b) url) else None)"

definition routed_to :: "('t, 'j, 'v) api_client \<Rightarrow> ('t, 'j) api_request \<Rightarrow> routed" where
  "routed_to C q =
     (case path_under (base C) (aq_url q) of
        Some p \<Rightarrow> route_request server_routes (aq_method q) p
      | None \<Rightarrow> RouteNotFound)"

section \<open>The client's requests\<close>

text \<open>
  An id as the server makes them: letters, digits, hyphens and underscores, which \<open>reqwest\<close> and the router leave as
  they are, and none of the words that paths use.
\<close>

definition plain_char :: "char \<Rightarrow> bool" where
  "plain_char c \<longleftrightarrow> c \<in> set ''abcdefghijklmnopqrstuvwxyzABCDEFGHIJKLMNOPQRSTUVWXYZ0123456789-_''"

definition path_words :: "string list" where
  "path_words = [''list'', ''invite'', ''accept-invite'', ''collab'', ''batch'', ''snapshot'', ''member'']"

definition ordinary_id :: "string \<Rightarrow> bool" where
  "ordinary_id s \<longleftrightarrow> s \<noteq> [] \<and> list_all plain_char s \<and> s \<notin> set path_words"

lemma plain_char_no_slash: "plain_char c \<Longrightarrow> c \<noteq> CHR ''/''"
  by (auto simp: plain_char_def)

lemma split_path_plain [simp]: "list_all plain_char s \<Longrightarrow> split_path s = [s]"
  by (induction s) (simp_all add: plain_char_no_slash)

lemma split_path_append [simp]: "list_all plain_char s \<Longrightarrow> split_path (s @ CHR ''/'' # r) = s # split_path r"
  by (induction s) (simp_all add: plain_char_no_slash)

text \<open>Every method of the client with ids of a workspace, a document and a file or an invitation, and its handler.\<close>

definition client_table ::
  "('t, 'j, 'v) api_client \<Rightarrow> 't \<Rightarrow> string \<Rightarrow> string \<Rightarrow> string \<Rightarrow> bytes \<Rightarrow> (('t, 'j) api_request \<times> handler) list" where
  "client_table C ty ws oid fid body =
     (let create = \<lparr>cc_workspace_id = ws, cc_object_id = oid, cc_encoded_collab_v1 = body, cc_collab_type = ty, cc_override_if_exist = False\<rparr>;
          member = \<lparr>icm_uid = 1, icm_workspace_id = ws, icm_object_id = oid, icm_access_level = ReadOnly\<rparr>;
          who = \<lparr>cmi_uid = 1, cmi_workspace_id = ws, cmi_object_id = oid\<rparr>
      in [(get_profile_request C, H_get_user_profile),
          (get_user_workspace_info_request C, H_get_user_workspace_info),
          (update_user_request C \<lparr>uup_name = None, uup_password = None, uup_email = None, uup_metadata = None\<rparr>, H_update_user),
          (get_workspaces_request C, H_list_workspace),
          (create_workspace_request C \<lparr>cw_workspace_name = None\<rparr>, H_create_workspace),
          (patch_workspace_request C \<lparr>pw_workspace_id = ws, pw_workspace_name = None, pw_workspace_icon = None\<rparr>, H_patch_workspace),
          (delete_workspace_request C ws, H_delete_workspace),
          (open_workspace_request C ws, H_open_workspace),
          (leave_workspace_request C ws, H_leave_workspace),
          (get_workspace_members_request C ws, H_get_workspace_members),
          (add_workspace_members_request C ws [], H_create_workspace_members),
          (update_workspace_member_request C ws \<lparr>wc_email = [], wc_role = None, wc_name = None\<rparr>, H_update_workspace_member),
          (remove_workspace_members_request C ws [], H_remove_workspace_member),
          (invite_workspace_members_request C ws [], H_post_workspace_invite),
          (list_workspace_invitations_request C None, H_get_workspace_invite),
          (accept_workspace_invitation_request C fid, H_post_accept_workspace_invite),
          (create_collab_request C create body, H_create_collab),
          (update_collab_request C create, H_update_collab),
          (get_collab_request C (QueryCollabParams_new oid ty ws), H_get_collab),
          (delete_collab_request C \<lparr>dc_object_id = oid, dc_workspace_id = ws\<rparr>, H_delete_collab),
          (batch_get_collab_request C ws [], H_batch_get_collab),
          (create_collab_list_request C ws body, H_batch_create_collab),
          (add_collab_member_request C member, H_add_collab_member),
          (get_collab_member_request C who, H_get_collab_member),
          (update_collab_member_request C member, H_update_collab_member),
          (remove_collab_member_request C who, H_remove_collab_member),
          (get_collab_members_request C \<lparr>qcm_workspace_id = ws, qcm_object_id = oid\<rparr>, H_get_collab_member_list),
          (get_snapshot_list_request C ws oid, H_get_all_collab_snapshot_list),
          (get_snapshot_request C ws oid 1, H_get_collab_snapshot),
          (create_snapshot_request C ws oid ty, H_create_collab_snapshot),
          (post_realtime_msg_request C body, H_post_realtime_message_stream),
          (put_blob_request (get_blob_url C ws fid) body [], H_put_blob),
          (get_blob_request (get_blob_url C ws fid), H_get_blob),
          (delete_blob_request C (get_blob_url C ws fid), H_delete_blob),
          (get_workspace_usage_request C ws, H_file_usage),
          (get_workspace_all_blob_metadata_request C ws, H_get_all_workspace_blob_metadata)])"

lemmas route_tables = server_routes_def user_scope_def workspace_scope_def collab_scope_def ws_scope_def file_storage_scope_def
  metrics_scope_def

lemmas client_requests = get_profile_request_def get_user_workspace_info_request_def update_user_request_def
  get_workspaces_request_def create_workspace_request_def patch_workspace_request_def delete_workspace_request_def
  open_workspace_request_def leave_workspace_request_def get_workspace_members_request_def add_workspace_members_request_def
  update_workspace_member_request_def remove_workspace_members_request_def invite_workspace_members_request_def
  list_workspace_invitations_request_def accept_workspace_invitation_request_def create_collab_request_def
  update_collab_request_def get_collab_request_def delete_collab_request_def batch_get_collab_request_def
  create_collab_list_request_def batch_create_collab_url_def add_collab_member_request_def get_collab_member_request_def
  update_collab_member_request_def remove_collab_member_request_def get_collab_members_request_def
  get_snapshot_list_request_def get_snapshot_request_def create_snapshot_request_def post_realtime_msg_request_def
  put_blob_request_def get_blob_url_def get_blob_request_def delete_blob_request_def get_workspace_usage_request_def
  get_workspace_all_blob_metadata_request_def plain_request_def QueryCollabParams_new_def

definition routes_as :: "('t, 'j, 'v) api_client \<Rightarrow> ('t, 'j) api_request \<times> handler \<Rightarrow> bool" where
  "routes_as C qh \<longleftrightarrow> routed_to C (fst qh) = Handled (snd qh)"

lemma path_under_base: "path_under b (b @ p) = Some p"
  by (simp add: path_under_def)

lemma routes_as_path:
  "aq_url q = base C @ p \<Longrightarrow> route_request server_routes (aq_method q) p = Handled h \<Longrightarrow> routes_as C (q, h)"
  by (simp add: routes_as_def routed_to_def path_under_base)

lemmas routing = route_tables prefix_matches_def segments_match_def segment_matches_def

lemma fixed_paths:
  "route_request server_routes GET ''/api/user/profile'' = Handled H_get_user_profile"
  "route_request server_routes GET ''/api/user/workspace'' = Handled H_get_user_workspace_info"
  "route_request server_routes POST ''/api/user/update'' = Handled H_update_user"
  "route_request server_routes GET ''/api/workspace'' = Handled H_list_workspace"
  "route_request server_routes POST ''/api/workspace'' = Handled H_create_workspace"
  "route_request server_routes PATCH ''/api/workspace'' = Handled H_patch_workspace"
  "route_request server_routes GET ''/api/workspace/invite'' = Handled H_get_workspace_invite"
  "route_request server_routes POST ''/api/realtime/post/stream'' = Handled H_post_realtime_message_stream"
  by (simp_all add: routing)

lemma ordinary_idD:
  assumes "ordinary_id s"
  shows "s \<noteq> []" "list_all plain_char s" "''list'' \<noteq> s" "''invite'' \<noteq> s" "''accept-invite'' \<noteq> s" "''collab'' \<noteq> s"
    "''batch'' \<noteq> s" "''snapshot'' \<noteq> s" "''member'' \<noteq> s"
  using assms by (auto simp: ordinary_id_def path_words_def)

lemma workspace_paths:
  assumes "ordinary_id ws"
  shows "route_request server_routes DELETE (''/api/workspace/'' @ ws) = Handled H_delete_workspace"
    "route_request server_routes PUT (''/api/workspace/'' @ ws @ ''/open'') = Handled H_open_workspace"
    "route_request server_routes POST (''/api/workspace/'' @ ws @ ''/leave'') = Handled H_leave_workspace"
    "route_request server_routes GET (''/api/workspace/'' @ ws @ ''/member'') = Handled H_get_workspace_members"
    "route_request server_routes POST (''/api/workspace/'' @ ws @ ''/member'') = Handled H_create_workspace_members"
    "route_request server_routes PUT (''/api/workspace/'' @ ws @ ''/member'') = Handled H_update_workspace_member"
    "route_request server_routes DELETE (''/api/workspace/'' @ ws @ ''/member'') = Handled H_remove_workspace_member"
    "route_request server_routes POST (''/api/workspace/'' @ ws @ ''/invite'') = Handled H_post_workspace_invite"
    "route_request server_routes POST (''/api/workspace/accept-invite/'' @ ws) = Handled H_post_accept_workspace_invite"
    "route_request server_routes GET (''/api/workspace/'' @ ws @ ''/collab_list'') = Handled H_batch_get_collab"
    "route_request server_routes POST (''/api/workspace/'' @ ws @ ''/batch/collab'') = Handled H_batch_create_collab"
    "route_request server_routes GET (''/api/file_storage/'' @ ws @ ''/usage'') = Handled H_file_usage"
    "route_request server_routes GET (''/api/file_storage/'' @ ws @ ''/blobs'') = Handled H_get_all_workspace_blob_metadata"
  by (simp_all add: routing ordinary_idD [OF assms])

lemma document_paths:
  assumes "ordinary_id ws" and "ordinary_id oid"
  shows "route_request server_routes m (''/api/workspace/'' @ ws @ ''/collab/'' @ oid) =
       (case map_of [(POST, H_create_collab), (GET, H_get_collab), (PUT, H_update_collab), (DELETE, H_delete_collab)] m of
          Some h \<Rightarrow> Handled h | None \<Rightarrow> MethodNotAllowed)"
    "route_request server_routes m (''/api/workspace/'' @ ws @ ''/collab/'' @ oid @ ''/member'') =
       (case map_of [(POST, H_add_collab_member), (GET, H_get_collab_member), (PUT, H_update_collab_member), (DELETE, H_remove_collab_member)] m of
          Some h \<Rightarrow> Handled h | None \<Rightarrow> MethodNotAllowed)"
    "route_request server_routes GET (''/api/workspace/'' @ ws @ ''/collab/'' @ oid @ ''/member/list'') = Handled H_get_collab_member_list"
    "route_request server_routes GET (''/api/workspace/'' @ ws @ ''/'' @ oid @ ''/snapshot/list'') = Handled H_get_all_collab_snapshot_list"
    "route_request server_routes GET (''/api/workspace/'' @ ws @ ''/'' @ oid @ ''/snapshot'') = Handled H_get_collab_snapshot"
    "route_request server_routes POST (''/api/workspace/'' @ ws @ ''/'' @ oid @ ''/snapshot'') = Handled H_create_collab_snapshot"
    "route_request server_routes m (''/api/file_storage/'' @ ws @ ''/blob/'' @ oid) =
       (case map_of [(PUT, H_put_blob), (GET, H_get_blob), (DELETE, H_delete_blob)] m of
          Some h \<Rightarrow> Handled h | None \<Rightarrow> MethodNotAllowed)"
  by (simp_all add: routing ordinary_idD [OF assms(1)] ordinary_idD [OF assms(2)])


definition sample_api_client :: "('t, nat, nat) api_client" where
  "sample_api_client =
     \<lparr>cl_config = \<lparr>ac_base_url = ''http://h'', ac_ws_addr = ''ws://h/ws'', ac_gotrue_url = ''http://g'', ac_device_id = ''d'', ac_client_version = 5,
        ac_compression_quality = 8, ac_compression_buffer_size = 10240\<rparr>,
      cl_show_version = (\<lambda>_. ''0.5.0''), cl_wasm = False,
      cl_show = \<lparr>sw_status = (\<lambda>_. []), sw_lossy = (\<lambda>_. []), sw_dbg = (\<lambda>_. [])\<rparr>,
      cl_now = 100, cl_readable1 = True, cl_readable2 = True, cl_answers = (\<lambda>_ _. Inl (GT_Connect [])),
      cl_send = (\<lambda>_. Inr \<lparr>an_status = 404, an_headers = [], an_body = Inr []\<rparr>),
      cl_gotrue = \<lparr>gv_base_url = ''http://g'', gv_wasm = False, gv_show = \<lparr>sw_status = (\<lambda>_. []), sw_lossy = (\<lambda>_. []), sw_dbg = (\<lambda>_. [])\<rparr>,
        gv_send = (\<lambda>_. Inr \<lparr>an_status = 404, an_headers = [], an_body = Inr []\<rparr>), gv_parse_serde = (\<lambda>_. Inl []), gv_parse_client = (\<lambda>_. Inl [])\<rparr>\<rparr>"


text \<open>
  The address the comment of \<open>get_blob\<close> promises for a file, \<open>/api/file_storage/<workspace_id>/<file_id>\<close>, is not
  served, and the address of a file the client builds gives its bytes to a request for its metadata.
\<close>

theorem file_addresses:
  assumes "ordinary_id ws" and "ordinary_id fid" and "fid \<noteq> ''usage''" and "fid \<noteq> ''blobs''"
  shows "routed_to C (get_blob_request (base C @ ''/api/file_storage/'' @ ws @ ''/'' @ fid)) = RouteNotFound
     \<and> routed_to C (get_blob_metadata_request C (get_blob_url C ws fid)) = Handled H_get_blob"
  using assms(3,4) by (simp add: routed_to_def path_under_base get_blob_request_def get_blob_metadata_request_def plain_request_def get_blob_url_def routing
      ordinary_idD [OF assms(1)] ordinary_idD [OF assms(2)] eq_commute [of _ fid])

theorem file_addresses_witness:
  "routed_to (sample_api_client :: (nat, nat, nat) api_client) (get_blob_request (base (sample_api_client :: (nat, nat, nat) api_client) @ ''/api/file_storage/'' @ ''w1'' @ ''/'' @ ''f1'')) = RouteNotFound"
  using file_addresses [of "''w1''" "''f1''" "sample_api_client :: (nat, nat, nat) api_client"] by (simp add: ordinary_id_def plain_char_def path_words_def)

end
