(* ===== verification/Upload_Props.thy ===== *)
theory Upload_Props
  imports Batch_Upload
begin

text \<open>
  Batches of documents across the wire: what the server reads is what the client framed, however the body is
  cut into chunks; a body that ends early is read up to its last whole frame.
\<close>

section \<open>Frames\<close>

lemma u32_be_roundtrip:
  "u32_from_be_bytes (ucast (drop_bit 24 n)) (ucast (drop_bit 16 n)) (ucast (drop_bit 8 n)) (ucast n) = (n :: 32 word)"
proof (rule bit_word_eqI)
  fix i assume i: "i < LENGTH(32)"
  then have "i < 32" by simp
  then consider "i < 8" | "8 \<le> i \<and> i < 16" | "16 \<le> i \<and> i < 24" | "24 \<le> i \<and> i < 32" by linarith
  then show "bit (u32_from_be_bytes (ucast (drop_bit 24 n)) (ucast (drop_bit 16 n)) (ucast (drop_bit 8 n)) (ucast n)) i = bit n i"
    by cases (auto simp: u32_from_be_bytes_def bit_or_iff bit_push_bit_iff bit_ucast_iff bit_drop_bit_eq dest: bit_imp_le_length)
qed

definition frames_of :: "bytes list \<Rightarrow> bytes" where "frames_of cs = concat (map frame cs)"

definition frame_size :: "bytes \<Rightarrow> nat" where
  "frame_size buf = unat (u32_from_be_bytes (buf ! 0) (buf ! 1) (buf ! 2) (buf ! 3))"

definition drained :: "bytes \<Rightarrow> bool" where
  "drained buf \<longleftrightarrow> length buf < 4 \<or> length buf < 4 + frame_size buf"

lemma frames_of_simps [simp]: "frames_of [] = []" "frames_of (c # cs) = frame c @ frames_of cs"
  "frames_of (cs @ ds) = frames_of cs @ frames_of ds"
  by (simp_all add: frames_of_def)

lemma length_u32_to_be_bytes [simp]: "length (u32_to_be_bytes n) = 4"
  by (simp add: u32_to_be_bytes_def)

lemma length_frame [simp]: "length (frame c) = 4 + length c"
  by (simp add: frame_def)

lemma nth_append_prefix: "i < length buf \<Longrightarrow> buf @ r = xs \<Longrightarrow> buf ! i = xs ! i"
  by (metis nth_append)

lemma frame_size_prefix:
  assumes "buf @ r = frame c @ s" and "4 \<le> length buf" and "length c < 2 ^ 32"
  shows "frame_size buf = length c"
proof -
  have n: "buf ! i = u32_to_be_bytes (of_nat (length c)) ! i" if "i < 4" for i
    using nth_append_prefix [OF _ assms(1), of i] that assms(2)
    by (simp add: frame_def nth_append)
  have "frame_size buf = unat (of_nat (length c) :: 32 word)"
    by (simp add: frame_size_def n u32_to_be_bytes_def u32_be_roundtrip)
  also have "\<dots> = length c" using assms(3) by (simp add: unsigned_of_nat take_bit_eq_mod)
  finally show ?thesis .
qed

lemmas drain_unfold = drain_frames.simps [unfolded Let_def, folded frame_size_def]

lemma drain_stop: "drained buf \<Longrightarrow> drain_frames U n buf acc = Ok (acc, buf)"
  by (subst drain_unfold) (auto simp: drained_def)

definition accepted :: "'t upload_codec \<Rightarrow> 't CollabParams \<Rightarrow> bytes \<Rightarrow> bool" where
  "accepted U p c \<longleftrightarrow> length c < 2 ^ 32 \<and> is_ok (validate_CollabParams p) \<and>
     (\<exists>b. uc_to_bytes U p = Ok b \<and> uc_compress U b = Ok c)"

lemma drain_step:
  assumes "upload_law U" and "accepted U p c"
  shows "drain_frames U n (frame c @ buf) acc = drain_frames U n buf (acc @ [p])"
proof -
  obtain b where b: "uc_to_bytes U p = Ok b" "uc_compress U b = Ok c" and l: "length c < 2 ^ 32"
    and v: "is_ok (validate_CollabParams p)"
    using assms(2) by (auto simp: accepted_def)
  have d: "uc_decompress U c n = Ok b" "uc_from_bytes U b = Ok p" using assms(1) b by (auto simp: upload_law_def)
  have s: "frame_size (frame c @ buf) = length c" by (rule frame_size_prefix [OF _ _ l, of _ "[]" buf]) simp_all
  have t: "take (length c) (drop 4 (frame c @ buf)) = c" by (simp add: frame_def u32_to_be_bytes_def)
  have r: "drop (4 + length c) (frame c @ buf) = buf" by simp
  obtain u where u: "validate_CollabParams p = Ok u" using v by (auto simp: is_ok_def split: sum.splits)
  show ?thesis
    by (subst drain_unfold) (simp add: s t r d u validator_error_def del: drop_append take_append)
qed

lemma not_drained_frame:
  assumes "\<not> drained buf" and "buf @ r = frame c @ s" and "length c < 2 ^ 32"
  obtains b where "buf = frame c @ b" and "b @ r = s"
proof -
  have "4 \<le> length buf" using assms(1) by (simp add: drained_def)
  from frame_size_prefix [OF assms(2) this assms(3)] have "length (frame c) \<le> length buf"
    using assms(1) by (simp add: drained_def)
  moreover have "take (length (frame c)) (buf @ r) = frame c" by (simp only: assms(2) append_eq_conv_conj) simp
  ultimately have "take (length (frame c)) buf = frame c" by simp
  then have "buf = frame c @ drop (length (frame c)) buf" by (metis append_take_drop_id)
  then show ?thesis using that assms(2) by (metis append.assoc same_append_eq)
qed

lemma drain_frames_prefix:
  assumes "upload_law U" and "list_all2 (accepted U) ps cs" and "buf @ r = frames_of cs"
  shows "\<exists>k b. drain_frames U n buf acc = Ok (acc @ take k ps, b) \<and> b @ r = frames_of (drop k cs) \<and> drained b"
  using assms(2,3)
proof (induction ps cs arbitrary: buf acc rule: list_all2_induct)
  case Nil
  then have "drained buf" "buf = []" by (simp_all add: drained_def)
  then show ?case using Nil drain_stop [of buf U n acc] by (intro exI [of _ 0] exI [of _ buf]) simp
next
  case (Cons p ps c cs)
  show ?case
  proof (cases "drained buf")
    case True
    then show ?thesis using Cons.prems drain_stop [of buf U n acc] by (intro exI [of _ 0] exI [of _ buf]) simp
  next
    case False
    have "length c < 2 ^ 32" using Cons.hyps(1) by (simp add: accepted_def)
    from not_drained_frame [OF False Cons.prems [unfolded frames_of_simps] this]
    obtain b where b: "buf = frame c @ b" "b @ r = frames_of cs" .
    from Cons.IH [OF b(2), of "acc @ [p]"] obtain k b' where
      "drain_frames U n b (acc @ [p]) = Ok ((acc @ [p]) @ take k ps, b')" "b' @ r = frames_of (drop k cs)" "drained b'" by blast
    then show ?thesis
      by (intro exI [of _ "Suc k"] exI [of _ b']) (simp add: b(1) drain_step [OF assms(1) Cons.hyps(1)])
  qed
qed

section \<open>Chunks\<close>

definition chunk_bytes :: "(unit + bytes) list \<Rightarrow> bytes" where
  "chunk_bytes chunks = concat (map (\<lambda>c. case c of Inl _ \<Rightarrow> [] | Inr b \<Rightarrow> b) chunks)"

lemma chunk_bytes_simps [simp]: "chunk_bytes [] = []" "chunk_bytes (Inl u # cs) = chunk_bytes cs"
  "chunk_bytes (Inr b # cs) = b @ chunk_bytes cs"
  by (simp_all add: chunk_bytes_def)

lemma read_chunks_prefix:
  assumes "upload_law U" and "list_all2 (accepted U) ps cs" and "drained buf" and "buf @ chunk_bytes chunks @ r = frames_of cs"
  shows "\<exists>k b. read_chunks U n chunks buf acc = Ok (acc @ take k ps, b) \<and> b @ r = frames_of (drop k cs) \<and> drained b"
  using assms(2-4)
proof (induction chunks arbitrary: buf acc ps cs)
  case Nil
  then show ?case by (intro exI [of _ 0] exI [of _ buf]) simp
next
  case (Cons ch chunks)
  show ?case
  proof (cases ch)
    case (Inl u)
    then show ?thesis using Cons.IH [OF Cons.prems(1,2)] Cons.prems(3) by simp
  next
    case (Inr bs)
    have "(buf @ bs) @ chunk_bytes chunks @ r = frames_of cs" using Cons.prems(3) Inr by simp
    from drain_frames_prefix [OF assms(1) Cons.prems(1) this, of n acc] obtain k b where
      d: "drain_frames U n (buf @ bs) acc = Ok (acc @ take k ps, b)" "b @ chunk_bytes chunks @ r = frames_of (drop k cs)" "drained b"
      by blast
    have "list_all2 (accepted U) (drop k ps) (drop k cs)" using Cons.prems(1) by (rule list_all2_dropI)
    from Cons.IH [OF this d(3,2), of "acc @ take k ps"] obtain j b' where
      "read_chunks U n chunks b (acc @ take k ps) = Ok ((acc @ take k ps) @ take j (drop k ps), b')"
      "b' @ r = frames_of (drop j (drop k cs))" "drained b'" by blast
    then show ?thesis
      by (intro exI [of _ "k + j"] exI [of _ b']) (use take_add [of k j ps] in \<open>simp add: Inr d(1) add.commute [of j k]\<close>)
  qed
qed

lemma drained_short:
  assumes "drained b" and "b @ r = frames_of (d # ds)" and "length r \<le> length (frames_of ds)" and "length d < 2 ^ 32"
  shows False
proof -
  have "length (b @ r) = length (frame d) + length (frames_of ds)" by (simp add: assms(2))
  then have l: "4 + length d \<le> length b" using assms(3) by simp
  then have "frame_size b = length d" using frame_size_prefix [of b r d "frames_of ds"] assms(2,4) by simp
  with l assms(1) show False by (simp add: drained_def)
qed

lemma compress_all_accepted:
  assumes "compress_all U ps = Ok cs" and "list_all (\<lambda>c. length c < 2 ^ 32) cs" and "list_all (\<lambda>p. is_ok (validate_CollabParams p)) ps"
  shows "list_all2 (accepted U) ps cs"
  using assms
proof (induction ps arbitrary: cs)
  case (Cons p ps)
  then show ?case by (auto simp: try_bind_def accepted_def split: sum.splits)
qed simp

lemma batch_params_read:
  assumes "compress_type_from_header_value hs = Ok (Brotli n)" and "read_chunks U n chunks [] [] = Ok (ps, b)" and "ps \<noteq> []"
  shows "batch_params U hs chunks = Ok ps"
  using assms by (simp add: batch_params_def try_bind_def)

lemma framed_batch_read:
  assumes "upload_law U" and "compress_type_from_header_value hs = Ok (Brotli n)"
    and "compress_all U ps = Ok cs" and "list_all (\<lambda>c. length c < 2 ^ 32) cs"
    and "list_all (\<lambda>p. is_ok (validate_CollabParams p)) ps" and "ps \<noteq> []"
    and "framed_data U ps = Ok (chunk_bytes chunks)"
  shows "batch_params U hs chunks = Ok ps"
proof -
  note acc = compress_all_accepted [OF assms(3-5)]
  have "[] @ chunk_bytes chunks @ [] = frames_of cs"
    using assms(3,7) by (simp add: framed_data_def try_bind_def frames_of_def)
  from read_chunks_prefix [OF assms(1) acc _ this, of n "[]"] obtain k b where
    r: "read_chunks U n chunks [] [] = Ok (take k ps, b)" and b: "b = frames_of (drop k cs)" "drained b"
    by (auto simp: drained_def)
  have "drop k cs = []"
  proof (cases "drop k cs")
    case (Cons d ds)
    then have "d \<in> set cs" by (metis in_set_dropD list.set_intros(1))
    then have "length d < 2 ^ 32" using assms(4) by (simp add: list_all_iff)
    then show ?thesis using drained_short [of b "[]" d ds] b Cons by simp
  qed simp
  then have "take k ps = ps" using list_all2_lengthD [OF acc] by simp
  with r have "read_chunks U n chunks [] [] = Ok (ps, b)" by simp
  from batch_params_read [OF assms(2) this assms(6)] show ?thesis .
qed

text \<open>
  A batch upload arrives as it was sent. For documents that pass their checks and compress to less than 4 GiB
  each, the frames the client writes are read back by the server as the same list in the same order, whatever the
  chunks the body arrives in, chunks that are errors included, as long as the good chunks make up the body.
\<close>

theorem upload_roundtrip:
  assumes "upload_law U" and "compress_type_from_header_value hs = Ok (Brotli n)"
    and "compress_all U ps = Ok cs" and "list_all (\<lambda>c. length c < 2 ^ 32) cs"
    and "list_all (\<lambda>p. is_ok (validate_CollabParams p)) ps" and "ps \<noteq> []"
    and "framed_data U ps = Ok (chunk_bytes chunks)"
  shows "batch_params U hs chunks = Ok ps"
  by (rule framed_batch_read [OF assms])

definition upload_sample_doc :: "int CollabParams" where
  "upload_sample_doc = CollabParams_new ''d'' 0 [7]"

definition upload_sample_codec :: "int upload_codec" where
  "upload_sample_codec = \<lparr>uc_to_bytes = (\<lambda>p. if p = upload_sample_doc then Ok [9, 8] else Err (AE_Internal [])),
     uc_from_bytes = (\<lambda>b. Ok upload_sample_doc), uc_compress = Ok, uc_decompress = (\<lambda>c n. Ok c)\<rparr>"

definition upload_sample_headers :: headers where
  "upload_sample_headers = [(X_COMPRESSION_TYPE, HStr ''brotli''), (X_COMPRESSION_BUFFER_SIZE, HStr ''4096'')]"

lemma upload_sample_facts:
  "upload_law upload_sample_codec" "compress_type_from_header_value upload_sample_headers = Ok (Brotli 4096)"
  "uc_to_bytes upload_sample_codec upload_sample_doc = Ok [9, 8]" "uc_compress upload_sample_codec b = Ok b" "is_ok (validate_CollabParams upload_sample_doc)"
  "frame [9, 8] = [0, 0, 0, 2, 9, 8]"
  by (simp_all add: upload_law_def upload_sample_codec_def upload_sample_headers_def compress_type_from_header_value_def X_COMPRESSION_TYPE_def
      X_COMPRESSION_BUFFER_SIZE_def usize_from_str_def is_digit_def digit_val_def Let_def upload_sample_doc_def
      CollabParams_new_def validate_CollabParams_def frame_def u32_to_be_bytes_def)

theorem upload_roundtrip_witness:
  "batch_params upload_sample_codec upload_sample_headers [Inr [0, 0], Inl (), Inr [0, 2, 9], Inr [8]] = Ok [upload_sample_doc]"
proof (rule upload_roundtrip [OF upload_sample_facts(1,2)])
  show "compress_all upload_sample_codec [upload_sample_doc] = Ok [[9, 8]]" by (simp add: upload_sample_facts try_bind_def)
  then show "framed_data upload_sample_codec [upload_sample_doc] = Ok (chunk_bytes [Inr [0, 0], Inl (), Inr [0, 2, 9], Inr [8]])"
    by (simp add: framed_data_def try_bind_def upload_sample_facts)
qed (simp_all add: upload_sample_facts)

text \<open>
  A batch that is cut off is taken for a shorter one. If the body ends anywhere inside of the last frame, even in
  its size, the server accepts the documents before it as the whole batch and does not report that bytes were left.
\<close>

theorem cut_upload_accepted:
  assumes "upload_law U" and "compress_type_from_header_value hs = Ok (Brotli n)"
    and "compress_all U (ps @ [p]) = Ok (cs @ [c])" and "list_all (\<lambda>c. length c < 2 ^ 32) (cs @ [c])"
    and "list_all (\<lambda>p. is_ok (validate_CollabParams p)) (ps @ [p])" and "ps \<noteq> []"
    and "m < length (frame c)" and "chunk_bytes chunks = frames_of cs @ take m (frame c)"
  shows "batch_params U hs chunks = Ok ps"
proof -
  note acc = compress_all_accepted [OF assms(3-5)]
  let ?r = "drop m (frame c)"
  have "[] @ chunk_bytes chunks @ ?r = frames_of (cs @ [c])" by (simp add: assms(8))
  from read_chunks_prefix [OF assms(1) acc _ this, of n "[]"] obtain k b where
    r: "read_chunks U n chunks [] [] = Ok (take k (ps @ [p]), b)" and b: "b @ ?r = frames_of (drop k (cs @ [c]))" "drained b"
    by (auto simp: drained_def)
  have len: "length ps = length cs" using list_all2_lengthD [OF acc] by simp
  have "k = length cs"
  proof (rule ccontr)
    assume "k \<noteq> length cs"
    then consider "k < length cs" | "length cs < k" by linarith
    then show False
    proof cases
      case 1
      then obtain d ds where d: "drop k cs = d # ds" by (metis Cons_nth_drop_Suc)
      then have "d \<in> set cs" by (metis in_set_dropD list.set_intros(1))
      then have "length d < 2 ^ 32" using assms(4) by (simp add: list_all_iff)
      moreover have "length ?r \<le> length (frames_of (ds @ [c]))" by simp
      moreover have "drop k (cs @ [c]) = d # ds @ [c]" using d 1 by simp
      ultimately show False using drained_short [of b ?r d "ds @ [c]"] b by metis
    next
      case 2
      then show False using b(1) assms(7) by simp
    qed
  qed
  with r len have "read_chunks U n chunks [] [] = Ok (ps, b)" by simp
  from batch_params_read [OF assms(2) this assms(6)] show ?thesis .
qed

theorem cut_upload_accepted_witness:
  "batch_params upload_sample_codec upload_sample_headers [Inr [0, 0, 0, 2, 9, 8, 0, 0]] = Ok [upload_sample_doc]"
proof (rule cut_upload_accepted [OF upload_sample_facts(1,2), of "[upload_sample_doc]" upload_sample_doc "[[9, 8]]" "[9, 8]" 2])
  show "compress_all upload_sample_codec ([upload_sample_doc] @ [upload_sample_doc]) = Ok ([[9, 8]] @ [[9, 8]])" by (simp add: upload_sample_facts try_bind_def)
qed (simp_all add: upload_sample_facts)

end
