(* ===== verification/Token_Props.thy ===== *)
theory Token_Props
  imports Client_Token
begin

text \<open>
  Properties of the token: what a refresh does with each answer, which answers unset the token, and what the
  protocol of concurrent refreshes guarantees to its waiters.
\<close>

section \<open>One refresh\<close>

lemma refresh_action_logged_in:
  "tk_token t = Some r \<Longrightarrow>
     refresh_action answer t =
       (case answer (gt_refresh_token r) of Inl e \<Rightarrow> (Err e, t) | Inr resp \<Rightarrow> (Ok (), token_set resp t))"
  by (simp add: refresh_action_def)

text \<open>Tries that end with a network error are passed over, as long as a delay is left.\<close>

lemma refresh_retry_skips:
  "tk_token t = Some r \<Longrightarrow> k \<le> d \<Longrightarrow>
     (\<And>i. i < k \<Longrightarrow> \<exists>e. answers (n + i) (gt_refresh_token r) = Inl e \<and> gotrue_is_network_error e) \<Longrightarrow>
     refresh_retry answers n d t = refresh_retry answers (n + k) (d - k) t"
proof (induction k)
  case 0
  then show ?case by simp
next
  case (Suc k)
  obtain e where e: "answers (n + k) (gt_refresh_token r) = Inl e" "gotrue_is_network_error e"
    using Suc.prems(3) [of k] by auto
  have "refresh_retry answers n d t = refresh_retry answers (n + k) (Suc (d - Suc k)) t"
    using Suc by (simp add: Suc_diff_Suc)
  also have "\<dots> = refresh_retry answers (n + Suc k) (d - Suc k) t"
    by (subst refresh_retry.simps) (simp add: refresh_action_logged_in [OF Suc.prems(1)] e)
  finally show ?case .
qed

lemma refresh_retry_stops:
  assumes "tk_token t = Some r"
    and "d = 0 \<or> (\<forall>e. answers n (gt_refresh_token r) = Inl e \<longrightarrow> \<not> gotrue_is_network_error e)"
  shows "refresh_retry answers n d t =
     (case answers n (gt_refresh_token r) of Inl e \<Rightarrow> (Err e, t, n + 1) | Inr resp \<Rightarrow> (Ok (), token_set resp t, n + 1))"
  using assms by (subst refresh_retry.simps) (auto simp: refresh_action_logged_in split: sum.splits nat.splits)

fun unauthorized_error :: "GoTrueError \<Rightarrow> bool" where
  "unauthorized_error (GT_Auth _) = True"
| "unauthorized_error (GT_Internal err) = (ge_code err = 401)"
| "unauthorized_error _ = False"

definition after_try ::
  "(string option \<Rightarrow> string) \<Rightarrow> GoTrueError + 'j GotrueTokenResponse \<Rightarrow> 'j ClientToken \<Rightarrow> (AppError + unit) \<times> 'j ClientToken" where
  "after_try dbg a t =
     (case a of
        Inr resp \<Rightarrow> (Ok (), token_set resp t)
      | Inl e \<Rightarrow> (Err (app_error_from_gotrue dbg e), if unauthorized_error e then token_unset t else t))"

lemma unauthorized_from_gotrue: "is_unauthorized (app_error_from_gotrue dbg e) = unauthorized_error e"
  by (cases e) (auto split: if_splits simp: Let_def)

text \<open>
  A refresh asks the service at most five times.  The tries that fail at the network are passed over; the first
  other outcome, or that of the fifth try, decides: a new token is kept as \<open>set\<close> keeps it, an authorization
  error unsets the token, and any other error leaves it.
\<close>

theorem refresh_by_deciding_try:
  assumes "tk_token t = Some r" and "k \<le> 4"
    and "\<forall>i<k. \<exists>e. answers i (gt_refresh_token r) = Inl e \<and> gotrue_is_network_error e"
    and "k = 4 \<or> (\<forall>e. answers k (gt_refresh_token r) = Inl e \<longrightarrow> \<not> gotrue_is_network_error e)"
  shows "inner_refresh_token dbg answers t = after_try dbg (answers k (gt_refresh_token r)) t
     \<and> snd (snd (refresh_retry answers 0 4 t)) = k + 1"
proof -
  have skip: "refresh_retry answers 0 4 t = refresh_retry answers k (4 - k) t"
    using refresh_retry_skips [OF assms(1,2), of answers 0] assms(3) by simp
  have stop: "refresh_retry answers 0 4 t =
     (case answers k (gt_refresh_token r) of Inl e \<Rightarrow> (Err e, t, k + 1) | Inr resp \<Rightarrow> (Ok (), token_set resp t, k + 1))"
    unfolding skip by (rule refresh_retry_stops [OF assms(1)]) (use assms(2,4) in auto)
  show ?thesis
  proof (cases "answers k (gt_refresh_token r)")
    case (Inr resp)
    then show ?thesis by (simp add: inner_refresh_token_def stop after_try_def)
  next
    case (Inl e)
    then show ?thesis by (simp add: inner_refresh_token_def stop after_try_def unauthorized_from_gotrue Let_def)
  qed
qed

definition sample_gotrue_user :: "nat User" where
  "sample_gotrue_user =
     \<lparr>us_id = ''u'', us_aud = [], us_role = [], us_email = ''a@b'', us_email_confirmed_at = None, us_invited_at = None,
      us_phone = [], us_phone_confirmed_at = None, us_confirmation_sent_at = None, us_confirmed_at = None,
      us_recovery_sent_at = None, us_new_email = None, us_email_change_sent_at = None, us_new_phone = None,
      us_phone_change_sent_at = None, us_reauthentication_sent_at = None, us_last_sign_in_at = None, us_app_metadata = 0,
      us_user_metadata = 0, us_factors = None, us_identities = None, us_created_at = [], us_updated_at = [],
      us_banned_until = None, us_deleted_at = None\<rparr>"

definition sample_token :: "string \<Rightarrow> int \<Rightarrow> nat GotrueTokenResponse" where
  "sample_token name expires =
     \<lparr>gt_access_token = name, gt_token_type = ''bearer'', gt_expires_in = 3600, gt_expires_at = expires,
      gt_refresh_token = ''r'', gt_user = sample_gotrue_user, gt_provider_access_token = None, gt_provider_refresh_token = None\<rparr>"

definition logged_in :: "string \<Rightarrow> int \<Rightarrow> nat ClientToken" where
  "logged_in name expires = \<lparr>tk_token = Some (sample_token name expires), tk_sent = []\<rparr>"

definition flaky_answers :: "nat refresh_answers" where
  "flaky_answers i rt = (if i < 2 then Inl (GT_Connect ''refused'') else Inr (sample_token ''new'' 9))"

theorem refresh_by_deciding_try_witness:
  "inner_refresh_token (\<lambda>_. []) flaky_answers (logged_in ''old'' 5) =
     after_try (\<lambda>_. []) (Inr (sample_token ''new'' 9)) (logged_in ''old'' 5)"
proof -
  have "tk_token (logged_in ''old'' 5) = Some (sample_token ''old'' 5)" by (simp add: logged_in_def)
  from refresh_by_deciding_try [OF this, of 2 flaky_answers "\<lambda>_. []"] show ?thesis by (simp add: flaky_answers_def)
qed

text \<open>
  No answer of the authentication service unsets the token: an answer with status 401 or any other status of a
  client error becomes an OAuth error, or an internal one when its body does not parse, and neither counts as
  unauthorized.  (An error of \<open>reqwest\<close> carries a status only where \<open>error_for_status\<close> is called, which the
  client does not do.)  The user stays logged in with a refresh token the service has rejected.
\<close>

theorem no_answer_unsets_token:
  assumes "tk_token t \<noteq> None"
    and "\<forall>i r e. gv_send (G i) r = Inl e \<longrightarrow> re_status e = None"
  shows "tk_token (snd (inner_refresh_token dbg (\<lambda>i rt. gotrue_token (G i) parse (GrantRefreshToken rt)) t)) \<noteq> None"
proof -
  let ?a = "\<lambda>i rt. gotrue_token (G i) parse (GrantRefreshToken rt)"
  have not_auth: "?a i x = Inl e \<Longrightarrow> \<not> unauthorized_error e" for i x e
    using assms(2) by (auto simp: gotrue_token_def exchange_def gotrue_from_reqwest_def read_token_def gotrue_anyhow_def
        split: sum.splits if_splits)
  have keep: "tk_token t1 \<noteq> None \<Longrightarrow> refresh_retry ?a i d t1 = (r, t2, n) \<Longrightarrow>
      tk_token t2 \<noteq> None \<and> (\<forall>e. r = Inl e \<longrightarrow> \<not> unauthorized_error e)" for i d t1 r t2 n
  proof (induction d arbitrary: i t1)
    case 0
    then show ?case
      by (subst (asm) refresh_retry.simps)
        (auto simp: refresh_action_def token_set_def dest: not_auth split: sum.splits option.splits if_splits)
  next
    case (Suc d)
    show ?case
      using Suc.prems Suc.IH [of t1 "i + 1"]
      by (subst (asm) refresh_retry.simps)
        (auto simp: refresh_action_def token_set_def dest: not_auth split: sum.splits option.splits if_splits)
  qed
  obtain r t2 n where R: "refresh_retry ?a 0 4 t = (r, t2, n)" by (cases "refresh_retry ?a 0 4 t")
  show ?thesis
    using keep [OF assms(1) R] by (auto simp: inner_refresh_token_def R Let_def unauthorized_from_gotrue split: sum.splits)
qed

text \<open>A service that answers 401 to everything.\<close>

definition rejecting_client :: "nat gotrue_client" where
  "rejecting_client =
     \<lparr>gv_base_url = ''http://gotrue'', gv_wasm = False,
      gv_show = \<lparr>sw_status = (\<lambda>n. int_to_string (int n)), sw_lossy = (\<lambda>_. []), sw_dbg = (\<lambda>_. [])\<rparr>,
      gv_send = (\<lambda>_. Inr \<lparr>an_status = 401, an_headers = [], an_body = Inr []\<rparr>),
      gv_parse_serde = (\<lambda>_. Inl ''bad''), gv_parse_client = (\<lambda>_. Inl ''bad'')\<rparr>"

theorem no_answer_unsets_token_witness:
  "tk_token (snd (inner_refresh_token (\<lambda>_. [])
     (\<lambda>i rt. gotrue_token ((\<lambda>_. rejecting_client) i) (\<lambda>_. Inl ''bad'') (GrantRefreshToken rt)) (logged_in ''old'' 5))) \<noteq> None"
  by (rule no_answer_unsets_token) (simp_all add: logged_in_def rejecting_client_def)

text \<open>
  Signing in while a token that expires later is kept answers success and leaves the kept token, also when it is
  another user's: the client goes on with requests of the old user.
\<close>

theorem sign_in_keeps_old_user:
  assumes "tk_token t = Some old" and "gt_expires_at new < gt_expires_at old" and "verify (gt_access_token new) = Inr is_new"
  shows "sign_in_password dbg (Inr new) verify t = (Ok is_new, t)
     \<and> access_token True (snd (sign_in_password dbg (Inr new) verify t)) = Ok (gt_access_token old)"
  using assms by (simp add: sign_in_password_def token_set_def access_token_def)

theorem sign_in_keeps_old_user_witness:
  "sign_in_password (\<lambda>_. []) (Inr (sample_token ''bob'' 4)) (\<lambda>_. Inr False) (logged_in ''alice'' 5) = (Ok False, logged_in ''alice'' 5)"
  using sign_in_keeps_old_user [of "logged_in ''alice'' 5" "sample_token ''alice'' 5" "sample_token ''bob'' 4" "\<lambda>_. Inr False" False "\<lambda>_. []"]
  by (simp add: logged_in_def sample_token_def)

section \<open>Concurrent refreshes\<close>

text \<open>A call whose result has not been sent yet has its sender in the list.\<close>

definition phase_open :: "refresh_phase \<Rightarrow> bool" where
  "phase_open ph \<longleftrightarrow> (case ph of PhDone _ \<Rightarrow> False | _ \<Rightarrow> True)"

definition waiter_listed :: "'j refresh_state \<Rightarrow> nat \<Rightarrow> bool" where
  "waiter_listed s i \<longleftrightarrow>
     (case rf_calls s i of
        None \<Rightarrow> rf_received s i = None \<and> i \<notin> set (rf_txs s)
      | Some ph \<Rightarrow> (phase_open ph \<and> rf_received s i = None \<longrightarrow> i \<in> set (rf_txs s)))"

lemma waiter_listed_step: "refresh_step dbg s s' \<Longrightarrow> waiter_listed s j \<Longrightarrow> waiter_listed s' j"
  by (erule refresh_step.cases)
    (auto simp: waiter_listed_def phase_open_def refresh_push_def refresh_load_def refresh_store_def refresh_inner_def
      refresh_answer_def refresh_reset_def set_phase_def split: option.splits prod.splits if_splits refresh_phase.splits)

lemma waiter_listed_reachable: "refresh_reachable dbg t s \<Longrightarrow> waiter_listed s j"
proof (induction rule: refresh_reachable.induct)
  case RefStart
  show ?case by (simp add: waiter_listed_def refresh_start_def)
next
  case (RefStep s s')
  then show ?case by (metis waiter_listed_step)
qed

text \<open>
  C24: Whoever answers, answers everybody: in every state that interleaved refreshes reach, a step that hands out a
  result leaves no call without one, be it pushed, refreshing or waiting.
\<close>

theorem answer_reaches_every_waiter:
  assumes "refresh_reachable dbg t s" and "rf_calls s i = Some (PhResult r)"
    and "rf_calls s j = Some ph" and "phase_open ph"
  shows "rf_received (refresh_answer i r s) j \<noteq> None"
  using waiter_listed_reachable [OF assms(1), of j] assms(3,4)
  by (auto simp: waiter_listed_def refresh_answer_def set_phase_def)

lemmas refresh_ops =
  refresh_start_def refresh_push_def refresh_load_def refresh_store_def refresh_inner_def refresh_answer_def refresh_reset_def set_phase_def

text \<open>
  A call that asks between the moment a refresh hands out its result and the moment it clears its flag is
  lost: from any token the calls reach a state where it waits with its sender in the list, nobody refreshes, and
  every other call is done, so that it gets a timeout after a minute though the refresh succeeded or failed long
  before.
\<close>

theorem late_waiter_is_lost:
  "\<exists>s r. refresh_reachable dbg t s \<and> rf_calls s = [0 \<mapsto> PhDone (Some r), 1 \<mapsto> PhWaiting]
     \<and> rf_txs s = [1] \<and> rf_received s 1 = None \<and> \<not> rf_refreshing s
     \<and> refresh_step dbg s (set_phase 1 (PhDone None) s)"
proof -
  obtain r t1 where inner: "inner_refresh_token dbg (\<lambda>_ _. Inl (GT_Connect [])) t = (r, t1)" by fastforce
  let ?leader = "refresh_inner dbg (\<lambda>_ _. Inl (GT_Connect [])) 0 (refresh_store 0 (refresh_load 0 (refresh_push 0 (refresh_start t))))"
  let ?s = "set_phase 0 (PhDone (Some r)) (refresh_reset 0 (refresh_load 1 (refresh_push 1 (refresh_answer 0 r ?leader))))"
  have "refresh_reachable dbg t ?s"
    by (intro RefStep [OF _ RefReceive] RefStep [OF _ RefReset] RefStep [OF _ RefLoad] RefStep [OF _ RefPush] RefStep [OF _ RefAnswer]
        RefStep [OF _ RefInner] RefStep [OF _ RefStore] RefStart) (simp_all add: refresh_ops inner)
  moreover have "refresh_step dbg ?s (set_phase 1 (PhDone None) ?s)"
    by (rule RefTimeout) (simp_all add: refresh_ops inner)
  moreover have "rf_calls ?s = [0 \<mapsto> PhDone (Some r), 1 \<mapsto> PhWaiting]"
    by (rule ext) (simp add: refresh_ops inner)
  ultimately show ?thesis
    by (intro exI [of _ ?s] exI [of _ r]) (simp add: refresh_ops inner)
qed

text \<open>
  Two calls may both find that nobody refreshes and refresh at the same time with the same refresh token, since
  the flag is read and written in two steps.
\<close>

theorem two_calls_refresh:
  "\<exists>s. refresh_reachable dbg t s \<and> rf_calls s = [0 \<mapsto> PhRefreshing, 1 \<mapsto> PhRefreshing]"
proof -
  let ?s = "refresh_store 1 (refresh_store 0 (refresh_load 1 (refresh_load 0 (refresh_push 1 (refresh_push 0 (refresh_start t))))))"
  have "refresh_reachable dbg t ?s"
    by (intro RefStep [OF _ RefLoad] RefStep [OF _ RefPush] RefStep [OF _ RefStore] RefStart) (simp_all add: refresh_ops)
  moreover have "rf_calls ?s = [0 \<mapsto> PhRefreshing, 1 \<mapsto> PhRefreshing]" by (rule ext) (simp add: refresh_ops)
  ultimately show ?thesis by blast
qed

definition one_refreshing :: "nat refresh_state" where
  "one_refreshing = refresh_inner (\<lambda>_. []) flaky_answers 0
     (refresh_store 0 (refresh_load 0 (refresh_push 0 (refresh_start (logged_in ''old'' 5)))))"

theorem answer_reaches_every_waiter_witness:
  "rf_received (refresh_answer 0 (Ok ()) (refresh_push 1 one_refreshing)) 1 \<noteq> None"
proof (rule answer_reaches_every_waiter)
  have ok: "inner_refresh_token (\<lambda>_. []) flaky_answers (logged_in ''old'' 5) = (Ok (), token_set (sample_token ''new'' 9) (logged_in ''old'' 5))"
    by (simp add: inner_refresh_token_def refresh_retry.simps [of flaky_answers] refresh_action_def flaky_answers_def
        logged_in_def eval_nat_numeral)
  show "refresh_reachable (\<lambda>_. []) (logged_in ''old'' 5) (refresh_push 1 one_refreshing)"
    unfolding one_refreshing_def
    by (intro RefStep [OF _ RefInner] RefStep [OF _ RefStore] RefStep [OF _ RefLoad] RefStep [OF _ RefPush] RefStart)
      (simp_all add: refresh_ops split: prod.splits)
  show "rf_calls (refresh_push 1 one_refreshing) 0 = Some (PhResult (Ok ()))"
    by (simp add: one_refreshing_def refresh_ops ok)
  show "rf_calls (refresh_push 1 one_refreshing) 1 = Some PhPushed" by (simp add: refresh_ops)
  show "phase_open PhPushed" by (simp add: phase_open_def)
qed

end
