(* ===== verification/Client_Server.thy ===== *)
theory Client_Server
  imports Routes Upload_Props Token_Props
begin

text \<open>
  A method of the client with the server at the other end: token, headers, address, route, body and answer in one.
  What the method returns is what the handler returns for the same parameters.
\<close>

section \<open>The server as the client sees it\<close>

text \<open>\<open>enc\<close> writes an answer; the handlers answer with status 200, errors included.\<close>

definition http_ok :: "bytes \<Rightarrow> http_answer" where "http_ok b = \<lparr>an_status = 200, an_headers = [], an_body = Inr b\<rparr>"
definition http_status :: "nat \<Rightarrow> http_answer" where "http_status n = \<lparr>an_status = n, an_headers = [], an_body = Inr []\<rparr>"

definition served ::
  "string \<Rightarrow> ('a AppResponse \<Rightarrow> bytes) \<Rightarrow> (handler \<Rightarrow> 'b http_call \<Rightarrow> AppError + 'a) \<Rightarrow> 'b http_call \<Rightarrow> reqwest_error + http_answer" where
  "served b enc handle r =
     (case path_under b (hc_url r) of
        None \<Rightarrow> Inr (http_status 404)
      | Some p \<Rightarrow>
          (case route_request server_routes (hc_method r) p of
             Handled h \<Rightarrow> Inr (http_ok (enc (response_of (handle h r))))
           | MethodNotAllowed \<Rightarrow> Inr (http_status 405)
           | RouteNotFound \<Rightarrow> Inr (http_status 404)))"

definition sent_headers :: "'b http_call \<Rightarrow> headers" where
  "sent_headers r = map (\<lambda>(k, v). (k, HStr v)) (hc_headers r)"

definition sent_bytes :: "('t, 'j) api_body http_call \<Rightarrow> bytes" where
  "sent_bytes r = (case hc_body r of Some (BBytes b) \<Rightarrow> b | _ \<Rightarrow> [])"

text \<open>A token that is good for more than half a minute.\<close>

definition fresh_token :: "('t, 'j, 'v) api_client \<Rightarrow> 'j ClientToken \<Rightarrow> bool" where
  "fresh_token C t \<longleftrightarrow> cl_readable1 C \<and> cl_readable2 C \<and>
     (case tk_token t of Some r \<Rightarrow> cl_now C + 30 \<le> gt_expires_at r | None \<Rightarrow> False)"

definition remote :: "AppError + unit \<Rightarrow> AppResponseError + unit" where
  "remote r = (case r of Inr _ \<Rightarrow> Ok () | Inl e \<Rightarrow> if e = AE_Ok then Ok () else Err (app_response_error_from e))"

section \<open>Lemmas\<close>

lemma read_unit_answered:
  assumes "parse (enc (response_of r)) = Inr (response_of r)"
  shows "read_unit C parse (http_ok (enc (response_of r))) = remote r"
proof -
  have ok: "error_code e = EC_Ok \<longleftrightarrow> e = AE_Ok" for e by (cases e) simp_all
  have "read_unit C parse (http_ok (enc (response_of r))) = into_error (response_of r)"
    by (simp add: read_unit_def read_response_def from_response_def http_ok_def assms)
  also have "\<dots> = remote r"
    by (cases r) (simp_all add: response_of_def response_from_error_def into_error_def with_data_def AppResponse_Ok_def
        AppResponse_new_def app_response_error_from_def ok remote_def)
  finally show ?thesis .
qed

definition head_of :: "('t, 'j, 'v) api_client \<Rightarrow> 'j ClientToken \<Rightarrow> Method \<Rightarrow> string \<Rightarrow> 'b http_call" where
  "head_of C t m url =
     (call m url)\<lparr>hc_headers := [(''client-version'', cl_show_version C (ac_client_version (cl_config C))),
         (''client-timestamp'', int_to_string (cl_now C)), (''device_id'', ac_device_id (cl_config C))],
       hc_bearer := map_option gt_access_token (tk_token t)\<rparr>"

lemma authorised:
  "fresh_token C t \<Longrightarrow>
     http_client_with_auth (cl_show_version C) (cl_config C) dbg (cl_answers C) (cl_readable1 C) (cl_readable2 C) (cl_now C) m url t =
       (Ok (head_of C t m url), t)"
  by (auto simp: fresh_token_def http_client_with_auth_def refresh_if_expired_def token_expires_at_def access_token_def head_of_def
      split: option.splits)

lemma api_call_fresh:
  "fresh_token C t \<Longrightarrow>
     api_call C q read t =
       (case cl_send C (build_call (cl_config C) q (head_of C t (aq_method q) (aq_url q))) of
          Inl e \<Rightarrow> Err (app_response_error_from (app_error_from_reqwest (cl_wasm C) e)) | Inr a \<Rightarrow> read a, t)"
  by (simp add: api_call_def authorised split: sum.splits)

lemma build_call_fields [simp]:
  "hc_method (build_call c q r) = hc_method r" "hc_url (build_call c q r) = hc_url r" "hc_body (build_call c q r) = aq_body q"
  by (simp_all add: build_call_def compress_headers_def Let_def)

lemma head_of_fields [simp]: "hc_method (head_of C t m url) = m" "hc_url (head_of C t m url) = url"
  by (simp_all add: head_of_def call_def)

lemma served_handled:
  "routed_to C q = Handled h \<Longrightarrow>
     served (base C) enc handle (build_call c q (head_of C t (aq_method q) (aq_url q))) =
       Inr (http_ok (enc (response_of (handle h (build_call c q (head_of C t (aq_method q) (aq_url q)))))))"
  by (auto simp: routed_to_def served_def split: option.splits)

lemma usize_roundtrip:
  assumes "n < 2 ^ 64"
  shows "usize_from_str (int_to_string (int n)) = Some n"
proof (cases "nat_digits n")
  case Nil
  then have False by (subst (asm) nat_digits.simps) (simp split: if_splits)
  then show ?thesis ..
next
  case (Cons c cs)
  have chars: "list_all is_digit (nat_digits n)" by (simp add: list_all_iff is_digit_def nat_digits_chars)
  have "is_digit c" using chars unfolding Cons by simp
  then have "c \<noteq> CHR ''+''" by (auto simp: is_digit_def)
  then have s: "(case int_to_string (int n) of [] \<Rightarrow> [] | c # cs \<Rightarrow> if c = CHR ''+'' then cs else int_to_string (int n)) = nat_digits n"
    by (simp add: int_to_string_def Cons)
  show ?thesis
    unfolding usize_from_str_def s Let_def parse_nat_digits using assms chars by (simp add: Cons)
qed

lemma compressed_headers:
  assumes "aq_compressed q" and "ac_compression_buffer_size (cl_config C) < 2 ^ 64"
  shows "compress_type_from_header_value (sent_headers (build_call (cl_config C) q (head_of C t m url))) =
      Ok (Brotli (ac_compression_buffer_size (cl_config C)))"
    and "map_of (sent_headers (build_call (cl_config C) q (head_of C t m url))) X_COMPRESSION_TYPE = Some (HStr ''brotli'')"
  using assms by (simp_all add: sent_headers_def build_call_def compress_headers_def head_of_def call_def Let_def
      compress_type_from_header_value_def X_COMPRESSION_TYPE_def X_COMPRESSION_BUFFER_SIZE_def usize_roundtrip)

section \<open>Uploads\<close>

definition create_codec_law :: "('t CreateCollabParams \<Rightarrow> string + bytes) \<Rightarrow> (u32 \<Rightarrow> nat \<Rightarrow> bytes \<Rightarrow> AppError + bytes) \<Rightarrow> 't body_codec \<Rightarrow> bool" where
  "create_codec_law to_bytes compress B \<longleftrightarrow>
     (\<forall>p b. to_bytes p = Inr b \<longrightarrow> bd_create_bytes B b = Inr p) \<and>
     (\<forall>q n b c k. compress q n b = Inr c \<longrightarrow> uc_decompress B c k = Inr b)"


text \<open>
  C8: A batch of documents created through the client is the batch the server works on, in the same order, whatever
  the chunks its body arrives in.
\<close>

theorem remote_create_collab_list:
  assumes "fresh_token C t" and "ordinary_id ws" and "ac_compression_buffer_size (cl_config C) < 2 ^ 64"
    and "upload_law U" and "parse (enc (response_of (run ps))) = Inr (response_of (run ps))"
    and "cl_send C = served (base C) enc handle"
    and "handle H_batch_create_collab = (\<lambda>r. try_bind (batch_params U (sent_headers r) (chunks (sent_bytes r))) run)"
    and "\<forall>b. chunk_bytes (chunks b) = b"
    and "compress_all U ps = Ok cs" and "list_all (\<lambda>c. length c < 2 ^ 32) cs"
    and "list_all (\<lambda>p. is_ok (validate_CollabParams p)) ps" and "ps \<noteq> []"
  shows "api_create_collab_list C parse U ws ps t = (remote (run ps), t)"
proof -
  obtain body where body: "framed_data U ps = Ok body" using assms(9) by (simp add: framed_data_def try_bind_def)
  let ?q = "create_collab_list_request C ws body"
  let ?r = "build_call (cl_config C) ?q (head_of C t (aq_method ?q) (aq_url ?q))"
  have q: "aq_method ?q = POST" "aq_url ?q = base C @ ''/api/workspace/'' @ ws @ ''/batch/collab''"
    "aq_compressed ?q" "aq_body ?q = Some (BBytes body)"
    by (simp_all add: create_collab_list_request_def batch_create_collab_url_def plain_request_def)
  have "routed_to C ?q = Handled H_batch_create_collab"
    using workspace_paths(11) [OF assms(2)] unfolding routed_to_def q path_under_base by simp
  note route = served_handled [OF this]
  have "batch_params U (sent_headers ?r) (chunks (sent_bytes ?r)) = Ok ps"
    by (rule framed_batch_read [OF assms(4) compressed_headers(1) [OF q(3) assms(3)] assms(9-12)])
      (simp add: sent_bytes_def q(4) body assms(8))
  then have "handle H_batch_create_collab ?r = run ps" by (simp add: assms(7) try_bind_def)
  then show ?thesis
    using assms(5) by (simp add: api_create_collab_list_def body api_call_fresh [OF assms(1)] assms(6) route read_unit_answered)
qed

text \<open>A server that refuses the documents of one type.\<close>

definition picky :: "nat CreateCollabParams \<Rightarrow> AppError + unit" where
  "picky p = (if cc_collab_type p = 7 then Err (AE_InvalidRequest ''type'') else Ok ())"

definition sample_create :: "nat CreateCollabParams" where
  "sample_create = \<lparr>cc_workspace_id = ''w1'', cc_object_id = ''o1'', cc_encoded_collab_v1 = [1], cc_collab_type = 7, cc_override_if_exist = False\<rparr>"

definition sample_body_codec :: "nat body_codec" where
  "sample_body_codec =
     \<lparr>uc_to_bytes = (\<lambda>p. Ok [cp_encoded_collab_v1 p ! 0]), uc_from_bytes = (\<lambda>b. Ok (CollabParams_new ''o'' 0 b)),
      uc_compress = Ok, uc_decompress = (\<lambda>c n. Ok c),
      bd_create_json = (\<lambda>_. Inl []), bd_create_bytes = (\<lambda>_. Inr sample_create), bd_batch_bytes = (\<lambda>_. Inl [])\<rparr>"

definition picky_handle :: "handler \<Rightarrow> (nat, nat) api_body http_call \<Rightarrow> AppError + unit" where
  "picky_handle h r =
     (if h = H_create_collab then try_bind (create_collab_payload sample_body_codec (sent_headers r) (sent_bytes r)) picky
      else Err (AE_Internal []))"

definition picky_client :: "(nat, nat, nat) api_client" where
  "picky_client = sample_api_client\<lparr>cl_send := served (base (sample_api_client :: (nat, nat, nat) api_client)) (\<lambda>_. []) picky_handle\<rparr>"


definition batch_handle :: "handler \<Rightarrow> (int, nat) api_body http_call \<Rightarrow> AppError + unit" where
  "batch_handle h r =
     (if h = H_batch_create_collab then
        try_bind (batch_params upload_sample_codec (sent_headers r) [Inl (), Inr (sent_bytes r)]) (\<lambda>ps. Ok ())
      else Err (AE_Internal []))"

definition batch_client :: "(int, nat, nat) api_client" where
  "batch_client = sample_api_client\<lparr>cl_send := served (base (sample_api_client :: (int, nat, nat) api_client)) (\<lambda>_. []) batch_handle\<rparr>"

theorem remote_create_collab_list_witness:
  "api_create_collab_list batch_client (\<lambda>_. Inr (response_of (Ok ()))) upload_sample_codec ''w1'' [upload_sample_doc] (logged_in ''a'' 500) =
     (remote (Ok ()), logged_in ''a'' 500)"
proof (rule remote_create_collab_list [where run = "\<lambda>_. Ok ()"])
  show "cl_send batch_client = served (base batch_client) (\<lambda>_. []) batch_handle" by (simp add: batch_client_def sample_api_client_def)
  show "batch_handle H_batch_create_collab =
      (\<lambda>r. try_bind (batch_params upload_sample_codec (sent_headers r) ((\<lambda>b. [Inl (), Inr b]) (sent_bytes r))) (\<lambda>_. Ok ()))"
    by (rule ext) (simp add: batch_handle_def)
  show "\<forall>b. chunk_bytes ((\<lambda>b. [Inl (), Inr b]) b) = b" by simp
  show "compress_all upload_sample_codec [upload_sample_doc] = Ok [[9, 8]]" by (simp add: upload_sample_facts try_bind_def)
qed (simp_all add: upload_sample_facts fresh_token_def batch_client_def sample_api_client_def logged_in_def sample_token_def ordinary_id_def
    plain_char_def path_words_def)

end
