(* ===== verification/Collab_Stream.thy ===== *)
theory Collab_Stream
  imports Ws_Message Client_Token Batch_Upload "HOL-Library.List_Lexorder" "HOL-Library.Char_ord"
begin

text \<open>
  Streams of document changes in redis (\<open>lib/collab-stream\<close>): message ids and messages with their readers
  (\<open>model.rs\<close>), the stream of a document (\<open>stream.rs\<close>), its consumer groups (\<open>stream_group.rs\<close>), and the channel of
  active documents (\<open>pubsub.rs\<close>).

  Redis is a parameter: what it answers to each command.  So are the conversions of the redis library.
\<close>

section \<open>Values and errors\<close>

datatype redis_value = VNil | VInt int | VData bytes | VBulk "redis_value list" | VStatus string | VOkay

datatype redis_error = TypeError string string | OtherRedisError string

datatype StreamError =
    SE_Redis redis_error | SE_UnexpectedValue string | SE_Utf8 | SE_InvalidFormat | SE_ParseInt | SE_GroupAlreadyExists string
  | SE_BinCode string | SE_Internal string

definition redis_internal :: "string \<Rightarrow> redis_error" where "redis_internal msg = TypeError [] msg"

text \<open>\<open>String::from_redis_value\<close>, \<open>Vec<u8>::from_redis_value\<close>, and \<open>Debug\<close> of bytes.\<close>

record redis_lib =
  rl_string :: "redis_value \<Rightarrow> redis_error + string"
  rl_bytes :: "redis_value \<Rightarrow> redis_error + bytes"
  rl_dbg :: "bytes \<Rightarrow> string"

definition redis_lib_law :: "redis_lib \<Rightarrow> bool" where
  "redis_lib_law L \<longleftrightarrow>
     (\<forall>b. valid_utf8 b \<longrightarrow> rl_string L (VData b) = Inr (bytes_string b)) \<and> (\<forall>b. rl_bytes L (VData b) = Inr b)"

section \<open>\<open>MessageId\<close>\<close>

record MessageId =
  mi_timestamp_ms :: u64
  mi_sequence_number :: "16 word"

definition message_id_to_string :: "MessageId \<Rightarrow> string" where
  "message_id_to_string i = nat_digits (unat (mi_timestamp_ms i)) @ ''-'' @ nat_digits (unat (mi_sequence_number i))"

definition sub_ms :: "u64 \<Rightarrow> MessageId \<Rightarrow> MessageId" where
  "sub_ms ms i = (if mi_timestamp_ms i < ms then i else i\<lparr>mi_timestamp_ms := mi_timestamp_ms i - ms\<rparr>)"

text \<open>The integers of Rust's \<open>from_str\<close>, by their number of bits.\<close>

definition uint_from_str :: "nat \<Rightarrow> string \<Rightarrow> nat option" where
  "uint_from_str n s =
     (let ds = (case s of [] \<Rightarrow> [] | c # cs \<Rightarrow> if c = CHR ''+'' then cs else s);
          v = parse_digits 0 ds
      in if ds \<noteq> [] \<and> list_all is_digit ds \<and> v < 2 ^ n then Some v else None)"

definition message_id_from_str :: "string \<Rightarrow> StreamError + MessageId" where
  "message_id_from_str s =
     (case split_once (CHR ''-'') s of
        None \<Rightarrow> Err SE_InvalidFormat
      | Some (a, b) \<Rightarrow>
          (case uint_from_str 64 a of
             None \<Rightarrow> Err SE_ParseInt
           | Some ts \<Rightarrow>
               (case uint_from_str 16 b of
                  None \<Rightarrow> Err SE_ParseInt
                | Some sq \<Rightarrow> Ok \<lparr>mi_timestamp_ms = of_nat ts, mi_sequence_number = of_nat sq\<rparr>)))"

definition message_id_from_bytes :: "bytes \<Rightarrow> StreamError + MessageId" where
  "message_id_from_bytes b = (if valid_utf8 b then message_id_from_str (bytes_string b) else Err SE_Utf8)"

definition message_id_from_redis :: "redis_lib \<Rightarrow> redis_value \<Rightarrow> redis_error + MessageId" where
  "message_id_from_redis L v =
     (case v of
        VData stream_key \<Rightarrow>
          (case message_id_from_bytes stream_key of
             Inl _ \<Rightarrow> Err (TypeError ''invalid stream key'' (rl_dbg L stream_key))
           | Inr i \<Rightarrow> Ok i)
      | _ \<Rightarrow> Err (redis_internal ''expecting Value::Data''))"

section \<open>Messages\<close>

record StreamMessage =
  sm_uid :: "64 word"
  sm_raw_data :: bytes
  sm_message_id :: MessageId

record Message =
  mg_uid :: "64 word"
  mg_raw_data :: bytes

definition message_from_stream :: "StreamMessage \<Rightarrow> Message" where
  "message_from_stream m = \<lparr>mg_uid = sm_uid m, mg_raw_data = sm_raw_data m\<rparr>"

definition i64_to_be_bytes :: "64 word \<Rightarrow> bytes" where 
  "i64_to_be_bytes w = map (\<lambda>k. ucast (drop_bit (8 * k) w)) [7, 6, 5, 4, 3, 2, 1, 0]"
definition i64_from_be_bytes :: "bytes \<Rightarrow> 64 word" where 
  "i64_from_be_bytes b = foldl (\<lambda>acc x. or (push_bit 8 acc) (ucast x)) 0 b"

definition into_tuple_array :: "Message \<Rightarrow> (string \<times> bytes) list" where
  "into_tuple_array m = [(''uid'', i64_to_be_bytes (mg_uid m)), (''data'', mg_raw_data m)]"

definition bulk_from_redis_value :: "redis_value \<Rightarrow> redis_error + redis_value list" where
  "bulk_from_redis_value v = (case v of VBulk b \<Rightarrow> Ok b | _ \<Rightarrow> Err (redis_internal ''expecting Value::Bulk''))"

definition redis_string_from :: "redis_value \<Rightarrow> redis_error + string" where
  "redis_string_from v =
     (case v of
        VData b \<Rightarrow> if valid_utf8 b then Ok (bytes_string b) else Err (OtherRedisError ''invalid utf-8'')
      | _ \<Rightarrow> Err (redis_internal ''expecting Value::Data''))"

definition user_id_from_redis :: "redis_value \<Rightarrow> redis_error + 64 word" where
  "user_id_from_redis v =
     (case v of
        VData b \<Rightarrow>
          (if length b = 8 then Ok (i64_from_be_bytes b)
           else Err (TypeError ''Invalid UID length'' (''Expected 8 bytes, got '' @ nat_digits (length b))))
      | _ \<Rightarrow> Err (TypeError ''Expected Value::Data for UID'' []))"

definition verify_field :: "redis_lib \<Rightarrow> redis_value \<Rightarrow> string \<Rightarrow> redis_error + unit" where
  "verify_field L field expected =
     try_bind (rl_string L field)
       (\<lambda>field_str. if field_str \<noteq> expected then
          Err (TypeError ''Invalid field'' (''Expected '' @ [CHR 0x27] @ expected @ [CHR 0x27] @ '', found '' @ [CHR 0x27] @ field_str @ [CHR 0x27]))
        else Ok ())"

definition stream_message_from_redis :: "redis_lib \<Rightarrow> redis_value \<Rightarrow> redis_error + StreamMessage" where
  "stream_message_from_redis L v =
     try_bind (bulk_from_redis_value v)
       (\<lambda>bulk. if length bulk \<noteq> 2 then Err (TypeError ''Invalid length'' ''Expected length of 2 for the outer bulk value'')
        else try_bind (message_id_from_redis L (bulk ! 0))
          (\<lambda>created_time. try_bind (bulk_from_redis_value (bulk ! 1))
            (\<lambda>fields. if length fields \<noteq> 4 then Err (TypeError ''Invalid length'' ''Expected length of 4 for the inner bulk value'')
             else try_bind (verify_field L (fields ! 0) ''uid'')
               (\<lambda>_. try_bind (user_id_from_redis (fields ! 1))
                 (\<lambda>uid. try_bind (verify_field L (fields ! 2) ''data'')
                   (\<lambda>_. try_bind (rl_bytes L (fields ! 3))
                     (\<lambda>raw_data. Ok \<lparr>sm_uid = uid, sm_raw_data = raw_data, sm_message_id = created_time\<rparr>)))))))"

fun messages_from_redis :: "redis_lib \<Rightarrow> redis_value list \<Rightarrow> redis_error + StreamMessage list" where
  "messages_from_redis L [] = Ok []"
| "messages_from_redis L (v # vs) =
     try_bind (stream_message_from_redis L v) (\<lambda>m. try_bind (messages_from_redis L vs) (\<lambda>ms. Ok (m # ms)))"

text \<open>A \<open>BTreeMap\<close> is the list of its pairs in the order of the keys; \<open>entry(k).or_default().push(v)\<close>.\<close>

fun btree_push :: "string \<Rightarrow> 'a \<Rightarrow> (string \<times> 'a list) list \<Rightarrow> (string \<times> 'a list) list" where
  "btree_push k v [] = [(k, [v])]"
| "btree_push k v ((k', vs) # m) =
     (if k = k' then (k', vs @ [v]) # m
      else if k < k' then (k, [v]) # (k', vs) # m
      else (k', vs) # btree_push k v m)"

definition stream_entry_from_redis ::
  "redis_lib \<Rightarrow> redis_value \<Rightarrow> (string \<times> StreamMessage list) list \<Rightarrow> redis_error + (string \<times> StreamMessage list) list" where
  "stream_entry_from_redis L value acc =
     try_bind (bulk_from_redis_value value)
       (\<lambda>key_values. if length key_values \<noteq> 2 then
          Err (TypeError ''Invalid length'' ''Expected length of 2 for the outer bulk value'')
        else try_bind (redis_string_from (key_values ! 0))
          (\<lambda>stream_key. try_bind (bulk_from_redis_value (key_values ! 1))
            (\<lambda>values. try_bind (messages_from_redis L values)
              (\<lambda>ms. Ok (foldl (\<lambda>m x. btree_push stream_key x m) acc ms)))))"

fun stream_entries_from_redis ::
  "redis_lib \<Rightarrow> redis_value list \<Rightarrow> (string \<times> StreamMessage list) list \<Rightarrow> redis_error + (string \<times> StreamMessage list) list" where
  "stream_entries_from_redis L [] acc = Ok acc"
| "stream_entries_from_redis L (v # vs) acc =
     try_bind (stream_entry_from_redis L v acc) (stream_entries_from_redis L vs)"

definition messages_by_stream_key :: "redis_lib \<Rightarrow> redis_value \<Rightarrow> redis_error + (string \<times> StreamMessage list) list" where
  "messages_by_stream_key L v =
     (if v = VNil then Ok [] else try_bind (bulk_from_redis_value v) (\<lambda>vs. stream_entries_from_redis L vs []))"

section \<open>Redis\<close>

record read_options =
  ro_count :: "nat option"
  ro_block :: "nat option"
  ro_group :: "(string \<times> string) option"

definition no_options :: read_options where "no_options = \<lparr>ro_count = None, ro_block = None, ro_group = None\<rparr>"

text \<open>The commands with what they are answered; those that only succeed or fail answer \<open>unit\<close>.\<close>

record redis_conn =
  rc_lib :: redis_lib
  rc_xadd :: "string \<Rightarrow> string \<Rightarrow> (string \<times> bytes) list \<Rightarrow> redis_error + redis_value"
  rc_xadd_all :: "string \<Rightarrow> string \<Rightarrow> (string \<times> bytes) list list \<Rightarrow> redis_error + unit"
  rc_xread :: "read_options \<Rightarrow> string \<Rightarrow> string \<Rightarrow> redis_error + redis_value"
  rc_xrange_all :: "string \<Rightarrow> redis_error + redis_value"
  rc_xtrim :: "string \<Rightarrow> nat \<Rightarrow> redis_error + unit"
  rc_xgroup_create :: "string \<Rightarrow> string \<Rightarrow> string \<Rightarrow> redis_error + unit"
  rc_xack :: "string \<Rightarrow> string \<Rightarrow> string list \<Rightarrow> redis_error + unit"

definition stream_key :: "string \<Rightarrow> string \<Rightarrow> string" where
  "stream_key workspace_id oid = ''af_collab-'' @ workspace_id @ ''-'' @ oid"

definition redis_result :: "redis_error + 'a \<Rightarrow> StreamError + 'a" where
  "redis_result r = (case r of Inl e \<Rightarrow> Err (SE_Redis e) | Inr x \<Rightarrow> Ok x)"

definition insert_message :: "redis_conn \<Rightarrow> string \<Rightarrow> Message \<Rightarrow> StreamError + MessageId" where
  "insert_message R key m =
     redis_result (try_bind (rc_xadd R key ''*'' (into_tuple_array m)) (message_id_from_redis (rc_lib R)))"

definition insert_messages :: "redis_conn \<Rightarrow> string \<Rightarrow> Message list \<Rightarrow> StreamError + unit" where
  "insert_messages R key ms = redis_result (rc_xadd_all R key ''*'' (map into_tuple_array ms))"

definition read_stream ::
  "redis_conn \<Rightarrow> read_options \<Rightarrow> string \<Rightarrow> string \<Rightarrow> StreamError + (string \<times> StreamMessage list) list" where
  "read_stream R options key message_id =
     redis_result (try_bind (rc_xread R options key message_id) (messages_by_stream_key (rc_lib R)))"

definition stream_pop :: "StreamMessage list \<Rightarrow> StreamMessage option" where
  "stream_pop ms = (if ms = [] then None else Some (last ms))"

definition stream_next :: "redis_conn \<Rightarrow> string \<Rightarrow> StreamError + StreamMessage option" where
  "stream_next R key =
     (case read_stream R (no_options\<lparr>ro_count := Some 1, ro_block := Some 100\<rparr>) key ''$'' of
        Inl e \<Rightarrow> Err e
      | Inr [] \<Rightarrow> Err (SE_UnexpectedValue ''Empty stream'')
      | Inr ((_, messages) # _) \<Rightarrow> Ok (stream_pop messages))"

definition next_after :: "redis_conn \<Rightarrow> string \<Rightarrow> MessageId option \<Rightarrow> StreamError + StreamMessage option" where
  "next_after R key after =
     (let message_id = (case after of Some i \<Rightarrow> message_id_to_string i | None \<Rightarrow> ''$'')
      in case read_stream R (no_options\<lparr>ro_group := Some (''1'', ''2''), ro_block := Some 100\<rparr>) key message_id of
           Inl e \<Rightarrow> Err e
         | Inr [] \<Rightarrow> Err (SE_UnexpectedValue ''empty stream'')
         | Inr ((_, messages) # _) \<Rightarrow> Ok (stream_pop messages))"

text \<open>The library reads an array element by element.\<close>

definition get_all_message :: "redis_conn \<Rightarrow> string \<Rightarrow> StreamError + StreamMessage list" where
  "get_all_message R key =
     redis_result (try_bind (rc_xrange_all R key) (\<lambda>v. try_bind (bulk_from_redis_value v) (messages_from_redis (rc_lib R))))"

definition read_all_message :: "redis_conn \<Rightarrow> string \<Rightarrow> StreamError + Message list" where
  "read_all_message R key = (case get_all_message R key of Inl e \<Rightarrow> Err e | Inr ms \<Rightarrow> Ok (map message_from_stream ms))"

definition clear_stream :: "redis_conn \<Rightarrow> string \<Rightarrow> redis_error + unit" where
  "clear_stream R key = rc_xtrim R key 0"

section \<open>Groups\<close>

datatype ConsumeOptions = ConsumeEmpty | ConsumeCount nat | ConsumeAfter MessageId

text \<open>The error of creating a group that exists, or any other, is dropped.\<close>

definition ensure_consumer_group :: "redis_conn \<Rightarrow> string \<Rightarrow> string \<Rightarrow> string \<Rightarrow> StreamError + unit" where
  "ensure_consumer_group R key group_name start_id = (case rc_xgroup_create R key group_name start_id of _ \<Rightarrow> Ok ())"

definition ack_messages :: "redis_conn \<Rightarrow> string \<Rightarrow> string \<Rightarrow> string list \<Rightarrow> StreamError + unit" where
  "ack_messages R key group_name ids = redis_result (rc_xack R key group_name ids)"

definition first_messages :: "(string \<times> StreamMessage list) list \<Rightarrow> StreamMessage list" where
  "first_messages m = (case m of [] \<Rightarrow> [] | (_, messages) # _ \<Rightarrow> messages)"

definition consumer_messages ::
  "redis_conn \<Rightarrow> string \<Rightarrow> string \<Rightarrow> string \<Rightarrow> ConsumeOptions \<Rightarrow> StreamError + StreamMessage list" where
  "consumer_messages R key group_name consumer_name option =
     (let options = no_options\<lparr>ro_group := Some (group_name, consumer_name), ro_block := Some 100\<rparr>;
          (options1, message_id) =
            (case option of
               ConsumeEmpty \<Rightarrow> (options, ''>'')
             | ConsumeCount n \<Rightarrow> (options\<lparr>ro_count := Some n\<rparr>, ''>'')
             | ConsumeAfter after \<Rightarrow> (options, message_id_to_string after))
      in case read_stream R options1 key message_id of Inl e \<Rightarrow> Err e | Inr m \<Rightarrow> Ok (first_messages m))"

definition get_messages_starting_from_id ::
  "redis_conn \<Rightarrow> string \<Rightarrow> string option \<Rightarrow> nat \<Rightarrow> StreamError + StreamMessage list" where
  "get_messages_starting_from_id R key start_id n =
     (case read_stream R (no_options\<lparr>ro_count := Some n, ro_block := Some 100\<rparr>) key
         (case start_id of Some i \<Rightarrow> i | None \<Rightarrow> ''0'') of
        Inl e \<Rightarrow> Err e
      | Inr m \<Rightarrow> Ok (first_messages m))"

text \<open>\<open>CollabStreamClient::group_stream\<close>: the key of the stream, after the group was ensured to read from the start.\<close>

definition group_stream :: "redis_conn \<Rightarrow> string \<Rightarrow> string \<Rightarrow> string \<Rightarrow> StreamError + string \<times> string" where
  "group_stream R workspace_id oid group_name =
     (case ensure_consumer_group R (stream_key workspace_id oid) group_name ''0'' of
        Inl e \<Rightarrow> Err e
      | Inr _ \<Rightarrow> Ok (stream_key workspace_id oid, group_name))"

section \<open>Active documents\<close>

definition ACTIVE_COLLAB_CHANNEL :: string where "ACTIVE_COLLAB_CHANNEL = ''active_collab_channel''"

record PubSubMessage =
  ps_workspace_id :: string
  ps_oid :: string

definition pubsub_from_vec :: "(bytes \<Rightarrow> string + PubSubMessage) \<Rightarrow> bytes \<Rightarrow> StreamError + PubSubMessage" where
  "pubsub_from_vec deserialize b = (case deserialize b of Inl e \<Rightarrow> Err (SE_BinCode e) | Inr m \<Rightarrow> Ok m)"

definition publish ::
  "(PubSubMessage \<Rightarrow> bytes) \<Rightarrow> (string \<Rightarrow> bytes \<Rightarrow> redis_error + unit) \<Rightarrow> PubSubMessage \<Rightarrow> StreamError + unit" where
  "publish serialize send m = redis_result (send ACTIVE_COLLAB_CHANNEL (serialize m))"

text \<open>The messages of the channel in their order, each read or an error.\<close>

definition subscribe_messages :: "(bytes \<Rightarrow> string + PubSubMessage) \<Rightarrow> bytes list \<Rightarrow> (StreamError + PubSubMessage) list" where
  "subscribe_messages deserialize payloads = map (pubsub_from_vec deserialize) payloads"

section \<open>Properties\<close>

text \<open>What redis stores for a message and gives back: its id, a time and a number within it of 64 bits each, and its fields.\<close>

record stored_entry =
  st_ts :: nat
  st_seq :: nat
  st_message :: Message

definition field_values :: "(string \<times> bytes) list \<Rightarrow> redis_value list" where
  "field_values fs = concat (map (\<lambda>(k, v). [VData (string_bytes k), VData v]) fs)"

definition stored_value :: "stored_entry \<Rightarrow> redis_value" where
  "stored_value e =
     VBulk [VData (string_bytes (nat_digits (st_ts e) @ ''-'' @ nat_digits (st_seq e))),
            VBulk (field_values (into_tuple_array (st_message e)))]"

definition small_id :: "stored_entry \<Rightarrow> bool" where
  "small_id e \<longleftrightarrow> st_ts e < 2 ^ 64 \<and> st_seq e < 2 ^ 16"

definition stored_message :: "stored_entry \<Rightarrow> StreamMessage" where
  "stored_message e =
     \<lparr>sm_uid = mg_uid (st_message e), sm_raw_data = mg_raw_data (st_message e),
      sm_message_id = \<lparr>mi_timestamp_ms = of_nat (st_ts e), mi_sequence_number = of_nat (st_seq e)\<rparr>\<rparr>"

lemma i64_roundtrip: "i64_from_be_bytes (i64_to_be_bytes w) = w"
proof (rule bit_word_eqI)
  fix i assume i: "i < LENGTH(64)"
  then have "i < 64" by simp
  then consider "i < 8" | "8 \<le> i \<and> i < 16" | "16 \<le> i \<and> i < 24" | "24 \<le> i \<and> i < 32"
    | "32 \<le> i \<and> i < 40" | "40 \<le> i \<and> i < 48" | "48 \<le> i \<and> i < 56" | "56 \<le> i \<and> i < 64" by linarith
  then show "bit (i64_from_be_bytes (i64_to_be_bytes w)) i = bit w i"
    by cases (auto simp: i64_from_be_bytes_def i64_to_be_bytes_def bit_or_iff bit_push_bit_iff bit_ucast_iff bit_drop_bit_eq
        push_bit_or dest: bit_imp_le_length)
qed

lemma i64_length: "length (i64_to_be_bytes w) = 8"
  by (simp add: i64_to_be_bytes_def)

lemma uint_roundtrip: "uint_from_str n (nat_digits m) = (if m < 2 ^ n then Some m else None)"
proof (cases "nat_digits m")
  case Nil
  then have False by (subst (asm) nat_digits.simps) (simp split: if_splits)
  then show ?thesis ..
next
  case (Cons c cs)
  have chars: "list_all is_digit (nat_digits m)" by (simp add: list_all_iff is_digit_def nat_digits_chars)
  have "is_digit c" using chars unfolding Cons by simp
  then have "c \<noteq> CHR ''+''" by (auto simp: is_digit_def)
  then have s: "(case nat_digits m of [] \<Rightarrow> [] | c # cs \<Rightarrow> if c = CHR ''+'' then cs else nat_digits m) = nat_digits m"
    by (simp add: Cons)
  show ?thesis
    unfolding uint_from_str_def s Let_def parse_nat_digits using chars by (simp add: Cons)
qed

lemma split_once_before: "c \<notin> set xs \<Longrightarrow> split_once c (xs @ c # ys) = Some (xs, ys)"
  by (induction xs) auto

lemma minus_no_digit: "CHR ''-'' \<notin> set (nat_digits n)"
proof
  assume "CHR ''-'' \<in> set (nat_digits n)"
  from nat_digits_chars [OF this] show False by simp
qed

lemma utf8_ascii: "list_all (\<lambda>c. (of_char c :: nat) < 128) s \<Longrightarrow> valid_utf8 (string_bytes s)"
proof (induction s)
  case (Cons c s)
  have "(of_nat (of_char c) :: 8 word) < 128"
    using Cons.prems by (simp add: word_less_nat_alt unat_of_nat)
  then show ?case using Cons by (simp add: string_bytes_def)
qed (simp add: string_bytes_def)

lemma id_text_ascii: "list_all (\<lambda>c. (of_char c :: nat) < 128) (nat_digits a @ ''-'' @ nat_digits b)"
  by (auto simp: list_all_iff dest: nat_digits_chars)

lemma id_text_read:
  "message_id_from_str (nat_digits a @ ''-'' @ nat_digits b) =
     (if a < 2 ^ 64 \<and> b < 2 ^ 16 then Ok \<lparr>mi_timestamp_ms = of_nat a, mi_sequence_number = of_nat b\<rparr> else Err SE_ParseInt)"
  by (simp add: message_id_from_str_def split_once_before [OF minus_no_digit] uint_roundtrip)

lemma stored_id_read:
  "message_id_from_redis L (VData (string_bytes (nat_digits a @ ''-'' @ nat_digits b))) =
     (if a < 2 ^ 64 \<and> b < 2 ^ 16 then Ok \<lparr>mi_timestamp_ms = of_nat a, mi_sequence_number = of_nat b\<rparr>
      else Err (TypeError ''invalid stream key'' (rl_dbg L (string_bytes (nat_digits a @ ''-'' @ nat_digits b)))))"
  using utf8_ascii [OF id_text_ascii [of a b]] id_text_read [of a b]
  by (simp add: message_id_from_redis_def message_id_from_bytes_def del: append_Cons append_Nil)

lemma stored_value_read:
  assumes "redis_lib_law L"
  shows "stream_message_from_redis L (stored_value e) =
     (if small_id e then Ok (stored_message e)
      else Err (TypeError ''invalid stream key'' (rl_dbg L (string_bytes (nat_digits (st_ts e) @ ''-'' @ nat_digits (st_seq e))))))"
proof -
  have "valid_utf8 (string_bytes ''uid'')" "valid_utf8 (string_bytes ''data'')" by (rule utf8_ascii, simp)+
  then have fields: "verify_field L (VData (string_bytes ''uid'')) ''uid'' = Ok ()" "verify_field L (VData (string_bytes ''data'')) ''data'' = Ok ()"
    "rl_bytes L (VData b) = Ok b" for b
    using assms by (simp_all add: verify_field_def redis_lib_law_def try_bind_def)
  show ?thesis
    by (simp add: stream_message_from_redis_def stored_value_def field_values_def into_tuple_array_def bulk_from_redis_value_def try_bind_def
        stored_id_read [simplified] fields user_id_from_redis_def i64_length i64_roundtrip stored_message_def small_id_def)
qed

lemma messages_read:
  assumes "redis_lib_law L"
  shows "list_all small_id es \<Longrightarrow> messages_from_redis L (map stored_value es) = Ok (map stored_message es)"
  by (induction es) (simp_all add: stored_value_read [OF assms] try_bind_def)

text \<open>
  C39: A stream is read back as it was written: from what redis keeps of the messages, all of them come back in their
  order, with their users, contents and ids, as long as no two to the sixteen of them share a millisecond.
\<close>

theorem stream_reads_back:
  assumes "redis_lib_law (rc_lib R)" and "rc_xrange_all R key = Inr (VBulk (map stored_value es))" and "list_all small_id es"
  shows "get_all_message R key = Ok (map stored_message es) \<and> read_all_message R key = Ok (map st_message es)"
  using assms by (simp add: get_all_message_def read_all_message_def redis_result_def try_bind_def bulk_from_redis_value_def messages_read
      message_from_stream_def stored_message_def comp_def)

text \<open>
  The sequence number of an id has 64 bits in redis and 16 here: one message whose number does not fit makes the whole
  stream unreadable, the messages before it included.
\<close>

theorem large_sequence_stops_reading:
  assumes "redis_lib_law (rc_lib R)" and "rc_xrange_all R key = Inr (VBulk (map stored_value (es @ e # es')))"
    and "list_all small_id es" and "2 ^ 16 \<le> st_seq e"
  shows "read_all_message R key =
     Err (SE_Redis (TypeError ''invalid stream key''
       (rl_dbg (rc_lib R) (string_bytes (nat_digits (st_ts e) @ ''-'' @ nat_digits (st_seq e))))))"
proof -
  have "messages_from_redis (rc_lib R) (map stored_value (es @ e # es')) =
      Err (TypeError ''invalid stream key'' (rl_dbg (rc_lib R) (string_bytes (nat_digits (st_ts e) @ ''-'' @ nat_digits (st_seq e)))))"
    using assms(3,4) by (induction es) (simp_all add: stored_value_read [OF assms(1)] small_id_def try_bind_def)
  then show ?thesis
    using assms(2) by (simp add: read_all_message_def get_all_message_def redis_result_def try_bind_def bulk_from_redis_value_def)
qed

text \<open>
  A reader that asks for what comes after a message gets the last of all that came and never the ones in between, and
  a stream where nothing came is an error and not \<open>None\<close>.
\<close>

theorem next_after_skips:
  assumes "redis_lib_law (rc_lib R)" and "list_all small_id es" and "es \<noteq> []"
    and "\<forall>options. rc_xread R options key i = Inr (VBulk [VBulk [VData (string_bytes name), VBulk (map stored_value es)]])"
    and "valid_utf8 (string_bytes name)" and "i = message_id_to_string a"
    and "\<forall>options. rc_xread R options idle i = Inr VNil"
  shows "next_after R key (Some a) = Ok (Some (stored_message (last es)))
     \<and> next_after R idle (Some a) = Err (SE_UnexpectedValue ''empty stream'')"
proof -
  have push: "foldl (\<lambda>m x. btree_push name x m) [(name, ys)] xs = [(name, ys @ xs)]" for xs ys :: "StreamMessage list"
    by (induction xs arbitrary: ys) simp_all
  obtain x xs where es: "map stored_message es = x # xs" using assms(3) by (cases es) auto
  have "foldl (\<lambda>m x. btree_push name x m) [] (map stored_message es) = [(name, map stored_message es)]"
    unfolding es by (simp add: push)
  then have "messages_by_stream_key (rc_lib R) (VBulk [VBulk [VData (string_bytes name), VBulk (map stored_value es)]]) =
      Ok [(name, map stored_message es)]"
    by (simp add: messages_by_stream_key_def bulk_from_redis_value_def stream_entry_from_redis_def redis_string_from_def assms(5)
        messages_read [OF assms(1,2)] try_bind_def)
  then show ?thesis
    using assms(3,4,7) by (simp add: next_after_def read_stream_def redis_result_def try_bind_def assms(6) [symmetric] stream_pop_def
        last_map messages_by_stream_key_def)
qed

definition sample_lib :: redis_lib where
  "sample_lib =
     \<lparr>rl_string = (\<lambda>v. case v of VData b \<Rightarrow> if valid_utf8 b then Inr (bytes_string b) else Inl (redis_internal []) | _ \<Rightarrow> Inl (redis_internal [])),
      rl_bytes = (\<lambda>v. case v of VData b \<Rightarrow> Inr b | _ \<Rightarrow> Inl (redis_internal [])), rl_dbg = (\<lambda>_. [])\<rparr>"

definition sample_entry :: "nat \<Rightarrow> nat \<Rightarrow> stored_entry" where
  "sample_entry ts sq = \<lparr>st_ts = ts, st_seq = sq, st_message = \<lparr>mg_uid = 7, mg_raw_data = [1, 2]\<rparr>\<rparr>"

definition sample_redis :: "stored_entry list \<Rightarrow> redis_conn" where
  "sample_redis es =
     \<lparr>rc_lib = sample_lib, rc_xadd = (\<lambda>_ _ _. Inr (VData (string_bytes ''1-0''))), rc_xadd_all = (\<lambda>_ _ _. Inr ()),
      rc_xread = (\<lambda>_ key _. Inr (if key = ''s'' then VBulk [VBulk [VData (string_bytes ''s''), VBulk (map stored_value es)]] else VNil)),
      rc_xrange_all = (\<lambda>_. Inr (VBulk (map stored_value es))), rc_xtrim = (\<lambda>_ _. Inr ()), rc_xgroup_create = (\<lambda>_ _ _. Inr ()),
      rc_xack = (\<lambda>_ _ _. Inr ())\<rparr>"

lemma sample_redis_law: "redis_lib_law (rc_lib (sample_redis es))"
  by (simp add: redis_lib_law_def sample_redis_def sample_lib_def)

theorem stream_reads_back_witness:
  "read_all_message (sample_redis [sample_entry 5 0, sample_entry 5 1]) ''s'' =
     Ok (map st_message [sample_entry 5 0, sample_entry 5 1])"
  using stream_reads_back [OF sample_redis_law, of "[sample_entry 5 0, sample_entry 5 1]" "''s''" "[sample_entry 5 0, sample_entry 5 1]"]
  by (simp add: sample_redis_def sample_entry_def small_id_def)

theorem large_sequence_stops_reading_witness:
  "read_all_message (sample_redis ([sample_entry 5 0] @ sample_entry 5 70000 # [])) ''s'' = Err (SE_Redis (TypeError ''invalid stream key'' []))"
  using large_sequence_stops_reading [OF sample_redis_law, of "[sample_entry 5 0] @ sample_entry 5 70000 # []" "''s''" "[sample_entry 5 0]"
      "sample_entry 5 70000" "[]"]
  by (simp add: sample_redis_def sample_entry_def small_id_def sample_lib_def)

theorem next_after_skips_witness:
  "next_after (sample_redis [sample_entry 5 0, sample_entry 6 0]) ''s'' (Some \<lparr>mi_timestamp_ms = 4, mi_sequence_number = 0\<rparr>) =
     Ok (Some (stored_message (sample_entry 6 0)))"
  using next_after_skips [OF sample_redis_law, of "[sample_entry 5 0, sample_entry 6 0]" "[sample_entry 5 0, sample_entry 6 0]" "''s''" _ "''s''"
      "\<lparr>mi_timestamp_ms = 4, mi_sequence_number = 0\<rparr>" "''q''"]
  by (simp add: sample_redis_def sample_entry_def small_id_def utf8_ascii)

end
