(* ===== verification/Template.thy ===== *)
theory Template
  imports Prelude
begin

text \<open>
  The first contents of a workspace (\<open>lib/workspace-template\<close>): the parser of a document written as a tree of blocks
  (\<open>document/parser.rs\<close>), the builder of views (\<open>hierarchy_builder.rs\<close>) and the builder of a workspace (\<open>lib.rs\<close>).

  Names made by \<open>nanoid\<close> and \<open>uuid\<close> are a stream of texts, taken one after the other; documents and folders are built by
  the collab libraries from the data given here, which are parameters.
\<close>

section \<open>Documents\<close>

text \<open>A map from JSON is the list of its pairs; an \<open>IndexMap\<close> keeps the order of insertion.\<close>

datatype 'j SerdeBlock = SerdeBlock (sb_ty: string) (sb_data: "(string \<times> 'j) list") (sb_children: "'j SerdeBlock list")

record 'j Block =
  bk_id :: string
  bk_ty :: string
  bk_data :: "(string \<times> 'j) list"
  bk_parent :: string
  bk_children :: string
  bk_external_id :: "string option"
  bk_external_type :: "string option"

record 'j DocumentData =
  dd_page_id :: string
  dd_blocks :: "(string \<times> 'j Block) list"
  dd_children_map :: "(string \<times> string list) list"
  dd_text_map :: "(string \<times> string) list"

definition DELTA :: string where "DELTA = ''delta''"
definition TEXT_EXTERNAL_TYPE :: string where "TEXT_EXTERNAL_TYPE = ''text''"

definition block_to_block_pb ::
  "(nat \<Rightarrow> string) \<Rightarrow> ('j \<Rightarrow> string) \<Rightarrow> string \<Rightarrow> (string \<times> 'j) list \<Rightarrow> string option \<Rightarrow> string \<Rightarrow> nat \<Rightarrow> 'j Block \<times> string option \<times> nat" where
  "block_to_block_pb nanoid to_text ty data given parent n =
     (let (i, n1) = (case given of Some x \<Rightarrow> (x, n) | None \<Rightarrow> (nanoid n, Suc n));
          delta = map_option to_text (map_of data DELTA);
          data1 = filter (\<lambda>(k, _). k \<noteq> DELTA) data;
          (external_id, external_type, n2) =
            (case delta of None \<Rightarrow> (None, None, n1) | Some _ \<Rightarrow> (Some (nanoid n1), Some TEXT_EXTERNAL_TYPE, Suc n1))
      in (\<lparr>bk_id = i, bk_ty = ty, bk_data = data1, bk_parent = parent, bk_children = nanoid n2,
           bk_external_id = external_id, bk_external_type = external_type\<rparr>, delta, Suc n2))"

definition map_extend :: "(string \<times> 'a) list \<Rightarrow> (string \<times> 'a) list \<Rightarrow> (string \<times> 'a) list" where
  "map_extend m xs = foldl (\<lambda>m (k, v). map_insert m k v) m xs"

fun generate_blocks ::
  "(nat \<Rightarrow> string) \<Rightarrow> ('j \<Rightarrow> string) \<Rightarrow> 'j SerdeBlock \<Rightarrow> string option \<Rightarrow> string \<Rightarrow> nat \<Rightarrow>
     (string \<times> 'j Block) list \<times> (string \<times> string) list \<times> nat"
and generate_child_blocks ::
  "(nat \<Rightarrow> string) \<Rightarrow> ('j \<Rightarrow> string) \<Rightarrow> 'j SerdeBlock list \<Rightarrow> string \<Rightarrow> nat \<Rightarrow> (string \<times> 'j Block) list \<Rightarrow> (string \<times> string) list \<Rightarrow>
     (string \<times> 'j Block) list \<times> (string \<times> string) list \<times> nat" where
  "generate_blocks nanoid to_text (SerdeBlock ty data children) given parent n =
     (case block_to_block_pb nanoid to_text ty data given parent n of
        (block_pb, delta, n1) \<Rightarrow>
          (case generate_child_blocks nanoid to_text children (bk_id block_pb) n1 [] [] of
             (blocks, text_map, n2) \<Rightarrow>
               (map_insert blocks (bk_id block_pb) block_pb,
                (case delta of
                   Some d \<Rightarrow> (case bk_external_id block_pb of Some x \<Rightarrow> map_insert text_map x d | None \<Rightarrow> text_map)
                 | None \<Rightarrow> text_map), n2)))"
| "generate_child_blocks nanoid to_text [] parent n blocks text_map = (blocks, text_map, n)"
| "generate_child_blocks nanoid to_text (child # children) parent n blocks text_map =
     (case generate_blocks nanoid to_text child None parent n of
        (child_blocks, child_texts, n1) \<Rightarrow>
          generate_child_blocks nanoid to_text children parent n1 (map_extend blocks child_blocks) (map_extend text_map child_texts))"

definition children_step ::
  "(string \<times> 'j Block) list \<Rightarrow> (string \<times> string list) list \<Rightarrow> string \<times> 'j Block \<Rightarrow> (string \<times> string list) list" where
  "children_step blocks m ib =
     (case ib of (i, b) \<Rightarrow>
        if bk_parent b = [] then m
        else
          (case map_of blocks (bk_parent b) of
             None \<Rightarrow> m
           | Some parent_block \<Rightarrow>
               (let m1 = entry_push m (bk_children parent_block) i
                in if map_of m1 (bk_children b) = None then map_insert m1 (bk_children b) [] else m1)))"

definition generate_children_map :: "(string \<times> 'j Block) list \<Rightarrow> (string \<times> string list) list" where
  "generate_children_map blocks = foldl (children_step blocks) [] blocks"

definition json_str_to_document ::
  "(nat \<Rightarrow> string) \<Rightarrow> ('j \<Rightarrow> string) \<Rightarrow> (string \<Rightarrow> string + 'j SerdeBlock) \<Rightarrow> string \<Rightarrow> string + 'j DocumentData" where
  "json_str_to_document nanoid to_text parse json_str =
     (case parse json_str of
        Inl e \<Rightarrow> Err e
      | Inr root \<Rightarrow>
          (let page_id = nanoid 0
           in case generate_blocks nanoid to_text root (Some page_id) [] 1 of
                (blocks, text_map, _) \<Rightarrow>
                  Ok \<lparr>dd_page_id = page_id, dd_blocks = blocks, dd_children_map = generate_children_map blocks, dd_text_map = text_map\<rparr>))"

section \<open>Views\<close>

datatype ViewLayout = LayoutDocument | LayoutGrid | LayoutBoard | LayoutCalendar

record View =
  vw_id :: string
  vw_parent_view_id :: string
  vw_name :: string
  vw_desc :: string
  vw_created_at :: int
  vw_is_favorite :: bool
  vw_layout :: ViewLayout
  vw_icon :: "string option"
  vw_created_by :: "int option"
  vw_last_edited_time :: int
  vw_children :: "string list"
  vw_last_edited_by :: "int option"

datatype ParentChildViews = ParentChildViews (parent_view: View) (child_views: "ParentChildViews list")

record ViewBuilder =
  vb_uid :: int
  vb_parent_view_id :: string
  vb_view_id :: string
  vb_name :: string
  vb_desc :: string
  vb_layout :: ViewLayout
  vb_child_views :: "ParentChildViews list"
  vb_is_favorite :: bool
  vb_icon :: "string option"

definition ViewBuilder_new :: "string \<Rightarrow> int \<Rightarrow> string \<Rightarrow> ViewBuilder" where
  "ViewBuilder_new fresh_id uid parent_view_id =
     \<lparr>vb_uid = uid, vb_parent_view_id = parent_view_id, vb_view_id = fresh_id, vb_name = [], vb_desc = [], vb_layout = LayoutDocument,
      vb_child_views = [], vb_is_favorite = False, vb_icon = None\<rparr>"

definition with_layout :: "ViewLayout \<Rightarrow> ViewBuilder \<Rightarrow> ViewBuilder" where "with_layout l b = b\<lparr>vb_layout := l\<rparr>"
definition with_name :: "string \<Rightarrow> ViewBuilder \<Rightarrow> ViewBuilder" where "with_name s b = b\<lparr>vb_name := s\<rparr>"
definition with_desc :: "string \<Rightarrow> ViewBuilder \<Rightarrow> ViewBuilder" where "with_desc s b = b\<lparr>vb_desc := s\<rparr>"
definition with_icon :: "string \<Rightarrow> ViewBuilder \<Rightarrow> ViewBuilder" where "with_icon s b = b\<lparr>vb_icon := Some s\<rparr>"

definition with_child_view_builder :: "string \<Rightarrow> (ViewBuilder \<Rightarrow> ParentChildViews) \<Rightarrow> ViewBuilder \<Rightarrow> ViewBuilder" where
  "with_child_view_builder fresh_id f b =
     b\<lparr>vb_child_views := vb_child_views b @ [f (ViewBuilder_new fresh_id (vb_uid b) (vb_view_id b))]\<rparr>"

definition build_view :: "int \<Rightarrow> ViewBuilder \<Rightarrow> ParentChildViews" where
  "build_view timestamp b =
     ParentChildViews
       \<lparr>vw_id = vb_view_id b, vw_parent_view_id = vb_parent_view_id b, vw_name = vb_name b, vw_desc = vb_desc b, vw_created_at = timestamp,
        vw_is_favorite = vb_is_favorite b, vw_layout = vb_layout b, vw_icon = vb_icon b, vw_created_by = Some (vb_uid b),
        vw_last_edited_time = 0, vw_children = map (\<lambda>v. vw_id (parent_view v)) (vb_child_views b), vw_last_edited_by = Some (vb_uid b)\<rparr>
       (vb_child_views b)"

fun flatten_views :: "ParentChildViews list \<Rightarrow> View list" where
  "flatten_views [] = []"
| "flatten_views (ParentChildViews v children # views) = v # flatten_views children @ flatten_views views"

record WorkspaceViewBuilder =
  wv_uid :: int
  wv_workspace_id :: string
  wv_views :: "ParentChildViews list"

definition WorkspaceViewBuilder_new :: "string \<Rightarrow> int \<Rightarrow> WorkspaceViewBuilder" where
  "WorkspaceViewBuilder_new workspace_id uid = \<lparr>wv_uid = uid, wv_workspace_id = workspace_id, wv_views = []\<rparr>"

definition with_view_builder ::
  "string \<Rightarrow> (ViewBuilder \<Rightarrow> ParentChildViews) \<Rightarrow> WorkspaceViewBuilder \<Rightarrow> string \<times> WorkspaceViewBuilder" where
  "with_view_builder fresh_id f w =
     (let view = f (ViewBuilder_new fresh_id (wv_uid w) (wv_workspace_id w))
      in (vw_id (parent_view view), w\<lparr>wv_views := wv_views w @ [view]\<rparr>))"

definition build_workspace_views :: "WorkspaceViewBuilder \<Rightarrow> ParentChildViews list \<times> WorkspaceViewBuilder" where
  "build_workspace_views w = (wv_views w, w\<lparr>wv_views := []\<rparr>)"

section \<open>Workspaces\<close>

text \<open>The contents of a first document are encoded by \<open>encode\<close>; its type is \<open>'t\<close>.\<close>

record ('t, 'e) TemplateData =
  td_object_id :: string
  td_object_type :: 't
  td_object_data :: 'e

record FolderData =
  fd_workspace_id :: string
  fd_first_level :: "string list"
  fd_uid :: int
  fd_current_view :: string
  fd_views :: "View list"

type_synonym ('t, 'e) template = "int \<Rightarrow> WorkspaceViewBuilder \<Rightarrow> (string + ('t, 'e) TemplateData) \<times> WorkspaceViewBuilder"

text \<open>\<open>read_me\<close> is the document of the repository, an asset that is known to parse; \<open>document\<close> builds and encodes.\<close>

definition get_started_template ::
  "string \<Rightarrow> int \<Rightarrow> string \<Rightarrow> 't \<Rightarrow> 'j DocumentData \<Rightarrow> (string \<Rightarrow> 'j DocumentData \<Rightarrow> string + 'e) \<Rightarrow> ('t, 'e) template" where
  "get_started_template fresh_id timestamp star document_type read_me document uid w =
     (case with_view_builder fresh_id (\<lambda>b. build_view timestamp (with_icon star (with_name ''Getting started'' b))) w of
        (view_id, w1) \<Rightarrow>
          (case document view_id read_me of
             Inl e \<Rightarrow> (Err e, w1)
           | Inr data \<Rightarrow> (Ok \<lparr>td_object_id = view_id, td_object_type = document_type, td_object_data = data\<rparr>, w1)))"

text \<open>The handlers by their layout, in the map's order; one that fails is passed over.\<close>

definition with_template :: "ViewLayout \<Rightarrow> ('t, 'e) template \<Rightarrow> (ViewLayout \<times> ('t, 'e) template) list \<Rightarrow> (ViewLayout \<times> ('t, 'e) template) list" where
  "with_template layout t handlers = map_insert handlers layout t"

fun run_templates ::
  "int \<Rightarrow> (ViewLayout \<times> ('t, 'e) template) list \<Rightarrow> WorkspaceViewBuilder \<Rightarrow> ('t, 'e) TemplateData list \<Rightarrow>
     ('t, 'e) TemplateData list \<times> WorkspaceViewBuilder" where
  "run_templates uid [] w acc = (acc, w)"
| "run_templates uid ((_, t) # ts) w acc =
     (case t uid w of
        (Inr d, w1) \<Rightarrow> run_templates uid ts w1 (acc @ [d])
      | (Inl _, w1) \<Rightarrow> run_templates uid ts w1 acc)"

text \<open>Without a view the code panics: \<open>None\<close>.  \<open>folder\<close> builds and encodes the folder of the workspace.\<close>

definition build_workspace ::
  "int \<Rightarrow> string \<Rightarrow> (ViewLayout \<times> ('t, 'e) template) list \<Rightarrow> 't \<Rightarrow> (FolderData \<Rightarrow> string + 'e) \<Rightarrow>
     (string + ('t, 'e) TemplateData list) option" where
  "build_workspace uid workspace_id handlers folder_type folder =
     (case run_templates uid handlers (WorkspaceViewBuilder_new workspace_id uid) [] of
        (templates, w) \<Rightarrow>
          (case fst (build_workspace_views w) of
             [] \<Rightarrow> None
           | first # rest \<Rightarrow>
               (case folder
                   \<lparr>fd_workspace_id = workspace_id, fd_first_level = map (\<lambda>v. vw_id (parent_view v)) (first # rest), fd_uid = uid,
                    fd_current_view = vw_id (parent_view first), fd_views = flatten_views (first # rest)\<rparr> of
                  Inl e \<Rightarrow> Some (Err e)
                | Inr data \<Rightarrow>
                    Some (Ok (templates @ [\<lparr>td_object_id = workspace_id, td_object_type = folder_type, td_object_data = data\<rparr>])))))"

section \<open>The tree behind a document\<close>

datatype 'j atree = ANode (at_block: "'j Block") (at_delta: "string option") (at_children: "'j atree list")

text \<open>The tree with its names given.\<close>

fun decorate ::
  "(nat \<Rightarrow> string) \<Rightarrow> ('j \<Rightarrow> string) \<Rightarrow> 'j SerdeBlock \<Rightarrow> string option \<Rightarrow> string \<Rightarrow> nat \<Rightarrow> 'j atree \<times> nat"
and decorate_all :: "(nat \<Rightarrow> string) \<Rightarrow> ('j \<Rightarrow> string) \<Rightarrow> 'j SerdeBlock list \<Rightarrow> string \<Rightarrow> nat \<Rightarrow> 'j atree list \<times> nat" where
  "decorate nanoid to_text (SerdeBlock ty data children) given parent n =
     (case block_to_block_pb nanoid to_text ty data given parent n of
        (b, delta, n1) \<Rightarrow> (case decorate_all nanoid to_text children (bk_id b) n1 of (ts, n2) \<Rightarrow> (ANode b delta ts, n2)))"
| "decorate_all nanoid to_text [] parent n = ([], n)"
| "decorate_all nanoid to_text (c # cs) parent n =
     (case decorate nanoid to_text c None parent n of
        (t, n1) \<Rightarrow> (case decorate_all nanoid to_text cs parent n1 of (ts, n2) \<Rightarrow> (t # ts, n2)))"

fun at_blocks :: "'j atree \<Rightarrow> 'j Block list" where
  "at_blocks (ANode b d ts) = concat (map at_blocks ts) @ [b]"

fun at_texts :: "'j atree \<Rightarrow> (string \<times> string) list" where
  "at_texts (ANode b d ts) =
     concat (map at_texts ts) @ (case (d, bk_external_id b) of (Some x, Some i) \<Rightarrow> [(i, x)] | _ \<Rightarrow> [])"

fun at_names :: "'j atree \<Rightarrow> string list" where
  "at_names (ANode b d ts) =
     bk_id b # (case bk_external_id b of Some i \<Rightarrow> [i] | None \<Rightarrow> []) @ bk_children b # concat (map at_names ts)"

definition keyed :: "'j Block list \<Rightarrow> (string \<times> 'j Block) list" where
  "keyed bs = map (\<lambda>b. (bk_id b, b)) bs"

fun at_wf :: "'j atree \<Rightarrow> bool" where
  "at_wf (ANode b d ts) \<longleftrightarrow>
     list_all at_wf ts \<and> list_all (\<lambda>t. bk_parent (at_block t) = bk_id b) ts \<and> (d = None) = (bk_external_id b = None)"

text \<open>Names are given one after the other.\<close>

definition name_list :: "(nat \<Rightarrow> string) \<Rightarrow> string option \<Rightarrow> nat \<Rightarrow> nat \<Rightarrow> string list" where
  "name_list nanoid given n n' = (case given of Some x \<Rightarrow> [x] | None \<Rightarrow> []) @ map nanoid [n..<n']"

lemma map_upt_join: "n \<le> m \<Longrightarrow> m \<le> k \<Longrightarrow> map f [n..<m] @ map f [m..<k] = map f [n..<k]"
  by (metis le_add_diff_inverse map_append upt_add_eq_append)

lemma block_names:
  assumes "block_to_block_pb nanoid to_text ty data given parent n = (b, delta, n1)"
  shows "bk_id b # (case bk_external_id b of Some i \<Rightarrow> [i] | None \<Rightarrow> []) @ [bk_children b] = name_list nanoid given n n1"
    and "n < n1" and "bk_parent b = parent" and "(delta = None) = (bk_external_id b = None)"
    and "bk_ty b = ty" and "bk_data b = filter (\<lambda>(k, _). k \<noteq> DELTA) data" and "delta = map_option to_text (map_of data DELTA)"
    and "\<And>x. given = Some x \<Longrightarrow> bk_id b = x"
  using assms by (auto simp: block_to_block_pb_def name_list_def Let_def upt_conv_Cons split: option.splits)

lemma decorate_names:
  "decorate nanoid to_text s given parent n = (t, n') \<Longrightarrow>
     n < n' \<and> at_names t = name_list nanoid given n n' \<and> at_wf t \<and> bk_parent (at_block t) = parent
     \<and> (\<forall>x. given = Some x \<longrightarrow> bk_id (at_block t) = x)"
  "decorate_all nanoid to_text ss parent n = (ts, n') \<Longrightarrow>
     n \<le> n' \<and> concat (map at_names ts) = map nanoid [n..<n'] \<and> list_all at_wf ts \<and> list_all (\<lambda>t. bk_parent (at_block t) = parent) ts"
proof (induction nanoid to_text s given parent n and nanoid to_text ss parent n arbitrary: t n' and ts n' rule: decorate_decorate_all.induct)
  case (1 nanoid to_text ty data children given parent n)
  obtain b delta n1 where b: "block_to_block_pb nanoid to_text ty data given parent n = (b, delta, n1)"
    by (cases "block_to_block_pb nanoid to_text ty data given parent n")
  obtain us n2 where us: "decorate_all nanoid to_text children (bk_id b) n1 = (us, n2)"
    by (cases "decorate_all nanoid to_text children (bk_id b) n1")
  have t: "t = ANode b delta us" "n' = n2" using 1(2) b us by simp_all
  note IH = 1(1) [OF b [symmetric] refl us]
  note B = block_names [OF b]
  have "at_names t = name_list nanoid given n n1 @ map nanoid [n1..<n2]"
    using IH B(1) by (simp add: t)
  also have "\<dots> = name_list nanoid given n n2"
    using IH B(2) by (simp add: name_list_def map_upt_join)
  finally show ?case using IH B by (simp add: t)
next
  case (2 nanoid to_text parent n)
  then show ?case by simp
next
  case (3 nanoid to_text c cs parent n)
  obtain u n1 where u: "decorate nanoid to_text c None parent n = (u, n1)" by (cases "decorate nanoid to_text c None parent n")
  obtain us n2 where us: "decorate_all nanoid to_text cs parent n1 = (us, n2)" by (cases "decorate_all nanoid to_text cs parent n1")
  have ts: "ts = u # us" "n' = n2" using 3(3) u us by simp_all
  note IH1 = 3(1) [OF u] and IH2 = 3(2) [OF u [symmetric] us]
  show ?case using IH1 IH2 by (simp add: ts name_list_def map_upt_join)
qed

lemma map_insert_fresh: "k \<notin> fst ` set m \<Longrightarrow> map_insert m k v = m @ [(k, v)]"
  by (induction m k v rule: map_insert.induct) auto

lemma map_extend_fresh: "distinct (map fst (m @ xs)) \<Longrightarrow> map_extend m xs = m @ xs"
proof (induction xs arbitrary: m)
  case (Cons x xs)
  obtain k v where x: "x = (k, v)" by (cases x)
  have "map_extend m (x # xs) = map_extend (m @ [x]) xs"
    using Cons.prems by (simp add: map_extend_def x map_insert_fresh)
  also have "\<dots> = (m @ [x]) @ xs" by (rule Cons.IH) (use Cons.prems in simp)
  finally show ?case by simp
qed (simp add: map_extend_def)

lemma keyed_simps [simp]: "map fst (keyed bs) = map bk_id bs" "keyed (xs @ ys) = keyed xs @ keyed ys" "keyed [] = []" "keyed [b] = [(bk_id b, b)]"
    "fst ` set (keyed bs) = bk_id ` set bs"
  by (simp_all add: keyed_def comp_def image_comp)

lemma names_mset:
  "at_wf t \<Longrightarrow> mset (at_names t) =
     mset (map bk_id (at_blocks t)) + mset (map bk_children (at_blocks t)) + mset (map fst (at_texts t))"
proof (induction t)
  case (ANode b d ts)
  have "list_all at_wf ts \<Longrightarrow> mset (concat (map at_names ts)) =
     mset (map bk_id (concat (map at_blocks ts))) + mset (map bk_children (concat (map at_blocks ts)))
       + mset (map fst (concat (map at_texts ts)))"
    using ANode.IH by (induction ts) simp_all
  then show ?case using ANode.prems by (auto split: option.splits)
qed

lemma distinct_parts:
  assumes "at_wf t" and "distinct (at_names t)"
  shows "distinct (map bk_id (at_blocks t))" and "distinct (map bk_children (at_blocks t))" and "distinct (map fst (at_texts t))"
    and "\<And>i b. i \<in> set (at_blocks t) \<Longrightarrow> b \<in> set (at_blocks t) \<Longrightarrow> bk_id i \<noteq> bk_children b"
proof -
  have M: "mset (at_names t) = mset (map bk_id (at_blocks t) @ map bk_children (at_blocks t) @ map fst (at_texts t))"
    using names_mset [OF assms(1)] by simp
  then have "distinct (map bk_id (at_blocks t) @ map bk_children (at_blocks t) @ map fst (at_texts t))"
    using assms(2) by (metis mset_eq_imp_distinct_iff)
  then show "distinct (map bk_id (at_blocks t))" "distinct (map bk_children (at_blocks t))" "distinct (map fst (at_texts t))"
    "\<And>i b. i \<in> set (at_blocks t) \<Longrightarrow> b \<in> set (at_blocks t) \<Longrightarrow> bk_id i \<noteq> bk_children b"
    by auto
qed

lemma generate_decorated:
  "decorate nanoid to_text s given parent n = (t, n') \<Longrightarrow> distinct (at_names t) \<Longrightarrow>
     generate_blocks nanoid to_text s given parent n = (keyed (at_blocks t), at_texts t, n')"
  "decorate_all nanoid to_text ss parent n = (ts, n') \<Longrightarrow> distinct (concat (map at_names ts)) \<Longrightarrow>
     distinct (map fst bs @ map bk_id (concat (map at_blocks ts))) \<Longrightarrow> distinct (map fst tm @ map fst (concat (map at_texts ts))) \<Longrightarrow>
     generate_child_blocks nanoid to_text ss parent n bs tm = (bs @ keyed (concat (map at_blocks ts)), tm @ concat (map at_texts ts), n')"
proof (induction nanoid to_text s given parent n and nanoid to_text ss parent n arbitrary: t n' and ts n' bs tm
    rule: decorate_decorate_all.induct)
  case (1 nanoid to_text ty data children given parent n)
  obtain b delta n1 where b: "block_to_block_pb nanoid to_text ty data given parent n = (b, delta, n1)"
    by (cases "block_to_block_pb nanoid to_text ty data given parent n")
  obtain us n2 where us: "decorate_all nanoid to_text children (bk_id b) n1 = (us, n2)"
    by (cases "decorate_all nanoid to_text children (bk_id b) n1")
  have t: "t = ANode b delta us" "n' = n2" using 1(2) b us by simp_all
  have "at_wf t" using decorate_names(1) [OF 1(2)] by simp
  note D = distinct_parts [OF this 1(3)]
  have "generate_child_blocks nanoid to_text children (bk_id b) n1 [] [] = ([] @ keyed (concat (map at_blocks us)), [] @ concat (map at_texts us), n2)"
    by (rule 1(1) [OF b [symmetric] refl us]) (use 1(3) D in \<open>simp_all add: t\<close>)
  then show ?case
    using D(1,3) by (auto simp: b t map_insert_fresh split: option.splits)
next
  case (2 nanoid to_text parent n)
  then show ?case by simp
next
  case (3 nanoid to_text c cs parent n)
  obtain u n1 where u: "decorate nanoid to_text c None parent n = (u, n1)" by (cases "decorate nanoid to_text c None parent n")
  obtain us n2 where us: "decorate_all nanoid to_text cs parent n1 = (us, n2)" by (cases "decorate_all nanoid to_text cs parent n1")
  have ts: "ts = u # us" "n' = n2" using 3(3) u us by simp_all
  have c: "generate_blocks nanoid to_text c None parent n = (keyed (at_blocks u), at_texts u, n1)"
    by (rule 3(1) [OF u]) (use 3(4) in \<open>simp add: ts\<close>)
  have "distinct ((map fst bs @ map bk_id (at_blocks u)) @ map bk_id (concat (map at_blocks us)))"
    "distinct ((map fst tm @ map fst (at_texts u)) @ map fst (concat (map at_texts us)))"
    using 3(5,6) by (simp_all add: ts del: distinct_append)
  then have "distinct (map fst bs @ map bk_id (at_blocks u))" "distinct (map fst tm @ map fst (at_texts u))"
    by (metis distinct_append)+
  then have "map_extend bs (keyed (at_blocks u)) = bs @ keyed (at_blocks u)" "map_extend tm (at_texts u) = tm @ at_texts u"
    by (simp_all add: map_extend_fresh)
  moreover have "generate_child_blocks nanoid to_text cs parent n1 (bs @ keyed (at_blocks u)) (tm @ at_texts u) =
      ((bs @ keyed (at_blocks u)) @ keyed (concat (map at_blocks us)), (tm @ at_texts u) @ concat (map at_texts us), n2)"
    by (rule 3(2) [OF u [symmetric] us]) (use 3(4,5,6) in \<open>simp_all add: ts\<close>)
  ultimately show ?case by (simp add: c ts)
qed

section \<open>The map of children\<close>

lemma entry_push_fresh_other: "k' \<noteq> k \<Longrightarrow> map_of (entry_push m k v) k' = map_of m k'"
  by (simp add: entry_push_lookup)

definition child_ids :: "'j Block list \<Rightarrow> string \<Rightarrow> string list" where
  "child_ids bs i = map bk_id (filter (\<lambda>b. bk_parent b = i) bs)"

text \<open>What the map holds for a block after the blocks \<open>bs\<close> were seen.\<close>

definition children_entry :: "'j Block list \<Rightarrow> 'j Block \<Rightarrow> string list option" where
  "children_entry bs p =
     (if child_ids bs (bk_id p) \<noteq> [] then Some (child_ids bs (bk_id p))
      else if list_ex (\<lambda>b. b = p \<and> bk_parent b \<noteq> []) bs then Some [] else None)"

lemma children_map_spec:
  assumes "distinct (map bk_id F)" and "distinct (map bk_children F)" and "list_all (\<lambda>b. bk_id b \<noteq> []) F"
    and "list_all (\<lambda>b. bk_parent b = [] \<or> (\<exists>p. p \<in> set F \<and> bk_id p = bk_parent b)) F"
  shows "set bs \<subseteq> set F \<Longrightarrow> p \<in> set F \<Longrightarrow>
     map_of (foldl (children_step (keyed F)) [] (keyed bs)) (bk_children p) = children_entry bs p"
proof (induction bs arbitrary: p rule: rev_induct)
  case Nil
  then show ?case by (simp add: children_entry_def child_ids_def)
next
  case (snoc b bs)
  let ?m = "foldl (children_step (keyed F)) [] (keyed bs)"
  have IH: "map_of ?m (bk_children p) = children_entry bs p" if "p \<in> set F" for p using snoc that by simp
  have bF: "b \<in> set F" using snoc.prems by simp
  have key: "bk_children x = bk_children y \<longleftrightarrow> x = y" if "x \<in> set F" "y \<in> set F" for x y
    using assms(2) that by (auto simp: distinct_map inj_on_def)
  have ident: "bk_id x = bk_id y \<longleftrightarrow> x = y" if "x \<in> set F" "y \<in> set F" for x y
    using assms(1) that by (auto simp: distinct_map inj_on_def)
  have pid: "bk_id p \<noteq> []" using assms(3) snoc.prems by (auto simp: list_all_iff)
  have step: "foldl (children_step (keyed F)) [] (keyed (bs @ [b])) = children_step (keyed F) ?m (bk_id b, b)" by simp
  show ?case
  proof (cases "bk_parent b = []")
    case True
    then have "children_step (keyed F) ?m (bk_id b, b) = ?m" by (simp add: children_step_def)
    then show ?thesis
      unfolding step using True IH [OF snoc.prems(2)] pid by (auto simp: children_entry_def child_ids_def list_ex_iff)
  next
    case False
    then obtain q where q: "q \<in> set F" "bk_id q = bk_parent b" using assms(4) bF by (auto simp: list_all_iff)
    have look: "map_of (keyed F) (bk_parent b) = Some q"
      using q assms(1) by (force simp: keyed_def map_of_eq_Some_iff comp_def)
    have "map_of (children_step (keyed F) ?m (bk_id b, b)) (bk_children p) =
        (let m1 = (map_of ?m)(bk_children q \<mapsto> (case map_of ?m (bk_children q) of None \<Rightarrow> [] | Some vs \<Rightarrow> vs) @ [bk_id b])
         in if m1 (bk_children b) = None \<and> p = b then Some [] else m1 (bk_children p))"
      using False look key [OF snoc.prems(2) bF]
      by (auto simp: children_step_def Let_def map_insert_lookup entry_push_lookup split: option.splits)
    note after = this
    have kids: "child_ids (bs @ [b]) x = child_ids bs x @ (if bk_parent b = x then [bk_id b] else [])" for x
      by (simp add: child_ids_def)
    have seen: "list_ex (\<lambda>c. c = p \<and> bk_parent c \<noteq> []) (bs @ [b]) \<longleftrightarrow> list_ex (\<lambda>c. c = p \<and> bk_parent c \<noteq> []) bs \<or> b = p"
      using False by auto
    show ?thesis
    proof (cases "p = q")
      case True
      have "children_entry (bs @ [b]) p = Some (child_ids bs (bk_id q) @ [bk_id b])"
        using q by (simp add: True children_entry_def kids)
      moreover have "(case map_of ?m (bk_children q) of None \<Rightarrow> [] | Some vs \<Rightarrow> vs) = child_ids bs (bk_id q)"
        by (simp add: IH [OF q(1)] children_entry_def)
      ultimately show ?thesis
        unfolding step after by (auto simp: True Let_def)
    next
      case pq: False
      have "bk_parent b \<noteq> bk_id p" using pq q ident [OF q(1) snoc.prems(2)] by auto
      then have new: "children_entry (bs @ [b]) p = (if b = p \<and> children_entry bs p = None then Some [] else children_entry bs p)"
        using False by (auto simp: children_entry_def kids list_ex_iff)
      have "bk_children q \<noteq> bk_children p" using pq key [OF q(1) snoc.prems(2)] by simp
      then show ?thesis
        unfolding step after new using IH [OF snoc.prems(2)] by (auto simp: Let_def)
    qed
  qed
qed

section \<open>The tree in the flat document\<close>

lemma at_blocks_root: "\<exists>xs. at_blocks t = xs @ [at_block t]"
  by (cases t) simp

lemma parents_within:
  "at_wf t \<Longrightarrow> x \<in> set (at_blocks t) \<Longrightarrow> x = at_block t \<or> bk_parent x \<in> bk_id ` set (at_blocks t)"
proof (induction t)
  case (ANode b d ts)
  show ?case
  proof (cases "x = b")
    case False
    then obtain u where u: "u \<in> set ts" "x \<in> set (at_blocks u)" using ANode.prems(2) by auto
    have "at_wf u" "bk_parent (at_block u) = bk_id b" using ANode.prems(1) u(1) by (auto simp: list_all_iff)
    with ANode.IH [OF u(1) _ u(2)] show ?thesis using u by auto
  qed simp
qed

lemma child_ids_append [simp]: "child_ids (xs @ ys) i = child_ids xs i @ child_ids ys i" "child_ids [] i = []"
  by (simp_all add: child_ids_def)

lemma child_ids_none: "(\<And>x. x \<in> set xs \<Longrightarrow> bk_parent x \<noteq> i) \<Longrightarrow> child_ids xs i = []"
  by (auto simp: child_ids_def filter_empty_conv)

lemma child_ids_subtree:
  assumes "at_wf u" and "distinct (map bk_id (at_blocks u))" and "bk_parent (at_block u) = i" and "i \<notin> bk_id ` set (at_blocks u)"
  shows "child_ids (at_blocks u) i = [bk_id (at_block u)]"
proof -
  obtain xs where xs: "at_blocks u = xs @ [at_block u]" using at_blocks_root by blast
  have "child_ids xs i = []"
  proof (rule child_ids_none)
    fix x assume x: "x \<in> set xs"
    then have "x \<noteq> at_block u" using assms(2) by (auto simp: xs)
    then have "bk_parent x \<in> bk_id ` set (at_blocks u)" using parents_within [OF assms(1), of x] x by (auto simp: xs)
    then show "bk_parent x \<noteq> i" using assms(4) by auto
  qed
  then show ?thesis unfolding xs using assms(3) by (simp add: child_ids_def)
qed

fun at_children_ok :: "'j Block list \<Rightarrow> 'j atree \<Rightarrow> bool" where
  "at_children_ok F (ANode b d ts) \<longleftrightarrow> child_ids F (bk_id b) = map (\<lambda>t. bk_id (at_block t)) ts \<and> list_all (at_children_ok F) ts"

lemma children_of_node:
  "list_all at_wf ts \<Longrightarrow> list_all (\<lambda>t. bk_parent (at_block t) = i) ts \<Longrightarrow> distinct (map bk_id (concat (map at_blocks ts))) \<Longrightarrow>
     i \<notin> bk_id ` set (concat (map at_blocks ts)) \<Longrightarrow> child_ids (concat (map at_blocks ts)) i = map (\<lambda>t. bk_id (at_block t)) ts"
proof (induction ts)
  case (Cons u us)
  have "child_ids (at_blocks u) i = [bk_id (at_block u)]" by (rule child_ids_subtree) (use Cons.prems in auto)
  moreover have "child_ids (concat (map at_blocks us)) i = map (\<lambda>t. bk_id (at_block t)) us"
    by (rule Cons.IH) (use Cons.prems in auto)
  ultimately show ?case by simp
qed simp

lemma children_ok:
  "at_wf t \<Longrightarrow> F = xs @ at_blocks t @ ys \<Longrightarrow> distinct (map bk_id F) \<Longrightarrow> bk_parent (at_block t) \<notin> bk_id ` set (at_blocks t) \<Longrightarrow>
     (\<And>x. x \<in> set xs \<union> set ys \<Longrightarrow> bk_parent x \<notin> bk_id ` set (at_blocks t)) \<Longrightarrow> at_children_ok F t"
proof (induction t arbitrary: xs ys)
  case (ANode b d ts)
  have dist: "distinct (map bk_id (concat (map at_blocks ts)))" "bk_id b \<notin> bk_id ` set (concat (map at_blocks ts))"
    using ANode.prems(2,3) by auto
  have "child_ids xs (bk_id b) = []" "child_ids ys (bk_id b) = []" "child_ids [b] (bk_id b) = []"
    using ANode.prems(4,5) by (auto intro!: child_ids_none)
  moreover have "child_ids (concat (map at_blocks ts)) (bk_id b) = map (\<lambda>t. bk_id (at_block t)) ts"
    by (rule children_of_node) (use ANode.prems(1) dist in simp_all)
  ultimately have root: "child_ids F (bk_id b) = map (\<lambda>t. bk_id (at_block t)) ts"
    using child_ids_append(1) [of "[b]" ys "bk_id b"] unfolding ANode.prems(2) by simp
  have "at_children_ok F u" if u: "u \<in> set ts" for u
  proof -
    obtain us vs where ts: "ts = us @ u # vs" using u by (meson split_list)
    let ?xs = "xs @ concat (map at_blocks us)" and ?ys = "concat (map at_blocks vs) @ [b] @ ys"
    have wf: "at_wf u" "bk_parent (at_block u) = bk_id b" using ANode.prems(1) by (simp_all add: ts)
    have split: "F = ?xs @ at_blocks u @ ?ys" using ANode.prems(2) by (simp add: ts)
    show ?thesis
    proof (rule ANode.IH [OF u wf(1) split ANode.prems(3)])
      show "bk_parent (at_block u) \<notin> bk_id ` set (at_blocks u)" using dist(2) wf(2) by (auto simp: ts)
    next
      fix x assume x: "x \<in> set ?xs \<union> set ?ys"
      show "bk_parent x \<notin> bk_id ` set (at_blocks u)"
      proof (cases "\<exists>w\<in>set us \<union> set vs. x \<in> set (at_blocks w)")
        case True
        then obtain w where w: "w \<in> set us \<union> set vs" "x \<in> set (at_blocks w)" by blast
        have "at_wf w" "bk_parent (at_block w) = bk_id b" using ANode.prems(1) w(1) by (auto simp: ts list_all_iff)
        with parents_within [OF this(1) w(2)] have "bk_parent x = bk_id b \<or> bk_parent x \<in> bk_id ` set (at_blocks w)" by auto
        moreover have "bk_id ` set (concat (map at_blocks us)) \<inter> bk_id ` set (at_blocks u) = {}"
          "bk_id ` set (concat (map at_blocks vs)) \<inter> bk_id ` set (at_blocks u) = {}"
          using dist(1) unfolding ts by (simp_all add: image_Un) blast+
        then have "bk_id ` set (at_blocks w) \<inter> bk_id ` set (at_blocks u) = {}" using w(1) by (elim UnE) (simp_all, blast+)
        moreover have "bk_id b \<notin> bk_id ` set (at_blocks u)" using dist(2) by (auto simp: ts)
        ultimately show ?thesis by auto
      next
        case False
        then have "x \<in> set xs \<union> set ys \<or> x = b" using x by auto
        then show ?thesis using ANode.prems(4,5) by (auto simp: ts)
      qed
    qed
  qed
  then show ?case using root by (simp add: list_all_iff)
qed

text \<open>The block named \<open>i\<close> and all below it hold the tree.\<close>

fun tree_at :: "'j DocumentData \<Rightarrow> ('j \<Rightarrow> string) \<Rightarrow> string \<Rightarrow> string \<Rightarrow> 'j SerdeBlock \<Rightarrow> bool" where
  "tree_at D to_text i parent (SerdeBlock ty data children) \<longleftrightarrow>
     (case map_of (dd_blocks D) i of
        None \<Rightarrow> False
      | Some b \<Rightarrow>
          bk_id b = i \<and> bk_ty b = ty \<and> bk_parent b = parent \<and> bk_data b = filter (\<lambda>(k, _). k \<noteq> DELTA) data
          \<and> map_option to_text (map_of data DELTA) = (case bk_external_id b of None \<Rightarrow> None | Some x \<Rightarrow> map_of (dd_text_map D) x)
          \<and> list_all2 (\<lambda>child ci. tree_at D to_text ci i child) children
              (case map_of (dd_children_map D) (bk_children b) of Some cs \<Rightarrow> cs | None \<Rightarrow> []))"

lemma decorated_tree_at:
  assumes "dd_blocks D = keyed F" and "distinct (map bk_id F)" and "distinct (map fst (dd_text_map D))"
    and "\<And>p. p \<in> set F \<Longrightarrow>
        (case map_of (dd_children_map D) (bk_children p) of Some cs \<Rightarrow> cs | None \<Rightarrow> []) = child_ids F (bk_id p)"
  shows "decorate nanoid to_text s given parent n = (t, n') \<Longrightarrow> set (at_blocks t) \<subseteq> set F \<Longrightarrow> set (at_texts t) \<subseteq> set (dd_text_map D) \<Longrightarrow>
      at_children_ok F t \<Longrightarrow> tree_at D to_text (bk_id (at_block t)) parent s"
    and "decorate_all nanoid to_text ss parent n = (ts, n') \<Longrightarrow> set (concat (map at_blocks ts)) \<subseteq> set F \<Longrightarrow>
      set (concat (map at_texts ts)) \<subseteq> set (dd_text_map D) \<Longrightarrow> list_all (at_children_ok F) ts \<Longrightarrow>
      list_all2 (\<lambda>child ci. tree_at D to_text ci parent child) ss (map (\<lambda>t. bk_id (at_block t)) ts)"
proof (induction nanoid to_text s given parent n and nanoid to_text ss parent n arbitrary: t n' and ts n' rule: decorate_decorate_all.induct)
  case (1 nanoid to_text ty data children given parent n)
  obtain b delta n1 where b: "block_to_block_pb nanoid to_text ty data given parent n = (b, delta, n1)"
    by (cases "block_to_block_pb nanoid to_text ty data given parent n")
  obtain us n2 where us: "decorate_all nanoid to_text children (bk_id b) n1 = (us, n2)"
    by (cases "decorate_all nanoid to_text children (bk_id b) n1")
  have t: "t = ANode b delta us" using 1(2) b us by simp
  note B = block_names [OF b]
  have bF: "b \<in> set F" using 1(3) by (simp add: t)
  have look: "map_of (dd_blocks D) (bk_id b) = Some b"
    using bF assms(2) by (force simp: assms(1) keyed_def map_of_eq_Some_iff comp_def)
  have kids: "list_all2 (\<lambda>child ci. tree_at D to_text ci (bk_id b) child) children (map (\<lambda>t. bk_id (at_block t)) us)"
    by (rule 1(1) [OF b [symmetric] refl us]) (use 1(3-5) in \<open>simp_all add: t\<close>)
  have "child_ids F (bk_id b) = map (\<lambda>t. bk_id (at_block t)) us" using 1(5) by (simp add: t)
  then have cmap: "(case map_of (dd_children_map D) (bk_children b) of Some cs \<Rightarrow> cs | None \<Rightarrow> []) = map (\<lambda>t. bk_id (at_block t)) us"
    using assms(4) [OF bF] by simp
  have dtext: "delta = (case bk_external_id b of None \<Rightarrow> None | Some x \<Rightarrow> map_of (dd_text_map D) x)"
  proof (cases "bk_external_id b")
    case None
    then show ?thesis using B(4) by simp
  next
    case (Some x)
    then obtain d where d: "delta = Some d" using B(4) by auto
    then have "(x, d) \<in> set (dd_text_map D)" using 1(4) Some by (simp add: t)
    then show ?thesis using Some d assms(3) by simp
  qed
  show ?case
    using look B(3,5-7) kids cmap dtext by (simp add: t)
next
  case (2 nanoid to_text parent n)
  then show ?case by simp
next
  case (3 nanoid to_text c cs parent n)
  obtain u n1 where u: "decorate nanoid to_text c None parent n = (u, n1)" by (cases "decorate nanoid to_text c None parent n")
  obtain us n2 where us: "decorate_all nanoid to_text cs parent n1 = (us, n2)" by (cases "decorate_all nanoid to_text cs parent n1")
  have ts: "ts = u # us" using 3(3) u us by simp
  have "tree_at D to_text (bk_id (at_block u)) parent c" by (rule 3(1) [OF u]) (use 3(4-6) in \<open>simp_all add: ts\<close>)
  moreover have "list_all2 (\<lambda>child ci. tree_at D to_text ci parent child) cs (map (\<lambda>t. bk_id (at_block t)) us)"
    by (rule 3(2) [OF u [symmetric] us]) (use 3(4-6) in \<open>simp_all add: ts\<close>)
  ultimately show ?case by (simp add: ts)
qed

text \<open>
  C11: A parsed document is the tree it was written as: when names are never given twice, the flat maps hold under the page's id
  the root without a parent, and under every block its kind, its data, its text and its children, each once and in their order.
\<close>

theorem document_holds_tree:
  assumes "inj nanoid" and "\<forall>n. nanoid n \<noteq> []" and "parse json_str = Inr root"
    and "json_str_to_document nanoid to_text parse json_str = Ok D"
  shows "tree_at D to_text (dd_page_id D) [] root"
proof -
  obtain t n' where t: "decorate nanoid to_text root (Some (nanoid 0)) [] 1 = (t, n')"
    by (cases "decorate nanoid to_text root (Some (nanoid 0)) [] 1")
  note N = decorate_names(1) [OF t]
  have names: "at_names t = map nanoid [0..<n']" using N by (simp add: name_list_def upt_conv_Cons)
  then have dist: "distinct (at_names t)" using assms(1) by (simp add: distinct_map inj_on_subset [OF assms(1)])
  have wf: "at_wf t" and root: "bk_parent (at_block t) = []" "bk_id (at_block t) = nanoid 0" using N by auto
  let ?F = "at_blocks t"
  note P = distinct_parts [OF wf dist]
  have D: "dd_page_id D = nanoid 0" "dd_blocks D = keyed ?F" "dd_children_map D = generate_children_map (keyed ?F)" "dd_text_map D = at_texts t"
    using assms(3,4) generate_decorated(1) [OF t dist] by (auto simp: json_str_to_document_def Let_def)
  have ids: "bk_id b \<noteq> []" if "b \<in> set ?F" for b
  proof -
    have "set (map bk_id ?F) \<subseteq> set (at_names t)"
      using arg_cong [OF names_mset [OF wf], of set_mset] by auto
    then show ?thesis using that assms(2) names by auto
  qed
  have ok: "at_children_ok ?F t"
    by (rule children_ok [OF wf, of _ "[]" "[]"]) (use P(1) root(1) ids in \<open>force+\<close>)
  have closed: "list_all (\<lambda>b. bk_parent b = [] \<or> (\<exists>p. p \<in> set ?F \<and> bk_id p = bk_parent b)) ?F"
    using parents_within [OF wf] root(1) by (auto simp: list_all_iff) (metis imageE)
  have cmap: "(case map_of (dd_children_map D) (bk_children p) of Some cs \<Rightarrow> cs | None \<Rightarrow> []) = child_ids ?F (bk_id p)" if "p \<in> set ?F" for p
    using children_map_spec [OF P(1,2) _ closed subset_refl that] ids that
    by (auto simp: D generate_children_map_def children_entry_def list_all_iff)
  show ?thesis
    using decorated_tree_at(1) [OF D(2) P(1) _ cmap t] P(3) ok root by (simp add: D)
qed

definition sample_root :: "nat SerdeBlock" where
  "sample_root = SerdeBlock ''page'' [] [SerdeBlock ''heading'' [(''delta'', 5), (''level'', 1)] [], SerdeBlock ''list'' [] [SerdeBlock ''todo'' [] []]]"

theorem document_holds_tree_witness:
  "case json_str_to_document nat_digits nat_digits (\<lambda>_. Inr sample_root) ''{}'' of
     Inl _ \<Rightarrow> False
   | Inr D \<Rightarrow> tree_at D nat_digits (dd_page_id D) [] sample_root"
proof -
  have nonempty: "nat_digits n \<noteq> []" for n by (subst nat_digits.simps) simp
  obtain D where D: "json_str_to_document nat_digits nat_digits (\<lambda>_. Inr sample_root) ''{}'' = Inr D"
    by (cases "generate_blocks nat_digits nat_digits sample_root (Some (nat_digits 0)) [] 1") (auto simp: json_str_to_document_def Let_def)
  have "tree_at D nat_digits (dd_page_id D) [] sample_root"
    by (rule document_holds_tree [OF _ _ _ D]) (simp_all add: inj_def nonempty)
  then show ?thesis by (simp add: D)
qed

end
