(* ===== verification/Encrypt.thy ===== *)
theory Encrypt
  imports Ws_Message
begin

text \<open>
  Encryption of data and texts with a shared secret (\<open>lib/encrypt/src/aes_encrypt.rs\<close>), and encrypted values behind
  the trait \<open>DataEncryptor\<close> (\<open>encryptor.rs\<close>, \<open>data.rs\<close>).

  HKDF, AES-GCM, base64 and bincode are libraries' and parameters.  The nonce \<open>thread_rng\<close> draws is an argument.
\<close>

section \<open>The libraries\<close>

text \<open>
  \<open>Hkdf::new\<close> and \<open>expand\<close> (\<open>None\<close>: the length is not possible), the cipher with a key and a nonce, and base64.
\<close>

record 'prk crypto =
  cr_hkdf_new :: "bytes \<Rightarrow> 'prk"
  cr_hkdf_expand :: "'prk \<Rightarrow> bytes \<Rightarrow> nat \<Rightarrow> bytes option"
  cr_encrypt :: "bytes \<Rightarrow> bytes \<Rightarrow> bytes \<Rightarrow> string + bytes"
  cr_decrypt :: "bytes \<Rightarrow> bytes \<Rightarrow> bytes \<Rightarrow> string + bytes"
  cr_base64_encode :: "bytes \<Rightarrow> string"
  cr_base64_decode :: "string \<Rightarrow> string + bytes"

text \<open>The length of GCM's tag, which the ciphertext ends with.\<close>

definition tag_length :: nat where "tag_length = 16"

text \<open>
  HKDF over SHA-256 expands to at most 255 blocks of 32 bytes.  AES-GCM takes back what it gave, its ciphertext is
  the data's length and a tag longer, and it refuses every ciphertext but the one encryption gives.
\<close>

definition crypto_law :: "'prk crypto \<Rightarrow> bool" where
  "crypto_law C \<longleftrightarrow>
     (\<forall>p i n. n \<le> 255 * 32 \<longrightarrow> (\<exists>okm. cr_hkdf_expand C p i n = Some okm \<and> length okm = n)) \<and>
     (\<forall>k n d c. cr_encrypt C k n d = Ok c \<longrightarrow> cr_decrypt C k n c = Ok d \<and> length c = length d + tag_length) \<and>
     (\<forall>k n d c. cr_decrypt C k n c = Ok d \<longrightarrow> cr_encrypt C k n d = Ok c) \<and>
     (\<forall>b. cr_base64_decode C (cr_base64_encode C b) = Ok b)"

lemma crypto_lawD:
  assumes "crypto_law C"
  shows "n \<le> 255 * 32 \<Longrightarrow> \<exists>okm. cr_hkdf_expand C p i n = Some okm \<and> length okm = n"
    and "cr_encrypt C k m d = Ok c \<longleftrightarrow> cr_decrypt C k m c = Ok d"
    and "cr_encrypt C k m d = Ok c \<Longrightarrow> length c = length d + tag_length"
    and "cr_base64_decode C (cr_base64_encode C b) = Ok b"
  using assms unfolding crypto_law_def by blast+

section \<open>Data and texts\<close>

definition KEY_LENGTH :: nat where "KEY_LENGTH = 32"
definition NONCE_LENGTH :: nat where "NONCE_LENGTH = 12"

text \<open>A call that panics is \<open>None\<close>.\<close>

definition derive_key :: "'prk crypto \<Rightarrow> bytes \<Rightarrow> bytes option" where
  "derive_key C shared_secret = cr_hkdf_expand C (cr_hkdf_new C shared_secret) [] KEY_LENGTH"

definition encrypt_data :: "'prk crypto \<Rightarrow> bytes \<Rightarrow> bytes \<Rightarrow> bytes \<Rightarrow> (string + bytes) option" where
  "encrypt_data C nonce d shared_secret =
     (case derive_key C shared_secret of
        None \<Rightarrow> None
      | Some key \<Rightarrow>
          (case cr_encrypt C key nonce d of
             Inl e \<Rightarrow> Some (Err (''Encryption error: '' @ e))
           | Inr ciphertext \<Rightarrow> Some (Ok (nonce @ ciphertext))))"

definition decrypt_data :: "'prk crypto \<Rightarrow> bytes \<Rightarrow> bytes \<Rightarrow> (string + bytes) option" where
  "decrypt_data C d shared_secret =
     (if length d \<le> NONCE_LENGTH then Some (Err ''Ciphertext too short to include nonce.'')
      else
        (case derive_key C shared_secret of
           None \<Rightarrow> None
         | Some key \<Rightarrow>
             (case cr_decrypt C key (take NONCE_LENGTH d) (drop NONCE_LENGTH d) of
                Inl e \<Rightarrow> Some (Err (''Decryption error: '' @ e))
              | Inr plain \<Rightarrow> Some (Ok plain))))"

definition encrypt_text :: "'prk crypto \<Rightarrow> bytes \<Rightarrow> string \<Rightarrow> bytes \<Rightarrow> (string + string) option" where
  "encrypt_text C nonce d shared_secret =
     (case encrypt_data C nonce (string_bytes d) shared_secret of
        None \<Rightarrow> None
      | Some (Inl e) \<Rightarrow> Some (Err e)
      | Some (Inr encrypted) \<Rightarrow> Some (Ok (cr_base64_encode C encrypted)))"

definition decrypt_text :: "'prk crypto \<Rightarrow> string \<Rightarrow> bytes \<Rightarrow> (string + string) option" where
  "decrypt_text C d shared_secret =
     (case cr_base64_decode C d of
        Inl e \<Rightarrow> Some (Err e)
      | Inr encrypted \<Rightarrow>
          (case decrypt_data C encrypted shared_secret of
             None \<Rightarrow> None
           | Some (Inl e) \<Rightarrow> Some (Err e)
           | Some (Inr decrypted) \<Rightarrow>
               if valid_utf8 decrypted then Some (Ok (bytes_string decrypted))
               else Some (Err ''invalid utf-8 sequence'')))"

section \<open>Encrypted values\<close>

record 'x encryptor =
  en_encrypt :: "bytes \<Rightarrow> 'x + bytes"
  en_decrypt :: "bytes \<Rightarrow> 'x + bytes"

definition NoopEncryptor :: "'x encryptor" where
  "NoopEncryptor = \<lparr>en_encrypt = Ok, en_decrypt = Ok\<rparr>"

datatype EncryptionData = EncryptionData bytes

text \<open>\<open>ser\<close> and \<open>de\<close> are bincode's.\<close>

definition encryption_from_data :: "('a \<Rightarrow> 'x + bytes) \<Rightarrow> 'x encryptor \<Rightarrow> 'a \<Rightarrow> 'x + EncryptionData" where
  "encryption_from_data ser E d =
     try_bind (ser d) (\<lambda>b. try_bind (en_encrypt E b) (\<lambda>c. Ok (EncryptionData c)))"

fun encryption_decrypt :: "(bytes \<Rightarrow> 'x + 'a) \<Rightarrow> 'x encryptor \<Rightarrow> EncryptionData \<Rightarrow> 'x + 'a" where
  "encryption_decrypt de E (EncryptionData b) = try_bind (en_decrypt E b) de"

definition encryption_try_from_bytes :: "(bytes \<Rightarrow> 'x + EncryptionData) \<Rightarrow> bytes \<Rightarrow> 'x + EncryptionData" where
  "encryption_try_from_bytes de v = de v"

definition bytes_try_from_encryption :: "(EncryptionData \<Rightarrow> 'x + bytes) \<Rightarrow> EncryptionData \<Rightarrow> 'x + bytes" where
  "bytes_try_from_encryption ser v = ser v"

text \<open>The contract of the trait: what was encrypted is decrypted.\<close>

locale data_encryptor =
  fixes enc :: "bytes \<Rightarrow> 'x + bytes" and dec :: "bytes \<Rightarrow> 'x + bytes"
  assumes decrypt_encrypted: "enc b = Ok c \<Longrightarrow> dec c = Ok b"
begin

lemma encrypted_value:
  assumes "ser d = Ok b" and "de b = Ok d" and "encryption_from_data ser \<lparr>en_encrypt = enc, en_decrypt = dec\<rparr> d = Ok v"
  shows "encryption_decrypt de \<lparr>en_encrypt = enc, en_decrypt = dec\<rparr> v = Ok d"
  using assms by (auto simp: encryption_from_data_def try_bind_Inr_iff dest: decrypt_encrypted)

end

interpretation noop: data_encryptor "en_encrypt NoopEncryptor" "en_decrypt NoopEncryptor"
  by unfold_locales (simp add: NoopEncryptor_def)

text \<open>The cipher of \<open>aes_encrypt\<close> with one nonce, where nothing panics.\<close>

lemma derive_key_some: "crypto_law C \<Longrightarrow> \<exists>key. derive_key C s = Some key"
  unfolding derive_key_def using crypto_lawD(1) [of C KEY_LENGTH] by (fastforce simp: KEY_LENGTH_def)

lemma encrypt_data_iff:
  assumes "crypto_law C" and "length nonce = NONCE_LENGTH"
  shows "encrypt_data C nonce d s = Some (Ok x) \<longleftrightarrow> decrypt_data C x s = Some (Ok d) \<and> take NONCE_LENGTH x = nonce"
proof -
  obtain key where key: "derive_key C s = Some key" using derive_key_some [OF assms(1)] by blast
  have "encrypt_data C nonce d s = Some (Ok x) \<longleftrightarrow> (\<exists>c. cr_encrypt C key nonce d = Ok c \<and> x = nonce @ c)"
    by (auto simp: encrypt_data_def key split: sum.splits)
  also have "\<dots> \<longleftrightarrow> (\<exists>c. cr_decrypt C key nonce c = Ok d \<and> x = nonce @ c \<and> NONCE_LENGTH < length x)"
    using crypto_lawD(2,3) [OF assms(1)] assms(2) by (auto simp: tag_length_def)
  also have "\<dots> \<longleftrightarrow> decrypt_data C x s = Some (Ok d) \<and> take NONCE_LENGTH x = nonce" (is "?l \<longleftrightarrow> ?r")
  proof
    assume ?l
    then show ?r using assms(2) by (auto simp: decrypt_data_def key)
  next
    assume r: ?r
    then have "cr_decrypt C key nonce (drop NONCE_LENGTH x) = Ok d" and "NONCE_LENGTH < length x"
      by (auto simp: decrypt_data_def key split: sum.splits if_splits)
    then show ?l using r append_take_drop_id [of NONCE_LENGTH x] by metis
  qed
  finally show ?thesis .
qed

text \<open>
  C40: What \<open>decrypt_data\<close> takes with a secret is exactly what \<open>encrypt_data\<close> gives for the data with that secret and
  the nonce the ciphertext begins with: every encrypted value is read back, and nothing else is.
\<close>

theorem decrypts_what_was_encrypted:
  assumes "crypto_law C"
  shows "decrypt_data C x s = Some (Ok d) \<longleftrightarrow>
    (\<exists>nonce. length nonce = NONCE_LENGTH \<and> encrypt_data C nonce d s = Some (Ok x))"
proof
  assume dec: "decrypt_data C x s = Some (Ok d)"
  then have "length (take NONCE_LENGTH x) = NONCE_LENGTH" by (auto simp: decrypt_data_def split: if_splits)
  with dec show "\<exists>nonce. length nonce = NONCE_LENGTH \<and> encrypt_data C nonce d s = Some (Ok x)"
    using encrypt_data_iff [OF assms] by blast
qed (use encrypt_data_iff [OF assms] in blast)

lemma encrypted_text_reads_back:
  assumes "crypto_law C" and "length nonce = NONCE_LENGTH" and "valid_utf8 (string_bytes t)"
    and "encrypt_text C nonce t s = Some (Ok x)"
  shows "decrypt_text C x s = Some (Ok t)"
proof -
  obtain y where y: "encrypt_data C nonce (string_bytes t) s = Some (Ok y)" and x: "x = cr_base64_encode C y"
    using assms(4) by (auto simp: encrypt_text_def split: option.splits sum.splits)
  have "decrypt_data C y s = Some (Ok (string_bytes t))" using y encrypt_data_iff [OF assms(1,2)] by blast
  then show ?thesis using assms(3) crypto_lawD(4) [OF assms(1)] by (simp add: decrypt_text_def x)
qed

text \<open>A cipher with the laws: data with 16 bytes of the key as its tag.\<close>

definition sample_tag :: "bytes \<Rightarrow> bytes" where
  "sample_tag k = take tag_length (k @ replicate tag_length 0)"

definition sample_crypto :: "bytes crypto" where
  "sample_crypto =
     \<lparr>cr_hkdf_new = (\<lambda>s. s), cr_hkdf_expand = (\<lambda>p i n. if n \<le> 255 * 32 then Some (take n (p @ replicate n 0)) else None),
      cr_encrypt = (\<lambda>k n d. Ok (d @ sample_tag k)),
      cr_decrypt = (\<lambda>k n c. if tag_length \<le> length c \<and> drop (length c - tag_length) c = sample_tag k
                          then Ok (take (length c - tag_length) c) else Err ''aead::Error''),
      cr_base64_encode = bytes_string, cr_base64_decode = (\<lambda>t. Ok (string_bytes t))\<rparr>"

lemma string_bytes_string: "string_bytes (bytes_string b) = b"
proof -
  have "word_of_nat (of_char (char_of (unat x) :: char)) = (x :: u8)" for x
    using unsigned_less [of x, where ?'a = nat] by simp
  then show ?thesis by (simp add: string_bytes_def bytes_string_def comp_def)
qed

lemma sample_crypto_law: "crypto_law sample_crypto"
proof -
  have "length (sample_tag k) = tag_length" for k by (simp add: sample_tag_def)
  moreover have "take (length c - tag_length) c @ sample_tag k = c"
    if "drop (length c - tag_length) c = sample_tag k" for c k
    using that append_take_drop_id [of "length c - tag_length" c] by simp
  ultimately show ?thesis
    unfolding crypto_law_def sample_crypto_def by (simp add: string_bytes_string min_def)
qed

text \<open>A byte of the tag that changed is noticed.\<close>

theorem decrypts_what_was_encrypted_witness:
  "decrypt_data sample_crypto (replicate 12 7 @ [104, 105, 1, 2] @ replicate 14 0) [1, 2] = Some (Ok [104, 105]) \<and>
   \<not> (\<exists>nonce. length nonce = NONCE_LENGTH \<and>
      encrypt_data sample_crypto nonce [104, 105] [1, 2] = Some (Ok (replicate 12 7 @ [104, 105, 1, 3] @ replicate 14 0)))"
proof
  show "decrypt_data sample_crypto (replicate 12 7 @ [104, 105, 1, 2] @ replicate 14 0) [1, 2] = Some (Ok [104, 105])"
    by code_simp
  have refused: "decrypt_data sample_crypto (replicate 12 7 @ [104, 105, 1, 3] @ replicate 14 0) [1, 2] = Some (Err ''Decryption error: aead::Error'')"
    by code_simp
  show "\<not> (\<exists>nonce. length nonce = NONCE_LENGTH \<and>
      encrypt_data sample_crypto nonce [104, 105] [1, 2] = Some (Ok (replicate 12 7 @ [104, 105, 1, 3] @ replicate 14 0)))"
    unfolding decrypts_what_was_encrypted [OF sample_crypto_law, symmetric] refused by simp
qed

end
