(* ===== verification/Pg_Listener.thy ===== *)
theory Pg_Listener
  imports Access_Control Rt_Client Gotrue
begin

text \<open>
  Notifications of the database on their way to the server's tasks (\<open>src/biz/pg_listener.rs\<close>) and the tasks that
  follow them (\<open>src/biz/casbin/pg_listen.rs\<close>), with the helpers of \<open>src/biz/utils.rs\<close>.

  A notification is read from a connection to the database, parsed, and sent on a broadcast channel.  A broadcast
  channel of tokio keeps the last \<open>cap\<close> values (1000 or the power of two above); a receiver that is further behind gets an error at its next \<open>recv\<close>.
\<close>

section \<open>From the database to the channel\<close>

text \<open>
  The task of \<open>PostgresDBListener::new\<close> over what \<open>recv\<close> gives, payloads until the connection is given up: the
  changes it sends.  Whether anyone receives them does not matter to it.
\<close>

fun listen_loop :: "(string \<Rightarrow> string + 'a) \<Rightarrow> (string + string) list \<Rightarrow> 'a list" where
  "listen_loop parse [] = []"
| "listen_loop parse (Inl e # rest) = []"
| "listen_loop parse (Inr payload # rest) =
     (case parse payload of
        Inr change \<Rightarrow> change # listen_loop parse rest
      | Inl err \<Rightarrow> listen_loop parse rest)"

text \<open>\<open>PgListeners::new\<close>: \<open>listen\<close> connects and listens on a channel; the listeners stand for themselves.\<close>

definition PgListeners_new :: "(string \<Rightarrow> string + 'l) \<Rightarrow> string + 'l \<times> 'l \<times> 'l" where
  "PgListeners_new listen =
     try_bind (listen ''af_user_channel'') (\<lambda>user_listener.
     try_bind (listen ''af_workspace_member_channel'') (\<lambda>workspace_member_listener.
     try_bind (listen ''af_collab_member_channel'') (\<lambda>collab_member_listener.
     Ok (user_listener, workspace_member_listener, collab_member_listener))))"

section \<open>Tasks that follow a channel\<close>

text \<open>
  A task \<open>while let Ok(x) = recv().await { handle(x) }\<close>: what was sent since it subscribed, how many of these it has
  received, whether its loop still runs, and the state it works on.  A change of the state by others is an event too.
\<close>

record ('a, 's) follower =
  fo_sent :: "'a list"
  fo_pos :: nat
  fo_running :: bool
  fo_state :: 's

definition channel_subscribe :: "'s \<Rightarrow> ('a, 's) follower" where
  "channel_subscribe s = \<lparr>fo_sent = [], fo_pos = 0, fo_running = True, fo_state = s\<rparr>"

datatype 'a chan_event = Sent 'a | Polled

fun follow_step :: "nat \<Rightarrow> ('a \<Rightarrow> 's \<Rightarrow> 's) \<Rightarrow> ('a, 's) follower \<Rightarrow> 'a chan_event \<Rightarrow> ('a, 's) follower" where
  "follow_step cap handle t (Sent x) = t\<lparr>fo_sent := fo_sent t @ [x]\<rparr>"
| "follow_step cap handle t Polled =
     (if \<not> fo_running t \<or> length (fo_sent t) \<le> fo_pos t then t
      else if cap < length (fo_sent t) - fo_pos t then t\<lparr>fo_running := False\<rparr>
      else t\<lparr>fo_pos := fo_pos t + 1, fo_state := handle (fo_sent t ! fo_pos t) (fo_state t)\<rparr>)"

text \<open>
  The three tasks: both that keep the policies, and the one of \<open>subscribe_user_change\<close>, which forwards what concerns
  a user (what it sent, whether or not the socket still takes it).
\<close>

definition collab_member_task where
  "collab_member_task C enabled permission cap =
     follow_step cap (on_collab_member_change C enabled permission)"

definition workspace_member_task where
  "workspace_member_task C enabled cap = follow_step cap (on_workspace_member_change C enabled)"

definition forward_user :: "int \<Rightarrow> 'j AFUserRow option \<Rightarrow> 'j AFUserRow option list \<Rightarrow> 'j AFUserRow option list" where
  "forward_user uid payload out =
     (case payload of Some row \<Rightarrow> if afu_uid row = uid then out @ [payload] else out | None \<Rightarrow> out)"

definition subscribe_user_change ::
  "nat \<Rightarrow> int \<Rightarrow> ('j AFUserRow option, 'j AFUserRow option list) follower \<Rightarrow> 'j AFUserRow option chan_event \<Rightarrow>
     ('j AFUserRow option, 'j AFUserRow option list) follower" where
  "subscribe_user_change cap uid = follow_step cap (forward_user uid)"

section \<open>Helpers\<close>

definition check_user_exists ::
  "'j gotrue_client \<Rightarrow> (bytes \<Rightarrow> string + 'j AdminListUsersResponse) \<Rightarrow> string \<Rightarrow> string \<Rightarrow> AppError + bool" where
  "check_user_exists G parse admin_token email =
     (case gotrue_list_user G parse admin_token (Some email) of
        Inl e \<Rightarrow> Err (app_error_from_gotrue (sw_dbg (gv_show G)) e)
      | Inr users \<Rightarrow> Ok (list_ex (\<lambda>user. us_email user = email) (al_users users)))"

text \<open>\<open>CountingReader\<close>: one call of \<open>poll_read\<close> puts some bytes into the buffer, whatever it answers.\<close>

record counting_reader =
  cr_count :: nat

definition counting_new :: counting_reader where "counting_new = \<lparr>cr_count = 0\<rparr>"

definition counting_poll_read :: "bytes \<Rightarrow> bytes \<Rightarrow> counting_reader \<Rightarrow> bytes \<times> counting_reader" where
  "counting_poll_read chunk buf r =
     (let after = buf @ chunk
      in (after, r\<lparr>cr_count := cr_count r + (length after - length buf)\<rparr>))"

lemma counting_counts:
  "foldl (\<lambda>(buf, r) chunk. counting_poll_read chunk buf r) ([], counting_new) chunks = (concat chunks, \<lparr>cr_count = length (concat chunks)\<rparr>)"
proof -
  have "foldl (\<lambda>(buf, r) chunk. counting_poll_read chunk buf r) (b, \<lparr>cr_count = n\<rparr>) chunks =
      (b @ concat chunks, \<lparr>cr_count = n + length (concat chunks)\<rparr>)" for b n
    by (induction chunks arbitrary: b n) (simp_all add: counting_poll_read_def)
  then show ?thesis by (simp add: counting_new_def)
qed

section \<open>What a task has seen\<close>

text \<open>
  While a task runs its state is what the changes it has received make of the state it started with, and it stays so
  when it has ended.  It has received a prefix of what was sent.
\<close>

definition followed :: "('a \<Rightarrow> 's \<Rightarrow> 's) \<Rightarrow> 's \<Rightarrow> ('a, 's) follower \<Rightarrow> bool" where
  "followed handle s0 t \<longleftrightarrow>
     fo_pos t \<le> length (fo_sent t) \<and> fo_state t = fold handle (take (fo_pos t) (fo_sent t)) s0"

lemma followed_step: "followed handle s0 t \<Longrightarrow> followed handle s0 (follow_step cap handle t e)"
  by (cases e) (auto simp: followed_def take_Suc_conv_app_nth)

lemma followed_run: "followed handle s0 t \<Longrightarrow> followed handle s0 (foldl (follow_step cap handle) t es)"
  by (induction es arbitrary: t) (simp_all add: followed_step)

lemma followed_subscribe: "followed handle s (channel_subscribe s)"
  by (simp add: followed_def channel_subscribe_def)

lemmas followed_from_start = followed_run [OF followed_subscribe]

text \<open>A task that has ended stays as it is, whatever is sent.\<close>

lemma ended_step: "\<not> fo_running t \<Longrightarrow> \<not> fo_running (follow_step cap handle t e) \<and> fo_state (follow_step cap handle t e) = fo_state t"
  by (cases e) simp_all

lemma ended_run:
  "\<not> fo_running t \<Longrightarrow>
   \<not> fo_running (foldl (follow_step cap handle) t es) \<and> fo_state (foldl (follow_step cap handle) t es) = fo_state t"
  by (induction es arbitrary: t) (simp_all add: ended_step)

lemma sent_run:
  "foldl (follow_step cap handle) t (map Sent xs) = t\<lparr>fo_sent := fo_sent t @ xs\<rparr>"
  by (induction xs arbitrary: t) simp_all

text \<open>Polled often enough, it receives everything.\<close>

lemma polled_run:
  assumes "fo_running t" and "n = length (fo_sent t) - fo_pos t" and "n \<le> cap" and "fo_pos t \<le> length (fo_sent t)"
  shows "fo_running (foldl (follow_step cap handle) t (replicate n Polled)) \<and>
    fo_pos (foldl (follow_step cap handle) t (replicate n Polled)) = length (fo_sent t) \<and>
    fo_sent (foldl (follow_step cap handle) t (replicate n Polled)) = fo_sent t"
  using assms
proof (induction n arbitrary: t)
  case 0
  then show ?case by simp
next
  case (Suc n)
  have step: "follow_step cap handle t Polled =
      t\<lparr>fo_pos := fo_pos t + 1, fo_state := handle (fo_sent t ! fo_pos t) (fo_state t)\<rparr>"
    using Suc.prems by simp
  have n: "n = length (fo_sent t) - Suc (fo_pos t)" "Suc (fo_pos t) \<le> length (fo_sent t)" "n \<le> cap"
    using Suc.prems by simp_all
  have run: "foldl (follow_step cap handle) t (replicate (Suc n) Polled) =
      foldl (follow_step cap handle) (follow_step cap handle t Polled) (replicate n Polled)" by simp
  show ?case unfolding run step
    using Suc.IH [of "t\<lparr>fo_pos := fo_pos t + 1, fo_state := handle (fo_sent t ! fo_pos t) (fo_state t)\<rparr>"] Suc.prems(1) n
    by simp
qed

lemma lag_ends:
  assumes "fo_pos t = length (fo_sent t)" and "cap < length xs" and "fo_running t"
  shows "foldl (follow_step cap handle) t (map Sent xs @ Polled # es) =
    foldl (follow_step cap handle) (t\<lparr>fo_sent := fo_sent t @ xs, fo_running := False\<rparr>) es"
proof -
  have "\<not> length (fo_sent t @ xs) \<le> fo_pos t" using assms(1,2) by (cases xs) simp_all
  then show ?thesis using assms by (simp add: sent_run)
qed

lemma caught_up_batch:
  assumes "fo_running t" and "fo_pos t = length (fo_sent t)" and "length xs \<le> cap"
  shows "fo_running (foldl (follow_step cap handle) t (map Sent xs @ replicate (length xs) Polled)) \<and>
    fo_pos (foldl (follow_step cap handle) t (map Sent xs @ replicate (length xs) Polled)) = length (fo_sent t @ xs) \<and>
    fo_sent (foldl (follow_step cap handle) t (map Sent xs @ replicate (length xs) Polled)) = fo_sent t @ xs"
  using assms polled_run [of "t\<lparr>fo_sent := fo_sent t @ xs\<rparr>" "length xs" cap handle] by (simp add: sent_run)

text \<open>The events in which at most \<open>cap\<close> values are sent before the task is polled for each of them.\<close>

definition batches :: "'a list list \<Rightarrow> 'a chan_event list" where
  "batches bs = concat (map (\<lambda>xs. map Sent xs @ replicate (length xs) Polled) bs)"

lemma batches_caught_up:
  assumes "list_all (\<lambda>xs. length xs \<le> cap) bs" and "fo_running t" and "fo_pos t = length (fo_sent t)"
  shows "fo_running (foldl (follow_step cap handle) t (batches bs)) \<and>
    fo_pos (foldl (follow_step cap handle) t (batches bs)) = length (fo_sent t @ concat bs) \<and>
    fo_sent (foldl (follow_step cap handle) t (batches bs)) = fo_sent t @ concat bs"
  using assms
proof (induction bs arbitrary: t)
  case Nil
  then show ?case by (simp add: batches_def)
next
  case (Cons xs bs)
  define u where "u = foldl (follow_step cap handle) t (map Sent xs @ replicate (length xs) Polled)"
  have u: "fo_running u" "fo_pos u = length (fo_sent u)" "fo_sent u = fo_sent t @ xs"
    using caught_up_batch [of t xs cap handle] Cons.prems unfolding u_def by simp_all
  have run: "foldl (follow_step cap handle) t (batches (xs # bs)) = foldl (follow_step cap handle) u (batches bs)"
    by (simp add: batches_def u_def)
  show ?case unfolding run using Cons.IH [of u] Cons.prems(1) u by simp
qed

lemma batches_followed:
  assumes "list_all (\<lambda>xs. length xs \<le> cap) bs"
  shows "fo_state (foldl (follow_step cap handle) (channel_subscribe s) (batches bs)) = fold handle (concat bs) s"
proof -
  let ?t = "foldl (follow_step cap handle) (channel_subscribe s) (batches bs)"
  have "fo_pos ?t = length (concat bs)" and "fo_sent ?t = concat bs"
    using batches_caught_up [OF assms, of "channel_subscribe s" handle] by (simp_all add: channel_subscribe_def)
  then show ?thesis using followed_from_start [of handle s cap "batches bs"] by (simp add: followed_def)
qed

lemma forward_user_fold:
  "fold (forward_user uid) xs out = out @ filter (\<lambda>p. case p of Some row \<Rightarrow> afu_uid row = uid | None \<Rightarrow> False) xs"
  by (induction xs arbitrary: out) (auto simp: forward_user_def split: option.splits)

section \<open>Properties\<close>

text \<open>
  The socket of a user is told, in their order, of exactly those changes among the ones its task has received that
  are about the user, whatever else happens in between.
\<close>

theorem user_changes_forwarded:
  "fo_state (foldl (subscribe_user_change cap uid) (channel_subscribe []) es) =
     filter (\<lambda>p. case p of Some row \<Rightarrow> afu_uid row = uid | None \<Rightarrow> False)
       (take (fo_pos (foldl (subscribe_user_change cap uid) (channel_subscribe []) es))
         (fo_sent (foldl (subscribe_user_change cap uid) (channel_subscribe []) es)))"
  using followed_from_start [of "forward_user uid" "[]" cap es]
  unfolding followed_def subscribe_user_change_def forward_user_fold by simp


definition joined :: "int \<Rightarrow> WorkspaceMemberNotification" where
  "joined uid =
     \<lparr>wmn_old = None, wmn_new = Some \<lparr>wmr_uid = uid, wmr_role_id = 1, wmr_workspace_id = ''w''\<rparr>, wmn_action = INSERT\<rparr>"


end
