(* ===== verification/Api_Props.thy ===== *)
theory Api_Props
  imports Tx_Props
begin

text \<open>
  What requests grant and take: invitations, members, roles and levels, with the middleware of \<open>Http_Access\<close>
  in front where it decides.
\<close>

section \<open>Policies\<close>

definition policies :: "'j App \<Rightarrow> policy list" where "policies s = ef_policies (ac_enforcer (ap_ac s))"

definition server_env :: "('t, 'j) app_env \<Rightarrow> bool" where
  "server_env A \<longleftrightarrow> casbin_laws (ae_casbin A) \<and> ae_enabled A"

lemma update_policies:
  assumes "casbin_laws C" and "is_ok (validate_obj_action obj act)"
  shows "fst (ac_update_policy C True uid obj act a) = Ok ()"
    and "set (ef_policies (ac_enforcer (snd (ac_update_policy C True uid obj act a)))) =
       insert [int_to_string uid, policy_object obj, to_action act] (set (ef_policies (ac_enforcer a)))"
  using assms by (auto simp: ac_update_policy_def enforcer_update_policy_def casbin_laws_def is_ok_def split: sum.splits)

lemma insert_role_policies:
  assumes "casbin_laws C"
  shows "set (ef_policies (ac_enforcer (snd (insert_role C True uid w r a)))) =
    {role_policy uid w r, level_policy uid w (level_from_role r)} \<union> set (ef_policies (ac_enforcer a))"
proof -
  obtain a1 where u: "ac_update_policy C True uid (WorkspaceObj w) (FromRole r) a = (Ok (), a1)"
    using update_policies(1) [OF assms, of "WorkspaceObj w" "FromRole r" uid a] by (cases "ac_update_policy C True uid (WorkspaceObj w) (FromRole r) a") simp
  have "set (ef_policies (ac_enforcer a1)) = insert (role_policy uid w r) (set (ef_policies (ac_enforcer a)))"
    using update_policies(2) [OF assms, of "WorkspaceObj w" "FromRole r" uid a] by (simp add: u role_policy_def)
  then show ?thesis
    using update_policies(2) [OF assms, of "CollabObj w" "FromAccessLevel (level_from_role r)" uid a1]
    by (auto simp: insert_role_def Let_def u level_policy_def)
qed

lemma on_insert_role:
  assumes "server_env A"
  obtains a where "on_policies (insert_role (ae_casbin A) (ae_enabled A) uid w r) s = (Ok (), set_ac a s)"
    and "set (ef_policies (ac_enforcer a)) = {role_policy uid w r, level_policy uid w (level_from_role r)} \<union> set (policies s)"
proof -
  obtain a where r: "insert_role (ae_casbin A) True uid w r (ap_ac s) = (Ok (), a)"
    by (metis insert_role_ok prod.collapse)
  then have "on_policies (insert_role (ae_casbin A) (ae_enabled A) uid w r) s = (Ok (), set_ac a s)"
    using assms by (simp add: on_policies_def server_env_def)
  moreover have "set (ef_policies (ac_enforcer a)) = {role_policy uid w r, level_policy uid w (level_from_role r)} \<union> set (policies s)"
    using insert_role_policies [of "ae_casbin A" uid w r "ap_ac s"] assms by (simp add: r server_env_def policies_def)
  ultimately show ?thesis using that by blast
qed

lemma policies_simps [simp]:
  "policies (set_ac a s) = ef_policies (ac_enforcer a)" "policies (set_db db s) = policies s" "policies (s\<lparr>ap_ws := d\<rparr>) = policies s"
  by (simp_all add: policies_def)

definition calm_op :: "op_faults \<Rightarrow> bool" where
  "calm_op F \<longleftrightarrow> of_begin F = None \<and> of_call F = (\<lambda>i. no_faults)"

lemma calm_statements [simp]:
  "statement no_faults n x = Ok x" "sql_err h (Ok x) = Ok x" "with_context m (Ok x) = Ok x" "no_faults n = None"
  by (simp_all add: statement_def sql_err_def with_context_def no_faults_def)

section \<open>Invitations\<close>

text \<open>What the trigger on accepted invitations leaves alone.\<close>

definition trigger_law :: "'j schema \<Rightarrow> bool" where
  "trigger_law H \<longleftrightarrow> (\<forall>i d. wd_users (sc_invitation_updated H i d) = wd_users d \<and>
     wd_invitations (sc_invitation_updated H i d) = wd_invitations d)"

definition invited :: "'j WsDb \<Rightarrow> string \<Rightarrow> string \<Rightarrow> int \<Rightarrow> InvitationRow \<Rightarrow> bool" where
  "invited d uuid invite_id uid i \<longleftrightarrow> filter (\<lambda>i. iv_id i = invite_id) (wd_invitations d) = [i] \<and>
     email_of_uuid d uuid = Some (iv_invitee_email i) \<and> uid_of_email d (iv_invitee_email i) = Some uid"

lemma filter_single:
  assumes "filter P xs = [x]" and "Q x" shows "filter (\<lambda>y. Q y \<and> P y) xs = [x]"
proof -
  have "filter (\<lambda>y. Q y \<and> P y) xs = filter Q (filter P xs)" by (simp add: conj_commute)
  then show ?thesis by (simp add: assms)
qed

lemma filter_map_keep: "(\<And>x. P (f x) = P x) \<Longrightarrow> filter P (map f xs) = map f (filter P xs)"
  by (induction xs) simp_all

lemma filter_accepted:
  assumes "filter (\<lambda>i. iv_id i = invite_id) is = [i]" and "Some (iv_invitee_email i) = e"
  shows "filter (\<lambda>i. iv_id i = invite_id) (map (\<lambda>i. if Some (iv_invitee_email i) = e \<and> iv_id i = invite_id then i\<lparr>iv_status := 1\<rparr> else i) is) =
    [i\<lparr>iv_status := 1\<rparr>]"
proof -
  have "iv_id i = invite_id" using filter_eq_ConsD [OF assms(1)] by auto
  then show ?thesis by (subst filter_map_keep) (use assms in simp_all)
qed

lemma accept_steps:
  assumes "trigger_law (ae_schema A)" and "server_env A" and "calm_op F" and "invited (ap_ws s) uuid invite_id uid i"
  obtains s1 d1 where "post_accept_workspace_invite_handler A F uuid invite_id s =
      (case of_commit F of None \<Rightarrow> (Ok (), s1\<lparr>ap_ws := d1\<rparr>)
       | Some e \<Rightarrow> (Err (app_error_from_sqlx (sc_show_sqlx (ae_schema A)) e), s1))"
    and "tables s1 = tables s"
    and "set (policies s1) = {role_policy uid (iv_workspace_id i) (role_from_i32 (iv_role_id i)),
        level_policy uid (iv_workspace_id i) (level_from_role (role_from_i32 (iv_role_id i)))} \<union> set (policies s)"
proof -
  let ?w = "iv_workspace_id i" and ?r = "role_from_i32 (iv_role_id i)"
  define d1 where "d1 = sc_invitation_updated (ae_schema A) invite_id ((ap_ws s)\<lparr>wd_invitations :=
      map (\<lambda>i. if Some (iv_invitee_email i) = email_of_uuid (ap_ws s) uuid \<and> iv_id i = invite_id then i\<lparr>iv_status := 1\<rparr> else i)
        (wd_invitations (ap_ws s))\<rparr>)"
  note inv = assms(4) [unfolded invited_def]
  have f: "filter (\<lambda>i. Some (iv_invitee_email i) = email_of_uuid (ap_ws s) uuid \<and> iv_id i = invite_id) (wd_invitations (ap_ws s)) = [i]"
    using filter_single [of "\<lambda>i. iv_id i = invite_id" "wd_invitations (ap_ws s)" i] inv by simp
  have u: "update_workspace_invitation_set_status_accepted (ae_schema A) no_faults uuid invite_id (ap_ws s) = Ok d1"
    by (simp add: update_workspace_invitation_set_status_accepted_def Let_def f d1_def try_bind_def)
  have i1: "wd_users d1 = wd_users (ap_ws s)" "filter (\<lambda>i. iv_id i = invite_id) (wd_invitations d1) = [i\<lparr>iv_status := 1\<rparr>]"
    using assms(1) filter_accepted [of invite_id "wd_invitations (ap_ws s)" i "email_of_uuid (ap_ws s) uuid"] inv
    by (simp_all add: d1_def trigger_law_def)
  then have g: "get_invitation_by_id (ae_schema A) no_faults invite_id d1 =
      Ok \<lparr>im_workspace_id = ?w, im_inviter_uid = iv_inviter i, im_invitee_uid = Some uid, im_status = invitation_status_from_i16 1, im_role = ?r\<rparr>"
    using inv by (simp add: get_invitation_by_id_def try_bind_def fetch_one_def uid_of_email_def)
  obtain a where p: "on_policies (insert_role (ae_casbin A) (ae_enabled A) uid ?w ?r) s = (Ok (), set_ac a s)"
    and a: "set (ef_policies (ac_enforcer a)) = {role_policy uid ?w ?r, level_policy uid ?w (level_from_role ?r)} \<union> set (policies s)"
    by (rule on_insert_role [OF assms(2)])
  have calm: "of_begin F = None" "of_call F n = no_faults" for n using assms(3) by (simp_all add: calm_op_def)
  have "set_db (ap_db s) (set_ac a s) = set_ac a s"
    by (simp add: set_db_def set_ac_def ap_db_def)
  then have "post_accept_workspace_invite_handler A F uuid invite_id s =
      (case of_commit F of None \<Rightarrow> (Ok (), (set_ac a s)\<lparr>ap_ws := d1\<rparr>)
       | Some e \<Rightarrow> (Err (app_error_from_sqlx (sc_show_sqlx (ae_schema A)) e), set_ac a s))"
    by (simp add: post_accept_workspace_invite_handler_def accept_workspace_invite_def plain_txn_def in_transaction_def calm
        op_bind_def tx_ws_def tx_query_def tx_outside_def u g p statement_def sql_err_def split: option.splits)
  then show ?thesis using a by (intro that [of d1 "set_ac a s"]) simp_all
qed

text \<open>
  Accepting an invitation that then fails still grants its role. When the commit of the acceptance fails the answer
  is an error, no table has changed and the invitation is still pending, but the user holds the invitation's role in the
  workspace as a policy.
\<close>

theorem failed_accept_grants_role:
  assumes "trigger_law (ae_schema A)" and "server_env A" and "calm_op F" and "of_commit F = Some e"
    and "invited (ap_ws s) uuid invite_id uid i" and "r = post_accept_workspace_invite_handler A F uuid invite_id s"
  shows "\<not> is_ok (fst r) \<and> tables (snd r) = tables s \<and>
    role_policy uid (iv_workspace_id i) (role_from_i32 (iv_role_id i)) \<in> set (policies (snd r))"
proof -
  obtain s1 d1 where "post_accept_workspace_invite_handler A F uuid invite_id s =
      (case of_commit F of None \<Rightarrow> (Ok (), s1\<lparr>ap_ws := d1\<rparr>)
       | Some e \<Rightarrow> (Err (app_error_from_sqlx (sc_show_sqlx (ae_schema A)) e), s1))"
    and "tables s1 = tables s"
    and "set (policies s1) = {role_policy uid (iv_workspace_id i) (role_from_i32 (iv_role_id i)),
        level_policy uid (iv_workspace_id i) (level_from_role (role_from_i32 (iv_role_id i)))} \<union> set (policies s)"
    by (rule accept_steps [OF assms(1-3,5)])
  then show ?thesis using assms(4,6) by simp
qed

text \<open>
  C23: An invitation goes to whoever takes its address. A user may set any email that no account has, and nothing checks
  it: after that update the invitation sent to this address is accepted, and the user holds its role in the workspace.
\<close>

theorem email_change_takes_invitation:
  assumes "trigger_law (ae_schema A)" and "server_env A" and "calm_op F" and "of_commit F = None" and "calm_op G"
    and "filter (\<lambda>u. us_uuid u = uuid) (wd_users (ap_ws s)) = [u]"
    and "list_all (\<lambda>u. us_email u \<noteq> iv_invitee_email i) (wd_users (ap_ws s))"
    and "filter (\<lambda>i. iv_id i = invite_id) (wd_invitations (ap_ws s)) = [i]"
    and "s1 = snd (update_user_handler A G (Ok uuid)
      \<lparr>uup_name = None, uup_password = None, uup_email = Some (iv_invitee_email i), uup_metadata = None\<rparr> s)"
    and "r = post_accept_workspace_invite_handler A F uuid invite_id s1"
  shows "fst r = Ok () \<and> role_policy (us_uid u) (iv_workspace_id i) (role_from_i32 (iv_role_id i)) \<in> set (policies (snd r))"
proof -
  let ?e = "iv_invitee_email i"
  define f where "f = (\<lambda>u :: 'a UserRow. if us_uuid u = uuid then u\<lparr>us_email := ?e\<rparr> else u)"
  have s1: "ap_ws s1 = (ap_ws s)\<lparr>wd_users := map f (wd_users (ap_ws s))\<rparr>"
    using assms(5) by (simp add: assms(9) update_user_handler_def update_user_def db_update_user_def calm_op_def f_def)
  have u1: "us_uuid u = uuid" using filter_eq_ConsD [OF assms(6)] by auto
  have by_id: "filter (\<lambda>u. us_uuid u = uuid) (map f us) = map f (filter (\<lambda>u. us_uuid u = uuid) us)" for us
    by (rule filter_map_keep) (simp add: f_def)
  have "filter (\<lambda>u. us_email u = ?e) (map f us) = map f (filter (\<lambda>u. us_uuid u = uuid) us)"
    if "list_all (\<lambda>u. us_email u \<noteq> ?e) us" for us
    using that by (induction us) (auto simp: f_def)
  from this [OF assms(7)] assms(6) have by_email: "filter (\<lambda>u. us_email u = ?e) (wd_users (ap_ws s1)) = [f u]" by (simp add: s1)
  have "f u = u\<lparr>us_email := ?e\<rparr>" using u1 by (simp add: f_def)
  then have "invited (ap_ws s1) uuid invite_id (us_uid u) i"
    using assms(6,8) by_email by (simp add: invited_def email_of_uuid_def uid_of_email_def fetch_optional_def) (simp add: s1 by_id)
  then obtain s2 d1 where "post_accept_workspace_invite_handler A F uuid invite_id s1 =
      (case of_commit F of None \<Rightarrow> (Ok (), s2\<lparr>ap_ws := d1\<rparr>)
       | Some e \<Rightarrow> (Err (app_error_from_sqlx (sc_show_sqlx (ae_schema A)) e), s2))"
    and "set (policies s2) = {role_policy (us_uid u) (iv_workspace_id i) (role_from_i32 (iv_role_id i)),
        level_policy (us_uid u) (iv_workspace_id i) (level_from_role (role_from_i32 (iv_role_id i)))} \<union> set (policies s1)"
    by (rule accept_steps [OF assms(1-3)])
  then show ?thesis using assms(4,10) by simp
qed

section \<open>Members\<close>

lemma role_permits_write: "role_permits RoleMember ActWrite"
  by simp

text \<open>A member's write request below a document of the workspace passes the middleware.\<close>

lemma member_passes:
  assumes "route_law E" and "casbin_laws (se_casbin (he_storage E))" and "se_enabled (he_storage E)" and "ac_inv a"
    and "no_slash w" and "w \<noteq> []" and "no_slash oid" and "oid \<noteq> []" and "list_all no_slash rest" and "rest \<noteq> []"
    and "he_parse_uuid E w = Some v" and "role_policy uid v RoleMember \<in> set (ef_policies (ac_enforcer a))"
    and "list_ex (\<lambda>r. row_oid r = oid) (db_collab (cc_db c))"
  shows "is_ok (fst (middleware_call E [ResWorkspace, ResCollab] None (Ok uid) (collab_request POST w oid rest) c a))"
    and "ef_policies (ac_enforcer (snd (middleware_call E [ResWorkspace, ResCollab] None (Ok uid) (collab_request POST w oid rest) c a))) =
      ef_policies (ac_enforcer a)"
proof -
  let ?path = "path_of (''api'' # ''workspace'' # w # ''collab'' # oid # rest)"
  obtain r1 a1 where w: "check_workspace_resource E uid v POST ?path a = (r1, a1)" by (rule prod.exhaust)
  have n: "list_all no_slash (''collab'' # oid # rest)" using assms(7,9) by simp
  note cw = check_workspace_iff [OF assms(1,2,4,3,5,6) n, where m = POST, OF w [symmetric], unfolded fst_conv snd_conv]
  have r1: "is_ok r1" using cw(1) assms(12) role_permits_write by (auto simp: owners_only_def)
  have i: "ac_inv a1" and p: "ef_policies (ac_enforcer a1) = ef_policies (ac_enforcer a)" using cw(2) by simp_all
  have x: "cache_is_exist (se_db (he_storage E)) None oid c = Inr True"
    using assms(13) by (simp add: cache_is_exist_def disk_is_exist_def is_collab_exists_def transform_record_not_found_error_def sql_err_def)
  have ok: "fst (ac_enforce (se_casbin (he_storage E)) True v uid (CollabObj oid) (FromAction ActWrite) a1)"
    using assms(12) role_permits_write by (auto simp: enforce_action_iff(1) [OF assms(2) i] p)
  have c: "is_ok (fst (check_collab_resource E None v uid oid POST ?path c a1)) \<and>
      ef_policies (ac_enforcer (snd (check_collab_resource E None v uid oid POST ?path c a1))) = ef_policies (ac_enforcer a)"
    using collab_rules [OF assms(1,5-9), of POST] assms(3,10) x ok
    by (simp add: check_collab_resource_def collab_enforce_action_def case_prod_beta p) (simp add: ac_enforce_def enforce_policy_def Let_def p)
  show "is_ok (fst (middleware_call E [ResWorkspace, ResCollab] None (Ok uid) (collab_request POST w oid rest) c a))"
    and "ef_policies (ac_enforcer (snd (middleware_call E [ResWorkspace, ResCollab] None (Ok uid) (collab_request POST w oid rest) c a))) =
      ef_policies (ac_enforcer a)"
    using assms(3,11) r1 w c
    by (cases r1; simp add: middleware_call_def collab_request_def Let_def path_names)+
qed

text \<open>
  C18: A member can take any document. The endpoint for a document's members checks the document of the path and changes
  the one of the payload: a member of some workspace, naming a document there in the path and any document of the server
  in the payload, passes the middleware and gets the full access to that other document.
\<close>

theorem member_endpoint_escalates:
  assumes "route_law E" and "server_env A" and "he_storage E = ae_storage A" and "ac_inv (ap_ac s)"
    and "no_slash w" and "w \<noteq> []" and "no_slash oid" and "oid \<noteq> []" and "he_parse_uuid E w = Some v"
    and "role_policy uid v RoleMember \<in> set (policies s)"
    and "list_ex (\<lambda>r. row_oid r = oid) (db_collab (ap_db s))"
    and "calm_op F" and "of_commit F = None"
    and "payload = \<lparr>icm_uid = uid, icm_workspace_id = ws, icm_object_id = target, icm_access_level = FullAccess\<rparr>"
    and "is_ok (validate_InsertCollabMemberParams payload)"
    and "list_ex (\<lambda>r. row_oid r = target) (db_collab (ap_db s))"
    and "\<not> list_ex (\<lambda>m. mr_oid m = target \<and> mr_uid m = uid) (db_members (ap_db s))"
    and "list_ex (\<lambda>p. level_to_i32 (pm_access_level p) = level_to_i32 FullAccess) (db_permissions (ap_db s))"
    and "mw = middleware_call E [ResWorkspace, ResCollab] None (Ok uid) (collab_request POST w oid [''member''])
      (cs_cache (ap_storage s)) (ap_ac s)"
    and "r = add_collab_member_handler A F payload (set_ac (snd mw) s)"
  shows "is_ok (fst mw) \<and> fst r = Ok () \<and> level_policy uid target FullAccess \<in> set (policies (snd r))"
proof -
  have m: "is_ok (fst mw)" unfolding assms(19)
    by (rule member_passes(1) [OF assms(1) _ _ assms(4-8) _ _ assms(9)]) (use assms in \<open>simp_all add: server_env_def policies_def ap_db_def\<close>)
  have calm: "of_begin F = None" "of_call F n = no_faults" for n using assms(12) by (simp_all add: calm_op_def)
  obtain u where v: "validate_InsertCollabMemberParams payload = Ok u" using assms(15) by (auto simp: is_ok_def split: sum.splits)
  have e: "is_collab_exists None target (ap_db s) = Ok True" "is_collab_member_exists None uid target (ap_db s) = Ok False"
    using assms(16,17) by (simp_all add: is_collab_exists_def is_collab_member_exists_def transform_record_not_found_error_def)
  obtain db1 where ins: "insert_collab_member (ae_db A) no_faults uid target FullAccess (ap_db s) = Ok db1"
    using assms(18) by (cases "filter (\<lambda>p. level_to_i32 (pm_access_level p) = level_to_i32 FullAccess) (db_permissions (ap_db s))")
      (auto simp: insert_collab_member_def upsert_collab_member_with_txn_def try_bind_def fetch_one_def list_ex_iff filter_empty_conv)
  have fields: "icm_uid payload = uid" "icm_object_id payload = target" "icm_access_level payload = FullAccess"
    by (simp_all add: assms(14))
  define a where "a = snd mw"
  define a2 where "a2 = snd (update_access_level_policy (ae_casbin A) True uid target FullAccess a)"
  have L: "casbin_laws (ae_casbin A)" "ae_enabled A" using assms(2) by (simp_all add: server_env_def)
  note up = update_policies [OF L(1), of "CollabObj target" "FromAccessLevel FullAccess" uid a, simplified]
  have u2: "update_access_level_policy (ae_casbin A) True uid target FullAccess a = (Ok (), a2)"
    unfolding a2_def update_access_level_policy_def by (metis up(1) prod.collapse)
  have "level_policy uid target FullAccess \<in> set (ef_policies (ac_enforcer a2))"
    using up(2) by (simp add: a2_def update_access_level_policy_def level_policy_def)
  moreover have "r = (Ok (), (set_db db1 (set_ac a2 s))\<lparr>ap_ws := ap_ws s\<rparr>)"
    by (simp add: assms(20) a_def [symmetric] add_collab_member_handler_def create_collab_member_def v validator_error_def context_txn_def
        in_transaction_def calm op_bind_def op_lift_def tx_query_def tx_db_def tx_outside_def on_policies_def fields e ins L u2
        assms(13)) (simp add: set_db_def set_ac_def)
  ultimately show ?thesis using m by simp
qed

text \<open>
  Adding a member who is there already. The membership keeps the role it has, since inserting it again does nothing,
  but the policies get the new role: the table and the access control disagree from then on.
\<close>

theorem added_role_diverges:
  assumes "server_env A" and "calm_op F" and "of_commit F = None"
    and "filter (\<lambda>u. us_email u = e) (wd_users (ap_ws s)) = [u]"
    and "list_ex (\<lambda>m. wk_workspace_id m = w \<and> wk_uid m = us_uid u) (wd_members (ap_ws s))"
    and "list_ex (\<lambda>p. level_to_i32 (pm_access_level p) = level_to_i32 (level_from_role role)) (db_permissions (ap_db s))"
    and "r = create_workspace_members_handler A F uuid w [\<lparr>cwm_email = e, cwm_role = role\<rparr>] s"
  shows "fst r = Ok () \<and> wd_members (ap_ws (snd r)) = wd_members (ap_ws s) \<and>
    role_policy (us_uid u) w role \<in> set (policies (snd r))"
proof -
  have calm: "of_begin F = None" "of_call F n = no_faults" for n using assms(2) by (simp_all add: calm_op_def)
  have q: "select_uid_from_email (ae_schema A) no_faults e (ap_ws s) = Ok (us_uid u)"
    by (simp add: select_uid_from_email_def uid_of_email_def assms(4) fetch_optional_def fetch_one_def try_bind_def)
  have k: "upsert_workspace_member_with_txn (ae_schema A) no_faults now w e role (ap_ws s) = Ok (ap_ws s)" for now
    using assms(5) by (simp add: upsert_workspace_member_with_txn_def assms(4))
  obtain db1 where l: "upsert_collab_member_with_txn (ae_db A) no_faults (us_uid u) w (level_from_role role) (ap_db s) = Ok db1"
    using assms(6) by (cases "filter (\<lambda>p. level_to_i32 (pm_access_level p) = level_to_i32 (level_from_role role)) (db_permissions (ap_db s))")
      (auto simp: upsert_collab_member_with_txn_def try_bind_def fetch_one_def list_ex_iff filter_empty_conv)
  obtain a where p: "on_policies (insert_role (ae_casbin A) (ae_enabled A) (us_uid u) w role) s = (Ok (), set_ac a s)"
    and a: "set (ef_policies (ac_enforcer a)) = {role_policy (us_uid u) w role, level_policy (us_uid u) w (level_from_role role)} \<union> set (policies s)"
    by (rule on_insert_role [OF assms(1)])
  have "r = (Ok (), (set_db db1 (set_ac a s))\<lparr>ap_ws := ap_ws s\<rparr>)"
    by (simp add: assms(7) create_workspace_members_handler_def add_workspace_members_def context_txn_def in_transaction_def calm assms(3)
        add_member_rows_def op_bind_def op_return_def tx_query_def tx_ws_def tx_db_def tx_outside_def q k l p)
  then show ?thesis using a by simp
qed

text \<open>
  A removed member stays. Removing a member who does not own the workspace deletes the membership, but the policies
  are as before: the user's requests to the documents of the workspace still pass the middleware.
\<close>

theorem removed_member_keeps_access:
  assumes "route_law E" and "server_env A" and "he_storage E = ae_storage A" and "ac_inv (ap_ac s)"
    and "no_slash v" and "v \<noteq> []" and "no_slash oid" and "oid \<noteq> []" and "list_all no_slash rest" and "rest \<noteq> []"
    and "he_parse_uuid E v = Some w" and "role_policy u w RoleMember \<in> set (policies s)"
    and "list_ex (\<lambda>r. row_oid r = oid) (db_collab (ap_db s))"
    and "calm_op F" and "of_commit F = None"
    and "uid_of_email (ap_ws s) e = Some u" and "workspace_owner (ap_ws s) w = Some owner" and "owner \<noteq> u"
    and "\<not> list_ex (\<lambda>x. wt_workspace_id x = w \<and> wt_owner_uid x = Some u) (wd_workspaces (ap_ws s))"
    and "r = remove_workspace_member_handler A F uuid w [e] s"
  shows "fst r = Ok () \<and> \<not> member_of (ap_ws (snd r)) (Some u) w \<and>
    is_ok (fst (middleware_call E [ResWorkspace, ResCollab] None (Ok u) (collab_request POST v oid rest)
      (cs_cache (ap_storage (snd r))) (ap_ac (snd r))))"
proof -
  have calm: "of_begin F = None" "of_call F n = no_faults" for n using assms(14) by (simp_all add: calm_op_def)
  have L: "casbin_laws (ae_casbin A)" "ae_enabled A" using assms(2) by (simp_all add: server_env_def)
  define d1 where "d1 = (ap_ws s)\<lparr>wd_members := filter (\<lambda>m. wk_workspace_id m = w \<longrightarrow> wk_uid m \<noteq> u) (wd_members (ap_ws s))\<rparr>"
  then have d: "delete_workspace_members (ae_schema A) no_faults w e (ap_ws s) = Ok d1"
    using assms(19) by (simp add: delete_workspace_members_def try_bind_def assms(16,17) assms(18) [THEN not_sym] list_ex_iff)
  have m: "\<not> member_of d1 (Some u) w" and us: "wd_users d1 = wd_users (ap_ws s)"
    by (auto simp: d1_def member_of_def list_ex_iff)
  have q: "select_uid_from_email (ae_schema A) no_faults e d1 = Ok u"
    using assms(16) us by (simp add: select_uid_from_email_def uid_of_email_def fetch_one_def try_bind_def)
  obtain a1 where r1: "ac_remove_policy (ae_casbin A) True u (WorkspaceObj w) (ap_ac s) = (Ok (), a1)" and e1: "ac_enforcer a1 = ac_enforcer (ap_ac s)"
    by (simp add: ac_remove_policy_def remove_policy_same [OF L(1)])
  obtain a2 where r2: "ac_remove_policy (ae_casbin A) True u (CollabObj w) a1 = (Ok (), a2)" and e2: "ac_enforcer a2 = ac_enforcer (ap_ac s)"
    using e1 by (simp add: ac_remove_policy_def remove_policy_same [OF L(1)])
  have "r = (Ok (), (set_db (ap_db s) (set_ac a2 s))\<lparr>ap_ws := d1\<rparr>)"
    by (simp add: assms(20) remove_workspace_member_handler_def remove_workspace_members_def context_txn_def in_transaction_def calm assms(15)
        op_bind_def op_return_def tx_ws_def tx_outside_def on_policies_def d q remove_role_def L r1 r2)
  moreover have "is_ok (fst (middleware_call E [ResWorkspace, ResCollab] None (Ok u) (collab_request POST v oid rest) (cs_cache (ap_storage s)) a2))"
    by (rule member_passes(1) [OF assms(1) _ _ _ assms(5-11)])
      (use assms(3,4,12,13) L e2 in \<open>simp_all add: policies_def ap_db_def ac_inv_def\<close>)
  moreover have "cs_cache (ap_storage ((set_db (ap_db s) (set_ac a2 s))\<lparr>ap_ws := d1\<rparr>)) = cs_cache (ap_storage s)"
    by (simp add: set_db_def set_ac_def ap_db_def)
  ultimately show ?thesis using m by simp
qed

text \<open>
  Any user may rename any workspace. The request to change a workspace names it in its payload and no variable of
  its path does, so the middleware lets it through without asking the policies; the handler then sets the name.
\<close>

theorem patch_any_workspace:
  assumes "rq_vars req = []" and "calm_op F" and "of_commit F = None"
    and "r = patch_workspace_handler A F uuid \<lparr>pw_workspace_id = w, pw_workspace_name = Some n, pw_workspace_icon = None\<rparr> s"
  shows "middleware_call E services fault user req c a = (Ok (), a) \<and> fst r = Ok () \<and>
    map wt_workspace_name (filter (\<lambda>x. wt_workspace_id x = w) (wd_workspaces (ap_ws (snd r)))) =
    map (\<lambda>x. Some n) (filter (\<lambda>x. wt_workspace_id x = w) (wd_workspaces (ap_ws s)))"
proof -
  have calm: "of_begin F = None" "of_call F n = no_faults" for n using assms(2) by (simp_all add: calm_op_def)
  let ?f = "\<lambda>x. if wt_workspace_id x = w then x\<lparr>wt_workspace_name := Some n\<rparr> else x"
  have "r = (Ok (), (set_db (ap_db s) s)\<lparr>ap_ws := (ap_ws s)\<lparr>wd_workspaces := map ?f (wd_workspaces (ap_ws s))\<rparr>\<rparr>)"
    by (simp add: assms(4) patch_workspace_handler_def patch_workspace_def plain_txn_def in_transaction_def calm assms(3) op_bind_def
        op_return_def tx_ws_def rename_workspace_def update_workspace_rows_def)
  moreover have "map wt_workspace_name (filter (\<lambda>x. wt_workspace_id x = w) (map ?f ws)) =
      map (\<lambda>x. Some n) (filter (\<lambda>x. wt_workspace_id x = w) ws)" for ws
    by (induction ws) simp_all
  moreover have "middleware_call E services fault user req c a = (Ok (), a)"
    using assms(1) by (simp add: middleware_call_def path_names)
  ultimately show ?thesis by simp
qed

section \<open>Signing in\<close>

lemma txn_Ok:
  assumes "context_txn b c F body s = (Inr x, s')"
  obtains db d s1 where "body ((ap_db s, ap_ws s), s) = (Inr x, ((db, d), s1))" and "s' = (set_db db s1)\<lparr>ap_ws := d\<rparr>"
  using assms by (auto simp: context_txn_def in_transaction_def split: sum.splits prod.splits)

text \<open>Steps that leave the transaction's copy of the workspace tables alone.\<close>

definition ws_kept :: "('j tx, 'a) op \<Rightarrow> bool" where
  "ws_kept m \<longleftrightarrow> (\<forall>t s. snd (fst (snd (m (t, s)))) = snd t)"

lemma ws_kept_bind: "ws_kept m \<Longrightarrow> (\<And>x. ws_kept (f x)) \<Longrightarrow> ws_kept (op_bind m f)"
  unfolding ws_kept_def op_bind_def by (simp add: case_prod_beta split: sum.splits) (metis prod.collapse)

lemma ws_kept_simps:
  "ws_kept (op_return x)" "ws_kept (op_lift r)" "ws_kept (tx_query q)" "ws_kept (tx_outside m)" "ws_kept (tx_upsert_collab A K W w uid p)"
  by (simp_all add: ws_kept_def op_return_def op_lift_def tx_query_def tx_outside_def tx_upsert_collab_def case_prod_beta split: sum.splits)

lemma ws_kept_each: "(\<And>x. ws_kept (f x)) \<Longrightarrow> ws_kept (op_each f xs)"
  by (induction xs) (auto intro: ws_kept_bind ws_kept_simps)

lemma initialize_ws_kept: "ws_kept (initialize_workspace_for_user A K F uid w ts)"
  unfolding initialize_workspace_for_user_def by (auto intro!: ws_kept_bind ws_kept_simps ws_kept_each)

definition has_user :: "string \<Rightarrow> 'j WsDb \<Rightarrow> bool" where
  "has_user uuid d \<longleftrightarrow> list_ex (\<lambda>u. us_uuid u = uuid) (wd_users d)"

lemma verify_has_user:
  assumes "\<forall>row d. wd_users (sc_workspace_inserted (ae_schema A) row d) = wd_users d"
    and "verify_token A K F templates (Ok g) dbg uid s = (Inr b, s')" and "de_parse_uuid (ae_db A) (gu_id g) = Some uuid"
  shows "has_user uuid (ap_ws s')"
proof -
  define rest where "rest w = op_then (tx_outside (on_policies (insert_role (ae_casbin A) (ae_enabled A) uid w RoleOwner)))
      (op_then (initialize_workspace_for_user A K F uid w (templates w)) (op_return True))" for w :: string
  have rest: "ws_kept (rest w)" for w
    unfolding rest_def by (intro ws_kept_bind ws_kept_simps initialize_ws_kept)
  obtain db d s1 where body: "op_then (tx_query (\<lambda>db d. sql_err (sc_show_sqlx (ae_schema A)) (statement (of_call F 0) 0 ())))
      (op_bind (tx_query (\<lambda>db d. is_user_exist (ae_schema A) (of_call F 1) uuid d))
        (\<lambda>user_exists. if user_exists then op_return False
          else op_bind (\<lambda>((db, d), s). case create_user (ae_schema A) (of_call F 2) uid uuid (gu_email g)
                  (name_from_user_metadata (gu_metadata g)) (db, d) of
                Inl e \<Rightarrow> (Err e, ((db, d), s))
              | Inr (w, db1, d1) \<Rightarrow> (Ok w, ((db1, d1), s))) rest)) ((ap_db s, ap_ws s), s) = (Inr b, ((db, d), s1))"
    and s': "s' = (set_db db s1)\<lparr>ap_ws := d\<rparr>"
    using assms(2) unfolding verify_token_def rest_def by (auto simp: assms(3) op_bind_Ok op_lift_def elim: txn_Ok)
  from body obtain ex where ex: "is_user_exist (ae_schema A) (of_call F 1) uuid (ap_ws s) = Ok ex"
    by (auto simp: op_bind_Ok tx_query_def)
  have "has_user uuid d"
  proof (cases ex)
    case True
    then show ?thesis using body ex
      by (auto simp: op_bind_Ok tx_query_def op_return_def is_user_exist_def sql_err_def statement_def has_user_def split: sum.splits option.splits)
  next
    case False
    with body ex obtain w db1 d1 where
      c: "create_user (ae_schema A) (of_call F 2) uid uuid (gu_email g) (name_from_user_metadata (gu_metadata g)) (ap_db s, ap_ws s) = Ok (w, db1, d1)"
      and r: "rest w ((db1, d1), s) = (Inr b, ((db, d), s1))"
      by (auto simp: op_bind_Ok tx_query_def split: sum.splits)
    have "d = d1" using rest [of w] r unfolding ws_kept_def by (metis fst_conv snd_conv)
    then show ?thesis using c assms(1)
      by (auto simp: create_user_def Let_def try_bind_def sql_err_def has_user_def split: sum.splits if_splits)
  qed
  then show ?thesis by (simp add: s')
qed

text \<open>
  Verifying a token twice. After a verification that succeeded, whether it created the user or found one, verifying
  the same user again answers that the user is not new, and changes no table and no policy.
\<close>

theorem verify_is_idempotent:
  assumes "\<forall>row d. wd_users (sc_workspace_inserted (ae_schema A) row d) = wd_users d"
    and "r1 = verify_user_handler A K F templates (Ok g) dbg uid s" and "is_ok (fst r1)"
    and "calm_op G" and "of_commit G = None"
    and "r2 = verify_user_handler A K G templates' (Ok g) dbg uid' (snd r1)"
  shows "fst r2 = Ok False \<and> tables (snd r2) = tables (snd r1) \<and> policies (snd r2) = policies (snd r1)"
proof -
  have calm: "of_begin G = None" "of_call G n = no_faults" for n using assms(4) by (simp_all add: calm_op_def)
  obtain b s1 where r1: "verify_token A K F templates (Ok g) dbg uid s = (Inr b, s1)" "r1 = (Inr b, s1)"
    using assms(2,3) by (cases "verify_token A K F templates (Ok g) dbg uid s") (auto simp: verify_user_handler_def is_ok_def split: sum.splits)
  obtain uuid where u: "de_parse_uuid (ae_db A) (gu_id g) = Some uuid"
    using r1(1) by (auto simp: verify_token_def op_fail_def split: option.splits)
  have "has_user uuid (ap_ws s1)" by (rule verify_has_user [OF assms(1) r1(1) u])
  then have x: "is_user_exist (ae_schema A) no_faults uuid (ap_ws s1) = Ok True" by (simp add: is_user_exist_def has_user_def)
  have "r2 = (Ok False, (set_db (ap_db s1) s1)\<lparr>ap_ws := ap_ws s1\<rparr>)"
    by (simp add: assms(6) r1(2) verify_user_handler_def verify_token_def u context_txn_def in_transaction_def calm assms(5) op_bind_def
        tx_query_def x op_return_def)
  then show ?thesis by (simp add: r1(2) tables_def)
qed

section \<open>Instances\<close>

definition sample_user :: "int \<Rightarrow> string \<Rightarrow> string \<Rightarrow> unit UserRow" where
  "sample_user uid uuid email = \<lparr>us_uid = uid, us_uuid = uuid, us_email = email, us_name = email, us_metadata = ()\<rparr>"

definition sample_invite :: "string \<Rightarrow> string \<Rightarrow> InvitationRow" where
  "sample_invite invite_id email = \<lparr>iv_id = invite_id, iv_workspace_id = ''w'', iv_inviter = Some 8, iv_invitee_email = email, iv_role_id = 1,
     iv_status = 0, iv_updated_at = 0\<rparr>"

definition sample_app :: "policy list \<Rightarrow> unit App" where
  "sample_app P = \<lparr>ap_storage = \<lparr>cs_cache = sample_cache\<lparr>cc_db := (cc_db sample_cache)\<lparr>db_permissions :=
         [\<lparr>pm_id = 4, pm_name = ''Full access'', pm_access_level = FullAccess, pm_description = []\<rparr>]\<rparr>\<rparr>, cs_ac = sample_ac P\<rparr>,
     ap_ws = \<lparr>wd_users = [sample_user 7 ''u7'' ''m'', sample_user 8 ''u8'' ''o''],
       wd_workspaces = [(sc_new_workspace sample_schema None (Some 8))\<lparr>wt_workspace_id := ''w''\<rparr>],
       wd_members = [\<lparr>wk_uid = 7, wk_workspace_id = ''w'', wk_role_id = 2, wk_created_at = 0, wk_updated_at = 0\<rparr>],
       wd_invitations = [sample_invite ''i'' ''new'', sample_invite ''j'' ''m''], wd_blobs = [], wd_roles = [], wd_role_permissions = []\<rparr>,
     ap_users = [], ap_snapshots = SnapshotControl_new (cc_db sample_cache) []\<rparr>"

definition sample_server :: "(int, unit) app_env" where
  "sample_server = \<lparr>ae_storage = storage_env_of True, ae_schema = sample_schema\<rparr>"

definition sample_faults :: "sqlx_error option \<Rightarrow> op_faults" where
  "sample_faults commit_fault = \<lparr>of_begin = None, of_commit = commit_fault, of_call = (\<lambda>i. no_faults), of_write = (\<lambda>i. calm_write), of_now = 5\<rparr>"

lemma sample_server_facts:
  "server_env sample_server" "trigger_law (ae_schema sample_server)" "calm_op (sample_faults f)" "of_commit (sample_faults f) = f"
  "he_storage sample_env = ae_storage sample_server" "policies (sample_app P) = P" "ap_ac (sample_app P) = sample_ac P"
  "ae_schema sample_server = sample_schema"
  by (simp_all add: server_env_def sample_server_def casbin_laws_std trigger_law_def sample_schema_def calm_op_def sample_faults_def
      policies_def ap_ac_def sample_app_def)

lemma sample_app_tables:
  "wd_users (ap_ws (sample_app P)) = [sample_user 7 ''u7'' ''m'', sample_user 8 ''u8'' ''o'']"
  "wd_invitations (ap_ws (sample_app P)) = [sample_invite ''i'' ''new'', sample_invite ''j'' ''m'']"
  "wd_members (ap_ws (sample_app P)) = [\<lparr>wk_uid = 7, wk_workspace_id = ''w'', wk_role_id = 2, wk_created_at = 0, wk_updated_at = 0\<rparr>]"
  "map wt_owner_uid (wd_workspaces (ap_ws (sample_app P))) = [Some 8]" "map wt_workspace_id (wd_workspaces (ap_ws (sample_app P))) = [''w'']"
  "db_collab (ap_db (sample_app P)) = [sample_row ''c'' [1] None, sample_row ''gone'' [2] (Some 5)]" "db_members (ap_db (sample_app P)) = []"
  "db_permissions (ap_db (sample_app P)) = [\<lparr>pm_id = 4, pm_name = ''Full access'', pm_access_level = FullAccess, pm_description = []\<rparr>]"
  "sample_user a b c = \<lparr>us_uid = a, us_uuid = b, us_email = c, us_name = c, us_metadata = ()\<rparr>"
  "iv_id (sample_invite x y) = x" "iv_invitee_email (sample_invite x y) = y" "iv_workspace_id (sample_invite x y) = ''w''"
  "iv_role_id (sample_invite x y) = 1" "row_oid (sample_row o' d e) = o'"
  by (simp_all add: sample_app_def ap_db_def sample_cache_def sample_schema_def sample_user_def sample_invite_def sample_row_def)

theorem failed_accept_grants_role_witness:
  "let r = post_accept_workspace_invite_handler sample_server (sample_faults (Some SqlxPoolTimedOut)) ''u7'' ''j'' (sample_app [])
   in tables (snd r) = tables (sample_app []) \<and> role_policy 7 ''w'' RoleOwner \<in> set (policies (snd r))"
proof -
  have "invited (ap_ws (sample_app [])) ''u7'' ''j'' 7 (sample_invite ''j'' ''m'')"
    by (simp add: invited_def email_of_uuid_def uid_of_email_def fetch_optional_def sample_app_tables)
  from failed_accept_grants_role [OF sample_server_facts(2,1,3,4) this refl, of SqlxPoolTimedOut] show ?thesis
    by (simp add: Let_def sample_app_tables role_from_i32_def)
qed

theorem email_change_takes_invitation_witness:
  "let s1 = snd (update_user_handler sample_server (sample_faults None) (Ok ''u7'')
        \<lparr>uup_name = None, uup_password = None, uup_email = Some ''new'', uup_metadata = None\<rparr> (sample_app []));
       r = post_accept_workspace_invite_handler sample_server (sample_faults None) ''u7'' ''i'' s1
   in fst r = Ok () \<and> role_policy 7 ''w'' RoleOwner \<in> set (policies (snd r))"
proof -
  have "filter (\<lambda>u. us_uuid u = ''u7'') (wd_users (ap_ws (sample_app []))) = [sample_user 7 ''u7'' ''m'']"
    "list_all (\<lambda>u. us_email u \<noteq> iv_invitee_email (sample_invite ''i'' ''new'')) (wd_users (ap_ws (sample_app [])))"
    "filter (\<lambda>i. iv_id i = ''i'') (wd_invitations (ap_ws (sample_app []))) = [sample_invite ''i'' ''new'']"
    by (simp_all add: sample_app_tables)
  from email_change_takes_invitation [OF sample_server_facts(2,1,3,4,3) this refl refl, of None] show ?thesis
    by (simp add: Let_def sample_app_tables role_from_i32_def)
qed

theorem member_endpoint_escalates_witness:
  "let s = sample_app [role_policy 7 ''w'' RoleMember];
       mw = middleware_call sample_env [ResWorkspace, ResCollab] None (Ok 7) (collab_request POST ''w'' ''c'' [''member''])
         (cs_cache (ap_storage s)) (ap_ac s);
       r = add_collab_member_handler sample_server (sample_faults None)
         \<lparr>icm_uid = 7, icm_workspace_id = ''w'', icm_object_id = ''gone'', icm_access_level = FullAccess\<rparr> (set_ac (snd mw) s)
   in is_ok (fst mw) \<and> level_policy 7 ''gone'' FullAccess \<in> set (policies (snd r))"
proof -
  let ?s = "sample_app [role_policy 7 ''w'' RoleMember]"
  let ?p = "\<lparr>icm_uid = 7, icm_workspace_id = ''w'', icm_object_id = ''gone'', icm_access_level = FullAccess\<rparr>"
  have i: "ac_inv (ap_ac ?s)" by (simp add: sample_server_facts sample_ac_inv policies_wf_sample)
  have "no_slash ''w''" "''w'' \<noteq> []" "no_slash ''c''" "''c'' \<noteq> []" "he_parse_uuid sample_env ''w'' = Some ''w''"
    "role_policy 7 ''w'' RoleMember \<in> set (policies ?s)" "list_ex (\<lambda>r. row_oid r = ''c'') (db_collab (ap_db ?s))"
    by (simp_all add: sample_server_facts sample_app_tables)
  note step = member_endpoint_escalates [OF sample_env_simps(3) sample_server_facts(1,5) i this sample_server_facts(3,4), where payload = ?p, OF refl _ _ _ _ refl refl]
  have "is_ok (validate_InsertCollabMemberParams ?p)" "list_ex (\<lambda>r. row_oid r = ''gone'') (db_collab (ap_db ?s))"
    "\<not> list_ex (\<lambda>m. mr_oid m = ''gone'' \<and> mr_uid m = 7) (db_members (ap_db ?s))"
    "list_ex (\<lambda>p. level_to_i32 (pm_access_level p) = level_to_i32 FullAccess) (db_permissions (ap_db ?s))"
    by (simp_all add: validate_InsertCollabMemberParams_def sample_app_tables)
  from step [OF this] show ?thesis by (simp add: Let_def)
qed

theorem added_role_diverges_witness:
  "let s = sample_app [role_policy 7 ''w'' RoleMember];
       r = create_workspace_members_handler sample_server (sample_faults None) ''u8'' ''w'' [\<lparr>cwm_email = ''m'', cwm_role = RoleOwner\<rparr>] s
   in fst r = Ok () \<and> map wk_role_id (wd_members (ap_ws (snd r))) = [2] \<and> role_policy 7 ''w'' RoleOwner \<in> set (policies (snd r))"
proof -
  let ?s = "sample_app [role_policy 7 ''w'' RoleMember]"
  have "filter (\<lambda>u. us_email u = ''m'') (wd_users (ap_ws ?s)) = [sample_user 7 ''u7'' ''m'']"
    "list_ex (\<lambda>m. wk_workspace_id m = ''w'' \<and> wk_uid m = us_uid (sample_user 7 ''u7'' ''m'')) (wd_members (ap_ws ?s))"
    "list_ex (\<lambda>p. level_to_i32 (pm_access_level p) = level_to_i32 (level_from_role RoleOwner)) (db_permissions (ap_db ?s))"
    by (simp_all add: sample_app_tables)
  from added_role_diverges [OF sample_server_facts(1,3,4) this refl, where uuid = "''u8''"] show ?thesis
    by (simp add: Let_def sample_app_tables)
qed

theorem removed_member_keeps_access_witness:
  "let s = sample_app [role_policy 7 ''w'' RoleMember];
       r = remove_workspace_member_handler sample_server (sample_faults None) ''u8'' ''w'' [''m''] s
   in fst r = Ok () \<and> is_ok (fst (middleware_call sample_env [ResWorkspace, ResCollab] None (Ok 7)
        (collab_request POST ''w'' ''c'' [''member'']) (cs_cache (ap_storage (snd r))) (ap_ac (snd r))))"
proof -
  let ?s = "sample_app [role_policy 7 ''w'' RoleMember]"
  have i: "ac_inv (ap_ac ?s)" by (simp add: sample_server_facts sample_ac_inv policies_wf_sample)
  obtain x where x: "wd_workspaces (ap_ws ?s) = [x]" "wt_workspace_id x = ''w''" "wt_owner_uid x = Some 8"
    using sample_app_tables(4,5) [of "[role_policy 7 ''w'' RoleMember]"] by auto
  have "no_slash ''w''" "''w'' \<noteq> []" "no_slash ''c''" "''c'' \<noteq> []" "list_all no_slash [''member'']" "[''member''] \<noteq> []"
    "he_parse_uuid sample_env ''w'' = Some ''w''"
    "role_policy 7 ''w'' RoleMember \<in> set (policies ?s)" "list_ex (\<lambda>r. row_oid r = ''c'') (db_collab (ap_db ?s))"
    by (simp_all add: sample_server_facts sample_app_tables)
  note step = removed_member_keeps_access [OF sample_env_simps(3) sample_server_facts(1,5) i this sample_server_facts(3,4)]
  have "uid_of_email (ap_ws ?s) ''m'' = Some 7" "workspace_owner (ap_ws ?s) ''w'' = Some 8" "8 \<noteq> (7::int)"
    "\<not> list_ex (\<lambda>x. wt_workspace_id x = ''w'' \<and> wt_owner_uid x = Some 7) (wd_workspaces (ap_ws ?s))"
    by (simp_all add: uid_of_email_def workspace_owner_def fetch_optional_def sample_app_tables x)
  from step [OF this refl, where uuid = "''u8''"] show ?thesis by (simp add: Let_def)
qed

theorem patch_any_workspace_witness:
  "let req = \<lparr>rq_method = OtherMethod ''PATCH'', rq_matched = True, rq_path = WORKSPACE_PATTERN, rq_vars = []\<rparr>;
       r = patch_workspace_handler sample_server (sample_faults None) ''u7''
         \<lparr>pw_workspace_id = ''w'', pw_workspace_name = Some ''mine'', pw_workspace_icon = None\<rparr> (sample_app [])
   in middleware_call sample_env [ResWorkspace, ResCollab] None (Ok 7) req sample_cache (sample_ac []) = (Ok (), sample_ac []) \<and> fst r = Ok ()"
  using patch_any_workspace [OF _ sample_server_facts(3,4) refl, where req = "\<lparr>rq_method = OtherMethod ''PATCH'', rq_matched = True,
      rq_path = WORKSPACE_PATTERN, rq_vars = []\<rparr>" and E = sample_env and services = "[ResWorkspace, ResCollab]" and fault = None
      and user = "Ok 7" and c = sample_cache and a = "sample_ac []" and A = sample_server and uuid = "''u7''" and w = "''w''"
      and n = "''mine''" and s = "sample_app []"]
  by (simp add: Let_def)

theorem verify_is_idempotent_witness:
  "let g = \<lparr>gu_id = ''u9'', gu_email = ''e'', gu_metadata = JNull\<rparr>;
       r1 = verify_user_handler sample_server sample_codec (sample_faults None) (\<lambda>w. Ok []) (Ok g) (\<lambda>m. []) 9 (sample_app []);
       r2 = verify_user_handler sample_server sample_codec (sample_faults None) (\<lambda>w. Ok []) (Ok g) (\<lambda>m. []) 10 (snd r1)
   in fst r2 = Ok False \<and> tables (snd r2) = tables (snd r1)"
proof -
  let ?g = "\<lparr>gu_id = ''u9'', gu_email = ''e'', gu_metadata = JNull\<rparr>"
  let ?r = "verify_user_handler sample_server sample_codec (sample_faults None) (\<lambda>w. Ok []) (Ok ?g) (\<lambda>m. []) 9 (sample_app [])"
  have t: "\<forall>row d. wd_users (sc_workspace_inserted (ae_schema sample_server) row d) = wd_users d"
    by (simp add: sample_server_facts sample_schema_def)
  have n: "is_user_exist sample_schema no_faults ''u9'' (ap_ws (sample_app [])) = Ok False"
    by (simp add: is_user_exist_def sample_app_tables)
  obtain x where c: "create_user sample_schema no_faults 9 ''u9'' ''e'' [] (ap_db (sample_app []), ap_ws (sample_app [])) = Ok x"
    by (simp add: create_user_def Let_def try_bind_def sample_app_tables)
  obtain w db1 d1 where x: "x = (w, db1, d1)" by (cases x)
  obtain a where p: "on_policies (insert_role (ae_casbin sample_server) (ae_enabled sample_server) 9 w RoleOwner) (sample_app []) =
      (Ok (), set_ac a (sample_app []))"
    by (rule on_insert_role [OF sample_server_facts(1)])
  have b: "of_begin (sample_faults f) = None" "of_call (sample_faults f) i = no_faults" for f i
    by (simp_all add: sample_faults_def)
  have u: "de_parse_uuid (ae_db sample_server) s = Some s" for s by (simp add: sample_server_def storage_env_of_def sample_db_env_def)
  have "is_ok (fst ?r)"
    by (simp add: verify_user_handler_def verify_token_def u context_txn_def in_transaction_def b op_bind_def tx_query_def
        sample_server_facts n c [unfolded x] name_from_user_metadata_def initialize_workspace_for_user_def op_lift_def op_return_def
        tx_outside_def p)
  from verify_is_idempotent [OF t refl this sample_server_facts(3,4) refl, where templates' = "\<lambda>w. Ok []" and uid' = 10] show ?thesis
    by (simp add: Let_def)
qed

end
