(* ===== verification/Snowflake.thy ===== *)
theory Snowflake
  imports Prelude
begin

text \<open>
  The id generator of \<open>lib/snowflake/src/lib.rs\<close>.  The system clock is the list of the
  millisecond readings still to come; a reading is consumed by each call of \<open>timestamp()\<close>.
  Arithmetic on \<open>u64\<close> wraps, as in a release build.
\<close>

unbundle bit_operations_syntax

section \<open>The generator\<close>

definition EPOCH :: u64 where "EPOCH = 1637806706000"
definition NODE_ID_BITS :: nat where "NODE_ID_BITS = 10"
definition SEQUENCE_BITS :: nat where "SEQUENCE_BITS = 12"
definition NODE_ID_SHIFT :: nat where "NODE_ID_SHIFT = SEQUENCE_BITS"
definition TIMESTAMP_SHIFT :: nat where "TIMESTAMP_SHIFT = NODE_ID_BITS + SEQUENCE_BITS"
definition SEQUENCE_MASK :: u64 where "SEQUENCE_MASK = push_bit SEQUENCE_BITS 1 - 1"

named_theorems snowflake_defs

lemmas snowflake_consts [snowflake_defs] =
  NODE_ID_BITS_def SEQUENCE_BITS_def NODE_ID_SHIFT_def TIMESTAMP_SHIFT_def SEQUENCE_MASK_def

record snowflake =
  node_id :: u64
  sequence :: u64
  last_timestamp :: u64

definition snowflake_new :: "u64 \<Rightarrow> snowflake" where
  "snowflake_new n = \<lparr>node_id = n, sequence = 0, last_timestamp = 0\<rparr>"

text \<open>
  A call returns a value, panics, or is still spinning when the readings run out.
\<close>

datatype 'a outcome = Returned 'a | Panicked | Spinning

fun wait_next_millis :: "u64 \<Rightarrow> u64 list \<Rightarrow> u64 list outcome" where
  "wait_next_millis prev [] = Spinning"
| "wait_next_millis prev (t # ts) = (if t = prev then wait_next_millis prev ts else Returned ts)"

definition make_id :: "u64 \<Rightarrow> u64 \<Rightarrow> u64 \<Rightarrow> u64" where
  "make_id timestamp node seq =
     push_bit TIMESTAMP_SHIFT (timestamp - EPOCH) OR push_bit NODE_ID_SHIFT node OR seq"

fun next_id :: "snowflake \<Rightarrow> u64 list \<Rightarrow> (u64 \<times> snowflake \<times> u64 list) outcome" where
  "next_id s [] = Spinning"
| "next_id s (timestamp # ts) =
     (if timestamp < last_timestamp s then Panicked
      else if timestamp = last_timestamp s then
        (let seq = (sequence s + 1) AND SEQUENCE_MASK in
         case (if seq = 0 then wait_next_millis (last_timestamp s) ts else Returned ts) of
           Returned ts' \<Rightarrow>
             Returned (make_id timestamp (node_id s) seq,
                       s\<lparr>sequence := seq, last_timestamp := timestamp\<rparr>, ts')
         | Panicked \<Rightarrow> Panicked
         | Spinning \<Rightarrow> Spinning)
      else
        Returned (make_id timestamp (node_id s) 0,
                  s\<lparr>sequence := 0, last_timestamp := timestamp\<rparr>, ts))"

text \<open>\<open>n\<close> calls in a row: the ids returned.\<close>

fun next_ids :: "nat \<Rightarrow> snowflake \<Rightarrow> u64 list \<Rightarrow> (u64 list \<times> snowflake \<times> u64 list) outcome" where
  "next_ids 0 s ts = Returned ([], s, ts)"
| "next_ids (Suc n) s ts =
     (case next_id s ts of
        Returned (i, s', ts') \<Rightarrow>
          (case next_ids n s' ts' of
             Returned (is, s'', ts'') \<Rightarrow> Returned (i # is, s'', ts'')
           | Panicked \<Rightarrow> Panicked
           | Spinning \<Rightarrow> Spinning)
      | Panicked \<Rightarrow> Panicked
      | Spinning \<Rightarrow> Spinning)"

section \<open>The fields of an id\<close>

definition snowflake_wf :: "snowflake \<Rightarrow> bool" where
  "snowflake_wf s \<longleftrightarrow> node_id s < 1024 \<and> sequence s < 4096"

lemma SEQUENCE_MASK_eq: "SEQUENCE_MASK = mask 12"
  by (simp add: snowflake_defs mask_eq_exp_minus_1)

lemma masked_unat: "unat (x AND SEQUENCE_MASK) = unat x mod 4096"
proof -
  have "unat (x AND SEQUENCE_MASK) = unat (take_bit 12 x)"
    by (simp only: SEQUENCE_MASK_eq take_bit_eq_mask)
  also have "\<dots> = take_bit 12 (unat x)" by (rule unsigned_take_bit_eq)
  finally show ?thesis by (simp only: take_bit_eq_mod) simp
qed

lemma masked_less: "(x AND SEQUENCE_MASK) < 4096"
  by (simp only: word_less_nat_alt masked_unat) simp

lemma next_id_wf:
  assumes "snowflake_wf s" and "next_id s ts = Returned (i, s', ts')"
  shows "snowflake_wf s'"
  using assms masked_less
  by (cases ts) (auto simp: snowflake_wf_def Let_def split: if_splits outcome.splits)

lemma push_bit_or_nat:
  assumes "(b :: nat) < 2 ^ n"
  shows "push_bit n a OR b = a * 2 ^ n + b"
proof -
  have "take_bit n b = b" using assms by (simp add: take_bit_nat_eq_self)
  then have small: "bit b k \<Longrightarrow> k < n" for k by (metis bit_take_bit_iff)
  have "push_bit n a AND b = 0"
    by (rule bit_eqI) (auto simp: bit_simps dest: small)
  then have "push_bit n a + b = push_bit n a OR b" by (rule disjunctive_add_eq_or)
  then show ?thesis by (simp add: push_bit_eq_mult)
qed

lemma unat_push_bit:
  assumes "unat (a :: u64) * 2 ^ n < 2 ^ 64"
  shows "unat (push_bit n a) = push_bit n (unat a)"
proof -
  have "unat (push_bit n a) = take_bit 64 (push_bit n (unat a))"
    by (simp only: unsigned_push_bit_eq) simp
  also have "\<dots> = push_bit n (unat a)"
    using assms by (simp add: take_bit_nat_eq_self push_bit_eq_mult)
  finally show ?thesis .
qed

lemma make_id_value:
  assumes "unat (t - EPOCH) < 2 ^ 42" and "node < 1024" and "seq < 4096"
  shows "unat (make_id t node seq) = (unat (t - EPOCH) * 1024 + unat node) * 4096 + unat seq"
proof -
  let ?T = "unat (t - EPOCH)" and ?N = "unat node" and ?S = "unat seq"
  have n: "?N < 1024" and s: "?S < 4096"
    using assms(2,3) by (simp_all add: word_less_nat_alt)
  have T: "?T * 2 ^ 22 < 2 ^ 64" using assms(1) by simp
  have N: "?N * 2 ^ 12 < 2 ^ 64" using n by simp
  have "unat (make_id t node seq) = push_bit 22 ?T OR (push_bit 12 ?N OR ?S)"
    using unat_push_bit [OF T] unat_push_bit [OF N]
    by (simp add: make_id_def snowflake_defs unsigned_or_eq or.assoc)
  also have "push_bit 12 ?N OR ?S = ?N * 2 ^ 12 + ?S"
    by (rule push_bit_or_nat) (use s in simp)
  also have "push_bit 22 ?T OR (?N * 2 ^ 12 + ?S) = ?T * 2 ^ 22 + (?N * 2 ^ 12 + ?S)"
    by (rule push_bit_or_nat) (use n s in simp)
  finally show ?thesis by (simp add: algebra_simps)
qed

lemma id_fields:
  assumes "N < 1024" and "S < (4096 :: nat)"
  shows "((T * 1024 + N) * 4096 + S) div 4194304 = T"
    and "((T * 1024 + N) * 4096 + S) div 4096 mod 1024 = N"
    and "((T * 1024 + N) * 4096 + S) mod 4096 = S"
proof -
  have d: "((T * 1024 + N) * 4096 + S) div 4096 = T * 1024 + N"
    using assms(2) by (simp only: div_mult_self3 div_less; simp?)
  show "((T * 1024 + N) * 4096 + S) mod 4096 = S"
    using assms(2) by (simp only: mod_mult_self3 mod_less)
  show "((T * 1024 + N) * 4096 + S) div 4096 mod 1024 = N"
    unfolding d using assms(1) by (simp only: mod_mult_self3 mod_less)
  have "((T * 1024 + N) * 4096 + S) div (4096 * 1024) = (T * 1024 + N) div 1024"
    by (simp only: div_mult2_eq d)
  also have "\<dots> = T" using assms(1) by (simp only: div_mult_self3 div_less; simp?)
  finally show "((T * 1024 + N) * 4096 + S) div 4194304 = T" by simp
qed

lemma id_mono: "T < U \<Longrightarrow> S < 4096 \<Longrightarrow> (T * 1024 + N) * 4096 + S < (U * 1024 + N) * 4096 + (S' :: nat)"
  by (simp add: algebra_simps)

lemma next_id_make_id:
  assumes "next_id s ts = Returned (i, s', ts')"
  shows "i = make_id (last_timestamp s') (node_id s') (sequence s') \<and> node_id s' = node_id s \<and>
    ts \<noteq> [] \<and> last_timestamp s' = hd ts \<and> last_timestamp s \<le> last_timestamp s' \<and>
    (if last_timestamp s' = last_timestamp s
     then sequence s' = (sequence s + 1) AND SEQUENCE_MASK else sequence s' = 0)"
  using assms by (cases ts) (auto simp: Let_def split: if_splits outcome.splits)

lemma sequence_step:
  assumes "s < (4096 :: u64)" and "(s + 1) AND SEQUENCE_MASK \<noteq> 0"
  shows "unat ((s + 1) AND SEQUENCE_MASK) = unat s + 1"
proof -
  have s: "unat s < 4096" using assms(1) by (simp add: word_less_nat_alt)
  then have plus: "unat (s + 1) = unat s + 1" by (simp add: unat_word_ariths)
  have "unat ((s + 1) AND SEQUENCE_MASK) = (unat s + 1) mod 4096"
    by (simp only: masked_unat plus)
  moreover have "unat ((s + 1) AND SEQUENCE_MASK) \<noteq> 0" using assms(2) by (simp add: unat_eq_0)
  ultimately have "(unat s + 1) mod 4096 \<noteq> 0" by simp
  with s have "unat s + 1 < 4096" by (cases "unat s + 1 = 4096") auto
  with \<open>unat ((s + 1) AND SEQUENCE_MASK) = (unat s + 1) mod 4096\<close> show ?thesis by simp
qed

section \<open>Properties\<close>

text \<open>
  A returned id packs the milliseconds since the epoch, the node and the sequence number
  without overlap: with a 10-bit node and a clock less than 2^42 ms past the epoch, all three
  can be read back from it, and the sequence number stays below 4096.
\<close>

theorem next_id_fields:
  assumes "snowflake_wf s" and "next_id s ts = Returned (i, s', ts')"
    and "unat (last_timestamp s' - EPOCH) < 2 ^ 42"
  shows "unat i div 4194304 = unat (last_timestamp s' - EPOCH) \<and>
    unat i div 4096 mod 1024 = unat (node_id s) \<and> unat i mod 4096 = unat (sequence s') \<and>
    snowflake_wf s'"
proof -
  have wf: "snowflake_wf s'" using assms(1,2) by (rule next_id_wf)
  have i: "i = make_id (last_timestamp s') (node_id s') (sequence s')" and n: "node_id s' = node_id s"
    using next_id_make_id [OF assms(2)] by simp_all
  have v: "unat i = (unat (last_timestamp s' - EPOCH) * 1024 + unat (node_id s')) * 4096 + unat (sequence s')"
    unfolding i by (rule make_id_value) (use assms(3) wf in \<open>simp_all add: snowflake_wf_def\<close>)
  have "unat (node_id s') < 1024" "unat (sequence s') < 4096"
    using wf by (simp_all add: snowflake_wf_def word_less_nat_alt)
  with v have "unat i div 4194304 = unat (last_timestamp s' - EPOCH) \<and>
    unat i div 4096 mod 1024 = unat (node_id s') \<and> unat i mod 4096 = unat (sequence s')"
    using id_fields [of "unat (node_id s')" "unat (sequence s')"]
      \<open>unat (node_id s') < 1024\<close> \<open>unat (sequence s') < 4096\<close> by simp
  with wf n show ?thesis by simp
qed

definition sample_snowflake :: snowflake where
  "sample_snowflake = \<lparr>node_id = 1, sequence = 4, last_timestamp = EPOCH + 10\<rparr>"

lemma sample_next_id:
  "next_id sample_snowflake [EPOCH + 10] =
     Returned (make_id (EPOCH + 10) 1 5, sample_snowflake\<lparr>sequence := 5\<rparr>, [])"
  by (simp add: sample_snowflake_def SEQUENCE_MASK_eq mask_eq_exp_minus_1)

theorem next_id_fields_witness:
  "unat (make_id (EPOCH + 10) 1 5) div 4194304 = 10 \<and>
   unat (make_id (EPOCH + 10) 1 5) div 4096 mod 1024 = 1 \<and> unat (make_id (EPOCH + 10) 1 5) mod 4096 = 5"
  using next_id_fields [OF _ sample_next_id]
  by (simp add: snowflake_wf_def sample_snowflake_def)



text \<open>
  A clock reading below the last one is never answered with an id: the generator panics.
\<close>

theorem next_id_backwards:
  assumes "t < last_timestamp s"
  shows "next_id s (t # ts) = Panicked"
  using assms by simp

theorem next_id_backwards_witness: "next_id sample_snowflake [EPOCH] = Panicked"
  by (rule next_id_backwards) (simp add: sample_snowflake_def EPOCH_def)

section \<open>When the sequence wraps\<close>

lemma next_ids_add:
  "next_ids m s ts = Returned (is, s', ts') \<Longrightarrow> next_ids n s' ts' = Returned (js, s'', ts'') \<Longrightarrow>
   next_ids (m + n) s ts = Returned (is @ js, s'', ts'')"
  by (induction m arbitrary: s ts "is")
     (auto split: outcome.splits prod.splits)

lemma masked_of_nat:
  assumes "k < 4096" shows "(of_nat k :: u64) AND SEQUENCE_MASK = of_nat k"
proof -
  have u: "unat (of_nat k :: u64) = k" using assms by (simp add: unat_of_nat take_bit_nat_eq_self)
  have "unat ((of_nat k :: u64) AND SEQUENCE_MASK) = unat (of_nat k :: u64)"
    using assms by (simp only: masked_unat u) simp
  then show ?thesis by (simp only: unsigned_word_eqI)
qed

lemma next_ids_same_millisecond:
  assumes "n + k < 4096" and "last_timestamp s = T" and "sequence s = of_nat k"
  shows "next_ids n s (replicate n T @ ts) =
    Returned (map (\<lambda>j. make_id T (node_id s) (of_nat (Suc (k + j)))) [0..<n],
              s\<lparr>sequence := of_nat (k + n)\<rparr>, ts)"
  using assms
proof (induction n arbitrary: s k)
  case 0
  then show ?case by (cases s) simp
next
  case (Suc n)
  have k: "Suc k < 4096" using Suc.prems(1) by simp
  have seq: "(sequence s + 1) AND SEQUENCE_MASK = of_nat (Suc k)"
    using masked_of_nat [OF k] Suc.prems(3) by (simp add: add.commute)
  have u: "unat (of_nat (Suc k) :: u64) = Suc k"
    using k by (simp add: unat_of_nat take_bit_nat_eq_self del: of_nat_Suc)
  then have nz: "(of_nat (Suc k) :: u64) \<noteq> 0" by (metis nat.distinct(1) unat_0)
  let ?s = "s\<lparr>sequence := of_nat (Suc k)\<rparr>"
  have upd: "s\<lparr>sequence := x, last_timestamp := T\<rparr> = s\<lparr>sequence := x\<rparr>" for x
    using Suc.prems(2) by (cases s) simp
  have step: "next_id s (T # replicate n T @ ts) =
      Returned (make_id T (node_id s) (of_nat (Suc k)), ?s, replicate n T @ ts)"
    using nz upd Suc.prems(2) by (simp add: seq Let_def del: of_nat_Suc)
  have "next_ids n ?s (replicate n T @ ts) =
      Returned (map (\<lambda>j. make_id T (node_id ?s) (of_nat (Suc (Suc k + j)))) [0..<n],
                ?s\<lparr>sequence := of_nat (Suc k + n)\<rparr>, ts)"
    by (rule Suc.IH) (use Suc.prems in simp_all)
  with step show ?case by (simp add: map_upt_Suc del: of_nat_Suc upt_Suc next_id.simps)
qed

text \<open>
  The wait for the next millisecond does not carry its reading over: when a fresh generator
  is asked for 4097 ids while the clock shows the same millisecond, the last call waits until the
  clock moves on and then returns an id it has already given out, the first one.
\<close>

theorem next_id_duplicate:
  assumes "0 < T" and "T < T'"
  shows "\<exists>ids s' ts'. next_ids 4097 (snowflake_new n) (replicate 4097 T @ [T']) = Returned (ids, s', ts') \<and>
    length ids = 4097 \<and> ids ! 4096 = ids ! 0"
proof -
  let ?s0 = "snowflake_new n" and ?s1 = "(snowflake_new n)\<lparr>last_timestamp := T\<rparr>"
  let ?rest = "T # [T']"
  have T: "T \<noteq> 0" using assms(1) by auto
  have first: "next_ids 1 ?s0 (T # (replicate 4095 T @ ?rest)) =
      Returned ([make_id T n 0], ?s1, replicate 4095 T @ ?rest)"
    using T by (simp add: snowflake_new_def)
  let ?mid = "map (\<lambda>j. make_id T (node_id ?s1) (of_nat (Suc (0 + j)))) [0..<4095]"
  let ?s2 = "?s1\<lparr>sequence := of_nat (0 + 4095)\<rparr>"
  have mid: "next_ids 4095 ?s1 (replicate 4095 T @ ?rest) = Returned (?mid, ?s2, ?rest)"
    by (rule next_ids_same_millisecond) (simp_all add: snowflake_new_def)
  have wrap: "(4096 :: u64) AND SEQUENCE_MASK = 0"
    by (simp add: SEQUENCE_MASK_eq mask_eq_exp_minus_1)
  have last: "next_ids 1 ?s2 ?rest =
      Returned ([make_id T n 0], ?s2\<lparr>sequence := 0\<rparr>, [])"
    using assms(2) by (simp add: snowflake_new_def wrap Let_def)
  have all: "next_ids (1 + (4095 + 1)) ?s0 (T # (replicate 4095 T @ ?rest)) =
      Returned ([make_id T n 0] @ (?mid @ [make_id T n 0]), ?s2\<lparr>sequence := 0\<rparr>, [])"
    by (rule next_ids_add [OF first next_ids_add [OF mid last]])
  let ?ids = "[make_id T n 0] @ (?mid @ [make_id T n 0])"
  have shape: "T # (replicate 4095 T @ ?rest) = replicate 4097 T @ [T']"
  proof -
    have "replicate (Suc 4095 + 1) T = T # (replicate 4095 T @ [T])"
      by (simp only: replicate_add replicate_Suc append_Cons) simp
    then show ?thesis by simp
  qed
  have "length ?mid = 4095" by simp
  then have "?ids ! 4096 = ?ids ! 0" by (simp add: nth_append del: upt_Suc)
  moreover have "length ?ids = 4097" by simp
  moreover have "next_ids 4097 ?s0 (replicate 4097 T @ [T']) = Returned (?ids, ?s2\<lparr>sequence := 0\<rparr>, [])"
    using all unfolding shape by simp
  ultimately show ?thesis by blast
qed

theorem next_id_duplicate_witness:
  "\<exists>ids s' ts'. next_ids 4097 (snowflake_new 1) (replicate 4097 (EPOCH + 1) @ [EPOCH + 2]) = Returned (ids, s', ts') \<and>
    length ids = 4097 \<and> ids ! 4096 = ids ! 0"
  by (rule next_id_duplicate) (simp_all add: EPOCH_def)

end
