(* ===== verification/Application.thy ===== *)
theory Application
  imports Config Pg_Listener Api_Props Token_Props Snowflake
begin

text \<open>
  How the server comes up (\<open>src/application.rs\<close>, \<open>GoTrueAdmin\<close> of \<open>src/state.rs\<close>): the connections it opens in
  their order, the account of the administrator, the first state of the handlers, and what it listens with.

  Opening a connection, parsing an address and the certificate are libraries' and parameters: what they answer.
  An error is the text of the \<open>anyhow\<close> error; a start that panics is \<open>None\<close>.
\<close>

section \<open>The administrator\<close>

fun gotrue_error_fmt :: "(string option \<Rightarrow> string) \<Rightarrow> GoTrueError \<Rightarrow> string" where
  "gotrue_error_fmt dbg (GT_Connect s) = ''connect error:'' @ s"
| "gotrue_error_fmt dbg (GT_RequestTimeout s) = ''request timeout:'' @ s"
| "gotrue_error_fmt dbg (GT_InvalidRequest s) = ''invalid request:'' @ s"
| "gotrue_error_fmt dbg (GT_ClientError e) = gotrue_client_fmt dbg e"
| "gotrue_error_fmt dbg (GT_Internal e) = gotrue_serde_fmt dbg e"
| "gotrue_error_fmt dbg (GT_NotLoggedIn s) = s"
| "gotrue_error_fmt dbg (GT_Auth s) = s"
| "gotrue_error_fmt dbg (GT_Unhandled s) = s"

record GoTrueAdmin =
  ga_admin_email :: string
  ga_password :: string

definition GoTrueAdmin_new :: "string \<Rightarrow> string \<Rightarrow> GoTrueAdmin" where
  "GoTrueAdmin_new email password = \<lparr>ga_admin_email = email, ga_password = password\<rparr>"

definition admin_token ::
  "'j gotrue_client \<Rightarrow> (bytes \<Rightarrow> string + 'j GotrueTokenResponse) \<Rightarrow> GoTrueAdmin \<Rightarrow> AppError + string" where
  "admin_token G parse a =
     (case gotrue_token G parse (GrantPassword (ga_admin_email a) (ga_password a)) of
        Inl e \<Rightarrow> Err (app_error_from_gotrue (sw_dbg (gv_show G)) e)
      | Inr token \<Rightarrow> Ok (gt_access_token token))"

text \<open>The table \<open>auth.users\<close> of the authentication service, as far as the server writes it.\<close>

record AuthUser =
  at_id :: string
  at_role :: string
  at_confirmed :: bool

definition grant_admin :: "string \<Rightarrow> AuthUser list \<Rightarrow> AuthUser list" where
  "grant_admin user_id us = map (\<lambda>u. if at_id u = user_id then u\<lparr>at_role := ''supabase_admin'', at_confirmed := True\<rparr> else u) us"

definition setup_admin_account ::
  "'j gotrue_client \<Rightarrow> (bytes \<Rightarrow> string + 'j SignUpResponse) \<Rightarrow> (string \<Rightarrow> string + string) \<Rightarrow> sqlx_error option \<Rightarrow> GoTrueSetting \<Rightarrow>
     AuthUser list \<Rightarrow> (string + GoTrueAdmin) option \<times> AuthUser list" where
  "setup_admin_account G parse parse_uuid fault g us =
     (let gotrue_admin = GoTrueAdmin_new (admin_email g) (admin_password g)
      in case gotrue_sign_up G parse (admin_email g) (admin_password g) None of
           Inl (GT_Internal err) \<Rightarrow>
             (if ge_code err = 400 \<and> ge_msg err = ''User already registered'' then (Some (Ok gotrue_admin), us)
              else (Some (Err (gotrue_serde_fmt (sw_dbg (gv_show G)) err)), us))
         | Inl err \<Rightarrow> (Some (Err (gotrue_error_fmt (sw_dbg (gv_show G)) err)), us)
         | Inr resp \<Rightarrow>
             (let admin_user = (case resp of Authenticated r \<Rightarrow> gt_user r | NotAuthenticated user \<Rightarrow> user)
              in if us_role admin_user = ''supabase_admin'' then (Some (Ok gotrue_admin), us)
                 else
                   (case parse_uuid (us_id admin_user) of
                      Inl e \<Rightarrow> (Some (Err e), us)
                    | Inr user_id \<Rightarrow>
                        (case fault of
                           Some e \<Rightarrow> (Some (Err ''failed to update the admin user''), us)
                         | None \<Rightarrow>
                             (if length (filter (\<lambda>u. at_id u = user_id) us) = 1
                              then (Some (Ok gotrue_admin), grant_admin user_id us)
                              else (None, grant_admin user_id us))))))"

section \<open>Connections\<close>

datatype 'g Region = CustomRegion string string | NamedRegion 'g

datatype S3Error = S3Http nat string | S3Other string

record 'g Bucket =
  bk_name :: string
  bk_region :: "'g Region"
  bk_access_key :: string
  bk_secret_key :: string
  bk_path_style :: bool

record ('o, 'g, 'l, 'j) start_env =
  st_connect :: "u32 \<Rightarrow> 'o PgConnectOptions \<Rightarrow> string + unit"
  st_region :: "string \<Rightarrow> string + 'g"
  st_create_bucket :: "'g Bucket \<Rightarrow> S3Error + unit"
  st_new_bucket :: "'g Bucket \<Rightarrow> string + 'g Bucket"
  st_show_s3 :: "S3Error \<Rightarrow> string"
  st_gotrue :: "string \<Rightarrow> 'j gotrue_client"
  st_parse_sign_up :: "bytes \<Rightarrow> string + 'j SignUpResponse"
  st_parse_uuid :: "string \<Rightarrow> string + string"
  st_redis_open :: "string \<Rightarrow> string + unit"
  st_redis_manager :: "string \<Rightarrow> string + unit"
  st_listen :: "string \<Rightarrow> string + 'l"
  st_enforcer :: "string + unit"
  st_casbin :: casbin

definition get_connection_pool :: "('o, 'g, 'l, 'j) start_env \<Rightarrow> 'o DatabaseSetting \<Rightarrow> string + unit" where
  "get_connection_pool S d =
     (case st_connect S (max_connections d) (with_db d) of
        Inl e \<Rightarrow> Err (''Failed to connect to postgres database: '' @ e)
      | Inr pool \<Rightarrow> Ok pool)"

definition get_aws_s3_bucket :: "('o, 'g, 'l, 'j) start_env \<Rightarrow> S3Setting \<Rightarrow> string + 'g Bucket" where
  "get_aws_s3_bucket S s3 =
     try_bind
       (if use_minio s3 then Ok (CustomRegion (s3_region s3) (minio_url s3))
        else (case st_region S (s3_region s3) of Inl e \<Rightarrow> Err ''failed to parser s3 setting'' | Inr g \<Rightarrow> Ok (NamedRegion g))) (\<lambda>region.
     let bucket = \<lparr>bk_name = s3_bucket s3, bk_region = region, bk_access_key = access_key s3, bk_secret_key = secret_key s3,
                   bk_path_style = True\<rparr>
     in case st_create_bucket S bucket of
          Inl (S3Http code text) \<Rightarrow> if code = 409 then st_new_bucket S bucket else Err (st_show_s3 S (S3Http code text))
        | Inl e \<Rightarrow> Err (st_show_s3 S e)
        | Inr _ \<Rightarrow> st_new_bucket S bucket)"

text \<open>The answer of \<open>health\<close> is thrown away, so this never fails.\<close>

definition get_gotrue_client :: "('o, 'g, 'l, 'j) start_env \<Rightarrow> GoTrueSetting \<Rightarrow> string + 'j gotrue_client" where
  "get_gotrue_client S g =
     (let G = st_gotrue S (base_url g)
      in case gotrue_health G of _ \<Rightarrow> Ok G)"

definition get_redis_client :: "('o, 'g, 'l, 'j) start_env \<Rightarrow> string \<Rightarrow> string + unit" where
  "get_redis_client S uri =
     (case st_redis_open S uri of
        Inl e \<Rightarrow> Err ''failed to connect to redis''
      | Inr _ \<Rightarrow> (case st_redis_manager S uri of Inl e \<Rightarrow> Err ''failed to get the connection manager'' | Inr m \<Rightarrow> Ok m))"

section \<open>The first state\<close>

text \<open>\<open>AccessControl::new\<close>: the policies of both tables and the grouping rules.\<close>

definition AccessControl_new :: "('o, 'g, 'l, 'j) start_env \<Rightarrow> Db \<Rightarrow> 'j WsDb \<Rightarrow> string + AccessControl" where
  "AccessControl_new S db ws =
     (case st_enforcer S of
        Inl e \<Rightarrow> Err (''Failed to create access control enforcer: '' @ e)
      | Inr _ \<Rightarrow>
          Ok \<lparr>ac_enforcer = AFEnforcer_new
                (load_policy (st_casbin S) (map (\<lambda>(uid, role, wid). (uid, wid, role)) (select_workspace_member_perm_stream ws))
                  (select_collab_member_access_level db)),
              ac_changes = []\<rparr>)"

record ('g, 'l, 'j) AppState =
  as_app :: "'j App"
  as_bucket :: "'g Bucket"
  as_gotrue_client :: "'j gotrue_client"
  as_gotrue_admin :: GoTrueAdmin
  as_pg_listeners :: "'l \<times> 'l \<times> 'l"
  as_id_gen :: snowflake

text \<open>The app's error texts are passed on; \<open>us\<close> is the table of the authentication service.\<close>

definition init_state ::
  "('o, 'g, 'l, 'j) start_env \<Rightarrow> sqlx_error option \<Rightarrow> 'o Config \<Rightarrow> Db \<Rightarrow> 'j WsDb \<Rightarrow> redis \<Rightarrow> AuthUser list \<Rightarrow>
     (string + ('g, 'l, 'j) AppState) option \<times> AuthUser list" where
  "init_state S fault conf db ws mem us =
     (case get_connection_pool S (db_settings conf) of
        Inl e \<Rightarrow> (Some (Err e), us)
      | Inr _ \<Rightarrow>
          (case get_aws_s3_bucket S (cf_s3 conf) of
             Inl e \<Rightarrow> (Some (Err e), us)
           | Inr bucket \<Rightarrow>
               (case get_gotrue_client S (cf_gotrue conf) of
                  Inl e \<Rightarrow> (Some (Err e), us)
                | Inr gotrue_client \<Rightarrow>
                    (case setup_admin_account gotrue_client (st_parse_sign_up S) (st_parse_uuid S) fault (cf_gotrue conf) us of
                       (None, us1) \<Rightarrow> (None, us1)
                     | (Some (Inl e), us1) \<Rightarrow> (Some (Err e), us1)
                     | (Some (Inr gotrue_admin), us1) \<Rightarrow>
                         (Some
                           (try_bind (get_redis_client S (redis_uri conf)) (\<lambda>_.
                            try_bind (PgListeners_new (st_listen S)) (\<lambda>pg_listeners.
                            try_bind (AccessControl_new S db ws) (\<lambda>access_control.
                            Ok \<lparr>as_app =
                                  \<lparr>ap_storage =
                                     \<lparr>cs_cache = \<lparr>cc_db = db, cc_redis = mem, cc_hits = 0, cc_total_attempts = 0\<rparr>, cs_ac = access_control\<rparr>,
                                   ap_ws = ws, ap_users = UserCache_new ws, ap_snapshots = SnapshotControl_new db mem\<rparr>,
                                as_bucket = bucket, as_gotrue_client = gotrue_client, as_gotrue_admin = gotrue_admin,
                                as_pg_listeners = pg_listeners, as_id_gen = snowflake_new 1\<rparr>)))),
                          us1)))))"

section \<open>Listening\<close>

text \<open>
  \<open>get_certificate_and_server_key\<close> and the key of the sessions: \<open>generated\<close> is a random one, \<open>Key::from\<close> panics on
  fewer than 64 bytes, and so does a certificate that cannot be made.
\<close>

definition get_certificate_and_server_key :: "string + bytes \<times> bytes \<Rightarrow> 'o Config \<Rightarrow> (bytes \<times> bytes) option option" where
  "get_certificate_and_server_key cert conf =
     (if use_tls (application conf) then (case cert of Inl e \<Rightarrow> None | Inr pair \<Rightarrow> Some (Some pair)) else Some None)"

definition session_key :: "bytes \<Rightarrow> (bytes \<times> bytes) option \<Rightarrow> bytes option" where
  "session_key generated pair =
     (case pair of
        None \<Rightarrow> Some generated
      | Some (_, server_key) \<Rightarrow> if length server_key < 64 then None else Some server_key)"

datatype listening = Plain string bytes | Tls string bytes bytes

text \<open>
  \<open>Application::build\<close> with \<open>run\<close>: the address, the sessions' redis, the key, the listener.  The realtime server
  starts always.
\<close>

definition application_build ::
  "(string \<Rightarrow> string + unit) \<Rightarrow> (string \<Rightarrow> string + unit) \<Rightarrow> string + bytes \<times> bytes \<Rightarrow> bytes \<Rightarrow> 'o Config \<Rightarrow> (string + listening) option" where
  "application_build bind sessions cert generated conf =
     (let address = ap_host (application conf) @ '':'' @ nat_digits (unat (ap_port (application conf)))
      in case bind address of
           Inl e \<Rightarrow> Some (Err e)
         | Inr _ \<Rightarrow>
             (case sessions (redis_uri conf) of
                Inl e \<Rightarrow> Some (Err (''Failed to connect to Redis at '' @ ''Secret([REDACTED alloc::string::String])'' @ '': '' @ e))
              | Inr _ \<Rightarrow>
                  (case get_certificate_and_server_key cert conf of
                     None \<Rightarrow> None
                   | Some pair \<Rightarrow>
                       (case session_key generated pair of
                          None \<Rightarrow> None
                        | Some key \<Rightarrow>
                            (case pair of
                               None \<Rightarrow> Some (Ok (Plain address key))
                             | Some (certificate, _) \<Rightarrow> Some (Ok (Tls address key certificate)))))))"

section \<open>Properties\<close>

lemma load_policy_set:
  assumes "casbin_laws C"
  shows "set (load_policy C members collabs) =
    {role_policy uid w r |uid w r. (uid, w, r) \<in> set members} \<union> {level_policy uid c l |uid c l. (uid, c, l) \<in> set collabs}"
proof -
  have add: "set P \<inter> set ps = {} \<Longrightarrow> set (cb_add_policies C P ps) = set P \<union> set ps" for P ps
    using assms by (simp add: casbin_laws_def)
  have members: "set (load_workspace_policies members) = {role_policy uid w r |uid w r. (uid, w, r) \<in> set members}"
    by (force simp: load_workspace_policies_def role_policy_def)
  have collabs: "set (load_collab_policies collabs) = {level_policy uid c l |uid c l. (uid, c, l) \<in> set collabs}"
    by (force simp: load_collab_policies_def level_policy_def)
  have apart: "{role_policy uid w r |uid w r. (uid, w, r) \<in> set members} \<inter>
      {level_policy uid c l |uid c l. (uid, c, l) \<in> set collabs} = {}"
    by (auto simp: role_policy_def level_policy_def)
  have first: "set (cb_add_policies C [] (load_workspace_policies members)) = {role_policy uid w r |uid w r. (uid, w, r) \<in> set members}"
    using add [of "[]"] members by simp
  show ?thesis unfolding load_policy_def using add [unfolded collabs, of _ "load_collab_policies collabs"] first apart collabs
    by (simp add: add)
qed

text \<open>What \<open>init_state\<close> gives when it gives a state.\<close>

lemma init_state_ok:
  assumes "fst (init_state S fault conf db ws mem us) = Some (Ok st)"
  shows "AccessControl_new S db ws = Ok (ap_ac (as_app st))" and "ap_ws (as_app st) = ws" and "ap_db (as_app st) = db"
    and "ap_users (as_app st) = UserCache_new ws" and "ap_snapshots (as_app st) = SnapshotControl_new db mem"
  using assms
  by (auto simp: init_state_def ap_ac_def ap_db_def try_bind_Inr_iff split: sum.splits prod.splits option.splits)


text \<open>A start at which everything answers, and the account is there.\<close>

definition known_account :: "nat gotrue_client" where
  "known_account = rejecting_client\<lparr>gv_send := (\<lambda>_. Inr \<lparr>an_status = 400, an_headers = [], an_body = Inr []\<rparr>),
     gv_parse_serde := (\<lambda>_. Ok \<lparr>ge_code = 400, ge_msg = ''User already registered'', ge_error_id = None\<rparr>)\<rparr>"

definition sample_gotrue_setting :: GoTrueSetting where
  "sample_gotrue_setting = \<lparr>base_url = [], ext_url = [], gs_jwt_secret = [], admin_email = ''admin@example.com'', admin_password = ''password''\<rparr>"

definition sample_config :: "unit Config" where
  "sample_config =
     \<lparr>app_env = Local,
      db_settings = \<lparr>pg_conn_opts = \<lparr>pg_parsed = (), pg_ssl_mode = None, pg_database = None\<rparr>, require_ssl = False,
        max_connections = 40, database_name = ''postgres''\<rparr>,
      cf_gotrue = sample_gotrue_setting,
      application = \<lparr>ap_port = 8000, ap_host = ''0.0.0.0'', ap_server_key = [], use_tls = False\<rparr>,
      websocket = \<lparr>heartbeat_interval = 6, client_timeout = 60\<rparr>, redis_uri = [],
      cf_s3 = \<lparr>use_minio = True, minio_url = [], access_key = [], secret_key = [], s3_bucket = ''b'', s3_region = []\<rparr>,
      casbin = \<lparr>pool_size = 8\<rparr>, appflow_ai = \<lparr>ai_url = []\<rparr>\<rparr>"

definition sample_start :: "(unit, unit, unit, nat) start_env" where
  "sample_start =
     \<lparr>st_connect = (\<lambda>_ _. Ok ()), st_region = (\<lambda>_. Ok ()), st_create_bucket = (\<lambda>_. Err (S3Http 409 [])), st_new_bucket = Ok,
      st_show_s3 = (\<lambda>_. []), st_gotrue = (\<lambda>_. known_account), st_parse_sign_up = (\<lambda>_. Err []), st_parse_uuid = Ok,
      st_redis_open = (\<lambda>_. Ok ()), st_redis_manager = (\<lambda>_. Ok ()), st_listen = (\<lambda>_. Ok ()), st_enforcer = Ok (),
      st_casbin = casbin_std\<rparr>"

definition sample_tables :: "nat WsDb" where
  "sample_tables =
     \<lparr>wd_users = [], wd_workspaces = [],
      wd_members = [\<lparr>wk_uid = 7, wk_workspace_id = ''w'', wk_role_id = 2, wk_created_at = 0, wk_updated_at = 0\<rparr>],
      wd_invitations = [], wd_blobs = [], wd_roles = [], wd_role_permissions = []\<rparr>"

lemma known_account_answer:
  "gotrue_sign_up known_account parse email password None =
     Err (GT_Internal \<lparr>ge_code = 400, ge_msg = ''User already registered'', ge_error_id = None\<rparr>)"
  by (simp add: gotrue_sign_up_def exchange_def known_account_def rejecting_client_def to_gotrue_result_def is_success_def from_body_def)

lemma sample_start_ok:
  "\<exists>st. fst (init_state sample_start None sample_config (cc_db sample_cache) sample_tables [] []) = Some (Ok st)"
  by (simp add: init_state_def sample_start_def sample_config_def sample_gotrue_setting_def get_connection_pool_def
      get_aws_s3_bucket_def get_gotrue_client_def setup_admin_account_def known_account_answer get_redis_client_def
      PgListeners_new_def AccessControl_new_def)


text \<open>
  An interrupted start is never repaired.  When the role of the new administrator cannot be written the server does
  not come up; the next start is told that the account exists and comes up with it, although its role was never
  written.
\<close>

theorem interrupted_setup_never_repaired:
  assumes "gotrue_sign_up G parse (admin_email g) (admin_password g) None = Ok (NotAuthenticated user)"
    and "us_role user \<noteq> ''supabase_admin''" and "parse_uuid (us_id user) = Ok user_id"
    and "gotrue_sign_up G' parse (admin_email g) (admin_password g) None = Err (GT_Internal err)"
    and "ge_code err = 400" and "ge_msg err = ''User already registered''"
  shows "setup_admin_account G parse parse_uuid (Some e) g us = (Some (Err ''failed to update the admin user''), us) \<and>
    setup_admin_account G' parse parse_uuid None g us = (Some (Ok (GoTrueAdmin_new (admin_email g) (admin_password g))), us)"
  using assms by (simp add: setup_admin_account_def)

definition new_account :: "nat gotrue_client" where
  "new_account = rejecting_client\<lparr>gv_send := (\<lambda>_. Inr \<lparr>an_status = 200, an_headers = [], an_body = Inr []\<rparr>)\<rparr>"

theorem interrupted_setup_never_repaired_witness:
  "setup_admin_account new_account (\<lambda>_. Ok (NotAuthenticated sample_gotrue_user)) Ok (Some SqlxPoolTimedOut) sample_gotrue_setting [] =
     (Some (Err ''failed to update the admin user''), []) \<and>
   setup_admin_account known_account (\<lambda>_. Ok (NotAuthenticated sample_gotrue_user)) Ok None sample_gotrue_setting [] =
     (Some (Ok (GoTrueAdmin_new (admin_email sample_gotrue_setting) (admin_password sample_gotrue_setting))), [])"
  by (rule interrupted_setup_never_repaired [where user = sample_gotrue_user, OF _ _ _ known_account_answer])
    (simp_all add: gotrue_sign_up_def exchange_def new_account_def rejecting_client_def to_gotrue_result_def is_success_def
      from_body_def gotrue_anyhow_def sample_gotrue_user_def)

text \<open>An uninterrupted first start leaves the account confirmed and an administrator's, and every other as it was.\<close>

lemma setup_grants_admin:
  assumes "gotrue_sign_up G parse (admin_email g) (admin_password g) None = Ok (NotAuthenticated user)"
    and "us_role user \<noteq> ''supabase_admin''" and "parse_uuid (us_id user) = Ok user_id"
    and "setup_admin_account G parse parse_uuid None g us = (Some (Ok a), us')"
  shows "\<exists>xs u ys. us = xs @ u # ys \<and> at_id u = user_id \<and> us' = xs @ u\<lparr>at_role := ''supabase_admin'', at_confirmed := True\<rparr> # ys"
proof -
  have one: "length (filter (\<lambda>u. at_id u = user_id) us) = 1" and us': "us' = grant_admin user_id us"
    using assms by (auto simp: setup_admin_account_def split: if_splits)
  then obtain u where u: "filter (\<lambda>u. at_id u = user_id) us = [u]" by (auto simp: length_Suc_conv)
  then obtain xs ys where split: "us = xs @ u # ys" "at_id u = user_id" "\<forall>v\<in>set xs. at_id v \<noteq> user_id"
      "[] = filter (\<lambda>u. at_id u = user_id) ys"
    using filter_eq_ConsD [OF u] by blast
  have same: "grant_admin user_id zs = zs" if "\<forall>v\<in>set zs. at_id v \<noteq> user_id" for zs
    unfolding grant_admin_def using that by (intro map_idI) simp
  have parts: "grant_admin user_id (xs @ u # ys) =
      grant_admin user_id xs @ u\<lparr>at_role := ''supabase_admin'', at_confirmed := True\<rparr> # grant_admin user_id ys"
    using split(2) by (simp add: grant_admin_def)
  have "\<forall>v\<in>set ys. at_id v \<noteq> user_id" using split(4) [symmetric] by (simp add: filter_empty_conv)
  then have "us' = xs @ u\<lparr>at_role := ''supabase_admin'', at_confirmed := True\<rparr> # ys"
    unfolding us' split(1) parts same [OF split(3)] by (simp only: same)
  with split(1,2) show ?thesis by blast
qed

text \<open>
  C21: A server configured by the documented variables checks nothing.  The variables of \<open>dev.env\<close> and
  \<open>deploy.env\<close> begin with \<open>APPFLOWY_\<close>, the ones the code reads with \<open>APPFLOW_\<close>: with the former alone
  \<open>APPFLOWY_ACCESS_CONTROL=true\<close> has no effect, every request passes the middleware and every action is granted,
  and tokens are verified with the secret that is written in the source.
\<close>

theorem documented_server_checks_nothing:
  assumes "\<And>k v. V k = Some v \<Longrightarrow> \<not> starts_with ''APPFLOW_'' k"
    and "se_enabled (he_storage E) = env_enable (V ''APPFLOW_ACCESS_CONTROL'')" and "get_configuration pg V = Ok conf"
  shows "middleware_call E services fault user req c a = (Ok (), a) \<and>
    ac_enforce C (se_enabled (he_storage E)) w uid obj act a = (True, a) \<and> gs_jwt_secret (cf_gotrue conf) = ''hello456''"
proof (intro conjI)
  have foreign: "get_configuration pg V = get_configuration pg (\<lambda>_. None) \<and> \<not> env_enable (V ''APPFLOW_ACCESS_CONTROL'')"
    by (rule foreign_variables_ignored, rule assms(1))
  have off: "\<not> se_enabled (he_storage E)" unfolding assms(2) using foreign by blast
  then show "middleware_call E services fault user req c a = (Ok (), a)" by (simp add: middleware_call_def)
  show "ac_enforce C (se_enabled (he_storage E)) w uid obj act a = (True, a)" using off by (simp add: ac_enforce_def)
  have "get_configuration pg (\<lambda>_. None) = Ok conf" using foreign assms(3) by argo
  then show "gs_jwt_secret (cf_gotrue conf) = ''hello456''"
    by (auto simp: get_configuration_def get_env_var_def try_bind_Inr_iff)
qed

theorem documented_server_checks_nothing_witness:
  "let E = sample_env\<lparr>he_storage := (he_storage sample_env)\<lparr>se_enabled := env_enable (map_of dev_env ''APPFLOW_ACCESS_CONTROL'')\<rparr>\<rparr>
   in map_of dev_env ''APPFLOWY_ACCESS_CONTROL'' = Some ''true'' \<and>
      middleware_call E [ResWorkspace] None (Ok 8) (collab_request DELETE ''w'' ''c'' []) sample_cache (sample_ac []) = (Ok (), sample_ac [])"
proof -
  obtain conf where conf: "get_configuration Inr (map_of dev_env) = Ok conf"
    using foreign_variables_ignored [where V = "map_of dev_env" and pg = Inr, OF dev_env_foreign]
    by (auto simp: get_configuration_def get_env_var_def environment_from_str_def ascii_lower_def cfg_context_def parse_bool_def
      parse_uint_def default_numbers split: option.splits)
  show ?thesis unfolding Let_def
    by (rule conjI, simp add: dev_env_def, rule documented_server_checks_nothing [THEN conjunct1, OF _ _ conf],
      erule dev_env_foreign, simp)
qed

end
