(* ===== verification/Auth.thy ===== *)
theory Auth
  imports Routes
begin

text \<open>
  Who a request comes from (\<open>src/component/auth\<close>), how a websocket is opened (\<open>src/api/ws.rs\<close>), the checks of
  names, emails and passwords (\<open>src/domain\<close>), and the id of a request (\<open>src/middleware/request_id.rs\<close>).

  Decoding a token with the secret, parsing uuids and versions, hashing and Unicode are libraries' and parameters.
\<close>

section \<open>The token of a request\<close>

text \<open>An error \<open>actix\<close> answers with: its status and text.\<close>

record web_error =
  we_status :: nat
  we_text :: string

definition error_unauthorized :: "string \<Rightarrow> web_error" where
  "error_unauthorized msg = \<lparr>we_status = 401, we_text = msg\<rparr>"

record 'j auth_env =
  au_decode :: "string \<Rightarrow> string + 'j GoTrueJWTClaims"
  au_now :: int
  au_parse_uuid :: "string \<Rightarrow> string + string"
  au_show_claims :: "'j GoTrueJWTClaims \<Rightarrow> string"
  au_show_jwt :: "jwt_error \<Rightarrow> string"
  au_opaque :: string

record 'j Authorization =
  az_token :: string
  az_claims :: "'j GoTrueJWTClaims"

definition gotrue_jwt_claims_from_token :: "'j auth_env \<Rightarrow> string \<Rightarrow> web_error + 'j GoTrueJWTClaims" where
  "gotrue_jwt_claims_from_token A token =
     (case au_decode A token of
        Inl err \<Rightarrow> Err (error_unauthorized (''fail to decode token, error:'' @ err))
      | Inr claims \<Rightarrow>
          (case verify_claim (au_now A) claims of
             Inl err \<Rightarrow> Err (error_unauthorized
               (''fail to verify token, claims:'' @ au_show_claims A claims @ '', error:'' @ au_show_jwt A err))
           | Inr _ \<Rightarrow> Ok claims))"

definition authorization_from_token :: "'j auth_env \<Rightarrow> string \<Rightarrow> web_error + 'j Authorization" where
  "authorization_from_token A token =
     (case gotrue_jwt_claims_from_token A token of
        Inl e \<Rightarrow> Err e
      | Inr claims \<Rightarrow> Ok \<lparr>az_token = token, az_claims = claims\<rparr>)"

text \<open>The parts before and after the first occurrence of a text.\<close>

fun split_at_text :: "string \<Rightarrow> string \<Rightarrow> (string \<times> string) option" where
  "split_at_text pat [] = (if pat = [] then Some ([], []) else None)"
| "split_at_text pat (c # cs) =
     (if take (length pat) (c # cs) = pat then Some ([], drop (length pat) (c # cs))
      else (case split_at_text pat cs of None \<Rightarrow> None | Some (a, b) \<Rightarrow> Some (c # a, b)))"

definition get_auth_from_request :: "'j auth_env \<Rightarrow> headers \<Rightarrow> web_error + 'j Authorization" where
  "get_auth_from_request A hs =
     (case map_of hs ''Authorization'' of
        None \<Rightarrow> Err (error_unauthorized ''No Authorization header'')
      | Some HOpaque \<Rightarrow> Err (error_unauthorized (au_opaque A))
      | Some (HStr bearer_str) \<Rightarrow>
          (case split_at_text ''Bearer '' bearer_str of
             None \<Rightarrow> Err (error_unauthorized ''Invalid Authorization header, missing Bearer'')
           | Some (_, token) \<Rightarrow> authorization_from_token A token))"

definition authorization_uuid :: "'j auth_env \<Rightarrow> 'j Authorization \<Rightarrow> web_error + string" where
  "authorization_uuid A auth =
     (case jw_sub (az_claims auth) of
        None \<Rightarrow> Err (error_unauthorized ''Invalid Authorization header, missing sub(uuid)'')
      | Some sub \<Rightarrow>
          (case au_parse_uuid A sub of
             Inl e \<Rightarrow> Err (error_unauthorized (''Invalid Authorization header, invalid sub(uuid): '' @ e))
           | Inr uuid \<Rightarrow> Ok uuid))"

definition user_uuid_from_auth :: "'j auth_env \<Rightarrow> 'j Authorization \<Rightarrow> web_error + string" where
  "user_uuid_from_auth A auth = authorization_uuid A auth"

definition user_uuid_from_request :: "'j auth_env \<Rightarrow> headers \<Rightarrow> web_error + string" where
  "user_uuid_from_request A hs =
     (case get_auth_from_request A hs of Inl e \<Rightarrow> Err e | Inr auth \<Rightarrow> user_uuid_from_auth A auth)"

section \<open>Errors\<close>

datatype AuthError =
    InvalidCredentials string | UserNotExist string | UserAlreadyExist string | AuthInvalidPassword | AuthUnauthorized
  | AuthInternalError string | InvalidUuid string

fun auth_error_status :: "AuthError \<Rightarrow> nat" where
  "auth_error_status (InvalidCredentials _) = 401"
| "auth_error_status (UserNotExist _) = 401"
| "auth_error_status (UserAlreadyExist _) = 400"
| "auth_error_status AuthInvalidPassword = 401"
| "auth_error_status AuthUnauthorized = 401"
| "auth_error_status (AuthInternalError _) = 500"
| "auth_error_status (InvalidUuid _) = 401"

fun auth_error_fmt :: "AuthError \<Rightarrow> string" where
  "auth_error_fmt (InvalidCredentials _) = ''Credentials is invalid''"
| "auth_error_fmt (UserNotExist _) = ''User is not exist''"
| "auth_error_fmt (UserAlreadyExist email) = email @ '' is already used''"
| "auth_error_fmt AuthInvalidPassword = ''Invalid password''"
| "auth_error_fmt AuthUnauthorized = ''User is unauthorized''"
| "auth_error_fmt (AuthInternalError _) = ''User internal error''"
| "auth_error_fmt (InvalidUuid err) = ''Parser uuid failed: '' @ err"

definition auth_error_response :: "AuthError \<Rightarrow> web_error" where
  "auth_error_response e = \<lparr>we_status = auth_error_status e, we_text = auth_error_fmt e\<rparr>"

datatype InputParamsError = InvalidName string | InvalidEmail string | InvalidPassword string | PasswordNotMatch

fun input_error_fmt :: "InputParamsError \<Rightarrow> string" where
  "input_error_fmt (InvalidName _) = ''Invalid name''"
| "input_error_fmt (InvalidEmail _) = ''Invalid email format''"
| "input_error_fmt (InvalidPassword _) = ''Invalid password''"
| "input_error_fmt PasswordNotMatch = ''You entered two different new passwords''"

fun input_error_status :: "InputParamsError \<Rightarrow> nat" where
  "input_error_status (InvalidName _) = 400"
| "input_error_status (InvalidEmail _) = 400"
| "input_error_status (InvalidPassword _) = 400"
| "input_error_status PasswordNotMatch = 400"

section \<open>Passwords\<close>

text \<open>
  The hash that is checked when nobody has the email; \<open>stored\<close> is the outcome of the query, \<open>parse_hash\<close> reads a hash
  and \<open>verify\<close> is argon2's answer.
\<close>

definition dummy_hash :: string where
  "dummy_hash = ''$argon2id$v=19$m=15000,t=2,p=1$gZiV/M1gPc22ElAH/Jh1Hw$CWOrkoo7oJBQ/iyh7uJ0LO2aLEfrHwTWllSAxT0zRno''"

definition verify_password_hash ::
  "(string \<Rightarrow> string + 'h) \<Rightarrow> ('h \<Rightarrow> string \<Rightarrow> bool) \<Rightarrow> string \<Rightarrow> string \<Rightarrow> AuthError + unit" where
  "verify_password_hash parse_hash verify expected candidate =
     (case parse_hash expected of
        Inl e \<Rightarrow> Err (AuthInternalError ''Failed to parse hash in PHC string format.'')
      | Inr h \<Rightarrow> if verify h candidate then Ok () else Err AuthInvalidPassword)"

definition validate_credentials ::
  "(string \<Rightarrow> string + 'h) \<Rightarrow> ('h \<Rightarrow> string \<Rightarrow> bool) \<Rightarrow> (string \<Rightarrow> string + (int \<times> string) option) \<Rightarrow> string + unit \<Rightarrow> string \<Rightarrow> string \<Rightarrow>
     AuthError + int" where
  "validate_credentials parse_hash verify stored spawned email password =
     (case stored email of
        Inl e \<Rightarrow> Err (AuthInternalError ''Failed to performed a query to retrieve stored credentials.'')
      | Inr row \<Rightarrow>
          (let (uid, expected) = (case row of Some (i, h) \<Rightarrow> (Some i, h) | None \<Rightarrow> (None, dummy_hash))
           in case spawned of
                Inl e \<Rightarrow> Err (AuthInternalError ''Failed to spawn blocking task.'')
              | Inr _ \<Rightarrow>
                  (case verify_password_hash parse_hash verify expected password of
                     Inl e \<Rightarrow> Err e
                   | Inr _ \<Rightarrow> (case uid of Some i \<Rightarrow> Ok i | None \<Rightarrow> Err (InvalidCredentials ''Unknown email.'')))))"

section \<open>Names, emails and passwords\<close>

record text_env =
  tx_trim :: "string \<Rightarrow> string"
  tx_graphemes :: "string \<Rightarrow> nat"
  tx_email :: "string \<Rightarrow> bool"
  tx_password :: "string \<Rightarrow> string + bool"

definition forbidden_characters :: string where
  "forbidden_characters = [CHR ''/'', CHR ''('', CHR '')'', CHR 0x22, CHR ''<'', CHR ''>'', CHR 0x5C, CHR ''{'', CHR ''}'']"

definition parse_user_name :: "text_env \<Rightarrow> string \<Rightarrow> string + string" where
  "parse_user_name X s =
     (if tx_trim X s = [] then Err ''User name can not be empty or whitespace''
      else if 256 < tx_graphemes X s then Err ''User name is too long''
      else if list_ex (\<lambda>c. c \<in> set forbidden_characters) s then Err ''User name contains invalid characters''
      else Ok s)"

definition parse_user_email :: "text_env \<Rightarrow> string \<Rightarrow> string + string" where
  "parse_user_email X s =
     (if tx_trim X s = [] then Err ''Email can not be empty or whitespace''
      else if tx_email X s then Ok s else Err ''Invalid email'')"

definition validate_password :: "text_env \<Rightarrow> string \<Rightarrow> bool" where
  "validate_password X s = (case tx_password X s of Inr is_match \<Rightarrow> is_match | Inl e \<Rightarrow> False)"

definition parse_user_password :: "text_env \<Rightarrow> string \<Rightarrow> string + string" where
  "parse_user_password X s =
     (if tx_trim X s = [] then Err ''User password can not be empty or whitespace''
      else if 100 < tx_graphemes X s then Err ''Password is too long''
      else if list_ex (\<lambda>c. c \<in> set forbidden_characters) s then Err ''Password contains invalid characters''
      else if \<not> validate_password X s then Err ''Password format invalid''
      else Ok s)"

section \<open>Opening a websocket\<close>

definition CLIENT_VERSION :: string where "CLIENT_VERSION = ''client-version''"
definition DEVICE_ID :: string where "DEVICE_ID = ''device-id''"

definition extract_from_map :: "(string \<times> string) list \<Rightarrow> string \<Rightarrow> AppError + string" where
  "extract_from_map m key =
     (case map_of m key of
        None \<Rightarrow> Err (AE_InvalidRequest (''Parameter with given key:'' @ key @ '' not found''))
      | Some s \<Rightarrow> Ok s)"

definition extract_from_headers :: "headers \<Rightarrow> string \<Rightarrow> AppError + string" where
  "extract_from_headers hs key =
     (case map_of hs key of
        None \<Rightarrow> Err (AE_InvalidRequest (''Header with given key:'' @ key @ '' not found''))
      | Some HOpaque \<Rightarrow> Err (AE_InvalidRequest (''Invalid header value for given key:'' @ key))
      | Some (HStr s) \<Rightarrow> Ok s)"

definition connect_info_parse :: "(string \<Rightarrow> 'v option) \<Rightarrow> (string \<Rightarrow> AppError + string) \<Rightarrow> AppError + 'v ConnectInfo" where
  "connect_info_parse parse_version extract =
     try_bind (extract ''authorization'')
       (\<lambda>access_token. try_bind (extract CLIENT_VERSION)
         (\<lambda>client_version_str. try_bind
           (case parse_version client_version_str of
              None \<Rightarrow> Err (AE_InvalidRequest (''Invalid version:'' @ client_version_str))
            | Some v \<Rightarrow> Ok v)
           (\<lambda>client_version. try_bind (extract DEVICE_ID)
             (\<lambda>device_id. Ok \<lparr>ci_access_token = access_token, ci_client_version = client_version, ci_device_id = device_id\<rparr>))))"

text \<open>The headers the client sends; \<open>from_str\<close> tells which texts \<open>http\<close> takes for the value of a header.\<close>

definition header_map_from :: "(string \<Rightarrow> bool) \<Rightarrow> ('v \<Rightarrow> string) \<Rightarrow> 'v ConnectInfo \<Rightarrow> (string \<times> string) list" where
  "header_map_from from_str show_version info =
     [(''device-id'', if from_str (ci_device_id info) then ci_device_id info else []),
      (''client-version'',
         if from_str (show_version (ci_client_version info)) then show_version (ci_client_version info) else ''unknown_client''),
      (''authorization'', if from_str (ci_access_token info) then ci_access_token info else [])]"

text \<open>What answers a request for a websocket: a socket for a user's device, an error of \<open>actix\<close>, or \<open>user not found\<close>.\<close>

datatype 'v ws_answer =
    WsStarted int string 'v
  | WsHandshakeFailed web_error
  | WsUnauthorized web_error
  | WsUserNotFound
  | WsAppError AppResponseError
  | WsBadInfo AppError

definition start_connect ::
  "'j auth_env \<Rightarrow> ('t, 'j) app_env \<Rightarrow> faults \<Rightarrow> web_error + unit \<Rightarrow> 'v ConnectInfo \<Rightarrow> 'j App \<Rightarrow> 'v ws_answer \<times> 'j App" where
  "start_connect A E F handshake info s =
     (case authorization_from_token A (ci_access_token info) of
        Inl e \<Rightarrow> (WsUnauthorized e, s)
      | Inr auth \<Rightarrow>
          (case user_uuid_from_auth A auth of
             Inl e \<Rightarrow> (WsUnauthorized e, s)
           | Inr uuid \<Rightarrow>
               (case get_user_uid E F uuid s of
                  (Inl err, s1) \<Rightarrow> (if is_record_not_found err then WsUserNotFound else WsAppError (app_response_error_from err), s1)
                | (Inr uid, s1) \<Rightarrow>
                    (case handshake of
                       Inl e \<Rightarrow> (WsHandshakeFailed e, s1)
                     | Inr _ \<Rightarrow> (WsStarted uid (ci_device_id info) (ci_client_version info), s1)))))"

definition establish_ws_connection ::
  "'j auth_env \<Rightarrow> ('t, 'j) app_env \<Rightarrow> faults \<Rightarrow> web_error + unit \<Rightarrow> 'v \<Rightarrow> string \<Rightarrow> string \<Rightarrow> 'j App \<Rightarrow> 'v ws_answer \<times> 'j App" where
  "establish_ws_connection A E F handshake version_0_5_0 tok device_id s =
     start_connect A E F handshake \<lparr>ci_access_token = tok, ci_client_version = version_0_5_0, ci_device_id = device_id\<rparr> s"

definition establish_ws_connection_v1 ::
  "'j auth_env \<Rightarrow> ('t, 'j) app_env \<Rightarrow> faults \<Rightarrow> web_error + unit \<Rightarrow> (string \<Rightarrow> 'v option) \<Rightarrow> headers \<Rightarrow> (string \<times> string) list \<Rightarrow> 'j App \<Rightarrow>
     'v ws_answer \<times> 'j App" where
  "establish_ws_connection_v1 A E F handshake parse_version hs query s =
     (case (case connect_info_parse parse_version (extract_from_headers hs) of
              Inr info \<Rightarrow> Ok info
            | Inl _ \<Rightarrow> connect_info_parse parse_version (extract_from_map query)) of
        Inl e \<Rightarrow> (WsBadInfo e, s)
      | Inr info \<Rightarrow> start_connect A E F handshake info s)"

section \<open>The id of a request\<close>

definition X_REQUEST_ID :: string where "X_REQUEST_ID = ''x-request-id''"

definition get_request_id :: "headers \<Rightarrow> string option" where
  "get_request_id hs = (case map_of hs X_REQUEST_ID of Some (HStr s) \<Rightarrow> Some s | _ \<Rightarrow> None)"

definition skip_request_id :: "string \<Rightarrow> bool" where
  "skip_request_id path \<longleftrightarrow> starts_with ''/metrics'' path \<or> starts_with ''/ws'' path"

definition header_insert :: "string \<Rightarrow> header_value \<Rightarrow> headers \<Rightarrow> headers" where
  "header_insert k v hs = (k, v) # filter (\<lambda>(k', _). k' \<noteq> k) hs"

text \<open>\<open>fresh\<close> is the text of a new uuid; the service answers with headers or an error.\<close>

definition request_id_call ::
  "(string \<Rightarrow> bool) \<Rightarrow> string \<Rightarrow> string \<Rightarrow> headers \<Rightarrow> (headers \<Rightarrow> 'e + headers) \<Rightarrow> 'e + headers" where
  "request_id_call from_str fresh path hs service =
     (if skip_request_id path then service hs
      else
        (let (request_id, hs1) =
               (case get_request_id hs of
                  Some i \<Rightarrow> (i, hs)
                | None \<Rightarrow> (fresh, if from_str fresh then header_insert X_REQUEST_ID (HStr fresh) hs else hs))
         in case service hs1 of
              Inl e \<Rightarrow> Err e
            | Inr res \<Rightarrow> Ok (if from_str request_id then header_insert X_REQUEST_ID (HStr request_id) res else res)))"

definition client_info :: "headers \<Rightarrow> nat \<times> string option" where
  "client_info hs =
     ((case map_of hs ''content-length'' of Some (HStr s) \<Rightarrow> (case usize_from_str s of Some n \<Rightarrow> n | None \<Rightarrow> 0) | _ \<Rightarrow> 0),
      (case map_of hs ''client-version'' of Some (HStr s) \<Rightarrow> Some s | _ \<Rightarrow> None))"

section \<open>Properties\<close>

lemma split_at_prefix: "pat \<noteq> [] \<Longrightarrow> split_at_text pat (pat @ s) = Some ([], s)"
  by (cases pat) auto

text \<open>
  C25: A request is let in as exactly the user its token names: with the header a bearer token is sent in, the server
  takes the user for \<open>uuid\<close> if and only if that very token decodes, has an expiry that is not past, and its subject
  is the uuid.
\<close>

theorem bearer_identifies_user:
  "user_uuid_from_request A ((''Authorization'', HStr (''Bearer '' @ tok)) # hs) = Ok uuid \<longleftrightarrow>
     (\<exists>claims e sub. au_decode A tok = Inr claims \<and> jw_exp claims = Some e \<and> au_now A \<le> e
        \<and> jw_sub claims = Some sub \<and> au_parse_uuid A sub = Inr uuid)"
proof -
  have "split_at_text ''Bearer '' (''Bearer '' @ tok) = Some ([], tok)" by (rule split_at_prefix) simp
  then have "get_auth_from_request A ((''Authorization'', HStr (''Bearer '' @ tok)) # hs) = authorization_from_token A tok"
    by (simp add: get_auth_from_request_def del: append_Cons append_Nil)
  then show ?thesis
    by (auto simp: user_uuid_from_request_def authorization_from_token_def gotrue_jwt_claims_from_token_def verify_claim_def
        user_uuid_from_auth_def authorization_uuid_def split: sum.splits option.splits if_splits)
qed

text \<open>
  A client's connection info arrives as it was: from the headers the client sends, the server reads back the token,
  the version and the device, when each is a text a header can carry and versions are read as they are written.
\<close>

theorem connect_info_roundtrip:
  assumes "from_str (ci_access_token info)" and "from_str (ci_device_id info)"
    and "from_str (show_version (ci_client_version info))"
    and "parse_version (show_version (ci_client_version info)) = Some (ci_client_version info)"
  shows "connect_info_parse parse_version
      (extract_from_headers (map (\<lambda>(k, v). (k, HStr v)) (header_map_from from_str show_version info))) = Ok info"
  using assms by (simp add: connect_info_parse_def extract_from_headers_def header_map_from_def CLIENT_VERSION_def DEVICE_ID_def try_bind_def)

theorem connect_info_roundtrip_witness:
  "connect_info_parse (\<lambda>s. if s = ''0.5.0'' then Some (5::nat) else None)
     (extract_from_headers (map (\<lambda>(k, v). (k, HStr v)) (header_map_from (\<lambda>_. True) (\<lambda>_. ''0.5.0'')
        \<lparr>ci_access_token = ''t'', ci_client_version = 5::nat, ci_device_id = ''d''\<rparr>))) =
   Ok \<lparr>ci_access_token = ''t'', ci_client_version = 5, ci_device_id = ''d''\<rparr>"
  by (rule connect_info_roundtrip) simp_all

text \<open>
  A wrong password does not tell whether the email is known: an email nobody has is answered like one whose password
  is wrong, also after a hash was checked.
\<close>

theorem unknown_email_like_wrong_password:
  assumes "stored e1 = Inr None" and "stored e2 = Inr (Some (uid, hash))"
    and "parse_hash dummy_hash = Inr h1" and "parse_hash hash = Inr h2"
    and "\<not> verify h1 password" and "\<not> verify h2 password"
  shows "validate_credentials parse_hash verify stored spawned e1 password =
     validate_credentials parse_hash verify stored spawned e2 password"
  using assms by (simp add: validate_credentials_def verify_password_hash_def split: sum.splits)

theorem unknown_email_like_wrong_password_witness:
  "validate_credentials Inr (\<lambda>h p. h = p) (\<lambda>e. Inr (if e = ''known'' then Some (1, ''pw'') else None)) (Inr ()) ''nobody'' ''guess'' =
   validate_credentials Inr (\<lambda>h p. h = p) (\<lambda>e. Inr (if e = ''known'' then Some (1, ''pw'') else None)) (Inr ()) ''known'' ''guess''"
  by (rule unknown_email_like_wrong_password [where uid = 1 and hash = "''pw''" and ?h1.0 = dummy_hash and ?h2.0 = "''pw''"])
    (simp_all add: dummy_hash_def)

text \<open>Every answer carries the id of its request: the one it came with, or the new one its handlers saw.\<close>

lemma request_id_answered:
  assumes "\<not> skip_request_id path" and "from_str fresh"
    and "\<And>i. get_request_id hs = Some i \<Longrightarrow> from_str i"
    and "request_id_call from_str fresh path hs service = Ok res"
  shows "get_request_id res = Some (case get_request_id hs of Some i \<Rightarrow> i | None \<Rightarrow> fresh)"
  using assms by (auto simp: request_id_call_def get_request_id_def header_insert_def Let_def
      split: option.splits sum.splits header_value.splits)

end
