(* ===== verification/Browser.thy ===== *)
theory Browser
  imports Token_Props Auth
begin

text \<open>
  The browser build of the client: its websocket (\<open>lib/client-websocket/src/web.rs\<close>), its refresh of the token and
  the calls it does not support (\<open>lib/client-api/src/wasm\<close>).

  What the browser's socket answers to a call and the events it raises are arguments.  The build has one thread, so
  what a task does between two waits is one step.
\<close>

section \<open>The websocket\<close>

datatype ReadyState = RsConnecting | RsOpen | RsClosing | RsClosed

definition ready_state_from :: "u16 \<Rightarrow> unit + ReadyState" where
  "ready_state_from v =
     (if v = 3 then Ok RsClosed else if v = 2 then Ok RsClosing else if v = 1 then Ok RsOpen
      else if v = 0 then Ok RsConnecting else Err ())"

text \<open>The data of a message event: a buffer, a string (if it is Unicode), a blob or something else.\<close>

datatype js_payload = JsArrayBuffer bytes | JsString "string option" | JsBlob | JsOther

fun message_from_event :: "js_payload \<Rightarrow> WsLibError + WsMsg" where
  "message_from_event (JsArrayBuffer v) = Ok (MsgBinary v)"
| "message_from_event (JsString (Some s)) = Ok (MsgText s)"
| "message_from_event (JsString None) = Err WsUtf8"
| "message_from_event JsBlob = Err BlobFormatUnsupported"
| "message_from_event JsOther = Err UnknownFormat"

record web_stream =
  wb_ready_state :: u16
  wb_queue :: "(WsLibError + WsMsg) list"

text \<open>The callbacks, and what they leave in the queue; the state is the socket's when they run.\<close>

datatype web_event = OnMessage js_payload | OnError | OnClose u16 string | StateChanged u16

fun web_on_event :: "web_stream \<Rightarrow> web_event \<Rightarrow> web_stream" where
  "web_on_event w (OnMessage payload) = w\<lparr>wb_queue := wb_queue w @ [message_from_event payload]\<rparr>"
| "web_on_event w OnError = w\<lparr>wb_queue := wb_queue w @ [Err ConnectionClosed]\<rparr>"
| "web_on_event w (OnClose code reason) =
     w\<lparr>wb_queue := wb_queue w @ [Ok (MsgClose (Some \<lparr>cf_code = close_from_u16 code, cf_reason = reason\<rparr>))]\<rparr>"
| "web_on_event w (StateChanged st) = w\<lparr>wb_ready_state := st\<rparr>"

definition is_open :: "web_stream \<Rightarrow> bool" where
  "is_open w \<longleftrightarrow> ready_state_from (wb_ready_state w) = Ok RsOpen"

datatype 'a poll = PollPending | PollReady 'a

definition web_poll_next :: "web_stream \<Rightarrow> (WsLibError + WsMsg) option poll \<times> web_stream" where
  "web_poll_next w =
     (case wb_queue w of
        [] \<Rightarrow> (if is_open w then (PollPending, w) else (PollReady None, w))
      | x # rest \<Rightarrow> (PollReady (Some x), w\<lparr>wb_queue := rest\<rparr>))"

definition web_poll_ready :: "web_stream \<Rightarrow> WsLibError + unit" where
  "web_poll_ready w = (if is_open w then Ok () else Err ConnectionClosed)"

text \<open>The calls of the browser's socket that send; \<open>js\<close> tells which of them throw.\<close>

datatype js_call = SendWithStr string | SendWithU8Array bytes | JsClose | JsCloseWith u16 string

fun start_send_call :: "WsMsg \<Rightarrow> js_call" where
  "start_send_call (MsgText t) = SendWithStr t"
| "start_send_call (MsgBinary b) = SendWithU8Array b"
| "start_send_call (MsgClose None) = JsClose"
| "start_send_call (MsgClose (Some f)) = JsCloseWith (close_to_u16 (cf_code f)) (cf_reason f)"
| "start_send_call (MsgPing d) = SendWithU8Array d"
| "start_send_call (MsgPong d) = SendWithU8Array d"

fun start_send_error :: "WsMsg \<Rightarrow> WsLibError" where
  "start_send_error (MsgClose _) = AlreadyClosed"
| "start_send_error _ = WsUtf8"

definition web_start_send :: "(js_call \<Rightarrow> bool) \<Rightarrow> WsMsg \<Rightarrow> web_stream \<Rightarrow> (WsLibError + unit) \<times> js_call list" where
  "web_start_send throws item w =
     (if is_open w then
        (if throws (start_send_call item) then Err (start_send_error item) else Ok (), [start_send_call item])
      else (Err ConnectionClosed, []))"

definition web_poll_flush :: "WsLibError + unit" where "web_poll_flush = Ok ()"

definition web_poll_close :: "(js_call \<Rightarrow> bool) \<Rightarrow> (WsLibError + unit) \<times> js_call list" where
  "web_poll_close throws = (if throws JsClose then Err AlreadyClosed else Ok (), [JsClose])"

text \<open>
  Connecting: \<open>created\<close> tells whether the browser makes a socket for the address, \<open>opened\<close> whether it opens before it
  fails.  The headers become the query of the address; \<open>pe\<close> percent-encodes.
\<close>

fun join_with :: "string \<Rightarrow> string list \<Rightarrow> string" where
  "join_with sep [] = []"
| "join_with sep [x] = x"
| "join_with sep (x # y # r) = x @ sep @ join_with sep (y # r)"

definition header_map_to_query_string :: "(string \<Rightarrow> string) \<Rightarrow> headers \<Rightarrow> string" where
  "header_map_to_query_string pe hs =
     join_with ''&''
       (map (\<lambda>(k, v). pe k @ ''='' @ pe v)
         (List.map_filter (\<lambda>(k, v). case v of HStr s \<Rightarrow> Some (k, s) | HOpaque \<Rightarrow> None) hs))"

definition web_connect ::
  "(string \<Rightarrow> string) \<Rightarrow> (string \<Rightarrow> bool) \<Rightarrow> bool \<Rightarrow> string \<Rightarrow> headers \<Rightarrow> WsLibError + web_stream" where
  "web_connect pe created opened url hs =
     (if \<not> created (url @ ''?'' @ header_map_to_query_string pe hs) then Err (WsUrl UnsupportedUrlScheme)
      else if opened then Ok \<lparr>wb_ready_state = 1, wb_queue = []\<rparr> else Err ConnectionClosed)"

text \<open>\<open>retry_connect\<close> of the browser connects once.\<close>

definition wasm_retry_connect ::
  "(string \<Rightarrow> string) \<Rightarrow> (string \<Rightarrow> bool) \<Rightarrow> (nat \<Rightarrow> string) \<Rightarrow> bool \<Rightarrow> string \<Rightarrow> headers \<Rightarrow> WSError + web_stream" where
  "wasm_retry_connect pe created show_status opened url hs =
     (case web_connect pe created opened url hs of Inl e \<Rightarrow> Err (ws_error_from show_status e) | Inr w \<Rightarrow> Ok w)"

section \<open>What the build does not support\<close>

definition wasm_create_collab_list :: "AppResponseError + unit" where
  "wasm_create_collab_list = Err \<lparr>are_code = EC_Unhandled, are_message = ''not implemented''\<rparr>"

definition wasm_send_ws_msg :: "WSError + unit" where
  "wasm_send_ws_msg = Err (WSInternal ''not supported'')"

section \<open>Refreshing the token\<close>

text \<open>
  A call pushes its sender and, when nobody refreshes, takes all senders and refreshes for them; then it waits for what
  its own sender is sent.  The service is asked once, and its answer does not unset the token.
\<close>

datatype wasm_phase = WpRefreshing "nat list" | WpWaiting | WpDone "AppError + unit"

record 'j wasm_state =
  wa_token :: "'j ClientToken"
  wa_refreshing :: bool
  wa_txs :: "nat list"
  wa_received :: "nat \<Rightarrow> (AppError + unit) option"
  wa_calls :: "nat \<Rightarrow> wasm_phase option"

definition wasm_start :: "'j ClientToken \<Rightarrow> 'j wasm_state" where
  "wasm_start t = \<lparr>wa_token = t, wa_refreshing = False, wa_txs = [], wa_received = (\<lambda>_. None), wa_calls = (\<lambda>_. None)\<rparr>"

definition wasm_inner_refresh ::
  "(string option \<Rightarrow> string) \<Rightarrow> (string \<Rightarrow> GoTrueError + 'j GotrueTokenResponse) \<Rightarrow> 'j ClientToken \<Rightarrow> (AppError + unit) \<times> 'j ClientToken" where
  "wasm_inner_refresh dbg answer t =
     (case tk_token t of
        None \<Rightarrow> (Err (app_error_from_gotrue dbg (GT_NotLoggedIn ''fail to refresh user token'')), t)
      | Some r \<Rightarrow>
          (case answer (gt_refresh_token r) of
             Inl e \<Rightarrow> (Err (app_error_from_gotrue dbg e), t)
           | Inr new_token \<Rightarrow> (Ok (), token_set new_token t)))"

definition wasm_call :: "nat \<Rightarrow> 'j wasm_state \<Rightarrow> 'j wasm_state" where
  "wasm_call i s =
     (let txs = wa_txs s @ [i]
      in if wa_refreshing s then s\<lparr>wa_txs := txs, wa_calls := (wa_calls s)(i \<mapsto> WpWaiting)\<rparr>
         else s\<lparr>wa_refreshing := True, wa_txs := [], wa_calls := (wa_calls s)(i \<mapsto> WpRefreshing txs)\<rparr>)"

definition wasm_finish ::
  "(string option \<Rightarrow> string) \<Rightarrow> (string \<Rightarrow> GoTrueError + 'j GotrueTokenResponse) \<Rightarrow> nat \<Rightarrow> nat list \<Rightarrow> 'j wasm_state \<Rightarrow> 'j wasm_state" where
  "wasm_finish dbg answer i txs s =
     (case wasm_inner_refresh dbg answer (wa_token s) of
        (r, t) \<Rightarrow>
          s\<lparr>wa_token := t, wa_refreshing := False,
            wa_received := (\<lambda>j. if j \<in> set txs then Some r else wa_received s j),
            wa_calls := (wa_calls s)(i \<mapsto> WpWaiting)\<rparr>)"

inductive wasm_step :: "(string option \<Rightarrow> string) \<Rightarrow> 'j wasm_state \<Rightarrow> 'j wasm_state \<Rightarrow> bool"
  for dbg :: "string option \<Rightarrow> string" where
  WasmCall: "wa_calls s i = None \<Longrightarrow> wasm_step dbg s (wasm_call i s)"
| WasmFinish: "wa_calls s i = Some (WpRefreshing txs) \<Longrightarrow> wasm_step dbg s (wasm_finish dbg answer i txs s)"
| WasmReceive: "wa_calls s i = Some WpWaiting \<Longrightarrow> wa_received s i = Some r \<Longrightarrow>
    wasm_step dbg s (s\<lparr>wa_calls := (wa_calls s)(i \<mapsto> WpDone r)\<rparr>)"

inductive_cases wasm_stepE: "wasm_step dbg s s'"

inductive wasm_reachable :: "(string option \<Rightarrow> string) \<Rightarrow> 'j ClientToken \<Rightarrow> 'j wasm_state \<Rightarrow> bool"
  for dbg :: "string option \<Rightarrow> string" and t :: "'j ClientToken" where
  WasmStart: "wasm_reachable dbg t (wasm_start t)"
| WasmStep: "wasm_reachable dbg t s \<Longrightarrow> wasm_step dbg s s' \<Longrightarrow> wasm_reachable dbg t s'"

section \<open>Properties\<close>

text \<open>Every event but a change of state is one item, and items are handed out in the order of the events.\<close>

fun event_item :: "web_event \<Rightarrow> (WsLibError + WsMsg) list" where
  "event_item (OnMessage payload) = [message_from_event payload]"
| "event_item OnError = [Err ConnectionClosed]"
| "event_item (OnClose code reason) = [Ok (MsgClose (Some \<lparr>cf_code = close_from_u16 code, cf_reason = reason\<rparr>))]"
| "event_item (StateChanged st) = []"

lemma events_queued: "wb_queue (foldl web_on_event w evs) = wb_queue w @ concat (map event_item evs)"
proof (induction evs arbitrary: w)
  case (Cons e evs)
  show ?case using Cons.IH [of "web_on_event w e"] by (cases e) simp_all
qed simp

lemma poll_hands_out:
  "web_poll_next (foldl web_on_event w evs) =
     (case wb_queue w @ concat (map event_item evs) of
        [] \<Rightarrow> (if is_open (foldl web_on_event w evs) then PollPending else PollReady None, foldl web_on_event w evs)
      | x # rest \<Rightarrow> (PollReady (Some x), (foldl web_on_event w evs)\<lparr>wb_queue := rest\<rparr>))"
  by (simp add: web_poll_next_def events_queued split: list.splits)

text \<open>A ping goes out as data, which no receiver can tell from a binary message.\<close>

lemma ping_sent_as_data: "web_start_send throws (MsgPing d) w = web_start_send throws (MsgBinary d) w"
  by (simp add: web_start_send_def)

text \<open>
  What the client's encoder and the server's reader of queries promise: encoded texts have none of the two separators,
  a field is read as the pair it was made of, and fields are read one after the other.
\<close>

definition query_law :: "(string \<Rightarrow> string) \<Rightarrow> (string \<Rightarrow> (string \<times> string) list) \<Rightarrow> bool" where
  "query_law pe parse \<longleftrightarrow>
     (\<forall>s. CHR ''&'' \<notin> set (pe s) \<and> CHR ''='' \<notin> set (pe s)) \<and>
     (\<forall>k v. parse (pe k @ ''='' @ pe v) = [(k, v)]) \<and>
     (\<forall>f q. CHR ''&'' \<notin> set f \<longrightarrow> parse (f @ ''&'' @ q) = parse f @ parse q)"

lemma query_reads_back:
  assumes "query_law pe parse"
  shows "kvs \<noteq> [] \<Longrightarrow> parse (join_with ''&'' (map (\<lambda>(k, v). pe k @ ''='' @ pe v) kvs)) = kvs"
proof (induction "''&''" "map (\<lambda>(k, v). pe k @ ''='' @ pe v) kvs" arbitrary: kvs rule: join_with.induct)
  case 1
  then show ?case by simp
next
  case (2 f)
  then obtain k v where "kvs = [(k, v)]" by (cases kvs) auto
  then show ?case using assms by (simp add: query_law_def)
next
  case (3 f g fs)
  then obtain k v rest where kvs: "kvs = (k, v) # rest" and rest: "g # fs = map (\<lambda>(k, v). pe k @ ''='' @ pe v) rest"
    by (cases kvs) auto
  have ne: "rest \<noteq> []" using rest by auto
  have amp: "CHR ''&'' \<notin> set (pe k @ ''='' @ pe v)" using assms by (simp add: query_law_def)
  have split: "join_with ''&'' (map (\<lambda>(k, v). pe k @ ''='' @ pe v) kvs) =
      (pe k @ ''='' @ pe v) @ ''&'' @ join_with ''&'' (map (\<lambda>(k, v). pe k @ ''='' @ pe v) rest)"
    using ne by (cases rest) (simp_all add: kvs)
  have law: "parse (f' @ ''&'' @ q) = parse f' @ parse q" if "CHR ''&'' \<notin> set f'" for f' q
    using assms that unfolding query_law_def by blast
  have field: "parse (pe k @ ''='' @ pe v) = [(k, v)]" using assms unfolding query_law_def by blast
  have "parse (join_with ''&'' (map (\<lambda>(k, v). pe k @ ''='' @ pe v) kvs)) = [(k, v)] @ rest"
    unfolding split law [OF amp] field 3(1) [OF rest ne] by (rule refl)
  then show ?case by (simp add: kvs)
qed

lemma text_headers: "List.map_filter (\<lambda>(k, v). case v of HStr s \<Rightarrow> Some (k, s) | HOpaque \<Rightarrow> None) (map (\<lambda>(k, v). (k, HStr v)) hs) = hs"
  by (induction hs) (auto simp: List.map_filter_simps)

text \<open>
  C26: A browser, which cannot set headers, opens the websocket of the same user, device and version: the server reads
  the client's info back from the query that the client makes of the headers it would send.
\<close>

theorem browser_connects_alike:
  assumes "query_law pe parse" and "map_of hs ''authorization'' = None"
    and "from_str (ci_access_token info)" and "from_str (ci_device_id info)"
    and "from_str (show_version (ci_client_version info))"
    and "parse_version (show_version (ci_client_version info)) = Some (ci_client_version info)"
  shows "establish_ws_connection_v1 A E F handshake parse_version hs
      (parse (header_map_to_query_string pe (map (\<lambda>(k, v). (k, HStr v)) (header_map_from from_str show_version info)))) s =
    start_connect A E F handshake info s"
proof -
  have query: "parse (header_map_to_query_string pe (map (\<lambda>(k, v). (k, HStr v)) (header_map_from from_str show_version info))) =
      header_map_from from_str show_version info"
    unfolding header_map_to_query_string_def text_headers
    by (rule query_reads_back [OF assms(1)]) (simp add: header_map_from_def)
  have none: "connect_info_parse parse_version (extract_from_headers hs) =
      Err (AE_InvalidRequest (''Header with given key:'' @ ''authorization'' @ '' not found''))"
    using assms(2) by (simp add: connect_info_parse_def extract_from_headers_def try_bind_def)
  have "connect_info_parse parse_version (extract_from_map (header_map_from from_str show_version info)) = Ok info"
    using assms(3-6)
    by (simp add: connect_info_parse_def extract_from_map_def header_map_from_def CLIENT_VERSION_def DEVICE_ID_def try_bind_def)
  then show ?thesis by (simp add: establish_ws_connection_v1_def query none)
qed

text \<open>An encoder and a reader with these laws.\<close>

fun sample_pe :: "string \<Rightarrow> string" where
  "sample_pe [] = []"
| "sample_pe (c # cs) =
     (if c = CHR ''&'' then ''%a'' else if c = CHR ''='' then ''%e'' else if c = CHR ''%'' then ''%p'' else [c]) @ sample_pe cs"

fun sample_pd :: "string \<Rightarrow> string" where
  "sample_pd (p # q # cs) =
     (if p = CHR ''%'' then (if q = CHR ''a'' then CHR ''&'' else if q = CHR ''e'' then CHR ''='' else CHR ''%'') # sample_pd cs
      else p # sample_pd (q # cs))"
| "sample_pd cs = cs"

fun split_amp :: "string \<Rightarrow> string list" where
  "split_amp [] = [[]]"
| "split_amp (c # cs) =
     (if c = CHR ''&'' then [] # split_amp cs
      else (case split_amp cs of [] \<Rightarrow> [[c]] | f # fs \<Rightarrow> (c # f) # fs))"

definition sample_query :: "string \<Rightarrow> (string \<times> string) list" where
  "sample_query q =
     map (\<lambda>f. case split_once (CHR ''='') f of Some (a, b) \<Rightarrow> (sample_pd a, sample_pd b) | None \<Rightarrow> (sample_pd f, [])) (split_amp q)"

lemma sample_pe_plain: "c \<noteq> CHR ''%'' \<Longrightarrow> sample_pd (c # sample_pe cs) = c # sample_pd (sample_pe cs)"
  by (cases "sample_pe cs") simp_all

lemma sample_pd_pe [simp]: "sample_pd (sample_pe s) = s"
  by (induction s) (simp_all add: sample_pe_plain)

lemma sample_pe_chars: "CHR ''&'' \<notin> set (sample_pe s) \<and> CHR ''='' \<notin> set (sample_pe s)"
  by (induction s) auto

lemma split_amp_field: "CHR ''&'' \<notin> set f \<Longrightarrow> split_amp f = [f]"
  by (induction f) auto

lemma split_amp_cons: "CHR ''&'' \<notin> set f \<Longrightarrow> split_amp (f @ CHR ''&'' # q) = f # split_amp q"
  by (induction f) auto

lemma split_once_first: "c \<notin> set a \<Longrightarrow> split_once c (a @ c # b) = Some (a, b)"
  by (induction a) auto

lemma sample_query_law: "query_law sample_pe sample_query"
  using sample_pe_chars by (simp add: query_law_def sample_query_def split_amp_field split_amp_cons split_once_first)

theorem browser_connects_alike_witness:
  "\<forall>A E F handshake s. establish_ws_connection_v1 A E F handshake (\<lambda>s. if s = ''0.5.0'' then Some (5::nat) else None) []
     (sample_query (header_map_to_query_string sample_pe
        (map (\<lambda>(k, v). (k, HStr v)) (header_map_from (\<lambda>_. True) (\<lambda>_. ''0.5.0'')
          \<lparr>ci_access_token = ''t&='', ci_client_version = 5::nat, ci_device_id = ''d''\<rparr>)))) s =
   start_connect A E F handshake \<lparr>ci_access_token = ''t&='', ci_client_version = 5, ci_device_id = ''d''\<rparr> s"
  by (intro allI browser_connects_alike [OF sample_query_law]) simp_all

text \<open>One refresh at a time, unlike in the native build.\<close>

definition one_leader :: "'j wasm_state \<Rightarrow> bool" where
  "one_leader s \<longleftrightarrow>
     (\<forall>i xs. wa_calls s i = Some (WpRefreshing xs) \<longrightarrow> wa_refreshing s) \<and>
     (\<forall>i j xs ys. wa_calls s i = Some (WpRefreshing xs) \<longrightarrow> wa_calls s j = Some (WpRefreshing ys) \<longrightarrow> i = j)"

lemma one_leader_step: "wasm_step dbg s s' \<Longrightarrow> one_leader s \<Longrightarrow> one_leader s'"
  by (erule wasm_stepE) (auto simp: one_leader_def wasm_call_def wasm_finish_def Let_def split: prod.splits if_splits)

lemma one_leader_reachable: "wasm_reachable dbg t s \<Longrightarrow> one_leader s"
  by (induction rule: wasm_reachable.induct) (simp add: one_leader_def wasm_start_def, rule one_leader_step)

text \<open>
  In the browser a call that asks while another refreshes is left alone: from any token there is a reachable state
  in which it waits, the refresh is over and answered only the other, and the only steps that are left are new calls.
\<close>

theorem browser_waiter_hangs:
  "\<exists>s r. wasm_reachable dbg t s \<and> wa_calls s = [0 \<mapsto> WpDone r, 1 \<mapsto> WpWaiting] \<and> wa_received s 1 = None \<and> \<not> wa_refreshing s \<and>
     (\<forall>s'. wasm_step dbg s s' \<longrightarrow> (\<exists>i. wa_calls s i = None \<and> s' = wasm_call i s))"
proof -
  define answer :: "string \<Rightarrow> GoTrueError + 'a GotrueTokenResponse" where "answer = (\<lambda>_. Inl (GT_Connect []))"
  obtain r t1 where inner: "wasm_inner_refresh dbg answer t = (r, t1)" by fastforce
  define a where "a = wasm_call 1 (wasm_call 0 (wasm_start t))"
  define b where "b = wasm_finish dbg answer 0 [0] a"
  define c where "c = b\<lparr>wa_calls := (wa_calls b)(0 \<mapsto> WpDone r)\<rparr>"
  have a: "wa_calls a = [0 \<mapsto> WpRefreshing [0], 1 \<mapsto> WpWaiting]" "wa_token a = t" "wa_received a = (\<lambda>_. None)"
    by (auto simp: a_def wasm_call_def wasm_start_def)
  have b: "wa_calls b = [0 \<mapsto> WpWaiting, 1 \<mapsto> WpWaiting]" "wa_received b = [0 \<mapsto> r]" "\<not> wa_refreshing b"
    by (auto simp: b_def wasm_finish_def a inner fun_eq_iff)
  have c: "wa_calls c = [0 \<mapsto> WpDone r, 1 \<mapsto> WpWaiting]" "wa_received c = [0 \<mapsto> r]" "\<not> wa_refreshing c"
    by (auto simp: c_def b)
  have "wasm_reachable dbg t a" unfolding a_def
    by (intro WasmStep [OF _ WasmCall] WasmStart) (simp_all add: wasm_start_def wasm_call_def)
  then have "wasm_reachable dbg t b" unfolding b_def by (rule WasmStep [OF _ WasmFinish]) (simp add: a)
  then have "wasm_reachable dbg t c" unfolding c_def by (rule WasmStep [OF _ WasmReceive]) (simp_all add: b)
  moreover have "\<exists>i. wa_calls c i = None \<and> s' = wasm_call i c" if "wasm_step dbg c s'" for s'
    using that by (rule wasm_stepE) (auto simp: c split: if_splits)
  ultimately show ?thesis using c by (intro exI [of _ c] exI [of _ r]) simp
qed

end
