(* ===== verification/Flow_Ai.thy ===== *)
theory Flow_Ai
  imports Gotrue
begin

text \<open>
  The client of the service for summaries and translations (\<open>lib/flow-ai/src\<close>): two requests, and how their answers
  and errors are read.  Sending and the parsing of JSON are parameters.
\<close>

section \<open>Errors\<close>

datatype AIError = AI_Internal string | AI_RequestTimeout string | AI_PayloadTooLarge string | AI_InvalidRequest string

fun ai_error_fmt :: "AIError \<Rightarrow> string" where
  "ai_error_fmt (AI_Internal s) = s"
| "ai_error_fmt (AI_RequestTimeout s) = ''Request timeout:'' @ s"
| "ai_error_fmt (AI_PayloadTooLarge s) = ''Payload too large:'' @ s"
| "ai_error_fmt (AI_InvalidRequest s) = ''Invalid request:'' @ s"

definition ai_error_from_reqwest :: "reqwest_error \<Rightarrow> AIError" where
  "ai_error_from_reqwest e =
     (if re_is_timeout e then AI_RequestTimeout (re_text e)
      else if re_is_request e then
        (if re_status e = Some 413 then AI_PayloadTooLarge (re_text e) else AI_InvalidRequest (re_text e))
      else AI_Internal (re_text e))"

section \<open>The client\<close>

record SummarizeRow = sr_text :: string
record TranslateRow = tr_text :: string

record 'a AIResponse =
  ai_data :: "'a option"
  ai_message :: string

definition ai_from_response :: "show_env \<Rightarrow> (bytes \<Rightarrow> string + 'a AIResponse) \<Rightarrow> http_answer \<Rightarrow> string + 'a AIResponse" where
  "ai_from_response W parse resp =
     (if \<not> is_success (an_status resp) then
        (case an_body resp of
           Inl e \<Rightarrow> Err (re_text e)
         | Inr body \<Rightarrow> Err (''got error code: '' @ sw_status W (an_status resp) @ '', body: '' @ sw_lossy W body))
      else (case an_body resp of Inl e \<Rightarrow> Err (re_text e) | Inr bytes \<Rightarrow> parse bytes))"

definition ai_into_data :: "'a AIResponse \<Rightarrow> AIError + 'a" where
  "ai_into_data r = (case ai_data r of None \<Rightarrow> Err (AI_InvalidRequest ''Empty payload'') | Some d \<Rightarrow> Ok d)"

record 'v ai_client =
  aic_url :: string
  aic_show :: show_env
  aic_send :: "'v http_call \<Rightarrow> reqwest_error + http_answer"

definition FlowAIClient_new :: "show_env \<Rightarrow> ('v http_call \<Rightarrow> reqwest_error + http_answer) \<Rightarrow> string \<Rightarrow> 'v ai_client" where
  "FlowAIClient_new W send url = \<lparr>aic_url = url, aic_show = W, aic_send = send\<rparr>"

definition ai_row :: "string \<Rightarrow> 'v ai_client \<Rightarrow> (bytes \<Rightarrow> string + 'a AIResponse) \<Rightarrow> 'v \<Rightarrow> AIError + 'a" where
  "ai_row path C parse json =
     (case aic_send C (json_body json (call POST (aic_url C @ path))) of
        Inl e \<Rightarrow> Err (ai_error_from_reqwest e)
      | Inr resp \<Rightarrow>
          (case ai_from_response (aic_show C) parse resp of
             Inl e \<Rightarrow> Err (AI_Internal e)
           | Inr r \<Rightarrow> ai_into_data r))"

definition summarize_row :: "'v ai_client \<Rightarrow> (bytes \<Rightarrow> string + SummarizeRow AIResponse) \<Rightarrow> 'v \<Rightarrow> AIError + SummarizeRow" where
  "summarize_row C parse json = ai_row ''/summarize_row'' C parse json"

definition translate_row :: "'v ai_client \<Rightarrow> (bytes \<Rightarrow> string + TranslateRow AIResponse) \<Rightarrow> 'v \<Rightarrow> AIError + TranslateRow" where
  "translate_row C parse json = ai_row ''/translate_row'' C parse json"

section \<open>What an answer becomes\<close>

text \<open>A row comes back exactly when the service answers with success and a payload.\<close>

lemma ai_row_ok_iff:
  "ai_row path C parse json = Ok d \<longleftrightarrow>
     (\<exists>resp body r. aic_send C (json_body json (call POST (aic_url C @ path))) = Inr resp \<and> is_success (an_status resp)
        \<and> an_body resp = Inr body \<and> parse body = Ok r \<and> ai_data r = Some d)"
  by (auto simp: ai_row_def ai_from_response_def ai_into_data_def split: sum.splits option.splits if_splits)

text \<open>
  The status of an answer is never taken for the error it stands for: a payload the service calls too large is reported
  as an internal error, since only an error in sending is looked at for its status.
\<close>

lemma refused_payload_is_internal:
  assumes "aic_send C (json_body json (call POST (aic_url C @ path))) = Inr \<lparr>an_status = 413, an_headers = hs, an_body = b\<rparr>"
  shows "\<exists>text. ai_row path C parse json = Err (AI_Internal text)"
  using assms by (auto simp: ai_row_def ai_from_response_def is_success_def split: sum.splits)

end
