(* ===== verification/Metrics.thy ===== *)
theory Metrics
  imports Auth
begin

text \<open>
  The server's metrics (\<open>src/api/metrics.rs\<close>, the \<open>metrics.rs\<close> of \<open>src/biz\<close> and \<open>lib/realtime\<close>, \<open>AppMetrics\<close> of
  \<open>src/state.rs\<close>) and the middleware that records requests (\<open>src/middleware/metrics_mw.rs\<close>) below the one that checks
  access.

  A counter is a \<open>u64\<close>, a gauge an \<open>i64\<close> with the casts of the code; a family gives 0 for labels it has not seen.  The
  exemplars of a counter and the text format are the library's and left out.
\<close>

section \<open>Requests\<close>

type_synonym i64 = "64 word"

record RequestMetrics =
  requests_count :: "string \<Rightarrow> u64"
  requests_latency :: "string \<Rightarrow> u64"
  requests_result :: "string \<times> u16 \<Rightarrow> u64"

definition RequestMetrics_init :: RequestMetrics where
  "RequestMetrics_init = \<lparr>requests_count = (\<lambda>_. 0), requests_latency = (\<lambda>_. 0), requests_result = (\<lambda>_. 0)\<rparr>"

definition record_request :: "string \<Rightarrow> u64 \<Rightarrow> u16 \<Rightarrow> RequestMetrics \<Rightarrow> RequestMetrics" where
  "record_request path ms status_code m =
     m\<lparr>requests_count := (requests_count m)(path := requests_count m path + 1),
       requests_latency := (requests_latency m)(path := requests_latency m path + ms),
       requests_result := (requests_result m)((path, status_code) := requests_result m (path, status_code) + 1)\<rparr>"

section \<open>The other metrics\<close>

record AccessControlMetrics =
  load_all_policies :: i64
  total_read_enforce_count :: i64
  read_enforce_from_cache_count :: i64

definition AccessControlMetrics_init :: AccessControlMetrics where
  "AccessControlMetrics_init =
     \<lparr>load_all_policies = 0, total_read_enforce_count = 0, read_enforce_from_cache_count = 0\<rparr>"

definition record_load_all_policies_in_secs :: "u64 \<Rightarrow> AccessControlMetrics \<Rightarrow> AccessControlMetrics" where
  "record_load_all_policies_in_secs millis m = m\<lparr>load_all_policies := millis\<rparr>"

definition record_enforce_count :: "i64 \<Rightarrow> i64 \<Rightarrow> AccessControlMetrics \<Rightarrow> AccessControlMetrics" where
  "record_enforce_count total_count from_cache m =
     m\<lparr>total_read_enforce_count := total_count, read_enforce_from_cache_count := from_cache\<rparr>"

text \<open>The counters of the enforcer, and what one tick of \<open>tick_metric\<close> makes of them.\<close>

record MetricsCalState =
  total_read_enforce_result :: i64
  read_enforce_result_from_cache :: i64

definition MetricsCalState_new :: MetricsCalState where
  "MetricsCalState_new = \<lparr>total_read_enforce_result = 0, read_enforce_result_from_cache = 0\<rparr>"

definition tick_metric :: "MetricsCalState \<Rightarrow> AccessControlMetrics \<Rightarrow> AccessControlMetrics" where
  "tick_metric s m = record_enforce_count (total_read_enforce_result s) (read_enforce_result_from_cache s) m"

record 'f RealtimeMetrics =
  connected_users :: i64
  encode_collab_mem_hit_rate :: 'f
  opening_collab_count :: i64

definition RealtimeMetrics_init :: "'f \<Rightarrow> 'f RealtimeMetrics" where
  "RealtimeMetrics_init zero = \<lparr>connected_users = 0, encode_collab_mem_hit_rate = zero, opening_collab_count = 0\<rparr>"

text \<open>\<open>usize as i64\<close>.\<close>

definition record_connected_users :: "nat \<Rightarrow> 'f RealtimeMetrics \<Rightarrow> 'f RealtimeMetrics" where
  "record_connected_users num m = m\<lparr>connected_users := of_nat num\<rparr>"

definition record_encode_collab_mem_hit_rate :: "'f \<Rightarrow> 'f RealtimeMetrics \<Rightarrow> 'f RealtimeMetrics" where
  "record_encode_collab_mem_hit_rate rate m = m\<lparr>encode_collab_mem_hit_rate := rate\<rparr>"

definition record_opening_collab_count :: "nat \<Rightarrow> 'f RealtimeMetrics \<Rightarrow> 'f RealtimeMetrics" where
  "record_opening_collab_count num m = m\<lparr>opening_collab_count := of_nat num\<rparr>"

record CollabMetrics =
  success_write_snapshot_count :: i64
  total_write_snapshot_count :: i64

definition CollabMetrics_init :: CollabMetrics where
  "CollabMetrics_init = \<lparr>success_write_snapshot_count = 0, total_write_snapshot_count = 0\<rparr>"

definition record_write_snapshot :: "i64 \<Rightarrow> i64 \<Rightarrow> CollabMetrics \<Rightarrow> CollabMetrics" where
  "record_write_snapshot success_attempt total_attempt m =
     m\<lparr>success_write_snapshot_count := success_attempt, total_write_snapshot_count := total_attempt\<rparr>"

text \<open>The registry: the prefix, the name and the help of each metric, in their order.\<close>

type_synonym registry = "(string \<times> string \<times> string) list"

definition RequestMetrics_register :: "registry \<Rightarrow> RequestMetrics \<times> registry" where
  "RequestMetrics_register r =
     (RequestMetrics_init,
      r @ [(''appflow_cloud'', ''requests_count'', ''number of requests''),
           (''appflow_cloud'', ''requests_latency'', ''request response time''),
           (''appflow_cloud'', ''requests_result'', ''status code of response'')])"

definition RealtimeMetrics_register :: "'f \<Rightarrow> registry \<Rightarrow> 'f RealtimeMetrics \<times> registry" where
  "RealtimeMetrics_register zero r =
     (RealtimeMetrics_init zero,
      r @ [(''realtime'', ''connected_users'', ''number of connected users''),
           (''realtime'', ''mem_hit_rate'', ''memory hit rate''),
           (''realtime'', ''opening_collab_count'', ''number of opening collabs'')])"

definition AccessControlMetrics_register :: "registry \<Rightarrow> AccessControlMetrics \<times> registry" where
  "AccessControlMetrics_register r =
     (AccessControlMetrics_init,
      r @ [(''ac'', ''load_all_polices'', ''load all polices when server start duration in seconds''),
           (''ac'', ''total_read_enforce_count'', ''total read enforce count''),
           (''ac'', ''read_enforce_from_cache_count'', ''read enforce result from cache'')])"

definition CollabMetrics_register :: "registry \<Rightarrow> CollabMetrics \<times> registry" where
  "CollabMetrics_register r =
     (CollabMetrics_init,
      r @ [(''collab'', ''success_write_snapshot_count'', ''success write snapshot to db''),
           (''collab'', ''total_attempt_write_snapshot_count'', ''total attempt write snapshot to db'')])"

record 'f AppMetrics =
  am_registry :: registry
  am_request_metrics :: RequestMetrics
  am_realtime_metrics :: "'f RealtimeMetrics"
  am_access_control_metrics :: AccessControlMetrics
  am_collab_metrics :: CollabMetrics

definition AppMetrics_new :: "'f \<Rightarrow> 'f AppMetrics" where
  "AppMetrics_new zero =
     (let (request, r1) = RequestMetrics_register [];
          (realtime, r2) = RealtimeMetrics_register zero r1;
          (access, r3) = AccessControlMetrics_register r2;
          (collab, r4) = CollabMetrics_register r3
      in \<lparr>am_registry = r4, am_request_metrics = request, am_realtime_metrics = realtime, am_access_control_metrics = access,
          am_collab_metrics = collab\<rparr>)"

lemma metric_names_distinct: "distinct (map (\<lambda>(p, n, h). (p, n)) (am_registry (AppMetrics_new zero)))"
  by (simp add: AppMetrics_new_def RequestMetrics_register_def RealtimeMetrics_register_def AccessControlMetrics_register_def
      CollabMetrics_register_def)

text \<open>\<open>metrics_handler\<close>: the text of the registry, or an internal error.\<close>

definition metrics_handler :: "(registry \<Rightarrow> string + string) \<Rightarrow> registry \<Rightarrow> web_error + string" where
  "metrics_handler encode r =
     (case encode r of Inl e \<Rightarrow> Err \<lparr>we_status = 500, we_text = e\<rparr> | Inr body \<Rightarrow> Ok body)"

section \<open>Middlewares\<close>

text \<open>
  \<open>MetricsMiddleware\<close>: \<open>app_metrics\<close> is the app's data, if it has any, \<open>endpoint\<close> the pattern the request matches and
  \<open>millis\<close> what the service takes; an answer is its status.
\<close>

definition metrics_call ::
  "RequestMetrics option \<Rightarrow> string option \<Rightarrow> u64 \<Rightarrow> 'e + u16 \<Rightarrow> ('e + u16) \<times> RequestMetrics option" where
  "metrics_call app_metrics endpoint millis res =
     (case app_metrics of
        None \<Rightarrow> (res, None)
      | Some m \<Rightarrow>
          (case res of
             Inl e \<Rightarrow> (Err e, Some m)
           | Inr status \<Rightarrow> (Ok status, Some (case endpoint of Some p \<Rightarrow> record_request p millis status m | None \<Rightarrow> m))))"

text \<open>
  The controllers of the access control, a map of which only the keys matter: each resource has one kind of
  controller.
\<close>

definition with_acs :: "AccessResource \<Rightarrow> AccessResource list \<Rightarrow> AccessResource list" where
  "with_acs resource controllers = (if resource \<in> set controllers then controllers else controllers @ [resource])"

definition server_controllers :: "AccessResource list" where
  "server_controllers = with_acs ResCollab (with_acs ResWorkspace [])"

text \<open>
  A request below the id of the request, in the order \<open>run\<close> registers the middlewares, the last one first: access is
  checked, then the request is recorded.  \<open>res\<close> is what the handler answers.
\<close>

definition guarded_call ::
  "'t http_env \<Rightarrow> sqlx_error option \<Rightarrow> AppError + int \<Rightarrow> request \<Rightarrow> CollabCache \<Rightarrow> AccessControl \<Rightarrow> RequestMetrics option \<Rightarrow>
     string option \<Rightarrow> u64 \<Rightarrow> AppError + u16 \<Rightarrow> (AppError + u16) \<times> RequestMetrics option" where
  "guarded_call E fault user req c a metrics endpoint millis res =
     (case fst (middleware_call E server_controllers fault user req c a) of
        Inl err \<Rightarrow> (Err err, metrics)
      | Inr _ \<Rightarrow> metrics_call metrics endpoint millis res)"

section \<open>Properties\<close>

text \<open>What was recorded of the requests of a path.\<close>

definition count_of :: "string \<Rightarrow> (string \<times> u64 \<times> u16) list \<Rightarrow> nat" where
  "count_of path calls = length (filter (\<lambda>(p, _, _). p = path) calls)"

definition record_all :: "(string \<times> u64 \<times> u16) list \<Rightarrow> RequestMetrics \<Rightarrow> RequestMetrics" where
  "record_all calls m = fold (\<lambda>(p, ms, st). record_request p ms st) calls m"

lemma result_total_step:
  "(\<Sum>st\<in>UNIV. requests_result (record_request p ms s m) (q, st)) =
     (\<Sum>st\<in>UNIV. requests_result m (q, st)) + (if p = q then 1 else 0)"
proof (cases "p = q")
  case True
  have fin: "finite (UNIV :: u16 set)" by simp
  have "(\<Sum>st\<in>UNIV. requests_result (record_request p ms s m) (q, st)) =
      (\<Sum>st\<in>UNIV. requests_result m (q, st) + (if st = s then 1 else 0))"
    using True by (intro sum.cong refl) (simp add: record_request_def)
  also have "\<dots> = (\<Sum>st\<in>UNIV. requests_result m (q, st)) + (\<Sum>st\<in>UNIV. if st = s then 1 else 0)"
    by (rule sum.distrib)
  also have "(\<Sum>st\<in>UNIV. if st = s then 1 else 0) = (1 :: u64)" using fin by (simp add: sum.delta)
  finally show ?thesis using True by simp
qed (simp add: record_request_def)

text \<open>
  The metrics of requests agree: for each path the number of requests is the number of recorded ones, modulo the
  size of a counter, and the results by status add up to it.
\<close>

theorem request_metrics_agree:
  "requests_count (record_all calls RequestMetrics_init) path = of_nat (count_of path calls) \<and>
   (\<Sum>st\<in>UNIV. requests_result (record_all calls RequestMetrics_init) (path, st)) =
     requests_count (record_all calls RequestMetrics_init) path"
proof -
  have "requests_count (record_all calls m) path = requests_count m path + of_nat (count_of path calls) \<and>
     (\<Sum>st\<in>UNIV. requests_result (record_all calls m) (path, st)) =
       (\<Sum>st\<in>UNIV. requests_result m (path, st)) + of_nat (count_of path calls)" for m
  proof (induction calls arbitrary: m)
    case Nil
    then show ?case by (simp add: record_all_def count_of_def)
  next
    case (Cons call calls)
    obtain p ms s where call: "call = (p, ms, s)" by (cases call)
    have run: "record_all (call # calls) m = record_all calls (record_request p ms s m)" by (simp add: record_all_def call)
    have count: "requests_count (record_request p ms s m) path = requests_count m path + (if p = path then 1 else 0)"
      by (simp add: record_request_def)
    show ?case unfolding run using Cons.IH [of "record_request p ms s m"]
      by (simp add: count result_total_step count_of_def call)
  qed
  then show ?thesis by (simp add: RequestMetrics_init_def)
qed

text \<open>The server checks both resources.\<close>

lemma server_controllers_both: "server_controllers = [ResWorkspace, ResCollab]"
  by (simp add: server_controllers_def with_acs_def)

text \<open>A request the access control refuses leaves no trace in the metrics, one it lets in is counted once.\<close>

theorem refused_request_uncounted:
  "guarded_call E fault user req c a (Some m) (Some path) millis (Ok status) =
     (case fst (middleware_call E [ResWorkspace, ResCollab] fault user req c a) of
        Inl err \<Rightarrow> (Err err, Some m)
      | Inr _ \<Rightarrow> (Ok status, Some (record_request path millis status m)))"
  by (simp add: guarded_call_def metrics_call_def server_controllers_both split: sum.splits)

end
