(* ===== verification/Shared_Dto.thy ===== *)
theory Shared_Dto
  imports Metrics
begin

text \<open>
  The parameters the client builds (\<open>lib/shared-entity/src/dto\<close>), what the workspace handlers make of one, the hit
  rate of the document cache, the query of \<open>src/component/auth/user.rs\<close>, and the middleware that reads a request's
  body to its end (\<open>src/middleware/encrypt_mw.rs\<close>).
\<close>

section \<open>Builders\<close>

definition Changeset_new :: "string \<Rightarrow> WorkspaceMemberChangeset" where
  "Changeset_new email = \<lparr>wc_email = email, wc_role = None, wc_name = None\<rparr>"

definition changeset_with_role :: "AFRole \<Rightarrow> WorkspaceMemberChangeset \<Rightarrow> WorkspaceMemberChangeset" where
  "changeset_with_role r c = c\<lparr>wc_role := Some r\<rparr>"

definition changeset_with_name :: "string \<Rightarrow> WorkspaceMemberChangeset \<Rightarrow> WorkspaceMemberChangeset" where
  "changeset_with_name n c = c\<lparr>wc_name := Some n\<rparr>"

definition UpdateUserParams_new :: "'j UpdateUserParams" where
  "UpdateUserParams_new = \<lparr>uup_name = None, uup_password = None, uup_email = None, uup_metadata = None\<rparr>"

definition params_with_password :: "string \<Rightarrow> 'j UpdateUserParams \<Rightarrow> 'j UpdateUserParams" where
  "params_with_password p u = u\<lparr>uup_password := Some p\<rparr>"

definition params_with_name :: "string \<Rightarrow> 'j UpdateUserParams \<Rightarrow> 'j UpdateUserParams" where
  "params_with_name n u = u\<lparr>uup_name := Some n\<rparr>"

definition params_with_email :: "string \<Rightarrow> 'j UpdateUserParams \<Rightarrow> 'j UpdateUserParams" where
  "params_with_email e u = u\<lparr>uup_email := Some e\<rparr>"

definition params_with_metadata :: "'j \<Rightarrow> 'j UpdateUserParams \<Rightarrow> 'j UpdateUserParams" where
  "params_with_metadata m u = u\<lparr>uup_metadata := Some m\<rparr>"

type_synonym 'v UserMetaData = "(string \<times> 'v) list"

definition UserMetaData_new :: "'v UserMetaData" where "UserMetaData_new = []"

definition UserMetaData_insert :: "string \<Rightarrow> 'v \<Rightarrow> 'v UserMetaData \<Rightarrow> 'v UserMetaData" where
  "UserMetaData_insert key v m = map_insert m key v"

datatype WorkspaceMember = WorkspaceMember string

definition workspace_members_from :: "string list \<Rightarrow> WorkspaceMember list" where
  "workspace_members_from v = map WorkspaceMember v"

text \<open>A parameter that is set twice has the last value; parameters that differ are set in any order.\<close>

lemma params_order:
  "params_with_name n (params_with_email e u) = params_with_email e (params_with_name n u)"
  "params_with_name n (params_with_password p u) = params_with_password p (params_with_name n u)"
  "params_with_name n (params_with_name n' u) = params_with_name n u"
  by (simp_all add: params_with_name_def params_with_email_def params_with_password_def)

lemma metadata_lookup: "map_of (UserMetaData_insert k v m) = (map_of m)(k \<mapsto> v)"
  by (simp add: UserMetaData_insert_def map_insert_lookup)

section \<open>The hit rate\<close>

text \<open>\<open>f64\<close> is a parameter: conversion, division and zero.\<close>

definition get_hit_rate :: "(u64 \<Rightarrow> 'f) \<Rightarrow> ('f \<Rightarrow> 'f \<Rightarrow> 'f) \<Rightarrow> 'f \<Rightarrow> CollabCache \<Rightarrow> 'f" where
  "get_hit_rate to_f64 divide_f64 zero c =
     (let hits = to_f64 (cc_hits c); total_attempts = to_f64 (cc_total_attempts c)
      in if total_attempts = zero then zero else divide_f64 hits total_attempts)"

section \<open>A user's email\<close>

text \<open>\<open>fetch_one\<close> in a transaction; any error has the text of its context.\<close>

definition get_user_email :: "faults \<Rightarrow> int \<Rightarrow> 'j WsDb \<Rightarrow> string + string" where
  "get_user_email F uid d =
     (case F 0 of
        Some e \<Rightarrow> Err ''Failed to retrieve the user email`''
      | None \<Rightarrow>
          (case email_of_uid d uid of
             None \<Rightarrow> Err ''Failed to retrieve the user email`''
           | Some email \<Rightarrow> Ok email))"

section \<open>Bodies\<close>

text \<open>The body a service gets: one chunk with everything, or the first error of the payload.\<close>

fun collect_payload :: "bytes \<Rightarrow> ('e + bytes) list \<Rightarrow> 'e + bytes" where
  "collect_payload body [] = Ok body"
| "collect_payload body (Inl e # rest) = Err e"
| "collect_payload body (Inr chunk # rest) = collect_payload (body @ chunk) rest"

definition decrypt_payload_call :: "(('e + bytes) list \<Rightarrow> 'a) \<Rightarrow> ('e + bytes) list \<Rightarrow> 'a" where
  "decrypt_payload_call service payload = service [collect_payload [] payload]"

lemma collected: "collect_payload body (map Ok chunks) = Ok (body @ concat chunks)"
  by (induction chunks arbitrary: body) simp_all

text \<open>The middleware hands the body on unread: it decrypts nothing.\<close>

lemma payload_passed_on: "decrypt_payload_call service (map Ok chunks) = service [Ok (concat chunks)]"
  by (simp add: decrypt_payload_call_def collected)

end
