(* ===== verification/Aggregate.thy ===== *)
theory Aggregate
  imports Realtime_Message
begin

text \<open>
  The tasks that empty the client's queue of messages (\<open>set_sender\<close> of \<open>lib/client-api/src/ws/msg_queue.rs\<close>): each
  connection gives the queue a sender, whose task sends a batch every second until it is told to stop.

  A task that was told to stop may still take a batch when its interval is ready too; both are steps.  What a task
  sends goes to its own sender.
\<close>

section \<open>The queue with its senders\<close>

record ('o, 't) amq_senders =
  am_queue :: "('o, 't) AggregateMessageQueue"
  am_stop_tx :: "nat option"
  am_tasks :: "nat list"
  am_told :: "nat set"
  am_sent :: "(nat \<times> bytes) list"
  am_next :: nat

definition amq_start :: "nat \<Rightarrow> ('o, 't) amq_senders" where
  "amq_start n =
     \<lparr>am_queue = AggregateMessageQueue_new n, am_stop_tx = None, am_tasks = [], am_told = {}, am_sent = [], am_next = 0\<rparr>"

definition set_sender :: "('o, 't) amq_senders \<Rightarrow> ('o, 't) amq_senders" where
  "set_sender a =
     a\<lparr>am_told := (case am_stop_tx a of Some j \<Rightarrow> insert j (am_told a) | None \<Rightarrow> am_told a),
       am_stop_tx := Some (am_next a), am_tasks := am_next a # am_tasks a, am_next := am_next a + 1\<rparr>"

definition sender_tick :: "('o, 't) rt_codec \<Rightarrow> nat \<Rightarrow> ('o, 't) amq_senders \<Rightarrow> ('o, 't) amq_senders" where
  "sender_tick K i a =
     (case amq_tick K (am_queue a) of
        (None, q) \<Rightarrow> a\<lparr>am_queue := q\<rparr>
      | (Some d, q) \<Rightarrow> a\<lparr>am_queue := q, am_sent := am_sent a @ [(i, d)]\<rparr>)"

definition sender_stop :: "nat \<Rightarrow> ('o, 't) amq_senders \<Rightarrow> ('o, 't) amq_senders" where
  "sender_stop i a = a\<lparr>am_tasks := removeAll i (am_tasks a)\<rparr>"

inductive amq_step :: "('o, 't) rt_codec \<Rightarrow> ('o, 't) amq_senders \<Rightarrow> ('o, 't) amq_senders \<Rightarrow> bool" for K where
  StepPush: "amq_step K a (a\<lparr>am_queue := amq_push msgs (am_queue a)\<rparr>)"
| StepClear: "amq_step K a (a\<lparr>am_queue := amq_clear (am_queue a)\<rparr>)"
| StepSetSender: "amq_step K a (set_sender a)"
| StepSenderTick: "i \<in> set (am_tasks a) \<Longrightarrow> amq_step K a (sender_tick K i a)"
| StepSenderStop: "i \<in> set (am_tasks a) \<Longrightarrow> i \<in> am_told a \<Longrightarrow> amq_step K a (sender_stop i a)"

inductive amq_reachable :: "('o, 't) rt_codec \<Rightarrow> nat \<Rightarrow> ('o, 't) amq_senders \<Rightarrow> bool" for K n where
  AmqStart: "amq_reachable K n (amq_start n)"
| AmqStep: "amq_reachable K n a \<Longrightarrow> amq_step K a a' \<Longrightarrow> amq_reachable K n a'"

text \<open>The ticks of one task by itself: what each sends and the queue they leave.\<close>

primrec amq_ticks ::
  "('o, 't) rt_codec \<Rightarrow> nat \<Rightarrow> ('o, 't) AggregateMessageQueue \<Rightarrow> bytes option list \<times> ('o, 't) AggregateMessageQueue" where
  "amq_ticks K 0 q = ([], q)"
| "amq_ticks K (Suc n) q =
     (case amq_tick K q of (d, q1) \<Rightarrow> (case amq_ticks K n q1 of (ds, q2) \<Rightarrow> (d # ds, q2)))"

section \<open>Properties\<close>

definition senders_inv :: "('o, 't) amq_senders \<Rightarrow> bool" where
  "senders_inv a \<longleftrightarrow>
     distinct (am_tasks a) \<and> list_all (\<lambda>i. i < am_next a) (am_tasks a) \<and> (\<forall>i\<in>am_told a. i < am_next a) \<and>
     filter (\<lambda>i. i \<notin> am_told a) (am_tasks a) = (case am_stop_tx a of Some i \<Rightarrow> [i] | None \<Rightarrow> [])"

lemma senders_inv_start: "senders_inv (amq_start n)"
  by (simp add: senders_inv_def amq_start_def)

lemma senders_inv_tick: "senders_inv a \<Longrightarrow> senders_inv (sender_tick K i a)"
  by (simp add: senders_inv_def sender_tick_def split: prod.splits option.splits)

lemma senders_inv_set:
  assumes "senders_inv a"
  shows "senders_inv (set_sender a)"
proof -
  have old: "filter (\<lambda>i. i \<notin> am_told (set_sender a)) (am_tasks a) = []"
  proof (cases "am_stop_tx a")
    case None
    then show ?thesis using assms by (simp add: senders_inv_def set_sender_def)
  next
    case (Some j)
    have "filter (\<lambda>i. i \<noteq> j \<and> i \<notin> am_told a) (am_tasks a) = filter (\<lambda>i. i \<noteq> j) (filter (\<lambda>i. i \<notin> am_told a) (am_tasks a))"
      by (simp add: conj_commute)
    also have "\<dots> = []" using assms Some by (simp add: senders_inv_def)
    finally show ?thesis using Some by (simp add: set_sender_def)
  qed
  have bound: "\<forall>i\<in>am_told (set_sender a). i < am_next a"
  proof (cases "am_stop_tx a")
    case (Some j)
    then have "filter (\<lambda>i. i \<notin> am_told a) (am_tasks a) = [j]" using assms by (simp add: senders_inv_def)
    then have "j \<in> set (filter (\<lambda>i. i \<notin> am_told a) (am_tasks a))" by simp
    then show ?thesis using assms Some by (auto simp: senders_inv_def set_sender_def list_all_iff)
  qed (use assms in \<open>simp add: senders_inv_def set_sender_def\<close>)
  have fresh: "am_next a \<notin> am_told (set_sender a)" using bound by blast
  have tasks: "am_tasks (set_sender a) = am_next a # am_tasks a" "am_stop_tx (set_sender a) = Some (am_next a)"
    "am_next (set_sender a) = am_next a + 1"
    by (simp_all add: set_sender_def)
  show ?thesis unfolding senders_inv_def tasks
    using assms old bound fresh by (auto simp: senders_inv_def list_all_iff)
qed

lemma senders_inv_stop:
  assumes "senders_inv a" and "i \<in> am_told a"
  shows "senders_inv (sender_stop i a)"
proof -
  have "filter (\<lambda>k. k \<notin> am_told a) (removeAll i xs) = filter (\<lambda>k. k \<notin> am_told a) xs" for xs
    using assms(2) by (induction xs) auto
  then show ?thesis using assms(1) by (auto simp: senders_inv_def sender_stop_def list_all_iff distinct_removeAll)
qed

lemma senders_inv_step: "amq_step K a a' \<Longrightarrow> senders_inv a \<Longrightarrow> senders_inv a'"
  by (induction rule: amq_step.induct)
    (simp_all add: senders_inv_tick senders_inv_set senders_inv_stop, simp_all add: senders_inv_def)

text \<open>
  However often the client connects again, of the tasks that send the queue at most one was not told to stop, and it is
  the one of the last sender; once the others have stopped it is the only one.
\<close>

theorem one_sender_left:
  assumes "amq_reachable K n a"
  shows "filter (\<lambda>i. i \<notin> am_told a) (am_tasks a) = (case am_stop_tx a of Some i \<Rightarrow> [i] | None \<Rightarrow> [])"
proof -
  have "senders_inv a" using assms by (induction rule: amq_reachable.induct) (simp_all add: senders_inv_start senders_inv_step)
  then show ?thesis by (simp add: senders_inv_def)
qed

theorem one_sender_left_witness:
  "filter (\<lambda>i. i \<notin> am_told (set_sender (set_sender (amq_start 100)))) (am_tasks (set_sender (set_sender (amq_start 100)))) = [1]"
proof -
  have reach: "amq_reachable kick_codec 100 (set_sender (set_sender (amq_start 100)))"
    by (rule AmqStep, rule AmqStep, rule AmqStart, rule StepSetSender, rule StepSetSender)
  show ?thesis unfolding one_sender_left [OF reach] by (simp add: set_sender_def amq_start_def)
qed

text \<open>
  What a batch of queued messages looks like, what one tick takes, and what the server reads of what was sent.
\<close>

definition batch_of :: "('o, 't) ClientCollabMessage multiset \<Rightarrow> ('o, 't) MessageByObjectId \<Rightarrow> bool" where
  "batch_of Q m \<longleftrightarrow>
     distinct (map fst m) \<and> map_values m \<subseteq># Q \<and>
     list_all (\<lambda>(k, xs). xs \<noteq> [] \<and> list_all (\<lambda>x. client_object_id x = k) xs) m"

definition tick_data :: "('o, 't) rt_codec \<Rightarrow> ('o, 't) MessageByObjectId \<Rightarrow> bytes option" where
  "tick_data K m = (if m = [] then None else (case rt_encode K (RM_ClientCollabV2 m) of Inr d \<Rightarrow> Some d | Inl e \<Rightarrow> None))"

definition arrived :: "'o origin_ops \<Rightarrow> ('o, 't) rt_codec \<Rightarrow> bytes option \<Rightarrow> ('o, 't) ClientCollabMessage multiset" where
  "arrived D K d =
     (case d of
        None \<Rightarrow> {#}
      | Some data \<Rightarrow>
          (case try_bind (rt_decode K data) (try_into_message_by_object_id D) of Inr m \<Rightarrow> map_values m | Inl e \<Rightarrow> {#}))"

lemma amq_tick_takes:
  "\<exists>m. amq_tick K q = (tick_data K m, snd (amq_tick K q)) \<and> batch_of (mset (amq_queue q)) m \<and>
     mset (amq_queue q) = map_values m + mset (amq_queue (snd (amq_tick K q))) \<and>
     (amq_queue q \<noteq> [] \<longrightarrow> map_values m \<noteq> {#})"
proof -
  obtain m q' where n: "next_batch_message 10 (amq_maximum_payload_size q) (amq_queue q) = (m, q')" by fastforce
  from next_batch_message_spec [OF n] obtain b where b: "mset (amq_queue q) = mset b + mset q'" "map_values m = mset b"
    "(b = []) = (amq_queue q = [])" "distinct (map fst m)"
    "map_of m = (\<lambda>k. if filter (\<lambda>x. client_object_id x = k) b = [] then None
                    else Some (filter (\<lambda>x. client_object_id x = k) b))" by blast
  have entry: "xs \<noteq> [] \<and> list_all (\<lambda>x. client_object_id x = k) xs" if "(k, xs) \<in> set m" for k xs
    using map_of_is_SomeI [OF b(4) that] unfolding b(5) by (auto simp: list_all_iff split: if_splits)
  then have "batch_of (mset (amq_queue q)) m" unfolding batch_of_def using b(1,2,4) by (auto simp: list_all_iff)
  then show ?thesis using b(1-3) by (intro exI [of _ m]) (simp add: amq_tick_def tick_data_def n)
qed

lemma batch_of_mono: "batch_of Q m \<Longrightarrow> Q \<subseteq># Q' \<Longrightarrow> batch_of Q' m"
  unfolding batch_of_def using subset_mset.order_trans by blast

lemma tick_data_arrives:
  assumes "rt_codec_law K (RM_ClientCollabV2 m)" and "length (rt_ser K (RM_ClientCollabV2 m)) \<le> MAXIMUM_REALTIME_MESSAGE_SIZE"
  shows "arrived D K (tick_data K m) = map_values m"
proof -
  have enc: "rt_encode K (RM_ClientCollabV2 m) = Ok (rt_ser K (RM_ClientCollabV2 m))" using assms(2) by (simp add: rt_encode_def)
  have "rt_decode K (rt_ser K (RM_ClientCollabV2 m) @ []) = Ok (RM_ClientCollabV2 m)"
    using rt_codec_roundtrip [OF assms(1), of "[]"] enc by simp
  then show ?thesis by (simp add: arrived_def tick_data_def enc try_bind_def)
qed


definition one_batch_codec :: "(nat, nat) rt_codec" where
  "one_batch_codec =
     \<lparr>rt_ser = (\<lambda>m. if m = RM_ClientCollabV2 [] then [0] else [1]),
      rt_de = (\<lambda>d. if d \<noteq> [] \<and> hd d = 0 then Some (RM_ClientCollabV2 [], 1)
                   else Some (RM_ClientCollabV2 [(''a'', [sample_msg ''a'' 1])], 1))\<rparr>"

lemma batch_of_one:
  assumes "batch_of {#sample_msg ''a'' 1#} m"
  shows "m = [] \<or> m = [(''a'', [sample_msg ''a'' 1])]"
proof (cases m)
  case (Cons e r)
  obtain k xs where e: "e = (k, xs)" by fastforce
  have sub: "mset xs + map_values r \<subseteq># {#sample_msg ''a'' 1#}" and some: "xs \<noteq> []" and ids: "list_all (\<lambda>x. client_object_id x = k) xs"
    using assms unfolding Cons e by (simp_all add: batch_of_def)
  obtain x ys where x: "xs = x # ys" using some by (cases xs) auto
  have "size (mset xs + map_values r) \<le> 1" using size_mset_mono [OF sub] by simp
  then have none: "map_values r = {#}" and "ys = []" unfolding x by simp_all
  moreover have "x \<in># {#sample_msg ''a'' 1#}" by (rule mset_subset_eqD [OF sub]) (simp add: x)
  ultimately have xs: "xs = [sample_msg ''a'' 1]" using x by simp
  have "k = ''a''" using ids unfolding xs by (simp add: sample_msg_def UpdateSync_new_def)
  moreover have "r = []"
  proof (cases r)
    case (Cons f r')
    obtain k' ys where f: "f = (k', ys)" by fastforce
    show ?thesis using assms none unfolding \<open>m = e # r\<close> Cons f by (simp add: batch_of_def)
  qed
  ultimately show ?thesis using Cons e xs by simp
qed simp


end
