(* ===== verification/Spec2Isabelle.thy ===== *)
theory Spec2Isabelle
  imports Sink_Sync Handshake Rt_Access App_Error Snapshot_Props Plugin_Props Rt_Client Ws_Props Ws_Native Client_Server Collab_Stream Template
    Encrypt Application Browser Flow_Ai Shared_Dto Aggregate
begin

text \<open>
  A verification library for flow-cloud, the server and client of a collaborative editor: documents are edited
  over websockets by many clients, merged by a CRDT (\<open>yrs\<close>), cached in redis, kept in Postgres with snapshots, and
  reached over an HTTP API that casbin guards.

  \<^bold>\<open>The parts and their theories\<close> (the paths are under \<open>src/\<close>)

  \<^item> \<open>Prelude\<close>: the Rust types, \<open>Result\<close> as \<open>error + value\<close>, the \<open>Ord\<close> contract as the locale \<open>rust_ord\<close>, \<open>BinaryHeap\<close>
    over it, decimal printing, association lists for \<open>HashMap\<close>s.  \<open>Simulation\<close>: the locale of a forward simulation.
  \<^item> \<open>Y_Protocol\<close> (\<open>lib/realtime-protocol/src/message.rs\<close>), \<open>Sync_Protocol\<close> (\<open>protocol.rs\<close>): the sync messages, their
    bytes, their reader and the handlers of client and server; \<open>Handshake\<close> composes both ends.
  \<^item> \<open>Collab_Msg\<close>, \<open>Realtime_Message\<close> (\<open>lib/realtime-entity\<close>, \<open>lib/client-api/src/ws/msg_queue.rs\<close>): the messages
    around them, their order, merging and conversions, the envelope and the client's batches; \<open>Aggregate\<close>: the tasks that
    send these.
  \<^item> \<open>Sink\<close>, \<open>Sink_Sync\<close>, \<open>Sync_Control\<close> (\<open>lib/client-api/src/collab_sync\<close>): the client's queue of unacknowledged
    messages with its steps, and the control that starts syncs and finds gaps.
  \<^item> \<open>Ws_Message\<close>, \<open>Ws_Native\<close> (\<open>lib/client-websocket\<close>), \<open>Connect_State\<close>, \<open>Ws_Client\<close>, \<open>Ws_Props\<close> (\<open>lib/client-api/src/ws\<close>,
    \<open>native\<close>): messages and errors of a websocket, the native one, the client's tasks with its ping and reconnection.
    \<open>Browser\<close> (\<open>web.rs\<close>, \<open>lib/client-api/src/wasm\<close>): the same in the browser build.
  \<^item> \<open>Gotrue\<close> (\<open>lib/gotrue\<close>, \<open>lib/gotrue-entity\<close>), \<open>Client_Token\<close>, \<open>Token_Props\<close> (\<open>notify.rs\<close>, \<open>http_native.rs\<close>), \<open>Api_Client\<close>
    (\<open>lib/client-api/src/http.rs\<close>), \<open>Shared_Dto\<close>: the client of the authentication service, the token and its refresh by
    several tasks at once, and every request of the client.  \<open>Routes\<close> holds the server's routes, and \<open>Client_Server\<close>
    composes the client's requests with the server's readers.
  \<^item> \<open>Auth\<close> (\<open>src/component/auth\<close>, \<open>src/domain\<close>, \<open>src/api/ws.rs\<close>): the token of a request, passwords, opening a websocket.
  \<^item> \<open>Config\<close>, \<open>Pg_Listener\<close>, \<open>Metrics\<close>, \<open>Application\<close> (\<open>src/config\<close>, \<open>src/main.rs\<close>, \<open>src/biz/pg_listener.rs\<close>, the metrics
    and \<open>src/application.rs\<close>): the configuration, the tasks that follow the database's notifications, the metrics with
    their middleware, and how the server comes up.
  \<^item> \<open>Collab_Stream\<close> (\<open>lib/collab-stream\<close>), \<open>Template\<close> (\<open>lib/workspace-template\<close>), \<open>Encrypt\<close> (\<open>lib/encrypt\<close>), \<open>Flow_Ai\<close>
    (\<open>lib/flow-ai\<close>): redis streams, the documents of a new workspace, encryption, and the AI client.
  \<^item> \<open>Broadcast\<close>, \<open>Rt_Server\<close>, \<open>Rt_Server_Inv\<close>, \<open>Rt_Access\<close>, \<open>Rt_Client\<close>, \<open>Collab_Plugin\<close>, \<open>Plugin_Props\<close>
    (\<open>lib/realtime\<close>): the broadcast of a document, the groups of its subscribers, the server of all groups as
    a step relation, the access of a subscriber, the server's end of a socket, and the plugin that loads and flushes a document.
  \<^item> \<open>Dto\<close>, \<open>App_Error\<close> (\<open>lib/database-entity\<close>, \<open>lib/app-error\<close>, \<open>lib/shared-entity\<close>): parameters with their validators,
    roles and levels, errors and answers.  \<open>Snowflake\<close> (\<open>lib/snowflake\<close>): ids.
  \<^item> \<open>Access_Control\<close> (\<open>src/biz/casbin\<close>): policies, enforcer, caches.  \<open>Http_Access\<close>, \<open>Http_Props\<close> (\<open>src/middleware\<close>,
    \<open>src/biz/collab/access_control.rs\<close>, \<open>src/biz/workspace/access_control.rs\<close>): what a request may do.
  \<^item> \<open>Collab_Db\<close>, \<open>Collab_Storage\<close>, \<open>Storage_Refine\<close>, \<open>Storage_Props\<close> (\<open>lib/database/src/collab\<close>, \<open>src/biz/collab\<close>): the
    tables of documents, the cache over them and the access-controlled storage over both.
  \<^item> \<open>Snapshot\<close>, \<open>Snapshot_Props\<close> (\<open>src/biz/snapshot\<close>), \<open>File_Storage\<close>, \<open>File_Props\<close> (\<open>lib/database/src/file\<close>,
    \<open>src/api/file_storage.rs\<close>), \<open>Batch_Upload\<close>, \<open>Upload_Props\<close>: snapshots, files, the framed upload of many documents.
  \<^item> \<open>Workspace_Db\<close>, \<open>App_State\<close>, \<open>Workspace_Ops\<close>, \<open>Api_Workspace\<close>, \<open>Tx_Props\<close>, \<open>Api_Props\<close> (\<open>lib/database/src\<close>,
    \<open>src/biz\<close>, \<open>src/api\<close>): the tables of users and workspaces, the server's state, the operations and the handlers.

  \<^bold>\<open>How state and operations correspond\<close>

  A struct is a record and an enum a datatype with its constructors; a fallible operation gives \<open>Err\<close> or \<open>Ok\<close> beside
  the state it leaves, also when it fails.  Tables are lists of rows, transactions work on a copy that the commit
  makes visible, and what is outside of them (redis, policies, the object store) is not rolled back, as in the code.
  A handler, a task's loop body or a statement is one atomic step; interleavings are sequences of such steps
  (\<open>sink_step\<close>, \<open>server_step\<close>, \<open>ws_step\<close>, \<open>refresh_step\<close>, \<open>wasm_step\<close>, \<open>amq_step\<close>, \<open>run_ops\<close>).  Faults are arguments: whether a lock is taken, a send
  succeeds, a statement fails or the commit does.  Machine integers that can wrap are words.

  \<^bold>\<open>Parameters and their laws\<close>

  Code of other crates is a parameter with named laws of its documented behaviour: \<open>yrs_laws\<close> and \<open>collab_laws\<close> (the
  CRDT), \<open>codec_law\<close>, \<open>rt_codec_law\<close> (bincode), \<open>upload_law\<close> (brotli), \<open>casbin_laws\<close> (which says what a batch of policies
  does only when none of it is there, or all of it is), \<open>route_law\<close> (actix), \<open>trigger_law\<close> (the database's schema),
  \<open>crypto_law\<close> (the cipher), \<open>query_law\<close> (the query of an address), \<open>redis_lib_law\<close> (streams).  Each has an instance with which the laws are proved and the witnesses are evaluated
  (\<open>lib0\<close> is a complete decoder, \<open>op_lib\<close> a set of operations, \<open>casbin_std\<close> the evaluation of the model file).

  \<^bold>\<open>What the lemmas show\<close>

  Round trips of the wire formats, of uploads and of files; totality of the readers; the handshake of two ends
  converges; the client's queue keeps its invariant, drains, merges without loss where the code means to, and what it
  holds reaches the server;
  the server's groups and its table of editors stay consistent; every decision of the access control by role and level;
  the cached storage refines a plain map from ids to documents; a failed request changes no table; snapshots are
  bounded and their queue drains; every file of the table has its object; the client's requests, also from a browser,
  reach the handlers with what the client meant; a token's refresh answers everybody who waits; a server that has come
  up decides by its tables.  Where the code does not do what it means
  to, a theorem gives the counterexample (an \<open>error\<close> property) rather than a repaired model.

  \<^bold>\<open>Bounds and fuel\<close>

  Loops are structural or have a measure.  \<open>read_all\<close> runs its reader with fuel one more than the length of the
  input, enough because a step that succeeds consumes a byte (\<open>reader_total\<close>).  Loops that wait for the outside (the
  clock of the id generator, reconnection, retries) consume a list of what they see.

  \<^bold>\<open>Not modelled\<close>

  Telemetry, certificates and TLS, sockets, actix's workers and serde's formats: libraries' work without logic of this
  code.  Code nothing uses: the session token, the settings of cross-origin requests, the trait of the storage beside
  its one implementation, and \<open>recent.rs\<close>, which is not compiled.  Structs that are only passed on unread.  Channels
  are unbounded but where their bound decides something.  Timing appears as instants the code reads.
\<close>

end
